(* ===== verification/Js_Number.thy ===== *)
theory Js_Number
  imports Complex_Main "HOL-Library.Log_Nat"
begin

text \<open>
  JavaScript numbers. A \<open>number\<close> of the sources is an IEEE 754 binary64 value; this theory
  gives its value semantics over the rationals. A finite value is the rational it denotes
  (\<open>+0\<close> and \<open>-0\<close> are one value, the only deviation: nothing the modelled code does tells them
  apart except a division by a zero, which is taken as a division by \<open>+0\<close>); \<open>NaN\<close> and the two
  infinities are values of their own. Every arithmetic operation computes the exact rational
  result and rounds it to the nearest double, ties to even, with gradual underflow at
  \<open>2 ^ -1074\<close> and overflow to an infinity at \<open>2 ^ 1024\<close>.

  \<open>fl\<close> is that rounding with the exponent range unbounded above; the locale \<open>rounding\<close> states
  what the components rely on (monotone, odd, idempotent, exact on small integers) and derives
  the facts their proofs use; it is interpreted on \<open>fl\<close> below.
\<close>

named_theorems num_simps \<open>equations that evaluate operations on numbers\<close>

section \<open>Rounding to binary64\<close>

text \<open>The exponent of a positive rational: \<open>2 ^ ilog2 x \<le> x < 2 ^ (ilog2 x + 1)\<close>.\<close>

definition ilog2 :: "rat \<Rightarrow> int" where
  "ilog2 x = (if 1 \<le> x then int (floorlog 2 (nat \<lfloor>x\<rfloor>)) - 1
              else - int (floorlog 2 (nat (\<lceil>1 / x\<rceil> - 1))))"

text \<open>Rounding to the nearest integer, ties to the even one.\<close>

definition rne :: "rat \<Rightarrow> int" where
  "rne x = (if x - of_int \<lfloor>x\<rfloor> < 1 / 2 then \<lfloor>x\<rfloor>
            else if 1 / 2 < x - of_int \<lfloor>x\<rfloor> then \<lfloor>x\<rfloor> + 1
            else if even \<lfloor>x\<rfloor> then \<lfloor>x\<rfloor> else \<lfloor>x\<rfloor> + 1)"

text \<open>The spacing of the doubles around \<open>x\<close>: 53 significant bits, never below \<open>2 ^ -1074\<close>.\<close>

definition qexp :: "rat \<Rightarrow> int" where
  "qexp x = max (-1074) (ilog2 \<bar>x\<bar> - 52)"

definition fl :: "rat \<Rightarrow> rat" where
  "fl x = (if x = 0 then 0 else of_int (rne (x / 2 powi qexp x)) * 2 powi qexp x)"

subsection \<open>Rounding to an integer\<close>

lemma rne_of_int [simp]: "rne (of_int n) = n"
  by (simp add: rne_def)

lemma rne_bounds: "x - 1 / 2 \<le> of_int (rne x) \<and> of_int (rne x) \<le> x + 1 / 2"
  unfolding rne_def by (auto split: if_splits) linarith+

lemma rne_floor: "rne x = \<lfloor>x\<rfloor> \<or> rne x = \<lfloor>x\<rfloor> + 1"
  by (simp add: rne_def)

lemma rne_mono: assumes "x \<le> y" shows "rne x \<le> rne y"
proof (cases "\<lfloor>x\<rfloor> = \<lfloor>y\<rfloor>")
  case True
  then show ?thesis using assms unfolding rne_def by (auto split: if_splits)
next
  case False
  then have "\<lfloor>x\<rfloor> + 1 \<le> \<lfloor>y\<rfloor>" using assms floor_mono [OF assms] by linarith
  then show ?thesis using rne_floor [of x] rne_floor [of y] by linarith
qed

lemma rne_minus: "rne (- x) = - rne x"
proof (cases "x \<in> \<int>")
  case True
  then show ?thesis by (auto elim!: Ints_cases simp flip: of_int_minus)
next
  case False
  then have c: "\<lfloor>- x\<rfloor> = - \<lfloor>x\<rfloor> - 1"
    using ceiling_altdef [of x] by (auto simp: floor_minus split: if_splits)
      (metis Ints_of_int)
  show ?thesis unfolding rne_def c by (auto simp: field_simps)
qed

lemma rne_le_of_int: "x \<le> of_int n \<Longrightarrow> rne x \<le> n"
  using rne_mono [of x "of_int n"] by simp

lemma rne_ge_of_int: "of_int n \<le> x \<Longrightarrow> n \<le> rne x"
  using rne_mono [of "of_int n" x] by simp

subsection \<open>The binary exponent\<close>

lemma nat_ge1_bounds:
  assumes "1 \<le> x"
  shows "2 ^ (floorlog 2 (nat \<lfloor>x\<rfloor>) - 1) \<le> x \<and> x < (2::rat) ^ floorlog 2 (nat \<lfloor>x\<rfloor>)"
proof -
  let ?n = "nat \<lfloor>x\<rfloor>"
  have f1: "1 \<le> \<lfloor>x\<rfloor>" using assms by (simp add: le_floor_iff)
  then have n0: "0 < ?n" by simp
  have b: "2 ^ (floorlog 2 ?n - 1) \<le> ?n \<and> ?n < 2 ^ floorlog 2 ?n"
    using floorlog_bounds [of ?n 2] n0 by simp
  have ni: "int ?n = \<lfloor>x\<rfloor>" using f1 by simp
  have lo: "(2::int) ^ (floorlog 2 ?n - 1) \<le> \<lfloor>x\<rfloor>"
    using b ni by (metis of_nat_le_iff of_nat_numeral of_nat_power)
  have hi: "\<lfloor>x\<rfloor> < (2::int) ^ floorlog 2 ?n"
    using b ni by (metis of_nat_less_iff of_nat_numeral of_nat_power)
  have "(2::rat) ^ (floorlog 2 ?n - 1) \<le> x"
    using lo by (metis le_floor_iff of_int_numeral of_int_power)
  moreover have "x < (2::rat) ^ floorlog 2 ?n"
    using hi by (metis floor_less_iff of_int_numeral of_int_power)
  ultimately show ?thesis by simp
qed

lemma ilog2_bounds:
  assumes "0 < x"
  shows "2 powi ilog2 x \<le> x" and "x < 2 powi (ilog2 x + 1)"
proof -
  have "2 powi ilog2 x \<le> x \<and> x < 2 powi (ilog2 x + 1)"
  proof (cases "1 \<le> x")
    case True
    let ?k = "floorlog 2 (nat \<lfloor>x\<rfloor>)"
    have "1 \<le> \<lfloor>x\<rfloor>" using True by (simp add: le_floor_iff)
    then have k: "1 \<le> ?k" using floorlog_eq_zero_iff [of 2 "nat \<lfloor>x\<rfloor>"] by simp
    then have "ilog2 x = int (?k - 1)" and "ilog2 x + 1 = int ?k"
      using True by (simp_all add: ilog2_def)
    then show ?thesis using nat_ge1_bounds [OF True] by (simp only: power_int_of_nat)
  next
    case False
    let ?m = "\<lceil>1 / x\<rceil>"
    let ?k = "floorlog 2 (nat (?m - 1))"
    have gt1: "1 < 1 / x" using False assms by (simp add: field_simps)
    then have m2: "1 \<le> ?m - 1" by linarith
    have ix: "of_int (?m - 1) < 1 / x" "1 / x \<le> of_int ?m"
      using ceiling_correct [of "1 / x"] by simp_all
    have b: "2 ^ (?k - 1) \<le> (of_int (?m - 1) :: rat) \<and> of_int (?m - 1) < (2::rat) ^ ?k"
      using nat_ge1_bounds [of "of_int (?m - 1)"] m2 by simp
    have k: "1 \<le> ?k" using m2 floorlog_eq_zero_iff [of 2 "nat (?m - 1)"] by simp
    have "?m - 1 < 2 ^ ?k"
    proof -
      have "(of_int (?m - 1) :: rat) < of_int (2 ^ ?k)" using b by simp
      then show ?thesis by (simp only: of_int_less_iff)
    qed
    then have "?m \<le> 2 ^ ?k" by simp
    then have "(of_int ?m :: rat) \<le> of_int (2 ^ ?k)" by (simp only: of_int_le_iff)
    then have "(of_int ?m :: rat) \<le> 2 ^ ?k" by (simp only: of_int_power of_int_numeral)
    then have hi: "1 / x \<le> 2 ^ ?k" using ix(2) by (rule order_trans [rotated])
    have lo: "2 ^ (?k - 1) < 1 / x" using b ix(1) by linarith
    have e: "ilog2 x = - int ?k" using False by (simp add: ilog2_def)
    have e1: "- int ?k + 1 = - int (?k - 1)" using k by simp
    have l: "inverse (2 ^ ?k) \<le> x" using hi assms by (simp add: field_simps)
    have u: "x < inverse (2 ^ (?k - 1))" using lo assms by (simp add: field_simps)
    show ?thesis unfolding e e1 power_int_minus power_int_of_nat using l u by simp
  qed
  then show "2 powi ilog2 x \<le> x" "x < 2 powi (ilog2 x + 1)" by simp_all
qed

lemma powi2_less_iff: "(2::rat) powi a < 2 powi b \<longleftrightarrow> a < b"
  using power_int_strict_increasing [of a b "2::rat"] power_int_increasing [of b a "2::rat"]
  by (cases "a < b") auto

lemma ilog2_unique:
  assumes "2 powi e \<le> x" "x < 2 powi (e + 1)"
  shows "ilog2 x = e"
proof -
  have x0: "0 < x" using assms(1) zero_less_power_int [of "2::rat" e] by linarith
  note b = ilog2_bounds [OF x0]
  have "(2::rat) powi e < 2 powi (ilog2 x + 1)" using assms(1) b(2) by linarith
  then have 1: "e < ilog2 x + 1" by (simp add: powi2_less_iff)
  have "(2::rat) powi ilog2 x < 2 powi (e + 1)" using assms(2) b(1) by linarith
  then have 2: "ilog2 x < e + 1" by (simp add: powi2_less_iff)
  from 1 2 show ?thesis by simp
qed

lemma ilog2_mono:
  assumes "0 < x" "x \<le> y" shows "ilog2 x \<le> ilog2 y"
proof -
  have "(2::rat) powi ilog2 x < 2 powi (ilog2 y + 1)"
    using ilog2_bounds(1) [of x] ilog2_bounds(2) [of y] assms by linarith
  then show ?thesis by (simp add: powi2_less_iff)
qed

subsection \<open>The rounding function\<close>

lemma powi2_le_iff: "(2::rat) powi a \<le> 2 powi b \<longleftrightarrow> a \<le> b"
  using powi2_less_iff [of b a] by linarith

lemma powi2_pos [simp]: "0 < (2::rat) powi a"
  by (rule zero_less_power_int) simp

lemma powi2_quot: "(2::rat) powi a / 2 powi b = 2 powi (a - b)"
  by (simp add: power_int_diff)

lemma powi2_int: "0 \<le> k \<Longrightarrow> (2::rat) powi k = of_int (2 ^ nat k)"
  by (simp add: power_int_def)

lemma fl_zero [simp]: "fl 0 = 0"
  by (simp add: fl_def)

lemma fl_minus [simp]: "fl (- x) = - fl x"
  by (simp add: fl_def qexp_def rne_minus)

lemma fl_nonneg: "0 \<le> x \<Longrightarrow> 0 \<le> fl x"
  using rne_ge_of_int [of 0 "x / 2 powi qexp x"] by (simp add: fl_def)

text \<open>A power of two at or above the spacing bounds the rounding from either side.\<close>

lemma fl_le_pow2:
  assumes "0 < x" "x \<le> 2 powi e" "qexp x \<le> e" shows "fl x \<le> 2 powi e"
proof -
  have "x / 2 powi qexp x \<le> 2 powi e / 2 powi qexp x"
    using assms(2) by (simp add: divide_right_mono)
  also have "\<dots> = of_int (2 ^ nat (e - qexp x))"
    using assms(3) by (simp add: powi2_quot powi2_int)
  finally have "rne (x / 2 powi qexp x) \<le> 2 ^ nat (e - qexp x)" by (rule rne_le_of_int)
  then have "of_int (rne (x / 2 powi qexp x)) \<le> (of_int (2 ^ nat (e - qexp x)) :: rat)"
    by (simp only: of_int_le_iff)
  also have "\<dots> = 2 powi e / 2 powi qexp x"
    using assms(3) by (simp only: powi2_quot) (simp add: powi2_int)
  finally show ?thesis using assms(1) by (simp add: fl_def pos_le_divide_eq)
qed

lemma fl_ge_pow2:
  assumes "0 < x" "2 powi e \<le> x" "qexp x \<le> e" shows "2 powi e \<le> fl x"
proof -
  have "of_int (2 ^ nat (e - qexp x)) = 2 powi e / (2 powi qexp x :: rat)"
    using assms(3) by (simp only: powi2_quot) (simp add: powi2_int)
  also have "\<dots> \<le> x / 2 powi qexp x"
    using assms(2) by (simp add: divide_right_mono)
  finally have "2 ^ nat (e - qexp x) \<le> rne (x / 2 powi qexp x)" by (rule rne_ge_of_int)
  then have "(of_int (2 ^ nat (e - qexp x)) :: rat) \<le> of_int (rne (x / 2 powi qexp x))"
    by (simp only: of_int_le_iff)
  moreover have "of_int (2 ^ nat (e - qexp x)) = 2 powi e / (2 powi qexp x :: rat)"
    using assms(3) by (simp only: powi2_quot) (simp add: powi2_int)
  ultimately have "2 powi e / 2 powi qexp x \<le> (of_int (rne (x / 2 powi qexp x)) :: rat)"
    by (simp only:)
  then show ?thesis using assms(1) by (simp add: fl_def pos_divide_le_eq)
qed

lemma fl_mono_pos:
  assumes "0 < x" "x \<le> y" shows "fl x \<le> fl y"
proof (cases "qexp x = qexp y")
  case True
  have "x / 2 powi qexp y \<le> y / 2 powi qexp y"
    using assms(2) by (simp add: divide_right_mono)
  then have "rne (x / 2 powi qexp y) \<le> rne (y / 2 powi qexp y)" by (rule rne_mono)
  then show ?thesis using assms True by (simp add: fl_def)
next
  case False
  let ?e = "ilog2 y"
  have m: "ilog2 x \<le> ?e" using assms by (rule ilog2_mono)
  with False assms have q: "qexp x < qexp y" "qexp y = ?e - 52" "ilog2 x < ?e"
    by (auto simp: qexp_def)
  have "x < 2 powi (ilog2 x + 1)" using assms(1) by (rule ilog2_bounds)
  also have "\<dots> \<le> 2 powi ?e" using q(3) by (simp add: powi2_le_iff)
  finally have "fl x \<le> 2 powi ?e" using assms(1) q by (intro fl_le_pow2) auto
  also have "\<dots> \<le> fl y" using assms q ilog2_bounds(1) [of y] by (intro fl_ge_pow2) auto
  finally show ?thesis .
qed

lemma fl_mono: assumes "x \<le> y" shows "fl x \<le> fl y"
proof (cases "0 < x")
  case True then show ?thesis using assms by (rule fl_mono_pos)
next
  case x: False
  show ?thesis
  proof (cases "y < 0")
    case True
    then have "fl (- y) \<le> fl (- x)" using assms by (intro fl_mono_pos) auto
    then show ?thesis by simp
  next
    case False
    have "fl x \<le> 0" using x fl_nonneg [of "- x"] by simp
    moreover have "0 \<le> fl y" using False by (intro fl_nonneg) simp
    ultimately show ?thesis by simp
  qed
qed

lemma fl_grid: assumes "x / 2 powi qexp x = of_int n" shows "fl x = x"
proof (cases "x = 0")
  case False
  have "x = of_int n * 2 powi qexp x"
    using assms by (simp add: divide_eq_eq)
  then show ?thesis using False assms by (simp add: fl_def)
qed simp

text \<open>An integer of at most 53 bits times a power of two above the underflow limit is exact.\<close>

lemma fl_exact_pos:
  assumes "0 < k" "k \<le> 2 ^ 53" "-1074 \<le> m"
  shows "fl (of_int k * 2 powi m) = of_int k * 2 powi m"
proof -
  let ?x = "of_int k * 2 powi m :: rat"
  have x0: "0 < ?x" using assms(1) by simp
  have "\<exists>n. ?x / 2 powi qexp ?x = of_int n"
  proof (cases "qexp ?x \<le> m")
    case True
    then have "?x / 2 powi qexp ?x = of_int (k * 2 ^ nat (m - qexp ?x))"
      by (simp add: powi2_quot powi2_int flip: times_divide_eq_right)
    then show ?thesis by blast
  next
    case False
    then have q: "qexp ?x = ilog2 ?x - 52" using assms(3) x0 by (auto simp: qexp_def)
    have "2 powi ilog2 ?x \<le> ?x" using x0 by (rule ilog2_bounds)
    moreover have "?x \<le> 2 powi 53 * 2 powi m"
    proof -
      have "(of_int k :: rat) \<le> of_int (2 ^ 53)" using assms(2) by (simp only: of_int_le_iff)
      then show ?thesis by (intro mult_right_mono) simp_all
    qed
    ultimately have "2 powi ilog2 ?x \<le> 2 powi 53 * (2::rat) powi m" by (rule order_trans)
    also have "2 powi 53 * (2::rat) powi m = 2 powi (53 + m)"
      by (rule power_int_add [symmetric]) simp
    finally have "2 powi ilog2 ?x \<le> (2::rat) powi (53 + m)" .
    then have le: "ilog2 ?x \<le> 53 + m" by (simp only: powi2_le_iff)
    with False q have e: "ilog2 ?x = 53 + m" by simp
    have "2 powi (53 + m) \<le> ?x" using ilog2_bounds(1) [OF x0] e by simp
    then have "(2::rat) powi 53 \<le> of_int k" by (simp add: power_int_add)
    then have "(of_int (2 ^ 53) :: rat) \<le> of_int k" by simp
    then have "2 ^ 53 \<le> k" by (simp only: of_int_le_iff)
    with assms(2) have k: "k = 2 ^ 53" by simp
    have "?x = 2 powi (53 + m)" by (simp add: k power_int_add)
    then have "?x / 2 powi qexp ?x = 2 powi (53 + m - (m + 1))"
      using e q by (simp add: powi2_quot)
    then have "?x / 2 powi qexp ?x = of_int (2 ^ 52)" by simp
    then show ?thesis by blast
  qed
  then show ?thesis by (elim exE) (rule fl_grid)
qed

lemma fl_exact:
  assumes "\<bar>k\<bar> \<le> 2 ^ 53" "-1074 \<le> m"
  shows "fl (of_int k * 2 powi m) = of_int k * 2 powi m"
proof (cases k "0::int" rule: linorder_cases)
  case less
  then have "fl (of_int (- k) * 2 powi m) = of_int (- k) * 2 powi m"
    using assms by (intro fl_exact_pos) auto
  then show ?thesis by simp
next
  case greater
  then show ?thesis using assms by (intro fl_exact_pos) auto
qed simp

lemma fl_form:
  obtains k m where "fl x = of_int k * 2 powi m" "\<bar>k\<bar> \<le> 2 ^ 53" "-1074 \<le> m"
proof (cases "x = 0")
  case True
  then show ?thesis using that [of 0 0] by simp
next
  case False
  have q: "-1074 \<le> qexp x" "ilog2 \<bar>x\<bar> + 1 - qexp x \<le> 53" by (auto simp: qexp_def)
  have "\<bar>x\<bar> < 2 powi (ilog2 \<bar>x\<bar> + 1)" using False by (intro ilog2_bounds) simp
  then have "\<bar>x\<bar> / 2 powi qexp x < 2 powi (ilog2 \<bar>x\<bar> + 1) / 2 powi qexp x"
    by (intro divide_strict_right_mono) simp_all
  also have "\<dots> \<le> 2 powi 53" using q(2) by (simp only: powi2_quot powi2_le_iff)
  finally have b: "\<bar>x / 2 powi qexp x\<bar> < of_int (2 ^ 53)" by (simp add: abs_divide)
  then have "rne (x / 2 powi qexp x) \<le> 2 ^ 53" by (intro rne_le_of_int) linarith
  moreover have "- (2 ^ 53) \<le> rne (x / 2 powi qexp x)"
  proof (rule rne_ge_of_int)
    have "- (x / 2 powi qexp x) \<le> of_int (2 ^ 53)" using b by linarith
    then show "of_int (- (2 ^ 53)) \<le> x / 2 powi qexp x"
      unfolding of_int_minus by (rule minus_le_iff [THEN iffD1])
  qed
  ultimately show ?thesis using that [of "rne (x / 2 powi qexp x)" "qexp x"] q(1) False
    by (simp add: fl_def abs_le_iff)
qed

lemma fl_idem [simp]: "fl (fl x) = fl x"
  by (rule fl_form [of x]) (simp add: fl_exact)

lemma fl_of_int: "\<bar>n\<bar> \<le> 2 ^ 53 \<Longrightarrow> fl (of_int n) = of_int n"
  using fl_exact [of n 0] by simp

subsection \<open>The interface of a rounding\<close>

text \<open>
  What the components rely on. A value is \<^emph>\<open>representable\<close> when rounding keeps it.
\<close>

locale rounding =
  fixes rd :: "rat \<Rightarrow> rat"
  assumes rd_mono: "x \<le> y \<Longrightarrow> rd x \<le> rd y"
    and rd_minus: "rd (- x) = - rd x"
    and rd_idem: "rd (rd x) = rd x"
    and rd_of_int: "\<bar>n\<bar> \<le> 2 ^ 53 \<Longrightarrow> rd (of_int n) = of_int n"
begin

lemma rd_zero: "rd 0 = 0"
  using rd_of_int [of 0] by simp

lemma rd_nonneg: "0 \<le> x \<Longrightarrow> 0 \<le> rd x"
  using rd_mono [of 0 x] by (simp add: rd_zero)

lemma rd_nonpos: "x \<le> 0 \<Longrightarrow> rd x \<le> 0"
  using rd_mono [of x 0] by (simp add: rd_zero)

lemma rd_ge: "rd a = a \<Longrightarrow> a \<le> x \<Longrightarrow> a \<le> rd x"
  using rd_mono [of a x] by simp

lemma rd_le: "rd b = b \<Longrightarrow> x \<le> b \<Longrightarrow> rd x \<le> b"
  using rd_mono [of x b] by simp

lemma rd_pos_imp: "0 < rd x \<Longrightarrow> 0 < x"
  using rd_nonpos [of x] by (cases "0 < x") auto

lemma rd_abs: "rd \<bar>x\<bar> = \<bar>rd x\<bar>"
  using rd_nonneg [of x] rd_nonpos [of x] by (auto simp: abs_if rd_minus)

lemma rd_add_nonneg: "rd a = a \<Longrightarrow> 0 \<le> d \<Longrightarrow> a \<le> rd (a + d)"
  by (rule rd_ge) auto

lemma rd_add_nonpos: "rd a = a \<Longrightarrow> d \<le> 0 \<Longrightarrow> rd (a + d) \<le> a"
  by (rule rd_le) auto

lemmas rd_sign = rd_nonneg rd_nonpos rd_pos_imp

end

interpretation b64: rounding fl
  by unfold_locales (simp_all add: fl_mono fl_of_int)

section \<open>Number values\<close>

datatype jsnum = Num rat | NaN | PInf | NInf

text \<open>The magnitude at which a rounded result overflows.\<close>

definition dbl_limit :: rat where
  "dbl_limit = 2 ^ 1024"

text \<open>The double nearest to an exact result, an infinity when it overflows.\<close>

definition to_num :: "rat \<Rightarrow> jsnum" where
  "to_num x = (if \<bar>fl x\<bar> < dbl_limit then Num (fl x) else if 0 < x then PInf else NInf)"

text \<open>A well-formed number: a finite value is a binary64 value.\<close>

fun is_double :: "jsnum \<Rightarrow> bool" where
  "is_double (Num x) = (fl x = x \<and> \<bar>x\<bar> < dbl_limit)"
| "is_double _ = True"

text \<open>\<open>Number.isFinite\<close> and \<open>Number.isNaN\<close> (the arguments are numbers already).\<close>

fun isFinite :: "jsnum \<Rightarrow> bool" where
  "isFinite (Num _) = True"
| "isFinite _ = False"

definition isNaN :: "jsnum \<Rightarrow> bool" where
  "isNaN x = (x = NaN)"

text \<open>Truthiness of a number: neither zero nor \<open>NaN\<close>.\<close>

definition num_truthy :: "jsnum \<Rightarrow> bool" where
  "num_truthy x = (x \<noteq> Num 0 \<and> x \<noteq> NaN)"

text \<open>\<open>a || b\<close> on numbers.\<close>

definition num_or :: "jsnum \<Rightarrow> jsnum \<Rightarrow> jsnum" where
  "num_or a b = (if num_truthy a then a else b)"

subsection \<open>Arithmetic\<close>

fun jneg :: "jsnum \<Rightarrow> jsnum" where
  "jneg (Num x) = Num (- x)"
| "jneg NaN = NaN"
| "jneg PInf = NInf"
| "jneg NInf = PInf"

fun jadd :: "jsnum \<Rightarrow> jsnum \<Rightarrow> jsnum" where
  "jadd (Num x) (Num y) = to_num (x + y)"
| "jadd NaN _ = NaN"
| "jadd _ NaN = NaN"
| "jadd PInf NInf = NaN"
| "jadd NInf PInf = NaN"
| "jadd PInf _ = PInf"
| "jadd _ PInf = PInf"
| "jadd NInf _ = NInf"
| "jadd _ NInf = NInf"

definition jsub :: "jsnum \<Rightarrow> jsnum \<Rightarrow> jsnum" where
  "jsub x y = jadd x (jneg y)"

text \<open>An infinity with the sign of a non-zero rational.\<close>

definition inf_of_sign :: "rat \<Rightarrow> jsnum" where
  "inf_of_sign s = (if s = 0 then NaN else if 0 < s then PInf else NInf)"

text \<open>The sign of a number that is not \<open>NaN\<close>.\<close>

fun jsgn :: "jsnum \<Rightarrow> rat" where
  "jsgn (Num x) = sgn x"
| "jsgn PInf = 1"
| "jsgn NInf = -1"
| "jsgn NaN = 0"

fun jmul :: "jsnum \<Rightarrow> jsnum \<Rightarrow> jsnum" where
  "jmul (Num x) (Num y) = to_num (x * y)"
| "jmul NaN _ = NaN"
| "jmul _ NaN = NaN"
| "jmul x y = inf_of_sign (jsgn x * jsgn y)"

text \<open>Division; a zero divisor counts as \<open>+0\<close>.\<close>

fun jdiv :: "jsnum \<Rightarrow> jsnum \<Rightarrow> jsnum" where
  "jdiv (Num x) (Num y) = (if y = 0 then inf_of_sign x else to_num (x / y))"
| "jdiv NaN _ = NaN"
| "jdiv _ NaN = NaN"
| "jdiv (Num x) _ = Num 0"
| "jdiv x (Num y) = (if y = 0 then x else inf_of_sign (jsgn x * sgn y))"
| "jdiv _ _ = NaN"

subsection \<open>Comparison\<close>

text \<open>Every comparison with \<open>NaN\<close> is false, \<open>===\<close> included.\<close>

fun jlt :: "jsnum \<Rightarrow> jsnum \<Rightarrow> bool" where
  "jlt (Num x) (Num y) = (x < y)"
| "jlt NaN _ = False"
| "jlt _ NaN = False"
| "jlt NInf y = (y \<noteq> NInf)"
| "jlt _ NInf = False"
| "jlt x PInf = (x \<noteq> PInf)"
| "jlt PInf _ = False"

definition jeq :: "jsnum \<Rightarrow> jsnum \<Rightarrow> bool" where
  "jeq x y = (x = y \<and> x \<noteq> NaN)"

definition jle :: "jsnum \<Rightarrow> jsnum \<Rightarrow> bool" where
  "jle x y = (jlt x y \<or> jeq x y)"

subsection \<open>The \<open>Math\<close> functions the sources use\<close>

definition jmax :: "jsnum \<Rightarrow> jsnum \<Rightarrow> jsnum" where
  "jmax x y = (if x = NaN \<or> y = NaN then NaN else if jlt x y then y else x)"

definition jmin :: "jsnum \<Rightarrow> jsnum \<Rightarrow> jsnum" where
  "jmin x y = (if x = NaN \<or> y = NaN then NaN else if jlt y x then y else x)"

fun jabs :: "jsnum \<Rightarrow> jsnum" where
  "jabs (Num x) = Num \<bar>x\<bar>"
| "jabs NaN = NaN"
| "jabs _ = PInf"

fun jfloor :: "jsnum \<Rightarrow> jsnum" where
  "jfloor (Num x) = Num (of_int \<lfloor>x\<rfloor>)"
| "jfloor x = x"

text \<open>\<open>Math.round\<close> rounds half up, towards \<open>+Infinity\<close>.\<close>

fun jround :: "jsnum \<Rightarrow> jsnum" where
  "jround (Num x) = Num (of_int \<lfloor>x + 1 / 2\<rfloor>)"
| "jround x = x"

text \<open>
  \<open>Math.pow(b, e)\<close> for a positive base \<open>b\<close> (the sources use 2 and 10). At a finite integer
  exponent it is the rounded power; at a fractional one ECMAScript leaves the result to the
  implementation, and so does the model.
\<close>

fun jpow :: "nat \<Rightarrow> jsnum \<Rightarrow> jsnum" where
  "jpow b (Num e) = (if of_int \<lfloor>e\<rfloor> = e then to_num (of_nat b powi \<lfloor>e\<rfloor>) else undefined b e)"
| "jpow b NaN = NaN"
| "jpow b PInf = PInf"
| "jpow b NInf = Num 0"

text \<open>Sum of a list from the left, as \<open>reduce((s, x) => s + f(x), 0)\<close> computes it.\<close>

definition jsum :: "jsnum list \<Rightarrow> jsnum" where
  "jsum xs = foldl jadd (Num 0) xs"

section \<open>Facts about numbers\<close>

subsection \<open>Evaluation\<close>

lemma dbl_limit_pos [simp]: "0 < dbl_limit"
  by (simp add: dbl_limit_def)

lemma neg_less_limit: "0 \<le> x \<Longrightarrow> - x < dbl_limit"
  using dbl_limit_pos by linarith

lemma fl_eqI:
  assumes "2 powi e \<le> \<bar>x\<bar>" "\<bar>x\<bar> < 2 powi (e + 1)" "q = max (-1074) (e - 52)"
    and "\<bar>x / 2 powi q - of_int n\<bar> < 1 / 2"
  shows "fl x = of_int n * 2 powi q"
proof -
  have "ilog2 \<bar>x\<bar> = e" using assms(1,2) by (rule ilog2_unique)
  then have q: "qexp x = q" using assms(3) by (simp add: qexp_def)
  have "rne (x / 2 powi q) = n"
  proof -
    define z where "z = x / 2 powi q"
    have "z - 1 / 2 \<le> of_int (rne z)" "of_int (rne z) \<le> z + 1 / 2"
      using rne_bounds [of z] by simp_all
    moreover have "z - of_int n < 1 / 2" "of_int n - z < 1 / 2"
      using assms(4) unfolding z_def [symmetric] by linarith+
    ultimately have "of_int (rne z) < (of_int n + 1 :: rat)" "of_int n < (of_int (rne z) + 1 :: rat)"
      by linarith+
    then show ?thesis unfolding z_def [symmetric] by linarith
  qed
  moreover have "x \<noteq> 0" using assms(1) by (metis abs_zero linorder_not_le powi2_pos)
  ultimately show ?thesis using q by (simp add: fl_def)
qed

lemma fl_dyadic:
  assumes "x * 2 ^ k = of_int n" "\<bar>n\<bar> \<le> 2 ^ 53" "k \<le> 1074" shows "fl x = x"
proof -
  have "x = of_int n * 2 powi (- int k)"
    using assms(1) by (simp add: power_int_minus field_simps)
  then show ?thesis using fl_exact [of n "- int k"] assms by simp
qed

lemma to_num_exact: "fl x = x \<Longrightarrow> \<bar>x\<bar> < dbl_limit \<Longrightarrow> to_num x = Num x"
  by (simp add: to_num_def)

lemma is_double_to_num_eq: "is_double (Num x) \<Longrightarrow> to_num x = Num x"
  by (simp add: to_num_exact)

lemma of_int_small: "\<bar>n\<bar> \<le> 2 ^ 53 \<Longrightarrow> \<bar>of_int n\<bar> < dbl_limit"
proof -
  assume "\<bar>n\<bar> \<le> 2 ^ 53"
  then have "(of_int \<bar>n\<bar> :: rat) \<le> of_int (2 ^ 53)" by (simp only: of_int_le_iff)
  also have "\<dots> < dbl_limit" by (simp add: dbl_limit_def)
  finally show ?thesis by simp
qed

lemma is_double_of_int: "\<bar>n\<bar> \<le> 2 ^ 53 \<Longrightarrow> is_double (Num (of_int n))"
  by (simp add: fl_of_int of_int_small)

lemma to_num_of_int [num_simps]: "\<bar>n\<bar> \<le> 2 ^ 53 \<Longrightarrow> to_num (of_int n) = Num (of_int n)"
  by (simp add: to_num_exact fl_of_int of_int_small)

lemma to_num_dyadic:
  assumes "x * 2 ^ k = of_int n" "\<bar>n\<bar> \<le> 2 ^ 53" "k \<le> 1074" shows "to_num x = Num x"
proof -
  have "\<bar>x\<bar> \<le> \<bar>x * 2 ^ k\<bar>" by (simp add: abs_mult mult_le_cancel_left1)
  also have "\<dots> < dbl_limit" unfolding assms(1) using assms(2) by (rule of_int_small)
  finally show ?thesis using fl_dyadic [OF assms] by (simp add: to_num_exact)
qed

lemma to_num_numeral [num_simps]:
  "(numeral w :: int) \<le> 2 ^ 53 \<Longrightarrow> to_num (numeral w) = Num (numeral w)"
  "(numeral w :: int) \<le> 2 ^ 53 \<Longrightarrow> to_num (- numeral w) = Num (- numeral w)"
  "to_num 0 = Num 0" "to_num 1 = Num 1" "to_num (- 1) = Num (- 1)"
  using to_num_of_int [of "numeral w"] to_num_of_int [of "- numeral w"] to_num_of_int [of 0]
    to_num_of_int [of 1] to_num_of_int [of "- 1"]
  by simp_all

text \<open>Nothing below a double in magnitude overflows.\<close>

lemma to_num_shrink:
  assumes "is_double (Num v)" "\<bar>x\<bar> \<le> \<bar>v\<bar>" shows "to_num x = Num (fl x)"
proof -
  have "fl \<bar>x\<bar> \<le> fl \<bar>v\<bar>" using assms(2) by (rule fl_mono)
  then have "\<bar>fl x\<bar> < dbl_limit" using assms(1) by (simp add: b64.rd_abs)
  then show ?thesis by (simp add: to_num_def)
qed

subsection \<open>Well-formedness\<close>

lemma is_double_to_num [simp]: "is_double (to_num x)"
  by (simp add: to_num_def)

lemma is_double_jneg [simp]: "is_double x \<Longrightarrow> is_double (jneg x)"
  by (cases x) auto

lemma is_double_jabs [simp]: "is_double x \<Longrightarrow> is_double (jabs x)"
  by (cases x) (auto simp: b64.rd_abs)

lemma is_double_jadd [simp]: "is_double (jadd x y)"
  by (cases x; cases y) simp_all

lemma is_double_jsub [simp]: "is_double (jsub x y)"
  by (simp add: jsub_def)

lemma is_double_jmul [simp]: "is_double (jmul x y)"
  by (cases x; cases y) (simp_all add: inf_of_sign_def)

lemma is_double_jdiv [simp]: "is_double (jdiv x y)"
  by (cases x; cases y) (simp_all add: inf_of_sign_def)

lemma is_double_jmax [simp]: "is_double x \<Longrightarrow> is_double y \<Longrightarrow> is_double (jmax x y)"
  by (simp add: jmax_def)

lemma is_double_jmin [simp]: "is_double x \<Longrightarrow> is_double y \<Longrightarrow> is_double (jmin x y)"
  by (simp add: jmin_def)

text \<open>A double of magnitude at least \<open>2 ^ 53\<close> is an integer.\<close>

lemma big_double_int:
  assumes "fl x = x" "2 ^ 53 \<le> \<bar>x\<bar>" shows "x \<in> \<int>"
proof -
  obtain k m where f: "x = of_int k * 2 powi m" "\<bar>k\<bar> \<le> 2 ^ 53"
    using fl_form [of x] assms(1) by metis
  have "0 \<le> m"
  proof (rule ccontr)
    assume "\<not> 0 \<le> m"
    then have "(2::rat) powi m \<le> 2 powi (-1)" by (simp only: powi2_le_iff)
    moreover have "(of_int \<bar>k\<bar> :: rat) \<le> of_int (2 ^ 53)" using f(2) by (simp only: of_int_le_iff)
    ultimately have "of_int \<bar>k\<bar> * 2 powi m \<le> of_int (2 ^ 53) * (2 powi (-1) :: rat)"
      by (intro mult_mono) simp_all
    moreover have "\<bar>x\<bar> = of_int \<bar>k\<bar> * 2 powi m" by (simp add: f(1) abs_mult)
    ultimately have "\<bar>x\<bar> \<le> of_int (2 ^ 53) * (2 powi (-1) :: rat)" by simp
    with assms(2) show False by simp
  qed
  then have "x = of_int (k * 2 ^ nat m)" by (simp add: f(1) powi2_int)
  then show ?thesis by (simp only: Ints_of_int)
qed

lemma is_double_floor_half:
  assumes "is_double (Num x)" "0 \<le> d" "d < 1" shows "is_double (Num (of_int \<lfloor>x + d\<rfloor>))"
proof (cases "2 ^ 53 \<le> \<bar>x\<bar>")
  case True
  then obtain n where "x = of_int n" using big_double_int [of x] assms(1) by (auto elim: Ints_cases)
  moreover from this have "\<lfloor>x + d\<rfloor> = n" using assms(2,3) by (simp add: floor_eq_iff)
  ultimately show ?thesis using assms(1) by simp
next
  case False
  have "x + d < of_int (2 ^ 53 + 1)" using False assms(3) by simp
  then have "\<lfloor>x + d\<rfloor> < 2 ^ 53 + 1" by (simp only: floor_less_iff)
  moreover have "of_int (- (2 ^ 53)) \<le> x + d" using False assms(2) by simp
  then have "- (2 ^ 53) \<le> \<lfloor>x + d\<rfloor>" by (simp only: le_floor_iff)
  ultimately show ?thesis by (intro is_double_of_int abs_leI) linarith+
qed

lemma is_double_jround [simp]: "is_double x \<Longrightarrow> is_double (jround x)"
  using is_double_floor_half [of _ "1 / 2"] by (cases x) (auto simp del: is_double.simps(1))

lemma is_double_jfloor [simp]: "is_double x \<Longrightarrow> is_double (jfloor x)"
  using is_double_floor_half [of _ 0] by (cases x) (auto simp del: is_double.simps(1))

subsection \<open>Order\<close>

lemma jlt_irrefl [simp]: "\<not> jlt x x"
  by (cases x) simp_all

lemma jlt_trans: "jlt x y \<Longrightarrow> jlt y z \<Longrightarrow> jlt x z"
  by (cases x; cases y; cases z) simp_all

lemma jlt_not_nan: "jlt x y \<Longrightarrow> x \<noteq> NaN \<and> y \<noteq> NaN"
  by (cases x; cases y) simp_all

lemma jle_not_nan: "jle x y \<Longrightarrow> x \<noteq> NaN \<and> y \<noteq> NaN"
  by (auto simp: jle_def jeq_def dest: jlt_not_nan)

lemma jle_refl [simp]: "jle x x \<longleftrightarrow> x \<noteq> NaN"
  by (simp add: jle_def jeq_def)

lemma jle_trans: "jle x y \<Longrightarrow> jle y z \<Longrightarrow> jle x z"
  by (auto simp: jle_def jeq_def intro: jlt_trans)

lemma jlt_linear: "x \<noteq> NaN \<Longrightarrow> y \<noteq> NaN \<Longrightarrow> jlt x y \<or> x = y \<or> jlt y x"
  by (cases x; cases y) auto

lemma not_jlt_iff: "x \<noteq> NaN \<Longrightarrow> y \<noteq> NaN \<Longrightarrow> (\<not> jlt x y) = jle y x"
  by (cases x; cases y) (auto simp: jle_def jeq_def)

lemma not_jle_iff: "x \<noteq> NaN \<Longrightarrow> y \<noteq> NaN \<Longrightarrow> (\<not> jle x y) = jlt y x"
  by (cases x; cases y) (auto simp: jle_def jeq_def)

lemma jle_antisym: "jle x y \<Longrightarrow> jle y x \<Longrightarrow> x = y"
  by (cases x; cases y) (auto simp: jle_def jeq_def)

lemma jle_Num [simp]: "jle (Num x) (Num y) = (x \<le> y)"
  by (auto simp: jle_def jeq_def)

lemma jeq_Num [simp]: "jeq (Num x) (Num y) = (x = y)"
  by (simp add: jeq_def)

lemma to_num_not_nan [simp]: "to_num x \<noteq> NaN"
  by (simp add: to_num_def)

lemma to_num_mono:
  assumes "x \<le> y" shows "jle (to_num x) (to_num y)"
proof -
  have m: "fl x \<le> fl y" using assms by (rule fl_mono)
  have s: "x \<le> 0 \<Longrightarrow> fl x \<le> 0" "0 < x \<Longrightarrow> 0 \<le> fl x" "y \<le> 0 \<Longrightarrow> fl y \<le> 0" "0 < y \<Longrightarrow> 0 \<le> fl y"
    by (simp_all add: b64.rd_nonpos b64.rd_nonneg)
  have l: "0 < dbl_limit" by simp
  show ?thesis
  proof (cases "0 < x")
    case True
    then have "0 \<le> fl x" "0 \<le> fl y" "0 < y" using s assms by auto
    then show ?thesis using m True by (auto simp: to_num_def jle_def jeq_def)
  next
    case x: False
    show ?thesis
    proof (cases "0 < y")
      case True
      then show ?thesis using x m s by (auto simp: to_num_def jle_def jeq_def)
    next
      case False
      then have "fl x \<le> 0" "fl y \<le> 0" using s x by auto
      then show ?thesis using m x False by (auto simp: to_num_def jle_def jeq_def)
    qed
  qed
qed

lemma to_num_nonneg: "0 \<le> x \<Longrightarrow> jle (Num 0) (to_num x)"
  using to_num_mono [of 0 x] by (simp add: num_simps)

lemma to_num_nonpos: "x \<le> 0 \<Longrightarrow> jle (to_num x) (Num 0)"
  using to_num_mono [of x 0] by (simp add: num_simps)

lemma to_num_minus: "to_num (- x) = jneg (to_num x)"
  by (cases "x = 0") (auto simp: to_num_def)

subsection \<open>Clamping\<close>

lemma jmax_ge1: "x \<noteq> NaN \<Longrightarrow> y \<noteq> NaN \<Longrightarrow> jle x (jmax x y)"
  by (simp add: jmax_def) (simp add: jle_def)

lemma jmax_ge2: "x \<noteq> NaN \<Longrightarrow> y \<noteq> NaN \<Longrightarrow> jle y (jmax x y)"
  by (simp add: jmax_def not_jlt_iff)

lemma jmin_le1: "x \<noteq> NaN \<Longrightarrow> y \<noteq> NaN \<Longrightarrow> jle (jmin x y) x"
  by (simp add: jmin_def) (simp add: jle_def)

lemma jmin_le2: "x \<noteq> NaN \<Longrightarrow> y \<noteq> NaN \<Longrightarrow> jle (jmin x y) y"
  by (simp add: jmin_def not_jlt_iff)

lemma jmax_le: "jle x z \<Longrightarrow> jle y z \<Longrightarrow> jle (jmax x y) z"
  by (auto simp: jmax_def dest: jle_not_nan)

lemma jmin_ge: "jle z x \<Longrightarrow> jle z y \<Longrightarrow> jle z (jmin x y)"
  by (auto simp: jmin_def dest: jle_not_nan)

lemma jmin_not_nan: "x \<noteq> NaN \<Longrightarrow> y \<noteq> NaN \<Longrightarrow> jmin x y \<noteq> NaN"
  by (simp add: jmin_def)

text \<open>\<open>Math.max(lo, Math.min(hi, x))\<close> lies in the interval and keeps what is in it.\<close>

lemma clamp_bounds:
  assumes "jle lo hi" "x \<noteq> NaN"
  shows "jle lo (jmax lo (jmin hi x)) \<and> jle (jmax lo (jmin hi x)) hi"
proof -
  have n: "lo \<noteq> NaN" "hi \<noteq> NaN" using assms(1) by (auto dest: jle_not_nan)
  then have "jmin hi x \<noteq> NaN" using assms(2) by (intro jmin_not_nan)
  with n show ?thesis using assms by (auto intro: jmax_ge1 jmax_le jmin_le1)
qed

lemma clamp_id: "jle lo x \<Longrightarrow> jle x hi \<Longrightarrow> jmax lo (jmin hi x) = x"
  by (cases lo; cases x; cases hi) (auto simp: jmax_def jmin_def jle_def jeq_def)

subsection \<open>Monotonicity\<close>

text \<open>The operations keep the order, as long as no operand or result is \<open>NaN\<close>.\<close>

lemma jle_PInf [simp]: "jle x PInf \<longleftrightarrow> x \<noteq> NaN" "jle NInf x \<longleftrightarrow> x \<noteq> NaN"
  "jle PInf x \<longleftrightarrow> x = PInf" "jle x NInf \<longleftrightarrow> x = NInf"
  by (cases x; simp add: jle_def jeq_def)+

lemma jle_NaN [simp]: "\<not> jle NaN x" "\<not> jle x NaN"
  by (auto dest: jle_not_nan)

lemma jadd_mono:
  assumes "jle a b" "jle c d" "jadd a c \<noteq> NaN" "jadd b d \<noteq> NaN"
  shows "jle (jadd a c) (jadd b d)"
  using assms by (cases a; cases b; cases c; cases d) (simp_all add: to_num_mono add_mono)

lemma jneg_antimono: "jle a b \<Longrightarrow> jle (jneg b) (jneg a)"
  by (cases a; cases b) simp_all

lemma jsub_mono:
  assumes "jle a b" "jle d c" "jsub a c \<noteq> NaN" "jsub b d \<noteq> NaN"
  shows "jle (jsub a c) (jsub b d)"
  using assms by (auto simp: jsub_def intro: jadd_mono jneg_antimono)

lemma to_num_range: "to_num x = Num (fl x) \<or> to_num x = PInf \<or> to_num x = NInf"
  by (simp add: to_num_def)

lemma jmul_mono_pos:
  assumes "jle a b" "0 < f" shows "jle (jmul a (Num f)) (jmul b (Num f))"
  using assms by (cases a; cases b)
    (simp_all add: to_num_mono mult_right_mono inf_of_sign_def)

lemma jmul_nonneg:
  assumes "jle (Num 0) x" "jle (Num 0) y" "jmul x y \<noteq> NaN" shows "jle (Num 0) (jmul x y)"
  using assms by (cases x; cases y) (auto simp: to_num_nonneg inf_of_sign_def split: if_splits)

lemma jdiv_nonneg: "jle (Num 0) x \<Longrightarrow> 0 < y \<Longrightarrow> jle (Num 0) (jdiv x (Num y))"
  by (cases x) (auto simp: to_num_nonneg inf_of_sign_def)

lemma jmul_commute: "jmul a b = jmul b a"
  by (cases a; cases b) (simp_all add: mult.commute)

lemma jadd_commute: "jadd a b = jadd b a"
  by (cases a; cases b) (simp_all add: add.commute)

lemma jmul_mono_nonneg:
  assumes "x \<le> y" "0 \<le> f" shows "jle (jmul (Num x) (Num f)) (jmul (Num y) (Num f))"
  using assms by (simp add: to_num_mono mult_right_mono)

lemma jdiv_mono_pos:
  assumes "jle a b" "0 < f" shows "jle (jdiv a (Num f)) (jdiv b (Num f))"
  using assms by (cases a; cases b)
    (simp_all add: to_num_mono divide_right_mono inf_of_sign_def)

lemma jround_mono: "jle a b \<Longrightarrow> jle (jround a) (jround b)"
  by (cases a; cases b) (simp_all add: floor_mono)

lemma jfloor_mono: "jle a b \<Longrightarrow> jle (jfloor a) (jfloor b)"
  by (cases a; cases b) (simp_all add: floor_mono)

lemma jmax_mono: "jle a b \<Longrightarrow> jle c d \<Longrightarrow> jle (jmax a c) (jmax b d)"
  by (rule jmax_le) (metis jle_not_nan jle_trans jmax_ge1 jmax_ge2)+

lemma jmin_mono: "jle a b \<Longrightarrow> jle c d \<Longrightarrow> jle (jmin a c) (jmin b d)"
  by (rule jmin_ge) (metis jle_not_nan jle_trans jmin_le1 jmin_le2)+

lemma jmul_pos_not_nan [simp]: "x \<noteq> NaN \<Longrightarrow> f \<noteq> 0 \<Longrightarrow> jmul x (Num f) \<noteq> NaN"
  by (cases x) (simp_all add: inf_of_sign_def sgn_if)

lemma jdiv_pos_not_nan [simp]: "x \<noteq> NaN \<Longrightarrow> f \<noteq> 0 \<Longrightarrow> jdiv x (Num f) \<noteq> NaN"
  by (cases x) (simp_all add: inf_of_sign_def sgn_if)

lemma jround_not_nan [simp]: "jround x = NaN \<longleftrightarrow> x = NaN"
  by (cases x) simp_all

lemma jadd_Num_not_nan [simp]: "x \<noteq> NaN \<Longrightarrow> jadd x (Num y) \<noteq> NaN" "x \<noteq> NaN \<Longrightarrow> jadd (Num y) x \<noteq> NaN"
  by (cases x; simp)+

lemma jsub_Num_not_nan [simp]: "x \<noteq> NaN \<Longrightarrow> jsub x (Num y) \<noteq> NaN"
  by (simp add: jsub_def)

text \<open>Adding something of a sign moves a double that way, rounding included.\<close>

lemma jadd_nonneg:
  assumes "is_double a" "a \<noteq> NaN" "0 \<le> y" shows "jle a (jadd a (Num y))"
proof (cases a)
  case (Num x)
  then have "jle (to_num x) (to_num (x + y))" using assms(3) by (intro to_num_mono) simp
  then show ?thesis using Num assms(1) is_double_to_num_eq [of x] by simp
qed (use assms in simp_all)

lemma jadd_nonpos:
  assumes "is_double a" "a \<noteq> NaN" "y \<le> 0" shows "jle (jadd a (Num y)) a"
proof (cases a)
  case (Num x)
  then have "jle (to_num (x + y)) (to_num x)" using assms(3) by (intro to_num_mono) simp
  then show ?thesis using Num assms(1) is_double_to_num_eq [of x] by simp
qed (use assms in simp_all)

lemmas num_mono = jadd_mono jsub_mono jmul_mono_pos jdiv_mono_pos jround_mono jfloor_mono jmax_mono jmin_mono

text \<open>\<open>Math.pow\<close> at a natural exponent.\<close>

lemma jpow_of_nat [num_simps]: "b ^ n \<le> 2 ^ 53 \<Longrightarrow> jpow b (Num (of_nat n)) = Num (of_nat (b ^ n))"
  using to_num_of_int [of "int (b ^ n)"] by (simp flip: of_nat_power)

lemma pow10_pos: assumes "n \<le> 15" shows "\<exists>f > 0. jpow 10 (Num (of_nat n)) = Num f"
proof -
  have "(10::nat) ^ n \<le> 10 ^ 15" using assms by (intro power_increasing) simp_all
  then have "jpow 10 (Num (of_nat n)) = Num (of_nat (10 ^ n))" by (intro jpow_of_nat) simp
  then show ?thesis by (intro exI [of _ "of_nat (10 ^ n)"]) simp
qed

subsection \<open>Rounding to a number of decimals\<close>

text \<open>\<open>Math.round(x * m) / m\<close>, with which the sources round to decimals (\<open>m\<close> a power of ten).\<close>

definition round_scaled :: "jsnum \<Rightarrow> jsnum \<Rightarrow> jsnum" where
  "round_scaled m x = jdiv (jround (jmul x m)) m"

lemma round_scaled_mono: "0 < f \<Longrightarrow> jle a b \<Longrightarrow> jle (round_scaled (Num f) a) (round_scaled (Num f) b)"
  unfolding round_scaled_def by (intro num_mono)

lemma round_scaled_not_nan [simp]: "f \<noteq> 0 \<Longrightarrow> x \<noteq> NaN \<Longrightarrow> round_scaled (Num f) x \<noteq> NaN"
  by (simp add: round_scaled_def)

lemma floor_quotient [num_simps]:
  "\<lfloor>(numeral a :: rat) / numeral b\<rfloor> = numeral a div numeral b"
  "\<lfloor>- (numeral a :: rat) / numeral b\<rfloor> = - numeral a div numeral b"
  using floor_divide_of_int_eq [of "numeral a" "numeral b", where 'a = rat]
    floor_divide_of_int_eq [of "- numeral a" "numeral b", where 'a = rat] by simp_all

lemma floor_half [simp]: "\<lfloor>1 / 2 :: rat\<rfloor> = 0"
  by (simp add: floor_eq_iff)

lemma round_scaled_nonneg: "0 < f \<Longrightarrow> jle (Num 0) x \<Longrightarrow> jle (Num 0) (round_scaled (Num f) x)"
  using round_scaled_mono [of f "Num 0" x] by (simp add: round_scaled_def num_simps)

lemma round_scaled_nonpos: "0 < f \<Longrightarrow> jle x (Num 0) \<Longrightarrow> jle (round_scaled (Num f) x) (Num 0)"
  using round_scaled_mono [of f x "Num 0"] by (simp add: round_scaled_def num_simps)

text \<open>The relative error of rounding a value of normal magnitude.\<close>

lemma fl_error:
  assumes "2 powi (-1022) \<le> \<bar>x\<bar>" shows "\<bar>fl x - x\<bar> \<le> \<bar>x\<bar> * 2 powi (-53)"
proof -
  have x0: "0 < \<bar>x\<bar>" using assms powi2_pos [of "-1022"] by linarith
  have "(2::rat) powi (-1022) < 2 powi (ilog2 \<bar>x\<bar> + 1)"
    using assms ilog2_bounds(2) [OF x0] by linarith
  then have "-1022 < ilog2 \<bar>x\<bar> + 1" by (simp only: powi2_less_iff)
  then have q: "qexp x = ilog2 \<bar>x\<bar> - 52" by (simp add: qexp_def)
  let ?p = "2 powi qexp x :: rat"
  have "\<bar>of_int (rne (x / ?p)) - x / ?p\<bar> \<le> 1 / 2" using rne_bounds [of "x / ?p"] by linarith
  then have "\<bar>of_int (rne (x / ?p)) - x / ?p\<bar> * ?p \<le> 1 / 2 * ?p" by (intro mult_right_mono) simp_all
  moreover have "fl x - x = (of_int (rne (x / ?p)) - x / ?p) * ?p"
    using x0 by (simp add: fl_def algebra_simps)
  ultimately have "\<bar>fl x - x\<bar> \<le> 1 / 2 * ?p" by (simp add: abs_mult)
  also have "1 / 2 * ?p = 2 powi ilog2 \<bar>x\<bar> * 2 powi (-53)"
    by (simp add: q power_int_diff power_int_minus)
  also have "\<dots> \<le> \<bar>x\<bar> * 2 powi (-53)" using ilog2_bounds(1) [OF x0] by (intro mult_right_mono) simp_all
  finally show ?thesis .
qed

text \<open>An integer divided by a scale and multiplied back is less than a half from where it was.\<close>

lemma scale_back:
  fixes k m :: int
  assumes "\<bar>k\<bar> \<le> 2 ^ 50" "1 \<le> m" "m \<le> 10 ^ 15"
  shows "\<bar>fl (fl (of_int k / of_int m) * of_int m) - of_int k\<bar> < 1 / 2"
proof (cases "k = 0")
  case False
  define y where "y = fl (of_int k / of_int m)"
  define e :: rat where "e = 2 powi (-53)"
  have e: "0 < e" "e * 2 ^ 53 = 1" by (simp_all add: e_def power_int_minus)
  have k1: "1 \<le> (of_int \<bar>k\<bar> :: rat)" "(of_int \<bar>k\<bar> :: rat) \<le> 2 ^ 50"
    using False assms(1) of_int_le_iff [of "\<bar>k\<bar>" "2 ^ 50", where 'a = rat] by auto
  have m1: "1 \<le> (of_int m :: rat)" "(of_int m :: rat) \<le> 10 ^ 15"
    using assms(2,3) of_int_le_iff [of m "10 ^ 15", where 'a = rat] by auto
  have tiny: "(2::rat) powi (-1022) \<le> 2 powi (-50)" by (simp only: powi2_le_iff)
  have small: "(2::rat) powi (-50) \<le> 1 / 10 ^ 15" by (simp add: power_int_minus)
  have "(1::rat) / 10 ^ 15 \<le> of_int \<bar>k\<bar> / of_int m"
    using k1 m1 by (intro frac_le) simp_all
  then have n1: "2 powi (-1022) \<le> \<bar>of_int k / of_int m :: rat\<bar>"
    using tiny small m1 by (simp add: abs_divide)
  have d1: "\<bar>y - of_int k / of_int m\<bar> \<le> \<bar>of_int k / of_int m\<bar> * e"
    unfolding y_def e_def using n1 by (rule fl_error)
  have "y * of_int m - of_int k = (y - of_int k / of_int m) * of_int m"
    using m1 by (simp add: left_diff_distrib)
  then have "\<bar>y * of_int m - of_int k\<bar> = \<bar>y - of_int k / of_int m\<bar> * of_int m"
    using m1 by (simp add: abs_mult)
  also have "\<dots> \<le> \<bar>of_int k / of_int m\<bar> * e * of_int m"
    using d1 m1 by (intro mult_right_mono) simp_all
  also have "\<dots> = of_int \<bar>k\<bar> * e" using m1 by (simp add: abs_divide)
  finally have d2: "\<bar>y * of_int m - of_int k\<bar> \<le> of_int \<bar>k\<bar> * e" .
  have ke: "of_int \<bar>k\<bar> * e \<le> 2 ^ 50 * e" using k1 e by (intro mult_right_mono) simp_all
  have e8: "2 ^ 50 * e = 1 / 8" using e(2) by simp
  have "\<bar>y * of_int m - of_int k\<bar> \<le> 1 / 8" using d2 ke e8 by linarith
  moreover have "(of_int \<bar>k\<bar> :: rat) = \<bar>of_int k\<bar>" by simp
  ultimately have z: "\<bar>y * of_int m\<bar> \<le> of_int \<bar>k\<bar> + 1 / 8" "1 / 2 \<le> \<bar>y * of_int m\<bar>"
    using k1(1) by linarith+
  have "2 powi (-1022) \<le> (2::rat) powi (-1)" by (simp only: powi2_le_iff)
  then have n2: "2 powi (-1022) \<le> \<bar>y * of_int m\<bar>" using z(2) by simp
  have "\<bar>fl (y * of_int m) - y * of_int m\<bar> \<le> \<bar>y * of_int m\<bar> * e"
    unfolding e_def using n2 by (rule fl_error)
  also have "\<dots> \<le> (2 ^ 50 + 1 / 8) * e" using z(1) k1(2) e(1) by (intro mult_right_mono) linarith+
  also have "\<dots> \<le> 1 / 8 + e" using e8 e(1) by (simp add: distrib_right)
  finally have "\<bar>fl (y * of_int m) - y * of_int m\<bar> \<le> 1 / 8 + e" .
  moreover have "\<bar>y * of_int m - of_int k\<bar> \<le> 1 / 8" using d2 ke e8 by linarith
  moreover have "e \<le> 1 / 16" by (simp add: e_def power_int_minus)
  ultimately show ?thesis unfolding y_def [symmetric] by linarith
qed simp

text \<open>So rounding to decimals twice is rounding once, up to \<open>2 ^ 50\<close> units of the last place.\<close>

lemma round_scaled_idem:
  fixes m :: int
  assumes "jround (jmul x (Num (of_int m))) = Num (of_int k)" "\<bar>k\<bar> \<le> 2 ^ 50" "1 \<le> m" "m \<le> 10 ^ 15"
  shows "round_scaled (Num (of_int m)) (round_scaled (Num (of_int m)) x) = round_scaled (Num (of_int m)) x"
proof -
  let ?q = "of_int k / of_int m :: rat"
  have m0: "(of_int m :: rat) \<noteq> 0" using assms(3) by simp
  have near: "\<bar>fl (fl ?q * of_int m) - of_int k\<bar> < 1 / 2" using assms(2-4) by (rule scale_back)
  have k: "(of_int \<bar>k\<bar> :: rat) \<le> of_int (2 ^ 50)" using assms(2) by (simp only: of_int_le_iff)
  have "\<bar>?q\<bar> \<le> of_int \<bar>k\<bar>" using assms(3) by (simp add: abs_divide divide_le_eq mult_le_cancel_left1)
  then have "fl \<bar>?q\<bar> \<le> fl (of_int (2 ^ 50))" using k by (intro fl_mono) (rule order_trans)
  then have q: "\<bar>fl ?q\<bar> \<le> of_int (2 ^ 50)" unfolding b64.rd_abs using fl_of_int [of "2 ^ 50"] by simp
  have big: "of_int (2 ^ 50) + 1 < dbl_limit" by (simp add: dbl_limit_def)
  have b: "\<bar>fl ?q\<bar> < dbl_limit" "\<bar>fl (fl ?q * of_int m)\<bar> < dbl_limit"
    using q big near k by linarith+
  have s: "round_scaled (Num (of_int m)) x = Num (fl ?q)"
    using m0 b(1) by (simp add: round_scaled_def assms(1) to_num_def)
  have "\<lfloor>fl (fl ?q * of_int m) + 1 / 2\<rfloor> = k" using near by (intro floor_unique) linarith+
  then have "jround (jmul (Num (fl ?q)) (Num (of_int m))) = Num (of_int k)"
    using b(2) by (simp add: to_num_def)
  then show ?thesis unfolding s using s assms(1) by (simp add: round_scaled_def)
qed

end
