(* ===== verification/Js_Prelude.thy ===== *)
theory Js_Prelude
  imports Js_Number
begin

text \<open>
  What the components share besides numbers: JavaScript strings, the insertion-ordered
  \<open>Map\<close> and \<open>Set\<close>, results of code that throws, and \<open>localStorage\<close>.

  A string is a list of bytes. The programs' identifiers, codes and prices are ASCII, and on
  ASCII the operations below are JavaScript's; the few typographic characters in literals are
  written as their UTF-8 bytes. Case mapping and white space are the ASCII ones.

  A \<open>Map\<close> is the list of its entries in insertion order and a \<open>Set\<close> the list of its elements,
  which is what iteration observes. The locales \<open>js_dict\<close> and \<open>js_set\<close> are the contracts the
  stores rely on, and are interpreted on the two implementations.
\<close>

named_theorems js_simps \<open>evaluation of string and collection operations\<close>

section \<open>Strings\<close>

text \<open>The em dash of the display helpers, in UTF-8.\<close>

definition em_dash :: string where
  "em_dash = [CHR 0xE2, CHR 0x80, CHR 0x94]"

definition up_char :: "char \<Rightarrow> char" where
  "up_char c = (let n = of_char c :: nat in if 97 \<le> n \<and> n \<le> 122 then char_of (n - 32) else c)"

definition low_char :: "char \<Rightarrow> char" where
  "low_char c = (let n = of_char c :: nat in if 65 \<le> n \<and> n \<le> 90 then char_of (n + 32) else c)"

definition toUpperCase :: "string \<Rightarrow> string" where
  "toUpperCase = map up_char"

definition toLowerCase :: "string \<Rightarrow> string" where
  "toLowerCase = map low_char"

text \<open>The white space \<open>trim\<close> removes: tab to carriage return, and the blank.\<close>

definition is_space :: "char \<Rightarrow> bool" where
  "is_space c = (let n = of_char c :: nat in (9 \<le> n \<and> n \<le> 13) \<or> n = 32)"

definition trim :: "string \<Rightarrow> string" where
  "trim s = rev (dropWhile is_space (rev (dropWhile is_space s)))"

definition startsWith :: "string \<Rightarrow> string \<Rightarrow> bool" where
  "startsWith s p = (take (length p) s = p)"

definition endsWith :: "string \<Rightarrow> string \<Rightarrow> bool" where
  "endsWith s p = (length p \<le> length s \<and> drop (length s - length p) s = p)"

fun str_includes :: "string \<Rightarrow> string \<Rightarrow> bool" where
  "str_includes [] p = (p = [])"
| "str_includes (c # s) p = (startsWith (c # s) p \<or> str_includes s p)"

text \<open>\<open>s.replace(/c/g, '')\<close> and \<open>s.replace(/c/g, d)\<close> for single characters.\<close>

definition remove_char :: "char \<Rightarrow> string \<Rightarrow> string" where
  "remove_char c s = filter (\<lambda>x. x \<noteq> c) s"

definition replace_char :: "char \<Rightarrow> char \<Rightarrow> string \<Rightarrow> string" where
  "replace_char c d s = map (\<lambda>x. if x = c then d else x) s"

text \<open>\<open>s.slice(0, n)\<close> for \<open>n \<ge> 0\<close> is \<open>take n s\<close>; \<open>s.slice(0, -n)\<close> drops the last \<open>n\<close>.\<close>

definition drop_last :: "nat \<Rightarrow> 'a list \<Rightarrow> 'a list" where
  "drop_last n s = take (length s - n) s"

text \<open>\<open>s.split(c)\<close> for a single character.\<close>

fun split_char :: "char \<Rightarrow> string \<Rightarrow> string list" where
  "split_char c [] = [[]]"
| "split_char c (x # s) =
     (case split_char c s of
        [] \<Rightarrow> [[x]]
      | w # ws \<Rightarrow> if x = c then [] # w # ws else (x # w) # ws)"

fun join_with :: "string \<Rightarrow> string list \<Rightarrow> string" where
  "join_with sep [] = []"
| "join_with sep [w] = w"
| "join_with sep (w # ws) = w @ sep @ join_with sep ws"

lemma split_char_none: "c \<notin> set s \<Longrightarrow> split_char c s = [s]"
  by (induction s) auto

lemma split_char_append: "c \<notin> set s \<Longrightarrow> split_char c (s @ c # t) = s # split_char c t"
proof (induction s)
  case Nil
  have "split_char c t \<noteq> []" by (cases t) (auto split: list.splits)
  then show ?case by (auto split: list.splits)
qed (auto split: list.splits)

lemma toUpperCase_simps [simp]: "toUpperCase [] = []" "toUpperCase (c # s) = up_char c # toUpperCase s"
  by (simp_all add: toUpperCase_def)

lemma toLowerCase_simps [simp]: "toLowerCase [] = []" "toLowerCase (c # s) = low_char c # toLowerCase s"
  by (simp_all add: toLowerCase_def)

lemma length_toUpperCase [simp]: "length (toUpperCase s) = length s"
  by (simp add: toUpperCase_def)

lemma toUpperCase_append [simp]: "toUpperCase (s @ t) = toUpperCase s @ toUpperCase t"
  by (simp add: toUpperCase_def)

lemma up_char_idem [simp]: "up_char (up_char c) = up_char c"
  by (auto simp: up_char_def Let_def)

lemma toUpperCase_idem [simp]: "toUpperCase (toUpperCase s) = toUpperCase s"
  by (induction s) simp_all

lemma is_space_up_char [simp]: "is_space (up_char c) = is_space c"
  by (auto simp: is_space_def up_char_def Let_def)

lemma trim_simps [simp]: "trim [] = []"
  by (simp add: trim_def)

lemma dropWhile_rev_dropWhile:
  "dropWhile P (rev (dropWhile P (rev (dropWhile P s)))) = rev (dropWhile P (rev (dropWhile P s)))"
proof (cases "dropWhile P s")
  case Nil
  show ?thesis by (simp only: Nil rev.simps dropWhile.simps)
next
  case (Cons a t)
  then have "\<not> P a" by (metis hd_dropWhile list.distinct(1) list.sel(1))
  then show ?thesis by (simp add: Cons dropWhile_append)
qed

lemma trim_idem [simp]: "trim (trim s) = trim s"
  unfolding trim_def by (simp only: dropWhile_rev_dropWhile rev_rev_ident dropWhile_idem)

lemma trim_no_space: "\<forall>c \<in> set s. \<not> is_space c \<Longrightarrow> trim s = s"
proof -
  assume a: "\<forall>c \<in> set s. \<not> is_space c"
  have d: "\<And>t. \<forall>c \<in> set t. \<not> is_space c \<Longrightarrow> dropWhile is_space t = t"
    by (metis dropWhile_eq_self_iff hd_in_set)
  show ?thesis using a by (simp add: trim_def d)
qed

lemma toUpperCase_trim: "toUpperCase (trim s) = trim (toUpperCase s)"
proof -
  have d: "\<And>t. dropWhile is_space (map up_char t) = map up_char (dropWhile is_space t)"
    by (simp add: dropWhile_map comp_def)
  show ?thesis by (simp add: trim_def toUpperCase_def d rev_map)
qed

lemma remove_char_set [simp]: "set (remove_char c s) = set s - {c}"
  by (auto simp: remove_char_def)

lemma remove_char_idem [simp]: "c \<notin> set s \<Longrightarrow> remove_char c s = s"
  by (auto simp: remove_char_def filter_id_conv)

lemma startsWith_append [simp]: "startsWith (p @ s) p"
  by (simp add: startsWith_def)

lemma endsWith_append [simp]: "endsWith (s @ p) p"
  by (simp add: endsWith_def)

lemma endsWith_iff: "endsWith s p = (\<exists>u. s = u @ p)"
  unfolding endsWith_def by (metis append_take_drop_id diff_diff_cancel length_append
      length_drop append_eq_conv_conj le_add2 diff_add_inverse2)

lemma drop_last_append [simp]: "drop_last (length p) (s @ p) = s"
  by (simp add: drop_last_def)

text \<open>Truthiness of a string that may be missing: the empty string is falsy.\<close>

definition truthy :: "string option \<Rightarrow> bool" where
  "truthy t = (case t of None \<Rightarrow> False | Some s \<Rightarrow> s \<noteq> [])"

lemma truthy_simps [simp]: "\<not> truthy None" "truthy (Some t) = (t \<noteq> [])"
  by (simp_all add: truthy_def)

section \<open>Results of code that throws\<close>

text \<open>The errors the modelled code can raise itself, with the message where one is given.\<close>

datatype js_error = RangeError | TypeError | SyntaxError | Err string

type_synonym 'a js = "js_error + 'a"

fun js_bind :: "'a js \<Rightarrow> ('a \<Rightarrow> 'b js) \<Rightarrow> 'b js" where
  "js_bind (Inl e) f = Inl e"
| "js_bind (Inr x) f = f x"

lemma js_bind_Inr_iff: "js_bind m f = Inr y \<longleftrightarrow> (\<exists>x. m = Inr x \<and> f x = Inr y)"
  by (cases m) auto

section \<open>JSON values\<close>

text \<open>What \<open>JSON.parse\<close> delivers, and the type of a value the sources call \<open>any\<close>.\<close>

datatype json = JNull | JBool bool | JNum jsnum | JStr string | JArr "json list"
  | JObj "(string \<times> json) list"

section \<open>Ordered maps\<close>

type_synonym ('k, 'v) jsmap = "('k \<times> 'v) list"

text \<open>\<open>m.set(k, v)\<close> keeps the place of a key that is present and appends a new one.\<close>

fun map_set :: "'k \<Rightarrow> 'v \<Rightarrow> ('k, 'v) jsmap \<Rightarrow> ('k, 'v) jsmap" where
  "map_set k v [] = [(k, v)]"
| "map_set k v ((k', v') # m) = (if k' = k then (k, v) # m else (k', v') # map_set k v m)"

definition map_delete :: "'k \<Rightarrow> ('k, 'v) jsmap \<Rightarrow> ('k, 'v) jsmap" where
  "map_delete k m = filter (\<lambda>e. fst e \<noteq> k) m"

definition map_get :: "('k, 'v) jsmap \<Rightarrow> 'k \<Rightarrow> 'v option" where
  "map_get m k = map_of m k"

definition map_has :: "('k, 'v) jsmap \<Rightarrow> 'k \<Rightarrow> bool" where
  "map_has m k = (k \<in> set (map fst m))"

definition map_values :: "('k, 'v) jsmap \<Rightarrow> 'v list" where
  "map_values m = map snd m"

text \<open>Well-formed: no key twice.\<close>

definition map_wf :: "('k, 'v) jsmap \<Rightarrow> bool" where
  "map_wf m = distinct (map fst m)"

lemma find_key_distinct:
  "distinct (map key xs) \<Longrightarrow> x \<in> set xs \<Longrightarrow> find (\<lambda>y. key y = key x) xs = Some x"
  by (induction xs) auto

text \<open>The contract of a map.\<close>

locale js_dict =
  fixes wf :: "'m \<Rightarrow> bool"
    and emp :: 'm
    and put :: "'k \<Rightarrow> 'v \<Rightarrow> 'm \<Rightarrow> 'm"
    and del :: "'k \<Rightarrow> 'm \<Rightarrow> 'm"
    and look :: "'m \<Rightarrow> 'k \<Rightarrow> 'v option"
  assumes wf_emp: "wf emp"
    and wf_put: "wf m \<Longrightarrow> wf (put k v m)"
    and wf_del: "wf m \<Longrightarrow> wf (del k m)"
    and look_emp: "look emp k = None"
    and look_put: "wf m \<Longrightarrow> look (put k v m) k' = (if k' = k then Some v else look m k')"
    and look_del: "wf m \<Longrightarrow> look (del k m) k' = (if k' = k then None else look m k')"
begin

text \<open>Loading a list of records under their keys, as the stores' setters do.\<close>

lemma wf_load: "wf m \<Longrightarrow> wf (foldl (\<lambda>m x. put (key x) x m) m xs)"
  by (induction xs arbitrary: m) (simp_all add: wf_put)

lemma look_load:
  "wf m \<Longrightarrow> look (foldl (\<lambda>m x. put (key x) x m) m xs) k =
     (case find (\<lambda>x. key x = k) (rev xs) of Some x \<Rightarrow> Some x | None \<Rightarrow> look m k)"
proof (induction xs rule: rev_induct)
  case Nil
  then show ?case by simp
next
  case (snoc x xs)
  then show ?case by (auto simp: look_put wf_load)
qed

lemma look_load_distinct:
  assumes "distinct (map key xs)" "x \<in> set xs"
  shows "look (foldl (\<lambda>m x. put (key x) x m) emp xs) (key x) = Some x"
proof -
  have "find (\<lambda>y. key y = key x) (rev xs) = Some x"
    using assms by (intro find_key_distinct) (simp_all flip: rev_map)
  then show ?thesis by (simp add: look_load wf_emp)
qed

lemma look_put_same: "wf m \<Longrightarrow> look (put k v m) k = Some v"
  by (simp add: look_put)

lemma look_put_other: "wf m \<Longrightarrow> k' \<noteq> k \<Longrightarrow> look (put k v m) k' = look m k'"
  by (simp add: look_put)

lemmas dict_simps = wf_emp wf_put wf_del look_emp look_put look_del

end

lemma map_set_keys: "fst ` set (map_set k v m) = insert k (fst ` set m)"
  by (induction k v m rule: map_set.induct) auto

lemma map_wf_set [simp]: "map_wf m \<Longrightarrow> map_wf (map_set k v m)"
  unfolding map_wf_def by (induction k v m rule: map_set.induct) (auto simp: map_set_keys)

lemma map_wf_delete [simp]: "map_wf m \<Longrightarrow> map_wf (map_delete k m)"
  by (simp add: map_wf_def map_delete_def distinct_map_filter)

lemma map_wf_Nil [simp]: "map_wf []"
  by (simp add: map_wf_def)

lemma map_get_set: "map_get (map_set k v m) k' = (if k' = k then Some v else map_get m k')"
  by (induction m) (auto simp: map_get_def)

lemma map_get_delete: "map_get (map_delete k m) k' = (if k' = k then None else map_get m k')"
  by (induction m) (auto simp: map_get_def map_delete_def)

interpretation jm: js_dict map_wf "[]" map_set map_delete map_get
  by unfold_locales (simp_all add: map_get_set map_get_delete, simp add: map_get_def)

lemma map_has_get: "map_has m k = (map_get m k \<noteq> None)"
  by (auto simp: map_has_def map_get_def map_of_eq_None_iff)

lemma map_has_set [simp]: "map_has (map_set k v m) k' \<longleftrightarrow> k' = k \<or> map_has m k'"
  by (simp add: map_has_def map_set_keys)

lemma map_has_load: "map_has (foldl (\<lambda>m x. map_set (key x) x m) m xs) k \<longleftrightarrow> map_has m k \<or> k \<in> key ` set xs"
  by (induction xs arbitrary: m) auto

lemma map_set_not_Nil [simp]: "map_set k v m \<noteq> []"
  by (cases "(k, v, m)" rule: map_set.cases) auto

lemma map_wf_filter [simp]: "map_wf m \<Longrightarrow> map_wf (filter P m)"
  by (simp add: map_wf_def distinct_map_filter)

lemma map_get_filter:
  assumes "map_wf m"
  shows "map_get (filter P m) k = (case map_get m k of Some v \<Rightarrow> if P (k, v) then Some v else None | None \<Rightarrow> None)"
  using assms
proof (induction m)
  case (Cons e m)
  obtain k' v where e: "e = (k', v)" by force
  have "map_get m k = None" if "k' = k"
    using Cons.prems that by (auto simp: e map_wf_def map_get_def map_of_eq_None_iff)
  then show ?case using Cons by (auto simp: e map_wf_def map_get_def split: option.split)
qed (simp add: map_get_def)

lemma map_set_new: "\<not> map_has m k \<Longrightarrow> map_set k v m = m @ [(k, v)]"
  by (induction m) (auto simp: map_has_def)

lemma map_values_load_distinct:
  "distinct (map key xs) \<Longrightarrow>
     foldl (\<lambda>m x. map_set (key x) x m) [] xs = map (\<lambda>x. (key x, x)) xs"
proof (induction xs rule: rev_induct)
  case (snoc x xs)
  then have "\<not> map_has (map (\<lambda>x. (key x, x)) xs) (key x)"
    by (auto simp: map_has_def comp_def)
  then show ?case using snoc by (simp add: map_set_new)
qed simp

text \<open>\<open>const m = new Map(); xs.forEach(x => m.set(key(x), x))\<close>.\<close>

definition by_id :: "('a \<Rightarrow> string) \<Rightarrow> 'a list \<Rightarrow> (string, 'a) jsmap" where
  "by_id key xs = foldl (\<lambda>m x. map_set (key x) x m) [] xs"

text \<open>Every entry stands under its own id, and no id twice.\<close>

definition keyed :: "('a \<Rightarrow> string) \<Rightarrow> (string, 'a) jsmap \<Rightarrow> bool" where
  "keyed key m \<longleftrightarrow> map_wf m \<and> (\<forall>(k, x) \<in> set m. key x = k)"

lemma set_map_set: "set (map_set k v m) \<subseteq> insert (k, v) (set m)"
  by (induction k v m rule: map_set.induct) auto

lemma keyed_Nil [simp]: "keyed key []"
  by (simp add: keyed_def)

lemma keyed_set: "keyed key m \<Longrightarrow> keyed key (map_set (key x) x m)"
  unfolding keyed_def using set_map_set [of "key x" x m] by auto

lemma keyed_delete: "keyed key m \<Longrightarrow> keyed key (map_delete k m)"
  unfolding keyed_def by (auto simp: map_delete_def map_wf_def distinct_map_filter)

lemma keyed_fold: "keyed key m \<Longrightarrow> keyed key (foldl (\<lambda>m x. map_set (key x) x m) m xs)"
  by (induction xs arbitrary: m) (simp_all add: keyed_set)

lemma keyed_by_id: "keyed key (by_id key xs)"
  unfolding by_id_def by (rule keyed_fold) simp

lemma keyed_get: "keyed key m \<Longrightarrow> map_get m k = Some x \<Longrightarrow> key x = k"
  by (auto simp: keyed_def map_get_def dest: map_of_SomeD)

lemma map_has_by_id: "map_has (by_id key xs) k \<longleftrightarrow> k \<in> key ` set xs"
  unfolding by_id_def by (simp only: map_has_load) (simp add: map_has_def)

lemma keyed_values: "keyed key m \<Longrightarrow> map key (map_values m) = map fst m"
  by (induction m) (auto simp: keyed_def map_wf_def map_values_def)

lemma distinct_by_id: "distinct (map key (map_values (by_id key xs)))"
  using keyed_by_id [of key xs] by (simp add: keyed_values) (simp add: keyed_def map_wf_def)

section \<open>Ordered sets\<close>

definition set_add :: "'a \<Rightarrow> 'a list \<Rightarrow> 'a list" where
  "set_add x s = (if x \<in> set s then s else s @ [x])"

definition set_delete :: "'a \<Rightarrow> 'a list \<Rightarrow> 'a list" where
  "set_delete x s = filter (\<lambda>y. y \<noteq> x) s"

text \<open>\<open>[...new Set(xs)]\<close>: the first occurrence of every element.\<close>

definition set_of_list :: "'a list \<Rightarrow> 'a list" where
  "set_of_list xs = foldl (\<lambda>s x. set_add x s) [] xs"

locale js_set =
  fixes wf :: "'s \<Rightarrow> bool"
    and emp :: 's
    and add :: "'a \<Rightarrow> 's \<Rightarrow> 's"
    and del :: "'a \<Rightarrow> 's \<Rightarrow> 's"
    and elems :: "'s \<Rightarrow> 'a set"
  assumes wf_emp: "wf emp"
    and wf_add: "wf s \<Longrightarrow> wf (add x s)"
    and wf_del: "wf s \<Longrightarrow> wf (del x s)"
    and elems_emp: "elems emp = {}"
    and elems_add: "wf s \<Longrightarrow> elems (add x s) = insert x (elems s)"
    and elems_del: "wf s \<Longrightarrow> elems (del x s) = elems s - {x}"
begin

lemma wf_add_all: "wf s \<Longrightarrow> wf (foldl (\<lambda>s x. add x s) s xs)"
  by (induction xs arbitrary: s) (simp_all add: wf_add)

lemma elems_add_all: "wf s \<Longrightarrow> elems (foldl (\<lambda>s x. add x s) s xs) = elems s \<union> set xs"
  by (induction xs arbitrary: s) (simp_all add: wf_add elems_add)

lemma wf_del_all: "wf s \<Longrightarrow> wf (foldl (\<lambda>s x. del x s) s xs)"
  by (induction xs arbitrary: s) (simp_all add: wf_del)

lemma elems_del_all: "wf s \<Longrightarrow> elems (foldl (\<lambda>s x. del x s) s xs) = elems s - set xs"
  by (induction xs arbitrary: s) (auto simp: wf_del elems_del)

text \<open>A toggle is an involution on the elements.\<close>

lemma elems_toggle_twice:
  assumes "wf s"
  shows "elems (if x \<in> elems (if x \<in> elems s then del x s else add x s)
      then del x (if x \<in> elems s then del x s else add x s)
      else add x (if x \<in> elems s then del x s else add x s)) = elems s"
  using assms by (auto simp: elems_add elems_del wf_add wf_del)

end

interpretation jset: js_set distinct "[]" set_add set_delete set
  by unfold_locales (auto simp: set_add_def set_delete_def)

lemma distinct_set_of_list [simp]: "distinct (set_of_list xs)"
  unfolding set_of_list_def by (rule jset.wf_add_all) simp

lemma set_set_of_list [simp]: "set (set_of_list xs) = set xs"
  unfolding set_of_list_def using jset.elems_add_all [of "[]" xs] by simp

lemma set_of_list_Nil_iff [simp]: "set_of_list xs = [] \<longleftrightarrow> xs = []"
  by (metis set_empty set_set_of_list)

lemma set_of_list_distinct: "distinct xs \<Longrightarrow> set_of_list xs = xs"
proof (induction xs rule: rev_induct)
  case (snoc x xs)
  then show ?case by (simp add: set_of_list_def) (simp add: set_add_def)
qed (simp add: set_of_list_def)

lemma set_of_list_idem [simp]: "set_of_list (set_of_list xs) = set_of_list xs"
  by (simp add: set_of_list_distinct)

section \<open>\<open>localStorage\<close>\<close>

text \<open>
  A store of strings. A browser may refuse access (private mode, quota); the sources wrap
  the accesses in \<open>try ... catch {}\<close>. \<open>None\<close> is a storage that refuses every access.
\<close>

type_synonym storage = "(string, string) jsmap option"

definition getItem :: "storage \<Rightarrow> string \<Rightarrow> string option" where
  "getItem st k = (case st of None \<Rightarrow> None | Some m \<Rightarrow> map_get m k)"

definition setItem :: "string \<Rightarrow> string \<Rightarrow> storage \<Rightarrow> storage" where
  "setItem k v st = map_option (map_set k v) st"

definition removeItem :: "string \<Rightarrow> storage \<Rightarrow> storage" where
  "removeItem k st = map_option (map_delete k) st"

definition storage_wf :: "storage \<Rightarrow> bool" where
  "storage_wf st = (case st of None \<Rightarrow> True | Some m \<Rightarrow> map_wf m)"

lemma getItem_setItem: "getItem (setItem k v st) k' = (if k' = k \<and> st \<noteq> None then Some v else getItem st k')"
  by (auto simp: getItem_def setItem_def map_get_set split: option.splits)

lemma getItem_removeItem: "getItem (removeItem k st) k' = (if k' = k then None else getItem st k')"
  by (auto simp: getItem_def removeItem_def map_get_delete split: option.splits)

lemmas storage_simps = getItem_setItem getItem_removeItem

end
