(* ===== verification/Js_Text.thy ===== *)
theory Js_Text
  imports Js_Prelude
begin

text \<open>
  Numbers as text: \<open>String(n)\<close>, \<open>n.toFixed(f)\<close>, \<open>parseFloat(s)\<close> and \<open>Number(s)\<close>, as ECMAScript
  defines them. \<open>toFixed\<close> works on the exact value of the double and prefers the larger of two
  closest decimals; \<open>String(n)\<close> prints the shortest decimal that rounds back to \<open>n\<close>; the parsers
  round the exact value of the literal. The section at the end relates printing and parsing.
\<close>

section \<open>Decimal digits\<close>

definition digit_char :: "nat \<Rightarrow> char" where
  "digit_char d = char_of (48 + d)"

definition is_digit :: "char \<Rightarrow> bool" where
  "is_digit c = (let n = of_char c :: nat in 48 \<le> n \<and> n \<le> 57)"

definition digit_val :: "char \<Rightarrow> nat" where
  "digit_val c = of_char c - 48"

fun dec_digits :: "nat \<Rightarrow> string" where
  "dec_digits n = (if n < 10 then [digit_char n] else dec_digits (n div 10) @ [digit_char (n mod 10)])"

declare dec_digits.simps [simp del]

definition nat_of_digits :: "string \<Rightarrow> nat" where
  "nat_of_digits s = foldl (\<lambda>a c. 10 * a + digit_val c) 0 s"

definition show_int :: "int \<Rightarrow> string" where
  "show_int n = (if n < 0 then ''-'' @ dec_digits (nat (- n)) else dec_digits (nat n))"

lemma of_char_digit_char [simp]: "d < 10 \<Longrightarrow> (of_char (digit_char d) :: nat) = 48 + d"
  by (simp add: digit_char_def)

lemma is_digit_digit_char [simp]: "d < 10 \<Longrightarrow> is_digit (digit_char d)"
  by (simp add: is_digit_def)

lemma digit_val_digit_char [simp]: "d < 10 \<Longrightarrow> digit_val (digit_char d) = d"
  by (simp add: digit_val_def)

lemma dec_digits_is_digit: "\<forall>c \<in> set (dec_digits n). is_digit c"
proof (induction n rule: dec_digits.induct)
  case (1 n)
  then show ?case by (subst dec_digits.simps) auto
qed

lemma dec_digits_not_Nil [simp]: "dec_digits n \<noteq> []"
  by (subst dec_digits.simps) simp

lemma nat_of_digits_snoc: "nat_of_digits (s @ [c]) = 10 * nat_of_digits s + digit_val c"
  by (simp add: nat_of_digits_def)

lemma nat_of_dec_digits [simp]: "nat_of_digits (dec_digits n) = n"
proof (induction n rule: dec_digits.induct)
  case (1 n)
  then show ?case
    by (subst dec_digits.simps) (simp add: nat_of_digits_snoc, simp add: nat_of_digits_def)
qed

lemma nat_of_digits_zeros [simp]: "nat_of_digits (replicate k (CHR ''0'') @ s) = nat_of_digits s"
  by (induction k) (simp_all add: nat_of_digits_def digit_val_def)

section \<open>Printing\<close>

text \<open>The decimal exponent: \<open>10 ^ ilog10 x \<le> x < 10 ^ (ilog10 x + 1)\<close> for a positive \<open>x\<close>.\<close>

definition ilog10 :: "rat \<Rightarrow> int" where
  "ilog10 x = (if 1 \<le> x then int (floorlog 10 (nat \<lfloor>x\<rfloor>)) - 1
               else - int (floorlog 10 (nat (\<lceil>1 / x\<rceil> - 1))))"

text \<open>The decimal of \<open>k\<close> digits that rounds to \<open>x\<close>, with its scale, if there is one.\<close>

definition digits_at :: "rat \<Rightarrow> nat \<Rightarrow> (int \<times> int) option" where
  "digits_at x k =
     (let n = ilog10 x + 1;
          y = x * 10 powi (int k - n);
          s1 = \<lfloor>y\<rfloor>; s2 = s1 + 1;
          ok = (\<lambda>s. fl (of_int s * 10 powi (n - int k)) = x)
      in if ok s1 \<and> (\<not> ok s2 \<or> y - of_int s1 \<le> of_int s2 - y) then Some (s1, n)
         else if ok s2 then Some (if s2 = 10 ^ k then (10 ^ (k - 1), n + 1) else (s2, n))
         else None)"

fun shortest_from :: "rat \<Rightarrow> nat \<Rightarrow> nat \<Rightarrow> int \<times> int \<times> nat" where
  "shortest_from x k 0 = (\<lfloor>x * 10 powi (16 - ilog10 x)\<rfloor>, ilog10 x + 1, 17)"
| "shortest_from x k (Suc fuel) =
     (case digits_at x k of
        Some (s, n) \<Rightarrow> (s, n, k)
      | None \<Rightarrow> shortest_from x (Suc k) fuel)"

text \<open>\<open>Number::toString\<close> of a positive value that is not a small integer.\<close>

definition show_pos :: "rat \<Rightarrow> string" where
  "show_pos x =
     (let (s, n, k) = shortest_from x 1 17; ds = dec_digits (nat s); e = n - 1 in
      if int k \<le> n \<and> n \<le> 21 then ds @ replicate (nat n - k) (CHR ''0'')
      else if 0 < n \<and> n \<le> 21 then take (nat n) ds @ ''.'' @ drop (nat n) ds
      else if -6 < n \<and> n \<le> 0 then ''0.'' @ replicate (nat (- n)) (CHR ''0'') @ ds
      else (if k = 1 then ds else take 1 ds @ ''.'' @ drop 1 ds) @ ''e''
           @ (if e < 0 then ''-'' else ''+'') @ dec_digits (nat \<bar>e\<bar>))"

text \<open>An integer below \<open>2 ^ 53\<close> is printed with all its digits.\<close>

fun toString :: "jsnum \<Rightarrow> string" where
  "toString NaN = ''NaN''"
| "toString PInf = ''Infinity''"
| "toString NInf = ''-Infinity''"
| "toString (Num x) =
     (if of_int \<lfloor>x\<rfloor> = x \<and> \<bar>x\<bar> < 2 ^ 53 then show_int \<lfloor>x\<rfloor>
      else if x < 0 then ''-'' @ show_pos (- x) else show_pos x)"

text \<open>\<open>x.toFixed(f)\<close> for a non-negative \<open>x\<close> below \<open>10 ^ 21\<close>: the decimal closest to it.\<close>

definition fixed_int :: "rat \<Rightarrow> nat \<Rightarrow> nat" where
  "fixed_int x f = nat \<lfloor>x * 10 ^ f + 1 / 2\<rfloor>"

definition fixed_pos :: "rat \<Rightarrow> nat \<Rightarrow> string" where
  "fixed_pos x f =
     (let m = dec_digits (fixed_int x f) in
      if f = 0 then m
      else let z = replicate (Suc f - length m) (CHR ''0'') @ m
           in take (length z - f) z @ ''.'' @ drop (length z - f) z)"

definition fixed_num :: "rat \<Rightarrow> nat \<Rightarrow> string" where
  "fixed_num x f =
     (if x < 0 then ''-'' @ (if 10 ^ 21 \<le> - x then toString (Num (- x)) else fixed_pos (- x) f)
      else if 10 ^ 21 \<le> x then toString (Num x) else fixed_pos x f)"

definition toFixed_nat :: "jsnum \<Rightarrow> nat \<Rightarrow> string" where
  "toFixed_nat x f = (case x of Num v \<Rightarrow> fixed_num v f | _ \<Rightarrow> toString x)"

text \<open>
  The digit count is truncated to an integer (\<open>NaN\<close> counts as 0); outside \<open>0 .. 100\<close>,
  \<open>toFixed\<close> throws a \<open>RangeError\<close>.
\<close>

fun trunc_num :: "jsnum \<Rightarrow> int option" where
  "trunc_num (Num x) = Some (if x < 0 then \<lceil>x\<rceil> else \<lfloor>x\<rfloor>)"
| "trunc_num NaN = Some 0"
| "trunc_num _ = None"

definition toFixed :: "jsnum \<Rightarrow> jsnum \<Rightarrow> string js" where
  "toFixed x d =
     (case trunc_num d of
        None \<Rightarrow> Inl RangeError
      | Some f \<Rightarrow> if f < 0 \<or> 100 < f then Inl RangeError else Inr (toFixed_nat x (nat f)))"

section \<open>Parsing\<close>

text \<open>The optional exponent part after a mantissa: its value and what follows.\<close>

definition parse_exp :: "string \<Rightarrow> int \<times> string" where
  "parse_exp s =
     (case s of
        [] \<Rightarrow> (0, s)
      | c # r \<Rightarrow>
          if c = CHR ''e'' \<or> c = CHR ''E'' then
            (let neg = (r \<noteq> [] \<and> hd r = CHR ''-'');
                 r' = (if r \<noteq> [] \<and> (hd r = CHR ''-'' \<or> hd r = CHR ''+'') then tl r else r);
                 ds = takeWhile is_digit r'
             in if ds = [] then (0, s)
                else ((if neg then - int (nat_of_digits ds) else int (nat_of_digits ds)),
                      dropWhile is_digit r'))
          else (0, s))"

text \<open>The longest unsigned decimal literal at the start of a string: its value and the rest.\<close>

definition parse_decimal :: "string \<Rightarrow> (rat \<times> string) option" where
  "parse_decimal s =
     (let ip = takeWhile is_digit s; r1 = dropWhile is_digit s;
          dot = (r1 \<noteq> [] \<and> hd r1 = CHR ''.'');
          fp = (if dot then takeWhile is_digit (tl r1) else []);
          r2 = (if dot then dropWhile is_digit (tl r1) else r1)
      in if ip = [] \<and> fp = [] then None
         else let (e, r3) = parse_exp r2
              in Some (of_nat (nat_of_digits (ip @ fp)) * 10 powi (e - int (length fp)), r3))"

definition split_sign :: "string \<Rightarrow> bool \<times> string" where
  "split_sign s = (case s of [] \<Rightarrow> (False, [])
     | c # r \<Rightarrow> if c = CHR ''-'' then (True, r) else if c = CHR ''+'' then (False, r) else (False, s))"

definition parseFloat :: "string \<Rightarrow> jsnum" where
  "parseFloat s =
     (let (neg, r) = split_sign (dropWhile is_space s);
          v = (if startsWith r ''Infinity'' then PInf
               else case parse_decimal r of None \<Rightarrow> NaN | Some (q, _) \<Rightarrow> to_num q)
      in if neg then jneg v else v)"

text \<open>Digits of the \<open>0x\<close>, \<open>0o\<close> and \<open>0b\<close> literals \<open>Number(s)\<close> also reads.\<close>

definition radix_digit :: "char \<Rightarrow> nat option" where
  "radix_digit c =
     (let n = of_char c :: nat in
      if 48 \<le> n \<and> n \<le> 57 then Some (n - 48)
      else if 97 \<le> n \<and> n \<le> 102 then Some (n - 87)
      else if 65 \<le> n \<and> n \<le> 70 then Some (n - 55) else None)"

fun parse_radix :: "nat \<Rightarrow> nat \<Rightarrow> string \<Rightarrow> nat option" where
  "parse_radix b a [] = Some a"
| "parse_radix b a (c # s) =
     (case radix_digit c of
        Some d \<Rightarrow> if d < b then parse_radix b (b * a + d) s else None
      | None \<Rightarrow> None)"

definition radix_of :: "string \<Rightarrow> nat option" where
  "radix_of p = (if p = ''0x'' \<or> p = ''0X'' then Some 16 else if p = ''0o'' \<or> p = ''0O'' then Some 8
     else if p = ''0b'' \<or> p = ''0B'' then Some 2 else None)"

definition toNumber :: "string \<Rightarrow> jsnum" where
  "toNumber s =
     (let t = trim s in
      if t = [] then Num 0
      else case radix_of (take 2 t) of
        Some b \<Rightarrow> (if drop 2 t = [] then NaN else
                    case parse_radix b 0 (drop 2 t) of Some n \<Rightarrow> to_num (of_nat n) | None \<Rightarrow> NaN)
      | None \<Rightarrow>
          (let (neg, r) = split_sign t;
               v = (if r = ''Infinity'' then PInf
                    else case parse_decimal r of
                      Some (q, []) \<Rightarrow> to_num q
                    | _ \<Rightarrow> NaN)
           in if neg then jneg v else v))"

section \<open>Printing and parsing\<close>

definition all_digits :: "string \<Rightarrow> bool" where
  "all_digits s = (\<forall>c \<in> set s. is_digit c)"

lemma all_digits_dec [simp]: "all_digits (dec_digits n)"
  using dec_digits_is_digit by (simp add: all_digits_def)

lemma is_digit_0 [simp]: "is_digit (CHR ''0'')"
  by (simp add: is_digit_def)

lemma not_is_digit [simp]: "\<not> is_digit (CHR ''.'')" "\<not> is_digit (CHR ''-'')"
  "\<not> is_digit (CHR ''+'')" "\<not> is_digit (CHR ''I'')" "\<not> is_digit (CHR ''x'')" "\<not> is_digit (CHR ''X'')"
  "\<not> is_digit (CHR ''o'')" "\<not> is_digit (CHR ''O'')" "\<not> is_digit (CHR ''b'')" "\<not> is_digit (CHR ''B'')"
  by (simp_all add: is_digit_def)

lemma digit_not_space: "is_digit c \<Longrightarrow> \<not> is_space c"
  by (auto simp: is_digit_def is_space_def Let_def)

lemma takeWhile_all_digits:
  "all_digits a \<Longrightarrow> takeWhile is_digit (a @ b) = a @ takeWhile is_digit b"
  "all_digits a \<Longrightarrow> dropWhile is_digit (a @ b) = dropWhile is_digit b"
  by (simp_all add: all_digits_def takeWhile_append dropWhile_append)

lemma all_digits_whole: "all_digits a \<Longrightarrow> takeWhile is_digit a = a" "all_digits a \<Longrightarrow> dropWhile is_digit a = []"
  by (simp_all add: all_digits_def takeWhile_eq_all_conv)

lemma parse_exp_Nil [simp]: "parse_exp [] = (0, [])"
  by (simp add: parse_exp_def)

lemma parse_decimal_int:
  assumes "all_digits a" "a \<noteq> []"
  shows "parse_decimal a = Some (of_nat (nat_of_digits a), [])"
  using assms by (simp add: parse_decimal_def Let_def all_digits_whole)

lemma parse_decimal_point:
  assumes "all_digits a" "a \<noteq> []" "all_digits b"
  shows "parse_decimal (a @ ''.'' @ b) =
    Some (of_nat (nat_of_digits (a @ b)) * 10 powi (- int (length b)), [])"
  using assms by (simp add: parse_decimal_def Let_def takeWhile_all_digits all_digits_whole)

text \<open>What the parsers make of an unsigned literal of digits.\<close>

lemma digits_head:
  assumes "all_digits a" "a \<noteq> []"
  shows "dropWhile is_space (a @ s) = a @ s" "split_sign (a @ s) = (False, a @ s)"
    "\<not> startsWith (a @ s) ''Infinity''" "split_sign (''-'' @ a @ s) = (True, a @ s)"
    "dropWhile is_space (''-'' @ a @ s) = ''-'' @ a @ s"
proof -
  obtain c r where a: "a = c # r" "is_digit c" using assms by (cases a) (auto simp: all_digits_def)
  have n: "c \<noteq> CHR ''-''" "c \<noteq> CHR ''+''" "c \<noteq> CHR ''I''" using a(2) not_is_digit by metis+
  show "dropWhile is_space (a @ s) = a @ s" using a digit_not_space by simp
  show "split_sign (a @ s) = (False, a @ s)" using a n by (simp add: split_sign_def)
  show "\<not> startsWith (a @ s) ''Infinity''" using a n by (simp add: startsWith_def)
  show "split_sign (''-'' @ a @ s) = (True, a @ s)" by (simp add: split_sign_def)
  show "dropWhile is_space (''-'' @ a @ s) = ''-'' @ a @ s" by (simp add: is_space_def)
qed

lemma parseFloat_digits:
  assumes "all_digits a" "a \<noteq> []" "parse_decimal (a @ s) = Some (q, r)"
  shows "parseFloat (a @ s) = to_num q" "parseFloat (''-'' @ a @ s) = jneg (to_num q)"
  unfolding parseFloat_def using assms digits_head [OF assms(1,2), of s]
  by (simp_all add: Let_def)

lemma parseFloat_show_int: "parseFloat (show_int n) = to_num (of_int n)"
proof (cases "n < 0")
  case True
  have "parseFloat (''-'' @ dec_digits (nat (- n)) @ []) = jneg (to_num (of_nat (nat (- n))))"
    by (rule parseFloat_digits(2)) (simp_all add: parse_decimal_int)
  also have "\<dots> = to_num (of_int n)" using True by (simp flip: to_num_minus)
  finally show ?thesis using True by (simp add: show_int_def)
next
  case False
  have "parseFloat (dec_digits (nat n) @ []) = to_num (of_nat (nat n))"
    by (rule parseFloat_digits(1)) (simp_all add: parse_decimal_int)
  then show ?thesis using False by (simp add: show_int_def)
qed

lemma radix_of_digits: "all_digits a \<Longrightarrow> radix_of (take 2 a) = None"
proof (cases a)
  case (Cons c r)
  assume d: "all_digits a"
  show ?thesis
  proof (cases r)
    case (Cons c' r')
    then have "is_digit c'" using d \<open>a = c # r\<close> by (simp add: all_digits_def)
    then have "[c, c'] \<noteq> [CHR ''0'', y]" if "\<not> is_digit y" for y using that by auto
    then show ?thesis
      by (simp add: \<open>a = c # r\<close> Cons numeral_2_eq_2 radix_of_def del: list.inject)
  qed (simp add: Cons radix_of_def)
qed (simp add: radix_of_def)

lemma trim_digits: "all_digits a \<Longrightarrow> trim a = a"
  by (rule trim_no_space) (auto simp: all_digits_def digit_not_space)

text \<open>\<open>Number(s)\<close> reads a plain run of digits as the integer it denotes.\<close>

lemma toNumber_digits:
  assumes "all_digits a" "a \<noteq> []" shows "toNumber a = to_num (of_nat (nat_of_digits a))"
proof -
  have "a \<noteq> ''Infinity''" using assms(1) by (auto simp: all_digits_def)
  then show ?thesis using assms digits_head(2) [OF assms, of "[]"]
    by (simp add: toNumber_def Let_def trim_digits radix_of_digits parse_decimal_int)
qed

lemma toNumber_dec_digits: "toNumber (dec_digits n) = to_num (of_nat n)"
  by (simp add: toNumber_digits)

subsection \<open>\<open>toFixed\<close>\<close>

lemma fixed_pos_split:
  obtains a b where "fixed_pos x f = a @ (if f = 0 then [] else ''.'' @ b)"
    "all_digits a" "a \<noteq> []" "all_digits b" "length b = f"
    "nat_of_digits (a @ b) = fixed_int x f"
proof (cases "f = 0")
  case True
  then show ?thesis using that [of "dec_digits (fixed_int x f)" "[]"]
    by (simp add: fixed_pos_def all_digits_def dec_digits_is_digit)
next
  case False
  let ?m = "dec_digits (fixed_int x f)"
  let ?z = "replicate (Suc f - length ?m) (CHR ''0'') @ ?m"
  have l: "Suc f \<le> length ?z" by simp
  have d: "all_digits ?z" using dec_digits_is_digit by (auto simp: all_digits_def)
  show ?thesis
  proof (rule that [of "take (length ?z - f) ?z" "drop (length ?z - f) ?z"])
    show "all_digits (take (length ?z - f) ?z)" "all_digits (drop (length ?z - f) ?z)"
      using d by (meson all_digits_def in_set_takeD, meson all_digits_def in_set_dropD)
    show "take (length ?z - f) ?z \<noteq> []" using l by (simp only: take_eq_Nil) auto
    show "length (drop (length ?z - f) ?z) = f" using l by (simp only: length_drop)
    show "nat_of_digits (take (length ?z - f) ?z @ drop (length ?z - f) ?z) = fixed_int x f"
      by (simp only: append_take_drop_id nat_of_digits_zeros nat_of_dec_digits)
    show "fixed_pos x f = take (length ?z - f) ?z @
        (if f = 0 then [] else ''.'' @ drop (length ?z - f) ?z)"
      using False by (simp add: fixed_pos_def Let_def)
  qed
qed

text \<open>The value \<open>toFixed\<close> shows: the closest decimal, at most half a unit away.\<close>

definition fixed_val :: "rat \<Rightarrow> nat \<Rightarrow> rat" where
  "fixed_val x f = of_nat (fixed_int x f) / 10 ^ f"

lemma fixed_val_error:
  assumes "0 \<le> x" shows "\<bar>fixed_val x f - x\<bar> \<le> 1 / (2 * 10 ^ f)"
proof -
  let ?y = "x * 10 ^ f"
  have p: "(0::rat) < 10 ^ f" by simp
  have "0 \<le> \<lfloor>?y + 1 / 2\<rfloor>" using assms by simp
  then have n: "(of_nat (fixed_int x f) :: rat) = of_int \<lfloor>?y + 1 / 2\<rfloor>"
    by (simp add: fixed_int_def)
  have "\<bar>of_nat (fixed_int x f) - ?y\<bar> \<le> 1 / 2"
    unfolding n by linarith
  then have "\<bar>of_nat (fixed_int x f) - ?y\<bar> / 10 ^ f \<le> (1 / 2) / 10 ^ f"
    using p by (intro divide_right_mono) simp_all
  moreover have "fixed_val x f - x = (of_nat (fixed_int x f) - ?y) / 10 ^ f"
    by (simp add: fixed_val_def field_simps)
  then have "\<bar>of_nat (fixed_int x f) - ?y\<bar> / 10 ^ f = \<bar>fixed_val x f - x\<bar>"
    using p by (simp add: abs_divide)
  ultimately show ?thesis by simp
qed

lemma parseFloat_fixed_pos:
  "parseFloat (fixed_pos x f) = to_num (fixed_val x f)"
  "parseFloat (''-'' @ fixed_pos x f) = jneg (to_num (fixed_val x f))"
proof -
  obtain a b where ab: "fixed_pos x f = a @ (if f = 0 then [] else ''.'' @ b)"
    "all_digits a" "a \<noteq> []" "all_digits b" "length b = f" "nat_of_digits (a @ b) = fixed_int x f"
    by (rule fixed_pos_split)
  have p: "parse_decimal (fixed_pos x f) = Some (fixed_val x f, [])"
  proof (cases "f = 0")
    case True
    then show ?thesis using ab by (simp add: parse_decimal_int fixed_val_def)
  next
    case False
    then show ?thesis using ab parse_decimal_point [OF ab(2,3,4)]
      by (simp add: fixed_val_def power_int_minus divide_inverse)
  qed
  show "parseFloat (fixed_pos x f) = to_num (fixed_val x f)"
    "parseFloat (''-'' @ fixed_pos x f) = jneg (to_num (fixed_val x f))"
    using parseFloat_digits [OF ab(2,3), of "if f = 0 then [] else ''.'' @ b" "fixed_val x f" "[]"] p
    by (simp_all add: ab(1))
qed

lemma toFixed_nat_parse:
  assumes "\<bar>x\<bar> < 10 ^ 21"
  shows "parseFloat (toFixed_nat (Num x) f) = to_num (sgn x * fixed_val \<bar>x\<bar> f)"
  using assms parseFloat_fixed_pos [of "\<bar>x\<bar>" f]
  by (cases x "0::rat" rule: linorder_cases)
    (auto simp: toFixed_nat_def fixed_num_def to_num_minus fixed_val_def fixed_int_def floor_less_iff
      num_simps)

lemma toFixed_ok: "toFixed x (Num (of_nat f)) = (if f \<le> 100 then Inr (toFixed_nat x f) else Inl RangeError)"
  by (auto simp: toFixed_def)

lemma is_double_parseFloat [simp]: "is_double (parseFloat s)"
  by (auto simp: parseFloat_def Let_def split: prod.split option.split)

text \<open>What evaluates concrete texts with the simplifier.\<close>

lemmas parse_float_simps = parseFloat_def split_sign_def is_space_def parse_decimal_def is_digit_def nat_of_digits_def
  digit_val_def parse_exp_def power_int_minus startsWith_def

lemma digit_chars:
  "digit_char 0 = CHR ''0''" "digit_char 1 = CHR ''1''" "digit_char 2 = CHR ''2''" "digit_char 3 = CHR ''3''"
  "digit_char 4 = CHR ''4''" "digit_char 5 = CHR ''5''" "digit_char 6 = CHR ''6''" "digit_char 7 = CHR ''7''"
  "digit_char 8 = CHR ''8''" "digit_char 9 = CHR ''9''"
  by code_simp+

lemmas dec_digits_simps = dec_digits.simps [of "numeral w" for w] dec_digits.simps [of "Suc 0"] dec_digits.simps [of 0] digit_chars

end
