(* ===== verification/Leverage.thy ===== *)
theory Leverage
  imports Js_Text
begin

text \<open>
  Effective leverage of an order (\<open>shared/api/auth.api.ts\<close>): the tier of a symbol's leverage
  profile that the notional falls into, its fallbacks, and the clamp into the user's limits.

  The two scans of the source that keep a best candidate are folds; the locale \<open>scan_best\<close> says
  what such a fold computes for any strict order, and is interpreted on \<open><\<close> and \<open>>\<close> of numbers.
\<close>

section \<open>Keeping the best candidate\<close>

fun better_of :: "('k \<Rightarrow> 'k \<Rightarrow> bool) \<Rightarrow> ('k \<times> 'v) option \<Rightarrow> 'k \<times> 'v \<Rightarrow> ('k \<times> 'v) option" where
  "better_of lt None c = Some c"
| "better_of lt (Some b) c = (if lt (fst c) (fst b) then Some c else Some b)"

locale scan_best =
  fixes lt :: "'k \<Rightarrow> 'k \<Rightarrow> bool" and ok :: "'k \<Rightarrow> bool"
  assumes lt_irrefl: "\<not> lt x x"
    and lt_trans: "lt x y \<Longrightarrow> lt y z \<Longrightarrow> lt x z"
    and lt_linear: "ok x \<Longrightarrow> ok y \<Longrightarrow> lt x y \<or> x = y \<or> lt y x"
begin

lemma scan_None: "foldl (better_of lt) None cs = None \<longleftrightarrow> cs = []"
proof (cases cs rule: rev_exhaust)
  case (snoc ds c)
  then show ?thesis by (cases "foldl (better_of lt) None ds") auto
qed simp

text \<open>The scan returns the first of the candidates that no other one beats.\<close>

lemma scan_Some:
  assumes "\<forall>c \<in> set cs. ok (fst c)" "foldl (better_of lt) None cs = Some b"
  shows "\<exists>pre post. cs = pre @ b # post \<and> (\<forall>c \<in> set pre. lt (fst b) (fst c)) \<and>
    (\<forall>c \<in> set post. \<not> lt (fst c) (fst b))"
  using assms
proof (induction cs arbitrary: b rule: rev_induct)
  case (snoc c cs)
  show ?case
  proof (cases "foldl (better_of lt) None cs")
    case None
    then have "cs = []" by (simp add: scan_None)
    then show ?thesis using snoc.prems by (intro exI [of _ "[]"]) auto
  next
    case (Some b')
    then obtain pre post where i: "cs = pre @ b' # post"
      "\<forall>c \<in> set pre. lt (fst b') (fst c)" "\<forall>c \<in> set post. \<not> lt (fst c) (fst b')"
      using snoc by auto
    show ?thesis
    proof (cases "lt (fst c) (fst b')")
      case True
      have "lt (fst c) (fst d)" if "d \<in> set cs" for d
      proof -
        have "lt (fst b') (fst d) \<or> fst b' = fst d"
          using that i snoc.prems(1) lt_linear [of "fst b'" "fst d"] by auto
        then show ?thesis using True lt_trans by metis
      qed
      moreover have "b = c" using True snoc.prems(2) Some by simp
      ultimately show ?thesis by (intro exI [of _ cs] exI [of _ "[]"]) simp
    next
      case False
      then have "b = b'" using snoc.prems(2) Some by simp
      then show ?thesis using i False
        by (intro exI [of _ pre] exI [of _ "post @ [c]"]) auto
    qed
  qed
qed simp

end

interpretation low: scan_best jlt "\<lambda>x. x \<noteq> NaN"
  by unfold_locales (auto intro: jlt_trans dest: jlt_linear)

interpretation high: scan_best "\<lambda>x y. jlt y x" "\<lambda>x. x \<noteq> NaN"
  by unfold_locales (auto intro: jlt_trans dest: jlt_linear)

section \<open>Tiers\<close>

record SymbolLeverageTier =
  tier_index :: jsnum
  notional_from :: string
  notional_to :: "string option"
  max_leverage :: jsnum
  initial_margin_percent :: string
  maintenance_margin_percent :: string

definition parseBound :: "string \<Rightarrow> jsnum" where
  "parseBound s = (let v = parseFloat (trim s) in if isFinite v then v else NaN)"

text \<open>A tier with no upper bound.\<close>

definition open_ended :: "SymbolLeverageTier \<Rightarrow> bool" where
  "open_ended t = (case notional_to t of None \<Rightarrow> True | Some s \<Rightarrow> trim s = [])"

section \<open>The three scans\<close>

text \<open>\<open>inTier\<close> of the first loop; an unreadable bound skips the tier.\<close>

definition in_tier :: "jsnum \<Rightarrow> SymbolLeverageTier \<Rightarrow> bool" where
  "in_tier n t =
     (let from = parseBound (notional_from t) in
      if isNaN from \<or> jlt n from then False
      else if open_ended t then True
      else (let to = parseBound (the (notional_to t)) in
            if isNaN to then False else jlt n to))"

text \<open>One round of the first loop on \<open>(bestLev, bestFrom)\<close>.\<close>

definition band_step ::
  "jsnum \<Rightarrow> jsnum option \<times> jsnum option \<Rightarrow> SymbolLeverageTier \<Rightarrow> jsnum option \<times> jsnum option" where
  "band_step n best t =
     (if in_tier n t then
        (let from = parseBound (notional_from t) in
         case best of (bestLev, bestFrom) \<Rightarrow>
           (case bestFrom of
              None \<Rightarrow> (Some (max_leverage t), Some from)
            | Some f \<Rightarrow> if jlt f from then (Some (max_leverage t), Some from) else best))
      else best)"

definition tightest_band :: "jsnum \<Rightarrow> SymbolLeverageTier list \<Rightarrow> jsnum option" where
  "tightest_band n tiers = fst (foldl (band_step n) (None, None) tiers)"

text \<open>The second loop, on the tiers from the last one down.\<close>

fun open_band :: "jsnum \<Rightarrow> SymbolLeverageTier list \<Rightarrow> jsnum option" where
  "open_band n [] = None"
| "open_band n (t # ts) =
     (if \<not> open_ended t then open_band n ts
      else let from = parseBound (notional_from t) in
        if isNaN from then open_band n ts
        else if jle from n then Some (max_leverage t)
        else open_band n ts)"

text \<open>One round of the third loop, on \<open>bestFloor\<close>.\<close>

definition floor_step :: "(jsnum \<times> jsnum) option \<Rightarrow> SymbolLeverageTier \<Rightarrow> (jsnum \<times> jsnum) option" where
  "floor_step bestFloor t =
     (let from = parseBound (notional_from t) in
      if isNaN from then bestFloor
      else case bestFloor of
        None \<Rightarrow> Some (from, max_leverage t)
      | Some b \<Rightarrow> if jlt from (fst b) then Some (from, max_leverage t) else bestFloor)"

definition lowest_floor :: "SymbolLeverageTier list \<Rightarrow> (jsnum \<times> jsnum) option" where
  "lowest_floor tiers = foldl floor_step None tiers"

section \<open>\<open>effectiveLeverageFromTiers\<close>\<close>

text \<open>The tier's leverage before the limits: the three searches in turn.\<close>

definition symbol_leverage :: "jsnum \<Rightarrow> SymbolLeverageTier list \<Rightarrow> jsnum option" where
  "symbol_leverage n tiers =
     (let s1 = tightest_band n tiers;
          s2 = (if s1 = None then open_band n (rev tiers) else s1)
      in if s2 = None \<and> jlt (Num 0) n then
           (case lowest_floor tiers of
              None \<Rightarrow> None
            | Some b \<Rightarrow> if jlt n (fst b) then Some (snd b) else None)
         else s2)"

definition effectiveLeverageFromTiers ::
  "jsnum \<Rightarrow> SymbolLeverageTier list \<Rightarrow> jsnum \<Rightarrow> jsnum \<Rightarrow> jsnum option" where
  "effectiveLeverageFromTiers notional tiers userMin userMax =
     (if \<not> isFinite notional \<or> jlt notional (Num 0) then None
      else if jlt userMin (Num 1) \<or> jlt userMax (Num 1) \<or> jlt userMax userMin then None
      else if tiers = [] then None
      else if jeq notional (Num 0) then None
      else case symbol_leverage notional tiers of
        None \<Rightarrow> None
      | Some symbolLev \<Rightarrow>
          if jlt symbolLev (Num 1) then None
          else Some (jmax userMin (jmin userMax symbolLev)))"

text \<open>\<open>None\<close> for an argument is \<open>null\<close> or \<open>undefined\<close>.\<close>

definition getEffectiveLeverage ::
  "jsnum \<Rightarrow> SymbolLeverageTier list option \<Rightarrow> jsnum option \<Rightarrow> jsnum option \<Rightarrow> jsnum \<Rightarrow> jsnum" where
  "getEffectiveLeverage notional tiers userMin userMax defaultLeverage =
     (if \<not> isFinite notional \<or> jlt notional (Num 0) then defaultLeverage
      else case tiers of
        None \<Rightarrow> defaultLeverage
      | Some [] \<Rightarrow> defaultLeverage
      | Some t \<Rightarrow>
          (let minL = (case userMin of Some v \<Rightarrow> v | None \<Rightarrow> Num 1);
               maxL = (case userMax of Some v \<Rightarrow> v | None \<Rightarrow> Num 500)
           in case effectiveLeverageFromTiers notional t minL maxL of
                Some r \<Rightarrow> r
              | None \<Rightarrow> defaultLeverage))"

section \<open>What the scans compute\<close>

definition band_from :: "SymbolLeverageTier \<Rightarrow> jsnum" where
  "band_from t = parseBound (notional_from t)"

definition band_cand :: "SymbolLeverageTier \<Rightarrow> jsnum \<times> jsnum" where
  "band_cand t = (band_from t, max_leverage t)"

lemma in_tier_from: "in_tier n t \<Longrightarrow> band_from t \<noteq> NaN"
  by (auto simp: in_tier_def band_from_def isNaN_def Let_def split: if_splits)

lemma parseBound_range: "parseBound s = NaN \<or> (\<exists>x. parseBound s = Num x)"
  by (cases "parseFloat (trim s)") (auto simp: parseBound_def Let_def)

text \<open>A bound written with digits only is the integer it shows.\<close>

lemma parseBound_digits:
  assumes "all_digits s" "s \<noteq> []" "nat_of_digits s \<le> 2 ^ 53"
  shows "parseBound s = Num (of_nat (nat_of_digits s))"
proof -
  have "parseFloat (s @ []) = to_num (of_nat (nat_of_digits s))"
    using assms by (intro parseFloat_digits) (simp_all add: parse_decimal_int)
  moreover have "to_num (of_int (int (nat_of_digits s))) = Num (of_int (int (nat_of_digits s)))"
    using assms(3) by (intro to_num_of_int) simp
  ultimately show ?thesis using assms(1) by (simp add: parseBound_def trim_digits)
qed

lemma band_fold:
  "foldl (band_step n) (map_option snd b, map_option fst b) ts =
     (let r = foldl (better_of (\<lambda>x y. jlt y x)) b (map band_cand (filter (in_tier n) ts))
      in (map_option snd r, map_option fst r))"
proof (induction ts arbitrary: b)
  case (Cons t ts)
  have "band_step n (map_option snd b, map_option fst b) t =
    (let b' = (if in_tier n t then better_of (\<lambda>x y. jlt y x) b (band_cand t) else b)
     in (map_option snd b', map_option fst b'))"
    by (cases b) (simp_all add: band_step_def band_cand_def band_from_def Let_def)
  then show ?case using Cons.IH by (simp add: Let_def)
qed simp

lemma tightest_band_scan:
  "tightest_band n ts = map_option snd
     (foldl (better_of (\<lambda>x y. jlt y x)) None (map band_cand (filter (in_tier n) ts)))"
  using band_fold [of n None ts] by (simp add: tightest_band_def Let_def)

lemma floor_fold:
  "foldl floor_step b ts =
     foldl (better_of jlt) b (map band_cand (filter (\<lambda>t. band_from t \<noteq> NaN) ts))"
proof (induction ts arbitrary: b)
  case (Cons t ts)
  have "floor_step b t = (if band_from t \<noteq> NaN then better_of jlt b (band_cand t) else b)"
    by (cases b) (simp_all add: floor_step_def band_cand_def band_from_def isNaN_def Let_def)
  then show ?case using Cons.IH by simp
qed simp

text \<open>An open-ended tier that the second loop accepts is in the first loop's band already.\<close>

lemma open_band_in_tier: "open_band n ts = Some l \<Longrightarrow> n \<noteq> NaN \<Longrightarrow> \<exists>t \<in> set ts. in_tier n t"
proof (induction n ts rule: open_band.induct)
  case (2 n t ts)
  show ?case
  proof (cases "open_ended t \<and> \<not> isNaN (parseBound (notional_from t)) \<and> jle (parseBound (notional_from t)) n")
    case True
    then have "in_tier n t"
      by (simp add: in_tier_def Let_def isNaN_def) (use 2 not_jlt_iff in blast)
    then show ?thesis by simp
  next
    case False
    then have "open_band n ts = Some l" using 2(4) by (auto simp: Let_def split: if_splits)
    then show ?thesis using 2 False by (auto simp: Let_def)
  qed
qed simp

lemma tightest_band_None: "tightest_band n ts = None \<longleftrightarrow> (\<forall>t \<in> set ts. \<not> in_tier n t)"
  by (simp add: tightest_band_scan high.scan_None filter_empty_conv)

text \<open>The first loop picks the first of the tightest bands around the notional.\<close>

lemma filter_split:
  assumes "filter P xs = us @ y # vs"
  shows "\<exists>pre post. xs = pre @ y # post \<and> P y \<and> filter P pre = us \<and> filter P post = vs"
  using assms
proof (induction xs arbitrary: us)
  case (Cons x xs)
  show ?case
  proof (cases "P x \<and> us = []")
    case True
    then show ?thesis using Cons.prems by (intro exI [of _ "[]"] exI [of _ xs]) auto
  next
    case False
    then obtain us' where "filter P xs = us' @ y # vs" "us = (if P x then x # us' else us')"
      using Cons.prems by (cases us) (auto split: if_splits)
    with Cons.IH obtain pre post where "xs = pre @ y # post" "P y" "filter P pre = us'"
      "filter P post = vs" by blast
    then show ?thesis using \<open>us = _\<close> by (intro exI [of _ "x # pre"] exI [of _ post]) auto
  qed
qed simp

definition is_tightest :: "jsnum \<Rightarrow> SymbolLeverageTier list \<Rightarrow> SymbolLeverageTier \<Rightarrow> bool" where
  "is_tightest n ts t = (in_tier n t \<and> (\<exists>pre post. ts = pre @ t # post \<and>
    (\<forall>u \<in> set pre. in_tier n u \<longrightarrow> jlt (band_from u) (band_from t)) \<and>
    (\<forall>u \<in> set post. in_tier n u \<longrightarrow> jle (band_from u) (band_from t))))"

lemma tightest_band_Some:
  assumes "tightest_band n ts = Some l"
  shows "\<exists>t. is_tightest n ts t \<and> max_leverage t = l"
proof -
  let ?cs = "map band_cand (filter (in_tier n) ts)"
  obtain b where b: "foldl (better_of (\<lambda>x y. jlt y x)) None ?cs = Some b" "snd b = l"
    using assms by (auto simp: tightest_band_scan)
  have "\<forall>c \<in> set ?cs. fst c \<noteq> NaN" by (auto simp: band_cand_def dest: in_tier_from)
  from high.scan_Some [OF this b(1)] obtain us vs where
    uv: "?cs = us @ b # vs" "\<forall>c \<in> set us. jlt (fst c) (fst b)" "\<forall>c \<in> set vs. \<not> jlt (fst b) (fst c)"
    by blast
  then obtain us' t vs' where f: "filter (in_tier n) ts = us' @ t # vs'" "us = map band_cand us'"
    "b = band_cand t" "vs = map band_cand vs'" by (auto simp: map_eq_append_conv map_eq_Cons_conv)
  obtain pre post where s: "ts = pre @ t # post" "in_tier n t" "filter (in_tier n) pre = us'"
    "filter (in_tier n) post = vs'" using filter_split [OF f(1)] by blast
  have "jlt (band_from u) (band_from t)" if "u \<in> set pre" "in_tier n u" for u
  proof -
    have "u \<in> set us'" using that s(3) by auto
    then show ?thesis using uv(2) f by (auto simp: band_cand_def)
  qed
  moreover have "jle (band_from u) (band_from t)" if "u \<in> set post" "in_tier n u" for u
  proof -
    have "u \<in> set vs'" using that s(4) by auto
    then have "\<not> jlt (band_from t) (band_from u)" using uv(3) f by (auto simp: band_cand_def)
    then show ?thesis using that(2) s(2) in_tier_from not_jlt_iff by blast
  qed
  ultimately have "is_tightest n ts t" using s(1,2) unfolding is_tightest_def by blast
  then show ?thesis using b(2) f(3) by (auto simp: band_cand_def)
qed

definition is_lowest :: "SymbolLeverageTier list \<Rightarrow> SymbolLeverageTier \<Rightarrow> bool" where
  "is_lowest ts t = (band_from t \<noteq> NaN \<and> (\<exists>pre post. ts = pre @ t # post \<and>
    (\<forall>u \<in> set pre. band_from u \<noteq> NaN \<longrightarrow> jlt (band_from t) (band_from u)) \<and>
    (\<forall>u \<in> set post. band_from u \<noteq> NaN \<longrightarrow> jle (band_from t) (band_from u))))"

lemma lowest_floor_Some:
  assumes "lowest_floor ts = Some b"
  shows "\<exists>t. is_lowest ts t \<and> b = (band_from t, max_leverage t)"
proof -
  let ?P = "\<lambda>t. band_from t \<noteq> NaN"
  let ?cs = "map band_cand (filter ?P ts)"
  have b: "foldl (better_of jlt) None ?cs = Some b"
    using assms by (simp add: lowest_floor_def floor_fold)
  have "\<forall>c \<in> set ?cs. fst c \<noteq> NaN" by (auto simp: band_cand_def)
  from low.scan_Some [OF this b] obtain us vs where
    uv: "?cs = us @ b # vs" "\<forall>c \<in> set us. jlt (fst b) (fst c)" "\<forall>c \<in> set vs. \<not> jlt (fst c) (fst b)"
    by blast
  then obtain us' t vs' where f: "filter ?P ts = us' @ t # vs'" "us = map band_cand us'"
    "b = band_cand t" "vs = map band_cand vs'" by (auto simp: map_eq_append_conv map_eq_Cons_conv)
  obtain pre post where s: "ts = pre @ t # post" "?P t" "filter ?P pre = us'" "filter ?P post = vs'"
    using filter_split [OF f(1)] by blast
  have "jlt (band_from t) (band_from u)" if "u \<in> set pre" "?P u" for u
  proof -
    have "u \<in> set us'" using that s(3) by auto
    then show ?thesis using uv(2) f by (auto simp: band_cand_def)
  qed
  moreover have "jle (band_from t) (band_from u)" if "u \<in> set post" "?P u" for u
  proof -
    have "u \<in> set vs'" using that s(4) by auto
    then have "\<not> jlt (band_from u) (band_from t)" using uv(3) f by (auto simp: band_cand_def)
    then show ?thesis using that(2) s(2) not_jlt_iff by blast
  qed
  ultimately have "is_lowest ts t" using s(1,2) unfolding is_lowest_def by blast
  then show ?thesis using f(3) by (auto simp: band_cand_def)
qed

lemma lowest_floor_None: "lowest_floor ts = None \<longleftrightarrow> (\<forall>t \<in> set ts. band_from t = NaN)"
  by (simp add: lowest_floor_def floor_fold low.scan_None filter_empty_conv)

text \<open>The second search never decides: it finds a tier only when the first one did.\<close>

lemma symbol_leverage_simple:
  assumes "n \<noteq> NaN" "jlt (Num 0) n"
  shows "symbol_leverage n ts = (case tightest_band n ts of
     Some l \<Rightarrow> Some l
   | None \<Rightarrow> (case lowest_floor ts of None \<Rightarrow> None | Some b \<Rightarrow> if jlt n (fst b) then Some (snd b) else None))"
proof (cases "tightest_band n ts")
  case None
  then have "open_band n (rev ts) = None"
    using open_band_in_tier [of n "rev ts"] assms(1)
    by (cases "open_band n (rev ts)") (auto simp: tightest_band_None)
  then show ?thesis using assms None by (simp add: symbol_leverage_def)
qed (simp add: symbol_leverage_def)

text \<open>Guards of \<open>effectiveLeverageFromTiers\<close> that all hold.\<close>

definition leverage_args_ok :: "jsnum \<Rightarrow> SymbolLeverageTier list \<Rightarrow> jsnum \<Rightarrow> jsnum \<Rightarrow> bool" where
  "leverage_args_ok n tiers lo hi = (isFinite n \<and> jlt (Num 0) n \<and> tiers \<noteq> [] \<and>
     jle (Num 1) lo \<and> jle lo hi)"

definition clamp_leverage :: "jsnum \<Rightarrow> jsnum \<Rightarrow> jsnum \<Rightarrow> jsnum option" where
  "clamp_leverage lo hi l = (if jlt l (Num 1) then None else Some (jmax lo (jmin hi l)))"

lemma effective_ok:
  assumes "leverage_args_ok n tiers lo hi"
  shows "effectiveLeverageFromTiers n tiers lo hi =
    (case symbol_leverage n tiers of None \<Rightarrow> None | Some l \<Rightarrow> clamp_leverage lo hi l)"
proof -
  obtain x where n: "n = Num x" "0 < x" using assms by (cases n) (auto simp: leverage_args_ok_def)
  have h: "jle (Num 1) hi" "lo \<noteq> NaN" "hi \<noteq> NaN"
    using assms jle_trans jle_not_nan unfolding leverage_args_ok_def by blast+
  have "\<not> jlt lo (Num 1)" "\<not> jlt hi (Num 1)" "\<not> jlt hi lo"
    using assms h by (simp_all add: not_jlt_iff leverage_args_ok_def)
  then show ?thesis using n assms
    by (simp add: effectiveLeverageFromTiers_def clamp_leverage_def leverage_args_ok_def split: option.splits)
qed

lemma is_tightest_mem: "is_tightest n ts t \<Longrightarrow> t \<in> set ts"
  and is_lowest_mem: "is_lowest ts t \<Longrightarrow> t \<in> set ts"
  by (auto simp: is_tightest_def is_lowest_def)

lemma symbol_leverage_mem:
  assumes "n \<noteq> NaN" "jlt (Num 0) n" "symbol_leverage n ts = Some l"
  shows "\<exists>t \<in> set ts. max_leverage t = l"
proof (cases "tightest_band n ts")
  case None
  then obtain b where b: "lowest_floor ts = Some b" "snd b = l"
    using assms by (auto simp: symbol_leverage_simple split: option.splits if_splits)
  then show ?thesis using lowest_floor_Some [OF b(1)] is_lowest_mem by auto
next
  case (Some k)
  then show ?thesis using assms tightest_band_Some [OF Some] is_tightest_mem by (auto simp: symbol_leverage_simple)
qed

lemma effective_in_limits:
  assumes "lo \<noteq> NaN" "hi \<noteq> NaN" "\<forall>t \<in> set ts. max_leverage t \<noteq> NaN"
    and "effectiveLeverageFromTiers n ts lo hi = Some r"
  shows "jle lo r \<and> jle r hi"
proof -
  obtain x where n: "n = Num x" "0 < x" using assms(4)
    by (cases n) (auto simp: effectiveLeverageFromTiers_def jeq_def split: if_splits)
  then obtain l where l: "symbol_leverage n ts = Some l" "r = jmax lo (jmin hi l)" "\<not> jlt hi lo"
    using assms(4) by (auto simp: effectiveLeverageFromTiers_def split: if_splits option.splits)
  have "l \<noteq> NaN" using symbol_leverage_mem [OF _ _ l(1)] n assms(3) by auto
  moreover have "jle lo hi" using l(3) assms by (simp add: not_jlt_iff)
  ultimately show ?thesis using l(2) clamp_bounds by simp
qed

section \<open>Properties\<close>

text \<open>C40. When some tier's band contains the notional, the effective leverage is that of the first
  tier, among those whose band contains it, with the greatest lower bound, clamped into the user's
  limits (no value when the tier's leverage is below 1).\<close>

theorem effective_leverage_band:
  assumes "leverage_args_ok n tiers lo hi" "\<exists>t \<in> set tiers. in_tier n t"
  shows "\<exists>t. is_tightest n tiers t \<and>
    effectiveLeverageFromTiers n tiers lo hi = clamp_leverage lo hi (max_leverage t)"
proof -
  obtain l where l: "tightest_band n tiers = Some l"
    using assms(2) tightest_band_None [of n tiers] by blast
  then obtain t where "is_tightest n tiers t" "max_leverage t = l"
    using tightest_band_Some by blast
  then show ?thesis using effective_ok [OF assms(1)] l
    by (intro exI [of _ t]) (simp add: symbol_leverage_def)
qed

text \<open>When no tier's band contains the notional, the result is the leverage of the first tier with
  the lowest readable lower bound if the notional is below that bound, and no value otherwise: the
  search for an open-ended tier between the two never yields anything.\<close>

theorem effective_leverage_fallback:
  assumes "leverage_args_ok n tiers lo hi" "\<not> (\<exists>t \<in> set tiers. in_tier n t)"
  shows "(\<forall>t \<in> set tiers. band_from t = NaN) \<and> effectiveLeverageFromTiers n tiers lo hi = None \<or>
    (\<exists>t. is_lowest tiers t \<and> effectiveLeverageFromTiers n tiers lo hi =
        (if jlt n (band_from t) then clamp_leverage lo hi (max_leverage t) else None))"
proof -
  have n: "n \<noteq> NaN" "jlt (Num 0) n" using assms(1) by (auto simp: leverage_args_ok_def)
  have b: "tightest_band n tiers = None" using assms(2) by (simp add: tightest_band_None)
  note e = effective_ok [OF assms(1)] symbol_leverage_simple [OF n, of tiers] b
  show ?thesis
  proof (cases "lowest_floor tiers")
    case None
    then show ?thesis using e lowest_floor_None [of tiers] by simp
  next
    case (Some c)
    then obtain t where "is_lowest tiers t" "c = (band_from t, max_leverage t)"
      using lowest_floor_Some by blast
    then show ?thesis using e Some by (intro disjI2 exI [of _ t]) simp
  qed
qed

text \<open>Whatever the tiers, \<open>getEffectiveLeverage\<close> returns the caller's default or a value within the
  user's limits.\<close>

theorem getEffectiveLeverage_bounds:
  assumes "lo \<noteq> NaN" "hi \<noteq> NaN" "\<forall>t \<in> set ts. max_leverage t \<noteq> NaN"
  shows "getEffectiveLeverage n (Some ts) (Some lo) (Some hi) d = d \<or>
    (jle lo (getEffectiveLeverage n (Some ts) (Some lo) (Some hi) d) \<and>
     jle (getEffectiveLeverage n (Some ts) (Some lo) (Some hi) d) hi)"
proof (cases "effectiveLeverageFromTiers n ts lo hi")
  case None
  then show ?thesis by (cases ts) (simp_all add: getEffectiveLeverage_def)
next
  case (Some r)
  then show ?thesis using effective_in_limits [OF assms Some]
    by (cases ts) (simp_all add: getEffectiveLeverage_def)
qed

text \<open>A profile of three tiers for the witnesses.\<close>

definition sample_tiers :: "SymbolLeverageTier list" where
  "sample_tiers =
     [\<lparr>tier_index = Num 0, notional_from = ''10'', notional_to = Some ''100'', max_leverage = Num 200,
        initial_margin_percent = ''0.5'', maintenance_margin_percent = ''0.25''\<rparr>,
      \<lparr>tier_index = Num 1, notional_from = ''100'', notional_to = Some '' '', max_leverage = Num 50,
        initial_margin_percent = ''2'', maintenance_margin_percent = ''1''\<rparr>,
      \<lparr>tier_index = Num 2, notional_from = ''x'', notional_to = None, max_leverage = Num 5,
        initial_margin_percent = ''2'', maintenance_margin_percent = ''1''\<rparr>]"

lemma sample_bounds:
  "parseBound ''10'' = Num 10" "parseBound ''100'' = Num 100" "parseBound ''x'' = NaN"
  by (simp_all add: parseBound_digits all_digits_def is_digit_def nat_of_digits_def digit_val_def)
    (simp add: parseBound_def Let_def parseFloat_def split_sign_def trim_def is_space_def
      startsWith_def parse_decimal_def is_digit_def)

lemmas sample_simps = sample_tiers_def in_tier_def open_ended_def sample_bounds Let_def isNaN_def
  trim_def is_space_def leverage_args_ok_def clamp_leverage_def band_from_def jmax_def jmin_def

lemma sample_tiers_eval:
  "leverage_args_ok (Num 150) sample_tiers (Num 1) (Num 40)" "\<exists>t \<in> set sample_tiers. in_tier (Num 150) t"
  "leverage_args_ok (Num 5) sample_tiers (Num 1) (Num 500)" "\<not> (\<exists>t \<in> set sample_tiers. in_tier (Num 5) t)"
  "\<forall>t \<in> set sample_tiers. max_leverage t \<noteq> NaN"
  by (simp_all add: sample_simps)

lemma sample_tiers_results:
  "effectiveLeverageFromTiers (Num 150) sample_tiers (Num 1) (Num 40) = Some (Num 40)"
  "effectiveLeverageFromTiers (Num 5) sample_tiers (Num 1) (Num 500) = Some (Num 200)"
  unfolding effective_ok [OF sample_tiers_eval(1)] effective_ok [OF sample_tiers_eval(3)]
  by (simp_all add: symbol_leverage_def tightest_band_def band_step_def lowest_floor_def floor_step_def
      sample_simps)

lemma effective_leverage_band_witness:
  "(\<exists>t. is_tightest (Num 150) sample_tiers t \<and>
     clamp_leverage (Num 1) (Num 40) (max_leverage t) = Some (Num 40)) \<and>
   effectiveLeverageFromTiers (Num 150) sample_tiers (Num 1) (Num 40) = Some (Num 40)"
  using effective_leverage_band [OF sample_tiers_eval(1,2)] unfolding sample_tiers_results
  by (metis (no_types))

lemma effective_leverage_fallback_witness:
  "(\<exists>t. is_lowest sample_tiers t \<and> jlt (Num 5) (band_from t) \<and>
     clamp_leverage (Num 1) (Num 500) (max_leverage t) = Some (Num 200)) \<and>
   effectiveLeverageFromTiers (Num 5) sample_tiers (Num 1) (Num 500) = Some (Num 200)"
  using effective_leverage_fallback [OF sample_tiers_eval(3,4)] unfolding sample_tiers_results
  by (metis (no_types) option.distinct(1))

lemma getEffectiveLeverage_bounds_witness:
  "jle (Num 1) (getEffectiveLeverage (Num 150) (Some sample_tiers) (Some (Num 1)) (Some (Num 40)) (Num 0)) \<and>
   jle (getEffectiveLeverage (Num 150) (Some sample_tiers) (Some (Num 1)) (Some (Num 40)) (Num 0)) (Num 40)"
proof -
  have "getEffectiveLeverage (Num 150) (Some sample_tiers) (Some (Num 1)) (Some (Num 40)) (Num 0) = Num 40"
    using sample_tiers_results(1) by (simp add: getEffectiveLeverage_def sample_tiers_def)
  then show ?thesis
    using getEffectiveLeverage_bounds [OF _ _ sample_tiers_eval(5), of "Num 1" "Num 40" "Num 150" "Num 0"]
    by simp
qed

end
