(* ===== verification/Position_Calc.thy ===== *)
theory Position_Calc
  imports Js_Text
begin

text \<open>
  Lot sizes, units and profit of a position: \<open>features/terminal/utils/positionCalculations.ts\<close>,
  \<open>features/adminTrading/utils/pnl.ts\<close>, and the symbol record they read
  (\<open>features/symbols/types/symbol.ts\<close>). The properties are bounds, monotonicity and the
  agreement of the conversions between lots and units.
\<close>

section \<open>Symbols\<close>

datatype AssetClass = FX | Crypto | Metals | Indices | Stocks | Commodities

record AdminSymbol =
  sym_id :: string
  symbolCode :: string
  sym_code :: "string option"
  sym_name :: "string option"
  sym_market :: "string option"
  providerSymbol :: "string option"
  mmdpsCategory :: "string option"
  providerDescription :: "string option"
  assetClass :: "AssetClass option"
  baseCurrency :: string
  quoteCurrency :: string
  pricePrecision :: jsnum
  volumePrecision :: jsnum
  contractSize :: string
  tickSize :: "jsnum option"
  lotMin :: "jsnum option"
  lotMax :: "jsnum option"
  defaultPipPosition :: "jsnum option"
  pipPositionMin :: "jsnum option"
  pipPositionMax :: "jsnum option"
  isEnabled :: bool
  tradingEnabled :: bool
  leverageProfileId :: "string option"
  leverageProfileName :: "string option"
  sessionTemplateId :: "string option"
  sessionTemplateName :: "string option"
  createdAt :: string
  updatedAt :: string

text \<open>\<open>a ?? b\<close>.\<close>

definition nullish :: "'a option \<Rightarrow> 'a \<Rightarrow> 'a" where
  "nullish a b = (case a of Some x \<Rightarrow> x | None \<Rightarrow> b)"

lemma nullish_simps [simp]: "nullish (Some x) b = x" "nullish None b = b"
  by (simp_all add: nullish_def)

section \<open>Operations\<close>

definition is_fx :: "AdminSymbol \<Rightarrow> bool" where
  "is_fx s = (assetClass s = Some FX)"

text \<open>The contract size, \<open>100000\<close> or \<open>1\<close> when the text is not a non-zero number.\<close>

definition contract_size :: "AdminSymbol \<Rightarrow> jsnum" where
  "contract_size s = num_or (parseFloat (contractSize s)) (if is_fx s then Num 100000 else Num 1)"

definition calculatePipValuePerLot :: "AdminSymbol \<Rightarrow> jsnum \<Rightarrow> jsnum" where
  "calculatePipValuePerLot s price =
     (if \<not> num_truthy price \<or> jle price (Num 0) then Num 0
      else let tick = nullish (tickSize s) (if is_fx s then to_num (1 / 10000) else to_num (1 / 100))
           in jdiv (jmul tick (contract_size s)) price)"

definition normalizeLotSize :: "jsnum \<Rightarrow> AdminSymbol \<Rightarrow> jsnum" where
  "normalizeLotSize lotSize s =
     (if jle lotSize (Num 0) then Num 0
      else let precision = num_or (volumePrecision s) (Num 2);
               lo = nullish (lotMin s) (to_num (1 / 100));
               hi = nullish (lotMax s) (Num 100);
               multiplier = jpow 10 precision;
               normalized = round_scaled multiplier lotSize
           in jmax lo (jmin hi normalized))"

definition calculateLotSizeFromPipPosition :: "jsnum \<Rightarrow> AdminSymbol \<Rightarrow> jsnum \<Rightarrow> jsnum" where
  "calculateLotSizeFromPipPosition pip s price =
     (if jle pip (Num 0) then Num 0
      else let v = calculatePipValuePerLot s price in
        if jeq v (Num 0) then Num 0 else normalizeLotSize (jdiv pip v) s)"

definition calculateUnitsFromLots :: "jsnum \<Rightarrow> AdminSymbol \<Rightarrow> jsnum" where
  "calculateUnitsFromLots lots s =
     (if jle lots (Num 0) then Num 0 else jmul lots (contract_size s))"

definition calculateLotsFromUnits :: "jsnum \<Rightarrow> AdminSymbol \<Rightarrow> jsnum" where
  "calculateLotsFromUnits units s =
     (if jle units (Num 0) then Num 0
      else if jeq (contract_size s) (Num 0) then Num 0
      else normalizeLotSize (jdiv units (contract_size s)) s)"

definition normalizeVolumeInUnits :: "jsnum \<Rightarrow> AdminSymbol \<Rightarrow> jsnum" where
  "normalizeVolumeInUnits units s =
     (if jle units (Num 0) then Num 0
      else calculateUnitsFromLots (calculateLotsFromUnits units s) s)"

definition calculatePipPositionFromLots :: "jsnum \<Rightarrow> AdminSymbol \<Rightarrow> jsnum \<Rightarrow> jsnum" where
  "calculatePipPositionFromLots lots s price =
     (if jle lots (Num 0) then Num 0 else jmul lots (calculatePipValuePerLot s price))"

definition formatLotSize :: "jsnum \<Rightarrow> AdminSymbol \<Rightarrow> string js" where
  "formatLotSize lots s = toFixed lots (num_or (volumePrecision s) (Num 2))"

definition formatUnits :: "jsnum \<Rightarrow> AdminSymbol \<Rightarrow> string js" where
  "formatUnits units s =
     (if jle (Num 1000000) units then Inr (toFixed_nat (jdiv units (Num 1000000)) 2 @ ''M'')
      else if jle (Num 1000) units then Inr (toFixed_nat (jdiv units (Num 1000)) 2 @ ''K'')
      else toFixed units (num_or (volumePrecision s) (Num 2)))"

datatype PositionSide = LONG | SHORT

definition computePositionPnl :: "jsnum \<Rightarrow> jsnum \<Rightarrow> jsnum \<Rightarrow> PositionSide \<Rightarrow> jsnum" where
  "computePositionPnl entryPrice markPrice sz side =
     (if jle sz (Num 0) then Num 0
      else let pnl = (if side = LONG then jmul (jsub markPrice entryPrice) sz
                      else jmul (jsub entryPrice markPrice) sz)
           in round_scaled (Num 100) pnl)"

definition computePnlPercent :: "jsnum \<Rightarrow> jsnum \<Rightarrow> jsnum" where
  "computePnlPercent pnl marginUsed =
     (if jle marginUsed (Num 0) then Num 0
      else jdiv (jround (jmul (jdiv pnl marginUsed) (Num 10000))) (Num 100))"

section \<open>Lemmas\<close>

text \<open>A symbol as the API delivers it: a precision from 0 to 15, and lot limits in order.\<close>

definition lot_lo :: "AdminSymbol \<Rightarrow> jsnum" where
  "lot_lo s = nullish (lotMin s) (to_num (1 / 100))"

definition lot_hi :: "AdminSymbol \<Rightarrow> jsnum" where
  "lot_hi s = nullish (lotMax s) (Num 100)"

definition symbol_ok :: "AdminSymbol \<Rightarrow> bool" where
  "symbol_ok s = (volumePrecision s \<in> (\<lambda>n. Num (of_nat n)) ` {0..15} \<and> jle (lot_lo s) (lot_hi s) \<and>
     jle (Num 0) (lot_lo s))"

lemma jle_Num_pos: "x \<noteq> NaN \<Longrightarrow> (\<not> jle x (Num 0)) = jlt (Num 0) x"
  by (cases x) (auto simp: jle_def jeq_def)

definition lot_multiplier :: "AdminSymbol \<Rightarrow> nat" where
  "lot_multiplier s = (case num_or (volumePrecision s) (Num 2) of Num p \<Rightarrow> 10 ^ nat \<lfloor>p\<rfloor> | _ \<Rightarrow> 1)"

lemma lot_multiplier:
  assumes "symbol_ok s"
  shows "jpow 10 (num_or (volumePrecision s) (Num 2)) = Num (of_int (int (lot_multiplier s)))"
    "1 \<le> lot_multiplier s" "lot_multiplier s \<le> 10 ^ 15"
proof -
  obtain n where n: "volumePrecision s = Num (of_nat n)" "n \<le> 15"
    using assms by (auto simp: symbol_ok_def)
  have e: "num_or (volumePrecision s) (Num 2) = Num (of_nat (if n = 0 then 2 else n))"
    using n by (simp add: num_or_def num_truthy_def)
  let ?k = "if n = 0 then 2 else n"
  have l: "lot_multiplier s = 10 ^ ?k" 
    unfolding lot_multiplier_def e by (simp only: jsnum.case floor_of_nat nat_int)
  have "?k \<le> 15" using n(2) by simp
  then have b: "(10::nat) ^ ?k \<le> 10 ^ 15" by (intro power_increasing) simp_all
  then have "jpow 10 (Num (of_nat ?k)) = Num (of_nat (10 ^ ?k))" by (intro jpow_of_nat) simp
  then show "jpow 10 (num_or (volumePrecision s) (Num 2)) = Num (of_int (int (lot_multiplier s)))"
    unfolding e l by simp
  show "1 \<le> lot_multiplier s" "lot_multiplier s \<le> 10 ^ 15" using b l by simp_all
qed

text \<open>The rounded and clamped value of a positive lot size.\<close>

lemma normalize_pos:
  assumes "symbol_ok s" "\<not> jle x (Num 0)"
  shows "normalizeLotSize x s =
    jmax (lot_lo s) (jmin (lot_hi s) (round_scaled (Num (of_int (int (lot_multiplier s)))) x))"
  using assms lot_multiplier(1) [OF assms(1)]
  by (simp add: normalizeLotSize_def Let_def lot_lo_def lot_hi_def)

lemma multiplier_pos: "symbol_ok s \<Longrightarrow> (0::rat) < of_int (int (lot_multiplier s))"
  using lot_multiplier(2) [of s] by simp

lemma normalize_in_limits:
  assumes "symbol_ok s" "x \<noteq> NaN" "\<not> jle x (Num 0)"
  shows "jle (lot_lo s) (normalizeLotSize x s) \<and> jle (normalizeLotSize x s) (lot_hi s)"
  unfolding normalize_pos [OF assms(1,3)]
  using assms multiplier_pos [OF assms(1)] by (intro clamp_bounds) (auto simp: symbol_ok_def)

section \<open>Properties\<close>

text \<open>A positive lot size is normalised into the symbol's lot limits.\<close>

theorem normalizeLotSize_bounds:
  assumes "symbol_ok s" "lots \<noteq> NaN" "\<not> jle lots (Num 0)"
  shows "jle (nullish (lotMin s) (to_num (1 / 100))) (normalizeLotSize lots s) \<and>
    jle (normalizeLotSize lots s) (nullish (lotMax s) (Num 100))"
  using normalize_in_limits [OF assms] by (simp add: lot_lo_def lot_hi_def)

text \<open>Normalising is monotone: a larger lot size never gives a smaller result.\<close>

theorem normalizeLotSize_mono:
  assumes "symbol_ok s" "jle a b"
  shows "jle (normalizeLotSize a s) (normalizeLotSize b s)"
proof (cases "jle a (Num 0)")
  case True
  then have a0: "normalizeLotSize a s = Num 0" by (simp add: normalizeLotSize_def)
  show ?thesis
  proof (cases "jle b (Num 0)")
    case False
    have "jle (lot_lo s) (normalizeLotSize b s)"
      using normalize_in_limits [OF assms(1) _ False] assms(2) jle_not_nan by blast
    then show ?thesis using assms(1) a0 unfolding symbol_ok_def by (metis jle_trans)
  qed (use a0 in \<open>simp add: normalizeLotSize_def\<close>)
next
  case a: False
  then have b: "\<not> jle b (Num 0)" using assms(2) jle_trans by blast
  show ?thesis unfolding normalize_pos [OF assms(1) a] normalize_pos [OF assms(1) b]
    using assms multiplier_pos [OF assms(1)]
    by (intro jmax_mono jmin_mono round_scaled_mono) (auto simp: symbol_ok_def dest: jle_not_nan)
qed

text \<open>Normalising twice is normalising once, when the lot limits are multiples of the lot step
  themselves and the rounded size has at most \<open>2 ^ 50\<close> steps.\<close>

theorem normalizeLotSize_idem:
  assumes "symbol_ok s" "\<not> jle lots (Num 0)"
    and "jround (jmul lots (Num (of_int (int (lot_multiplier s))))) = Num (of_int k)" "\<bar>k\<bar> \<le> 2 ^ 50"
    and "\<forall>l \<in> {lot_lo s, lot_hi s}. round_scaled (Num (of_int (int (lot_multiplier s)))) l = l"
  shows "normalizeLotSize (normalizeLotSize lots s) s = normalizeLotSize lots s"
proof -
  let ?r = "round_scaled (Num (of_int (int (lot_multiplier s))))"
  have n: "lots \<noteq> NaN" using assms(3) by (cases lots) auto
  note in_limits = normalize_in_limits [OF assms(1) n assms(2)]
  have "?r (?r lots) = ?r lots"
    using assms(3,4) lot_multiplier(2,3) [OF assms(1)] by (intro round_scaled_idem) simp_all
  moreover have "normalizeLotSize lots s \<in> {lot_lo s, lot_hi s, ?r lots}"
    unfolding normalize_pos [OF assms(1,2)] using assms(1) n multiplier_pos [OF assms(1)]
    by (auto simp: jmax_def jmin_def symbol_ok_def dest: jle_not_nan)
  ultimately have on_grid: "?r (normalizeLotSize lots s) = normalizeLotSize lots s"
    using assms(5) by auto
  show ?thesis
  proof (cases "jle (normalizeLotSize lots s) (Num 0)")
    case True
    then have "normalizeLotSize lots s = Num 0"
      using in_limits assms(1) unfolding symbol_ok_def by (metis jle_trans jle_antisym)
    then show ?thesis by (simp add: normalizeLotSize_def)
  next
    case False
    show ?thesis unfolding normalize_pos [OF assms(1) False] on_grid
      using in_limits by (simp add: clamp_id)
  qed
qed

text \<open>The units of a normalised volume are those of a lot size within the limits.\<close>

theorem normalizeVolumeInUnits_bounds:
  assumes "symbol_ok s" "units \<noteq> NaN" "\<not> jle units (Num 0)" "contract_size s = Num c" "0 < c"
    and "jlt (Num 0) (lot_lo s)" "\<not> jle (jdiv units (Num c)) (Num 0)"
  shows "jle (jmul (lot_lo s) (contract_size s)) (normalizeVolumeInUnits units s) \<and>
    jle (normalizeVolumeInUnits units s) (jmul (lot_hi s) (contract_size s))"
proof -
  let ?l = "normalizeLotSize (jdiv units (Num c)) s"
  have "jdiv units (Num c) \<noteq> NaN" using assms(2,5) by simp
  then have l: "jle (lot_lo s) ?l" "jle ?l (lot_hi s)"
    using normalize_in_limits [OF assms(1) _ assms(7)] by auto
  then have "\<not> jle ?l (Num 0)"
    using assms(6) by (metis jle_trans jlt_not_nan not_jle_iff)
  then have "normalizeVolumeInUnits units s = jmul ?l (Num c)"
    using assms(3,4,5) by (simp add: normalizeVolumeInUnits_def calculateLotsFromUnits_def
        calculateUnitsFromLots_def)
  then show ?thesis using l assms(4,5) by (simp add: jmul_mono_pos)
qed

text \<open>The unrealised profit of a position follows the mark price: that of a long position never
  falls when the mark rises, that of a short one never rises; at or above the entry price a long
  position shows no loss and a short one no profit.\<close>

theorem computePositionPnl_mono:
  assumes "m1 \<le> m2" "0 < sz"
  shows "jle (computePositionPnl (Num e) (Num m1) (Num sz) LONG) (computePositionPnl (Num e) (Num m2) (Num sz) LONG)
    \<and> jle (computePositionPnl (Num e) (Num m2) (Num sz) SHORT) (computePositionPnl (Num e) (Num m1) (Num sz) SHORT)
    \<and> (e \<le> m1 \<longrightarrow> jle (Num 0) (computePositionPnl (Num e) (Num m1) (Num sz) LONG) \<and>
         jle (computePositionPnl (Num e) (Num m1) (Num sz) SHORT) (Num 0))"
proof -
  have up: "jle (jmul (jsub (Num a) (Num b)) (Num sz)) (jmul (jsub (Num a') (Num b')) (Num sz))"
    if "a \<le> a'" "b' \<le> b" for a b a' b'
    using that assms(2) by (intro jmul_mono_pos jsub_mono) simp_all
  have z: "jmul (jsub (Num e) (Num e)) (Num sz) = Num 0" by (simp add: jsub_def num_simps)
  show ?thesis using assms(2) up [of m1 m2 e e] up [of e e m1 m2] up [of e m1 e e] up [of e e e m1]
    by (auto simp: computePositionPnl_def assms(1) z
        intro!: round_scaled_mono round_scaled_nonneg round_scaled_nonpos)
qed

section \<open>Witnesses\<close>

definition sample_symbol :: AdminSymbol where
  "sample_symbol = \<lparr>sym_id = ''1'', symbolCode = ''EURUSD'', sym_code = None, sym_name = None,
     sym_market = Some ''forex'', providerSymbol = None, mmdpsCategory = None, providerDescription = None,
     assetClass = Some FX, baseCurrency = ''EUR'', quoteCurrency = ''USD'', pricePrecision = Num 5,
     volumePrecision = Num 1, contractSize = ''100000'', tickSize = None,
     lotMin = Some (Num (1 / 2)), lotMax = Some (Num 50), defaultPipPosition = None, pipPositionMin = None,
     pipPositionMax = None, isEnabled = True, tradingEnabled = True, leverageProfileId = None,
     leverageProfileName = None, sessionTemplateId = None, sessionTemplateName = None,
     createdAt = [], updatedAt = []\<rparr>"

lemma sample_symbol_ok: "symbol_ok sample_symbol"
  and sample_limits: "lot_lo sample_symbol = Num (1 / 2)" "lot_hi sample_symbol = Num 50"
  and sample_multiplier: "lot_multiplier sample_symbol = 10"
  by (auto simp: symbol_ok_def sample_symbol_def lot_lo_def lot_hi_def image_iff lot_multiplier_def
      num_or_def num_truthy_def intro!: bexI [of _ "1::nat"])

lemma half_exact: "to_num (1 / 2) = Num (1 / 2)" "to_num (5 / 2) = Num (5 / 2)"
  by (rule to_num_dyadic [of _ 1 1] to_num_dyadic [of _ 1 5]; simp)+

lemma sample_contract: "contract_size sample_symbol = Num 100000"
proof -
  have "parseFloat (''100000'' @ []) = to_num (of_nat (nat_of_digits ''100000''))"
    by (rule parseFloat_digits(1))
      (simp_all add: all_digits_def is_digit_def parse_decimal_int)
  then show ?thesis by (simp add: contract_size_def sample_symbol_def nat_of_digits_def digit_val_def
      num_simps num_or_def num_truthy_def)
qed

lemma normalizeLotSize_bounds_witness:
  "jle (Num (1 / 2)) (normalizeLotSize (Num 3) sample_symbol) \<and>
   jle (normalizeLotSize (Num 3) sample_symbol) (Num 50)"
  using normalizeLotSize_bounds [OF sample_symbol_ok, of "Num 3"] by (simp add: sample_symbol_def)

lemma normalizeLotSize_mono_witness:
  "jle (normalizeLotSize (Num 3) sample_symbol) (normalizeLotSize (Num 4) sample_symbol)"
  using normalizeLotSize_mono [OF sample_symbol_ok, of "Num 3" "Num 4"] by simp

lemma normalizeLotSize_idem_witness:
  "normalizeLotSize (normalizeLotSize (Num (5 / 2)) sample_symbol) sample_symbol =
   normalizeLotSize (Num (5 / 2)) sample_symbol"
  by (rule normalizeLotSize_idem [OF sample_symbol_ok, of _ 25])
    (simp_all add: sample_limits sample_multiplier round_scaled_def num_simps half_exact)

lemma normalizeVolumeInUnits_bounds_witness:
  "jle (Num 50000) (normalizeVolumeInUnits (Num 200000) sample_symbol) \<and>
   jle (normalizeVolumeInUnits (Num 200000) sample_symbol) (Num 5000000)"
  using normalizeVolumeInUnits_bounds [OF sample_symbol_ok, of "Num 200000" 100000]
  by (simp add: sample_contract sample_limits num_simps)

lemma computePositionPnl_mono_witness:
  "jle (computePositionPnl (Num 10) (Num 11) (Num 2) LONG) (computePositionPnl (Num 10) (Num 12) (Num 2) LONG)"
  using computePositionPnl_mono [of 11 12 2 10] by simp

end
