(* ===== verification/Pricing_Rules.thy ===== *)
theory Pricing_Rules
  imports Js_Text
begin

text \<open>
  The two previews of the admin pricing pages: the marked-up price
  (\<open>features/markup/utils/computeFinalPrice.ts\<close>) and the swap charge
  (\<open>features/swap/utils/computeSwapPreview.ts\<close>), with their records. The properties: an untouched
  side is only rounded, the clamps hold, markups do not cross bid and ask.
\<close>

datatype RuleMarket = MCrypto | MForex | MCommodities | MIndices | MStocks
datatype RuleStatus = RActive | RDisabled

section \<open>Markup\<close>

datatype MarkupType = MFixed | MPercent | MSpread
datatype ApplyTo = ABid | AAsk | ABoth

record MarkupRule =
  mr_id :: string
  mr_groupId :: string
  mr_groupName :: string
  mr_symbol :: string
  mr_market :: RuleMarket
  markupType :: MarkupType
  mr_value :: jsnum
  applyTo :: ApplyTo
  rounding_digits :: jsnum
  minMarkup :: "jsnum option"
  maxMarkup :: "jsnum option"
  mr_status :: RuleStatus
  mr_updatedAt :: string
  mr_updatedBy :: string
  mr_notes :: "string option"

record PricePreview =
  providerBid :: jsnum
  providerAsk :: jsnum
  finalBid :: jsnum
  finalAsk :: jsnum
  appliedMarkupBid :: jsnum
  appliedMarkupAsk :: jsnum

definition on_bid :: "MarkupRule \<Rightarrow> bool" where
  "on_bid r = (applyTo r = ABid \<or> applyTo r = ABoth)"

definition on_ask :: "MarkupRule \<Rightarrow> bool" where
  "on_ask r = (applyTo r = AAsk \<or> applyTo r = ABoth)"

text \<open>The first step, by type of markup: a side's price and the markup put on it.\<close>

definition bid_markup :: "jsnum \<Rightarrow> MarkupRule \<Rightarrow> jsnum \<times> jsnum" where
  "bid_markup pb r =
     (if \<not> on_bid r then (pb, Num 0)
      else case markupType r of
        MFixed \<Rightarrow> (jadd pb (mr_value r), mr_value r)
      | MPercent \<Rightarrow> (let m = jmul pb (jdiv (mr_value r) (Num 100)) in (jadd pb m, m))
      | MSpread \<Rightarrow>
          if applyTo r = ABoth
          then (jsub pb (jdiv (mr_value r) (Num 2)), jdiv (jneg (mr_value r)) (Num 2))
          else (jsub pb (mr_value r), jneg (mr_value r)))"

definition ask_markup :: "jsnum \<Rightarrow> MarkupRule \<Rightarrow> jsnum \<times> jsnum" where
  "ask_markup pa r =
     (if \<not> on_ask r then (pa, Num 0)
      else case markupType r of
        MFixed \<Rightarrow> (jadd pa (mr_value r), mr_value r)
      | MPercent \<Rightarrow> (let m = jmul pa (jdiv (mr_value r) (Num 100)) in (jadd pa m, m))
      | MSpread \<Rightarrow>
          if applyTo r = ABoth
          then (jadd pa (jdiv (mr_value r) (Num 2)), jdiv (mr_value r) (Num 2))
          else (jadd pa (mr_value r), mr_value r))"

text \<open>The two clamps of one side, on its price and markup; \<open>on\<close> says whether the rule covers it.\<close>

definition clamp_min :: "bool \<Rightarrow> jsnum option \<Rightarrow> jsnum \<Rightarrow> jsnum \<times> jsnum \<Rightarrow> jsnum \<times> jsnum" where
  "clamp_min on bnd p fm =
     (case bnd of
        None \<Rightarrow> fm
      | Some m \<Rightarrow> if on \<and> jlt (fst fm) (jadd p m) then (jadd p m, m) else fm)"

definition clamp_max :: "bool \<Rightarrow> jsnum option \<Rightarrow> jsnum \<Rightarrow> jsnum \<times> jsnum \<Rightarrow> jsnum \<times> jsnum" where
  "clamp_max on bnd p fm =
     (case bnd of
        None \<Rightarrow> fm
      | Some m \<Rightarrow> if on \<and> jlt (jadd p m) (fst fm) then (jadd p m, m) else fm)"

definition bid_clamped :: "jsnum \<Rightarrow> MarkupRule \<Rightarrow> jsnum \<times> jsnum" where
  "bid_clamped pb r =
     clamp_max (on_bid r) (maxMarkup r) pb (clamp_min (on_bid r) (minMarkup r) pb (bid_markup pb r))"

definition ask_clamped :: "jsnum \<Rightarrow> MarkupRule \<Rightarrow> jsnum \<times> jsnum" where
  "ask_clamped pa r =
     clamp_max (on_ask r) (maxMarkup r) pa (clamp_min (on_ask r) (minMarkup r) pa (ask_markup pa r))"

definition computeFinalPrice :: "jsnum \<Rightarrow> jsnum \<Rightarrow> MarkupRule \<Rightarrow> PricePreview" where
  "computeFinalPrice pb pa r =
     (let b = bid_clamped pb r;
          a = ask_clamped pa r;
          roundingFactor = jpow 10 (rounding_digits r)
      in \<lparr>providerBid = pb, providerAsk = pa,
          finalBid = round_scaled roundingFactor (fst b), finalAsk = round_scaled roundingFactor (fst a),
          appliedMarkupBid = snd b, appliedMarkupAsk = snd a\<rparr>)"

subsection \<open>Facts\<close>

text \<open>A rule the form accepts: finite numbers, 0 to 15 decimals.\<close>

definition markup_ok :: "MarkupRule \<Rightarrow> bool" where
  "markup_ok r = (isFinite (mr_value r) \<and> is_double (mr_value r) \<and> rounding_digits r \<in> (\<lambda>n. Num (of_nat n)) ` {0..15} \<and>
     (\<forall>m. minMarkup r = Some m \<longrightarrow> isFinite m) \<and> (\<forall>m. maxMarkup r = Some m \<longrightarrow> isFinite m))"

lemma rounding_factor: "markup_ok r \<Longrightarrow> \<exists>f > 0. jpow 10 (rounding_digits r) = Num f"
  using pow10_pos by (auto simp: markup_ok_def)

lemma isFinite_iff: "isFinite x \<longleftrightarrow> (\<exists>v. x = Num v)"
  by (cases x) simp_all

text \<open>The clamps are the maximum and the minimum with the limit price.\<close>

lemma clamp_sides:
  "jadd p m \<noteq> NaN \<Longrightarrow> fst fm \<noteq> NaN \<Longrightarrow> fst (clamp_min True (Some m) p fm) = jmax (fst fm) (jadd p m)"
  "jadd p m \<noteq> NaN \<Longrightarrow> fst fm \<noteq> NaN \<Longrightarrow> fst (clamp_max True (Some m) p fm) = jmin (fst fm) (jadd p m)"
  "fst (clamp_min on None p fm) = fst fm" "fst (clamp_max on None p fm) = fst fm"
  "clamp_min False bnd p fm = fm" "clamp_max False bnd p fm = fm"
  by (simp_all add: clamp_min_def clamp_max_def jmax_def jmin_def split: option.splits)

definition limit_ok :: "jsnum option \<Rightarrow> bool" where
  "limit_ok bnd = (\<forall>m. bnd = Some m \<longrightarrow> isFinite m)"

lemma clamp_not_nan:
  assumes "fst fm \<noteq> NaN" "p \<noteq> NaN" "limit_ok bnd"
  shows "fst (clamp_min on bnd p fm) \<noteq> NaN" "fst (clamp_max on bnd p fm) \<noteq> NaN"
  using assms
  by (auto simp: clamp_min_def clamp_max_def limit_ok_def isFinite_iff split: option.splits)

lemma clamp_mono:
  assumes "jle (fst fm) (fst fm')" "jle p p'" "limit_ok bnd"
  shows "jle (fst (clamp_min True bnd p fm)) (fst (clamp_min True bnd p' fm'))"
    "jle (fst (clamp_max True bnd p fm)) (fst (clamp_max True bnd p' fm'))"
proof -
  have "jle (fst (clamp_min True bnd p fm)) (fst (clamp_min True bnd p' fm')) \<and>
    jle (fst (clamp_max True bnd p fm)) (fst (clamp_max True bnd p' fm'))"
  proof (cases bnd)
    case (Some m)
    then obtain v where m: "m = Num v" using assms(3) by (auto simp: limit_ok_def isFinite_iff)
    have n: "p \<noteq> NaN" "p' \<noteq> NaN" "fst fm \<noteq> NaN" "fst fm' \<noteq> NaN"
      using assms(1,2) by (auto dest: jle_not_nan)
    then have "jle (jadd p m) (jadd p' m)" using assms(2) m by (intro jadd_mono) simp_all
    then show ?thesis using assms(1) n m Some by (simp add: clamp_sides jmax_mono jmin_mono)
  qed (use assms(1) in \<open>simp add: clamp_sides\<close>)
  then show "jle (fst (clamp_min True bnd p fm)) (fst (clamp_min True bnd p' fm'))"
    "jle (fst (clamp_max True bnd p fm)) (fst (clamp_max True bnd p' fm'))" by simp_all
qed

lemma markup_okE:
  assumes "markup_ok r"
  obtains v f where "mr_value r = Num v" "0 < f" "jpow 10 (rounding_digits r) = Num f"
    "limit_ok (minMarkup r)" "limit_ok (maxMarkup r)"
    "to_num (v / 100) = Num (fl (v / 100))" "to_num (v / 2) = Num (fl (v / 2))"
proof -
  obtain v where v: "mr_value r = Num v" "is_double (Num v)"
    using assms by (auto simp: markup_ok_def isFinite_iff)
  have "to_num (v / 100) = Num (fl (v / 100))" "to_num (v / 2) = Num (fl (v / 2))"
    by (rule to_num_shrink [OF v(2)]; simp add: abs_divide)+
  then show ?thesis using that v(1) rounding_factor [OF assms] assms
    by (auto simp: markup_ok_def limit_ok_def)
qed

lemma markup_not_nan:
  assumes "markup_ok r" "isFinite p"
  shows "fst (bid_markup p r) \<noteq> NaN" "fst (ask_markup p r) \<noteq> NaN"
proof -
  obtain v where v: "mr_value r = Num v" "to_num (v / 100) = Num (fl (v / 100))"
    "to_num (v / 2) = Num (fl (v / 2))" using assms(1) by (rule markup_okE)
  obtain q where "p = Num q" using assms(2) by (auto simp: isFinite_iff)
  then show "fst (bid_markup p r) \<noteq> NaN" "fst (ask_markup p r) \<noteq> NaN"
    using v by (auto simp: bid_markup_def ask_markup_def Let_def split: MarkupType.splits)
qed

section \<open>Properties of the markup\<close>

text \<open>A rule that covers one side leaves the other side at the provider's price, rounded.\<close>

theorem computeFinalPrice_other_side:
  "(applyTo r = AAsk \<longrightarrow>
      finalBid (computeFinalPrice pb pa r) = round_scaled (jpow 10 (rounding_digits r)) pb \<and>
      appliedMarkupBid (computeFinalPrice pb pa r) = Num 0) \<and>
   (applyTo r = ABid \<longrightarrow>
      finalAsk (computeFinalPrice pb pa r) = round_scaled (jpow 10 (rounding_digits r)) pa \<and>
      appliedMarkupAsk (computeFinalPrice pb pa r) = Num 0)"
  by (simp add: computeFinalPrice_def bid_clamped_def ask_clamped_def bid_markup_def ask_markup_def
      on_bid_def on_ask_def clamp_sides Let_def)

text \<open>With both limits given and in order, the marked-up side lies between the limit prices
  \<open>provider + minMarkup\<close> and \<open>provider + maxMarkup\<close>, all rounded alike.\<close>

theorem computeFinalPrice_clamped:
  assumes "markup_ok r" "isFinite pb" "isFinite pa"
    and "minMarkup r = Some lo" "maxMarkup r = Some hi" "jle lo hi" "applyTo r = ABoth"
  shows "jle (round_scaled (jpow 10 (rounding_digits r)) (jadd pb lo)) (finalBid (computeFinalPrice pb pa r)) \<and>
    jle (finalBid (computeFinalPrice pb pa r)) (round_scaled (jpow 10 (rounding_digits r)) (jadd pb hi)) \<and>
    jle (round_scaled (jpow 10 (rounding_digits r)) (jadd pa lo)) (finalAsk (computeFinalPrice pb pa r)) \<and>
    jle (finalAsk (computeFinalPrice pb pa r)) (round_scaled (jpow 10 (rounding_digits r)) (jadd pa hi))"
proof -
  obtain v f where r: "mr_value r = Num v" "0 < f" "jpow 10 (rounding_digits r) = Num f"
    using assms(1) by (rule markup_okE)
  obtain l h where lh: "lo = Num l" "hi = Num h" "l \<le> h"
    using assms(1,4,5,6) by (cases lo; cases hi) (auto simp: markup_ok_def)
  have within: "jle (jadd p lo) (fst (clamp_max True (Some hi) p (clamp_min True (Some lo) p fm))) \<and>
    jle (fst (clamp_max True (Some hi) p (clamp_min True (Some lo) p fm))) (jadd p hi)"
    if fin: "isFinite p" and fm: "fst fm \<noteq> NaN" for p fm
  proof -
    obtain q where p: "p = Num q" using fin by (auto simp: isFinite_iff)
    have n: "jadd p lo \<noteq> NaN" "jadd p hi \<noteq> NaN" "jle (jadd p lo) (jadd p hi)"
      using lh p by (simp_all add: to_num_mono)
    then have "jmax (fst fm) (jadd p lo) \<noteq> NaN" using fm by (simp add: jmax_def)
    then show ?thesis using n fm
      by (simp add: clamp_sides jmin_le2 jmin_ge jmax_ge2)
  qed
  have "on_bid r" "on_ask r" using assms(7) by (simp_all add: on_bid_def on_ask_def)
  then show ?thesis
    using within [OF assms(2) markup_not_nan(1) [OF assms(1,2)]]
      within [OF assms(3) markup_not_nan(2) [OF assms(1,3)]] r assms(4,5)
    by (simp add: computeFinalPrice_def bid_clamped_def ask_clamped_def round_scaled_mono Let_def)
qed

text \<open>A rule on both sides with a non-negative value, clamped or not, keeps the bid at or below
  the ask.\<close>

theorem computeFinalPrice_not_crossed:
  assumes "markup_ok r" "applyTo r = ABoth" "jle (Num 0) (mr_value r)" "b \<le> a"
  shows "jle (finalBid (computeFinalPrice (Num b) (Num a) r)) (finalAsk (computeFinalPrice (Num b) (Num a) r))"
proof -
  obtain v f where r: "mr_value r = Num v" "0 < f" "jpow 10 (rounding_digits r) = Num f"
    "limit_ok (minMarkup r)" "limit_ok (maxMarkup r)" "to_num (v / 100) = Num (fl (v / 100))"
    "to_num (v / 2) = Num (fl (v / 2))" using assms(1) by (rule markup_okE)
  have v0: "0 \<le> v" using assms(3) r(1) by simp
  have "jle (fst (bid_markup (Num b) r)) (fst (ask_markup (Num a) r))"
  proof (cases "markupType r")
    case MFixed
    then show ?thesis using assms(2,4) r(1)
      by (simp add: bid_markup_def ask_markup_def on_bid_def on_ask_def to_num_mono)
  next
    case MPercent
    let ?w = "fl (v / 100)"
    have "0 \<le> ?w" using v0 by (intro fl_nonneg) simp
    then have "jle (jmul (Num b) (Num ?w)) (jmul (Num a) (Num ?w))"
      using assms(4) by (rule jmul_mono_nonneg [rotated])
    then have "jle (jadd (Num b) (jmul (Num b) (Num ?w))) (jadd (Num a) (jmul (Num a) (Num ?w)))"
      using assms(4) by (intro jadd_mono) simp_all
    then show ?thesis using assms(2) r(1,6) MPercent
      by (simp add: bid_markup_def ask_markup_def on_bid_def on_ask_def Let_def)
  next
    case MSpread
    have "0 \<le> fl (v / 2)" using v0 by (intro fl_nonneg) simp
    then have "b - fl (v / 2) \<le> a + fl (v / 2)" using assms(4) by linarith
    then have "jle (to_num (b - fl (v / 2))) (to_num (a + fl (v / 2)))" by (rule to_num_mono)
    then show ?thesis using assms(2) MSpread r(1,7)
      by (simp add: bid_markup_def ask_markup_def on_bid_def on_ask_def jsub_def)
  qed
  then have "jle (fst (bid_clamped (Num b) r)) (fst (ask_clamped (Num a) r))"
    using assms(2,4) r(4,5) unfolding bid_clamped_def ask_clamped_def
    by (simp add: on_bid_def on_ask_def clamp_mono)
  then show ?thesis using r(2,3) by (simp add: computeFinalPrice_def Let_def round_scaled_mono)
qed

text \<open>On a spread rule, a minimum markup of zero or more cancels the lowering of the bid: the final
  bid is never below the provider's rounded bid.\<close>

theorem computeFinalPrice_spread_min:
  assumes "markup_ok r" "markupType r = MSpread" "on_bid r" "minMarkup r = Some lo" "jle (Num 0) lo"
    and "maxMarkup r = None" "is_double (Num pb)"
  shows "jle (round_scaled (jpow 10 (rounding_digits r)) (Num pb)) (finalBid (computeFinalPrice (Num pb) pa r))"
proof -
  obtain v f where r: "0 < f" "jpow 10 (rounding_digits r) = Num f"
    using assms(1) by (rule markup_okE)
  obtain l where l: "lo = Num l" "0 \<le> l" using assms(1,4,5) by (cases lo) (auto simp: markup_ok_def)
  have "jle (Num pb) (jadd (Num pb) lo)" unfolding l(1) using assms(7) l(2) by (intro jadd_nonneg) simp_all
  moreover have "jle (jadd (Num pb) lo) (fst (bid_clamped (Num pb) r))"
    using assms(3,4,6) markup_not_nan(1) [OF assms(1), of "Num pb"] l(1)
    by (simp add: bid_clamped_def clamp_sides jmax_ge2)
  ultimately have "jle (Num pb) (fst (bid_clamped (Num pb) r))" by (rule jle_trans)
  then show ?thesis using r by (simp add: computeFinalPrice_def Let_def round_scaled_mono)
qed

subsection \<open>Witnesses\<close>

definition sample_markup :: "MarkupType \<Rightarrow> MarkupRule" where
  "sample_markup ty = \<lparr>mr_id = ''1'', mr_groupId = ''g'', mr_groupName = ''G'', mr_symbol = ''EURUSD'',
     mr_market = MForex, markupType = ty, mr_value = Num 2, applyTo = ABoth, rounding_digits = Num 1,
     minMarkup = Some (Num 0), maxMarkup = None, mr_status = RActive, mr_updatedAt = [],
     mr_updatedBy = [], mr_notes = None\<rparr>"

lemma sample_markup_ok:
  "markup_ok (sample_markup ty)" "markup_ok ((sample_markup ty)\<lparr>maxMarkup := Some (Num 3)\<rparr>)"
  "markup_ok ((sample_markup ty)\<lparr>minMarkup := None\<rparr>)"
  using is_double_of_int [of 2]
  by (auto simp: markup_ok_def sample_markup_def image_iff intro!: bexI [of _ "1::nat"])

lemma computeFinalPrice_other_side_witness:
  "appliedMarkupBid (computeFinalPrice (Num 100) (Num 101) ((sample_markup MFixed)\<lparr>applyTo := AAsk\<rparr>)) = Num 0"
  using computeFinalPrice_other_side [of "(sample_markup MFixed)\<lparr>applyTo := AAsk\<rparr>"] by simp

lemma computeFinalPrice_clamped_witness:
  "jle (Num 100) (finalBid (computeFinalPrice (Num 100) (Num 101) ((sample_markup MFixed)\<lparr>maxMarkup := Some (Num 3)\<rparr>)))"
  using computeFinalPrice_clamped [OF sample_markup_ok(2) [of MFixed], of "Num 100" "Num 101" "Num 0" "Num 3"]
  by (simp add: sample_markup_def num_simps round_scaled_def)

lemma computeFinalPrice_not_crossed_witness:
  "jle (finalBid (computeFinalPrice (Num 100) (Num 101) ((sample_markup MSpread)\<lparr>minMarkup := None\<rparr>)))
       (finalAsk (computeFinalPrice (Num 100) (Num 101) ((sample_markup MSpread)\<lparr>minMarkup := None\<rparr>)))"
  using computeFinalPrice_not_crossed [OF sample_markup_ok(3) [of MSpread], of 100 101]
  by (simp add: sample_markup_def)

lemma computeFinalPrice_spread_min_witness:
  "jle (Num 100) (finalBid (computeFinalPrice (Num 100) (Num 101) (sample_markup MSpread)))"
  using computeFinalPrice_spread_min [OF sample_markup_ok(1) [of MSpread], of "Num 0" 100 "Num 101"]
    is_double_of_int [of 100]
  by (simp add: sample_markup_def on_bid_def num_simps round_scaled_def)

section \<open>Swap charge\<close>

datatype SwapCalcMode = Daily | Hourly | Funding_8h
datatype SwapUnit = SPercent | SFixed
datatype WeekendRule = WNone | WTripleDay | WFriTriple | WCustom
datatype SwapDay = Mon | Tue | Wed | Thu | Fri | Sat | Sun
datatype SwapSide = SLong | SShort

record SwapRule =
  sr_id :: string
  sr_groupId :: string
  sr_groupName :: string
  sr_symbol :: string
  sr_market :: RuleMarket
  calcMode :: SwapCalcMode
  sr_unit :: SwapUnit
  longRate :: jsnum
  shortRate :: jsnum
  rolloverTimeUtc :: string
  tripleDay :: "SwapDay option"
  weekendRule :: WeekendRule
  minCharge :: "jsnum option"
  maxCharge :: "jsnum option"
  sr_status :: RuleStatus
  sr_updatedAt :: string
  sr_updatedBy :: string
  createdByUserId :: "string option"
  createdByEmail :: "string option"
  sr_notes :: "string option"
  tagIds :: "string list option"

record SwapPreviewInput =
  sp_side :: SwapSide
  positionSize :: jsnum
  sp_entryPrice :: jsnum
  currentPrice :: jsnum
  leverage :: jsnum
  holdingHours :: jsnum
  sp_quoteCurrency :: string

record SwapPreviewResult =
  estimatedCharge :: jsnum
  unitLabel :: string
  breakdown :: "string list"

fun day_text :: "SwapDay \<Rightarrow> string" where
  "day_text Mon = ''mon''" | "day_text Tue = ''tue''" | "day_text Wed = ''wed''"
| "day_text Thu = ''thu''" | "day_text Fri = ''fri''" | "day_text Sat = ''sat''" | "day_text Sun = ''sun''"

text \<open>The typographic characters of the breakdown, in UTF-8.\<close>

definition times_sign :: string where
  "times_sign = [CHR 0xC3, CHR 0x97]"

definition arrow_sign :: string where
  "arrow_sign = [CHR 0xE2, CHR 0x86, CHR 0x92]"

definition swap_rate :: "SwapRule \<Rightarrow> SwapPreviewInput \<Rightarrow> jsnum" where
  "swap_rate r inp = (if sp_side inp = SLong then longRate r else shortRate r)"

text \<open>The number of charging periods, and the line that explains it.\<close>

definition swap_periods :: "SwapRule \<Rightarrow> SwapPreviewInput \<Rightarrow> jsnum" where
  "swap_periods r inp = (case calcMode r of
     Daily \<Rightarrow> jdiv (holdingHours inp) (Num 24)
   | Hourly \<Rightarrow> holdingHours inp
   | Funding_8h \<Rightarrow> jdiv (holdingHours inp) (Num 8))"

definition periods_line :: "SwapRule \<Rightarrow> SwapPreviewInput \<Rightarrow> string" where
  "periods_line r inp = (let p = toFixed_nat (swap_periods r inp) 2 in case calcMode r of
     Daily \<Rightarrow> ''Calculation: Daily ('' @ toString (holdingHours inp) @ '' hours = '' @ p @ '' days)''
   | Hourly \<Rightarrow> ''Calculation: Hourly ('' @ p @ '' hours)''
   | Funding_8h \<Rightarrow> ''Calculation: 8-hour funding ('' @ p @ '' periods)'')"

definition swap_notional :: "SwapPreviewInput \<Rightarrow> jsnum" where
  "swap_notional inp = jmul (positionSize inp) (currentPrice inp)"

definition raw_charge :: "SwapRule \<Rightarrow> SwapPreviewInput \<Rightarrow> jsnum" where
  "raw_charge r inp = (let rate = swap_rate r inp; periods = swap_periods r inp in
     if sr_unit r = SPercent
     then jmul (jmul (swap_notional inp) (jdiv rate (Num 100))) periods
     else jmul rate periods)"

definition formula_lines :: "SwapRule \<Rightarrow> SwapPreviewInput \<Rightarrow> string list" where
  "formula_lines r inp =
     (let rate = toString (swap_rate r inp); p = toFixed_nat (swap_periods r inp) 2;
          n = toFixed_nat (swap_notional inp) 2; c = toFixed_nat (raw_charge r inp) 4; t = times_sign
      in if sr_unit r = SPercent then
           [''Notional: '' @ n @ '' '' @ sp_quoteCurrency inp,
            ''Formula: '' @ n @ '' '' @ t @ '' ('' @ rate @ ''% / 100) '' @ t @ '' '' @ p @ '' = '' @ c @ '' (accrual)'']
         else
           [''Formula: '' @ rate @ '' '' @ sp_quoteCurrency inp @ '' '' @ t @ '' '' @ p @ '' = '' @ c @ '' (accrual)''])"

text \<open>The clamps, each with the line it adds.\<close>

definition clamp_line :: "string \<Rightarrow> jsnum \<Rightarrow> jsnum \<Rightarrow> string" where
  "clamp_line name charge bnd =
     name @ '' accrual clamp: '' @ toFixed_nat charge 4 @ '' '' @ arrow_sign @ '' '' @ toFixed_nat bnd 4"

definition min_clamp :: "jsnum option \<Rightarrow> jsnum \<Rightarrow> jsnum \<times> string list" where
  "min_clamp bnd charge = (case bnd of
     None \<Rightarrow> (charge, [])
   | Some m \<Rightarrow> if jlt charge m then (m, [clamp_line ''Min'' charge m]) else (charge, []))"

definition max_clamp :: "jsnum option \<Rightarrow> jsnum \<Rightarrow> jsnum \<times> string list" where
  "max_clamp bnd charge = (case bnd of
     None \<Rightarrow> (charge, [])
   | Some m \<Rightarrow> if jlt m charge then (m, [clamp_line ''Max'' charge m]) else (charge, []))"

definition weekend_lines :: "SwapRule \<Rightarrow> string list" where
  "weekend_lines r =
     (case (weekendRule r, tripleDay r) of
        (WTripleDay, Some d) \<Rightarrow>
          [''Triple swap day: '' @ day_text d @ '' (3'' @ times_sign @ '' accrual that day when applicable)'']
      | (WFriTriple, _) \<Rightarrow> [''Friday triple swap (3'' @ times_sign @ '' accrual when applicable)'']
      | _ \<Rightarrow> [])"

definition computeSwapPreview :: "SwapRule \<Rightarrow> SwapPreviewInput \<Rightarrow> SwapPreviewResult" where
  "computeSwapPreview r inp =
     (let side = [''Side: '' @ (if sp_side inp = SLong then ''Long'' else ''Short''),
                  ''Rate: '' @ toString (swap_rate r inp) @
                    (if sr_unit r = SPercent then ''%'' else '' '' @ sp_quoteCurrency inp)];
          (c1, l1) = min_clamp (minCharge r) (raw_charge r inp);
          (c2, l2) = max_clamp (maxCharge r) c1
      in \<lparr>estimatedCharge = c2,
          unitLabel = (if sr_unit r = SPercent then ''%'' else sp_quoteCurrency inp),
          breakdown = side @ [periods_line r inp] @ formula_lines r inp @ l1 @ l2 @ weekend_lines r @
            [''Rollover time: '' @ rolloverTimeUtc r @ '' UTC'']\<rparr>)"

lemma estimatedCharge_eq:
  "estimatedCharge (computeSwapPreview r inp) =
     fst (max_clamp (maxCharge r) (fst (min_clamp (minCharge r) (raw_charge r inp))))"
  by (simp add: computeSwapPreview_def case_prod_beta Let_def)

lemma swap_clamp_ge:
  assumes "jle z c" "\<forall>m. hi = Some m \<longrightarrow> jle z m"
  shows "jle z (fst (max_clamp hi (fst (min_clamp lo c))))"
proof -
  have "jle z (fst (min_clamp lo c))"
    using assms(1) jle_trans [of z c] by (auto simp: min_clamp_def jle_def split: option.splits)
  then show ?thesis using assms(2) by (simp add: max_clamp_def split: option.splits)
qed

text \<open>The estimated charge respects the rule's limits; a charge within them is not changed, and
  then the breakdown reports no clamp.\<close>

theorem computeSwapPreview_limits:
  assumes "minCharge r = Some lo" "maxCharge r = Some hi" "jle lo hi" "raw_charge r inp \<noteq> NaN"
  shows "jle lo (estimatedCharge (computeSwapPreview r inp)) \<and>
    jle (estimatedCharge (computeSwapPreview r inp)) hi \<and>
    (jle lo (raw_charge r inp) \<and> jle (raw_charge r inp) hi \<longrightarrow>
       estimatedCharge (computeSwapPreview r inp) = raw_charge r inp \<and>
       breakdown (computeSwapPreview r inp) =
         take 2 (breakdown (computeSwapPreview r inp)) @ [periods_line r inp] @ formula_lines r inp @
         weekend_lines r @ [''Rollover time: '' @ rolloverTimeUtc r @ '' UTC''])"
proof -
  have n: "lo \<noteq> NaN" "hi \<noteq> NaN" using assms(3) by (auto dest: jle_not_nan)
  have nn: "\<not> jlt x y" if "jle y x" for x y
    using that by (auto simp: jle_def jeq_def dest: jlt_trans)
  show ?thesis
    using assms n by (auto simp: estimatedCharge_eq min_clamp_def max_clamp_def not_jlt_iff)
      (auto simp: computeSwapPreview_def min_clamp_def max_clamp_def nn)
qed

text \<open>With a rate, notional and holding time of zero or more, the preview charges nothing negative:
  only a negative maximum can make the estimated charge negative.\<close>

theorem computeSwapPreview_sign:
  assumes "jle (Num 0) (swap_rate r inp)" "jle (Num 0) (swap_notional inp)" "jle (Num 0) (holdingHours inp)"
    and "raw_charge r inp \<noteq> NaN"
    and "\<forall>m. maxCharge r = Some m \<longrightarrow> jle (Num 0) m"
  shows "jle (Num 0) (estimatedCharge (computeSwapPreview r inp))"
proof -
  have p: "jle (Num 0) (swap_periods r inp)"
    using assms(3) by (cases "calcMode r") (simp_all add: swap_periods_def jdiv_nonneg)
  have "jle (Num 0) (raw_charge r inp)"
  proof (cases "sr_unit r = SPercent")
    case True
    let ?c = "jmul (swap_notional inp) (jdiv (swap_rate r inp) (Num 100))"
    have raw: "raw_charge r inp = jmul ?c (swap_periods r inp)" using True by (simp add: raw_charge_def)
    then have "?c \<noteq> NaN" using assms(4) by auto
    then have "jle (Num 0) ?c" using assms(1,2) by (intro jmul_nonneg jdiv_nonneg) simp_all
    then show ?thesis using raw p assms(4) by (simp add: jmul_nonneg)
  next
    case False
    then have "raw_charge r inp = jmul (swap_rate r inp) (swap_periods r inp)" by (simp add: raw_charge_def)
    then show ?thesis using assms(1,4) p by (simp add: jmul_nonneg)
  qed
  then show ?thesis unfolding estimatedCharge_eq using assms(5) by (intro swap_clamp_ge) simp_all
qed

definition sample_swap :: SwapRule where
  "sample_swap = \<lparr>sr_id = ''1'', sr_groupId = ''g'', sr_groupName = ''G'', sr_symbol = ''EURUSD'',
     sr_market = MForex, calcMode = Daily, sr_unit = SFixed, longRate = Num 3, shortRate = Num (-1),
     rolloverTimeUtc = ''22:00'', tripleDay = Some Wed, weekendRule = WTripleDay,
     minCharge = Some (Num 0), maxCharge = Some (Num 5), sr_status = RActive, sr_updatedAt = [],
     sr_updatedBy = [], createdByUserId = None, createdByEmail = None, sr_notes = None, tagIds = None\<rparr>"

definition sample_input :: SwapPreviewInput where
  "sample_input = \<lparr>sp_side = SLong, positionSize = Num 10, sp_entryPrice = Num 1, currentPrice = Num 2,
     leverage = Num 1, holdingHours = Num 48, sp_quoteCurrency = ''USD''\<rparr>"

lemma sample_charge: "raw_charge sample_swap sample_input = Num 6"
  by (simp add: raw_charge_def sample_swap_def sample_input_def swap_rate_def swap_periods_def Let_def num_simps)

lemma computeSwapPreview_limits_witness:
  "jle (Num 0) (estimatedCharge (computeSwapPreview sample_swap sample_input)) \<and>
   jle (estimatedCharge (computeSwapPreview sample_swap sample_input)) (Num 5)"
  using computeSwapPreview_limits [of sample_swap "Num 0" "Num 5" sample_input] sample_charge
  by (simp add: sample_swap_def)

lemma computeSwapPreview_sign_witness:
  "jle (Num 0) (estimatedCharge (computeSwapPreview sample_swap sample_input))"
  by (rule computeSwapPreview_sign) (simp_all add: sample_charge, simp_all add: sample_swap_def
      sample_input_def swap_rate_def swap_notional_def num_simps)

end
