(* ===== verification/Ws_Events.thy ===== *)
theory Ws_Events
  imports Js_Prelude
begin

text \<open>
  The protocol of the socket to \<open>ws-gateway\<close> (\<open>shared/ws/wsEvents.ts\<close>): the payload records, the
  events the client sends and those it receives. A \<open>type\<close> tag with its fields is a constructor;
  an optional field is an option, a value typed \<open>any\<close> a JSON value, an ISO date a string. The end
  holds what the socket clients share: a socket's \<open>readyState\<close> and the treatment of tokens.
\<close>

section \<open>Payloads\<close>

record DepositRequestCreatePayload =
  drc_transactionId :: string
  drc_requestId :: "string option"
  drc_userId :: string
  drc_amount :: jsnum
  drc_currency :: string
  drc_note :: "string option"
  drc_createdAt :: string

record DepositRequestApprovePayload =
  dra_transactionId :: string
  dra_requestId :: "string option"
  dra_adminId :: string
  dra_approvedAt :: string

type_synonym DepositRequestCreatedPayload = DepositRequestCreatePayload

record DepositRequestApprovedPayload =
  drd_transactionId :: string
  drd_requestId :: "string option"
  drd_userId :: string
  drd_amount :: jsnum
  drd_currency :: string
  drd_approvedAt :: string
  drd_newBalance :: jsnum

datatype NotificationKind = DEPOSIT_REQUEST | DEPOSIT_APPROVED | DEPOSIT_REJECTED
  | WITHDRAWAL_APPROVED | POSITION_SL | POSITION_TP | POSITION_LIQUIDATED | ADMIN_MESSAGE
  | SWAP_FIRST_CHARGE

record NotificationPushPayload =
  np_id :: string
  np_kind :: NotificationKind
  np_title :: string
  np_message :: string
  np_createdAt :: string
  np_read :: bool
  np_meta :: "(string \<times> json) list option"

record OrderUpdateInboundPayload =
  ou_order_id :: "string option"
  ou_orderId :: "string option"
  ou_status :: "string option"
  ou_symbol :: "string option"
  ou_side :: "string option"
  ou_quantity :: "string option"
  ou_price :: "string option"
  ou_ts :: "jsnum option"
  ou_reason :: "string option"
  ou_details :: "(string \<times> json) list option"

record AccountSummaryUpdatedPayload =
  as_userId :: string
  as_balance :: jsnum
  as_equity :: jsnum
  as_marginUsed :: jsnum
  as_freeMargin :: jsnum
  as_marginLevel :: string
  as_realizedPnl :: jsnum
  as_unrealizedPnl :: jsnum
  as_totalSwapPaidUsd :: "jsnum option"
  as_totalFeesPaidUsd :: "jsnum option"
  as_updatedAt :: string

record WalletBalancePayload =
  wb_userId :: string
  wb_balance :: jsnum
  wb_currency :: string
  wb_available :: jsnum
  wb_locked :: jsnum
  wb_equity :: jsnum
  wb_margin_used :: jsnum
  wb_free_margin :: jsnum
  wb_updatedAt :: string

record WithdrawalApprovedPayload =
  wa_userId :: string
  wa_amount :: jsnum
  wa_currency :: string
  wa_approvedAt :: string
  wa_newBalance :: jsnum
  wa_requestId :: string

record AdminOrderCanceledPayload =
  aoc_orderId :: string
  aoc_userId :: string
  aoc_timestamp :: string

record AdminOrderFilledPayload =
  aof_orderId :: string
  aof_userId :: string
  aof_filledSize :: jsnum
  aof_averagePrice :: jsnum
  aof_timestamp :: string

record AdminOrderRejectedPayload =
  aor_orderId :: string
  aor_userId :: string
  aor_reason :: string
  aor_timestamp :: string

record AdminPositionClosedPayload =
  apc_positionId :: string
  apc_userId :: string
  apc_closedSize :: jsnum
  apc_pnl :: jsnum
  apc_timestamp :: string

record AdminPositionLiquidatedPayload =
  apl_positionId :: string
  apl_userId :: string
  apl_timestamp :: string

record AdminPositionSltpModifiedPayload =
  aps_positionId :: string
  aps_userId :: string
  aps_stopLoss :: "jsnum option"
  aps_takeProfit :: "jsnum option"
  aps_timestamp :: string

record AdminMarginCallPayload =
  amc_userId :: string
  amc_equity :: jsnum
  amc_marginUsed :: jsnum
  amc_freeMargin :: jsnum
  amc_timestamp :: string

record AdminLiquidationWarningPayload =
  alw_userId :: string
  alw_positionId :: string
  alw_liquidationPrice :: jsnum
  alw_markPrice :: jsnum
  alw_timestamp :: string

text \<open>Report streams; \<open>bulkBatchId\<close> may be absent or \<open>null\<close>, which the code treats alike.\<close>

datatype AiReportStreamPayload =
    AiStarted (ai_reportId: string) (ai_subjectUserId: string) (ai_batch: "string option")
  | AiDelta (ai_reportId: string) (ai_text: string)
  | AiDone (ai_reportId: string) (ai_batch: "string option")
  | AiError (ai_reportId: string) (ai_message: string) (ai_batch: "string option")
  | AiBatchProgress (ai_bulkBatchId: string) (ai_completed: jsnum) (ai_total: jsnum)

datatype SenderType = SenderUser | SenderSupport

record ChatPayload =
  ch_id :: string
  ch_userId :: string
  ch_senderType :: SenderType
  ch_senderId :: "string option"
  ch_body :: string
  ch_createdAt :: string

datatype AiChatType = ChatDelta | ChatDone | ChatError | ChatMessage

record AiChatPayload =
  ac_type :: AiChatType
  ac_conversationId :: string
  ac_messageId :: string
  ac_text :: "string option"
  ac_content :: "string option"
  ac_role :: "string option"
  ac_blockedReason :: "string option"
  ac_detail :: "string option"

record PriceTick =
  tick_symbol :: string
  tick_bid :: string
  tick_ask :: string
  tick_ts :: jsnum

section \<open>Events\<close>

text \<open>Client to server.\<close>

datatype WsOutboundEvent =
    OutAuth string
  | OutSubscribe "string list" "string list"
  | OutUnsubscribe "string list"
  | OutDepositCreate DepositRequestCreatePayload
  | OutDepositApprove DepositRequestApprovePayload
  | OutCallInitiate string "string option"
  | OutCallAnswer string
  | OutCallReject string
  | OutCallEnd string
  | OutWebrtcOffer string string
  | OutWebrtcAnswer string string
  | OutWebrtcIce string string

text \<open>Server to client.\<close>

datatype WsInboundEvent =
    InAuthSuccess string "string option"
  | InAuthError string
  | InDepositCreated DepositRequestCreatedPayload
  | InDepositApproved DepositRequestApprovedPayload
  | InNotificationPush NotificationPushPayload
  | InWalletBalance WalletBalancePayload
  | InAccountSummary AccountSummaryUpdatedPayload
  | InWithdrawalApproved WithdrawalApprovedPayload
  | InAdminOrderCreated json
  | InAdminOrderUpdated json
  | InAdminOrderCanceled AdminOrderCanceledPayload
  | InAdminOrderFilled AdminOrderFilledPayload
  | InAdminOrderRejected AdminOrderRejectedPayload
  | InAdminPositionOpened json
  | InAdminPositionUpdated json
  | InAdminPositionClosed AdminPositionClosedPayload
  | InAdminPositionLiquidated AdminPositionLiquidatedPayload
  | InAdminPositionSltp AdminPositionSltpModifiedPayload
  | InAdminMarginCall AdminMarginCallPayload
  | InAdminLiquidationWarning AdminLiquidationWarningPayload
  | InAdminAudit json
  | InTick PriceTick
  | InOrderUpdateFlat OrderUpdateInboundPayload
  | InOrderUpdateDot "OrderUpdateInboundPayload option"
  | InOrderUpdated "OrderUpdateInboundPayload option"
  | InChatMessage ChatPayload
  | InAiChatDelta AiChatPayload
  | InAiReportDelta AiReportStreamPayload
  | InError string
  | InCallIncoming string string "string option"
  | InCallRinging string string
  | InCallAccepted string string
  | InCallRejected string string
  | InCallEnded string string
  | InCallError "string option" string string
  | InWebrtcOffer string string
  | InWebrtcAnswer string string
  | InWebrtcIce string string

definition is_auth :: "WsOutboundEvent \<Rightarrow> bool" where
  "is_auth m = (case m of OutAuth _ \<Rightarrow> True | _ \<Rightarrow> False)"

lemma is_auth_simps [simp]: "is_auth (OutAuth t)" "\<not> is_auth (OutSubscribe ss cs)" "\<not> is_auth (OutUnsubscribe ss)"
  by (simp_all add: is_auth_def)

section \<open>Shared by the socket clients\<close>

datatype ready = CONNECTING | OPEN | CLOSING | CLOSED

text \<open>\<open>t.replace(/^\s*Bearer\s+/i, '').trim()\<close>.\<close>

definition rawToken :: "string \<Rightarrow> string" where
  "rawToken t =
     (let s = dropWhile is_space t; r = drop 6 s in
      if toLowerCase (take 6 s) = ''bearer'' \<and> r \<noteq> [] \<and> is_space (hd r)
      then trim r else trim t)"

text \<open>An empty token counts as none.\<close>

definition some_token :: "string option \<Rightarrow> string option" where
  "some_token t = (case t of Some [] \<Rightarrow> None | _ \<Rightarrow> t)"

end
