(* ===== verification/Machine.thy ===== *)
theory Machine
  imports Js_Prelude
begin

text \<open>
  Components that react to events. A machine is a start condition, an \<^emph>\<open>enabled\<close> predicate (what
  the environment can do in a state: a timer that is pending can fire, an open socket can
  deliver a message) and a total step function. \<open>reach\<close> is the set of reachable states, \<open>run\<close>
  executes a list of events. The locales are the contract a component discharges once: a
  predicate that every enabled event keeps holds in every reachable state and along every run.
\<close>

inductive reach :: "('s \<Rightarrow> bool) \<Rightarrow> ('a \<Rightarrow> 's \<Rightarrow> bool) \<Rightarrow> ('a \<Rightarrow> 's \<Rightarrow> 's) \<Rightarrow> 's \<Rightarrow> bool"
  for init en act where
  reach_init: "init s \<Longrightarrow> reach init en act s"
| reach_step: "reach init en act s \<Longrightarrow> en a s \<Longrightarrow> reach init en act (act a s)"

fun run :: "('a \<Rightarrow> 's \<Rightarrow> bool) \<Rightarrow> ('a \<Rightarrow> 's \<Rightarrow> 's) \<Rightarrow> 'a list \<Rightarrow> 's \<Rightarrow> 's option" where
  "run en act [] s = Some s"
| "run en act (a # as) s = (if en a s then run en act as (act a s) else None)"

lemma run_append: "run en act (as @ bs) s = (case run en act as s of None \<Rightarrow> None | Some t \<Rightarrow> run en act bs t)"
  by (induction as arbitrary: s) simp_all

lemma run_reach: "reach init en act s \<Longrightarrow> run en act as s = Some t \<Longrightarrow> reach init en act t"
  by (induction as arbitrary: s) (auto intro: reach_step split: if_splits)

lemma run_start: "init s \<Longrightarrow> run en act as s = Some t \<Longrightarrow> reach init en act t"
  using run_reach reach_init by metis

text \<open>A predicate that, once true, stays true.\<close>

locale stable_system =
  fixes en :: "'a \<Rightarrow> 's \<Rightarrow> bool" and act :: "'a \<Rightarrow> 's \<Rightarrow> 's" and P :: "'s \<Rightarrow> bool"
  assumes step_stable: "P s \<Longrightarrow> en a s \<Longrightarrow> P (act a s)"
begin

lemma run_stable: "P s \<Longrightarrow> run en act as s = Some t \<Longrightarrow> P t"
  by (induction as arbitrary: s) (auto intro: step_stable split: if_splits)

end

text \<open>A stable predicate of the start states is an invariant.\<close>

locale invariant_system = stable_system +
  fixes init :: "'b \<Rightarrow> bool"
  assumes init_inv: "init s \<Longrightarrow> P s"
begin

lemma reach_inv: "reach init en act s \<Longrightarrow> P s"
  by (induction rule: reach.induct) (auto intro: init_inv step_stable)

end

end
