(* ===== verification/Ws_Client.thy ===== *)
theory Ws_Client
  imports Ws_Events Machine "HOL-Library.Multiset"
begin

text \<open>
  The WebSocket client of the app (\<open>shared/ws/wsClient.ts\<close>): connection states, the queue of
  messages that wait for authentication, the reconnect timer, subscriptions and listeners.

  Sockets are numbered in the order they are created; \<open>socks\<close> holds their \<open>readyState\<close>, \<open>ws\<close> the
  one the client holds. The callbacks the code hands to the browser are events of the machine:
  a socket opens, delivers a message or closes (also one the client has dropped), a timer
  fires, a token arrives. \<open>wire\<close>, \<open>delivered\<close> and \<open>stateLog\<close> record what the client does to the
  outside: messages written to a socket (with a mark on the automatic subscription), events
  handed to handlers, state changes announced to listeners. \<open>ok m\<close> says whether \<open>ws.send\<close>
  accepts a message or throws.
\<close>

section \<open>State\<close>

datatype ConnectionState = Disconnected | Connecting | Connected | Authenticated

record ws_client =
  ws :: "nat option"
  socks :: "ready list"
  conn :: ConnectionState
  handlers :: "nat list"
  reconnectAttempts :: nat
  reconnectTimer :: "nat option"
  messageQueue :: "WsOutboundEvent list"
  shouldReconnect :: bool
  stateListeners :: "nat list"
  isAuthenticated :: bool
  authTimers :: nat
  authRetries :: nat
  subTimers :: "bool list"
  wire :: "(bool \<times> nat \<times> WsOutboundEvent) list"
  delivered :: "(nat \<times> WsInboundEvent) list"
  stateLog :: "(nat \<times> ConnectionState) list"

definition ws_init :: ws_client where
  "ws_init = \<lparr>ws = None, socks = [], conn = Disconnected, handlers = [], reconnectAttempts = 0,
     reconnectTimer = None, messageQueue = [], shouldReconnect = True, stateListeners = [],
     isAuthenticated = False, authTimers = 0, authRetries = 0, subTimers = [], wire = [],
     delivered = [], stateLog = []\<rparr>"

definition maxReconnectAttempts :: nat where
  "maxReconnectAttempts = 50"

text \<open>\<open>this.ws?.readyState === WebSocket.OPEN\<close>.\<close>

definition ws_open :: "ws_client \<Rightarrow> bool" where
  "ws_open c = (case ws c of None \<Rightarrow> False | Some i \<Rightarrow> i < length (socks c) \<and> socks c ! i = OPEN)"

definition isConnected :: "ws_client \<Rightarrow> bool" where
  "isConnected c = (isAuthenticated c \<and> conn c = Authenticated \<and> ws_open c)"

section \<open>Operations\<close>

definition setState :: "ConnectionState \<Rightarrow> ws_client \<Rightarrow> ws_client" where
  "setState s c = (if conn c = s then c
     else c\<lparr>conn := s, stateLog := stateLog c @ map (\<lambda>l. (l, s)) (stateListeners c)\<rparr>)"

text \<open>Milliseconds until the next attempt.\<close>

definition reconnect_delay :: "nat \<Rightarrow> nat" where
  "reconnect_delay n = min (1000 * 2 ^ n) 30000"

definition scheduleReconnect :: "ws_client \<Rightarrow> ws_client" where
  "scheduleReconnect c = c\<lparr>reconnectTimer := Some (reconnect_delay (reconnectAttempts c)),
     reconnectAttempts := reconnectAttempts c + 1\<rparr>"

text \<open>\<open>created\<close>: whether the \<open>WebSocket\<close> constructor returns or throws.\<close>

definition connect :: "bool \<Rightarrow> ws_client \<Rightarrow> ws_client" where
  "connect created c =
     (if ws_open c then c
      else if conn c = Connecting then c
      else let c = setState Connecting c in
        if created then c\<lparr>ws := Some (length (socks c)), socks := socks c @ [CONNECTING]\<rparr>
        else scheduleReconnect (setState Disconnected c))"

text \<open>\<open>this.ws.send\<close> on the open socket.\<close>

definition put_wire :: "bool \<Rightarrow> WsOutboundEvent \<Rightarrow> ws_client \<Rightarrow> ws_client" where
  "put_wire auto m c = (case ws c of None \<Rightarrow> c | Some i \<Rightarrow> c\<lparr>wire := wire c @ [(auto, i, m)]\<rparr>)"

definition enqueue :: "WsOutboundEvent \<Rightarrow> ws_client \<Rightarrow> ws_client" where
  "enqueue m c = c\<lparr>messageQueue := messageQueue c @ [m]\<rparr>"

text \<open>
  \<open>send\<close>: an \<open>auth\<close> message goes out on a connected socket or is dropped; any other message goes
  out when authenticated, and is queued otherwise (the source has the branch twice, for
  subscriptions and for the rest).
\<close>

definition send :: "(WsOutboundEvent \<Rightarrow> bool) \<Rightarrow> bool \<Rightarrow> WsOutboundEvent \<Rightarrow> ws_client \<Rightarrow> ws_client" where
  "send ok created m c =
     (if is_auth m then
        (if conn c = Connected \<and> ws_open c \<and> ok m then put_wire False m c else c)
      else if isAuthenticated c \<and> conn c = Authenticated \<and> ws_open c then
        (if ok m then put_wire False m c else enqueue m c)
      else let c = enqueue m c in if conn c = Disconnected then connect created c else c)"

definition sendSubscribe :: "(WsOutboundEvent \<Rightarrow> bool) \<Rightarrow> bool \<Rightarrow> string list \<Rightarrow> string list \<Rightarrow> ws_client \<Rightarrow> ws_client" where
  "sendSubscribe ok created symbols channels = send ok created (OutSubscribe symbols channels)"

definition sendUnsubscribe :: "(WsOutboundEvent \<Rightarrow> bool) \<Rightarrow> bool \<Rightarrow> string list \<Rightarrow> ws_client \<Rightarrow> ws_client" where
  "sendUnsubscribe ok created symbols = send ok created (OutUnsubscribe symbols)"

text \<open>The loop of \<open>flushMessageQueue\<close>, on the queue.\<close>

fun flush_from :: "(WsOutboundEvent \<Rightarrow> bool) \<Rightarrow> WsOutboundEvent list \<Rightarrow> ws_client \<Rightarrow> ws_client" where
  "flush_from ok [] c = c\<lparr>messageQueue := []\<rparr>"
| "flush_from ok (m # ms) c =
     (if isConnected c then
        (if ok m then flush_from ok ms (put_wire False m (c\<lparr>messageQueue := ms\<rparr>))
         else c\<lparr>messageQueue := m # ms\<rparr>)
      else c\<lparr>messageQueue := m # ms\<rparr>)"

definition flushMessageQueue :: "(WsOutboundEvent \<Rightarrow> bool) \<Rightarrow> ws_client \<Rightarrow> ws_client" where
  "flushMessageQueue ok c = flush_from ok (messageQueue c) c"

definition disconnect :: "ws_client \<Rightarrow> ws_client" where
  "disconnect c =
     (let c = c\<lparr>shouldReconnect := False, reconnectTimer := None\<rparr>;
          c = (case ws c of None \<Rightarrow> c
               | Some i \<Rightarrow> c\<lparr>socks := (socks c)[i := (if socks c ! i = CLOSED then CLOSED else CLOSING)],
                             ws := None\<rparr>)
      in setState Disconnected c)"

subsection \<open>Authentication\<close>

text \<open>\<open>authenticateAsync\<close> and \<open>reauthenticate\<close>, from the arrival of the token on.\<close>

definition authenticate_with :: "(WsOutboundEvent \<Rightarrow> bool) \<Rightarrow> string option \<Rightarrow> ws_client \<Rightarrow> ws_client" where
  "authenticate_with ok token c =
     (case some_token token of
        None \<Rightarrow> c
      | Some t \<Rightarrow> if conn c \<noteq> Connected \<or> \<not> ws_open c then c
                  else if ok (OutAuth (rawToken t)) then put_wire False (OutAuth (rawToken t)) c else c)"

definition reauthenticate_with :: "(WsOutboundEvent \<Rightarrow> bool) \<Rightarrow> string option \<Rightarrow> ws_client \<Rightarrow> ws_client" where
  "reauthenticate_with ok token c =
     (case some_token token of
        None \<Rightarrow> c
      | Some t \<Rightarrow> if \<not> ws_open c then c
                  else if ok (OutAuth (rawToken t)) then put_wire False (OutAuth (rawToken t)) c else c)"

subsection \<open>Socket callbacks\<close>

definition sock_ready :: "ws_client \<Rightarrow> nat \<Rightarrow> ready option" where
  "sock_ready c i = (if i < length (socks c) then Some (socks c ! i) else None)"

definition onopen :: "nat \<Rightarrow> ws_client \<Rightarrow> ws_client" where
  "onopen i c = (let c = setState Connected (c\<lparr>socks := (socks c)[i := OPEN]\<rparr>) in
     c\<lparr>reconnectAttempts := 0, authTimers := authTimers c + 1\<rparr>)"

text \<open>\<open>role\<close>: the role of the signed-in user, if there is one.\<close>

definition on_auth_success :: "(WsOutboundEvent \<Rightarrow> bool) \<Rightarrow> string option \<Rightarrow> ws_client \<Rightarrow> ws_client" where
  "on_auth_success ok role c =
     (let c = flushMessageQueue ok (setState Authenticated (c\<lparr>isAuthenticated := True\<rparr>)) in
      case role of
        None \<Rightarrow> c
      | Some r \<Rightarrow> if ws_open c then c\<lparr>subTimers := subTimers c @ [r = ''admin'']\<rparr> else c)"

definition dispatch :: "WsInboundEvent \<Rightarrow> ws_client \<Rightarrow> ws_client" where
  "dispatch e c = c\<lparr>delivered := delivered c @ map (\<lambda>h. (h, e)) (handlers c)\<rparr>"

definition onmessage :: "(WsOutboundEvent \<Rightarrow> bool) \<Rightarrow> string option \<Rightarrow> WsInboundEvent \<Rightarrow> ws_client \<Rightarrow> ws_client" where
  "onmessage ok role e c =
     dispatch e (case e of
        InAuthSuccess _ _ \<Rightarrow> on_auth_success ok role c
      | InAuthError _ \<Rightarrow> c\<lparr>isAuthenticated := False, authRetries := authRetries c + 1\<rparr>
      | _ \<Rightarrow> c)"

definition onclose :: "nat \<Rightarrow> ws_client \<Rightarrow> ws_client" where
  "onclose i c =
     (let c = setState Disconnected (c\<lparr>socks := (socks c)[i := CLOSED], isAuthenticated := False\<rparr>) in
      if shouldReconnect c \<and> reconnectAttempts c < maxReconnectAttempts then scheduleReconnect c else c)"

text \<open>The automatic subscription, half a second after authentication.\<close>

definition auto_subscription :: "bool \<Rightarrow> WsOutboundEvent" where
  "auto_subscription admin =
     OutSubscribe [] (if admin then [''deposits'', ''notifications'', ''support''] else [''balances'', ''wallet''])"

definition auto_subscribe :: "(WsOutboundEvent \<Rightarrow> bool) \<Rightarrow> ws_client \<Rightarrow> ws_client" where
  "auto_subscribe ok c =
     (case subTimers c of
        [] \<Rightarrow> c
      | a # as \<Rightarrow>
          (let c = c\<lparr>subTimers := as\<rparr>; m = auto_subscription a in
           if ws_open c \<and> isAuthenticated c \<and> ok m then put_wire True m c else c))"

section \<open>The machine\<close>

datatype ws_event =
    DoConnect bool
  | DoSend WsOutboundEvent bool
  | DoDisconnect
  | DoReauthenticate "string option"
  | AddHandler nat
  | RemoveHandler nat
  | AddListener nat
  | RemoveListener nat
  | SockOpen nat
  | SockMessage nat WsInboundEvent "string option"
  | SockClose nat
  | AuthTimer "string option"
  | AuthRetry "string option"
  | SubTimer
  | ReconnectTimer bool

fun ws_enabled :: "(WsOutboundEvent \<Rightarrow> bool) \<times> ws_event \<Rightarrow> ws_client \<Rightarrow> bool" where
  "ws_enabled (ok, SockOpen i) c = (sock_ready c i = Some CONNECTING)"
| "ws_enabled (ok, SockMessage i e r) c = (sock_ready c i = Some OPEN)"
| "ws_enabled (ok, SockClose i) c = (sock_ready c i \<noteq> None \<and> sock_ready c i \<noteq> Some CLOSED)"
| "ws_enabled (ok, AuthTimer t) c = (0 < authTimers c)"
| "ws_enabled (ok, AuthRetry t) c = (0 < authRetries c)"
| "ws_enabled (ok, SubTimer) c = (subTimers c \<noteq> [])"
| "ws_enabled (ok, ReconnectTimer b) c = (reconnectTimer c \<noteq> None)"
| "ws_enabled (ok, _) c = True"

fun ws_do :: "(WsOutboundEvent \<Rightarrow> bool) \<times> ws_event \<Rightarrow> ws_client \<Rightarrow> ws_client" where
  "ws_do (ok, DoConnect b) c = connect b c"
| "ws_do (ok, DoSend m b) c = send ok b m c"
| "ws_do (ok, DoDisconnect) c = disconnect c"
| "ws_do (ok, DoReauthenticate t) c = reauthenticate_with ok t c"
| "ws_do (ok, AddHandler h) c = c\<lparr>handlers := set_add h (handlers c)\<rparr>"
| "ws_do (ok, RemoveHandler h) c = c\<lparr>handlers := set_delete h (handlers c)\<rparr>"
| "ws_do (ok, AddListener l) c = c\<lparr>stateListeners := set_add l (stateListeners c)\<rparr>"
| "ws_do (ok, RemoveListener l) c = c\<lparr>stateListeners := set_delete l (stateListeners c)\<rparr>"
| "ws_do (ok, SockOpen i) c = onopen i c"
| "ws_do (ok, SockMessage i e r) c = onmessage ok r e c"
| "ws_do (ok, SockClose i) c = onclose i c"
| "ws_do (ok, AuthTimer t) c = authenticate_with ok t (c\<lparr>authTimers := authTimers c - 1\<rparr>)"
| "ws_do (ok, AuthRetry t) c = reauthenticate_with ok t (c\<lparr>authRetries := authRetries c - 1\<rparr>)"
| "ws_do (ok, SubTimer) c = auto_subscribe ok c"
| "ws_do (ok, ReconnectTimer b) c = connect b (c\<lparr>reconnectTimer := None\<rparr>)"

abbreviation ws_reach :: "ws_client \<Rightarrow> bool" where
  "ws_reach \<equiv> reach (\<lambda>c. c = ws_init) ws_enabled ws_do"

section \<open>Facts\<close>

text \<open>What a flush does, in one equation: it sends the queue up to the first message that fails.\<close>

lemma isConnected_update [simp]:
  "isConnected (c\<lparr>messageQueue := q\<rparr>) = isConnected c" "isConnected (c\<lparr>wire := w\<rparr>) = isConnected c"
  by (simp_all add: isConnected_def ws_open_def split: option.split)

lemma isConnected_ws: "isConnected c \<Longrightarrow> \<exists>i. ws c = Some i"
  by (auto simp: isConnected_def ws_open_def split: option.splits)

lemma flush_from_eq:
  "flush_from ok ms c =
     (if isConnected c
      then c\<lparr>wire := wire c @ map (\<lambda>m. (False, the (ws c), m)) (takeWhile ok ms), messageQueue := dropWhile ok ms\<rparr>
      else c\<lparr>messageQueue := ms\<rparr>)"
proof (induction ms arbitrary: c)
  case Nil
  then show ?case by simp
next
  case (Cons m ms)
  show ?case
  proof (cases "isConnected c \<and> ok m")
    case True
    then obtain i where "ws c = Some i" using isConnected_ws by blast
    then show ?thesis using True Cons.IH by (simp add: put_wire_def)
  qed auto
qed

lemmas flush_eq = flushMessageQueue_def flush_from_eq

lemmas ws_defs = connect_def send_def disconnect_def scheduleReconnect_def setState_def put_wire_def
  enqueue_def authenticate_with_def reauthenticate_with_def onopen_def on_auth_success_def dispatch_def
  onmessage_def onclose_def auto_subscribe_def flush_eq Let_def

lemmas ws_splits = option.splits list.splits if_splits WsInboundEvent.splits

lemma ws_open_simps [simp]:
  "ws_open (c\<lparr>messageQueue := q\<rparr>) = ws_open c" "ws_open (c\<lparr>wire := w\<rparr>) = ws_open c"
  "ws_open (c\<lparr>conn := s\<rparr>) = ws_open c" "ws_open (c\<lparr>stateLog := l\<rparr>) = ws_open c"
  "ws_open (c\<lparr>isAuthenticated := b\<rparr>) = ws_open c" "ws_open (c\<lparr>reconnectTimer := t\<rparr>) = ws_open c"
  "ws_open (c\<lparr>authTimers := n\<rparr>) = ws_open c" "ws_open (c\<lparr>authRetries := n\<rparr>) = ws_open c"
  "ws_open (c\<lparr>subTimers := bs\<rparr>) = ws_open c" "ws_open (c\<lparr>delivered := d\<rparr>) = ws_open c"
  "ws_open (c\<lparr>reconnectAttempts := n\<rparr>) = ws_open c" "ws_open (c\<lparr>handlers := hs\<rparr>) = ws_open c"
  "ws_open (c\<lparr>stateListeners := ls\<rparr>) = ws_open c"
  by (simp_all add: ws_open_def split: option.split)

lemma ws_open_Some: "ws_open c \<Longrightarrow> \<exists>i. ws c = Some i"
  by (auto simp: ws_open_def split: option.splits)

lemma ws_None [simp]: "ws c = None \<Longrightarrow> \<not> ws_open c"
  by (simp add: ws_open_def)

subsection \<open>The authentication flag\<close>

fun auth_after :: "ws_event \<Rightarrow> bool \<Rightarrow> bool" where
  "auth_after (SockMessage i (InAuthSuccess u g) r) b = True"
| "auth_after (SockMessage i (InAuthError x) r) b = False"
| "auth_after (SockClose i) b = False"
| "auth_after _ b = b"

lemma auth_after_step: "isAuthenticated (ws_do (ok, a) c) = auth_after a (isAuthenticated c)"
  by (cases "(a, isAuthenticated c)" rule: auth_after.cases) (auto simp: ws_defs split: ws_splits)

subsection \<open>Invariants\<close>

definition ws_inv :: "ws_client \<Rightarrow> bool" where
  "ws_inv c = ((\<forall>i. ws c = Some i \<longrightarrow> i < length (socks c)) \<and> (\<forall>m \<in> set (messageQueue c). \<not> is_auth m) \<and>
     (\<forall>d. reconnectTimer c = Some d \<longrightarrow> 1000 \<le> d \<and> d \<le> 30000) \<and>
     distinct (handlers c) \<and> distinct (stateListeners c))"

lemma reconnect_delay_bounds: "1000 \<le> reconnect_delay n \<and> reconnect_delay n \<le> 30000"
  by (simp add: reconnect_delay_def)

lemma dropWhile_not_auth: "\<forall>m \<in> set q. \<not> is_auth m \<Longrightarrow> \<forall>m \<in> set (dropWhile ok q). \<not> is_auth m"
  by (auto dest: set_dropWhileD)

lemma ws_inv_step: "ws_inv c \<Longrightarrow> ws_inv (ws_do (ok, a) c)"
proof (cases a)
  case (SockMessage i e r)
  assume "ws_inv c"
  then show ?thesis unfolding SockMessage
    by (cases e) (auto simp: ws_inv_def ws_defs dest: set_dropWhileD split: option.splits)
qed (auto simp: ws_inv_def ws_defs reconnect_delay_bounds set_add_def set_delete_def split: ws_splits)

interpretation wsc: invariant_system ws_enabled ws_do ws_inv "\<lambda>c. c = ws_init"
proof
  show "ws_inv (ws_do a c)" if "ws_inv c" "ws_enabled a c" for a c
    using that ws_inv_step by (cases a) auto
qed (simp add: ws_inv_def ws_init_def)

subsection \<open>What goes out\<close>

text \<open>One event only appends to the wire, only to the open socket the client holds, and anything but
  an \<open>auth\<close> message only while the client counts as authenticated.\<close>

definition wire_ok :: "(WsOutboundEvent \<Rightarrow> bool) \<Rightarrow> ws_client \<Rightarrow> bool \<times> nat \<times> WsOutboundEvent \<Rightarrow> bool" where
  "wire_ok ok c e = (case e of (auto, i, m) \<Rightarrow>
     ok m \<and> ws c = Some i \<and> ws_open c \<and> (is_auth m \<or> isAuthenticated c))"

lemma flush_wire:
  assumes "isAuthenticated c"
  shows "\<exists>new. wire (flush_from ok q c) = wire c @ new \<and> (\<forall>e \<in> set new. wire_ok ok (flush_from ok q c) e)"
proof (cases "isConnected c")
  case True
  then obtain i where "ws c = Some i" "ws_open c" using isConnected_ws by (auto simp: isConnected_def)
  then show ?thesis using True assms by (auto simp: flush_from_eq wire_ok_def dest: set_takeWhileD)
qed (simp add: flush_from_eq)

lemma connect_wire [simp]: "wire (connect b c) = wire c"
  by (simp add: ws_defs)

lemma wire_step:
  "\<exists>new. wire (ws_do (ok, a) c) = wire c @ new \<and> (\<forall>e \<in> set new. wire_ok ok (ws_do (ok, a) c) e)"
proof (cases a)
  case (SockMessage i e r)
  let ?c = "setState Authenticated (c\<lparr>isAuthenticated := True\<rparr>)"
  have "isAuthenticated ?c" "wire ?c = wire c" by (simp_all add: setState_def)
  then obtain new where "wire (flush_from ok (messageQueue ?c) ?c) = wire c @ new"
    "\<forall>e \<in> set new. wire_ok ok (flush_from ok (messageQueue ?c) ?c) e" using flush_wire by metis
  then show ?thesis unfolding SockMessage
    by (cases e) (auto simp: onmessage_def dispatch_def on_auth_success_def flushMessageQueue_def
        Let_def wire_ok_def split: option.splits)
qed (auto simp: ws_defs wire_ok_def dest: ws_open_Some split: ws_splits)

subsection \<open>Nothing lost, nothing twice\<close>

text \<open>The messages that went through \<open>send\<close>: the automatic subscriptions and \<open>auth\<close> are apart.\<close>

definition user_msgs :: "ws_client \<Rightarrow> WsOutboundEvent list" where
  "user_msgs c = map (\<lambda>(_, _, m). m) (filter (\<lambda>(auto, _, m). \<not> auto \<and> \<not> is_auth m) (wire c))"

fun submits :: "ws_event \<Rightarrow> WsOutboundEvent list" where
  "submits (DoSend m b) = (if is_auth m then [] else [m])"
| "submits _ = []"

lemma user_msgs_auto [simp]: "\<not> is_auth (auto_subscription a)"
  by (simp add: auto_subscription_def)

lemma filter_not_auth: "\<forall>m \<in> set q. \<not> is_auth m \<Longrightarrow>
   map (\<lambda>(_, _, m). m) (filter (\<lambda>(auto, _, m). \<not> auto \<and> \<not> is_auth m) (map (\<lambda>m. (False, i, m)) (takeWhile ok q))) =
   takeWhile ok q"
  by (induction q) auto

lemma user_msgs_flush:
  assumes "\<forall>m \<in> set q. \<not> is_auth m"
  shows "user_msgs (flush_from ok q c) @ messageQueue (flush_from ok q c) = user_msgs c @ q"
  using assms filter_not_auth [OF assms, of "the (ws c)" ok] by (simp add: flush_from_eq user_msgs_def)

lemma user_msgs_simps [simp]:
  "user_msgs (c\<lparr>messageQueue := q\<rparr>) = user_msgs c" "user_msgs (c\<lparr>conn := s\<rparr>) = user_msgs c"
  "user_msgs (c\<lparr>stateLog := l\<rparr>) = user_msgs c" "user_msgs (c\<lparr>isAuthenticated := b\<rparr>) = user_msgs c"
  "user_msgs (c\<lparr>subTimers := bs\<rparr>) = user_msgs c" "user_msgs (c\<lparr>delivered := d\<rparr>) = user_msgs c"
  "user_msgs (c\<lparr>authRetries := n\<rparr>) = user_msgs c" "user_msgs (c\<lparr>authTimers := n\<rparr>) = user_msgs c"
  "user_msgs (c\<lparr>reconnectTimer := t\<rparr>) = user_msgs c" "user_msgs (c\<lparr>reconnectAttempts := n\<rparr>) = user_msgs c"
  by (simp_all add: user_msgs_def)

lemma setState_simps [simp]: "messageQueue (setState s c) = messageQueue c" "user_msgs (setState s c) = user_msgs c"
  "isAuthenticated (setState s c) = isAuthenticated c" "conn (setState s c) = s" "ws (setState s c) = ws c"
  "ws_open (setState s c) = ws_open c" "wire (setState s c) = wire c"
  by (simp_all add: setState_def)

lemma auth_success_msgs:
  assumes "\<forall>m \<in> set (messageQueue c). \<not> is_auth m"
  shows "user_msgs (on_auth_success ok r c) @ messageQueue (on_auth_success ok r c) = user_msgs c @ messageQueue c"
  using user_msgs_flush [OF assms, of ok "setState Authenticated (c\<lparr>isAuthenticated := True\<rparr>)"]
  by (simp add: on_auth_success_def flushMessageQueue_def Let_def split: option.splits)

lemma onmessage_msgs:
  assumes "\<forall>m \<in> set (messageQueue c). \<not> is_auth m"
  shows "user_msgs (onmessage ok r e c) @ messageQueue (onmessage ok r e c) = user_msgs c @ messageQueue c"
  using auth_success_msgs [OF assms, of ok r] by (cases e) (simp_all add: onmessage_def dispatch_def)

lemma msgs_step:
  assumes "ws_inv c"
  shows "mset (user_msgs (ws_do (ok, a) c)) + mset (messageQueue (ws_do (ok, a) c)) =
    mset (user_msgs c) + mset (messageQueue c) + mset (submits a)"
proof (cases a)
  case (SockMessage i e r)
  have "\<forall>m \<in> set (messageQueue c). \<not> is_auth m" using assms by (simp add: ws_inv_def)
  from onmessage_msgs [OF this, of ok r e] show ?thesis unfolding SockMessage
    by (metis add.right_neutral mset.simps(1) mset_append submits.simps ws_do.simps(10))
qed (auto simp: ws_defs user_msgs_def split: ws_splits)

text \<open>When no send throws, the order is kept as well.\<close>

definition queue_idle :: "ws_client \<Rightarrow> bool" where
  "queue_idle c = (isConnected c \<longrightarrow> messageQueue c = [])"

lemma msgs_step_fifo:
  assumes "ws_inv c" "queue_idle c"
  shows "user_msgs (ws_do (\<lambda>_. True, a) c) @ messageQueue (ws_do (\<lambda>_. True, a) c) =
    user_msgs c @ messageQueue c @ submits a"
proof (cases a)
  case (SockMessage i e r)
  have "\<forall>m \<in> set (messageQueue c). \<not> is_auth m" using assms by (simp add: ws_inv_def)
  from onmessage_msgs [OF this, of _ r e] show ?thesis unfolding SockMessage by simp
next
  case (DoSend m b)
  have "messageQueue c = []" if "isAuthenticated c" "conn c = Authenticated" "ws_open c"
    using that assms(2) by (simp add: queue_idle_def isConnected_def)
  then show ?thesis unfolding DoSend by (auto simp: ws_defs user_msgs_def split: ws_splits)
qed (auto simp: ws_defs user_msgs_def split: ws_splits)

lemma queue_idle_step:
  assumes "queue_idle c"
  shows "queue_idle (ws_do (\<lambda>_. True, a) c)"
proof (cases a)
  case (SockMessage i e r)
  have "\<And>q. dropWhile (\<lambda>_. True) q = []" by simp
  then show ?thesis using assms unfolding SockMessage
    by (cases e) (auto simp: queue_idle_def onmessage_def dispatch_def on_auth_success_def flush_eq Let_def
        isConnected_def split: option.splits)
qed (use assms in \<open>auto simp: queue_idle_def isConnected_def ws_defs split: ws_splits\<close>)

text \<open>Sends that never throw, and constructors that never do.\<close>

definition smooth :: "(WsOutboundEvent \<Rightarrow> bool) \<times> ws_event \<Rightarrow> bool" where
  "smooth e = (fst e = (\<lambda>_. True))"

fun creates :: "ws_event \<Rightarrow> bool" where
  "creates (DoConnect b) = b"
| "creates (DoSend m b) = b"
| "creates (ReconnectTimer b) = b"
| "creates _ = True"

lemma attempts_step:
  assumes "creates a" "reconnectAttempts c \<le> maxReconnectAttempts"
  shows "reconnectAttempts (ws_do (ok, a) c) \<le> maxReconnectAttempts"
  using assms by (cases a) (auto simp: ws_defs maxReconnectAttempts_def split: ws_splits)

text \<open>After \<open>disconnect\<close> no close ever schedules an attempt again: nothing resets \<open>shouldReconnect\<close>.\<close>

definition given_up :: "ws_client \<Rightarrow> bool" where
  "given_up c = (\<not> shouldReconnect c \<and> reconnectTimer c = None)"

lemma given_up_step: "given_up c \<Longrightarrow> creates a \<Longrightarrow> given_up (ws_do (ok, a) c)"
  by (cases a) (auto simp: given_up_def ws_defs split: ws_splits)

interpretation wsq: stable_system "\<lambda>e c. ws_enabled e c \<and> smooth e" ws_do "\<lambda>c. ws_inv c \<and> queue_idle c"
proof
  show "ws_inv (ws_do e c) \<and> queue_idle (ws_do e c)"
    if "ws_inv c \<and> queue_idle c" "ws_enabled e c \<and> smooth e" for c e
    using that queue_idle_step ws_inv_step by (cases e) (auto simp: smooth_def)
qed

interpretation wsa: invariant_system "\<lambda>e c. ws_enabled e c \<and> creates (snd e)" ws_do
  "\<lambda>c. reconnectAttempts c \<le> maxReconnectAttempts" "\<lambda>c. c = ws_init"
proof
  show "reconnectAttempts (ws_do e c) \<le> maxReconnectAttempts"
    if "reconnectAttempts c \<le> maxReconnectAttempts" "ws_enabled e c \<and> creates (snd e)" for c e
    using that attempts_step by (cases e) auto
qed (simp add: ws_init_def)

interpretation wsg: stable_system "\<lambda>e c. ws_enabled e c \<and> creates (snd e)" ws_do given_up
proof
  show "given_up (ws_do e c)" if "given_up c" "ws_enabled e c \<and> creates (snd e)" for c e
    using that given_up_step by (cases e) auto
qed

lemma run_msgs:
  assumes "run ws_enabled ws_do es c = Some c'" "ws_inv c"
  shows "mset (user_msgs c') + mset (messageQueue c') =
    mset (user_msgs c) + mset (messageQueue c) + mset (concat (map (submits \<circ> snd) es))"
  using assms
proof (induction es arbitrary: c)
  case (Cons e es)
  obtain ok a where e: "e = (ok, a)" by (cases e)
  have "run ws_enabled ws_do es (ws_do e c) = Some c'" "ws_inv (ws_do e c)"
    using Cons.prems ws_inv_step e by (auto split: if_splits)
  from Cons.IH [OF this] show ?case using msgs_step [OF Cons.prems(2), of ok a] e by simp
qed simp

lemma run_msgs_fifo:
  assumes "run ws_enabled ws_do es c = Some c'" "ws_inv c" "queue_idle c" "\<forall>e \<in> set es. smooth e"
  shows "user_msgs c' @ messageQueue c' = user_msgs c @ messageQueue c @ concat (map (submits \<circ> snd) es)"
  using assms
proof (induction es arbitrary: c)
  case (Cons e es)
  then obtain a where e: "e = (\<lambda>_. True, a)" by (cases e) (auto simp: smooth_def)
  have "run ws_enabled ws_do es (ws_do e c) = Some c'" "ws_inv (ws_do e c)" "queue_idle (ws_do e c)"
    using Cons.prems ws_inv_step queue_idle_step e by (auto split: if_splits)
  from Cons.IH [OF this] show ?case using msgs_step_fifo [OF Cons.prems(2,3), of a] Cons.prems(4) e
    by simp
qed simp

lemma ws_init_facts [simp]: "ws_inv ws_init" "queue_idle ws_init" "user_msgs ws_init = []" "messageQueue ws_init = []"
  by (simp_all add: ws_inv_def ws_init_def queue_idle_def user_msgs_def)

section \<open>Properties\<close>

text \<open>In every reachable state the client's socket exists, no \<open>auth\<close> message waits in the queue, a
  pending reconnect is between one and thirty seconds away, and no handler or listener is
  registered twice.\<close>

theorem ws_client_invariant:
  assumes "ws_reach c"
  shows "(\<forall>i. ws c = Some i \<longrightarrow> i < length (socks c)) \<and> (\<forall>m \<in> set (messageQueue c). \<not> is_auth m) \<and>
    (\<forall>d. reconnectTimer c = Some d \<longrightarrow> 1000 \<le> d \<and> d \<le> 30000) \<and> distinct (handlers c) \<and> distinct (stateListeners c)"
  using wsc.reach_inv [OF assms] by (simp add: ws_inv_def)

text \<open>Whatever happens, in any state: the client only appends to the wire, writes only to the open
  socket it holds, and writes anything but an \<open>auth\<close> message only while it counts as
  authenticated; it counts so from an \<open>auth_success\<close> to the next \<open>auth_error\<close> or close.\<close>

theorem ws_step_sends:
  "\<exists>new. wire (ws_do (ok, a) c) = wire c @ new \<and>
     (\<forall>(auto, i, m) \<in> set new. ok m \<and> ws (ws_do (ok, a) c) = Some i \<and> ws_open (ws_do (ok, a) c) \<and>
        (is_auth m \<or> isAuthenticated (ws_do (ok, a) c))) \<and>
     isAuthenticated (ws_do (ok, a) c) = auth_after a (isAuthenticated c)"
  using wire_step [of ok a c] by (auto simp: wire_ok_def auth_after_step)

text \<open>C1. No message is lost or duplicated: along any run from the start, with sends that may throw,
  sockets that come and go and flushes that stop half-way, the messages given to \<open>send\<close> are
  those written to a socket and those in the queue, as multisets.\<close>

theorem ws_no_message_lost:
  assumes "run ws_enabled ws_do es ws_init = Some c"
  shows "mset (user_msgs c) + mset (messageQueue c) = mset (concat (map (submits \<circ> snd) es))"
  using run_msgs [OF assms] by simp

text \<open>When no send throws the client is a first-in first-out channel: the messages on the wire
  followed by the queue are the messages given to \<open>send\<close>, in order.\<close>

theorem ws_fifo:
  assumes "run ws_enabled ws_do es ws_init = Some c" "\<forall>e \<in> set es. fst e = (\<lambda>_. True)"
  shows "user_msgs c @ messageQueue c = concat (map (submits \<circ> snd) es)"
  using run_msgs_fifo [OF assms(1)] assms(2) by (simp add: smooth_def)

text \<open>While the socket constructor works, at most 50 reconnect attempts are counted.\<close>

theorem ws_attempts_bounded:
  assumes "reach (\<lambda>c. c = ws_init) (\<lambda>e c. ws_enabled e c \<and> creates (snd e)) ws_do c"
  shows "reconnectAttempts c \<le> 50"
  using wsa.reach_inv [OF assms] by (simp add: maxReconnectAttempts_def)

text \<open>A close while reconnecting is allowed schedules the next attempt after
  \<open>min (1000 * 2 ^ attempts) 30000\<close> milliseconds and marks the client disconnected; after an
  explicit \<open>disconnect\<close>, no run, however the client is used or connected again, ever has a
  reconnect pending.\<close>

theorem ws_reconnect_policy:
  "(shouldReconnect c \<and> reconnectAttempts c < 50 \<longrightarrow>
      reconnectTimer (ws_do (ok, SockClose i) c) = Some (min (1000 * 2 ^ reconnectAttempts c) 30000) \<and>
      conn (ws_do (ok, SockClose i) c) = Disconnected \<and> \<not> isAuthenticated (ws_do (ok, SockClose i) c)) \<and>
   (run (\<lambda>e c. ws_enabled e c \<and> creates (snd e)) ws_do es (ws_do (ok, DoDisconnect) c) = Some c' \<longrightarrow>
      \<not> shouldReconnect c' \<and> reconnectTimer c' = None)"
proof -
  have "given_up (disconnect c)" by (auto simp: given_up_def ws_defs split: option.splits)
  then show ?thesis using wsg.run_stable [of "disconnect c" es c']
    by (auto simp: given_up_def onclose_def Let_def scheduleReconnect_def reconnect_delay_def
        maxReconnectAttempts_def setState_def)
qed

section \<open>Witnesses\<close>

definition sample_run :: "((WsOutboundEvent \<Rightarrow> bool) \<times> ws_event) list" where
  "sample_run = map (\<lambda>a. (\<lambda>_. True, a))
     [AddListener 7, DoSend (OutSubscribe [''EURUSD''] []) True, DoSend (OutCallEnd ''c'') True, SockOpen 0,
      AuthTimer (Some ''Bearer abc''), SockMessage 0 (InAuthSuccess ''u'' None) (Some ''admin''),
      DoSend (OutCallEnd ''d'') True, SubTimer, SockClose 0]"

lemma sample_run_eval:
  "map_option (\<lambda>c. (wire c, messageQueue c, reconnectTimer c, stateLog c)) (run ws_enabled ws_do sample_run ws_init) =
   Some ([(False, 0, OutAuth ''abc''), (False, 0, OutSubscribe [''EURUSD''] []),
      (False, 0, OutCallEnd ''c''), (False, 0, OutCallEnd ''d''), (True, 0, auto_subscription True)], [], Some 1000,
      [(7, Connecting), (7, Connected), (7, Authenticated), (7, Disconnected)])"
  by code_simp

definition sample_end :: ws_client where
  "sample_end = the (run ws_enabled ws_do sample_run ws_init)"

lemma sample_end_run: "run ws_enabled ws_do sample_run ws_init = Some sample_end"
  using sample_run_eval by (auto simp: sample_end_def)

lemma sample_end_fields:
  "wire sample_end = [(False, 0, OutAuth ''abc''), (False, 0, OutSubscribe [''EURUSD''] []),
      (False, 0, OutCallEnd ''c''), (False, 0, OutCallEnd ''d''), (True, 0, auto_subscription True)]"
  "reconnectTimer sample_end = Some 1000" "messageQueue sample_end = []"
  using sample_run_eval by (simp_all add: sample_end_run)

lemma ws_client_invariant_witness: "1000 \<le> the (reconnectTimer sample_end) \<and> distinct (handlers sample_end)"
  using ws_client_invariant [OF run_start [OF refl sample_end_run]] by (simp add: sample_end_fields)

lemma ws_step_sends_witness:
  "\<exists>new. wire (ws_do (\<lambda>_. True, SockClose 0) sample_end) = wire sample_end @ new"
  using ws_step_sends [of "\<lambda>_. True" "SockClose 0" sample_end] by blast

lemma ws_no_message_lost_witness:
  "mset (user_msgs sample_end) = {#OutSubscribe [''EURUSD''] [], OutCallEnd ''c'', OutCallEnd ''d''#}"
  using ws_no_message_lost [OF sample_end_run] by (simp add: sample_end_fields) (simp add: sample_run_def is_auth_def)

lemma ws_fifo_witness:
  "user_msgs sample_end = [OutSubscribe [''EURUSD''] [], OutCallEnd ''c'', OutCallEnd ''d'']"
  using ws_fifo [OF sample_end_run] by (simp add: sample_end_fields) (simp add: sample_run_def is_auth_def)

lemma ws_attempts_bounded_witness: "reconnectAttempts (connect True ws_init) \<le> 50"
proof -
  have "reach (\<lambda>c. c = ws_init) (\<lambda>e c. ws_enabled e c \<and> creates (snd e)) ws_do (ws_do (\<lambda>_. True, DoConnect True) ws_init)"
    by (rule reach_step) (auto intro: reach_init)
  from ws_attempts_bounded [OF this] show ?thesis by simp
qed

lemma ws_reconnect_policy_witness:
  "reconnectTimer (onclose 0 (connect True ws_init)) = Some 1000 \<and>
   \<not> shouldReconnect (connect True (disconnect (connect True ws_init)))"
proof
  show "reconnectTimer (onclose 0 (connect True ws_init)) = Some 1000"
    using ws_reconnect_policy [where c = "connect True ws_init" and i = 0] by (simp add: connect_def ws_init_def ws_open_def setState_def)
  show "\<not> shouldReconnect (connect True (disconnect (connect True ws_init)))"
    using ws_reconnect_policy [where c = "connect True ws_init" and es = "[(\<lambda>_. True, DoConnect True)]"
        and c' = "connect True (disconnect (connect True ws_init))"] by simp
qed

end
