(* ===== verification/Symbol_Keys.thy ===== *)
theory Symbol_Keys
  imports Position_Calc "HOL-Library.Char_ord" "HOL-Library.List_Lexorder"
begin

text \<open>
  Symbol keys of the price feed (\<open>shared/utils/symbolKeyNormalize.ts\<close>,
  \<open>features/terminal/utils/terminalFeedSymbol.ts\<close>) and the sections of the terminal's symbol list
  (\<open>features/terminal/utils/symbolCategories.ts\<close>). Strings are compared byte by byte
  (\<open>Char_ord\<close>, \<open>List_Lexorder\<close>), as JavaScript's default sort compares ASCII strings.
\<close>

section \<open>Keys\<close>

definition strip_key :: "string \<Rightarrow> string" where
  "strip_key s = remove_char (CHR ''-'') (remove_char (CHR ''/'') (trim (toUpperCase s)))"

definition normalizeSymbolKey :: "string \<Rightarrow> string" where
  "normalizeSymbolKey s =
     (let u = strip_key s in
      if u = ''EURUSDT'' \<or> u = ''XAUUSDT'' then u
      else if endsWith u ''USDT'' then drop_last 4 u @ ''USD''
      else u)"

text \<open>An empty or blank provider symbol is falsy.\<close>

definition terminalFeedSymbol :: "AdminSymbol \<Rightarrow> string" where
  "terminalFeedSymbol s =
     normalizeSymbolKey
       (case providerSymbol s of
          Some p \<Rightarrow> if trim p \<noteq> [] then trim (toUpperCase p)
                    else let n = remove_char (CHR ''-'') (toUpperCase (symbolCode s)) in
                      if assetClass s = Some Crypto \<and> quoteCurrency s = ''USD'' \<and> endsWith n ''USD'' \<and> \<not> endsWith n ''USDT''
                      then drop_last 3 n @ ''USDT'' else n
        | None \<Rightarrow> let n = remove_char (CHR ''-'') (toUpperCase (symbolCode s)) in
                      if assetClass s = Some Crypto \<and> quoteCurrency s = ''USD'' \<and> endsWith n ''USD'' \<and> \<not> endsWith n ''USDT''
                      then drop_last 3 n @ ''USDT'' else n)"

definition terminalPriceLookupKey :: "AdminSymbol \<Rightarrow> string" where
  "terminalPriceLookupKey s = normalizeSymbolKey (terminalFeedSymbol s)"

section \<open>Facts about keys\<close>

definition no_space :: "string \<Rightarrow> bool" where
  "no_space s = (\<forall>c \<in> set s. \<not> is_space c)"

lemma set_trim_subset: "set (trim s) \<subseteq> set s"
  unfolding trim_def by (auto dest!: set_dropWhileD)

lemma upper_not_space: "no_space s \<Longrightarrow> no_space (toUpperCase s)"
  by (auto simp: no_space_def toUpperCase_def)

lemma up_char_no_lower: "\<not> (97 \<le> (of_char (up_char c) :: nat) \<and> (of_char (up_char c) :: nat) \<le> 122)"
  by (auto simp: up_char_def Let_def)

text \<open>A stripped key is upper case, without white space at its ends, slashes or dashes.\<close>

definition is_key :: "string \<Rightarrow> bool" where
  "is_key u = (no_space u \<and> toUpperCase u = u \<and> CHR ''/'' \<notin> set u \<and> CHR ''-'' \<notin> set u)"

lemma toUpperCase_remove: "toUpperCase u = u \<Longrightarrow> toUpperCase (remove_char c u) = remove_char c u"
  by (induction u) (auto simp: remove_char_def)

lemma is_key_strip: "no_space s \<Longrightarrow> is_key (strip_key s)"
proof -
  assume s: "no_space s"
  then have t: "trim (toUpperCase s) = toUpperCase s"
    using upper_not_space [OF s] by (intro trim_no_space) (simp add: no_space_def)
  have "toUpperCase (strip_key s) = strip_key s"
    unfolding strip_key_def t by (intro toUpperCase_remove) simp
  then show ?thesis using upper_not_space [OF s]
    by (auto simp: is_key_def strip_key_def t no_space_def)
qed

lemma strip_key_id: "is_key u \<Longrightarrow> strip_key u = u"
  by (simp add: is_key_def strip_key_def trim_no_space no_space_def)

lemma is_key_append: "is_key (u @ v) \<longleftrightarrow> is_key u \<and> is_key v"
  by (auto simp: is_key_def no_space_def)

lemma is_key_USD: "is_key ''USD''"
  by (simp add: is_key_def no_space_def is_space_def up_char_def)

lemma not_endsWith_USDT: "\<not> endsWith (u @ ''USD'') ''USDT''"
proof
  assume "endsWith (u @ ''USD'') ''USDT''"
  then obtain v where "u @ ''USD'' = v @ ''USDT''" by (auto simp: endsWith_iff)
  then have "last (u @ ''USD'') = last (v @ ''USDT'')" by (rule arg_cong)
  then show False by simp
qed

lemma normalize_is_key: "no_space s \<Longrightarrow> is_key (normalizeSymbolKey s)"
proof -
  assume "no_space s"
  then have k: "is_key (strip_key s)" by (rule is_key_strip)
  show ?thesis
  proof (cases "endsWith (strip_key s) ''USDT''")
    case True
    then obtain u where u: "strip_key s = u @ ''USDT''" by (auto simp: endsWith_iff)
    have d: "drop_last 4 (u @ ''USDT'') = u" by (simp add: drop_last_def)
    have "is_key (u @ ''USD'')" using k u is_key_USD by (simp add: is_key_append)
    then show ?thesis using k u d by (auto simp: normalizeSymbolKey_def Let_def)
  qed (use k in \<open>simp add: normalizeSymbolKey_def Let_def\<close>)
qed

lemma normalize_idem: assumes s: "no_space s" shows "normalizeSymbolKey (normalizeSymbolKey s) = normalizeSymbolKey s"
proof -
  have fix1: "normalizeSymbolKey u = u" if "is_key u" "u = ''EURUSDT'' \<or> u = ''XAUUSDT'' \<or> \<not> endsWith u ''USDT''" for u
    using that by (auto simp: normalizeSymbolKey_def Let_def strip_key_id)
  have "normalizeSymbolKey s = ''EURUSDT'' \<or> normalizeSymbolKey s = ''XAUUSDT'' \<or> \<not> endsWith (normalizeSymbolKey s) ''USDT''"
    using not_endsWith_USDT by (simp add: normalizeSymbolKey_def Let_def)
  then show ?thesis using fix1 [OF normalize_is_key [OF s]] by blast
qed

text \<open>Normalising a key again changes nothing (for symbols without white space), so ticks, price
  cells and subscriptions that normalise different numbers of times agree.\<close>

theorem normalizeSymbolKey_idem:
  assumes "\<forall>c \<in> set s. \<not> is_space c"
  shows "normalizeSymbolKey (normalizeSymbolKey s) = normalizeSymbolKey s"
  using normalize_idem [of s] assms by (simp add: no_space_def)

lemma normalizeSymbolKey_idem_witness:
  "normalizeSymbolKey (normalizeSymbolKey ''btc-usdt'') = normalizeSymbolKey ''btc-usdt''"
  by (rule normalizeSymbolKey_idem) (simp add: is_space_def)

text \<open>Spelling does not matter: case, slashes and dashes are dropped.\<close>

lemma normalizeSymbolKey_examples:
  "normalizeSymbolKey ''btc-usdt'' = ''BTCUSD''" "normalizeSymbolKey ''EUR/USD'' = ''EURUSD''"
  "normalizeSymbolKey ''eur/usdt'' = ''EURUSDT''"
  by code_simp+

lemma toUpperCase_normalize: "normalizeSymbolKey (toUpperCase s) = normalizeSymbolKey s"
  by (simp add: normalizeSymbolKey_def strip_key_def)

lemma trim_normalize: "normalizeSymbolKey (trim s) = normalizeSymbolKey s"
  by (simp add: normalizeSymbolKey_def strip_key_def toUpperCase_trim)

text \<open>The symbol sent to the feed is its own lookup key.\<close>

lemma lookup_key_is_feed_symbol:
  assumes "no_space (symbolCode s)" "\<forall>p. providerSymbol s = Some p \<longrightarrow> no_space p"
  shows "terminalPriceLookupKey s = terminalFeedSymbol s"
proof -
  have r: "no_space (remove_char c u)" if "no_space u" for c u using that by (auto simp: no_space_def)
  have d: "no_space (drop_last k u @ ''USDT'')" if "no_space u" for k u
    using that by (auto simp: no_space_def drop_last_def is_space_def dest: in_set_takeD)
  have t: "no_space (trim u)" if "no_space u" for u
    using that set_trim_subset [of u] by (auto simp: no_space_def)
  show ?thesis unfolding terminalPriceLookupKey_def terminalFeedSymbol_def
    using assms by (auto simp: Let_def intro!: normalize_idem r d t upper_not_space split: option.splits)
qed

section \<open>Sections by asset class\<close>

record MockSymbol =
  ms_id :: string
  ms_code :: string
  ms_price :: string
  ms_price2 :: string
  ms_value :: string
  ms_enabled :: bool
  numericPrice :: jsnum
  numericPrice2 :: jsnum
  change24h :: jsnum
  volume24h :: jsnum
  ms_baseCurrency :: string
  ms_quoteCurrency :: string
  ms_pricePrecision :: "jsnum option"
  ms_volumePrecision :: "jsnum option"
  ms_assetClass :: "AssetClass option"
  ms_mmdpsCategory :: "string option"
  ms_providerDescription :: "string option"
  bidQuote :: "string option"
  askQuote :: "string option"
  priceLookupKey :: "string option"

fun class_name :: "AssetClass \<Rightarrow> string" where
  "class_name FX = ''FX''" | "class_name Crypto = ''Crypto''" | "class_name Metals = ''Metals''"
| "class_name Indices = ''Indices''" | "class_name Stocks = ''Stocks''"
| "class_name Commodities = ''Commodities''"

definition ASSET_CLASS_DISPLAY_ORDER :: "string list" where
  "ASSET_CLASS_DISPLAY_ORDER = map class_name [FX, Crypto, Metals, Indices, Stocks, Commodities]"

definition LABEL :: "(string, string) jsmap" where
  "LABEL = [(''FX'', ''Forex''), (''Crypto'', ''Cryptocurrencies''), (''Metals'', ''Metals''),
     (''Indices'', ''Indices''), (''Stocks'', ''Stocks''), (''Commodities'', ''Commodities''),
     (''Other'', ''Other'')]"

definition assetClassDisplayLabel :: "string \<Rightarrow> string" where
  "assetClassDisplayLabel key = nullish (map_get LABEL key) key"

definition normalizeSymbolAssetClass :: "MockSymbol \<Rightarrow> string" where
  "normalizeSymbolAssetClass s = (case ms_assetClass s of Some c \<Rightarrow> class_name c | None \<Rightarrow> ''Other'')"

text \<open>The map from class to symbols, filled in list order.\<close>

definition class_add :: "(string, MockSymbol list) jsmap \<Rightarrow> MockSymbol \<Rightarrow> (string, MockSymbol list) jsmap" where
  "class_add m s = (let k = normalizeSymbolAssetClass s in
     map_set k ((case map_get m k of Some l \<Rightarrow> l | None \<Rightarrow> []) @ [s]) m)"

definition class_map :: "MockSymbol list \<Rightarrow> (string, MockSymbol list) jsmap" where
  "class_map symbols = foldl class_add [] symbols"

record symbol_group =
  group_key :: string
  group_label :: string
  group_symbols :: "MockSymbol list"

definition group_of :: "(string, MockSymbol list) jsmap \<Rightarrow> string \<Rightarrow> symbol_group list" where
  "group_of m k = (case map_get m k of
     Some (s # ss) \<Rightarrow> [\<lparr>group_key = k, group_label = assetClassDisplayLabel k, group_symbols = s # ss\<rparr>]
   | _ \<Rightarrow> [])"

definition groupSymbolsByAssetClass :: "MockSymbol list \<Rightarrow> symbol_group list" where
  "groupSymbolsByAssetClass symbols =
     (let m = class_map symbols;
          out = concat (map (group_of m) ASSET_CLASS_DISPLAY_ORDER);
          seen = map group_key out
      in out @ concat (map (group_of m) (filter (\<lambda>k. k \<notin> set seen) (sort (map fst m)))))"

definition distinctAssetClasses :: "MockSymbol list \<Rightarrow> string list" where
  "distinctAssetClasses symbols =
     (let cs = set_of_list (map normalizeSymbolAssetClass symbols);
          ordered = filter (\<lambda>k. k \<in> set cs) ASSET_CLASS_DISPLAY_ORDER
      in ordered @ filter (\<lambda>k. k \<notin> set ordered) (sort cs))"

lemma class_map_inv:
  "map_wf (class_map ss) \<and>
   map_get (class_map ss) k =
     (if filter (\<lambda>s. normalizeSymbolAssetClass s = k) ss = [] then None
      else Some (filter (\<lambda>s. normalizeSymbolAssetClass s = k) ss))"
proof (induction ss rule: rev_induct)
  case Nil
  then show ?case by (simp add: class_map_def map_get_def)
next
  case (snoc s ss)
  then show ?case by (auto simp: class_map_def class_add_def Let_def map_get_set)
qed

lemma class_map_keys: "set (map fst (class_map ss)) = normalizeSymbolAssetClass ` set ss"
proof -
  have "k \<in> set (map fst (class_map ss)) \<longleftrightarrow> map_get (class_map ss) k \<noteq> None" for k
    using map_has_get [of "class_map ss" k] by (simp add: map_has_def)
  also have "\<dots> k \<longleftrightarrow> k \<in> normalizeSymbolAssetClass ` set ss" for k
    using class_map_inv [of ss k] by (auto simp: filter_empty_conv)
  finally show ?thesis by blast
qed

lemma display_order_distinct [simp]: "distinct ASSET_CLASS_DISPLAY_ORDER"
  by code_simp

lemma group_of_Some:
  "group_of (class_map ss) k =
     (if k \<in> normalizeSymbolAssetClass ` set ss
      then [\<lparr>group_key = k, group_label = assetClassDisplayLabel k,
             group_symbols = filter (\<lambda>s. normalizeSymbolAssetClass s = k) ss\<rparr>] else [])"
proof (cases "filter (\<lambda>s. normalizeSymbolAssetClass s = k) ss")
  case Nil
  then have "k \<notin> normalizeSymbolAssetClass ` set ss" by (auto simp: filter_empty_conv)
  then show ?thesis using Nil class_map_inv [of ss k] by (simp add: group_of_def)
next
  case (Cons t ts)
  then have "t \<in> set (filter (\<lambda>s. normalizeSymbolAssetClass s = k) ss)" by simp
  then have "k \<in> normalizeSymbolAssetClass ` set ss" by auto
  then show ?thesis using Cons class_map_inv [of ss k] by (simp add: group_of_def)
qed

lemma group_concat:
  "concat (map (group_of (class_map ss)) ks) =
     map (\<lambda>k. \<lparr>group_key = k, group_label = assetClassDisplayLabel k,
             group_symbols = filter (\<lambda>s. normalizeSymbolAssetClass s = k) ss\<rparr>)
       (filter (\<lambda>k. k \<in> normalizeSymbolAssetClass ` set ss) ks)"
  by (induction ks) (simp_all add: group_of_Some)

text \<open>The sections: one per class that occurs, in display order, the other classes sorted after.\<close>

definition section_keys :: "MockSymbol list \<Rightarrow> string list" where
  "section_keys ss = (let occ = normalizeSymbolAssetClass ` set ss in
     filter (\<lambda>k. k \<in> occ) ASSET_CLASS_DISPLAY_ORDER @
     filter (\<lambda>k. k \<notin> set ASSET_CLASS_DISPLAY_ORDER) (sort (map fst (class_map ss))))"

lemma groups_eq:
  "groupSymbolsByAssetClass ss =
     map (\<lambda>k. \<lparr>group_key = k, group_label = assetClassDisplayLabel k,
             group_symbols = filter (\<lambda>s. normalizeSymbolAssetClass s = k) ss\<rparr>) (section_keys ss)"
proof -
  let ?occ = "normalizeSymbolAssetClass ` set ss"
  let ?keys = "sort (map fst (class_map ss))"
  have "set ?keys = ?occ" using class_map_keys [of ss] by simp
  then have "filter (\<lambda>k. k \<in> ?occ) (filter (\<lambda>k. k \<notin> set (filter (\<lambda>k. k \<in> ?occ) ASSET_CLASS_DISPLAY_ORDER)) ?keys) =
      filter (\<lambda>k. k \<notin> set ASSET_CLASS_DISPLAY_ORDER) ?keys"
    by (auto simp: filter_filter intro!: filter_cong)
  then show ?thesis
    by (simp only: groupSymbolsByAssetClass_def section_keys_def Let_def group_concat map_map comp_def
        symbol_group.simps map_append list.map_ident)
qed

lemma section_keys_distinct: "distinct (section_keys ss)"
proof -
  have "distinct (map fst (class_map ss))" using class_map_inv [of ss] by (simp add: map_wf_def)
  then show ?thesis by (auto simp: section_keys_def Let_def)
qed

lemma section_keys_set: "set (section_keys ss) = normalizeSymbolAssetClass ` set ss"
  using class_map_keys [of ss] by (auto simp: section_keys_def Let_def)

text \<open>The sections of the symbol list partition it: every asset class that occurs has exactly one
  section, which holds the symbols of that class in their order, and no section is empty.\<close>

theorem groupSymbolsByAssetClass_partition:
  "distinct (map group_key (groupSymbolsByAssetClass ss)) \<and>
   set (map group_key (groupSymbolsByAssetClass ss)) = normalizeSymbolAssetClass ` set ss \<and>
   (\<forall>g \<in> set (groupSymbolsByAssetClass ss).
      group_symbols g = filter (\<lambda>s. normalizeSymbolAssetClass s = group_key g) ss \<and> group_symbols g \<noteq> [])"
  using section_keys_distinct [of ss] section_keys_set [of ss]
  by (auto simp: groups_eq comp_def filter_empty_conv)

text \<open>The pills list exactly the keys of the sections.\<close>

lemma distinctAssetClasses_keys: "set (distinctAssetClasses ss) = set (map group_key (groupSymbolsByAssetClass ss))"
  using section_keys_set [of ss] by (auto simp: groups_eq comp_def distinctAssetClasses_def Let_def)

definition sample_ms :: "string \<Rightarrow> AssetClass option \<Rightarrow> MockSymbol" where
  "sample_ms i c = \<lparr>ms_id = i, ms_code = i, ms_price = [], ms_price2 = [], ms_value = [], ms_enabled = True,
     numericPrice = Num 0, numericPrice2 = Num 0, change24h = Num 0, volume24h = Num 0, ms_baseCurrency = [],
     ms_quoteCurrency = [], ms_pricePrecision = None, ms_volumePrecision = None, ms_assetClass = c,
     ms_mmdpsCategory = None, ms_providerDescription = None, bidQuote = None, askQuote = None,
     priceLookupKey = None\<rparr>"

lemma groupSymbolsByAssetClass_partition_witness:
  "distinct (map group_key (groupSymbolsByAssetClass [sample_ms ''b'' None, sample_ms ''e'' (Some FX)])) \<and>
   set (map group_key (groupSymbolsByAssetClass [sample_ms ''b'' None, sample_ms ''e'' (Some FX)])) = {''Other'', ''FX''}"
  using groupSymbolsByAssetClass_partition [of "[sample_ms ''b'' None, sample_ms ''e'' (Some FX)]"]
  by (simp add: normalizeSymbolAssetClass_def sample_ms_def)

end
