(* ===== verification/Price_Stream.thy ===== *)
theory Price_Stream
  imports Symbol_Keys Ws_Events Machine Js_Text
begin

text \<open>
  The price feed client (\<open>shared/ws/priceStreamClient.ts\<close>) and the choice of its endpoint
  (\<open>shared/ws/wsGatewayUrl.ts\<close>): which symbols are wanted, which are subscribed, when a
  subscription may be sent, reconnects and the pause after a failed authentication.

  The build's environment and the page's location are the record \<open>web_env\<close>; the browser's URL
  parser (\<open>new URL\<close>, which may throw) is the parameter \<open>parse\<close>. Sockets and timers are numbered; a
  socket remembers its URL and the mode its callbacks were created with. A replaced
  \<open>setTimeout\<close> keeps running: \<open>ps_timers\<close> are the pending ones, \<open>ps_handle\<close> is the one the client
  can still clear. \<open>ws.send\<close> on an open socket does not throw.
\<close>

section \<open>Endpoints\<close>

record web_env =
  VITE_WS_URL :: "string option"
  DEV :: bool
  VITE_WS_PORT :: "string option"
  VITE_DATA_PROVIDER_WS_URL :: "string option"
  VITE_DATA_PROVIDER_HTTP_URL :: "string option"
  VITE_DATA_PROVIDER_HTTP_PATH :: "string option"
  location :: "(bool \<times> string \<times> string) option"

record url_parts =
  url_protocol :: string
  url_hostname :: string
  url_port :: string
  url_pathname :: string

type_synonym url_parser = "string \<Rightarrow> url_parts option"

definition getWsGatewayUrl :: "web_env \<Rightarrow> string" where
  "getWsGatewayUrl e =
     (let fromEnv = (case VITE_WS_URL e of Some u \<Rightarrow> trim u | None \<Rightarrow> []) in
      if fromEnv \<noteq> [] then fromEnv
      else if DEV e then
        ''ws://127.0.0.1:'' @
          (case VITE_WS_PORT e of Some p \<Rightarrow> if p \<noteq> [] \<and> all_digits p then p else ''3003'' | None \<Rightarrow> ''3003'')
          @ ''/ws?group=default''
      else case location e of
        Some (https, host, origin) \<Rightarrow> (if https then ''wss'' else ''ws'') @ ''://'' @ host @ ''/ws?group=default''
      | None \<Rightarrow> ''ws://127.0.0.1:3003/ws?group=default'')"

definition explicitDataProviderWsUrl :: "web_env \<Rightarrow> string option" where
  "explicitDataProviderWsUrl e = (case VITE_DATA_PROVIDER_WS_URL e of
     Some u \<Rightarrow> if trim u \<noteq> [] then Some (trim u) else None | None \<Rightarrow> None)"

definition getDefaultPriceWsUrl :: "web_env \<Rightarrow> string" where
  "getDefaultPriceWsUrl e = (case VITE_DATA_PROVIDER_WS_URL e of
     Some u \<Rightarrow> if u \<noteq> [] then u else getWsGatewayUrl e | None \<Rightarrow> getWsGatewayUrl e)"

text \<open>\<open>/[:/]p[/?]/.test(url)\<close>.\<close>

definition has_port :: "string \<Rightarrow> string \<Rightarrow> bool" where
  "has_port p url = (\<exists>a \<in> {CHR '':'', CHR ''/''}. \<exists>b \<in> {CHR ''/'', CHR ''?''}. str_includes url (a # p @ [b]))"

definition isGatewayUrl :: "web_env \<Rightarrow> string \<Rightarrow> bool" where
  "isGatewayUrl e url =
     ((case location e of
         Some (https, host, origin) \<Rightarrow>
           str_includes url ''/ws'' \<and> startsWith url ((if https then ''wss://'' else ''ws://'') @ host)
       | None \<Rightarrow> False)
      \<or> has_port ''8090'' url \<or> has_port ''3003'' url
      \<or> str_includes url ''localhost:8090'' \<or> str_includes url ''localhost:3003'')"

definition strip_slashes :: "string \<Rightarrow> string" where
  "strip_slashes s = rev (dropWhile (\<lambda>c. c = CHR ''/'') (rev s))"

definition norm_host :: "string \<Rightarrow> string" where
  "norm_host h = (if h = ''localhost'' \<or> h = ''127.0.0.1'' then ''loopback'' else h)"

definition norm_port :: "url_parts \<Rightarrow> string" where
  "norm_port u = (if url_port u \<noteq> [] then url_port u
     else if url_protocol u = ''wss:'' \<or> url_protocol u = ''https:'' then ''443'' else ''80'')"

definition priceWsUrlsMatch :: "url_parser \<Rightarrow> string \<Rightarrow> string \<Rightarrow> bool" where
  "priceWsUrlsMatch parse openWsUrl targetUrl =
     (case (parse openWsUrl, parse targetUrl) of
        (Some a, Some b) \<Rightarrow>
          url_protocol a = url_protocol b \<and> norm_host (url_hostname a) = norm_host (url_hostname b) \<and>
          norm_port a = norm_port b \<and> strip_slashes (url_pathname a) = strip_slashes (url_pathname b)
      | _ \<Rightarrow> openWsUrl = targetUrl)"

definition getDataProviderPricesBaseUrl :: "web_env \<Rightarrow> url_parser \<Rightarrow> string" where
  "getDataProviderPricesBaseUrl e parse =
     (case VITE_DATA_PROVIDER_HTTP_URL e of
        Some (c # h) \<Rightarrow> strip_slashes (c # h)
      | _ \<Rightarrow>
        (case VITE_DATA_PROVIDER_WS_URL e of
           Some (c # w) \<Rightarrow>
             (case parse (c # w) of
                None \<Rightarrow> ''http://localhost:3001''
              | Some u \<Rightarrow>
                  let port = (if url_port u \<noteq> [] then url_port u else ''3001'');
                      httpPort = (if port = ''9003'' then ''9004'' else port)
                  in (if url_protocol u = ''wss:'' then ''https:'' else ''http:'') @ ''//'' @ url_hostname u @ '':'' @ httpPort)
         | _ \<Rightarrow>
             if VITE_DATA_PROVIDER_HTTP_PATH e = Some [] then []
             else let subpath = strip_slashes (case VITE_DATA_PROVIDER_HTTP_PATH e of
                        Some p \<Rightarrow> if trim p \<noteq> [] then trim p else ''/dp'' | None \<Rightarrow> ''/dp'')
                  in case location e of
                       Some (https, host, origin) \<Rightarrow>
                         origin @ (if startsWith subpath ''/'' then subpath else ''/'' @ subpath)
                     | None \<Rightarrow> []))"

text \<open>Keys to subscribe: normalised, without blanks and repetitions.\<close>

definition norm_step :: "string list \<Rightarrow> string \<Rightarrow> string list" where
  "norm_step out raw =
     (if trim raw = [] then out
      else let k = normalizeSymbolKey raw in if k = [] \<or> k \<in> set out then out else out @ [k])"

definition normalizeWsSubscribeSymbols :: "string list \<Rightarrow> string list" where
  "normalizeWsSubscribeSymbols symbols = foldl norm_step [] symbols"

section \<open>State\<close>

datatype price_msg = GwAuth string | GwSubscribe "string list" | GwPing | DpSubscribe "string list"

record price_sock =
  sk_ready :: ready
  sk_url :: string
  sk_gateway :: bool

record price_client =
  ps_ws :: "nat option"
  ps_socks :: "price_sock list"
  ps_url :: string
  authToken :: "string option"
  ps_authenticated :: bool
  ps_listeners :: "nat list"
  ps_attempts :: nat
  ps_timers :: "(nat \<times> nat) list"
  ps_handle :: "nat option"
  ps_next :: nat
  ps_ping :: bool
  pendingSymbols :: "string list"
  subscribedSymbols :: "string list"
  authPaused :: bool
  ps_authTasks :: nat
  ps_retryTasks :: nat
  ps_wire :: "(nat \<times> price_msg) list"
  ps_ticks :: "(nat \<times> PriceTick) list"

definition ps_init :: "web_env \<Rightarrow> price_client" where
  "ps_init e = \<lparr>ps_ws = None, ps_socks = [],
     ps_url = (case VITE_DATA_PROVIDER_WS_URL e of Some u \<Rightarrow> u | None \<Rightarrow> getDefaultPriceWsUrl e),
     authToken = None, ps_authenticated = False, ps_listeners = [], ps_attempts = 0, ps_timers = [],
     ps_handle = None, ps_next = 0, ps_ping = False, pendingSymbols = [], subscribedSymbols = [],
     authPaused = False, ps_authTasks = 0, ps_retryTasks = 0, ps_wire = [], ps_ticks = []\<rparr>"

definition ps_ready :: "price_client \<Rightarrow> ready option" where
  "ps_ready c = (case ps_ws c of None \<Rightarrow> None
     | Some i \<Rightarrow> if i < length (ps_socks c) then Some (sk_ready (ps_socks c ! i)) else None)"

definition ps_isConnected :: "price_client \<Rightarrow> bool" where
  "ps_isConnected c = (ps_ready c = Some OPEN)"

definition getEffectiveUrl :: "web_env \<Rightarrow> price_client \<Rightarrow> string" where
  "getEffectiveUrl e c = (if authToken c \<noteq> None then getWsGatewayUrl e
     else case explicitDataProviderWsUrl e of Some u \<Rightarrow> u | None \<Rightarrow> ps_url c)"

definition gateway_mode :: "web_env \<Rightarrow> price_client \<Rightarrow> bool" where
  "gateway_mode e c = isGatewayUrl e (getEffectiveUrl e c)"

definition isPriceStreamReady :: "web_env \<Rightarrow> price_client \<Rightarrow> bool" where
  "isPriceStreamReady e c = (ps_isConnected c \<and> (gateway_mode e c \<longrightarrow> ps_authenticated c))"

section \<open>Operations\<close>

definition ps_put :: "price_msg \<Rightarrow> price_client \<Rightarrow> price_client" where
  "ps_put m c = (case ps_ws c of None \<Rightarrow> c | Some i \<Rightarrow> c\<lparr>ps_wire := ps_wire c @ [(i, m)]\<rparr>)"

definition set_ready :: "nat \<Rightarrow> ready \<Rightarrow> price_client \<Rightarrow> price_client" where
  "set_ready i r c = c\<lparr>ps_socks := (ps_socks c)[i := (ps_socks c ! i)\<lparr>sk_ready := r\<rparr>]\<rparr>"

text \<open>\<open>ws.close()\<close> on the client's socket, which the close callback follows later.\<close>

definition close_ws :: "price_client \<Rightarrow> price_client" where
  "close_ws c = (case ps_ws c of None \<Rightarrow> c
     | Some i \<Rightarrow> if ps_ready c = Some CLOSED then c else set_ready i CLOSING c)"

definition clear_timer :: "price_client \<Rightarrow> price_client" where
  "clear_timer c = (case ps_handle c of None \<Rightarrow> c
     | Some h \<Rightarrow> c\<lparr>ps_timers := filter (\<lambda>t. fst t \<noteq> h) (ps_timers c), ps_handle := None\<rparr>)"

definition ps_delay :: "nat \<Rightarrow> nat" where
  "ps_delay n = min (1000 * 2 ^ min n 6) 15000"

definition startPingLoop :: "web_env \<Rightarrow> price_client \<Rightarrow> price_client" where
  "startPingLoop e c = c\<lparr>ps_ping := gateway_mode e c\<rparr>"

definition stopPingLoop :: "price_client \<Rightarrow> price_client" where
  "stopPingLoop c = c\<lparr>ps_ping := False\<rparr>"

definition ps_sendSubscribe :: "web_env \<Rightarrow> string list \<Rightarrow> price_client \<Rightarrow> price_client" where
  "ps_sendSubscribe e symbols c =
     (let gw = gateway_mode e c in
      if ps_isConnected c \<and> (gw \<longrightarrow> ps_authenticated c)
      then (ps_put (if gw then GwSubscribe symbols else DpSubscribe symbols) c)
             \<lparr>subscribedSymbols := foldl (\<lambda>s x. set_add x s) (subscribedSymbols c) symbols\<rparr>
      else c\<lparr>pendingSymbols := set_of_list (pendingSymbols c @ symbols)\<rparr>)"

definition ps_connect :: "web_env \<Rightarrow> bool \<Rightarrow> price_client \<Rightarrow> price_client" where
  "ps_connect e created c =
     (if authPaused c then c
      else if ps_ready c = Some OPEN \<or> ps_ready c = Some CONNECTING then c
      else let url = getEffectiveUrl e c in
        if created then
          c\<lparr>ps_ws := Some (length (ps_socks c)),
            ps_socks := ps_socks c @ [\<lparr>sk_ready = CONNECTING, sk_url = url, sk_gateway = isGatewayUrl e url\<rparr>]\<rparr>
        else c\<lparr>ps_ws := None\<rparr>)"

definition ps_subscribe :: "web_env \<Rightarrow> bool \<Rightarrow> string list \<Rightarrow> price_client \<Rightarrow> price_client" where
  "ps_subscribe e created symbols c =
     (let normalized = normalizeWsSubscribeSymbols symbols in
      if normalized = [] then c else ps_sendSubscribe e normalized (ps_connect e created c))"

definition resyncSymbolSubscriptions :: "web_env \<Rightarrow> bool \<Rightarrow> string list \<Rightarrow> price_client \<Rightarrow> price_client" where
  "resyncSymbolSubscriptions e created symbols c =
     (let normalized = normalizeWsSubscribeSymbols symbols in
      if normalized = [] then c else ps_sendSubscribe e normalized (ps_connect e created c))"

definition ps_unsubscribe :: "string list \<Rightarrow> price_client \<Rightarrow> price_client" where
  "ps_unsubscribe symbols c = c\<lparr>subscribedSymbols :=
     foldl (\<lambda>s x. set_delete (normalizeSymbolKey x) s) (subscribedSymbols c) symbols\<rparr>"

definition ps_disconnect :: "price_client \<Rightarrow> price_client" where
  "ps_disconnect c =
     (let c = clear_timer (stopPingLoop c); c = (close_ws c)\<lparr>ps_ws := None\<rparr>
      in c\<lparr>ps_authenticated := False, pendingSymbols := [], subscribedSymbols := [], authPaused := False\<rparr>)"

text \<open>\<open>setAuthToken\<close>: a token for another endpoint closes the socket and keeps the symbols.\<close>

definition setAuthToken :: "web_env \<Rightarrow> url_parser \<Rightarrow> bool \<Rightarrow> string option \<Rightarrow> price_client \<Rightarrow> price_client" where
  "setAuthToken e parse created token c =
     (let raw = (case some_token token of None \<Rightarrow> None | Some t \<Rightarrow> some_token (Some (rawToken t)));
          c = c\<lparr>authToken := raw\<rparr>
      in case raw of
        None \<Rightarrow> c\<lparr>ps_authenticated := False, authPaused := False\<rparr>
      | Some t \<Rightarrow>
          (let c = c\<lparr>authPaused := False\<rparr>; url = getEffectiveUrl e c in
           if ps_ready c = Some OPEN then
             (if \<not> priceWsUrlsMatch parse (sk_url (ps_socks c ! the (ps_ws c))) url
              then close_ws (c\<lparr>pendingSymbols := set_of_list (pendingSymbols c @ subscribedSymbols c)\<rparr>)
              else if isGatewayUrl e url then c\<lparr>ps_authTasks := ps_authTasks c + 1\<rparr> else c)
           else if ps_ready c = None \<or> ps_ready c = Some CLOSED then ps_connect e created c
           else c))"

text \<open>The end of \<open>sendGatewayAuthWithFreshToken\<close>, when the auth store has answered.\<close>

definition fresh_token :: "string option \<Rightarrow> price_client \<Rightarrow> price_client" where
  "fresh_token raw c =
     (let c = c\<lparr>ps_authTasks := ps_authTasks c - 1\<rparr> in
      case some_token raw of
        None \<Rightarrow> c
      | Some r \<Rightarrow>
          (case some_token (Some (rawToken r)) of
             None \<Rightarrow> c
           | Some t \<Rightarrow> (let c = c\<lparr>authToken := Some t\<rparr> in
               if ps_isConnected c then ps_put (GwAuth t) c else c)))"

text \<open>The task started by \<open>auth_error\<close>, when the auth store has answered.\<close>

definition retry_token :: "web_env \<Rightarrow> string option \<Rightarrow> price_client \<Rightarrow> price_client" where
  "retry_token e raw c =
     (let c = c\<lparr>ps_retryTasks := ps_retryTasks c - 1\<rparr>;
          tok = (case some_token raw of None \<Rightarrow> None | Some r \<Rightarrow> some_token (Some (rawToken r)))
      in case tok of
        Some t \<Rightarrow> if ps_isConnected c \<and> gateway_mode e c then ps_put (GwAuth t) (c\<lparr>authToken := Some t\<rparr>) else c
      | None \<Rightarrow> if gateway_mode e c then close_ws (clear_timer (c\<lparr>authPaused := True\<rparr>)) else c)"

definition ps_onopen :: "web_env \<Rightarrow> nat \<Rightarrow> price_client \<Rightarrow> price_client" where
  "ps_onopen e i c =
     (let gw = sk_gateway (ps_socks c ! i);
          c = (set_ready i OPEN c)\<lparr>ps_attempts := 0, ps_authenticated := \<not> gw\<rparr>
      in if gw then c\<lparr>ps_authTasks := ps_authTasks c + 1\<rparr>
         else let every = normalizeWsSubscribeSymbols (set_of_list (subscribedSymbols c @ pendingSymbols c));
                  c = c\<lparr>pendingSymbols := []\<rparr>
              in if every \<noteq> [] then ps_sendSubscribe e every c else c)"

text \<open>What a socket delivers; a price arrives as a number, as text or not at all.\<close>

datatype price_text = PNum jsnum | PText string | PNone

datatype price_inbound = PAuthSuccess | PAuthError | PTick string price_text price_text "jsnum option" | POther

fun price_string :: "price_text \<Rightarrow> string" where
  "price_string (PNum x) = toString x"
| "price_string (PText s) = s"
| "price_string PNone = []"

definition ps_auth_success :: "web_env \<Rightarrow> price_client \<Rightarrow> price_client" where
  "ps_auth_success e c =
     (let c = c\<lparr>ps_authenticated := True\<rparr>;
          c = (if pendingSymbols c \<noteq> [] then
                 (let batch = normalizeWsSubscribeSymbols (pendingSymbols c); c = c\<lparr>pendingSymbols := []\<rparr>
                  in if batch \<noteq> [] then ps_sendSubscribe e batch c else c)
               else c)
      in if gateway_mode e c then startPingLoop e c else c)"

definition ps_onmessage :: "web_env \<Rightarrow> price_inbound \<Rightarrow> price_client \<Rightarrow> price_client" where
  "ps_onmessage e m c =
     (case m of
        PAuthSuccess \<Rightarrow> ps_auth_success e c
      | PAuthError \<Rightarrow> stopPingLoop (c\<lparr>ps_authenticated := False, ps_retryTasks := ps_retryTasks c + 1\<rparr>)
      | PTick symbol bid ask ts \<Rightarrow>
          if symbol = [] then c
          else c\<lparr>ps_ticks := ps_ticks c @ map (\<lambda>l. (l, \<lparr>tick_symbol = symbol, tick_bid = price_string bid,
                   tick_ask = price_string ask, tick_ts = nullish ts (Num 0)\<rparr>)) (ps_listeners c)\<rparr>
      | POther \<Rightarrow> c)"

definition ps_onclose :: "nat \<Rightarrow> price_client \<Rightarrow> price_client" where
  "ps_onclose i c =
     (let c = (stopPingLoop (set_ready i CLOSED c))\<lparr>ps_ws := None, ps_authenticated := False,
                pendingSymbols := set_of_list (pendingSymbols c @ subscribedSymbols c)\<rparr>
      in if authPaused c then c
         else c\<lparr>ps_attempts := ps_attempts c + 1,
                ps_timers := ps_timers c @ [(ps_next c, ps_delay (ps_attempts c + 1))],
                ps_handle := Some (ps_next c), ps_next := ps_next c + 1\<rparr>)"

section \<open>The machine\<close>

datatype ps_event =
    PsConnect bool
  | PsSubscribe "string list" bool
  | PsResync "string list" bool
  | PsUnsubscribe "string list"
  | PsSetToken "string option" bool
  | PsDisconnect
  | PsListen nat
  | PsUnlisten nat
  | PsOpen nat
  | PsMessage nat price_inbound
  | PsClose nat
  | PsFreshToken "string option"
  | PsRetryToken "string option"
  | PsTimer nat bool
  | PsPing

definition ps_sock :: "price_client \<Rightarrow> nat \<Rightarrow> ready option" where
  "ps_sock c i = (if i < length (ps_socks c) then Some (sk_ready (ps_socks c ! i)) else None)"

fun ps_enabled :: "ps_event \<Rightarrow> price_client \<Rightarrow> bool" where
  "ps_enabled (PsOpen i) c = (ps_sock c i = Some CONNECTING)"
| "ps_enabled (PsMessage i m) c = (ps_sock c i = Some OPEN)"
| "ps_enabled (PsClose i) c = (ps_sock c i \<noteq> None \<and> ps_sock c i \<noteq> Some CLOSED)"
| "ps_enabled (PsFreshToken t) c = (0 < ps_authTasks c)"
| "ps_enabled (PsRetryToken t) c = (0 < ps_retryTasks c)"
| "ps_enabled (PsTimer h b) c = (h \<in> set (map fst (ps_timers c)))"
| "ps_enabled PsPing c = ps_ping c"
| "ps_enabled _ c = True"

fun ps_do :: "web_env \<times> url_parser \<Rightarrow> ps_event \<Rightarrow> price_client \<Rightarrow> price_client" where
  "ps_do (e, parse) (PsConnect b) c = ps_connect e b c"
| "ps_do (e, parse) (PsSubscribe ss b) c = ps_subscribe e b ss c"
| "ps_do (e, parse) (PsResync ss b) c = resyncSymbolSubscriptions e b ss c"
| "ps_do (e, parse) (PsUnsubscribe ss) c = ps_unsubscribe ss c"
| "ps_do (e, parse) (PsSetToken t b) c = setAuthToken e parse b t c"
| "ps_do (e, parse) PsDisconnect c = ps_disconnect c"
| "ps_do (e, parse) (PsListen l) c = c\<lparr>ps_listeners := set_add l (ps_listeners c)\<rparr>"
| "ps_do (e, parse) (PsUnlisten l) c = c\<lparr>ps_listeners := set_delete l (ps_listeners c)\<rparr>"
| "ps_do (e, parse) (PsOpen i) c = ps_onopen e i c"
| "ps_do (e, parse) (PsMessage i m) c = ps_onmessage e m c"
| "ps_do (e, parse) (PsClose i) c = ps_onclose i c"
| "ps_do (e, parse) (PsFreshToken t) c = fresh_token t c"
| "ps_do (e, parse) (PsRetryToken t) c = retry_token e t c"
| "ps_do (e, parse) (PsTimer h b) c = ps_connect e b (c\<lparr>ps_timers := filter (\<lambda>t. fst t \<noteq> h) (ps_timers c)\<rparr>)"
| "ps_do (e, parse) PsPing c = (if ps_isConnected c then ps_put GwPing c else c)"

section \<open>Facts\<close>

subsection \<open>Symbol lists\<close>

lemma normalizeWs_eq:
  "normalizeWsSubscribeSymbols ss =
     set_of_list (filter (\<lambda>k. k \<noteq> []) (map normalizeSymbolKey (filter (\<lambda>s. trim s \<noteq> []) ss)))"
proof (induction ss rule: rev_induct)
  case (snoc s ss)
  then show ?case by (simp add: normalizeWsSubscribeSymbols_def norm_step_def set_of_list_def Let_def)
    (simp add: set_add_def)
qed (simp add: normalizeWsSubscribeSymbols_def set_of_list_def)

text \<open>A key the client may hold: normalised, not empty.\<close>

definition good_key :: "string \<Rightarrow> bool" where
  "good_key k = (is_key k \<and> normalizeSymbolKey k = k \<and> k \<noteq> [])"

lemma good_normalize: "no_space s \<Longrightarrow> normalizeSymbolKey s \<noteq> [] \<Longrightarrow> good_key (normalizeSymbolKey s)"
  by (simp add: good_key_def normalize_is_key normalize_idem)

lemma good_trim: "good_key k \<Longrightarrow> trim k \<noteq> []"
  by (simp add: good_key_def is_key_def no_space_def trim_no_space)

lemma normalizeWs_good: "\<forall>k \<in> set ks. good_key k \<Longrightarrow> normalizeWsSubscribeSymbols ks = set_of_list ks"
proof -
  assume g: "\<forall>k \<in> set ks. good_key k"
  then have 1: "filter (\<lambda>s. trim s \<noteq> []) ks = ks" by (auto simp: filter_id_conv good_trim)
  have 2: "map normalizeSymbolKey ks = ks" using g by (intro map_idI) (simp add: good_key_def)
  have 3: "filter (\<lambda>k. k \<noteq> []) ks = ks" using g by (auto simp: filter_id_conv good_key_def)
  show ?thesis by (simp only: normalizeWs_eq 1 2 3)
qed

lemma normalizeWs_keys: "\<forall>s \<in> set ss. no_space s \<Longrightarrow> \<forall>k \<in> set (normalizeWsSubscribeSymbols ss). good_key k"
  by (auto simp: normalizeWs_eq good_normalize)

text \<open>The symbols the client is to stream: subscribed already or waiting.\<close>

definition wanted :: "price_client \<Rightarrow> string set" where
  "wanted c = set (pendingSymbols c) \<union> set (subscribedSymbols c)"

lemma ps_put_fields [simp]:
  "pendingSymbols (ps_put m c) = pendingSymbols c" "subscribedSymbols (ps_put m c) = subscribedSymbols c"
  "ps_ws (ps_put m c) = ps_ws c" "ps_socks (ps_put m c) = ps_socks c" "authToken (ps_put m c) = authToken c"
  "ps_url (ps_put m c) = ps_url c" "ps_authenticated (ps_put m c) = ps_authenticated c"
  "ps_timers (ps_put m c) = ps_timers c" "ps_listeners (ps_put m c) = ps_listeners c"
  "authPaused (ps_put m c) = authPaused c"
  by (simp_all add: ps_put_def split: option.split)

lemma add_all_set [simp]:
  "set (foldl (\<lambda>s x. set_add x s) s xs) = set s \<union> set xs"
  "distinct s \<Longrightarrow> distinct (foldl (\<lambda>s x. set_add x s) s xs)"
  "distinct s \<Longrightarrow> distinct (foldl (\<lambda>s x. set_delete (f x) s) s xs)"
  "set (foldl (\<lambda>s x. set_delete (f x) s) s xs) = set s - f ` set xs"
proof -
  show "set (foldl (\<lambda>s x. set_add x s) s xs) = set s \<union> set xs"
    by (induction xs arbitrary: s) (auto simp: set_add_def)
  show "distinct (foldl (\<lambda>s x. set_add x s) s xs)" if "distinct s"
    using that by (rule jset.wf_add_all)
  show "distinct (foldl (\<lambda>s x. set_delete (f x) s) s xs)" if "distinct s"
    using that by (induction xs arbitrary: s) (simp_all add: set_delete_def)
  show "set (foldl (\<lambda>s x. set_delete (f x) s) s xs) = set s - f ` set xs"
    by (induction xs arbitrary: s) (auto simp: set_delete_def)
qed

lemma sendSubscribe_wanted: "wanted (ps_sendSubscribe e ss c) = wanted c \<union> set ss"
  by (auto simp: ps_sendSubscribe_def wanted_def Let_def)

lemma wanted_simps [simp]:
  "wanted (c\<lparr>ps_ws := w\<rparr>) = wanted c" "wanted (c\<lparr>ps_socks := k\<rparr>) = wanted c"
  "wanted (c\<lparr>ps_authenticated := b\<rparr>) = wanted c" "wanted (c\<lparr>authPaused := b\<rparr>) = wanted c"
  "wanted (c\<lparr>authToken := t\<rparr>) = wanted c" "wanted (c\<lparr>ps_authTasks := n\<rparr>) = wanted c"
  "wanted (c\<lparr>ps_retryTasks := n\<rparr>) = wanted c" "wanted (c\<lparr>ps_timers := ts\<rparr>) = wanted c"
  "wanted (c\<lparr>ps_handle := h\<rparr>) = wanted c" "wanted (c\<lparr>ps_next := n\<rparr>) = wanted c"
  "wanted (c\<lparr>ps_attempts := n\<rparr>) = wanted c" "wanted (c\<lparr>ps_ping := b\<rparr>) = wanted c"
  "wanted (c\<lparr>ps_ticks := tt\<rparr>) = wanted c" "wanted (c\<lparr>ps_listeners := l\<rparr>) = wanted c"
  "wanted (ps_put m c) = wanted c"
  by (simp_all add: wanted_def)

lemma wanted_ops [simp]: "wanted (ps_connect e b c) = wanted c" "wanted (set_ready i r c) = wanted c"
  "wanted (close_ws c) = wanted c" "wanted (clear_timer c) = wanted c" "wanted (stopPingLoop c) = wanted c"
  "wanted (startPingLoop e c) = wanted c"
  by (simp_all add: ps_connect_def set_ready_def close_ws_def clear_timer_def stopPingLoop_def startPingLoop_def
      Let_def split: option.split)

text \<open>What an event does to the wanted symbols.\<close>

fun wanted_after :: "ps_event \<Rightarrow> price_client \<Rightarrow> string set" where
  "wanted_after (PsSubscribe ss b) c = wanted c \<union> set (normalizeWsSubscribeSymbols ss)"
| "wanted_after (PsResync ss b) c = wanted c \<union> set (normalizeWsSubscribeSymbols ss)"
| "wanted_after (PsUnsubscribe ss) c =
     set (pendingSymbols c) \<union> (set (subscribedSymbols c) - normalizeSymbolKey ` set ss)"
| "wanted_after PsDisconnect c = {}"
| "wanted_after _ c = wanted c"

definition keys_ok :: "price_client \<Rightarrow> bool" where
  "keys_ok c = (\<forall>k \<in> wanted c. good_key k)"

lemma auth_success_wanted: "keys_ok c \<Longrightarrow> wanted (ps_auth_success e c) = wanted c"
proof -
  assume "keys_ok c"
  then have "normalizeWsSubscribeSymbols (pendingSymbols c) = set_of_list (pendingSymbols c)"
    by (intro normalizeWs_good) (auto simp: keys_ok_def wanted_def)
  then show ?thesis
    by (auto simp: ps_auth_success_def Let_def sendSubscribe_wanted) (auto simp: wanted_def)
qed

lemma onopen_wanted: "keys_ok c \<Longrightarrow> wanted (ps_onopen e i c) = wanted c"
proof -
  assume "keys_ok c"
  then have n: "normalizeWsSubscribeSymbols (set_of_list (subscribedSymbols c @ pendingSymbols c)) =
      set_of_list (subscribedSymbols c @ pendingSymbols c)"
    by (subst normalizeWs_good) (auto simp: keys_ok_def wanted_def)
  have f: "pendingSymbols (set_ready i OPEN c) = pendingSymbols c" "subscribedSymbols (set_ready i OPEN c) = subscribedSymbols c"
    by (simp_all add: set_ready_def)
  show ?thesis
    by (auto simp: ps_onopen_def Let_def sendSubscribe_wanted f n) (auto simp: wanted_def set_ready_def)
qed

lemma onmessage_wanted: "keys_ok c \<Longrightarrow> wanted (ps_onmessage e m c) = wanted c"
  by (cases m) (simp_all add: ps_onmessage_def auth_success_wanted)

lemma onclose_wanted: "wanted (ps_onclose i c) = wanted c"
  by (auto simp: ps_onclose_def Let_def wanted_def set_ready_def stopPingLoop_def)

lemma setAuthToken_wanted: "wanted (setAuthToken e parse b t c) = wanted c"
  by (auto simp: setAuthToken_def Let_def split: option.split) (auto simp: wanted_def)

lemma tokens_wanted: "wanted (fresh_token t c) = wanted c" "wanted (retry_token e t c) = wanted c"
  by (simp_all add: fresh_token_def retry_token_def Let_def split: option.split)

lemma wanted_step: "keys_ok c \<Longrightarrow> wanted (ps_do (e, parse) a c) = wanted_after a c"
proof (cases a)
  case (PsUnsubscribe ss)
  then show ?thesis by (simp add: ps_unsubscribe_def) (simp add: wanted_def)
next
  case PsDisconnect
  then show ?thesis by (simp add: ps_disconnect_def Let_def) (simp add: wanted_def)
qed (simp_all add: ps_subscribe_def resyncSymbolSubscriptions_def Let_def sendSubscribe_wanted onopen_wanted
    onmessage_wanted onclose_wanted setAuthToken_wanted tokens_wanted)

subsection \<open>Invariant\<close>

text \<open>Events whose symbols carry no white space.\<close>

fun clean :: "ps_event \<Rightarrow> bool" where
  "clean (PsSubscribe ss b) = (\<forall>s \<in> set ss. no_space s)"
| "clean (PsResync ss b) = (\<forall>s \<in> set ss. no_space s)"
| "clean _ = True"

lemma keys_ok_step: "keys_ok c \<Longrightarrow> clean a \<Longrightarrow> keys_ok (ps_do (e, parse) a c)"
  using wanted_step [of c e parse a] normalizeWs_keys
  by (cases a) (auto simp: keys_ok_def wanted_def)

definition ps_wf :: "price_client \<Rightarrow> bool" where
  "ps_wf c = ((\<forall>i. ps_ws c = Some i \<longrightarrow> i < length (ps_socks c)) \<and> distinct (pendingSymbols c) \<and>
     distinct (subscribedSymbols c) \<and> distinct (ps_listeners c) \<and>
     (\<forall>t \<in> set (ps_timers c). 2000 \<le> snd t \<and> snd t \<le> 15000))"

lemma ps_wf_sendSubscribe: "ps_wf c \<Longrightarrow> ps_wf (ps_sendSubscribe e ss c)"
  by (auto simp: ps_wf_def ps_sendSubscribe_def Let_def)

lemma ps_wf_connect: "ps_wf c \<Longrightarrow> ps_wf (ps_connect e b c)"
  by (auto simp: ps_wf_def ps_connect_def Let_def)

lemma ps_wf_close: "ps_wf c \<Longrightarrow> ps_wf (close_ws c)" "ps_wf c \<Longrightarrow> ps_wf (set_ready i r c)"
  "ps_wf c \<Longrightarrow> ps_wf (clear_timer c)" "ps_wf c \<Longrightarrow> ps_wf (ps_put m c)"
  by (auto simp: ps_wf_def close_ws_def set_ready_def clear_timer_def split: option.splits)

lemma ps_delay_bounds: "2000 \<le> ps_delay (Suc n) \<and> ps_delay (Suc n) \<le> 15000"
proof -
  have "(2::nat) ^ 1 \<le> 2 ^ min (Suc n) 6" by (rule power_increasing) simp_all
  then show ?thesis by (simp add: ps_delay_def)
qed

lemma ps_wf_simps [simp]:
  "ps_wf (c\<lparr>ps_authenticated := b\<rparr>) = ps_wf c" "ps_wf (c\<lparr>authPaused := b\<rparr>) = ps_wf c"
  "ps_wf (c\<lparr>authToken := t\<rparr>) = ps_wf c" "ps_wf (c\<lparr>ps_authTasks := n\<rparr>) = ps_wf c"
  "ps_wf (c\<lparr>ps_retryTasks := n\<rparr>) = ps_wf c" "ps_wf (c\<lparr>ps_attempts := n\<rparr>) = ps_wf c"
  "ps_wf (c\<lparr>ps_ping := b\<rparr>) = ps_wf c" "ps_wf (c\<lparr>ps_ticks := tt\<rparr>) = ps_wf c"
  by (simp_all add: ps_wf_def)

lemma ps_wf_step: "ps_wf c \<Longrightarrow> ps_wf (ps_do (e, parse) a c)"
proof (cases a)
  case (PsMessage i m)
  assume w: "ps_wf c"
  have "ps_wf (c\<lparr>ps_authenticated := True, pendingSymbols := []\<rparr>)" using w by (simp add: ps_wf_def)
  then show ?thesis using w unfolding PsMessage
    by (cases m) (auto simp: ps_onmessage_def ps_auth_success_def Let_def startPingLoop_def stopPingLoop_def
        intro!: ps_wf_sendSubscribe)
next
  case (PsOpen i)
  assume "ps_wf c"
  then have "ps_wf (set_ready i OPEN c)" by (rule ps_wf_close)
  moreover from this have "ps_wf ((set_ready i OPEN c)\<lparr>ps_attempts := 0, ps_authenticated := True, pendingSymbols := []\<rparr>)"
    by (simp add: ps_wf_def)
  ultimately show ?thesis unfolding PsOpen
    by (auto simp: ps_onopen_def Let_def intro!: ps_wf_sendSubscribe)
next
  case (PsClose i)
  assume "ps_wf c"
  then have "ps_wf (set_ready i CLOSED c)" by (rule ps_wf_close)
  then show ?thesis unfolding PsClose using ps_delay_bounds
    by (auto simp: ps_onclose_def Let_def stopPingLoop_def ps_wf_def)
next
  case (PsSetToken t b)
  assume w: "ps_wf c"
  then have "ps_wf (c\<lparr>authToken := u, authPaused := False,
      pendingSymbols := set_of_list (pendingSymbols c @ subscribedSymbols c)\<rparr>)" for u
    by (simp add: ps_wf_def)
  then show ?thesis using w unfolding PsSetToken
    by (auto simp: setAuthToken_def Let_def intro!: ps_wf_close ps_wf_connect split: option.split)
next
  case PsDisconnect
  assume "ps_wf c"
  then have "ps_wf (close_ws (clear_timer (stopPingLoop c)))" by (simp add: stopPingLoop_def ps_wf_close)
  then show ?thesis unfolding PsDisconnect by (simp add: ps_disconnect_def Let_def) (simp add: ps_wf_def)
next
  case (PsTimer h b)
  assume "ps_wf c"
  then have "ps_wf (c\<lparr>ps_timers := filter (\<lambda>t. fst t \<noteq> h) (ps_timers c)\<rparr>)" by (simp add: ps_wf_def)
  then show ?thesis unfolding PsTimer by (simp add: ps_wf_connect)
next
  case (PsListen l)
  assume "ps_wf c"
  then show ?thesis unfolding PsListen by (simp add: ps_wf_def set_add_def)
next
  case (PsUnlisten l)
  assume "ps_wf c"
  then show ?thesis unfolding PsUnlisten by (simp add: ps_wf_def set_delete_def)
next
  case (PsUnsubscribe ss)
  assume "ps_wf c"
  then show ?thesis unfolding PsUnsubscribe by (simp add: ps_wf_def ps_unsubscribe_def)
qed (auto simp: ps_subscribe_def resyncSymbolSubscriptions_def fresh_token_def retry_token_def Let_def
    intro!: ps_wf_sendSubscribe ps_wf_connect ps_wf_close split: option.split)

definition ps_inv :: "price_client \<Rightarrow> bool" where
  "ps_inv c = (ps_wf c \<and> keys_ok c)"

lemma ps_inv_step: "ps_inv c \<Longrightarrow> clean a \<Longrightarrow> ps_inv (ps_do E a c)"
  using ps_wf_step keys_ok_step by (cases E) (auto simp: ps_inv_def)

interpretation psi: stable_system "\<lambda>a c. ps_enabled a c \<and> clean a" "ps_do E" ps_inv for E
  by unfold_locales (simp add: ps_inv_step)

interpretation psc: invariant_system "\<lambda>a c. ps_enabled a c \<and> clean a" "ps_do (e, parse)" ps_inv "\<lambda>c. c = ps_init e" for e parse
  by unfold_locales (auto simp: ps_inv_step ps_inv_def ps_wf_def keys_ok_def wanted_def ps_init_def)

subsection \<open>What goes out\<close>

lemma connected_simps [simp]:
  "ps_isConnected (c\<lparr>ps_authenticated := b\<rparr>) = ps_isConnected c"
  "ps_isConnected (c\<lparr>pendingSymbols := p\<rparr>) = ps_isConnected c"
  "ps_isConnected (c\<lparr>subscribedSymbols := p\<rparr>) = ps_isConnected c"
  "ps_isConnected (c\<lparr>ps_ping := b\<rparr>) = ps_isConnected c"
  "ps_isConnected (c\<lparr>ps_wire := w\<rparr>) = ps_isConnected c"
  "ps_isConnected (ps_put m c) = ps_isConnected c"
  by (simp_all add: ps_isConnected_def ps_ready_def ps_put_def split: option.split)

lemma mode_simps [simp]:
  "gateway_mode e (c\<lparr>ps_authenticated := b\<rparr>) = gateway_mode e c"
  "gateway_mode e (c\<lparr>pendingSymbols := p\<rparr>) = gateway_mode e c"
  "gateway_mode e (c\<lparr>subscribedSymbols := p\<rparr>) = gateway_mode e c"
  "gateway_mode e (c\<lparr>ps_ping := b\<rparr>) = gateway_mode e c"
  "gateway_mode e (ps_put m c) = gateway_mode e c" "gateway_mode e (c\<lparr>ps_wire := w\<rparr>) = gateway_mode e c"
  by (simp_all add: gateway_mode_def getEffectiveUrl_def split: option.split)

lemma connected_ws: "ps_isConnected c \<Longrightarrow> \<exists>i. ps_ws c = Some i"
  by (auto simp: ps_isConnected_def ps_ready_def split: option.splits)

text \<open>A subscription in the gateway's protocol.\<close>

fun is_gw_subscribe :: "price_msg \<Rightarrow> bool" where
  "is_gw_subscribe (GwSubscribe ss) = True"
| "is_gw_subscribe _ = False"

definition sub_ok :: "web_env \<Rightarrow> price_client \<Rightarrow> nat \<times> price_msg \<Rightarrow> bool" where
  "sub_ok e c w = (is_gw_subscribe (snd w) \<longrightarrow>
     ps_ws c = Some (fst w) \<and> ps_isConnected c \<and> gateway_mode e c \<and> ps_authenticated c)"

definition adds_ok :: "web_env \<Rightarrow> price_client \<Rightarrow> price_client \<Rightarrow> bool" where
  "adds_ok e c c' = (\<exists>new. ps_wire c' = ps_wire c @ new \<and> (\<forall>w \<in> set new. sub_ok e c' w))"

lemma adds_ok_same: "ps_wire c' = ps_wire c \<Longrightarrow> adds_ok e c c'"
  by (simp add: adds_ok_def)

lemma sendSubscribe_adds: "adds_ok e c (ps_sendSubscribe e ss c)"
  by (auto simp: adds_ok_def sub_ok_def ps_sendSubscribe_def Let_def ps_put_def split: option.split)

lemma adds_ok_sub:
  assumes "adds_ok e c0 (ps_sendSubscribe e ss c1)" "ps_wire c0 = ps_wire c"
  shows "adds_ok e c (ps_sendSubscribe e ss c1)"
  using assms by (simp add: adds_ok_def)

lemma wire_ops [simp]: "ps_wire (ps_connect e b c) = ps_wire c" "ps_wire (set_ready i r c) = ps_wire c"
  "ps_wire (close_ws c) = ps_wire c" "ps_wire (clear_timer c) = ps_wire c" "ps_wire (stopPingLoop c) = ps_wire c"
  "ps_wire (startPingLoop e c) = ps_wire c"
  by (simp_all add: ps_connect_def set_ready_def close_ws_def clear_timer_def stopPingLoop_def
      startPingLoop_def Let_def split: option.split)

lemma adds_put: "\<not> is_gw_subscribe m \<Longrightarrow> ps_wire c1 = ps_wire c \<Longrightarrow> adds_ok e c (ps_put m c1)"
  by (auto simp: adds_ok_def sub_ok_def ps_put_def split: option.split)

lemma adds_subscribe: "ps_wire c1 = ps_wire c \<Longrightarrow> adds_ok e c (ps_sendSubscribe e ss c1)"
  using sendSubscribe_adds [of e c1 ss] by (simp add: adds_ok_def)

lemma adds_ping: "adds_ok e c c1 \<Longrightarrow> adds_ok e c (startPingLoop e c1)"
  by (auto simp: adds_ok_def sub_ok_def startPingLoop_def)

lemma adds_step: "adds_ok e c (ps_do (e, parse) a c)"
proof (cases a)
  case (PsMessage i m)
  have "adds_ok e c (ps_auth_success e c)"
    by (simp add: ps_auth_success_def Let_def adds_ping adds_subscribe adds_ok_same)
  then show ?thesis unfolding PsMessage
    by (cases m) (auto simp: ps_onmessage_def intro!: adds_ok_same)
qed (simp_all add: ps_subscribe_def resyncSymbolSubscriptions_def fresh_token_def retry_token_def Let_def
    ps_unsubscribe_def setAuthToken_def ps_disconnect_def ps_onopen_def ps_onclose_def
    adds_subscribe adds_put adds_ok_same split: option.split)

section \<open>Properties\<close>

text \<open>In every reachable state of the price client, the symbols it holds are normalised keys without
  repetition, every pending reconnect is 2 to 15 seconds away, and its socket exists.\<close>

theorem price_client_invariant:
  assumes "reach (\<lambda>c. c = ps_init e) (\<lambda>a c. ps_enabled a c \<and> clean a) (ps_do (e, parse)) c"
  shows "(\<forall>k \<in> set (pendingSymbols c) \<union> set (subscribedSymbols c). normalizeSymbolKey k = k \<and> k \<noteq> []) \<and>
    distinct (pendingSymbols c) \<and> distinct (subscribedSymbols c) \<and>
    (\<forall>t \<in> set (ps_timers c). 2000 \<le> snd t \<and> snd t \<le> 15000) \<and>
    (\<forall>i. ps_ws c = Some i \<longrightarrow> i < length (ps_socks c))"
  using psc.reach_inv [OF assms] by (auto simp: ps_inv_def ps_wf_def keys_ok_def wanted_def good_key_def)


text \<open>Any event only appends to the wire, and a subscription in the gateway's protocol goes out only
  on the open socket the client holds, in gateway mode, and while the client counts as authenticated.\<close>

theorem price_subscribe_guarded:
  "\<exists>new. ps_wire (ps_do (e, parse) a c) = ps_wire c @ new \<and>
     (\<forall>w \<in> set new. is_gw_subscribe (snd w) \<longrightarrow>
        ps_ws (ps_do (e, parse) a c) = Some (fst w) \<and> ps_isConnected (ps_do (e, parse) a c) \<and>
        gateway_mode e (ps_do (e, parse) a c) \<and> ps_authenticated (ps_do (e, parse) a c))"
  using adds_step [of e c parse a] by (simp add: adds_ok_def sub_ok_def)

text \<open>Recovery after a drop: a close moves every wanted symbol to the pending list, and the
  authentication of an open gateway socket sends them all in one subscription and leaves none
  pending.\<close>

theorem price_resubscribes:
  assumes "reach (\<lambda>c. c = ps_init e) (\<lambda>a c. ps_enabled a c \<and> clean a) (ps_do (e, parse)) c"
  shows "set (pendingSymbols (ps_onclose i c)) = wanted c \<and>
    (ps_isConnected c \<and> gateway_mode e c \<and> pendingSymbols c \<noteq> [] \<longrightarrow>
       ps_wire (ps_auth_success e c) = ps_wire c @ [(the (ps_ws c), GwSubscribe (pendingSymbols c))] \<and>
       pendingSymbols (ps_auth_success e c) = [] \<and>
       set (subscribedSymbols (ps_auth_success e c)) = wanted c)"
proof -
  have inv: "ps_inv c" using psc.reach_inv [OF assms] .
  then have n: "normalizeWsSubscribeSymbols (pendingSymbols c) = pendingSymbols c"
    by (subst normalizeWs_good) (auto simp: ps_inv_def keys_ok_def wanted_def ps_wf_def set_of_list_distinct)
  have "set (pendingSymbols (ps_onclose i c)) = wanted c"
    by (auto simp: ps_onclose_def Let_def wanted_def set_ready_def stopPingLoop_def)
  moreover have "ps_wire (ps_auth_success e c) = ps_wire c @ [(the (ps_ws c), GwSubscribe (pendingSymbols c))] \<and>
       pendingSymbols (ps_auth_success e c) = [] \<and> set (subscribedSymbols (ps_auth_success e c)) = wanted c"
    if "ps_isConnected c" "gateway_mode e c" "pendingSymbols c \<noteq> []"
  proof -
    obtain k where "ps_ws c = Some k" using connected_ws [OF \<open>ps_isConnected c\<close>] by blast
    then show ?thesis using that n
      by (auto simp: ps_auth_success_def Let_def ps_sendSubscribe_def startPingLoop_def ps_put_def wanted_def)
  qed
  ultimately show ?thesis by blast
qed

text \<open>While the client is paused after a failed authentication it opens no socket and stays paused,
  until a token is set or the client is disconnected.\<close>

theorem price_paused_stays_closed:
  assumes "authPaused c" "\<not> (\<exists>t b. a = PsSetToken t b)" "a \<noteq> PsDisconnect"
  shows "authPaused (ps_do (e, parse) a c) \<and> length (ps_socks (ps_do (e, parse) a c)) = length (ps_socks c)"
proof -
  have s: "authPaused (ps_sendSubscribe e ss d) = authPaused d" "ps_socks (ps_sendSubscribe e ss d) = ps_socks d" for ss d
    by (simp_all add: ps_sendSubscribe_def Let_def)
  have r: "authPaused (set_ready i x d) = authPaused d" "length (ps_socks (set_ready i x d)) = length (ps_socks d)" for i x d
    by (simp_all add: set_ready_def)
  have c: "authPaused (close_ws d) = authPaused d" "length (ps_socks (close_ws d)) = length (ps_socks d)"
    "authPaused (clear_timer d) = authPaused d" "ps_socks (clear_timer d) = ps_socks d" for d
    by (simp_all add: close_ws_def clear_timer_def r split: option.split)
  have con: "ps_connect e b d = d" if "authPaused d" for b d using that by (simp add: ps_connect_def)
  show ?thesis
  proof (cases a)
    case (PsMessage i m)
    then show ?thesis using assms(1) by (cases m)
      (simp_all add: ps_onmessage_def ps_auth_success_def Let_def startPingLoop_def stopPingLoop_def s)
  qed (use assms in \<open>auto simp: ps_subscribe_def resyncSymbolSubscriptions_def ps_unsubscribe_def con
      ps_onopen_def ps_onclose_def Let_def s r c fresh_token_def retry_token_def stopPingLoop_def
      split: option.split\<close>)
qed

section \<open>Witnesses\<close>

definition prod_env :: web_env where
  "prod_env = \<lparr>VITE_WS_URL = None, DEV = False, VITE_WS_PORT = None, VITE_DATA_PROVIDER_WS_URL = None,
     VITE_DATA_PROVIDER_HTTP_URL = None, VITE_DATA_PROVIDER_HTTP_PATH = None,
     location = Some (True, ''app.io'', ''https://app.io'')\<rparr>"

definition price_run :: "ps_event list" where
  "price_run = [PsSetToken (Some ''Bearer t'') True, PsSubscribe [''btc-usdt'', ''EUR/USD'', ''BTCUSDT''] True, PsOpen 0,
     PsFreshToken (Some ''t''), PsMessage 0 PAuthSuccess, PsSubscribe [''gold''] True]"

lemma price_run_eval:
  "map_option (\<lambda>c. (ps_wire c, pendingSymbols c, subscribedSymbols c, ps_ws c))
     (run (\<lambda>a c. ps_enabled a c \<and> clean a) (ps_do (prod_env, \<lambda>_. None)) price_run (ps_init prod_env)) =
   Some ([(0, GwAuth ''t''), (0, GwSubscribe [''BTCUSD'', ''EURUSD'']), (0, GwSubscribe [''GOLD''])], [],
     [''BTCUSD'', ''EURUSD'', ''GOLD''], Some 0)"
  by code_simp

definition price_end :: price_client where
  "price_end = the (run (\<lambda>a c. ps_enabled a c \<and> clean a) (ps_do (prod_env, \<lambda>_. None)) price_run (ps_init prod_env))"

lemma price_end_reach:
  "reach (\<lambda>c. c = ps_init prod_env) (\<lambda>a c. ps_enabled a c \<and> clean a) (ps_do (prod_env, \<lambda>_. None)) price_end"
proof (rule run_start)
  show "run (\<lambda>a c. ps_enabled a c \<and> clean a) (ps_do (prod_env, \<lambda>_. None)) price_run (ps_init prod_env) = Some price_end"
    using price_run_eval by (auto simp: price_end_def)
qed simp

lemma price_end_fields: "pendingSymbols price_end = []" "subscribedSymbols price_end = [''BTCUSD'', ''EURUSD'', ''GOLD'']"
  using price_run_eval by (auto simp: price_end_def)

lemma price_client_invariant_witness: "\<not> (\<exists>k \<in> {''BTCUSD'', ''EURUSD'', ''GOLD''}. normalizeSymbolKey k \<noteq> k)"
  using price_client_invariant [OF price_end_reach] by (simp add: price_end_fields)


lemma price_subscribe_guarded_witness:
  "\<exists>new. ps_wire (ps_do (prod_env, \<lambda>_. None) (PsSubscribe [''x''] True) price_end) = ps_wire price_end @ new"
  using price_subscribe_guarded [of prod_env "\<lambda>_. None" "PsSubscribe [''x''] True" price_end] by blast

lemma price_resubscribes_witness:
  "set (pendingSymbols (ps_onclose 0 price_end)) = {''BTCUSD'', ''EURUSD'', ''GOLD''}"
  using price_resubscribes [OF price_end_reach, of 0] by (simp add: wanted_def price_end_fields)

lemma price_paused_stays_closed_witness:
  "length (ps_socks (ps_connect prod_env True ((ps_init prod_env)\<lparr>authPaused := True\<rparr>))) = 0"
  using price_paused_stays_closed [of "(ps_init prod_env)\<lparr>authPaused := True\<rparr>" "PsConnect True" prod_env "\<lambda>_. None"]
  by (simp add: ps_init_def)

text \<open>
  A token that arrives while a data-provider socket is still connecting changes nothing but the
  token: when the socket opens, the client stays on the raw feed and sends it a subscription in
  the gateway's protocol, although a signed-in client is to use the gateway only.
\<close>

definition dp_env :: web_env where
  "dp_env = prod_env\<lparr>VITE_DATA_PROVIDER_WS_URL := Some ''ws://feed:9003''\<rparr>"

lemma price_token_while_connecting:
  "map_option (\<lambda>c. (ps_wire c, map sk_gateway (ps_socks c), map sk_ready (ps_socks c), authToken c))
     (run ps_enabled (ps_do (dp_env, \<lambda>_. None))
        [PsSubscribe [''BTCUSD''] True, PsSetToken (Some ''t'') True, PsOpen 0] (ps_init dp_env)) =
   Some ([(0, GwSubscribe [''BTCUSD''])], [False], [OPEN], Some ''t'')"
  by code_simp

end
