(* ===== verification/Price_Hub.thy ===== *)
theory Price_Hub
  imports Price_Stream
begin

text \<open>
  The price store behind the React hooks (\<open>features/symbols/hooks/usePriceStream.ts\<close>): the last price
  per key, the callbacks per key, the registration and cleanup effects, the batched subscription
  of a symbol list on the price client, and the price of a single cell.

  A callback is the closure the hook creates, identified by a number: \<open>ListCb\<close> writes into the price
  map of a view, \<open>CellCb\<close> into a cell as long as the cell still shows the symbol it was made for.
\<close>

section \<open>State\<close>

record PriceData =
  pd_bid :: string
  pd_ask :: string
  pd_ts :: jsnum

datatype callback = ListCb nat nat string | CellCb nat nat string

record hub =
  priceStore :: "(string, PriceData) jsmap"
  subscribers :: "(string, callback list) jsmap"
  view_prices :: "(nat, (string, PriceData) jsmap) jsmap"
  cell_symbol :: "(nat, string option) jsmap"
  cell_price :: "(nat, PriceData option) jsmap"
  next_cb :: nat

definition hub_init :: hub where
  "hub_init = \<lparr>priceStore = [], subscribers = [], view_prices = [], cell_symbol = [], cell_price = [], next_cb = 0\<rparr>"

definition upper_trim :: "string \<Rightarrow> string" where
  "upper_trim s = trim (toUpperCase s)"

text \<open>\<open>symbols.map(s => s.toUpperCase().trim()).filter(s => s.length > 0)\<close>.\<close>

definition clean_symbols :: "string list \<Rightarrow> string list" where
  "clean_symbols symbols = filter (\<lambda>s. s \<noteq> []) (map upper_trim symbols)"

definition hasCachedPriceForAnySymbol :: "string list \<Rightarrow> hub \<Rightarrow> bool" where
  "hasCachedPriceForAnySymbol symbols h =
     (\<exists>s \<in> set symbols. let k = normalizeSymbolKey (upper_trim s) in k \<noteq> [] \<and> map_has (priceStore h) k)"

section \<open>Callbacks\<close>

text \<open>\<open>updatePrice\<close> of a view.\<close>

definition updatePrice :: "nat \<Rightarrow> string \<Rightarrow> PriceData \<Rightarrow> hub \<Rightarrow> hub" where
  "updatePrice v key p h =
     h\<lparr>view_prices := map_set v (map_set key p (nullish (map_get (view_prices h) v) [])) (view_prices h)\<rparr>"

fun call :: "PriceData \<Rightarrow> hub \<Rightarrow> callback \<Rightarrow> hub" where
  "call p h (ListCb n v key) = updatePrice v key p h"
| "call p h (CellCb n c csym) =
     (case nullish (map_get (cell_symbol h) c) None of
        Some s \<Rightarrow> if upper_trim s = csym then h\<lparr>cell_price := map_set c (Some p) (cell_price h)\<rparr> else h
      | None \<Rightarrow> h)"

definition callbacks_of :: "string \<Rightarrow> hub \<Rightarrow> callback list" where
  "callbacks_of k h = nullish (map_get (subscribers h) k) []"

definition notifySubscribers :: "string \<Rightarrow> PriceData \<Rightarrow> hub \<Rightarrow> hub" where
  "notifySubscribers symbol p h =
     (let u = upper_trim symbol; k = normalizeSymbolKey u;
          h = h\<lparr>priceStore := map_set k p (priceStore h)\<rparr>;
          cbs = (case map_get (subscribers h) k of Some l \<Rightarrow> l | None \<Rightarrow> nullish (map_get (subscribers h) u) [])
      in foldl (call p) h cbs)"

definition add_callback :: "string \<Rightarrow> callback \<Rightarrow> hub \<Rightarrow> hub" where
  "add_callback k cb h = h\<lparr>subscribers := map_set k (set_add cb (callbacks_of k h)) (subscribers h)\<rparr>"

definition remove_callback :: "string \<Rightarrow> callback \<Rightarrow> hub \<Rightarrow> hub" where
  "remove_callback k cb h =
     (case map_get (subscribers h) k of
        None \<Rightarrow> h
      | Some cbs \<Rightarrow>
          (let rest = set_delete cb cbs in
           if rest = [] then h\<lparr>subscribers := map_delete k (subscribers h)\<rparr>
           else h\<lparr>subscribers := map_set k rest (subscribers h)\<rparr>))"

section \<open>The effects of a view\<close>

text \<open>Registration of one symbol; \<open>wrapped\<close> is the effect's map from symbol to callback.\<close>

definition register_step ::
  "nat \<Rightarrow> hub \<times> (string, callback) jsmap \<Rightarrow> string \<Rightarrow> hub \<times> (string, callback) jsmap" where
  "register_step v hw symbol =
     (let (h, wrapped) = hw; k = normalizeSymbolKey symbol; cb = ListCb (next_cb h) v k;
          h = add_callback k cb (h\<lparr>next_cb := next_cb h + 1\<rparr>);
          h = (case map_get (priceStore h) k of Some p \<Rightarrow> call p h cb | None \<Rightarrow> h)
      in (h, map_set symbol cb wrapped))"

definition register_view :: "nat \<Rightarrow> string list \<Rightarrow> hub \<Rightarrow> hub \<times> (string, callback) jsmap" where
  "register_view v symbols h = foldl (register_step v) (h, []) (clean_symbols symbols)"

definition cleanup_step :: "(string, callback) jsmap \<Rightarrow> hub \<Rightarrow> string \<Rightarrow> hub" where
  "cleanup_step wrapped h symbol =
     (case map_get wrapped symbol of
        Some cb \<Rightarrow> remove_callback (normalizeSymbolKey symbol) cb h
      | None \<Rightarrow> h)"

definition cleanup_view :: "string list \<Rightarrow> (string, callback) jsmap \<Rightarrow> hub \<Rightarrow> hub" where
  "cleanup_view symbols wrapped h = foldl (cleanup_step wrapped) h (clean_symbols symbols)"

section \<open>Subscription of a symbol list\<close>

text \<open>\<open>for (i = 0; i < n; i += 50) slice(i, i + 50)\<close>.\<close>

fun batches :: "nat \<Rightarrow> 'a list \<Rightarrow> 'a list list" where
  "batches n [] = []"
| "batches n (x # xs) = (x # take (n - 1) xs) # batches n (drop (n - 1) xs)"

text \<open>
  \<open>performSubscription\<close> on the view's subscribed set and the price client: stale symbols are
  unsubscribed, new ones subscribed in batches of 50 (\<open>subscribeFn\<close> always returns true).
\<close>

definition performSubscription ::
  "web_env \<Rightarrow> bool \<Rightarrow> string list \<Rightarrow> string list \<times> price_client \<Rightarrow> string list \<times> price_client" where
  "performSubscription e created symbolsUpper st =
     (case st of (subscribed, c) \<Rightarrow>
        if symbolsUpper = [] then (subscribed, c)
        else
          (let toSub = filter (\<lambda>s. s \<notin> set subscribed) symbolsUpper;
               toUnsub = filter (\<lambda>s. s \<notin> set symbolsUpper) subscribed;
               c = (if toUnsub \<noteq> [] then ps_unsubscribe toUnsub c else c);
               subscribed = foldl (\<lambda>s x. set_delete x s) subscribed toUnsub
           in foldl (\<lambda>(s, c) batch. (foldl (\<lambda>s x. set_add x s) s batch, ps_subscribe e created batch c))
                (subscribed, c) (batches 50 toSub)))"

definition triggerResubscribe ::
  "web_env \<Rightarrow> bool \<Rightarrow> string list \<Rightarrow> string list \<times> price_client \<Rightarrow> string list \<times> price_client" where
  "triggerResubscribe e created symbolsUpper st =
     (let (s, c) = (if symbolsUpper \<noteq> [] then performSubscription e created symbolsUpper st else st)
      in (s, resyncSymbolSubscriptions e created symbolsUpper c))"

section \<open>A single cell\<close>

text \<open>\<open>useSymbolPrice\<close>: the cell now shows \<open>symbol\<close>; the callback to remove on cleanup is returned.\<close>

definition mount_cell :: "nat \<Rightarrow> string option \<Rightarrow> hub \<Rightarrow> hub \<times> (string \<times> callback) option" where
  "mount_cell c symbol h =
     (let h = h\<lparr>cell_symbol := map_set c symbol (cell_symbol h)\<rparr> in
      case some_token symbol of
        None \<Rightarrow> (h\<lparr>cell_price := map_set c None (cell_price h)\<rparr>, None)
      | Some s \<Rightarrow>
          (let u = upper_trim s in
           if u = [] then (h\<lparr>cell_price := map_set c None (cell_price h)\<rparr>, None)
           else let cb = CellCb (next_cb h) c u; k = normalizeSymbolKey u;
                    h = add_callback k cb (h\<lparr>next_cb := next_cb h + 1\<rparr>);
                    h = (case map_get (priceStore h) k of
                           Some p \<Rightarrow> h\<lparr>cell_price := map_set c (Some p) (cell_price h)\<rparr> | None \<Rightarrow> h)
                in (h, Some (k, cb))))"

definition unmount_cell :: "(string \<times> callback) option \<Rightarrow> hub \<Rightarrow> hub" where
  "unmount_cell r h = (case r of None \<Rightarrow> h | Some (k, cb) \<Rightarrow> remove_callback k cb h)"

section \<open>Facts\<close>

lemma upper_trim_idem [simp]: "upper_trim (upper_trim s) = upper_trim s"
  by (simp add: upper_trim_def toUpperCase_trim)

subsection \<open>Batches\<close>

lemma batches_concat: "concat (batches n xs) = xs"
  by (induction n xs rule: batches.induct) simp_all

lemma batches_length: "0 < n \<Longrightarrow> b \<in> set (batches n xs) \<Longrightarrow> 0 < length b \<and> length b \<le> n"
  by (induction n xs rule: batches.induct) (auto simp: min_def)

lemma batches_subset: "b \<in> set (batches n xs) \<Longrightarrow> set b \<subseteq> set xs"
  using batches_concat [of n xs] by (metis UN_upper set_concat)

subsection \<open>Registration\<close>

lemma foldl_call_fields [simp]: "subscribers (foldl (call p) h cbs) = subscribers h"
  "priceStore (foldl (call p) h cbs) = priceStore h" "next_cb (foldl (call p) h cbs) = next_cb h"
proof -
  have "subscribers (call p h cb) = subscribers h \<and> priceStore (call p h cb) = priceStore h \<and>
      next_cb (call p h cb) = next_cb h" for cb h
    by (cases cb) (auto simp: updatePrice_def split: option.split)
  then show "subscribers (foldl (call p) h cbs) = subscribers h"
    "priceStore (foldl (call p) h cbs) = priceStore h" "next_cb (foldl (call p) h cbs) = next_cb h"
    by (induction cbs arbitrary: h) simp_all
qed

lemma call_fields [simp]: "subscribers (call p h cb) = subscribers h" "priceStore (call p h cb) = priceStore h"
  "next_cb (call p h cb) = next_cb h"
  using foldl_call_fields [of p h "[cb]"] by simp_all

text \<open>No key has an empty set of callbacks, and no callback has a number still to come.\<close>

fun cb_id :: "callback \<Rightarrow> nat" where
  "cb_id (ListCb n v k) = n"
| "cb_id (CellCb n c k) = n"

definition hub_inv :: "hub \<Rightarrow> bool" where
  "hub_inv h = (map_wf (subscribers h) \<and>
     (\<forall>k cbs. map_get (subscribers h) k = Some cbs \<longrightarrow> cbs \<noteq> [] \<and> distinct cbs \<and> (\<forall>cb \<in> set cbs. cb_id cb < next_cb h)))"

lemma hub_inv_init: "hub_inv hub_init"
  by (simp add: hub_inv_def hub_init_def map_get_def)

lemma callbacks_of_add: "callbacks_of k' (add_callback k cb h) =
    (if k' = k then set_add cb (callbacks_of k h) else callbacks_of k' h)"
  by (simp add: callbacks_of_def add_callback_def map_get_set)

lemma callbacks_of_remove: "callbacks_of k' (remove_callback k cb h) =
    (if k' = k then set_delete cb (callbacks_of k h) else callbacks_of k' h)"
  by (auto simp: callbacks_of_def remove_callback_def map_get_set map_get_delete Let_def set_delete_def
      split: option.split)

lemma callbacks_of_call [simp]: "callbacks_of k (call p h cb) = callbacks_of k h"
  "callbacks_of k (h\<lparr>next_cb := n\<rparr>) = callbacks_of k h"
  by (simp_all add: callbacks_of_def)

lemma hub_inv_add:
  assumes "hub_inv h"
  shows "hub_inv (add_callback k (ListCb (next_cb h) v s) (h\<lparr>next_cb := next_cb h + 1\<rparr>))"
    "hub_inv (add_callback k (CellCb (next_cb h) c s) (h\<lparr>next_cb := next_cb h + 1\<rparr>))"
  using assms by (auto simp: hub_inv_def add_callback_def callbacks_of_def nullish_def map_get_set set_add_def
      less_Suc_eq split: if_splits option.splits)

lemma hub_inv_call: "hub_inv h \<Longrightarrow> hub_inv (call p h cb)"
  by (simp add: hub_inv_def)

lemma hub_inv_remove: "hub_inv h \<Longrightarrow> hub_inv (remove_callback k cb h)"
  by (auto simp: hub_inv_def remove_callback_def Let_def map_get_set map_get_delete set_delete_def
      split: option.split if_splits)

text \<open>What one symbol's registration adds.\<close>

fun view_cbs :: "nat \<Rightarrow> nat \<Rightarrow> string list \<Rightarrow> callback list" where
  "view_cbs n v [] = []"
| "view_cbs n v (x # xs) = ListCb n v (normalizeSymbolKey x) # view_cbs (Suc n) v xs"

fun cb_key :: "callback \<Rightarrow> string" where
  "cb_key (ListCb n v k) = k"
| "cb_key (CellCb n c u) = normalizeSymbolKey u"

lemma view_cbs_ids: "cb \<in> set (view_cbs n v xs) \<Longrightarrow> n \<le> cb_id cb"
  by (induction n v xs rule: view_cbs.induct) fastforce+

definition ids_below :: "nat \<Rightarrow> hub \<Rightarrow> bool" where
  "ids_below n h = (\<forall>k. \<forall>cb \<in> set (callbacks_of k h). cb_id cb < n)"

lemma ids_below_inv: "hub_inv h \<Longrightarrow> ids_below (next_cb h) h"
proof -
  assume h: "hub_inv h"
  have "\<forall>cb \<in> set (callbacks_of k h). cb_id cb < next_cb h" for k
    using h by (cases "map_get (subscribers h) k") (simp_all add: hub_inv_def callbacks_of_def)
  then show ?thesis by (simp add: ids_below_def)
qed

lemma register_step_effect:
  assumes "ids_below (next_cb h) h"
  shows "register_step v (h, w) x = (h', w') \<Longrightarrow>
    next_cb h' = Suc (next_cb h) \<and> ids_below (next_cb h') h' \<and>
    w' = map_set x (ListCb (next_cb h) v (normalizeSymbolKey x)) w \<and>
    callbacks_of k h' = callbacks_of k h @
      (if normalizeSymbolKey x = k then [ListCb (next_cb h) v (normalizeSymbolKey x)] else [])"
proof -
  let ?cb = "ListCb (next_cb h) v (normalizeSymbolKey x)"
  let ?h1 = "add_callback (normalizeSymbolKey x) ?cb (h\<lparr>next_cb := Suc (next_cb h)\<rparr>)"
  have fresh: "?cb \<notin> set (callbacks_of k h)" for k using assms by (force simp: ids_below_def)
  have c1: "callbacks_of k ?h1 = callbacks_of k h @ (if normalizeSymbolKey x = k then [?cb] else [])" for k
    using fresh [of k] by (auto simp: callbacks_of_add set_add_def)
  have ids: "ids_below (Suc (next_cb h)) ?h1"
    using assms by (auto simp: ids_below_def c1 less_Suc_eq)
  assume r: "register_step v (h, w) x = (h', w')"
  have n1: "next_cb ?h1 = Suc (next_cb h)" by (simp add: add_callback_def)
  have "h' = ?h1 \<or> (\<exists>p. h' = call p ?h1 ?cb)" "w' = map_set x ?cb w"
    using r by (auto simp: register_step_def Let_def split: option.splits)
  then show ?thesis using n1 ids c1 by (auto simp: ids_below_def simp del: call.simps)
qed

lemma register_fold:
  assumes "foldl (register_step v) (h, w) xs = (h', w')" "ids_below (next_cb h) h" "distinct xs"
  shows "callbacks_of k h' = callbacks_of k h @ filter (\<lambda>cb. cb_key cb = k) (view_cbs (next_cb h) v xs) \<and>
    (\<forall>x. x \<notin> set xs \<longrightarrow> map_get w' x = map_get w x) \<and>
    map (map_get w') xs = map Some (view_cbs (next_cb h) v xs)"
  using assms
proof (induction xs arbitrary: h w)
  case (Cons x xs)
  obtain h1 w1 where s: "register_step v (h, w) x = (h1, w1)" by (cases "register_step v (h, w) x")
  note e = register_step_effect [OF Cons.prems(2) s]
  have f: "foldl (register_step v) (h1, w1) xs = (h', w')" using Cons.prems(1) s by simp
  have n: "next_cb h1 = Suc (next_cb h)" "ids_below (next_cb h1) h1"
    "w1 = map_set x (ListCb (next_cb h) v (normalizeSymbolKey x)) w" using e by blast+
  have "distinct xs" "x \<notin> set xs" using Cons.prems(3) by simp_all
  with Cons.IH [OF f n(2)] e [of k] n show ?case by (auto simp: map_get_set)
qed simp

lemma cleanup_fold:
  assumes "map (map_get w) xs = map Some cbs"
  shows "callbacks_of k (foldl (cleanup_step w) h xs) =
    filter (\<lambda>cb. \<not> (\<exists>(x, c) \<in> set (zip xs cbs). normalizeSymbolKey x = k \<and> c = cb)) (callbacks_of k h)"
  using assms
proof (induction xs arbitrary: h cbs)
  case (Cons x xs)
  then obtain c cs where c: "cbs = c # cs" "map_get w x = Some c" "map (map_get w) xs = map Some cs"
    by (cases cbs) auto
  have "callbacks_of k (cleanup_step w h x) =
      (if k = normalizeSymbolKey x then set_delete c (callbacks_of k h) else callbacks_of k h)"
    using c(2) by (simp add: cleanup_step_def callbacks_of_remove)
  then show ?case using Cons.IH [OF c(3), of "cleanup_step w h x"] c(1)
    by (auto simp: set_delete_def intro!: filter_cong)
qed simp

lemma zip_view_cbs: "(x, c) \<in> set (zip xs (view_cbs n v xs)) \<Longrightarrow> cb_key c = normalizeSymbolKey x \<and> c \<in> set (view_cbs n v xs)"
  by (induction n v xs rule: view_cbs.induct) auto

lemma view_cbs_zip: "c \<in> set (view_cbs n v xs) \<Longrightarrow> \<exists>x. (x, c) \<in> set (zip xs (view_cbs n v xs))"
  by (induction n v xs rule: view_cbs.induct) auto

subsection \<open>Delivery\<close>

definition view_shows :: "hub \<Rightarrow> nat \<Rightarrow> string \<Rightarrow> PriceData option" where
  "view_shows h v k = map_get (nullish (map_get (view_prices h) v) []) k"

definition cell_shows :: "hub \<Rightarrow> nat \<Rightarrow> PriceData option" where
  "cell_shows h c = nullish (map_get (cell_price h) c) None"

text \<open>What a callback is to achieve.\<close>

fun told :: "PriceData \<Rightarrow> hub \<Rightarrow> callback \<Rightarrow> bool" where
  "told p h (ListCb n v k) = (view_shows h v k = Some p)"
| "told p h (CellCb n c u) =
     (\<forall>s. nullish (map_get (cell_symbol h) c) None = Some s \<and> upper_trim s = u \<longrightarrow> cell_shows h c = Some p)"

lemma call_symbols [simp]: "cell_symbol (call p h cb) = cell_symbol h"
  by (cases cb) (auto simp: updatePrice_def split: option.split)

lemma call_told: "told p (call p h cb) cb"
  by (cases cb) (auto simp: updatePrice_def view_shows_def cell_shows_def map_get_set split: option.split)

lemma call_keeps: "told p h cb \<Longrightarrow> told p (call p h cb') cb"
  by (cases cb; cases cb')
    (auto simp: updatePrice_def view_shows_def cell_shows_def map_get_set split: option.split)

lemma fold_told: "\<forall>cb \<in> set cbs. told p (foldl (call p) h cbs) cb"
proof -
  have keeps: "told p h cb \<Longrightarrow> told p (foldl (call p) h cbs) cb" for h cb cbs
    by (induction cbs arbitrary: h) (simp_all add: call_keeps)
  show ?thesis by (induction cbs arbitrary: h) (auto intro: keeps call_told)
qed

lemma fold_cell_other:
  "\<forall>n u. CellCb n c u \<notin> set cbs \<Longrightarrow> cell_shows (foldl (call p) h cbs) c = cell_shows h c"
proof (induction cbs arbitrary: h)
  case (Cons cb cbs)
  then have "cell_shows (call p h cb) c = cell_shows h c"
    by (cases cb) (auto simp: updatePrice_def cell_shows_def map_get_set split: option.split)
  then show ?case using Cons by simp
qed simp

section \<open>Properties\<close>

text \<open>A tick is stored under its key and reaches everyone registered for that key: each view's price
  map shows it, each cell that still displays the symbol it registered for shows it, and a cell
  with no callback under the key is left alone.\<close>

theorem notifySubscribers_delivers:
  assumes "callbacks_of (normalizeSymbolKey (upper_trim s)) h \<noteq> []"
  shows "map_get (priceStore (notifySubscribers s p h)) (normalizeSymbolKey (upper_trim s)) = Some p \<and>
    (\<forall>cb \<in> set (callbacks_of (normalizeSymbolKey (upper_trim s)) h). told p (notifySubscribers s p h) cb) \<and>
    (\<forall>c. (\<forall>n u. CellCb n c u \<notin> set (callbacks_of (normalizeSymbolKey (upper_trim s)) h)) \<longrightarrow>
       cell_shows (notifySubscribers s p h) c = cell_shows h c)"
proof -
  let ?k = "normalizeSymbolKey (upper_trim s)"
  let ?h1 = "h\<lparr>priceStore := map_set ?k p (priceStore h)\<rparr>"
  have "map_get (subscribers h) ?k = Some (callbacks_of ?k h)"
    using assms by (cases "map_get (subscribers h) ?k") (simp_all add: callbacks_of_def)
  then have n: "notifySubscribers s p h = foldl (call p) ?h1 (callbacks_of ?k h)"
    by (simp add: notifySubscribers_def Let_def)
  have "cell_shows ?h1 c = cell_shows h c" for c by (simp add: cell_shows_def)
  then show ?thesis unfolding n using fold_told fold_cell_other
    by (auto simp: map_get_set)
qed

text \<open>A view that registers a list of different symbols and is cleaned up leaves every callback set
  as it found it.\<close>

theorem register_cleanup_restores:
  assumes "hub_inv h" "distinct (clean_symbols symbols)" "register_view v symbols h = (h', wrapped)"
  shows "callbacks_of k (cleanup_view symbols wrapped h') = callbacks_of k h"
proof -
  let ?xs = "clean_symbols symbols"
  let ?cbs = "view_cbs (next_cb h) v ?xs"
  have ids: "ids_below (next_cb h) h" using assms(1) by (rule ids_below_inv)
  have r: "callbacks_of k h' = callbacks_of k h @ filter (\<lambda>cb. cb_key cb = k) ?cbs"
    "map (map_get wrapped) ?xs = map Some ?cbs"
    using register_fold [OF _ ids assms(2)] assms(3) by (simp_all add: register_view_def)
  have old: "cb \<notin> set ?cbs" if "cb \<in> set (callbacks_of k h)" for cb
    using that ids view_cbs_ids by (fastforce simp: ids_below_def)
  have "filter (\<lambda>cb. \<not> (\<exists>(x, c) \<in> set (zip ?xs ?cbs). normalizeSymbolKey x = k \<and> c = cb)) (callbacks_of k h) = callbacks_of k h"
    using old zip_view_cbs by (fastforce simp: filter_id_conv)
  moreover have "filter (\<lambda>cb. \<not> (\<exists>(x, c) \<in> set (zip ?xs ?cbs). normalizeSymbolKey x = k \<and> c = cb)) (filter (\<lambda>cb. cb_key cb = k) ?cbs) = []"
    using view_cbs_zip zip_view_cbs by (fastforce simp: filter_empty_conv)
  ultimately show ?thesis unfolding cleanup_view_def cleanup_fold [OF r(2)] r(1) by simp
qed

lemma perform_fold:
  "set (fst (foldl (\<lambda>(s, c) batch. (foldl (\<lambda>s x. set_add x s) s batch, ps_subscribe e b batch c)) (s, c) bs)) =
     set s \<union> set (concat bs) \<and>
   wanted (snd (foldl (\<lambda>(s, c) batch. (foldl (\<lambda>s x. set_add x s) s batch, ps_subscribe e b batch c)) (s, c) bs)) =
     wanted c \<union> \<Union> (set (map (\<lambda>b. set (normalizeWsSubscribeSymbols b)) bs))"
proof (induction bs arbitrary: s c)
  case (Cons batch bs)
  have "wanted (ps_subscribe e b batch c) = wanted c \<union> set (normalizeWsSubscribeSymbols batch)"
    by (simp add: ps_subscribe_def Let_def sendSubscribe_wanted)
  then show ?case using Cons.IH by auto
qed simp

lemma normalizeWs_set: "set (normalizeWsSubscribeSymbols ss) =
   {k. k \<noteq> [] \<and> (\<exists>s \<in> set ss. trim s \<noteq> [] \<and> k = normalizeSymbolKey s)}"
  by (auto simp: normalizeWs_eq)

lemma normalizeWs_concat:
  "\<Union> (set (map (\<lambda>b. set (normalizeWsSubscribeSymbols b)) bs)) = set (normalizeWsSubscribeSymbols (concat bs))"
  by (induction bs) (auto simp: normalizeWs_set)

text \<open>Performing a subscription makes the view's subscribed set the requested set, in batches of at
  most 50 symbols; the client then wants what it wanted, less the subscribed keys of the dropped
  symbols, and the keys of the new ones.\<close>

theorem performSubscription_result:
  assumes "syms \<noteq> []" "performSubscription e b syms (subscribed, c) = (subscribed', c')"
  shows "set subscribed' = set syms \<and>
    wanted c' = set (pendingSymbols c) \<union>
        (set (subscribedSymbols c) - normalizeSymbolKey ` (set subscribed - set syms)) \<union>
        {k. k \<noteq> [] \<and> (\<exists>s \<in> set syms - set subscribed. trim s \<noteq> [] \<and> k = normalizeSymbolKey s)} \<and>
    (\<forall>batch \<in> set (batches 50 (filter (\<lambda>s. s \<notin> set subscribed) syms)). length batch \<le> 50)"
proof -
  let ?new = "filter (\<lambda>s. s \<notin> set subscribed) syms"
  let ?old = "filter (\<lambda>s. s \<notin> set syms) subscribed"
  let ?c = "if ?old \<noteq> [] then ps_unsubscribe ?old c else c"
  let ?s = "foldl (\<lambda>s x. set_delete x s) subscribed ?old"
  let ?r = "foldl (\<lambda>(s, c) batch. (foldl (\<lambda>s x. set_add x s) s batch, ps_subscribe e b batch c)) (?s, ?c) (batches 50 ?new)"
  have r: "?r = (subscribed', c')" using assms by (simp add: performSubscription_def Let_def)
  have s: "set ?s = set subscribed - set ?old" using add_all_set(4) [of "\<lambda>x. x"] by simp
  have c: "wanted ?c = set (pendingSymbols c) \<union> (set (subscribedSymbols c) - normalizeSymbolKey ` set ?old)"
    by (auto simp: wanted_def ps_unsubscribe_def filter_empty_conv)
  have n: "\<Union> (set (map (\<lambda>b. set (normalizeWsSubscribeSymbols b)) (batches 50 ?new))) =
      set (normalizeWsSubscribeSymbols ?new)"
    using batches_concat [of 50 ?new] by (simp only: normalizeWs_concat)
  have o: "set ?old = set subscribed - set syms" "set ?new = set syms - set subscribed" by auto
  note f = perform_fold [of e b ?s ?c "batches 50 ?new", unfolded r batches_concat fst_conv snd_conv n s c]
  have "set subscribed' = set syms" using f o by auto
  moreover have "wanted c' = set (pendingSymbols c) \<union>
        (set (subscribedSymbols c) - normalizeSymbolKey ` (set subscribed - set syms)) \<union>
        {k. k \<noteq> [] \<and> (\<exists>s \<in> set syms - set subscribed. trim s \<noteq> [] \<and> k = normalizeSymbolKey s)}"
    using f by (simp only: o normalizeWs_set)
  moreover have "\<forall>batch \<in> set (batches 50 ?new). length batch \<le> 50" using batches_length [of 50 _ ?new] by simp
  ultimately show ?thesis by blast
qed

section \<open>Witnesses\<close>

definition sample_price :: PriceData where
  "sample_price = \<lparr>pd_bid = ''1'', pd_ask = ''2'', pd_ts = Num 0\<rparr>"

definition sample_hub :: hub where
  "sample_hub = fst (register_view 5 [''btc-usdt'', ''gold''] hub_init)"

lemma sample_hub_callbacks: "callbacks_of ''BTCUSD'' sample_hub = [ListCb 0 5 ''BTCUSD'']"
  "normalizeSymbolKey (upper_trim ''BTCUSDT'') = ''BTCUSD''"
  by code_simp+

lemma notifySubscribers_delivers_witness:
  "view_shows (notifySubscribers ''BTCUSDT'' sample_price sample_hub) 5 ''BTCUSD'' = Some sample_price"
  using notifySubscribers_delivers [of "''BTCUSDT''" sample_hub sample_price]
  by (simp add: sample_hub_callbacks)

lemma register_cleanup_restores_witness:
  "callbacks_of ''BTCUSD'' (cleanup_view [''btc-usdt'', ''gold''] (snd (register_view 5 [''btc-usdt'', ''gold''] hub_init)) sample_hub) = []"
proof -
  have "distinct (clean_symbols [''btc-usdt'', ''gold''])" by code_simp
  from register_cleanup_restores [OF hub_inv_init this, of 5 sample_hub "snd (register_view 5 [''btc-usdt'', ''gold''] hub_init)"]
  show ?thesis by (simp add: sample_hub_def) (simp add: callbacks_of_def hub_init_def map_get_def)
qed

text \<open>With a symbol listed twice the first callback stays behind.\<close>

lemma duplicate_symbol_leaks:
  "let (h, w) = register_view 5 [''gold'', ''GOLD''] hub_init in
   callbacks_of ''GOLD'' (cleanup_view [''gold'', ''GOLD''] w h) = [ListCb 0 5 ''GOLD'']"
  by code_simp

definition sample_client :: price_client where
  "sample_client = snd (performSubscription prod_env True [''BTC-USD'', ''BTCUSDT''] ([], ps_init prod_env))"

lemma performSubscription_result_witness:
  "set (fst (performSubscription prod_env True [''BTC-USD'', ''BTCUSDT''] ([], ps_init prod_env))) =
   {''BTC-USD'', ''BTCUSDT''}"
  using performSubscription_result [of "[''BTC-USD'', ''BTCUSDT'']" prod_env True "[]" "ps_init prod_env"
      "fst (performSubscription prod_env True [''BTC-USD'', ''BTCUSDT''] ([], ps_init prod_env))" sample_client]
  by (simp add: sample_client_def)

text \<open>
  Two spellings of one feed key: dropping one of them makes the client forget the key although the
  other spelling is still requested (the view counts spellings, the client keys).
\<close>

lemma shared_key_forgotten:
  "let c = (ps_init prod_env)\<lparr>subscribedSymbols := [''BTCUSD'']\<rparr>;
       (s, c') = performSubscription prod_env True [''BTC-USD''] ([''BTC-USD'', ''BTCUSDT''], c)
   in s = [''BTC-USD''] \<and> subscribedSymbols c' = [] \<and> pendingSymbols c' = []"
  by code_simp

end
