(* ===== verification/Auth_Store.thy ===== *)
theory Auth_Store
  imports Ws_Events Machine Js_Text
begin

text \<open>
  The session of the signed-in user: \<open>shared/store/auth.store.ts\<close>, the expiry claim of a token
  (\<open>shared/utils/jwt.ts\<close>) and permissions (\<open>shared/utils/permissions.ts\<close>).

  An \<open>async\<close> function is cut at its \<open>await\<close>s: the part before it is one event, what runs when the
  answer arrives another, and a counter in the state holds the answers still outstanding, so
  that other events can come in between. \<open>JSON.parse(atob(s))\<close> is the parameter \<open>decode\<close>. Calls to
  the socket clients are recorded in \<open>calls\<close>; times are in milliseconds.
\<close>

section \<open>Expiry of a token\<close>

type_synonym decoder = "string \<Rightarrow> json option"

definition split3 :: "string \<Rightarrow> (string \<times> string \<times> string) option" where
  "split3 s = (case split_char (CHR ''.'') s of [a, b, c] \<Rightarrow> Some (a, b, c) | _ \<Rightarrow> None)"

definition pad64 :: "string \<Rightarrow> string" where
  "pad64 s = (let b = replace_char (CHR ''_'') (CHR ''/'') (replace_char (CHR ''-'') (CHR ''+'') s);
     pad = length b mod 4 in if pad = 0 then b else b @ replicate (4 - pad) (CHR ''=''))"

definition getAccessTokenExp :: "decoder \<Rightarrow> string \<Rightarrow> jsnum option" where
  "getAccessTokenExp decode t =
     (case split3 (rawToken t) of
        None \<Rightarrow> None
      | Some (_, b, _) \<Rightarrow>
          (case decode (pad64 b) of
             Some (JObj fs) \<Rightarrow> (case map_of (rev fs) ''exp'' of Some (JNum x) \<Rightarrow> Some x | _ \<Rightarrow> None)
           | _ \<Rightarrow> None))"

definition EXPIRY_BUFFER_SEC :: jsnum where
  "EXPIRY_BUFFER_SEC = Num 60"

text \<open>The padded text has a length that base64 decoding accepts.\<close>

lemma pad64_length: "length (pad64 s) mod 4 = 0"
proof -
  let ?b = "replace_char (CHR ''_'') (CHR ''/'') (replace_char (CHR ''-'') (CHR ''+'') s)"
  have "(length ?b + (4 - length ?b mod 4)) mod 4 = 0" by presburger
  then show ?thesis by (simp add: pad64_def Let_def)
qed

section \<open>State\<close>

record User =
  u_id :: string
  u_email :: string
  u_firstName :: string
  u_lastName :: string
  u_name :: "string option"
  u_role :: string
  u_status :: string
  u_permissions :: "string list option"
  u_permissionProfileId :: "string option"
  u_permissionProfileName :: "string option"
  u_tradingAccess :: "string option"
  u_referralCode :: "string option"

text \<open>The user as the API client delivers it, after \<open>login\<close>, \<open>register\<close> and \<open>me\<close>.\<close>

record ApiUser =
  au_id :: string
  au_email :: string
  au_firstName :: string
  au_lastName :: string
  au_role :: string
  au_status :: string
  au_tradingAccess :: "string option"
  au_permissions :: "string list option"
  au_permissionProfileId :: "string option"
  au_permissionProfileName :: "string option"
  au_referralCode :: "string option"

definition to_user :: "ApiUser \<Rightarrow> User" where
  "to_user a = \<lparr>u_id = au_id a, u_email = au_email a, u_firstName = au_firstName a, u_lastName = au_lastName a,
     u_name = None, u_role = au_role a, u_status = au_status a, u_permissions = au_permissions a,
     u_permissionProfileId = au_permissionProfileId a, u_permissionProfileName = au_permissionProfileName a,
     u_tradingAccess = (case au_tradingAccess a of None \<Rightarrow> Some ''full'' | t \<Rightarrow> t),
     u_referralCode = au_referralCode a\<rparr>"

datatype client_call = WsConnect | WsReauthenticate | PriceSetToken string

record auth =
  accessToken :: "string option"
  refreshToken :: "string option"
  user :: "User option"
  isAuthenticated :: bool
  persistRehydrated :: bool
  isHydrated :: bool
  proactiveTimer :: "jsnum option"
  retryTimers :: nat
  logoutsPending :: nat
  hydratesPending :: nat
  meTasks :: nat
  refreshTasks :: "bool list"
  refreshMeTasks :: "bool list"
  calls :: "client_call list"

definition auth_init :: auth where
  "auth_init = \<lparr>accessToken = None, refreshToken = None, user = None, isAuthenticated = False,
     persistRehydrated = False, isHydrated = False, proactiveTimer = None, retryTimers = 0,
     logoutsPending = 0, hydratesPending = 0, meTasks = 0, refreshTasks = [], refreshMeTasks = [], calls = []\<rparr>"

section \<open>The proactive refresh\<close>

definition clearProactive :: "auth \<Rightarrow> auth" where
  "clearProactive s = s\<lparr>proactiveTimer := None\<rparr>"

text \<open>The current time in seconds, and the milliseconds until a token is refreshed.\<close>

definition now_sec :: "jsnum \<Rightarrow> jsnum" where
  "now_sec nowMs = jfloor (jdiv nowMs (Num 1000))"

definition proactive_delay :: "jsnum \<Rightarrow> jsnum \<Rightarrow> jsnum" where
  "proactive_delay e nowMs =
     (let triggerSec = jsub e EXPIRY_BUFFER_SEC;
          delayMs = jmul (jsub triggerSec (now_sec nowMs)) (Num 1000);
          delayMs = (if jlt delayMs (Num 5000) then Num 5000 else delayMs)
      in if jlt (Num 86400000) delayMs then Num 86400000 else delayMs)"

definition scheduleProactive :: "decoder \<Rightarrow> jsnum \<Rightarrow> auth \<Rightarrow> auth" where
  "scheduleProactive decode nowMs s =
     (let s = clearProactive s in
      if \<not> truthy (accessToken s) \<or> \<not> truthy (refreshToken s) then s
      else case getAccessTokenExp decode (the (accessToken s)) of
        None \<Rightarrow> s
      | Some e \<Rightarrow> s\<lparr>proactiveTimer := Some (proactive_delay e nowMs)\<rparr>)"

definition add_call :: "client_call \<Rightarrow> auth \<Rightarrow> auth" where
  "add_call c s = s\<lparr>calls := calls s @ [c]\<rparr>"

section \<open>Operations\<close>

text \<open>What follows the answer of \<open>login\<close> and of \<open>register\<close>.\<close>

definition signed_in :: "decoder \<Rightarrow> jsnum \<Rightarrow> string \<Rightarrow> string \<Rightarrow> ApiUser \<Rightarrow> auth \<Rightarrow> auth" where
  "signed_in decode now access refresh u s =
     add_call WsConnect (scheduleProactive decode now
       (s\<lparr>accessToken := Some access, refreshToken := Some refresh, user := Some (to_user u),
          isAuthenticated := True, isHydrated := True\<rparr>))"

definition clear_session :: "auth \<Rightarrow> auth" where
  "clear_session s = s\<lparr>accessToken := None, refreshToken := None, user := None, isAuthenticated := False\<rparr>"

text \<open>\<open>logout\<close> waits for the server only when there is a refresh token; the answer does not matter.\<close>

definition logout :: "auth \<Rightarrow> auth" where
  "logout s = (let s = clearProactive s in
     if truthy (refreshToken s) then s\<lparr>logoutsPending := logoutsPending s + 1\<rparr> else clear_session s)"

definition logout_done :: "auth \<Rightarrow> auth" where
  "logout_done s = clear_session (s\<lparr>logoutsPending := logoutsPending s - 1\<rparr>)"

text \<open>\<open>ws_up\<close>: whether the socket client is connected or authenticated.\<close>

definition setTokens :: "decoder \<Rightarrow> jsnum \<Rightarrow> bool \<Rightarrow> string \<Rightarrow> string \<Rightarrow> auth \<Rightarrow> auth" where
  "setTokens decode now ws_up access refresh s =
     (let s = scheduleProactive decode now (s\<lparr>accessToken := Some access, refreshToken := Some refresh\<rparr>)
      in if ws_up then add_call WsReauthenticate s else s)"

definition setImpersonationTokens :: "decoder \<Rightarrow> jsnum \<Rightarrow> string \<Rightarrow> string \<Rightarrow> auth \<Rightarrow> auth" where
  "setImpersonationTokens decode now access refresh s =
     scheduleProactive decode now (s\<lparr>accessToken := Some access, refreshToken := Some refresh, user := None\<rparr>)"

definition setUser :: "User \<Rightarrow> auth \<Rightarrow> auth" where
  "setUser u s = s\<lparr>user := Some u, isAuthenticated := True\<rparr>"

text \<open>The answer of \<open>GET /api/auth/me\<close>: the user, or an error with its HTTP status if it has one.\<close>

datatype me_result = MeOk ApiUser | MeFail "nat option"

definition hydrateFromStorage :: "auth \<Rightarrow> auth" where
  "hydrateFromStorage s =
     (if truthy (accessToken s) \<and> truthy (refreshToken s) then s\<lparr>hydratesPending := hydratesPending s + 1\<rparr>
      else s\<lparr>isHydrated := True\<rparr>)"

definition hydrate_done :: "decoder \<Rightarrow> jsnum \<Rightarrow> me_result \<Rightarrow> auth \<Rightarrow> auth" where
  "hydrate_done decode now r s =
     (let s = s\<lparr>hydratesPending := hydratesPending s - 1\<rparr> in
      case r of
        MeOk u \<Rightarrow> scheduleProactive decode now
          (add_call WsConnect (s\<lparr>user := Some (to_user u), isAuthenticated := True, isHydrated := True\<rparr>))
      | MeFail st \<Rightarrow>
          if st = Some 401 \<or> st = Some 403 \<or> st = Some 404 then (clear_session s)\<lparr>isHydrated := True\<rparr>
          else s\<lparr>isHydrated := True\<rparr>)"

text \<open>\<open>refreshUser\<close>; without an access token it throws.\<close>

definition refreshUser :: "auth \<Rightarrow> auth js" where
  "refreshUser s = (if truthy (accessToken s) then Inr (s\<lparr>meTasks := meTasks s + 1\<rparr>)
     else Inl (Err ''Not authenticated''))"

definition refreshUser_done :: "me_result \<Rightarrow> auth \<Rightarrow> auth" where
  "refreshUser_done r s =
     (let s = s\<lparr>meTasks := meTasks s - 1\<rparr> in
      case r of MeOk u \<Rightarrow> s\<lparr>user := Some (to_user u)\<rparr> | MeFail st \<Rightarrow> s)"

text \<open>
  \<open>refreshAccessToken\<close> in its three parts: the call, the new token (an error ends it), the user.
  \<open>by_timer\<close> marks a refresh the proactive timer started: if it fails anywhere, another schedule
  is due in two minutes.
\<close>

definition failed_refresh :: "bool \<Rightarrow> auth \<Rightarrow> auth" where
  "failed_refresh by_timer s = (if by_timer then s\<lparr>retryTimers := retryTimers s + 1\<rparr> else s)"

definition refreshAccessToken :: "bool \<Rightarrow> auth \<Rightarrow> auth" where
  "refreshAccessToken by_timer s =
     (if truthy (refreshToken s) then s\<lparr>refreshTasks := refreshTasks s @ [by_timer]\<rparr>
      else failed_refresh by_timer s)"

definition refresh_answer :: "bool \<Rightarrow> string option \<Rightarrow> auth \<Rightarrow> auth" where
  "refresh_answer by_timer t s =
     (let s = s\<lparr>refreshTasks := remove1 by_timer (refreshTasks s)\<rparr> in
      case t of
        None \<Rightarrow> failed_refresh by_timer s
      | Some a \<Rightarrow>
          (let s = s\<lparr>accessToken := Some a\<rparr> in
           if truthy (accessToken s) then s\<lparr>refreshMeTasks := refreshMeTasks s @ [by_timer]\<rparr>
           else failed_refresh by_timer s))"

definition refresh_me_done :: "decoder \<Rightarrow> jsnum \<Rightarrow> bool \<Rightarrow> me_result \<Rightarrow> auth \<Rightarrow> auth" where
  "refresh_me_done decode now by_timer r s =
     (let s = s\<lparr>refreshMeTasks := remove1 by_timer (refreshMeTasks s)\<rparr> in
      case r of
        MeFail st \<Rightarrow> failed_refresh by_timer s
      | MeOk u \<Rightarrow>
          (let s = s\<lparr>user := Some (to_user u)\<rparr>;
               s = (if truthy (accessToken s)
                    then add_call WsReauthenticate (add_call (PriceSetToken (the (accessToken s))) s) else s)
           in scheduleProactive decode now s))"

text \<open>
  \<open>ensureValidAccessToken\<close> before any waiting: the token when it is good, \<open>None\<close> when none can be
  had, or the need to refresh.
\<close>

datatype token_need = HaveToken string | NoToken | NeedRefresh

definition fresh_enough :: "jsnum option \<Rightarrow> jsnum \<Rightarrow> bool" where
  "fresh_enough e nowMs = (case e of
     Some x \<Rightarrow> jlt (jadd (now_sec nowMs) EXPIRY_BUFFER_SEC) x | None \<Rightarrow> False)"

definition ensureValidAccessToken :: "decoder \<Rightarrow> jsnum \<Rightarrow> auth \<Rightarrow> token_need" where
  "ensureValidAccessToken decode nowMs s =
     (if \<not> truthy (accessToken s) then NoToken
      else let token = the (accessToken s); e = getAccessTokenExp decode token in
        if \<not> truthy (refreshToken s) then
          (if e = None then HaveToken token else if fresh_enough e nowMs then HaveToken token else NoToken)
        else if fresh_enough e nowMs then HaveToken token
        else NeedRefresh)"

definition timer_fires :: "auth \<Rightarrow> auth" where
  "timer_fires s = refreshAccessToken True (s\<lparr>proactiveTimer := None\<rparr>)"

section \<open>The machine\<close>

datatype auth_event =
    SignedIn string string ApiUser
  | Logout | LogoutDone
  | SetTokens bool string string
  | SetImpersonation string string
  | SetUser User
  | Hydrate | HydrateDone me_result
  | RefreshUser | RefreshUserDone me_result
  | Refresh | RefreshAnswer bool "string option" | RefreshMeDone bool me_result
  | ProactiveFires | RetryFires
  | Rehydrated

fun auth_enabled :: "jsnum \<times> auth_event \<Rightarrow> auth \<Rightarrow> bool" where
  "auth_enabled (now, LogoutDone) s = (0 < logoutsPending s)"
| "auth_enabled (now, HydrateDone r) s = (0 < hydratesPending s)"
| "auth_enabled (now, RefreshUserDone r) s = (0 < meTasks s)"
| "auth_enabled (now, RefreshAnswer b t) s = (b \<in> set (refreshTasks s))"
| "auth_enabled (now, RefreshMeDone b r) s = (b \<in> set (refreshMeTasks s))"
| "auth_enabled (now, ProactiveFires) s = (proactiveTimer s \<noteq> None)"
| "auth_enabled (now, RetryFires) s = (0 < retryTimers s)"
| "auth_enabled (now, _) s = True"

definition or_same :: "auth js \<Rightarrow> auth \<Rightarrow> auth" where
  "or_same r s = (case r of Inr s' \<Rightarrow> s' | Inl _ \<Rightarrow> s)"

fun auth_do :: "decoder \<Rightarrow> jsnum \<times> auth_event \<Rightarrow> auth \<Rightarrow> auth" where
  "auth_do d (now, SignedIn a r u) s = signed_in d now a r u s"
| "auth_do d (now, Logout) s = logout s"
| "auth_do d (now, LogoutDone) s = logout_done s"
| "auth_do d (now, SetTokens w a r) s = setTokens d now w a r s"
| "auth_do d (now, SetImpersonation a r) s = setImpersonationTokens d now a r s"
| "auth_do d (now, SetUser u) s = setUser u s"
| "auth_do d (now, Hydrate) s = hydrateFromStorage s"
| "auth_do d (now, HydrateDone r) s = hydrate_done d now r s"
| "auth_do d (now, RefreshUser) s = or_same (refreshUser s) s"
| "auth_do d (now, RefreshUserDone r) s = refreshUser_done r s"
| "auth_do d (now, Refresh) s = refreshAccessToken False s"
| "auth_do d (now, RefreshAnswer b t) s = refresh_answer b t s"
| "auth_do d (now, RefreshMeDone b r) s = refresh_me_done d now b r s"
| "auth_do d (now, ProactiveFires) s = timer_fires s"
| "auth_do d (now, RetryFires) s = scheduleProactive d now (s\<lparr>retryTimers := retryTimers s - 1\<rparr>)"
| "auth_do d (now, Rehydrated) s = scheduleProactive d now (s\<lparr>persistRehydrated := True\<rparr>)"

section \<open>Permissions\<close>

definition ALL_PERMISSION_KEYS :: "string list" where
  "ALL_PERMISSION_KEYS = [
     ''trading:view'', ''trading:place_orders'', ''trading:create_order'',
     ''trading:cancel_order'', ''trading:close_position'', ''trading:liquidate'',
     ''deposits:approve'', ''deposits:reject'', ''finance:view'', ''finance:manual_adjustment'',
     ''support:view'', ''support:reply'', ''support:new_chat'', ''call:view'',
     ''appointments:view'', ''appointments:create'', ''appointments:edit'',
     ''appointments:delete'', ''appointments:reschedule'', ''appointments:cancel'',
     ''appointments:complete'', ''appointments:send_reminder'', ''users:view'', ''users:edit'',
     ''users:create'', ''users:bulk_create'', ''groups:view'', ''groups:create'', ''groups:edit'',
     ''groups:delete'', ''groups:symbol_settings'', ''groups:price_profile'', ''groups:tags'',
     ''managers:view'', ''managers:create'', ''managers:edit'', ''managers:delete'',
     ''symbols:view'', ''symbols:create'', ''symbols:edit'', ''symbols:delete'', ''markup:view'',
     ''markup:create'', ''markup:edit'', ''markup:delete'', ''swap:view'', ''swap:create'',
     ''swap:edit'', ''swap:delete'', ''fees:view'', ''fees:edit'', ''sessions:view'',
     ''sessions:edit'', ''leverage_profiles:view'', ''leverage_profiles:create'',
     ''leverage_profiles:edit'', ''leverage_profiles:delete'', ''risk:view'', ''risk:edit'',
     ''reports:view'', ''dashboard:view'', ''bonus:view'', ''bonus:edit'', ''affiliate:view'',
     ''affiliate:create'', ''affiliate:edit'', ''affiliate:delete'', ''permissions:view'',
     ''permissions:edit'', ''system:view'', ''settings:view'', ''settings:edit'', ''leads:view'',
     ''leads:create'', ''leads:edit'', ''leads:convert'', ''leads:assign'', ''leads:delete'',
     ''leads:export'', ''kyc:view'', ''kyc:approve'']"

definition ROLE_PERMISSIONS :: "(string, string list) jsmap" where
  "ROLE_PERMISSIONS = [(''admin'', []), (''manager'', []), (''agent'', [])]"

definition getPermissionsForRole :: "string \<Rightarrow> string list" where
  "getPermissionsForRole role = (case map_get ROLE_PERMISSIONS (toLowerCase role) of Some p \<Rightarrow> p | None \<Rightarrow> [])"

definition getCurrentUserPermissions :: "User option \<Rightarrow> string list" where
  "getCurrentUserPermissions u = (case u of
     None \<Rightarrow> []
   | Some v \<Rightarrow> (case u_permissions v of Some p \<Rightarrow> p | None \<Rightarrow> getPermissionsForRole (u_role v)))"

definition canAccess :: "string \<Rightarrow> User option \<Rightarrow> bool" where
  "canAccess key u = (case u of
     None \<Rightarrow> False
   | Some v \<Rightarrow> toLowerCase (u_role v) = ''super_admin'' \<or> key \<in> set (getCurrentUserPermissions u))"

definition ADMIN_PAGE_PERMISSIONS :: "(string, string list) jsmap" where
  "ADMIN_PAGE_PERMISSIONS = [
     (''/admin/users'', [''users:view'', ''users:create'', ''users:edit'', ''users:edit_group'', ''users:edit_account_type'', ''users:edit_margin'', ''users:edit_trading_access'']),
     (''/admin/bulk-operations'', [''users:bulk_create'']),
     (''/admin/tag'', [''tags:view'', ''tags:create'', ''tags:edit'', ''tags:delete'']),
     (''/admin/groups'', [''groups:view'', ''groups:create'', ''groups:edit'', ''groups:delete'', ''groups:symbol_settings'', ''groups:price_profile'', ''groups:tags'']),
     (''/admin/manager'', [''managers:view'', ''managers:create'', ''managers:edit'', ''managers:delete'']),
     (''/admin/trading'', [''trading:view'', ''trading:create_order'', ''trading:cancel_order'', ''trading:close_position'', ''trading:liquidate'']),
     (''/admin/leverage-profiles'', [''leverage_profiles:view'', ''leverage_profiles:create'', ''leverage_profiles:edit'', ''leverage_profiles:delete'']),
     (''/admin/symbols'', [''symbols:view'', ''symbols:create'', ''symbols:edit'', ''symbols:delete'']),
     (''/admin/markup'', [''markup:view'', ''markup:create'', ''markup:edit'', ''markup:delete'']),
     (''/admin/swap'', [''swap:view'', ''swap:create'', ''swap:edit'', ''swap:delete'']),
     (''/admin/fees'', [''fees:view'', ''fees:edit'']),
     (''/admin/sessions'', [''sessions:view'', ''sessions:edit'']),
     (''/admin/transactions'', [''finance:view'', ''deposits:approve'', ''deposits:reject'', ''finance:manual_adjustment'']),
     (''/admin/finance'', [''finance:view'', ''deposits:approve'', ''deposits:reject'', ''finance:manual_adjustment'']),
     (''/admin/deposits'', [''finance:view'', ''deposits:approve'', ''deposits:reject'', ''finance:manual_adjustment'']),
     (''/admin/affiliate'', [''affiliate:view'', ''affiliate:create'', ''affiliate:edit'', ''affiliate:delete'']),
     (''/admin/support'', [''support:view'', ''support:reply'', ''support:new_chat'']),
     (''/admin/call-user'', [''call:view'']),
     (''/admin/appointments'', [''appointments:view'', ''appointments:create'', ''appointments:edit'', ''appointments:delete'', ''appointments:reschedule'', ''appointments:cancel'', ''appointments:complete'', ''appointments:send_reminder'']),
     (''/admin/permissions'', [''permissions:view'', ''permissions:edit'']),
     (''/admin/settings'', [''settings:view'', ''settings:edit'']),
     (''/admin/leads'', [''leads:view'', ''leads:create'', ''leads:edit'', ''leads:convert'', ''leads:assign'', ''leads:delete'', ''leads:export'']),
     (''/admin/kyc'', [''kyc:view'', ''kyc:approve''])]"

definition ADMIN_ROUTE_PERMISSIONS :: "(string, string) jsmap" where
  "ADMIN_ROUTE_PERMISSIONS = [
     (''/admin/dashboard'', ''dashboard:view''),
     (''/admin/users'', ''users:view''),
     (''/admin/bulk-operations'', ''users:bulk_create''),
     (''/admin/groups'', ''groups:view''),
     (''/admin/manager'', ''managers:view''),
     (''/admin/tag'', ''tags:view''),
     (''/admin/trading'', ''trading:view''),
     (''/admin/risk'', ''risk:view''),
     (''/admin/leverage-profiles'', ''leverage_profiles:view''),
     (''/admin/symbols'', ''symbols:view''),
     (''/admin/markup'', ''markup:view''),
     (''/admin/swap'', ''swap:view''),
     (''/admin/fees'', ''fees:view''),
     (''/admin/sessions'', ''sessions:view''),
     (''/admin/transactions'', ''finance:view''),
     (''/admin/finance'', ''finance:view''),
     (''/admin/deposits'', ''finance:view''),
     (''/admin/bonus'', ''bonus:view''),
     (''/admin/affiliate'', ''affiliate:view''),
     (''/admin/permissions'', ''permissions:view''),
     (''/admin/support'', ''support:view''),
     (''/admin/call-user'', ''call:view''),
     (''/admin/appointments'', ''appointments:view''),
     (''/admin/system'', ''system:view''),
     (''/admin/settings'', ''settings:view''),
     (''/admin/reports'', ''reports:view''),
     (''/admin/leads'', ''leads:view''),
     (''/admin/kyc'', ''kyc:view'')]"


section \<open>The session stays closed\<close>

lemmas auth_op_defs = signed_in_def logout_def logout_done_def setTokens_def setImpersonationTokens_def
  setUser_def hydrateFromStorage_def hydrate_done_def refreshUser_def refreshUser_done_def
  refreshAccessToken_def refresh_answer_def refresh_me_done_def timer_fires_def failed_refresh_def
  or_same_def clear_session_def add_call_def clearProactive_def

lemma scheduleProactive_fields [simp]:
  "accessToken (scheduleProactive d now s) = accessToken s" "refreshToken (scheduleProactive d now s) = refreshToken s"
  "user (scheduleProactive d now s) = user s" "isAuthenticated (scheduleProactive d now s) = isAuthenticated s"
  "isHydrated (scheduleProactive d now s) = isHydrated s" "hydratesPending (scheduleProactive d now s) = hydratesPending s"
  "meTasks (scheduleProactive d now s) = meTasks s" "refreshTasks (scheduleProactive d now s) = refreshTasks s"
  "refreshMeTasks (scheduleProactive d now s) = refreshMeTasks s" "calls (scheduleProactive d now s) = calls s"
  "logoutsPending (scheduleProactive d now s) = logoutsPending s" "retryTimers (scheduleProactive d now s) = retryTimers s"
  by (simp_all add: scheduleProactive_def clearProactive_def Let_def split: option.split)

text \<open>Nobody is signed in and no answer that could change this is outstanding.\<close>

definition signed_out :: "auth \<Rightarrow> bool" where
  "signed_out s \<longleftrightarrow> accessToken s = None \<and> refreshToken s = None \<and> user s = None \<and> \<not> isAuthenticated s \<and>
     hydratesPending s = 0 \<and> meTasks s = 0 \<and> refreshTasks s = [] \<and> refreshMeTasks s = []"

fun gives_session :: "auth_event \<Rightarrow> bool" where
  "gives_session (SignedIn a r u) = True"
| "gives_session (SetTokens w a r) = True"
| "gives_session (SetImpersonation a r) = True"
| "gives_session (SetUser u) = True"
| "gives_session _ = False"

lemma signed_out_step:
  "signed_out s \<Longrightarrow> auth_enabled (now, e) s \<Longrightarrow> \<not> gives_session e \<Longrightarrow> signed_out (auth_do d (now, e) s)"
  by (cases e) (auto simp: signed_out_def auth_op_defs Let_def)

interpretation aso: stable_system "\<lambda>e s. auth_enabled e s \<and> \<not> gives_session (snd e)" "auth_do d" signed_out for d
  by unfold_locales (auto intro: signed_out_step)

section \<open>The proactive timer\<close>

text \<open>The delay of a pending refresh is between five seconds and a day.\<close>

definition timer_ok :: "auth \<Rightarrow> bool" where
  "timer_ok s \<longleftrightarrow> (\<forall>t. proactiveTimer s = Some t \<longrightarrow> jle (Num 5000) t \<and> jle t (Num 86400000))"

lemma proactive_delay_bounds:
  assumes e: "e \<noteq> NaN" and now: "now_sec now = Num n"
  shows "jle (Num 5000) (proactive_delay e now) \<and> jle (proactive_delay e now) (Num 86400000)"
proof -
  let ?x = "jmul (jsub (jsub e (Num 60)) (Num n)) (Num 1000)"
  have "?x \<noteq> NaN" using e by simp
  then show ?thesis
    by (cases ?x) (auto simp: proactive_delay_def now EXPIRY_BUFFER_SEC_def Let_def)
qed

definition plain_decoder :: "decoder \<Rightarrow> bool" where
  "plain_decoder d \<longleftrightarrow> (\<forall>t e. getAccessTokenExp d t = Some e \<longrightarrow> e \<noteq> NaN)"

lemma schedule_timer_ok: "plain_decoder d \<Longrightarrow> now_sec now = Num n \<Longrightarrow> timer_ok (scheduleProactive d now s)"
  by (auto simp: timer_ok_def scheduleProactive_def clearProactive_def Let_def plain_decoder_def
      dest: proactive_delay_bounds split: option.split)

lemma timer_add_call [simp]: "timer_ok (add_call c s) = timer_ok s"
  by (simp add: timer_ok_def add_call_def)

lemma timer_failed_refresh [simp]: "timer_ok (failed_refresh b s) = timer_ok s"
  by (simp add: timer_ok_def failed_refresh_def)

lemma timer_step:
  assumes "timer_ok s" "plain_decoder d" "now_sec now = Num n"
  shows "timer_ok (auth_do d (now, e) s)"
proof -
  note sched = schedule_timer_ok [OF assms(2,3)]
  have refresh: "timer_ok t \<Longrightarrow> timer_ok (refreshAccessToken b t)" for b t
    by (simp add: refreshAccessToken_def timer_ok_def failed_refresh_def)
  show ?thesis
  proof (cases e)
    case Logout
    then show ?thesis by (simp add: logout_def clearProactive_def clear_session_def timer_ok_def Let_def)
  next
    case (HydrateDone r)
    then show ?thesis
    proof (cases r)
      case (MeFail st)
      then show ?thesis using HydrateDone assms(1) by (simp add: hydrate_done_def clear_session_def timer_ok_def Let_def)
    qed (simp add: HydrateDone hydrate_done_def sched Let_def)
  next
    case RefreshUser
    then show ?thesis using assms(1) by (auto simp: or_same_def refreshUser_def timer_ok_def)
  next
    case (RefreshUserDone r)
    then show ?thesis using assms(1) by (cases r) (auto simp: refreshUser_done_def timer_ok_def Let_def)
  next
    case (RefreshAnswer b t)
    then show ?thesis using assms(1)
      by (cases t) (auto simp: refresh_answer_def timer_ok_def failed_refresh_def Let_def)
  next
    case (RefreshMeDone b r)
    then show ?thesis using assms(1) sched
      by (cases r) (auto simp: refresh_me_done_def timer_ok_def failed_refresh_def Let_def)
  next
    case ProactiveFires
    have "timer_ok (s\<lparr>proactiveTimer := None\<rparr>)" by (simp add: timer_ok_def)
    then show ?thesis using ProactiveFires by (simp add: timer_fires_def refresh)
  next
    case Refresh
    then show ?thesis using assms(1) refresh by simp
  next
    case (SignedIn a r u)
    then show ?thesis by (simp add: signed_in_def sched)
  next
    case (SetTokens w a r)
    then show ?thesis by (simp add: setTokens_def sched Let_def)
  qed (use assms(1) sched in \<open>simp_all add: setImpersonationTokens_def setUser_def hydrateFromStorage_def logout_done_def clear_session_def Let_def timer_ok_def\<close>)
qed

text \<open>The environment gives a readable clock.\<close>

definition clock_ok :: "jsnum \<Rightarrow> bool" where
  "clock_ok now = (case now_sec now of Num n \<Rightarrow> True | _ \<Rightarrow> False)"

interpretation atm: stable_system
  "\<lambda>e s. auth_enabled e s \<and> clock_ok (fst e) \<and> plain_decoder d" "auth_do d" timer_ok for d
  by unfold_locales (auto simp: clock_ok_def intro: timer_step split: jsnum.splits)


section \<open>Theorems\<close>

text \<open>C24. Once the session is closed and no answer is outstanding, it stays closed: no run of timers, late
  clicks on refresh and storage events gives a token, a user or an authenticated flag until
  somebody signs in or sets tokens or a user.\<close>

theorem auth_signed_out_stable:
  assumes "signed_out s"
    and "run (\<lambda>e s. auth_enabled e s \<and> \<not> gives_session (snd e)) (auth_do d) es s = Some t"
  shows "accessToken t = None \<and> refreshToken t = None \<and> user t = None \<and> \<not> isAuthenticated t \<and>
    refreshTasks t = []"
  using aso.run_stable [OF assms] by (simp add: signed_out_def)

text \<open>Along every run with a clock, the refresh timer that is pending fires between five seconds and one
  day after it was set, whatever expiry the tokens claim.\<close>

theorem auth_timer_bounds:
  assumes "plain_decoder d"
    and "run (\<lambda>e s. auth_enabled e s \<and> clock_ok (fst e) \<and> plain_decoder d) (auth_do d) es auth_init = Some t"
    and "proactiveTimer t = Some x"
  shows "jle (Num 5000) x \<and> jle x (Num 86400000)"
proof -
  have "timer_ok auth_init" by (simp add: timer_ok_def auth_init_def)
  from atm.run_stable [OF this assms(2)] assms(3) show ?thesis by (simp add: timer_ok_def)
qed

text \<open>\<open>ensureValidAccessToken\<close> hands out a token without asking the server only if it is the current one
  and either expires more than a minute from now, or carries no expiry and cannot be refreshed; it
  asks for a refresh only when a refresh token is there.\<close>

theorem ensureValidAccessToken_sound:
  "case ensureValidAccessToken d now s of
     HaveToken t \<Rightarrow> accessToken s = Some t \<and> t \<noteq> [] \<and>
       (case getAccessTokenExp d t of
          Some e \<Rightarrow> jlt (jadd (now_sec now) (Num 60)) e
        | None \<Rightarrow> \<not> truthy (refreshToken s))
   | NeedRefresh \<Rightarrow> truthy (accessToken s) \<and> truthy (refreshToken s)
   | NoToken \<Rightarrow> truthy (accessToken s) \<longrightarrow> \<not> truthy (refreshToken s)"
  by (auto simp: ensureValidAccessToken_def fresh_enough_def truthy_def EXPIRY_BUFFER_SEC_def Let_def
      split: option.splits if_splits)

text \<open>A failed profile request at start-up ends the session only for the statuses 401, 403 and 404; after
  any other failure the tokens, the user and the flag are what they were. Either way the guards may
  go on.\<close>

theorem hydrate_failure:
  "let t = hydrate_done d now (MeFail st) s in
     isHydrated t \<and>
     (if st \<in> {Some 401, Some 403, Some 404}
      then accessToken t = None \<and> refreshToken t = None \<and> user t = None \<and> \<not> isAuthenticated t
      else accessToken t = accessToken s \<and> refreshToken t = refreshToken s \<and> user t = user s \<and>
        isAuthenticated t = isAuthenticated s)"
  by (simp add: hydrate_done_def clear_session_def Let_def)

text \<open>Access: nobody without a user has any; a super admin has all; anyone else has exactly the keys the
  server sent, and none when it sent no list.\<close>

theorem canAccess_iff:
  "canAccess key u \<longleftrightarrow>
     (\<exists>v. u = Some v \<and> (toLowerCase (u_role v) = ''super_admin'' \<or>
        (\<exists>ps. u_permissions v = Some ps \<and> key \<in> set ps)))"
proof -
  have none: "getPermissionsForRole r = []" for r
    by (simp add: getPermissionsForRole_def ROLE_PERMISSIONS_def map_get_def)
  show ?thesis by (auto simp: canAccess_def getCurrentUserPermissions_def none split: option.splits)
qed

text \<open>The route guard's key is the first of the page's keys, for every page in both tables.\<close>

lemma route_is_first:
  "list_all (\<lambda>(page, ks). case map_get ADMIN_ROUTE_PERMISSIONS page of Some r \<Rightarrow> hd ks = r | None \<Rightarrow> False)
     ADMIN_PAGE_PERMISSIONS"
  by code_simp

text \<open>Keys that pages ask for and the list of all permission keys does not have.\<close>

lemma missing_permission_keys:
  "list_all (\<lambda>k. k \<notin> set ALL_PERMISSION_KEYS) [''users:edit_group'', ''users:edit_account_type'', ''users:edit_margin'',
     ''users:edit_trading_access'', ''tags:view'', ''tags:create'', ''tags:edit'', ''tags:delete'']"
  by (simp add: ALL_PERMISSION_KEYS_def)

section \<open>Concrete runs\<close>

definition sample_user :: ApiUser where
  "sample_user = \<lparr>au_id = ''u1'', au_email = ''a@b.c'', au_firstName = ''A'', au_lastName = ''B'', au_role = ''user'',
     au_status = ''active'', au_tradingAccess = None, au_permissions = None, au_permissionProfileId = None,
     au_permissionProfileName = None, au_referralCode = None\<rparr>"

text \<open>A token \<open>h.p.s\<close> whose payload gives an expiry.\<close>

definition sample_decoder :: decoder where
  "sample_decoder b = (if b = ''p==='' then Some (JObj [(''exp'', JNum (Num 900))]) else None)"

lemma sample_decoder_plain: "plain_decoder sample_decoder"
  by (auto simp: plain_decoder_def getAccessTokenExp_def sample_decoder_def split: option.splits if_splits)

definition out_state :: auth where
  "out_state = auth_init\<lparr>retryTimers := 1, isHydrated := True\<rparr>"

lemma auth_signed_out_stable_witness:
  "accessToken (scheduleProactive sample_decoder (Num 0) (out_state\<lparr>retryTimers := 0\<rparr>)) = None"
  using auth_signed_out_stable [of out_state sample_decoder "[(Num 0, RetryFires)]"]
  by (simp add: out_state_def auth_init_def signed_out_def)

definition timer_run :: "(jsnum \<times> auth_event) list" where
  "timer_run = [(Num 0, SignedIn ''h.p.s'' ''r'' sample_user)]"

definition timer_end :: auth where
  "timer_end = signed_in sample_decoder (Num 0) ''h.p.s'' ''r'' sample_user auth_init"

lemma timer_exp: "getAccessTokenExp sample_decoder ''h.p.s'' = Some (Num 900)"
  by code_simp

lemma now_zero: "now_sec (Num 0) = Num 0"
  by (simp add: now_sec_def to_num_def)

lemma timer_end_delay: "proactiveTimer timer_end = Some (Num 840000)"
  by (simp add: timer_end_def signed_in_def add_call_def scheduleProactive_def timer_exp proactive_delay_def now_zero
      EXPIRY_BUFFER_SEC_def jsub_def clearProactive_def Let_def num_simps)

lemma auth_timer_bounds_witness: "jle (Num 5000) (Num 840000) \<and> jle (Num 840000) (Num 86400000)"
  using auth_timer_bounds [of sample_decoder timer_run timer_end "Num 840000", OF sample_decoder_plain _ timer_end_delay]
  by (simp add: timer_run_def timer_end_def clock_ok_def now_zero sample_decoder_plain)

text \<open>
  A refresh that is answered after the sign-out brings the session back: the access token and the
  user are set again while the flag says nobody is signed in.
\<close>

definition race_run :: "(jsnum \<times> auth_event) list" where
  "race_run = [(Num 0, SignedIn ''t1'' ''r1'' sample_user), (Num 0, Refresh), (Num 0, Logout), (Num 0, LogoutDone),
     (Num 0, RefreshAnswer False (Some ''t2'')), (Num 0, RefreshMeDone False (MeOk sample_user))]"

lemma refresh_after_logout:
  "case run auth_enabled (auth_do sample_decoder) race_run auth_init of
     Some t \<Rightarrow> accessToken t = Some ''t2'' \<and> user t = Some (to_user sample_user) \<and> \<not> isAuthenticated t \<and>
       calls t = [WsConnect, PriceSetToken ''t2'', WsReauthenticate]
   | None \<Rightarrow> False"
  by code_simp

end
