(* ===== verification/Js_Json.thy ===== *)
theory Js_Json
  imports Js_Text
begin

text \<open>
  Reading values of unknown type: properties of parsed JSON, and the conversions \<open>String(v)\<close>,
  \<open>Number(v)\<close> and truthiness. A property that is missing is \<open>None\<close> (\<open>undefined\<close>); \<open>null\<close> is \<open>JNull\<close>.
\<close>

section \<open>Properties\<close>

text \<open>\<open>j.k\<close> of a value that is not null; values without that property give undefined.\<close>

definition json_field :: "json \<Rightarrow> string \<Rightarrow> json option" where
  "json_field j k = (case j of JObj fs \<Rightarrow> map_of (rev fs) k | _ \<Rightarrow> None)"

definition json_str :: "json \<Rightarrow> string \<Rightarrow> string option" where
  "json_str j k = (case json_field j k of Some (JStr s) \<Rightarrow> Some s | _ \<Rightarrow> None)"

text \<open>Is the value an object for \<open>typeof\<close>, null aside?\<close>

fun is_object :: "json \<Rightarrow> bool" where
  "is_object (JObj fs) = True"
| "is_object (JArr xs) = True"
| "is_object _ = False"

text \<open>\<open>j.k1 ?? j.k2 ?? ...\<close>: the first property that is neither missing nor null.\<close>

definition present :: "json option \<Rightarrow> bool" where
  "present v = (v \<noteq> None \<and> v \<noteq> Some JNull)"

fun first_field :: "json \<Rightarrow> string list \<Rightarrow> json option" where
  "first_field j [] = None"
| "first_field j (k # ks) = (if present (json_field j k) then json_field j k else first_field j ks)"

section \<open>Conversions\<close>

text \<open>\<open>String(v)\<close>, and the text of a value in a template literal.\<close>

fun show_json :: "json \<Rightarrow> string" where
  "show_json JNull = ''null''"
| "show_json (JBool b) = (if b then ''true'' else ''false'')"
| "show_json (JNum x) = toString x"
| "show_json (JStr s) = s"
| "show_json (JArr xs) = join_with '','' (map (\<lambda>x. case x of JNull \<Rightarrow> [] | _ \<Rightarrow> show_json x) xs)"
| "show_json (JObj fs) = ''[object Object]''"

fun json_number :: "json \<Rightarrow> jsnum" where
  "json_number JNull = Num 0"
| "json_number (JBool b) = (if b then Num 1 else Num 0)"
| "json_number (JNum x) = x"
| "json_number (JStr s) = toNumber s"
| "json_number (JArr xs) = toNumber (show_json (JArr xs))"
| "json_number (JObj fs) = NaN"

fun json_truthy :: "json \<Rightarrow> bool" where
  "json_truthy JNull = False"
| "json_truthy (JBool b) = b"
| "json_truthy (JNum x) = num_truthy x"
| "json_truthy (JStr s) = (s \<noteq> [])"
| "json_truthy _ = True"

text \<open>\<open>v || d\<close> for a value that is used as a text.\<close>

definition text_or :: "json option \<Rightarrow> string \<Rightarrow> string" where
  "text_or v d = (case v of Some j \<Rightarrow> if json_truthy j then show_json j else d | None \<Rightarrow> d)"

text \<open>\<open>===\<close> on values that were parsed separately, which never holds between objects.\<close>

fun strict_eq :: "json \<Rightarrow> json \<Rightarrow> bool" where
  "strict_eq JNull JNull = True"
| "strict_eq (JBool a) (JBool b) = (a = b)"
| "strict_eq (JNum a) (JNum b) = jeq a b"
| "strict_eq (JStr a) (JStr b) = (a = b)"
| "strict_eq _ _ = False"

lemma strict_eq_show: "strict_eq a b \<Longrightarrow> show_json a = show_json b"
  by (cases "(a, b)" rule: strict_eq.cases) (auto simp: jeq_def)

lemma strict_eq_sym: "strict_eq a b = strict_eq b a"
  by (cases "(a, b)" rule: strict_eq.cases) (auto simp: jeq_def)

lemma json_field_simps [simp]: "json_field (JObj fs) k = map_of (rev fs) k" "json_field (JStr s) k = None"
  "json_field JNull k = None" "json_field (JNum x) k = None" "json_field (JBool b) k = None" "json_field (JArr xs) k = None"
  by (simp_all add: json_field_def)

lemma present_simps [simp]: "\<not> present None" "present (Some j) = (j \<noteq> JNull)"
  by (simp_all add: present_def)

lemma first_field_present: "first_field j ks = Some v \<Longrightarrow> v \<noteq> JNull"
  by (induction ks) (auto simp: present_def split: if_splits)

end
