(* ===== verification/Http_Client.thy ===== *)
theory Http_Client
  imports Auth_Store Js_Json
begin

text \<open>
  The HTTP client: \<open>shared/api/http.ts\<close>. The first part is what one response or one failure becomes:
  headers, error objects, messages. The second is the machine of concurrent requests, which share
  one token refresh: a request answered with 401 waits for the refresh that is in flight or starts
  one, and is sent once more with the new token. The machine runs on the auth store's state, calls
  its operations, and lets the store's own events come in between.

  The environment is a record: \<open>JSON.parse\<close>, the base URL, whether this is a development build, and
  the engine's text for its own exceptions. The settlement of the shared refresh reaches all waiting
  requests in one step.
\<close>

section \<open>Errors\<close>

text \<open>What is thrown: an \<open>Error\<close> with its name, message and, from \<open>http\<close>, the response; or something else.\<close>

datatype thrown = Thrown string string "(json \<times> nat) option" | ThrownOther json

record http_env =
  parse_json :: "string \<Rightarrow> json option"
  base_url :: string
  dev_build :: bool
  engine_text :: "js_error \<Rightarrow> string"

definition plain_error :: "string \<Rightarrow> thrown" where
  "plain_error m = Thrown ''Error'' m None"

definition engine_error :: "http_env \<Rightarrow> js_error \<Rightarrow> thrown" where
  "engine_error E e = Thrown (case e of SyntaxError \<Rightarrow> ''SyntaxError'' | TypeError \<Rightarrow> ''TypeError''
     | RangeError \<Rightarrow> ''RangeError'' | Err m \<Rightarrow> ''Error'') (engine_text E e) None"

definition right_arrow :: string where
  "right_arrow = [CHR 0xE2, CHR 0x86, CHR 0x92]"

definition reports_disabled_text :: string where
  "reports_disabled_text = ''AI reports are disabled. Enable them in Settings '' @ right_arrow @ '' AI '' @ right_arrow @
     '' Enable AI reports.''"

definition own_message :: "thrown \<Rightarrow> string" where
  "own_message e = (case e of Thrown n m r \<Rightarrow> m | ThrownOther j \<Rightarrow> ''Request failed'')"

definition response_data :: "thrown \<Rightarrow> json option" where
  "response_data e = (case e of Thrown n m (Some (d, st)) \<Rightarrow> Some d | _ \<Rightarrow> None)"

definition getApiErrorMessage :: "thrown \<Rightarrow> string" where
  "getApiErrorMessage e =
     (case response_data e of
        None \<Rightarrow> own_message e
      | Some d \<Rightarrow>
          if \<not> is_object d then own_message e
          else let inner = json_field d ''error'';
               top = (case json_str d ''message'' of Some m \<Rightarrow> m | None \<Rightarrow> own_message e)
           in case inner of
                Some (JStr s) \<Rightarrow> if s = ''reports_disabled'' then reports_disabled_text else s
              | Some i \<Rightarrow> (case json_str i ''message'' of Some m \<Rightarrow> m | None \<Rightarrow> top)
              | None \<Rightarrow> top)"

section \<open>Requests and responses\<close>

definition API_BASE_URL :: "string option \<Rightarrow> string" where
  "API_BASE_URL v = (case v of Some u \<Rightarrow> u | None \<Rightarrow> [])"

definition getApiBaseUrl :: "http_env \<Rightarrow> string \<Rightarrow> string" where
  "getApiBaseUrl E origin = (if base_url E \<noteq> [] then base_url E else origin)"

definition REQUEST_TIMEOUT_MS :: nat where
  "REQUEST_TIMEOUT_MS = 30000"

definition fetch_timeout :: "nat option \<Rightarrow> nat" where
  "fetch_timeout t = (case t of Some ms \<Rightarrow> ms | None \<Rightarrow> REQUEST_TIMEOUT_MS)"

definition SKIP_REFRESH_ON_401 :: "string list" where
  "SKIP_REFRESH_ON_401 = [''/api/auth/login'', ''/api/auth/register'', ''/api/auth/logout'']"

definition isAuthEndpoint :: "string \<Rightarrow> bool" where
  "isAuthEndpoint ep = list_ex (\<lambda>path. startsWith ep path \<or> endsWith ep path) SKIP_REFRESH_ON_401"

record http_options =
  o_headers :: "(string, string) jsmap"
  o_formData :: bool
  o_timeoutMs :: "nat option"

definition bearer :: "string \<Rightarrow> string" where
  "bearer t = ''Bearer '' @ t"

definition request_headers :: "http_options \<Rightarrow> string option \<Rightarrow> string \<Rightarrow> (string, string) jsmap" where
  "request_headers opts token ep =
     (let h = o_headers opts;
          h = (if o_formData opts then h else map_set ''Content-Type'' ''application/json'' h)
      in if truthy token \<and> \<not> isAuthEndpoint ep then map_set ''Authorization'' (bearer (the token)) h else h)"

definition net_error :: "http_env \<Rightarrow> thrown \<Rightarrow> thrown" where
  "net_error E e = plain_error
     (case e of
        Thrown n m r \<Rightarrow>
          if n = ''AbortError'' then
            (if dev_build E then ''Request timed out. Is the auth server running on port 3000?''
             else ''Request timed out. The server may still be sending email'' @ em_dash @
               ''wait a moment and check your inbox, or try again.'')
          else m
      | ThrownOther j \<Rightarrow> ''Network error'')"

record response =
  status :: nat
  statusText :: string
  body :: string

definition resp_ok :: "response \<Rightarrow> bool" where
  "resp_ok r = (200 \<le> status r \<and> status r \<le> 299)"

definition fallback_error :: "response \<Rightarrow> json" where
  "fallback_error r =
     (let code = (if status r = 401 then ''UNAUTHORIZED'' else if status r = 400 then ''BAD_REQUEST''
                  else if status r = 404 then ''NOT_FOUND'' else ''UNKNOWN_ERROR'');
          message = (if status r = 500
            then ''Server error. If this persists, ensure auth-service is running and DATABASE_URL is set (check server logs).''
            else ''HTTP '' @ toString (Num (of_nat (status r))) @ '': '' @ statusText r)
      in JObj [(''error'', JObj [(''code'', JStr code), (''message'', JStr message)])])"

definition error_body :: "http_env \<Rightarrow> response \<Rightarrow> json" where
  "error_body E r = (if body r \<noteq> [] then (case parse_json E (body r) of Some j \<Rightarrow> j | None \<Rightarrow> fallback_error r)
     else fallback_error r)"

definition error_text :: "json \<Rightarrow> string" where
  "error_text j = (case json_field j ''error'' of
     Some (JStr s) \<Rightarrow> s
   | Some i \<Rightarrow> (case json_str i ''message'' of Some m \<Rightarrow> m | None \<Rightarrow> ''Request failed'')
   | None \<Rightarrow> ''Request failed'')"

text \<open>The end of \<open>http\<close>, from \<open>Handle errors\<close> on; a body that parses to null has no \<open>error\<close> to read.\<close>

definition finish :: "http_env \<Rightarrow> response \<Rightarrow> thrown + json" where
  "finish E r =
     (if \<not> resp_ok r then
        (let j = error_body E r in
         if j = JNull then Inl (engine_error E TypeError)
         else Inl (Thrown ''Error'' (error_text j) (Some (j, status r))))
      else if status r = 204 then Inr JNull
      else if trim (body r) = [] then Inr JNull
      else case parse_json E (body r) of Some v \<Rightarrow> Inr v | None \<Rightarrow> Inl (engine_error E SyntaxError))"

section \<open>The machine of requests\<close>

datatype phase = Asking | AwaitRefresh | Retrying | Settled "thrown + json"

record request =
  rq_endpoint :: string
  rq_token :: "string option"
  rq_headers :: "(string, string) jsmap"
  rq_phase :: phase
  rq_sent :: nat

text \<open>The state: the auth store, the refresh token \<open>refreshPromise\<close> was started with, the requests.\<close>

record http_state =
  store :: auth
  refreshing :: "string option"
  requests :: "request list"
  refreshes_sent :: nat
  refreshes_settled :: nat
  forced_logouts :: nat

definition http_init :: http_state where
  "http_init = \<lparr>store = auth_init, refreshing = None, requests = [], refreshes_sent = 0, refreshes_settled = 0,
     forced_logouts = 0\<rparr>"

definition set_req :: "nat \<Rightarrow> request \<Rightarrow> http_state \<Rightarrow> http_state" where
  "set_req i q s = s\<lparr>requests := (requests s)[i := q]\<rparr>"

definition settle :: "nat \<Rightarrow> thrown + json \<Rightarrow> http_state \<Rightarrow> http_state" where
  "settle i r s = set_req i ((requests s ! i)\<lparr>rq_phase := Settled r\<rparr>) s"

text \<open>\<open>http\<close> up to its first \<open>await\<close>.\<close>

definition http :: "string \<Rightarrow> http_options \<Rightarrow> http_state \<Rightarrow> http_state" where
  "http ep opts s = s\<lparr>requests := requests s @
     [\<lparr>rq_endpoint = ep, rq_token = accessToken (store s), rq_headers = request_headers opts (accessToken (store s)) ep,
       rq_phase = Asking, rq_sent = 1\<rparr>]\<rparr>"

text \<open>\<open>useAuthStore.getState().logout()\<close> of a request whose refresh or retry failed.\<close>

definition force_logout :: "http_state \<Rightarrow> http_state" where
  "force_logout s = s\<lparr>store := logout (store s), forced_logouts := forced_logouts s + 1\<rparr>"

text \<open>\<open>refreshAccessToken\<close>, called by request \<open>i\<close>, which waits for the answer.\<close>

definition join_refresh :: "nat \<Rightarrow> http_state \<Rightarrow> http_state" where
  "join_refresh i s =
     (let wait = set_req i ((requests s ! i)\<lparr>rq_phase := AwaitRefresh\<rparr>) in
      if refreshing s \<noteq> None then wait s
      else if \<not> truthy (refreshToken (store s))
        then force_logout (settle i (Inl (plain_error ''No refresh token available'')) s)
      else wait (s\<lparr>refreshing := refreshToken (store s), refreshes_sent := refreshes_sent s + 1\<rparr>))"

definition http_answer :: "http_env \<Rightarrow> nat \<Rightarrow> response \<Rightarrow> http_state \<Rightarrow> http_state" where
  "http_answer E i r s =
     (let q = requests s ! i in
      if rq_phase q = Asking \<and> status r = 401 \<and> truthy (rq_token q) \<and> \<not> isAuthEndpoint (rq_endpoint q)
      then join_refresh i s
      else settle i (finish E r) s)"

definition http_fails :: "http_env \<Rightarrow> nat \<Rightarrow> thrown \<Rightarrow> http_state \<Rightarrow> http_state" where
  "http_fails E i e s =
     (if rq_phase (requests s ! i) = Retrying then force_logout (settle i (Inl (net_error E e)) s)
      else settle i (Inl (net_error E e)) s)"

text \<open>
  The reply to the refresh: a token; a response that is not \<open>ok\<close>, whose body is read for a message;
  or a failed fetch.
\<close>

datatype refresh_reply = ReplyToken string | ReplyError response | ReplyNet thrown

definition refresh_error :: "http_env \<Rightarrow> refresh_reply \<Rightarrow> thrown" where
  "refresh_error E r = (case r of
     ReplyToken a \<Rightarrow> plain_error []
   | ReplyNet e \<Rightarrow> e
   | ReplyError p \<Rightarrow>
       (case parse_json E (body p) of
          None \<Rightarrow> engine_error E SyntaxError
        | Some JNull \<Rightarrow> engine_error E TypeError
        | Some j \<Rightarrow> (case json_field j ''error'' of
            None \<Rightarrow> engine_error E TypeError
          | Some JNull \<Rightarrow> engine_error E TypeError
          | Some i \<Rightarrow> (case json_str i ''message'' of
              Some m \<Rightarrow> plain_error (if m = [] then ''Failed to refresh token'' else m)
            | None \<Rightarrow> plain_error ''Failed to refresh token''))))"

definition waiting :: "request \<Rightarrow> bool" where
  "waiting q = (rq_phase q = AwaitRefresh)"

definition retry_with :: "string \<Rightarrow> request \<Rightarrow> request" where
  "retry_with a q = (if waiting q
     then q\<lparr>rq_phase := Retrying, rq_headers := map_set ''Authorization'' (bearer a) (rq_headers q), rq_sent := rq_sent q + 1\<rparr>
     else q)"

definition fail_with :: "thrown \<Rightarrow> request \<Rightarrow> request" where
  "fail_with e q = (if waiting q then q\<lparr>rq_phase := Settled (Inl e)\<rparr> else q)"

definition refresh_settles :: "http_env \<Rightarrow> decoder \<Rightarrow> jsnum \<Rightarrow> bool \<Rightarrow> refresh_reply \<Rightarrow> http_state \<Rightarrow> http_state" where
  "refresh_settles E d now ws_up r s =
     (let rt = the (refreshing s); n = length (filter waiting (requests s));
          s = s\<lparr>refreshing := None, refreshes_settled := refreshes_settled s + 1\<rparr>
      in case r of
        ReplyToken a \<Rightarrow>
          (let st = setTokens d now ws_up a rt (store s); st = or_same (refreshUser st) st
           in s\<lparr>store := st, requests := map (retry_with a) (requests s)\<rparr>)
      | _ \<Rightarrow> (force_logout ^^ n) (s\<lparr>requests := map (fail_with (refresh_error E r)) (requests s)\<rparr>))"

datatype http_event =
    StartRequest string http_options
  | Answer nat response
  | FetchFails nat thrown
  | RefreshSettles bool refresh_reply
  | StoreEvent auth_event

definition in_flight :: "http_state \<Rightarrow> nat \<Rightarrow> bool" where
  "in_flight s i = (i < length (requests s) \<and> rq_phase (requests s ! i) \<in> {Asking, Retrying})"

fun http_enabled :: "jsnum \<times> http_event \<Rightarrow> http_state \<Rightarrow> bool" where
  "http_enabled (now, StartRequest ep opts) s = True"
| "http_enabled (now, Answer i r) s = in_flight s i"
| "http_enabled (now, FetchFails i e) s = in_flight s i"
| "http_enabled (now, RefreshSettles w r) s = (refreshing s \<noteq> None)"
| "http_enabled (now, StoreEvent e) s = auth_enabled (now, e) (store s)"

fun http_do :: "http_env \<times> decoder \<Rightarrow> jsnum \<times> http_event \<Rightarrow> http_state \<Rightarrow> http_state" where
  "http_do (E, d) (now, StartRequest ep opts) s = http ep opts s"
| "http_do (E, d) (now, Answer i r) s = http_answer E i r s"
| "http_do (E, d) (now, FetchFails i e) s = http_fails E i e s"
| "http_do (E, d) (now, RefreshSettles w r) s = refresh_settles E d now w r s"
| "http_do (E, d) (now, StoreEvent e) s = s\<lparr>store := auth_do d (now, e) (store s)\<rparr>"


section \<open>Lemmas\<close>

lemma force_logout_fields [simp]:
  "requests (force_logout s) = requests s" "refreshing (force_logout s) = refreshing s"
  "refreshes_sent (force_logout s) = refreshes_sent s" "refreshes_settled (force_logout s) = refreshes_settled s"
  "forced_logouts (force_logout s) = Suc (forced_logouts s)"
  by (simp_all add: force_logout_def)

lemma force_logouts_fields [simp]:
  "requests ((force_logout ^^ n) s) = requests s" "refreshing ((force_logout ^^ n) s) = refreshing s"
  "refreshes_sent ((force_logout ^^ n) s) = refreshes_sent s" "refreshes_settled ((force_logout ^^ n) s) = refreshes_settled s"
  "forced_logouts ((force_logout ^^ n) s) = forced_logouts s + n"
  by (induction n) simp_all

lemma settle_fields [simp]:
  "refreshing (settle i r s) = refreshing s" "refreshes_sent (settle i r s) = refreshes_sent s"
  "refreshes_settled (settle i r s) = refreshes_settled s" "forced_logouts (settle i r s) = forced_logouts s"
  "store (settle i r s) = store s" "requests (settle i r s) = (requests s)[i := (requests s ! i)\<lparr>rq_phase := Settled r\<rparr>]"
  by (simp_all add: settle_def set_req_def)

lemma set_req_fields [simp]:
  "refreshing (set_req i q s) = refreshing s" "refreshes_sent (set_req i q s) = refreshes_sent s"
  "refreshes_settled (set_req i q s) = refreshes_settled s" "forced_logouts (set_req i q s) = forced_logouts s"
  "requests (set_req i q s) = (requests s)[i := q]"
  by (simp_all add: set_req_def)

text \<open>Which request a step touches, and how: a new one, one moved to another phase, or all that wait.\<close>

definition req_ok :: "bool \<Rightarrow> request \<Rightarrow> bool" where
  "req_ok pending q \<longleftrightarrow>
     (case rq_phase q of
        Asking \<Rightarrow> rq_sent q = 1
      | AwaitRefresh \<Rightarrow> rq_sent q = 1 \<and> pending \<and> \<not> isAuthEndpoint (rq_endpoint q) \<and> truthy (rq_token q)
      | Retrying \<Rightarrow> rq_sent q = 2 \<and> \<not> isAuthEndpoint (rq_endpoint q)
      | Settled r \<Rightarrow> rq_sent q = 1 \<or> rq_sent q = 2 \<and> \<not> isAuthEndpoint (rq_endpoint q))"

lemma req_ok_sent: "req_ok b q \<Longrightarrow> (rq_sent q = 1 \<or> rq_sent q = 2 \<and> \<not> isAuthEndpoint (rq_endpoint q)) \<and> (waiting q \<longrightarrow> b)"
  by (cases "rq_phase q") (auto simp: req_ok_def waiting_def)

definition http_inv :: "http_state \<Rightarrow> bool" where
  "http_inv s \<longleftrightarrow> (\<forall>q \<in> set (requests s). req_ok (refreshing s \<noteq> None) q) \<and>
     refreshes_sent s = refreshes_settled s + (if refreshing s = None then 0 else 1)"

lemma req_ok_mono: "req_ok b q \<Longrightarrow> (b \<Longrightarrow> b') \<Longrightarrow> req_ok b' q"
  by (auto simp: req_ok_def split: phase.splits)

lemma req_ok_settle: "req_ok b q \<Longrightarrow> req_ok b (q\<lparr>rq_phase := Settled r\<rparr>)"
  by (auto simp: req_ok_def split: phase.splits)

lemma req_ok_retry: "req_ok b q \<Longrightarrow> req_ok False (retry_with a q)"
  by (auto simp: req_ok_def retry_with_def waiting_def split: phase.splits)

lemma req_ok_fail: "req_ok b q \<Longrightarrow> req_ok False (fail_with e q)"
  by (auto simp: req_ok_def fail_with_def waiting_def split: phase.splits)

lemma all_update: "\<forall>q \<in> set xs. P q \<Longrightarrow> P x \<Longrightarrow> \<forall>q \<in> set (xs[i := x]). P q"
  using set_update_subset_insert [of xs i x] by auto

lemma http_inv_nth: "http_inv s \<Longrightarrow> i < length (requests s) \<Longrightarrow> req_ok (refreshing s \<noteq> None) (requests s ! i)"
  unfolding http_inv_def using nth_mem by blast

lemma http_inv_settle:
  assumes "http_inv s" "i < length (requests s)"
  shows "http_inv (settle i r s)"
proof -
  have "\<forall>q \<in> set (requests s). req_ok (refreshing s \<noteq> None) q" using assms(1) unfolding http_inv_def by blast
  from all_update [OF this req_ok_settle [OF http_inv_nth [OF assms]]] show ?thesis
    using assms(1) unfolding http_inv_def settle_fields by blast
qed

lemma http_inv_logout: "http_inv (force_logout s) = http_inv s"
  by (simp add: http_inv_def)

lemma http_inv_join:
  assumes "http_inv s" "i < length (requests s)" "rq_phase (requests s ! i) = Asking"
    "truthy (rq_token (requests s ! i))" "\<not> isAuthEndpoint (rq_endpoint (requests s ! i))"
  shows "http_inv (join_refresh i s)"
proof -
  have q: "req_ok b ((requests s ! i)\<lparr>rq_phase := AwaitRefresh\<rparr>) = b" for b
    using http_inv_nth [OF assms(1,2)] assms(3-5) by (simp add: req_ok_def)
  have all: "\<forall>q \<in> set (requests s). req_ok True q"
    using assms(1) by (auto simp: http_inv_def intro: req_ok_mono)
  show ?thesis
  proof (cases "refreshing s = None \<and> \<not> truthy (refreshToken (store s))")
    case True
    then show ?thesis using http_inv_settle [OF assms(1,2)] by (simp add: join_refresh_def http_inv_logout)
  next
    case False
    have "truthy t \<Longrightarrow> t \<noteq> None" for t by (auto simp: truthy_def split: option.splits)
    then show ?thesis using False assms(1) all_update [OF all, of "(requests s ! i)\<lparr>rq_phase := AwaitRefresh\<rparr>" i] q
      by (auto simp: join_refresh_def http_inv_def Let_def)
  qed
qed

lemma http_inv_refresh: "http_inv s \<Longrightarrow> refreshing s \<noteq> None \<Longrightarrow> http_inv (refresh_settles E d now w r s)"
  by (cases r) (auto simp: refresh_settles_def http_inv_def Let_def intro: req_ok_retry req_ok_fail)

lemma http_inv_step: "http_inv s \<Longrightarrow> http_enabled (now, e) s \<Longrightarrow> http_inv (http_do (E, d) (now, e) s)"
proof (cases e)
  case (StartRequest ep opts)
  moreover assume "http_inv s"
  ultimately show ?thesis by (simp add: http_def http_inv_def req_ok_def)
next
  case (StoreEvent a)
  moreover assume "http_inv s"
  ultimately show ?thesis by (simp add: http_inv_def)
qed (simp_all add: in_flight_def http_answer_def http_fails_def Let_def http_inv_settle http_inv_join
      http_inv_logout http_inv_refresh)

interpretation hti: invariant_system http_enabled "http_do Ed" http_inv "\<lambda>s. s = http_init" for Ed
proof unfold_locales
  show "http_inv s \<Longrightarrow> http_enabled e s \<Longrightarrow> http_inv (http_do Ed e s)" for s e
    by (cases Ed; cases e) (simp add: http_inv_step)
qed (simp add: http_inv_def http_init_def)

text \<open>How many answers from the network the requests still take.\<close>

fun answers_left :: "phase \<Rightarrow> nat" where
  "answers_left Asking = 2"
| "answers_left AwaitRefresh = 1"
| "answers_left Retrying = 1"
| "answers_left (Settled r) = 0"

definition potential :: "http_state \<Rightarrow> nat" where
  "potential s = sum_list (map (\<lambda>q. answers_left (rq_phase q)) (requests s))"






lemma potential_simps [simp]: "potential (force_logout s) = potential s"
  "potential (s\<lparr>refreshing := x, refreshes_sent := n\<rparr>) = potential s" "potential (s\<lparr>store := st\<rparr>) = potential s"
  by (simp_all add: potential_def)






section \<open>Theorems\<close>

text \<open>C21. In every reachable state: a request has been sent once or twice, to an authentication endpoint only
  once; whoever waits for a refresh waits for one that is in flight; and at most one refresh is in
  flight.\<close>

theorem http_requests_invariant:
  assumes "reach (\<lambda>s. s = http_init) http_enabled (http_do Ed) s"
  shows "(\<forall>q \<in> set (requests s). (rq_sent q = 1 \<or> rq_sent q = 2 \<and> \<not> isAuthEndpoint (rq_endpoint q)) \<and>
      (waiting q \<longrightarrow> refreshing s \<noteq> None)) \<and> refreshes_sent s \<le> Suc (refreshes_settled s)"
proof -
  have inv: "http_inv s" by (rule hti.reach_inv [OF assms])
  then have "\<forall>q \<in> set (requests s). (rq_sent q = 1 \<or> rq_sent q = 2 \<and> \<not> isAuthEndpoint (rq_endpoint q)) \<and>
      (waiting q \<longrightarrow> refreshing s \<noteq> None)"
    unfolding http_inv_def using req_ok_sent by blast
  with inv show ?thesis by (simp add: http_inv_def)
qed


text \<open>The client ends the session only in three cases: a 401 that starts a refresh without a refresh token;
  a network failure of the repeated request; and a failed refresh, once per request that waits for it.
  No other status and no first network failure does.\<close>

theorem http_logout_cases:
  "forced_logouts (http_do (E, d) (now, e) s) = forced_logouts s +
     (case e of
        Answer i r \<Rightarrow> (let q = requests s ! i in
          if rq_phase q = Asking \<and> status r = 401 \<and> truthy (rq_token q) \<and> \<not> isAuthEndpoint (rq_endpoint q) \<and>
             refreshing s = None \<and> \<not> truthy (refreshToken (store s)) then 1 else 0)
      | FetchFails i x \<Rightarrow> if rq_phase (requests s ! i) = Retrying then 1 else 0
      | RefreshSettles w (ReplyToken a) \<Rightarrow> 0
      | RefreshSettles w r \<Rightarrow> length (filter waiting (requests s))
      | _ \<Rightarrow> 0)"
  by (auto simp: http_def http_answer_def http_fails_def join_refresh_def refresh_settles_def Let_def
      split: http_event.split refresh_reply.split)


text \<open>The text a user sees for a failed request: the server's message, wherever the body has it, the
  composed text when the body cannot be read, and \<open>Request failed\<close> otherwise; the error carries the
  body and the status.\<close>

theorem http_error_message:
  assumes "\<not> resp_ok r" "error_body E r = j" "j \<noteq> JNull"
  shows "\<exists>m. finish E r = Inl (Thrown ''Error'' m (Some (j, status r))) \<and>
    getApiErrorMessage (Thrown ''Error'' m (Some (j, status r))) =
      (case json_field j ''error'' of
         Some (JStr t) \<Rightarrow> if t = ''reports_disabled'' then reports_disabled_text else t
       | Some i \<Rightarrow> (case json_str i ''message'' of Some t \<Rightarrow> t
           | None \<Rightarrow> (case json_str j ''message'' of Some t \<Rightarrow> t | None \<Rightarrow> ''Request failed''))
       | None \<Rightarrow> (case json_str j ''message'' of Some t \<Rightarrow> t | None \<Rightarrow> ''Request failed''))"
proof -
  have obj: "is_object j \<or> json_field j k = None" for k by (cases j) (simp_all add: json_field_def)
  have str: "json_str j k = None" if "json_field j k = None" for k using that by (simp add: json_str_def)
  show ?thesis using assms obj [of "''error''"] obj [of "''message''"] str
    by (auto simp: finish_def getApiErrorMessage_def response_data_def own_message_def error_text_def Let_def
        split: option.splits json.splits)
qed

section \<open>Concrete runs\<close>

definition sample_env :: http_env where
  "sample_env = \<lparr>parse_json = (\<lambda>b. if b = ''{E}'' then Some (JObj [(''error'', JObj [(''code'', JStr ''X''), (''message'', JStr ''no'')])])
     else None), base_url = [], dev_build = False, engine_text = (\<lambda>e. [])\<rparr>"

definition no_options :: http_options where
  "no_options = \<lparr>o_headers = [], o_formData = False, o_timeoutMs = None\<rparr>"

definition resp :: "nat \<Rightarrow> response" where
  "resp n = \<lparr>status = n, statusText = ''?'', body = ''{E}''\<rparr>"

definition two_requests :: "(jsnum \<times> http_event) list" where
  "two_requests = [(Num 0, StoreEvent (SignedIn ''t1'' ''r1'' sample_user)),
     (Num 0, StartRequest ''/api/a'' no_options), (Num 0, StartRequest ''/api/b'' no_options),
     (Num 0, Answer 0 (resp 401)), (Num 0, Answer 1 (resp 401)),
     (Num 0, RefreshSettles False (ReplyToken ''t2'')), (Num 0, Answer 0 (resp 404)), (Num 0, FetchFails 1 (plain_error ''off''))]"

definition two_end :: http_state where
  "two_end = the (run http_enabled (http_do (sample_env, sample_decoder)) two_requests http_init)"

text \<open>Two requests share one refresh; the failing retry of the second ends the session.\<close>

lemma two_requests_eval:
  "run http_enabled (http_do (sample_env, sample_decoder)) two_requests http_init \<noteq> None \<and>
   map rq_sent (requests two_end) = [2, 2] \<and> refreshes_sent two_end = 1 \<and> forced_logouts two_end = 1 \<and>
   proactiveTimer (store two_end) = None"
  by code_simp

lemma two_end_run: "run http_enabled (http_do (sample_env, sample_decoder)) two_requests http_init = Some two_end"
  using two_requests_eval by (auto simp: two_end_def)

lemma http_requests_invariant_witness: "refreshes_sent two_end \<le> Suc (refreshes_settled two_end)"
  using http_requests_invariant [OF run_start [OF refl two_end_run]] by blast


lemma http_error_message_witness:
  "finish sample_env (resp 404) = Inl (Thrown ''Error'' ''no'' (Some (error_body sample_env (resp 404), 404)))"
  using http_error_message [of "resp 404" sample_env "error_body sample_env (resp 404)"]
  by (simp add: resp_def resp_ok_def error_body_def sample_env_def finish_def error_text_def json_field_def json_str_def)

text \<open>
  The session comes back when a refresh is answered after a sign-out: \<open>setTokens\<close> is called with the
  tokens of the closed session.
\<close>

definition late_answer :: "(jsnum \<times> http_event) list" where
  "late_answer = [(Num 0, StoreEvent (SignedIn ''t1'' ''r1'' sample_user)), (Num 0, StartRequest ''/api/a'' no_options),
     (Num 0, Answer 0 (resp 401)), (Num 0, StoreEvent Logout), (Num 0, StoreEvent LogoutDone),
     (Num 0, RefreshSettles False (ReplyToken ''t2''))]"

lemma late_refresh_resurrects:
  "case run http_enabled (http_do (sample_env, sample_decoder)) late_answer http_init of
     Some t \<Rightarrow> accessToken (store t) = Some ''t2'' \<and> refreshToken (store t) = Some ''r1'' \<and> \<not> isAuthenticated (store t)
   | None \<Rightarrow> False"
  by code_simp

end
