(* ===== verification/Js_Sort.thy ===== *)
theory Js_Sort
  imports Js_Prelude "HOL-Library.Multiset"
begin

text \<open>
  \<open>Array.prototype.sort\<close>. It is stable, and for a consistent comparator the result is determined:
  the sorted list in which equal elements keep their order. Here it is insertion sort. A
  comparator gives a number; positive means \<^emph>\<open>after\<close>, and NaN counts as zero.
\<close>

type_synonym 'a js_comparator = "'a \<Rightarrow> 'a \<Rightarrow> jsnum"

definition not_after :: "'a js_comparator \<Rightarrow> 'a \<Rightarrow> 'a \<Rightarrow> bool" where
  "not_after c x y = (\<not> jlt (Num 0) (c x y))"

fun sort_insert :: "'a js_comparator \<Rightarrow> 'a \<Rightarrow> 'a list \<Rightarrow> 'a list" where
  "sort_insert c x [] = [x]"
| "sort_insert c x (y # ys) = (if not_after c x y then x # y # ys else y # sort_insert c x ys)"

definition js_sort :: "'a js_comparator \<Rightarrow> 'a list \<Rightarrow> 'a list" where
  "js_sort c xs = foldr (sort_insert c) xs []"

lemma js_sort_simps [simp]: "js_sort c [] = []" "js_sort c (x # xs) = sort_insert c x (js_sort c xs)"
  by (simp_all add: js_sort_def)

lemma mset_sort_insert [simp]: "mset (sort_insert c x ys) = add_mset x (mset ys)"
  by (induction ys) simp_all

lemma mset_js_sort [simp]: "mset (js_sort c xs) = mset xs"
  by (induction xs) simp_all

lemma set_sort_insert [simp]: "set (sort_insert c x ys) = insert x (set ys)"
  by (metis mset_sort_insert set_mset_add_mset_insert set_mset_mset)

lemma set_js_sort [simp]: "set (js_sort c xs) = set xs"
  by (metis mset_js_sort set_mset_mset)

lemma length_js_sort [simp]: "length (js_sort c xs) = length xs"
  by (metis mset_js_sort size_mset)

text \<open>Compares equal.\<close>

definition ties :: "'a js_comparator \<Rightarrow> 'a \<Rightarrow> 'a \<Rightarrow> bool" where
  "ties c x y \<longleftrightarrow> not_after c x y \<and> not_after c y x"

text \<open>A comparator that orders a set of values: total and transitive there.\<close>

locale ordering_comparator =
  fixes c :: "'a js_comparator" and A :: "'a set"
  assumes total: "x \<in> A \<Longrightarrow> y \<in> A \<Longrightarrow> not_after c x y \<or> not_after c y x"
    and transitive: "x \<in> A \<Longrightarrow> y \<in> A \<Longrightarrow> z \<in> A \<Longrightarrow> not_after c x y \<Longrightarrow> not_after c y z \<Longrightarrow> not_after c x z"
begin

lemma sorted_sort_insert:
  "x \<in> A \<Longrightarrow> set ys \<subseteq> A \<Longrightarrow> sorted_wrt (not_after c) ys \<Longrightarrow> sorted_wrt (not_after c) (sort_insert c x ys)"
proof (induction ys)
  case (Cons y ys)
  then have rest: "sorted_wrt (not_after c) (sort_insert c x ys)" "\<forall>z \<in> set ys. not_after c y z" by auto
  have "\<forall>z \<in> set ys. not_after c x z" if "not_after c x y"
    using Cons.prems that transitive [of x y] by auto
  then show ?case using Cons.prems rest total [of x y] by auto
qed simp

lemma sorted_js_sort: "set xs \<subseteq> A \<Longrightarrow> sorted_wrt (not_after c) (js_sort c xs)"
  by (induction xs) (simp_all add: sorted_sort_insert)

text \<open>Elements that compare equal keep their order.\<close>

lemma stable_insert:
  "z \<in> A \<Longrightarrow> x \<in> A \<Longrightarrow> set ys \<subseteq> A \<Longrightarrow>
     filter (ties c z) (sort_insert c x ys) = (if ties c z x then x # filter (ties c z) ys else filter (ties c z) ys)"
proof (induction ys)
  case (Cons y ys)
  then have IH: "filter (ties c z) (sort_insert c x ys) = (if ties c z x then x # filter (ties c z) ys else filter (ties c z) ys)"
    by simp
  have "\<not> (ties c z x \<and> ties c z y)" if "\<not> not_after c x y"
    using that Cons.prems transitive [of x z y] unfolding ties_def by auto
  with IH show ?case by auto
qed simp

lemma stable_js_sort: "z \<in> A \<Longrightarrow> set xs \<subseteq> A \<Longrightarrow> filter (ties c z) (js_sort c xs) = filter (ties c z) xs"
  by (induction xs) (simp_all add: stable_insert)

end

section \<open>Numeric keys\<close>

text \<open>The sign of a difference of doubles is exact, thanks to the subnormal numbers.\<close>

lemma double_grid: assumes "fl x = x" obtains k where "x = of_int k * 2 powi (-1074)"
proof -
  from fl_form [of x] obtain k m where km: "x = of_int k * 2 powi m" "-1074 \<le> m"
    using assms by metis
  have "(2::rat) powi m = 2 powi ((m + 1074) + (-1074))" by simp
  also have "\<dots> = 2 powi (m + 1074) * 2 powi (-1074)" by (rule power_int_add) simp
  also have "(2::rat) powi (m + 1074) = of_int (2 ^ nat (m + 1074))" using km(2) by (intro powi2_int) simp
  finally have "x = of_int (k * 2 ^ nat (m + 1074)) * 2 powi (-1074)" by (simp add: km(1))
  then show ?thesis by (rule that)
qed

lemma fl_diff_pos: assumes "fl x = x" "fl y = y" "y < x" shows "0 < fl (x - y)"
proof -
  obtain k l where kl: "x = of_int k * 2 powi (-1074)" "y = of_int l * 2 powi (-1074)"
    using double_grid assms(1,2) by metis
  have pos: "0 < (2::rat) powi (-1074)" by (rule powi2_pos)
  then have "l < k" using assms(3) by (simp only: kl mult_less_cancel_right_pos of_int_less_iff)
  then have "of_int 1 \<le> (of_int (k - l) :: rat)" by (simp only: of_int_le_iff)
  then have "of_int 1 * 2 powi (-1074) \<le> of_int (k - l) * (2::rat) powi (-1074)"
    using pos by (intro mult_right_mono) simp_all
  also have "\<dots> = x - y" by (simp only: kl of_int_diff left_diff_distrib)
  finally have "of_int 1 * 2 powi (-1074) \<le> x - y" .
  then have "fl (of_int 1 * 2 powi (-1074)) \<le> fl (x - y)" by (rule fl_mono)
  moreover have "fl (of_int 1 * 2 powi (-1074)) = of_int 1 * 2 powi (-1074)" by (rule fl_exact) simp_all
  ultimately show ?thesis using pos by simp
qed

lemma jlt_0_jsub:
  assumes "is_double x" "is_double y" "x \<noteq> NaN" "y \<noteq> NaN"
  shows "jlt (Num 0) (jsub x y) \<longleftrightarrow> jlt y x"
proof (cases "\<exists>a b. x = Num a \<and> y = Num b")
  case True
  then obtain a b where ab: "x = Num a" "y = Num b" by blast
  show ?thesis
  proof (cases "b < a")
    case True
    then have "0 < fl (a - b)" using assms by (intro fl_diff_pos) (simp_all add: ab)
    then show ?thesis using True by (auto simp: ab jsub_def to_num_def)
  next
    case False
    then have "jle (to_num (a - b)) (Num 0)" by (intro to_num_nonpos) simp
    then show ?thesis using False by (simp add: ab jsub_def not_jlt_iff)
  qed
next
  case False
  then show ?thesis using assms by (cases x; cases y) (auto simp: jsub_def)
qed

end
