(* ===== verification/Terminal_Store.thy ===== *)
theory Terminal_Store
  imports Symbol_Keys Js_Sort Machine
begin

text \<open>
  The terminal's state: \<open>features/terminal/store/terminalStore.ts\<close>. Preferences are read from
  \<open>localStorage\<close> when the store is created and written by their setters. Most accesses are inside
  \<open>try ... catch {}\<close>; those of \<open>setSymbols\<close> and \<open>setSelectedSymbol\<close> are not, so on a storage that
  refuses access these two throw after part of their work, which their second result says.

  \<open>localeCompare\<close> is a parameter; times are the results of \<open>Date.now()\<close>.
\<close>

section \<open>Preferences\<close>

datatype tab = TabAll | TabWatchlists
datatype chat_tab = ChatSupport | ChatAi
datatype mobile_tab = Quotes | Chart | Trade | Positions | Account | History

definition STORAGE_KEY_MOBILE_TAB :: string where "STORAGE_KEY_MOBILE_TAB = ''terminal.mobileTab''"
definition STORAGE_KEY_SEARCH_QUERY :: string where "STORAGE_KEY_SEARCH_QUERY = ''terminal.searchQuery''"
definition STORAGE_KEY_SELECTED_SYMBOL :: string where "STORAGE_KEY_SELECTED_SYMBOL = ''terminal.selectedSymbolId''"
definition STORAGE_KEY_CHART_SHOW_ASK :: string where "STORAGE_KEY_CHART_SHOW_ASK = ''terminal.chartShowAskPrice''"
definition STORAGE_KEY_CHART_SHOW_POSITION_MARKER :: string where
  "STORAGE_KEY_CHART_SHOW_POSITION_MARKER = ''terminal.chartShowPositionMarker''"
definition STORAGE_KEY_CHART_SHOW_CLOSED_POSITION_MARKER :: string where
  "STORAGE_KEY_CHART_SHOW_CLOSED_POSITION_MARKER = ''terminal.chartShowClosedPositionMarker''"
definition STORAGE_KEY_ENABLE_LIQUIDATION_EMAIL :: string where
  "STORAGE_KEY_ENABLE_LIQUIDATION_EMAIL = ''terminal.enableLiquidationEmail''"
definition STORAGE_KEY_ENABLE_SLTP_EMAIL :: string where
  "STORAGE_KEY_ENABLE_SLTP_EMAIL = ''terminal.enableSlTpEmail''"
definition STORAGE_KEY_CHAT_PANEL_OPEN :: string where "STORAGE_KEY_CHAT_PANEL_OPEN = ''terminal.chatPanelOpen''"
definition STORAGE_KEY_CHAT_PANEL_TAB :: string where "STORAGE_KEY_CHAT_PANEL_TAB = ''terminal.chatPanelTab''"


definition MAX_SEARCH_QUERY_LEN :: nat where
  "MAX_SEARCH_QUERY_LEN = 256"

text \<open>\<open>String(b)\<close> of a boolean, and the strings of the tabs.\<close>

definition show_bool :: "bool \<Rightarrow> string" where
  "show_bool b = (if b then ''true'' else ''false'')"

fun chat_tab_name :: "chat_tab \<Rightarrow> string" where
  "chat_tab_name ChatSupport = ''support''" | "chat_tab_name ChatAi = ''ai''"

fun mobile_tab_name :: "mobile_tab \<Rightarrow> string" where
  "mobile_tab_name Quotes = ''quotes''" | "mobile_tab_name Chart = ''chart''" | "mobile_tab_name Trade = ''trade''"
| "mobile_tab_name Positions = ''positions''" | "mobile_tab_name Account = ''account''"
| "mobile_tab_name History = ''history''"

definition getChatPanelOpenFromStorage :: "storage \<Rightarrow> bool" where
  "getChatPanelOpenFromStorage st = (getItem st STORAGE_KEY_CHAT_PANEL_OPEN = Some ''true'')"

definition getChatPanelTabFromStorage :: "storage \<Rightarrow> chat_tab" where
  "getChatPanelTabFromStorage st =
     (let v = getItem st STORAGE_KEY_CHAT_PANEL_TAB in
      if v = Some ''ai'' then ChatAi else if v = Some ''support'' then ChatSupport else ChatSupport)"

text \<open>The five boolean getters differ in their key and their default.\<close>

definition off_flag :: "string \<Rightarrow> storage \<Rightarrow> bool" where
  "off_flag k st = (let v = getItem st k in if v = Some ''true'' then True else if v = Some ''false'' then False else False)"

definition on_flag :: "string \<Rightarrow> storage \<Rightarrow> bool" where
  "on_flag k st = (let v = getItem st k in if v = Some ''false'' then False else if v = Some ''true'' then True else True)"

definition getEnableLiquidationEmailFromStorage :: "storage \<Rightarrow> bool" where
  "getEnableLiquidationEmailFromStorage = off_flag STORAGE_KEY_ENABLE_LIQUIDATION_EMAIL"

definition getEnableSlTpEmailFromStorage :: "storage \<Rightarrow> bool" where
  "getEnableSlTpEmailFromStorage = off_flag STORAGE_KEY_ENABLE_SLTP_EMAIL"

definition getChartShowAskPriceFromStorage :: "storage \<Rightarrow> bool" where
  "getChartShowAskPriceFromStorage = on_flag STORAGE_KEY_CHART_SHOW_ASK"

definition getChartShowPositionMarkerFromStorage :: "storage \<Rightarrow> bool" where
  "getChartShowPositionMarkerFromStorage = on_flag STORAGE_KEY_CHART_SHOW_POSITION_MARKER"

definition getChartShowClosedPositionMarkerFromStorage :: "storage \<Rightarrow> bool" where
  "getChartShowClosedPositionMarkerFromStorage = on_flag STORAGE_KEY_CHART_SHOW_CLOSED_POSITION_MARKER"

definition getSearchQueryFromStorage :: "storage \<Rightarrow> string" where
  "getSearchQueryFromStorage st = (case getItem st STORAGE_KEY_SEARCH_QUERY of
     None \<Rightarrow> [] | Some v \<Rightarrow> take MAX_SEARCH_QUERY_LEN v)"

definition getMobileTabFromStorage :: "storage \<Rightarrow> mobile_tab" where
  "getMobileTabFromStorage st =
     (case find (\<lambda>t. getItem st STORAGE_KEY_MOBILE_TAB = Some (mobile_tab_name t))
        [Quotes, Chart, Trade, Positions, Account, History] of Some t \<Rightarrow> t | None \<Rightarrow> Chart)"

section \<open>State\<close>

record terminal =
  selectedSymbol :: "MockSymbol option"
  symbols :: "MockSymbol list"
  isLoading :: bool
  watchlist :: "string list"
  searchQuery :: string
  activeTab :: tab
  settingsPanelOpen :: bool
  notificationPanelOpen :: bool
  paymentPanelOpen :: bool
  chatPanelOpen :: bool
  chatPanelTab :: chat_tab
  mobileMenuOpen :: bool
  mobileSymbolPanelOpen :: bool
  chartShowAskPrice :: bool
  chartShowPositionMarker :: bool
  chartShowClosedPositionMarker :: bool
  enableLiquidationEmail :: bool
  enableSlTpEmail :: bool
  mobileTab :: mobile_tab
  openPositionsRefreshNonce :: nat
  recentOrderSubmitAtById :: "(string, jsnum) jsmap"
  localStorage :: storage

definition terminal_init :: "storage \<Rightarrow> terminal" where
  "terminal_init st = \<lparr>selectedSymbol = None, symbols = [], isLoading = False, watchlist = [],
     searchQuery = getSearchQueryFromStorage st, activeTab = TabAll, settingsPanelOpen = False,
     notificationPanelOpen = False, paymentPanelOpen = False, chatPanelOpen = getChatPanelOpenFromStorage st,
     chatPanelTab = getChatPanelTabFromStorage st, mobileMenuOpen = False, mobileSymbolPanelOpen = False,
     chartShowAskPrice = getChartShowAskPriceFromStorage st,
     chartShowPositionMarker = getChartShowPositionMarkerFromStorage st,
     chartShowClosedPositionMarker = getChartShowClosedPositionMarkerFromStorage st,
     enableLiquidationEmail = getEnableLiquidationEmailFromStorage st,
     enableSlTpEmail = getEnableSlTpEmailFromStorage st, mobileTab = getMobileTabFromStorage st,
     openPositionsRefreshNonce = 0, recentOrderSubmitAtById = [], localStorage = st\<rparr>"

section \<open>Symbols and their selection\<close>

definition security_error :: js_error where
  "security_error = Err ''SecurityError''"

definition is_btc :: "MockSymbol \<Rightarrow> bool" where
  "is_btc s = (ms_code s = ''BTCUSDT'' \<or> ms_code s = ''BTC-USD'' \<or>
     remove_char (CHR ''-'') (toUpperCase (ms_code s)) = ''BTCUSDT'')"

definition default_symbol :: "MockSymbol list \<Rightarrow> MockSymbol option" where
  "default_symbol ss = (case find is_btc ss of Some s \<Rightarrow> Some s | None \<Rightarrow> Some (hd ss))"

text \<open>\<open>symbols.find((s) => s.id === id)\<close>.\<close>

definition find_id :: "string \<Rightarrow> MockSymbol list \<Rightarrow> MockSymbol option" where
  "find_id i ss = find (\<lambda>s. ms_id s = i) ss"

text \<open>The saved symbol if the list has it, otherwise the default.\<close>

definition restored_symbol :: "storage \<Rightarrow> MockSymbol list \<Rightarrow> MockSymbol option" where
  "restored_symbol st ss =
     (let saved = getItem st STORAGE_KEY_SELECTED_SYMBOL in
      case (if truthy saved then find_id (the saved) ss else None) of
        Some s \<Rightarrow> Some s
      | None \<Rightarrow> default_symbol ss)"

definition setSymbols :: "MockSymbol list \<Rightarrow> terminal \<Rightarrow> terminal \<times> js_error option" where
  "setSymbols ss t =
     (let cur = map_option ms_id (selectedSymbol t); t = t\<lparr>symbols := ss\<rparr> in
      if truthy cur then (t\<lparr>selectedSymbol := find_id (the cur) ss\<rparr>, None)
      else if ss = [] then (t, None)
      else if localStorage t = None then (t, Some security_error)
      else (t\<lparr>selectedSymbol := restored_symbol (localStorage t) ss\<rparr>, None))"

definition setSelectedSymbol :: "MockSymbol option \<Rightarrow> terminal \<Rightarrow> terminal \<times> js_error option" where
  "setSelectedSymbol s t =
     (let t = t\<lparr>selectedSymbol := s\<rparr> in
      if localStorage t = None then (t, Some security_error)
      else (t\<lparr>localStorage := (case s of
              Some x \<Rightarrow> setItem STORAGE_KEY_SELECTED_SYMBOL (ms_id x) (localStorage t)
            | None \<Rightarrow> removeItem STORAGE_KEY_SELECTED_SYMBOL (localStorage t))\<rparr>, None))"

section \<open>The other actions\<close>

definition setWatchlist :: "string list \<Rightarrow> terminal \<Rightarrow> terminal" where
  "setWatchlist ids t = t\<lparr>watchlist := set_of_list ids\<rparr>"

definition toggleWatchlist :: "string \<Rightarrow> terminal \<Rightarrow> terminal" where
  "toggleWatchlist i t = t\<lparr>watchlist :=
     (if i \<in> set (watchlist t) then set_delete i (watchlist t) else set_add i (watchlist t))\<rparr>"

definition setSearchQuery :: "string \<Rightarrow> terminal \<Rightarrow> terminal" where
  "setSearchQuery q t =
     (let safe = take MAX_SEARCH_QUERY_LEN q in
      t\<lparr>localStorage := (if safe \<noteq> [] then setItem STORAGE_KEY_SEARCH_QUERY safe (localStorage t)
                         else removeItem STORAGE_KEY_SEARCH_QUERY (localStorage t)),
        searchQuery := safe\<rparr>)"

definition save :: "string \<Rightarrow> string \<Rightarrow> terminal \<Rightarrow> terminal" where
  "save k v t = t\<lparr>localStorage := setItem k v (localStorage t)\<rparr>"

definition setChatPanelOpen :: "bool \<Rightarrow> terminal \<Rightarrow> terminal" where
  "setChatPanelOpen b t = (save STORAGE_KEY_CHAT_PANEL_OPEN (show_bool b) t)\<lparr>chatPanelOpen := b\<rparr>"

definition setChatPanelTab :: "chat_tab \<Rightarrow> terminal \<Rightarrow> terminal" where
  "setChatPanelTab x t = (save STORAGE_KEY_CHAT_PANEL_TAB (chat_tab_name x) t)\<lparr>chatPanelTab := x\<rparr>"

definition setChartShowAskPrice :: "bool \<Rightarrow> terminal \<Rightarrow> terminal" where
  "setChartShowAskPrice b t = (save STORAGE_KEY_CHART_SHOW_ASK (show_bool b) t)\<lparr>chartShowAskPrice := b\<rparr>"

definition setChartShowPositionMarker :: "bool \<Rightarrow> terminal \<Rightarrow> terminal" where
  "setChartShowPositionMarker b t =
     (save STORAGE_KEY_CHART_SHOW_POSITION_MARKER (show_bool b) t)\<lparr>chartShowPositionMarker := b\<rparr>"

definition setChartShowClosedPositionMarker :: "bool \<Rightarrow> terminal \<Rightarrow> terminal" where
  "setChartShowClosedPositionMarker b t =
     (save STORAGE_KEY_CHART_SHOW_CLOSED_POSITION_MARKER (show_bool b) t)\<lparr>chartShowClosedPositionMarker := b\<rparr>"

definition setEnableLiquidationEmail :: "bool \<Rightarrow> terminal \<Rightarrow> terminal" where
  "setEnableLiquidationEmail b t =
     (save STORAGE_KEY_ENABLE_LIQUIDATION_EMAIL (show_bool b) t)\<lparr>enableLiquidationEmail := b\<rparr>"

definition setEnableSlTpEmail :: "bool \<Rightarrow> terminal \<Rightarrow> terminal" where
  "setEnableSlTpEmail b t = (save STORAGE_KEY_ENABLE_SLTP_EMAIL (show_bool b) t)\<lparr>enableSlTpEmail := b\<rparr>"

definition setMobileTab :: "mobile_tab \<Rightarrow> terminal \<Rightarrow> terminal" where
  "setMobileTab x t = (save STORAGE_KEY_MOBILE_TAB (mobile_tab_name x) t)\<lparr>mobileTab := x\<rparr>"

definition requestOpenPositionsRefresh :: "terminal \<Rightarrow> terminal" where
  "requestOpenPositionsRefresh t = t\<lparr>openPositionsRefreshNonce := openPositionsRefreshNonce t + 1\<rparr>"

definition registerRecentSubmittedOrder :: "jsnum \<Rightarrow> string \<Rightarrow> terminal \<Rightarrow> terminal" where
  "registerRecentSubmittedOrder now i t =
     t\<lparr>recentOrderSubmitAtById := map_set i now (recentOrderSubmitAtById t)\<rparr>"

definition forgetRecentSubmittedOrder :: "string \<Rightarrow> terminal \<Rightarrow> terminal" where
  "forgetRecentSubmittedOrder i t = t\<lparr>recentOrderSubmitAtById := map_delete i (recentOrderSubmitAtById t)\<rparr>"

definition pruneStaleRecentSubmittedOrders :: "jsnum \<Rightarrow> terminal \<Rightarrow> terminal" where
  "pruneStaleRecentSubmittedOrders now t = t\<lparr>recentOrderSubmitAtById :=
     foldl (\<lambda>m (i, ts). if jle (jsub now ts) (Num 90000) then map_set i ts m else m) []
       (recentOrderSubmitAtById t)\<rparr>"

section \<open>The list of symbols\<close>

text \<open>The comparator of the list; \<open>localeCompare\<close> is the parameter \<open>lc\<close>.\<close>

definition by_price :: "(string \<Rightarrow> string \<Rightarrow> int) \<Rightarrow> MockSymbol js_comparator" where
  "by_price lc a b =
     (let pa = numericPrice a; pb = numericPrice b in
      if jlt (Num 0) pa \<and> jlt (Num 0) pb then jsub pb pa
      else if jlt (Num 0) pa then Num (- 1)
      else if jlt (Num 0) pb then Num 1
      else Num (of_int (lc (ms_code a) (ms_code b))))"

definition shown :: "terminal \<Rightarrow> MockSymbol \<Rightarrow> bool" where
  "shown t s = ((activeTab t = TabWatchlists \<longrightarrow> ms_id s \<in> set (watchlist t)) \<and>
     (searchQuery t \<noteq> [] \<longrightarrow>
        (let q = toLowerCase (searchQuery t) in
         str_includes (toLowerCase (ms_code s)) q \<or> str_includes (toLowerCase (ms_price s)) q)))"

definition getFilteredSymbols :: "(string \<Rightarrow> string \<Rightarrow> int) \<Rightarrow> terminal \<Rightarrow> MockSymbol list" where
  "getFilteredSymbols lc t = js_sort (by_price lc) (filter (shown t) (symbols t))"

section \<open>The machine\<close>

datatype terminal_event =
    SetSymbols "MockSymbol list" | SetSelectedSymbol "MockSymbol option" | SetLoading bool
  | SetWatchlist "string list" | ToggleWatchlist string | SetSearchQuery string | SetActiveTab tab
  | SetSettingsPanel bool | SetNotificationPanel bool | SetPaymentPanel bool
  | SetChatPanelOpen bool | SetChatPanelTab chat_tab | SetMobileMenu bool | SetMobileSymbolPanel bool
  | SetShowAsk bool | SetShowMarker bool | SetShowClosedMarker bool
  | SetLiquidationEmail bool | SetSlTpEmail bool | SetMobileTab mobile_tab
  | RequestRefresh | RegisterOrder jsnum string | ForgetOrder string | PruneOrders jsnum

fun terminal_do :: "terminal_event \<Rightarrow> terminal \<Rightarrow> terminal" where
  "terminal_do (SetSymbols ss) t = fst (setSymbols ss t)"
| "terminal_do (SetSelectedSymbol s) t = fst (setSelectedSymbol s t)"
| "terminal_do (SetLoading b) t = t\<lparr>isLoading := b\<rparr>"
| "terminal_do (SetWatchlist ids) t = setWatchlist ids t"
| "terminal_do (ToggleWatchlist i) t = toggleWatchlist i t"
| "terminal_do (SetSearchQuery q) t = setSearchQuery q t"
| "terminal_do (SetActiveTab x) t = t\<lparr>activeTab := x\<rparr>"
| "terminal_do (SetSettingsPanel b) t = t\<lparr>settingsPanelOpen := b\<rparr>"
| "terminal_do (SetNotificationPanel b) t = t\<lparr>notificationPanelOpen := b\<rparr>"
| "terminal_do (SetPaymentPanel b) t = t\<lparr>paymentPanelOpen := b\<rparr>"
| "terminal_do (SetChatPanelOpen b) t = setChatPanelOpen b t"
| "terminal_do (SetChatPanelTab x) t = setChatPanelTab x t"
| "terminal_do (SetMobileMenu b) t = t\<lparr>mobileMenuOpen := b\<rparr>"
| "terminal_do (SetMobileSymbolPanel b) t = t\<lparr>mobileSymbolPanelOpen := b\<rparr>"
| "terminal_do (SetShowAsk b) t = setChartShowAskPrice b t"
| "terminal_do (SetShowMarker b) t = setChartShowPositionMarker b t"
| "terminal_do (SetShowClosedMarker b) t = setChartShowClosedPositionMarker b t"
| "terminal_do (SetLiquidationEmail b) t = setEnableLiquidationEmail b t"
| "terminal_do (SetSlTpEmail b) t = setEnableSlTpEmail b t"
| "terminal_do (SetMobileTab x) t = setMobileTab x t"
| "terminal_do RequestRefresh t = requestOpenPositionsRefresh t"
| "terminal_do (RegisterOrder now i) t = registerRecentSubmittedOrder now i t"
| "terminal_do (ForgetOrder i) t = forgetRecentSubmittedOrder i t"
| "terminal_do (PruneOrders now) t = pruneStaleRecentSubmittedOrders now t"


section \<open>What a reload restores\<close>

text \<open>The preferences, as a tuple, of a state and of the store a reload would create.\<close>

definition preferences :: "terminal \<Rightarrow> string \<times> bool \<times> chat_tab \<times> bool \<times> bool \<times> bool \<times> bool \<times> bool \<times> mobile_tab" where
  "preferences t = (searchQuery t, chatPanelOpen t, chatPanelTab t, chartShowAskPrice t, chartShowPositionMarker t,
     chartShowClosedPositionMarker t, enableLiquidationEmail t, enableSlTpEmail t, mobileTab t)"

definition usable :: "storage \<Rightarrow> bool" where
  "usable st = (st \<noteq> None)"

definition synced :: "terminal \<Rightarrow> bool" where
  "synced t \<longleftrightarrow> usable (localStorage t) \<and> preferences (terminal_init (localStorage t)) = preferences t"

lemmas getter_defs = getSearchQueryFromStorage_def getChatPanelOpenFromStorage_def getChatPanelTabFromStorage_def
  getChartShowAskPriceFromStorage_def getChartShowPositionMarkerFromStorage_def
  getChartShowClosedPositionMarkerFromStorage_def getEnableLiquidationEmailFromStorage_def
  getEnableSlTpEmailFromStorage_def getMobileTabFromStorage_def off_flag_def on_flag_def

lemmas setter_defs = setSearchQuery_def setChatPanelOpen_def setChatPanelTab_def setChartShowAskPrice_def
  setChartShowPositionMarker_def setChartShowClosedPositionMarker_def setEnableLiquidationEmail_def
  setEnableSlTpEmail_def setMobileTab_def save_def


lemma usable_write [simp]: "usable (setItem k v st) = usable st" "usable (removeItem k st) = usable st"
  by (simp_all add: usable_def setItem_def removeItem_def)












lemma setSymbols_fields [simp]: "localStorage (fst (setSymbols ss t)) = localStorage t"
  "preferences (fst (setSymbols ss t)) = preferences t"
  by (simp_all add: setSymbols_def preferences_def Let_def)

lemma synced_update: "synced t \<Longrightarrow> localStorage t' = localStorage t \<Longrightarrow> preferences t' = preferences t \<Longrightarrow> synced t'"
  by (simp add: synced_def)











section \<open>Data invariant\<close>

definition terminal_wf :: "terminal \<Rightarrow> bool" where
  "terminal_wf t \<longleftrightarrow> distinct (watchlist t) \<and> map_wf (recentOrderSubmitAtById t) \<and>
     length (searchQuery t) \<le> MAX_SEARCH_QUERY_LEN"

lemma search_bounded: "length (getSearchQueryFromStorage st) \<le> MAX_SEARCH_QUERY_LEN"
  by (simp add: getSearchQueryFromStorage_def split: option.split)

text \<open>Pruning keeps exactly the entries that are not too old.\<close>

lemma prune_fold:
  "map_wf m \<Longrightarrow> foldl (\<lambda>m (i, ts). if P ts then map_set i ts m else m) acc m =
     foldl (\<lambda>m (i, ts). map_set i ts m) acc (filter (\<lambda>(i, ts). P ts) m)"
  by (induction m arbitrary: acc) (auto simp: map_wf_def)

lemma map_set_fold_wf: "map_wf acc \<Longrightarrow> map_wf (foldl (\<lambda>m (i, ts). map_set i ts m) acc xs)"
  by (induction xs arbitrary: acc) auto

lemma pairs_fold: "map_wf m \<Longrightarrow> foldl (\<lambda>m (i, ts). map_set i ts m) [] m = m"
  using map_values_load_distinct [of fst m] unfolding map_wf_def
proof (induction m rule: rev_induct)
  case (snoc x xs)
  then have IH: "foldl (\<lambda>m (i, ts). map_set i ts m) [] xs = xs"
    using map_values_load_distinct [of fst xs] by simp
  have "\<not> map_has xs (fst x)" using snoc.prems by (auto simp: map_has_def)
  then show ?case by (simp add: IH [unfolded split_def] split_def map_set_new)
qed simp

lemma filter_wf: "map_wf m \<Longrightarrow> map_wf (filter P m)"
  by (simp add: map_wf_def distinct_map_filter)

lemma prune_eq:
  "map_wf (recentOrderSubmitAtById t) \<Longrightarrow>
     recentOrderSubmitAtById (pruneStaleRecentSubmittedOrders now t) =
       filter (\<lambda>(i, ts). jle (jsub now ts) (Num 90000)) (recentOrderSubmitAtById t)"
  by (simp add: pruneStaleRecentSubmittedOrders_def prune_fold pairs_fold filter_wf)

lemma terminal_wf_step: "terminal_wf t \<Longrightarrow> terminal_wf (terminal_do a t)"
proof (cases a)
  case (PruneOrders now)
  moreover assume "terminal_wf t"
  ultimately show ?thesis
    by (simp add: terminal_wf_def prune_eq filter_wf) (simp add: pruneStaleRecentSubmittedOrders_def)
qed (auto simp: terminal_wf_def setter_defs setSymbols_def setSelectedSymbol_def setWatchlist_def toggleWatchlist_def
      requestOpenPositionsRefresh_def registerRecentSubmittedOrder_def forgetRecentSubmittedOrder_def Let_def
      set_delete_def set_add_def)

interpretation twf: invariant_system "\<lambda>a t. True" terminal_do terminal_wf "\<lambda>t. \<exists>st. t = terminal_init st"
  by unfold_locales (rule terminal_wf_step, assumption, auto simp: terminal_wf_def terminal_init_def search_bounded)

section \<open>The comparator\<close>

text \<open>What the code relies on of \<open>localeCompare\<close>: its sign is that of a total preorder.\<close>

definition collates :: "(string \<Rightarrow> string \<Rightarrow> int) \<Rightarrow> bool" where
  "collates lc \<longleftrightarrow> (\<forall>x y. lc x y \<le> 0 \<or> lc y x \<le> 0) \<and> (\<forall>x y z. lc x y \<le> 0 \<longrightarrow> lc y z \<le> 0 \<longrightarrow> lc x z \<le> 0)"

definition priced :: "MockSymbol \<Rightarrow> bool" where
  "priced s = jlt (Num 0) (numericPrice s)"

lemma by_price_iff:
  assumes "is_double (numericPrice a)" "is_double (numericPrice b)"
  shows "not_after (by_price lc) a b \<longleftrightarrow>
    (if priced a then priced b \<longrightarrow> \<not> jlt (numericPrice a) (numericPrice b)
     else \<not> priced b \<and> lc (ms_code a) (ms_code b) \<le> 0)"
  using assms jlt_not_nan [of "Num 0" "numericPrice a"] jlt_not_nan [of "Num 0" "numericPrice b"]
  by (auto simp: by_price_def not_after_def priced_def Let_def jlt_0_jsub)

lemma by_price_orders:
  assumes "collates lc"
  shows "ordering_comparator (by_price lc) {s. is_double (numericPrice s)}"
proof
  fix x y :: MockSymbol
  assume d: "x \<in> {s. is_double (numericPrice s)}" "y \<in> {s. is_double (numericPrice s)}"
  show "not_after (by_price lc) x y \<or> not_after (by_price lc) y x"
    using d assms jlt_trans [of "numericPrice x" "numericPrice y" "numericPrice x"]
    by (auto simp: by_price_iff collates_def)
next
  fix x y z :: MockSymbol
  assume d: "x \<in> {s. is_double (numericPrice s)}" "y \<in> {s. is_double (numericPrice s)}" "z \<in> {s. is_double (numericPrice s)}"
    and xy: "not_after (by_price lc) x y" and yz: "not_after (by_price lc) y z"
  have num: "priced s \<Longrightarrow> numericPrice s \<noteq> NaN" for s using jlt_not_nan by (auto simp: priced_def)
  have "priced x \<Longrightarrow> priced y \<Longrightarrow> priced z \<Longrightarrow> \<not> jlt (numericPrice x) (numericPrice z)"
    using xy yz d num [of x] num [of y] num [of z]
    by (auto simp: by_price_iff not_jlt_iff intro: jle_trans)
  then show "not_after (by_price lc) x z"
    using xy yz d assms by (auto simp: by_price_iff collates_def split: if_splits)
qed


text \<open>The interpretation: for any parameter, made a preorder if it is none.\<close>

definition collation :: "(string \<Rightarrow> string \<Rightarrow> int) \<Rightarrow> string \<Rightarrow> string \<Rightarrow> int" where
  "collation lc = (if collates lc then lc else (\<lambda>x y. 0))"

interpretation bp: ordering_comparator "by_price (collation lc)" "{s. is_double (numericPrice s)}" for lc
  by (rule by_price_orders) (simp add: collation_def collates_def)

lemma collation_id [simp]: "collates lc \<Longrightarrow> collation lc = lc"
  by (simp add: collation_def)

section \<open>Theorems\<close>


text \<open>In every reachable state the watchlist has no symbol twice, every recent order one time of
  submission, and the search text at most 256 characters.\<close>

theorem terminal_invariant:
  assumes "reach (\<lambda>t. \<exists>st. t = terminal_init st) (\<lambda>a t. True) terminal_do t"
  shows "distinct (watchlist t) \<and> distinct (map fst (recentOrderSubmitAtById t)) \<and> length (searchQuery t) \<le> 256"
  using twf.reach_inv [OF assms] by (simp add: terminal_wf_def map_wf_def MAX_SEARCH_QUERY_LEN_def)

text \<open>Loading the catalogue: a selection that is still listed is replaced by its listed row, one that is
  gone is cleared; without a selection the saved symbol comes back if it is listed, and otherwise a
  listed symbol is chosen, the Bitcoin pair if there is one. The call fails only when nothing was
  selected and the storage refuses access.\<close>

theorem setSymbols_selection:
  assumes "setSymbols ss t = (t', err)"
  shows "symbols t' = ss \<and>
    (case selectedSymbol t of
       Some s \<Rightarrow> ms_id s \<noteq> [] \<longrightarrow> err = None \<and> selectedSymbol t' = find_id (ms_id s) ss
     | None \<Rightarrow>
         if ss = [] then err = None \<and> selectedSymbol t' = None
         else if localStorage t = None then err \<noteq> None \<and> selectedSymbol t' = None
         else err = None \<and> (\<exists>s \<in> set ss. selectedSymbol t' = Some s \<and>
           (is_btc s \<or> s = hd ss \<or> getItem (localStorage t) STORAGE_KEY_SELECTED_SYMBOL = Some (ms_id s))))"
proof -
  have found: "find P ss = Some s \<Longrightarrow> s \<in> set ss \<and> P s" for P s by (auto simp: find_Some_iff)
  have "\<exists>s \<in> set ss. restored_symbol st ss = Some s \<and>
      (is_btc s \<or> s = hd ss \<or> getItem st STORAGE_KEY_SELECTED_SYMBOL = Some (ms_id s))" if "ss \<noteq> []" for st
    using that by (cases "getItem st STORAGE_KEY_SELECTED_SYMBOL")
      (auto simp: restored_symbol_def default_symbol_def find_id_def Let_def split: option.split dest!: found)
  then show ?thesis using assms
    by (cases "selectedSymbol t") (auto simp: setSymbols_def Let_def split: if_splits)
qed

text \<open>The symbol list shows exactly the symbols of the tab that match the search, each as often as it is
  loaded, sorted: priced symbols first, the dearest on top, the others by code; symbols that compare
  equal keep the order of the catalogue.\<close>

theorem getFilteredSymbols_sorted:
  assumes "collates lc" "\<forall>s \<in> set (symbols t). is_double (numericPrice s)"
  shows "let out = getFilteredSymbols lc t in
     mset out = filter_mset (shown t) (mset (symbols t)) \<and>
     sorted_wrt (\<lambda>a b. if priced a then priced b \<longrightarrow> \<not> jlt (numericPrice a) (numericPrice b)
                   else \<not> priced b \<and> lc (ms_code a) (ms_code b) \<le> 0) out \<and>
     (\<forall>z \<in> set out. filter (ties (by_price lc) z) out = filter (ties (by_price lc) z) (filter (shown t) (symbols t)))"
proof -
  let ?xs = "filter (shown t) (symbols t)"
  have sub: "set ?xs \<subseteq> {s. is_double (numericPrice s)}" using assms(2) by auto
  have sorted: "sorted_wrt (not_after (by_price lc)) (js_sort (by_price lc) ?xs)"
    using bp.sorted_js_sort [OF sub, of lc] assms(1) by simp
  have stable: "\<forall>z \<in> set ?xs. filter (ties (by_price lc) z) (js_sort (by_price lc) ?xs) = filter (ties (by_price lc) z) ?xs"
    using bp.stable_js_sort [OF _ sub, of _ lc] sub assms(1) by (simp add: subset_iff)
  have "sorted_wrt (\<lambda>a b. if priced a then priced b \<longrightarrow> \<not> jlt (numericPrice a) (numericPrice b)
      else \<not> priced b \<and> lc (ms_code a) (ms_code b) \<le> 0) (js_sort (by_price lc) ?xs)"
    using assms(2) by (intro sorted_wrt_mono_rel [OF _ sorted]) (simp add: by_price_iff)
  then show ?thesis using stable by (simp add: getFilteredSymbols_def Let_def)
qed

section \<open>Concrete runs\<close>

definition sample_symbol :: "string \<Rightarrow> jsnum \<Rightarrow> MockSymbol" where
  "sample_symbol c p = \<lparr>ms_id = c, ms_code = c, ms_price = ''1'', ms_price2 = ''1'', ms_value = ''0'', ms_enabled = True,
     numericPrice = p, numericPrice2 = p, change24h = Num 0, volume24h = Num 0, ms_baseCurrency = c, ms_quoteCurrency = ''USD'',
     ms_pricePrecision = None, ms_volumePrecision = None, ms_assetClass = None, ms_mmdpsCategory = None,
     ms_providerDescription = None, bidQuote = None, askQuote = None, priceLookupKey = None\<rparr>"

definition sample_events :: "terminal_event list" where
  "sample_events = [SetSearchQuery ''b'', SetShowAsk False, SetMobileTab History,
     SetSymbols [sample_symbol ''A'' (Num 0), sample_symbol ''B1'' (Num 1), sample_symbol ''B2'' (Num 3)],
     ToggleWatchlist ''B1'', RegisterOrder (Num 5) ''o1'']"

definition sample_terminal :: terminal where
  "sample_terminal = foldl (\<lambda>t e. terminal_do e t) (terminal_init (Some [])) sample_events"

lemma run_foldl: "run (\<lambda>a t. True) terminal_do es t = Some (foldl (\<lambda>t e. terminal_do e t) t es)"
  by (induction es arbitrary: t) simp_all

lemma sample_run: "run (\<lambda>a t. True) terminal_do sample_events (terminal_init (Some [])) = Some sample_terminal"
  by (simp add: run_foldl sample_terminal_def)


lemma terminal_invariant_witness: "length (searchQuery sample_terminal) \<le> 256"
  using terminal_invariant [OF run_start [OF _ sample_run]] by blast

lemma setSymbols_selection_witness:
  "snd (setSymbols [sample_symbol ''A'' (Num 0)] (terminal_init None)) \<noteq> None"
  using setSymbols_selection [of "[sample_symbol ''A'' (Num 0)]" "terminal_init None"
      "fst (setSymbols [sample_symbol ''A'' (Num 0)] (terminal_init None))"
      "snd (setSymbols [sample_symbol ''A'' (Num 0)] (terminal_init None))"]
  by (simp add: terminal_init_def)

definition three_symbols :: terminal where
  "three_symbols = (terminal_init (Some []))\<lparr>symbols :=
     [sample_symbol ''A'' (Num 0), sample_symbol ''B1'' (Num 1), sample_symbol ''B2'' (Num 3)]\<rparr>"

lemma three_doubles: "\<forall>s \<in> set (symbols three_symbols). is_double (numericPrice s)"
  using is_double_of_int [of 0] is_double_of_int [of 1] is_double_of_int [of 3]
  by (simp add: three_symbols_def sample_symbol_def del: is_double.simps)

lemma getFilteredSymbols_sorted_witness:
  "mset (getFilteredSymbols (\<lambda>x y. 0) three_symbols) = filter_mset (shown three_symbols) (mset (symbols three_symbols))"
  using getFilteredSymbols_sorted [OF _ three_doubles, of "\<lambda>x y. 0"] by (simp add: collates_def Let_def)

end
