(* ===== verification/Orders.thy ===== *)
theory Orders
  imports Leverage
begin

text \<open>
  Orders of the terminal (\<open>features/terminal/api/orders.api.ts\<close>): the leverage of an order when it
  cannot be resolved on the server, the margin fallback of the order form, the order list's query.

  The file has its own copy of the tier search of \<open>shared/api/auth.api.ts\<close>. It is written here the
  way it is written there, as loops over the tiers with their variables, and proved equal to the
  folds of theory \<open>Leverage\<close>.
\<close>

section \<open>Leverage, failing closed\<close>

text \<open>The first loop with its variables \<open>bestLev\<close> and \<open>bestFrom\<close>; \<open>continue\<close> is the recursive call.\<close>

fun rl_bands :: "jsnum \<Rightarrow> SymbolLeverageTier list \<Rightarrow> jsnum option \<Rightarrow> jsnum option \<Rightarrow> jsnum option" where
  "rl_bands n [] bestLev bestFrom = bestLev"
| "rl_bands n (t # ts) bestLev bestFrom =
     (let from = parseBound (notional_from t) in
      if isNaN from \<or> jlt n from then rl_bands n ts bestLev bestFrom
      else
        (case (case notional_to t of
                 None \<Rightarrow> Some True
               | Some toRaw \<Rightarrow>
                   if trim toRaw = [] then Some True
                   else (let to = parseBound toRaw in if isNaN to then None else Some (jlt n to))) of
           None \<Rightarrow> rl_bands n ts bestLev bestFrom
         | Some inTier \<Rightarrow>
             if inTier \<and> (bestFrom = None \<or> jlt (the bestFrom) from)
             then rl_bands n ts (Some (max_leverage t)) (Some from)
             else rl_bands n ts bestLev bestFrom))"

text \<open>The second loop; \<open>k\<close> tiers, \<open>tiers[0]\<close> to \<open>tiers[k - 1]\<close>, are still to be looked at.\<close>

fun rl_open :: "jsnum \<Rightarrow> SymbolLeverageTier list \<Rightarrow> nat \<Rightarrow> jsnum option" where
  "rl_open n tiers 0 = None"
| "rl_open n tiers (Suc i) =
     (let t = tiers ! i in
      if notional_to t \<noteq> None \<and> trim (the (notional_to t)) \<noteq> [] then rl_open n tiers i
      else let from = parseBound (notional_from t) in
        if isNaN from then rl_open n tiers i
        else if jle from n then Some (max_leverage t)
        else rl_open n tiers i)"

text \<open>The third loop with its variable \<open>bestFloor\<close>.\<close>

fun rl_floor :: "SymbolLeverageTier list \<Rightarrow> (jsnum \<times> jsnum) option \<Rightarrow> (jsnum \<times> jsnum) option" where
  "rl_floor [] bestFloor = bestFloor"
| "rl_floor (t # ts) bestFloor =
     (let from = parseBound (notional_from t) in
      if isNaN from then rl_floor ts bestFloor
      else if bestFloor = None \<or> jlt from (fst (the bestFloor)) then rl_floor ts (Some (from, max_leverage t))
      else rl_floor ts bestFloor)"

text \<open>\<open>None\<close> for an argument is \<open>null\<close> or \<open>undefined\<close>.\<close>

definition resolveEffectiveLeverageFromTiersOrNull ::
  "jsnum \<Rightarrow> SymbolLeverageTier list option \<Rightarrow> jsnum option \<Rightarrow> jsnum option \<Rightarrow> jsnum option" where
  "resolveEffectiveLeverageFromTiersOrNull notional tiersArg userMin userMax =
     (if tiersArg = None \<or> tiersArg = Some [] then None
      else
        let tiers = the tiersArg;
            userMinN = (case userMin of Some v \<Rightarrow> v | None \<Rightarrow> Num 1);
            userMaxN = (case userMax of Some v \<Rightarrow> v | None \<Rightarrow> Num 500) in
        if jlt userMinN (Num 1) \<or> jlt userMaxN (Num 1) \<or> jlt userMaxN userMinN then None
        else if \<not> isFinite notional \<or> jlt notional (Num 0) then None
        else if jeq notional (Num 0) then None
        else
          let s1 = rl_bands notional tiers None None;
              s2 = (if s1 = None then rl_open notional tiers (length tiers) else s1);
              s3 = (if s2 = None \<and> jlt (Num 0) notional then
                      (case rl_floor tiers None of
                         Some b \<Rightarrow> if jlt notional (fst b) then Some (snd b) else s2
                       | None \<Rightarrow> s2)
                    else s2)
          in case s3 of
               None \<Rightarrow> None
             | Some l \<Rightarrow> if jlt l (Num 1) then None else Some (jmax userMinN (jmin userMaxN l)))"

section \<open>Margin of the order form\<close>

datatype OrderSide = BUY | SELL
datatype OrderType = MARKET | LIMIT

record margin_args =
  ma_bid :: jsnum
  ma_ask :: jsnum
  ma_side :: OrderSide
  ma_baseUnits :: jsnum
  ma_tiers :: "SymbolLeverageTier list option"
  ma_userMin :: "jsnum option"
  ma_userMax :: "jsnum option"
  ma_orderType :: OrderType
  ma_limitExecutionPrice :: "jsnum option"

text \<open>The price the order is assumed to execute at.\<close>

definition exec_price :: "margin_args \<Rightarrow> jsnum" where
  "exec_price a =
     (case (ma_orderType a, ma_limitExecutionPrice a) of
        (LIMIT, Some p) \<Rightarrow>
          if isFinite p \<and> jlt (Num 0) p then p else (if ma_side a = SELL then ma_bid a else ma_ask a)
      | _ \<Rightarrow> if ma_side a = SELL then ma_bid a else ma_ask a)"

definition clientMarketFallbackMarginUsdOrNull :: "margin_args \<Rightarrow> jsnum option" where
  "clientMarketFallbackMarginUsdOrNull a =
     (if \<not> isFinite (ma_baseUnits a) \<or> jle (ma_baseUnits a) (Num 0) then None
      else let exec = exec_price a in
        if \<not> isFinite exec \<or> jle exec (Num 0) then None
        else let notional = jmul (ma_baseUnits a) exec in
          case resolveEffectiveLeverageFromTiersOrNull notional (ma_tiers a) (ma_userMin a) (ma_userMax a) of
            None \<Rightarrow> None
          | Some lev \<Rightarrow> if jle lev (Num 0) then None else Some (jdiv notional lev))"

section \<open>Requests\<close>

datatype TimeInForce = GTC | IOC | FOK

record PlaceOrderRequest =
  po_symbol :: string
  po_side :: OrderSide
  po_order_type :: OrderType
  po_size :: string
  po_limit_price :: "string option"
  po_sl :: "string option"
  po_tp :: "string option"
  po_tif :: "TimeInForce option"
  po_client_order_id :: "string option"
  po_idempotency_key :: string
  po_slippage_bps :: "jsnum option"

record Order =
  ord_id :: string
  ord_symbol :: string
  ord_side :: string
  ord_order_type :: string
  ord_size :: string
  ord_price :: "string option"
  ord_stop_price :: "string option"
  ord_filled_size :: "string option"
  ord_average_price :: "string option"
  ord_avg_fill_price :: "string option"
  ord_status :: string
  ord_created_at :: string
  ord_updated_at :: string
  ord_filled_at :: "string option"
  ord_cancelled_at :: "string option"

record ListOrdersParams =
  lo_status :: "string option"
  lo_limit :: "jsnum option"
  lo_offset :: "jsnum option"

text \<open>
  \<open>URLSearchParams\<close>: the pairs in order; \<open>enc\<close> is the browser's form encoding of one text. A falsy
  parameter is left out.
\<close>

definition query_text :: "(string \<Rightarrow> string) \<Rightarrow> (string \<times> string) list \<Rightarrow> string" where
  "query_text enc ps = join_with ''&'' (map (\<lambda>(k, v). enc k @ ''='' @ enc v) ps)"

definition str_param :: "string \<Rightarrow> string option \<Rightarrow> (string \<times> string) list" where
  "str_param k v = (case v of Some s \<Rightarrow> if s \<noteq> [] then [(k, s)] else [] | None \<Rightarrow> [])"

definition num_param :: "string \<Rightarrow> jsnum option \<Rightarrow> (string \<times> string) list" where
  "num_param k v = (case v of Some x \<Rightarrow> if num_truthy x then [(k, toString x)] else [] | None \<Rightarrow> [])"

definition listOrders_endpoint :: "(string \<Rightarrow> string) \<Rightarrow> ListOrdersParams option \<Rightarrow> string" where
  "listOrders_endpoint enc params =
     (let ps = (case params of None \<Rightarrow> []
                | Some p \<Rightarrow> str_param ''status'' (lo_status p) @ num_param ''limit'' (lo_limit p) @
                    num_param ''offset'' (lo_offset p));
          q = query_text enc ps
      in ''/v1/orders'' @ (if q \<noteq> [] then ''?'' @ q else []))"

definition cancelOrder_endpoint :: "string \<Rightarrow> string" where
  "cancelOrder_endpoint i = ''/v1/orders/'' @ i @ ''/cancel''"

section \<open>The two searches are one\<close>

lemma rl_bands_fold: "rl_bands n ts bl bf = fst (foldl (band_step n) (bl, bf) ts)"
proof (induction ts arbitrary: bl bf)
  case (Cons t ts)
  have step: "band_step n (bl, bf) t =
      (if in_tier n t \<and> (bf = None \<or> jlt (the bf) (parseBound (notional_from t)))
       then (Some (max_leverage t), Some (parseBound (notional_from t))) else (bl, bf))"
    by (auto simp: band_step_def Let_def split: option.split)
  show ?case unfolding rl_bands.simps Cons.IH foldl_Cons step
    by (auto simp: in_tier_def open_ended_def Let_def isNaN_def split: option.splits if_splits)
qed simp

lemma rl_open_rev: "k \<le> length ts \<Longrightarrow> rl_open n ts k = open_band n (rev (take k ts))"
proof (induction k)
  case (Suc k)
  then have "rev (take (Suc k) ts) = ts ! k # rev (take k ts)"
    by (simp add: take_Suc_conv_app_nth)
  then show ?case using Suc by (auto simp: open_ended_def Let_def split: option.splits)
qed simp

lemma rl_floor_fold: "rl_floor ts bf = foldl floor_step bf ts"
  by (induction ts arbitrary: bf) (auto simp: floor_step_def Let_def split: option.splits)

lemma resolve_eq:
  "resolveEffectiveLeverageFromTiersOrNull n (Some ts) lo hi =
     effectiveLeverageFromTiers n ts (case lo of Some v \<Rightarrow> v | None \<Rightarrow> Num 1) (case hi of Some v \<Rightarrow> v | None \<Rightarrow> Num 500)"
proof -
  have open_eq: "rl_open n ts (length ts) = open_band n (rev ts)" by (simp add: rl_open_rev)
  have eq: "(let s1 = rl_bands n ts None None;
       s2 = (if s1 = None then rl_open n ts (length ts) else s1)
     in if s2 = None \<and> jlt (Num 0) n then
          (case rl_floor ts None of Some b \<Rightarrow> if jlt n (fst b) then Some (snd b) else s2 | None \<Rightarrow> s2)
        else s2) = symbol_leverage n ts"
    unfolding rl_bands_fold open_eq rl_floor_fold
    by (auto simp: symbol_leverage_def tightest_band_def lowest_floor_def Let_def split: option.splits)
  show ?thesis using eq
    by (simp add: resolveEffectiveLeverageFromTiersOrNull_def effectiveLeverageFromTiers_def Let_def)
qed

lemma resolve_None_tiers [simp]: "resolveEffectiveLeverageFromTiersOrNull n None lo hi = None"
  by (simp add: resolveEffectiveLeverageFromTiersOrNull_def)

lemma resolve_Some:
  assumes "resolveEffectiveLeverageFromTiersOrNull n tiers lo hi = Some l" "lo \<noteq> Some NaN" "hi \<noteq> Some NaN"
    "\<forall>t \<in> set (the tiers). max_leverage t \<noteq> NaN"
  shows "isFinite n \<and> jle (Num 1) l"
proof -
  let ?lo = "case lo of Some v \<Rightarrow> v | None \<Rightarrow> Num 1" and ?hi = "case hi of Some v \<Rightarrow> v | None \<Rightarrow> Num 500"
  obtain ts where ts: "tiers = Some ts" using assms(1) by (cases tiers) auto
  have eff: "effectiveLeverageFromTiers n ts ?lo ?hi = Some l" using assms(1) by (simp add: ts resolve_eq)
  have nn: "?lo \<noteq> NaN" "?hi \<noteq> NaN" using assms(2,3) by (auto split: option.splits)
  have "jle ?lo l" using effective_in_limits [OF nn _ eff] assms(4) by (simp add: ts)
  moreover have "isFinite n" "\<not> jlt ?lo (Num 1)" using eff by (auto simp: effectiveLeverageFromTiers_def split: if_splits)
  moreover have "jle (Num 1) ?lo" using nn \<open>\<not> jlt ?lo (Num 1)\<close> by (simp add: not_jlt_iff)
  ultimately show ?thesis using jle_trans by blast
qed

text \<open>Dividing by at least one.\<close>

lemma jdiv_ge1:
  assumes "is_double (Num x)" "0 \<le> x" "jle (Num 1) y"
  shows "jle (Num 0) (jdiv (Num x) y) \<and> jle (jdiv (Num x) y) (Num x)"
proof (cases y)
  case (Num q)
  then have q: "1 \<le> q" using assms(3) by simp
  have "x / q \<le> x" using mult_left_mono [OF q assms(2)] q by (simp add: divide_le_eq)
  then have "jle (to_num (x / q)) (to_num x)" by (rule to_num_mono)
  moreover have "to_num x = Num x" using assms(1) by (rule is_double_to_num_eq)
  moreover have "jle (Num 0) (to_num (x / q))" using assms(2) q by (intro to_num_nonneg) simp
  ultimately show ?thesis using Num q by simp
qed (use assms in simp_all)

section \<open>Theorems\<close>

text \<open>The two copies of the tier search agree: what the account page shows as effective leverage is the
  value of the order form's search where that has one, and the default otherwise.\<close>

theorem leverage_searches_agree:
  "getEffectiveLeverage n tiers lo hi d =
     (case resolveEffectiveLeverageFromTiersOrNull n tiers lo hi of Some r \<Rightarrow> r | None \<Rightarrow> d)"
proof (cases tiers)
  case None
  then show ?thesis by (simp add: getEffectiveLeverage_def resolveEffectiveLeverageFromTiersOrNull_def)
next
  case (Some ts)
  show ?thesis
  proof (cases ts)
    case Nil
    then show ?thesis using Some by (simp add: getEffectiveLeverage_def resolveEffectiveLeverageFromTiersOrNull_def)
  next
    case (Cons t us)
    then show ?thesis unfolding Some resolve_eq
      by (auto simp: getEffectiveLeverage_def effectiveLeverageFromTiers_def Let_def)
  qed
qed

text \<open>The order form's margin, when it has one, is the notional at the assumed price divided by a leverage of
  at least one, so it is between zero and the notional; the price and the size are then positive.\<close>

theorem margin_fallback_bounds:
  assumes "clientMarketFallbackMarginUsdOrNull a = Some m"
    and "ma_userMin a \<noteq> Some NaN" "ma_userMax a \<noteq> Some NaN"
    and "\<forall>t \<in> set (the (ma_tiers a)). max_leverage t \<noteq> NaN"
  shows "let notional = jmul (ma_baseUnits a) (exec_price a) in
     jlt (Num 0) (ma_baseUnits a) \<and> jlt (Num 0) (exec_price a) \<and>
     (\<exists>lev. resolveEffectiveLeverageFromTiersOrNull notional (ma_tiers a) (ma_userMin a) (ma_userMax a) = Some lev \<and>
        jle (Num 1) lev \<and> m = jdiv notional lev) \<and>
     jle (Num 0) m \<and> jle m notional"
proof -
  let ?n = "jmul (ma_baseUnits a) (exec_price a)"
  obtain lev where l: "resolveEffectiveLeverageFromTiersOrNull ?n (ma_tiers a) (ma_userMin a) (ma_userMax a) = Some lev"
    "m = jdiv ?n lev" and fin: "isFinite (ma_baseUnits a)" "isFinite (exec_price a)"
    and pos: "\<not> jle (ma_baseUnits a) (Num 0)" "\<not> jle (exec_price a) (Num 0)"
    using assms(1) by (auto simp: clientMarketFallbackMarginUsdOrNull_def Let_def split: if_splits option.splits)
  from fin obtain u p where up: "ma_baseUnits a = Num u" "exec_price a = Num p"
    by (cases "ma_baseUnits a"; cases "exec_price a") auto
  have up0: "0 < u" "0 < p" using pos by (simp_all add: up)
  have lev: "isFinite ?n" "jle (Num 1) lev" using resolve_Some [OF l(1) assms(2-4)] by simp_all
  obtain x where x: "?n = Num x" using lev(1) by (cases ?n) auto
  have "is_double (Num x)" using is_double_jmul [of "ma_baseUnits a" "exec_price a"] by (simp only: x)
  moreover have "jle (Num 0) (Num x)" using up0 by (simp only: x [symmetric] up jmul.simps) (intro to_num_nonneg, simp)
  ultimately have "jle (Num 0) m \<and> jle m (Num x)" using jdiv_ge1 lev(2) by (simp only: l(2) x jle_Num)
  then show ?thesis using l lev(2) x up up0 by (simp add: Let_def)
qed

text \<open>The list's query has exactly the parameters that are given and not empty, and no question mark otherwise.\<close>

lemma listOrders_plain: "listOrders_endpoint enc None = ''/v1/orders''"
  by (simp add: listOrders_endpoint_def query_text_def)

section \<open>Concrete orders\<close>

definition sample_margin :: margin_args where
  "sample_margin = \<lparr>ma_bid = Num 50, ma_ask = Num 200, ma_side = SELL, ma_baseUnits = Num 3,
     ma_tiers = Some sample_tiers, ma_userMin = None, ma_userMax = Some (Num 40), ma_orderType = LIMIT,
     ma_limitExecutionPrice = Some (Num (- 1))\<rparr>"

lemma sample_margin_eval: "clientMarketFallbackMarginUsdOrNull sample_margin = Some (jdiv (Num 150) (Num 40))"
  using sample_tiers_results(1)
  by (simp add: clientMarketFallbackMarginUsdOrNull_def sample_margin_def exec_price_def resolve_eq num_simps Let_def)

lemma margin_fallback_bounds_witness:
  "jle (Num 0) (jdiv (Num 150) (Num 40)) \<and> jle (jdiv (Num 150) (Num 40)) (Num 150)"
  using margin_fallback_bounds [OF sample_margin_eval] sample_tiers_eval(5)
  by (simp add: sample_margin_def exec_price_def num_simps Let_def)

end
