(* ===== verification/Admin_Trading.thy ===== *)
theory Admin_Trading
  imports Ws_Events Machine Js_Text
begin

text \<open>
  The admin trading screen (\<open>features/adminTrading\<close>): its types, its store, the hook that applies the
  server's events to the store, and the hook for live marks.

  Position updates are buffered and flushed together: 100 ms after the first one a timer fires and
  asks for an animation frame, and the frame applies the buffer. Timer, frame and server events are
  separate steps. The payloads the source casts from \<open>any\<close> are read by the parameters of \<open>casts\<close>.
\<close>

section \<open>Types\<close>

datatype OrderStatus = OsPending | OsPENDING | OsCancelling | OsCANCELLING | OsPartiallyFilled | OsFilled | OsCancelled
  | OsRejected | OsOpen
datatype OrderSide = BUY | SELL
datatype OrderType = MARKET | LIMIT | STOP | STOP_LIMIT
datatype PositionSide = LONG | SHORT
datatype PositionStatus = PsOPEN | PsOpen | PsCLOSED | PsClosed | PsLIQUIDATED
datatype TimeInForce = GTC | IOC | FOK

record AdminOrder =
  ao_id :: string
  ao_userId :: string
  ao_userName :: string
  ao_userEmail :: "string option"
  ao_userFirstName :: "string option"
  ao_userLastName :: "string option"
  ao_groupId :: string
  ao_groupName :: string
  ao_symbolId :: string
  ao_symbol :: string
  ao_side :: OrderSide
  ao_orderType :: OrderType
  ao_size :: jsnum
  ao_filledSize :: "jsnum option"
  ao_price :: "jsnum option"
  ao_stopPrice :: "jsnum option"
  ao_timeInForce :: "TimeInForce option"
  ao_status :: OrderStatus
  ao_averagePrice :: "jsnum option"
  ao_createdAt :: string
  ao_updatedAt :: string
  ao_cancelledAt :: "string option"
  ao_filledAt :: "string option"
  ao_rejectedAt :: "string option"
  ao_rejectionReason :: "string option"

record AdminPosition =
  ap_id :: string
  ap_userId :: string
  ap_userName :: string
  ap_userEmail :: "string option"
  ap_groupId :: string
  ap_groupName :: string
  ap_symbolId :: string
  ap_symbol :: string
  ap_side :: PositionSide
  ap_size :: jsnum
  ap_entryPrice :: jsnum
  ap_markPrice :: jsnum
  ap_leverage :: jsnum
  ap_marginUsed :: jsnum
  ap_marginAvailable :: "jsnum option"
  ap_liquidationPrice :: jsnum
  ap_pnl :: jsnum
  ap_pnlPercent :: jsnum
  ap_accumulatedSwapUsd :: "jsnum option"
  ap_accumulatedFeesUsd :: "jsnum option"
  ap_status :: PositionStatus
  ap_stopLoss :: "jsnum option"
  ap_takeProfit :: "jsnum option"
  ap_openedAt :: string
  ap_closedAt :: "string option"
  ap_lastUpdatedAt :: string

datatype AuditTarget = TargetOrder | TargetPosition | TargetUser | TargetSystem

record AdminAuditLog =
  al_id :: string
  al_timestamp :: string
  al_adminId :: string
  al_adminEmail :: string
  al_action :: string
  al_targetType :: AuditTarget
  al_targetId :: string
  al_details :: "(string \<times> json) list option"
  al_ipAddress :: "string option"

record LookupSymbol =
  lk_id :: string
  lk_code :: string
  lk_name :: string
  lk_assetClass :: string

record LookupUser =
  lu_id :: string
  lu_email :: string
  lu_firstName :: "string option"
  lu_lastName :: "string option"
  lu_groupId :: string
  lu_groupName :: string

record LookupGroup =
  lg_id :: string
  lg_name :: string

record TabListQuery =
  q_search :: "string option"
  q_symbol :: "string option"
  q_groupId :: "string option"

definition tabListQueryKey :: "TabListQuery \<Rightarrow> string" where
  "tabListQueryKey q =
     (let s = (\<lambda>v. case v of Some x \<Rightarrow> x | None \<Rightarrow> []) in
      s (q_symbol q) @ ''|'' @ s (q_groupId q) @ ''|'' @ s (q_search q))"

record TradingFilters =
  tf_status :: "string option"
  tf_symbol :: "string option"
  tf_userId :: "string option"
  tf_groupId :: "string option"
  tf_search :: "string option"
  tf_limit :: "jsnum option"
  tf_cursor :: "string option"

text \<open>\<open>extra\<close> has at most \<open>status\<close>, \<open>limit\<close> and \<open>cursor\<close>.\<close>

definition toTradingFilters ::
  "TabListQuery \<Rightarrow> (string option \<times> jsnum option \<times> string option) option \<Rightarrow> TradingFilters" where
  "toTradingFilters q extra =
     (case (case extra of Some e \<Rightarrow> e | None \<Rightarrow> (None, None, None)) of (st, lm, cu) \<Rightarrow>
        \<lparr>tf_status = st, tf_symbol = q_symbol q, tf_userId = None, tf_groupId = q_groupId q,
         tf_search = q_search q, tf_limit = lm, tf_cursor = cu\<rparr>)"

section \<open>The store\<close>

datatype admin_tab = TabOrders | TabPositions | TabOrderHistory | TabPositionHistory

fun admin_tab_name :: "admin_tab \<Rightarrow> string" where
  "admin_tab_name TabOrders = ''orders''" | "admin_tab_name TabPositions = ''positions''"
| "admin_tab_name TabOrderHistory = ''order-history''" | "admin_tab_name TabPositionHistory = ''position-history''"

datatype ws_status = WsDisconnected | WsConnecting | WsConnected | WsAuthenticated

record admin_store =
  orders :: "(string, AdminOrder) jsmap"
  ordersCursor :: "string option"
  ordersHasMore :: bool
  ordersLoading :: bool
  positions :: "(string, AdminPosition) jsmap"
  positionsCursor :: "string option"
  positionsHasMore :: bool
  positionsLoading :: bool
  auditLogs :: "AdminAuditLog list"
  auditCursor :: "string option"
  auditHasMore :: bool
  auditLoading :: bool
  orderHistory :: "(string, AdminOrder) jsmap"
  orderHistoryLoading :: bool
  positionHistory :: "(string, AdminPosition) jsmap"
  positionHistoryLoading :: bool
  look_symbols :: "LookupSymbol list"
  look_users :: "LookupUser list"
  look_groups :: "LookupGroup list"
  activeTab :: admin_tab
  selectedOrderId :: "string option"
  selectedPositionId :: "string option"
  openModal :: "string option"
  wsStatus :: ws_status
  wsLastMessageAt :: "jsnum option"
  liveMarkBySymbol :: "(string, jsnum) jsmap"
  adminStorage :: storage

definition saved_tab :: "storage \<Rightarrow> admin_tab" where
  "saved_tab st = (case find (\<lambda>t. getItem st ''adminTradingActiveTab'' = Some (admin_tab_name t))
      [TabOrders, TabPositions, TabOrderHistory, TabPositionHistory] of Some t \<Rightarrow> t | None \<Rightarrow> TabOrders)"

definition admin_init :: "storage \<Rightarrow> admin_store" where
  "admin_init st = \<lparr>orders = [], ordersCursor = None, ordersHasMore = False, ordersLoading = False,
     positions = [], positionsCursor = None, positionsHasMore = False, positionsLoading = False,
     auditLogs = [], auditCursor = None, auditHasMore = False, auditLoading = False, orderHistory = [],
     orderHistoryLoading = False, positionHistory = [], positionHistoryLoading = False, look_symbols = [],
     look_users = [], look_groups = [], activeTab = saved_tab st, selectedOrderId = None, selectedPositionId = None,
     openModal = None, wsStatus = WsDisconnected, wsLastMessageAt = None, liveMarkBySymbol = [], adminStorage = st\<rparr>"

definition or_false :: "bool option \<Rightarrow> bool" where
  "or_false b = (case b of Some x \<Rightarrow> x | None \<Rightarrow> False)"

definition setOrders :: "AdminOrder list \<Rightarrow> string option \<Rightarrow> bool option \<Rightarrow> admin_store \<Rightarrow> admin_store" where
  "setOrders xs cursor hasMore s = s\<lparr>orders := by_id ao_id xs, ordersCursor := cursor, ordersHasMore := or_false hasMore\<rparr>"

definition upsertOrder :: "AdminOrder \<Rightarrow> admin_store \<Rightarrow> admin_store" where
  "upsertOrder x s = s\<lparr>orders := map_set (ao_id x) x (orders s)\<rparr>"

definition removeOrder :: "string \<Rightarrow> admin_store \<Rightarrow> admin_store" where
  "removeOrder i s = s\<lparr>orders := map_delete i (orders s)\<rparr>"

definition getOrdersArray :: "admin_store \<Rightarrow> AdminOrder list" where
  "getOrdersArray s = map_values (orders s)"

definition setPositions :: "AdminPosition list \<Rightarrow> string option \<Rightarrow> bool option \<Rightarrow> admin_store \<Rightarrow> admin_store" where
  "setPositions xs cursor hasMore s =
     s\<lparr>positions := by_id ap_id xs, positionsCursor := cursor, positionsHasMore := or_false hasMore\<rparr>"

definition upsertPosition :: "AdminPosition \<Rightarrow> admin_store \<Rightarrow> admin_store" where
  "upsertPosition x s = s\<lparr>positions := map_set (ap_id x) x (positions s)\<rparr>"

definition removePosition :: "string \<Rightarrow> admin_store \<Rightarrow> admin_store" where
  "removePosition i s = s\<lparr>positions := map_delete i (positions s)\<rparr>"

definition getPositionsArray :: "admin_store \<Rightarrow> AdminPosition list" where
  "getPositionsArray s = map_values (positions s)"

definition setAuditLogs :: "AdminAuditLog list \<Rightarrow> string option \<Rightarrow> bool option \<Rightarrow> admin_store \<Rightarrow> admin_store" where
  "setAuditLogs xs cursor hasMore s = s\<lparr>auditLogs := xs, auditCursor := cursor, auditHasMore := or_false hasMore\<rparr>"

definition appendAuditLog :: "AdminAuditLog \<Rightarrow> admin_store \<Rightarrow> admin_store" where
  "appendAuditLog x s = s\<lparr>auditLogs := take 1000 (x # auditLogs s)\<rparr>"

definition setOrderHistory :: "AdminOrder list \<Rightarrow> admin_store \<Rightarrow> admin_store" where
  "setOrderHistory xs s = s\<lparr>orderHistory := by_id ao_id xs\<rparr>"

definition setPositionHistory :: "AdminPosition list \<Rightarrow> admin_store \<Rightarrow> admin_store" where
  "setPositionHistory xs s = s\<lparr>positionHistory := by_id ap_id xs\<rparr>"

text \<open>The tab is set before the storage is written, which may throw.\<close>

definition setActiveTab :: "admin_tab \<Rightarrow> admin_store \<Rightarrow> admin_store \<times> js_error option" where
  "setActiveTab t s =
     (let s = s\<lparr>activeTab := t\<rparr> in
      if adminStorage s = None then (s, Some (Err ''SecurityError''))
      else (s\<lparr>adminStorage := setItem ''adminTradingActiveTab'' (admin_tab_name t) (adminStorage s)\<rparr>, None))"

definition setLiveMark :: "string \<Rightarrow> jsnum \<Rightarrow> admin_store \<Rightarrow> admin_store" where
  "setLiveMark sy m s = s\<lparr>liveMarkBySymbol := map_set (toUpperCase sy) m (liveMarkBySymbol s)\<rparr>"

definition getOrderHistoryArray :: "admin_store \<Rightarrow> AdminOrder list" where
  "getOrderHistoryArray s = map_values (orderHistory s)"

definition getPositionHistoryArray :: "admin_store \<Rightarrow> AdminPosition list" where
  "getPositionHistoryArray s = map_values (positionHistory s)"

definition clearLiveMarks :: "admin_store \<Rightarrow> admin_store" where
  "clearLiveMarks s = s\<lparr>liveMarkBySymbol := []\<rparr>"

text \<open>The store's actions, the plain setters included.\<close>

datatype admin_action =
    SetOrders "AdminOrder list" "string option" "bool option" | UpsertOrder AdminOrder | RemoveOrder string
  | SetPositions "AdminPosition list" "string option" "bool option" | UpsertPosition AdminPosition | RemovePosition string
  | SetAuditLogs "AdminAuditLog list" "string option" "bool option" | AppendAuditLog AdminAuditLog
  | SetOrderHistory "AdminOrder list" | SetPositionHistory "AdminPosition list"
  | SetOrdersLoading bool | SetPositionsLoading bool | SetAuditLoading bool | SetOrderHistoryLoading bool
  | SetPositionHistoryLoading bool | SetSymbols "LookupSymbol list" | SetUsers "LookupUser list"
  | SetGroups "LookupGroup list" | SetActiveTab admin_tab | SetSelectedOrderId "string option"
  | SetSelectedPositionId "string option" | SetOpenModal "string option" | SetWsStatus ws_status
  | SetWsLastMessageAt jsnum | SetLiveMark string jsnum | ClearLiveMarks

fun admin_do :: "admin_action \<Rightarrow> admin_store \<Rightarrow> admin_store" where
  "admin_do (SetOrders xs cu m) s = setOrders xs cu m s"
| "admin_do (UpsertOrder x) s = upsertOrder x s"
| "admin_do (RemoveOrder i) s = removeOrder i s"
| "admin_do (SetPositions xs cu m) s = setPositions xs cu m s"
| "admin_do (UpsertPosition x) s = upsertPosition x s"
| "admin_do (RemovePosition i) s = removePosition i s"
| "admin_do (SetAuditLogs xs cu m) s = setAuditLogs xs cu m s"
| "admin_do (AppendAuditLog x) s = appendAuditLog x s"
| "admin_do (SetOrderHistory xs) s = setOrderHistory xs s"
| "admin_do (SetPositionHistory xs) s = setPositionHistory xs s"
| "admin_do (SetOrdersLoading b) s = s\<lparr>ordersLoading := b\<rparr>"
| "admin_do (SetPositionsLoading b) s = s\<lparr>positionsLoading := b\<rparr>"
| "admin_do (SetAuditLoading b) s = s\<lparr>auditLoading := b\<rparr>"
| "admin_do (SetOrderHistoryLoading b) s = s\<lparr>orderHistoryLoading := b\<rparr>"
| "admin_do (SetPositionHistoryLoading b) s = s\<lparr>positionHistoryLoading := b\<rparr>"
| "admin_do (SetSymbols xs) s = s\<lparr>look_symbols := xs\<rparr>"
| "admin_do (SetUsers xs) s = s\<lparr>look_users := xs\<rparr>"
| "admin_do (SetGroups xs) s = s\<lparr>look_groups := xs\<rparr>"
| "admin_do (SetActiveTab t) s = fst (setActiveTab t s)"
| "admin_do (SetSelectedOrderId i) s = s\<lparr>selectedOrderId := i\<rparr>"
| "admin_do (SetSelectedPositionId i) s = s\<lparr>selectedPositionId := i\<rparr>"
| "admin_do (SetOpenModal m) s = s\<lparr>openModal := m\<rparr>"
| "admin_do (SetWsStatus st) s = s\<lparr>wsStatus := st\<rparr>"
| "admin_do (SetWsLastMessageAt t) s = s\<lparr>wsLastMessageAt := Some t\<rparr>"
| "admin_do (SetLiveMark sy m) s = setLiveMark sy m s"
| "admin_do ClearLiveMarks s = clearLiveMarks s"

section \<open>Live marks\<close>

definition live_symbols :: "AdminPosition list \<Rightarrow> string list" where
  "live_symbols ps = set_of_list (map (\<lambda>p. trim (toUpperCase (ap_symbol p)))
     (filter (\<lambda>p. ap_status p = PsOPEN \<and> ap_symbol p \<noteq> []) ps))"

definition onTick :: "string \<Rightarrow> string \<Rightarrow> string \<Rightarrow> admin_store \<Rightarrow> admin_store" where
  "onTick sy bid ask s =
     (let b = parseFloat bid; a = parseFloat ask in
      if isFinite b \<and> isFinite a then setLiveMark sy (jdiv (jadd b a) (Num 2)) s else s)"

section \<open>Server events\<close>

datatype toast = Success string nat | Failure string nat

text \<open>\<open>Cleared\<close>: the timer is cancelled, but its handle is still in the ref.\<close>

datatype flush_state = Idle | TimerPending | FramePending | Cleared

record admin_hook =
  hstore :: admin_store
  updateBuffer :: "(string, AdminPosition) jsmap"
  flushTimeout :: flush_state
  toasts :: "toast list"
  mounted :: bool

definition hook_init :: "storage \<Rightarrow> admin_hook" where
  "hook_init st = \<lparr>hstore = admin_init st, updateBuffer = [], flushTimeout = Idle, toasts = [], mounted = True\<rparr>"

definition on_store :: "(admin_store \<Rightarrow> admin_store) \<Rightarrow> admin_hook \<Rightarrow> admin_hook" where
  "on_store f h = h\<lparr>hstore := f (hstore h)\<rparr>"

definition add_toast :: "toast \<Rightarrow> admin_hook \<Rightarrow> admin_hook" where
  "add_toast t h = h\<lparr>toasts := toasts h @ [t]\<rparr>"

text \<open>\<open>id.slice(0, 8)\<close> and an ellipsis.\<close>

definition short :: "string \<Rightarrow> string" where
  "short i = take 8 i @ ''...''"

text \<open>\<open>flushTimeoutRef\<close> is not null from the scheduling until the flush.\<close>

definition schedulePositionUpdate :: "AdminPosition \<Rightarrow> admin_hook \<Rightarrow> admin_hook" where
  "schedulePositionUpdate p h =
     (let h = h\<lparr>updateBuffer := map_set (ap_id p) p (updateBuffer h)\<rparr> in
      if flushTimeout h = Idle then h\<lparr>flushTimeout := TimerPending\<rparr> else h)"

definition flushPositionUpdates :: "admin_hook \<Rightarrow> admin_hook" where
  "flushPositionUpdates h =
     (if updateBuffer h = [] then h
      else
        (let updates = map_values (updateBuffer h); h = h\<lparr>updateBuffer := []\<rparr>;
             h = on_store (\<lambda>s. foldl (\<lambda>s p. upsertPosition p s) s updates) h
         in h\<lparr>flushTimeout := Idle\<rparr>))"

record casts =
  as_order :: "json \<Rightarrow> AdminOrder"
  as_position :: "json \<Rightarrow> AdminPosition"
  as_log :: "json \<Rightarrow> AdminAuditLog"

text \<open>Change an order or a position that the store has.\<close>

definition change_order :: "string \<Rightarrow> (AdminOrder \<Rightarrow> AdminOrder) \<Rightarrow> admin_store \<Rightarrow> admin_store" where
  "change_order i f s = (case map_get (orders s) i of Some x \<Rightarrow> upsertOrder (f x) s | None \<Rightarrow> s)"

definition change_position :: "string \<Rightarrow> (AdminPosition \<Rightarrow> AdminPosition) \<Rightarrow> admin_store \<Rightarrow> admin_store" where
  "change_position i f s = (case map_get (positions s) i of Some x \<Rightarrow> upsertPosition (f x) s | None \<Rightarrow> s)"

fun admin_event :: "casts \<Rightarrow> WsInboundEvent \<Rightarrow> admin_hook \<Rightarrow> admin_hook" where
  "admin_event c (InAdminOrderCreated j) h =
     (let x = as_order c j in add_toast (Success (''New order created: '' @ short (ao_id x)) 3000) (on_store (upsertOrder x) h))"
| "admin_event c (InAdminOrderUpdated j) h = on_store (upsertOrder (as_order c j)) h"
| "admin_event c (InAdminOrderCanceled p) h =
     add_toast (Success (''Order canceled: '' @ short (aoc_orderId p)) 3000)
       (on_store (change_order (aoc_orderId p) (\<lambda>x. x\<lparr>ao_status := OsCancelled, ao_cancelledAt := Some (aoc_timestamp p)\<rparr>)) h)"
| "admin_event c (InAdminOrderFilled p) h =
     add_toast (Success (''Order filled: '' @ short (aof_orderId p)) 3000)
       (on_store (change_order (aof_orderId p) (\<lambda>x. x\<lparr>ao_status := OsFilled, ao_filledSize := Some (aof_filledSize p),
          ao_averagePrice := Some (aof_averagePrice p), ao_filledAt := Some (aof_timestamp p)\<rparr>)) h)"
| "admin_event c (InAdminOrderRejected p) h =
     add_toast (Failure (''Order rejected: '' @ aor_reason p) 4000)
       (on_store (change_order (aor_orderId p) (\<lambda>x. x\<lparr>ao_status := OsRejected, ao_rejectedAt := Some (aor_timestamp p),
          ao_rejectionReason := Some (aor_reason p)\<rparr>)) h)"
| "admin_event c (InAdminPositionOpened j) h =
     (let x = as_position c j in add_toast (Success (''Position opened: '' @ ap_symbol x) 3000) (on_store (upsertPosition x) h))"
| "admin_event c (InAdminPositionUpdated j) h = schedulePositionUpdate (as_position c j) h"
| "admin_event c (InAdminPositionClosed p) h =
     add_toast (Success (''Position closed: '' @ short (apc_positionId p)) 3000) (on_store (removePosition (apc_positionId p)) h)"
| "admin_event c (InAdminPositionLiquidated p) h =
     add_toast (Failure (''Position liquidated: '' @ short (apl_positionId p)) 4000)
       (on_store (change_position (apl_positionId p)
          (\<lambda>x. x\<lparr>ap_status := PsLIQUIDATED, ap_closedAt := Some (apl_timestamp p)\<rparr>)) h)"
| "admin_event c (InAdminPositionSltp p) h =
     add_toast (Success (''SL/TP modified: '' @ short (aps_positionId p)) 3000)
       (on_store (change_position (aps_positionId p)
          (\<lambda>x. x\<lparr>ap_stopLoss := aps_stopLoss p, ap_takeProfit := aps_takeProfit p, ap_lastUpdatedAt := aps_timestamp p\<rparr>)) h)"
| "admin_event c (InAdminMarginCall p) h = add_toast (Failure (''Margin call for user: '' @ short (amc_userId p)) 5000) h"
| "admin_event c (InAdminLiquidationWarning p) h =
     add_toast (Failure (''Liquidation warning: '' @ short (alw_positionId p)) 5000) h"
| "admin_event c (InAdminAudit j) h = on_store (appendAuditLog (as_log c j)) h"
| "admin_event c _ h = h"

text \<open>The listener: every event also sets the time of the last message.\<close>

definition admin_message :: "casts \<Rightarrow> jsnum \<Rightarrow> WsInboundEvent \<Rightarrow> admin_hook \<Rightarrow> admin_hook" where
  "admin_message c now e h = admin_event c e (on_store (\<lambda>s. s\<lparr>wsLastMessageAt := Some now\<rparr>) h)"

datatype hook_event =
    ServerEvent jsnum WsInboundEvent | SocketState ws_status | TimerFires | FrameRuns | Unmount | Act admin_action

fun hook_enabled :: "hook_event \<Rightarrow> admin_hook \<Rightarrow> bool" where
  "hook_enabled (ServerEvent now e) h = mounted h"
| "hook_enabled (SocketState st) h = mounted h"
| "hook_enabled TimerFires h = (flushTimeout h = TimerPending)"
| "hook_enabled FrameRuns h = (flushTimeout h = FramePending)"
| "hook_enabled Unmount h = mounted h"
| "hook_enabled (Act a) h = True"

text \<open>The cleanup ends both subscriptions and cancels the timer; a frame that is already asked for still runs.\<close>

definition hook_cleanup :: "admin_hook \<Rightarrow> admin_hook" where
  "hook_cleanup h =
     (let h = h\<lparr>mounted := False\<rparr> in
      if flushTimeout h = TimerPending then h\<lparr>flushTimeout := Cleared\<rparr> else h)"

fun hook_do :: "casts \<Rightarrow> hook_event \<Rightarrow> admin_hook \<Rightarrow> admin_hook" where
  "hook_do c (ServerEvent now e) h = admin_message c now e h"
| "hook_do c (SocketState st) h = on_store (\<lambda>s. s\<lparr>wsStatus := st\<rparr>) h"
| "hook_do c TimerFires h = h\<lparr>flushTimeout := FramePending\<rparr>"
| "hook_do c FrameRuns h = flushPositionUpdates h"
| "hook_do c Unmount h = hook_cleanup h"
| "hook_do c (Act a) h = on_store (admin_do a) h"

section \<open>Maps keyed by id\<close>

lemma map_set_same [simp]: "map_set k v (map_set k w m) = map_set k v m"
  by (induction m) auto

lemma map_set_swap: "k' \<noteq> k \<Longrightarrow> map_has m k \<Longrightarrow> map_set k v (map_set k' w m) = map_set k' w (map_set k v m)"
  by (induction m) (force simp: map_has_def)+

text \<open>Writing to a buffer and then the buffer to the map is writing to the map.\<close>

lemma fold_set_late:
  "k \<notin> set (map key xs) \<Longrightarrow> map_has m k \<Longrightarrow>
     foldl (\<lambda>m x. map_set (key x) x m) (map_set k v m) xs = map_set k v (foldl (\<lambda>m x. map_set (key x) x m) m xs)"
proof (induction xs arbitrary: m)
  case (Cons x xs)
  then have swap: "map_set (key x) x (map_set k v m) = map_set k v (map_set (key x) x m)"
    using map_set_swap [of "key x" k m v x] by auto
  show ?case using Cons.IH [of "map_set (key x) x m"] Cons.prems by (simp add: swap)
qed simp

lemma write_through:
  "keyed key b \<Longrightarrow> foldl (\<lambda>m x. map_set (key x) x m) m (map_values (map_set (key y) y b)) =
     map_set (key y) y (foldl (\<lambda>m x. map_set (key x) x m) m (map_values b))"
proof (induction b arbitrary: m)
  case (Cons e b)
  obtain k x where e: "e = (k, x)" by force
  have k: "key x = k" "keyed key b" "k \<notin> set (map key (map_values b))"
    using Cons.prems by (auto simp: e keyed_def map_wf_def map_values_def) force
  show ?case
  proof (cases "k = key y")
    case True
    then have "map_set k y (map_set k x m) = map_set k y m" by simp
    then show ?thesis using fold_set_late [of k key "map_values b" "map_set k x m" y] k True
      by (simp add: e map_values_def)
  next
    case False
    then show ?thesis using Cons.IH [OF k(2)] k(1) by (simp add: e map_values_def)
  qed
qed (simp add: map_values_def)

section \<open>Invariant\<close>

definition store_inv :: "admin_store \<Rightarrow> bool" where
  "store_inv s \<longleftrightarrow> keyed ao_id (orders s) \<and> keyed ap_id (positions s) \<and>
     keyed ao_id (orderHistory s) \<and> keyed ap_id (positionHistory s)"

definition hook_inv :: "admin_hook \<Rightarrow> bool" where
  "hook_inv h \<longleftrightarrow> store_inv (hstore h) \<and> keyed ap_id (updateBuffer h) \<and>
     (updateBuffer h = [] \<longleftrightarrow> flushTimeout h = Idle) \<and> (mounted h \<longrightarrow> flushTimeout h \<noteq> Cleared)"

lemma on_store_simps [simp]: "hstore (on_store f h) = f (hstore h)" "updateBuffer (on_store f h) = updateBuffer h"
  "flushTimeout (on_store f h) = flushTimeout h" "toasts (on_store f h) = toasts h" "mounted (on_store f h) = mounted h"
  by (simp_all add: on_store_def)

lemma add_toast_simps [simp]: "hstore (add_toast t h) = hstore h" "updateBuffer (add_toast t h) = updateBuffer h"
  "flushTimeout (add_toast t h) = flushTimeout h" "mounted (add_toast t h) = mounted h"
  by (simp_all add: add_toast_def)

lemma upsert_simps [simp]: "orders (upsertOrder x s) = map_set (ao_id x) x (orders s)" "positions (upsertOrder x s) = positions s"
  "positions (upsertPosition y s) = map_set (ap_id y) y (positions s)" "orders (upsertPosition y s) = orders s"
  by (simp_all add: upsertOrder_def upsertPosition_def)

lemma upserts_fold: "positions (foldl (\<lambda>s p. upsertPosition p s) s ps) = foldl (\<lambda>m x. map_set (ap_id x) x m) (positions s) ps"
  by (induction ps arbitrary: s) simp_all

lemmas admin_ops = upsertOrder_def upsertPosition_def removeOrder_def removePosition_def appendAuditLog_def setOrders_def
  setPositions_def setAuditLogs_def setOrderHistory_def setPositionHistory_def setActiveTab_def setLiveMark_def
  clearLiveMarks_def

lemma store_inv_do: "store_inv s \<Longrightarrow> store_inv (admin_do a s)"
  by (cases a) (simp_all add: admin_ops store_inv_def keyed_set keyed_delete keyed_by_id Let_def)

lemma store_inv_upserts: "store_inv s \<Longrightarrow> store_inv (foldl (\<lambda>s p. upsertPosition p s) s ps)"
  using store_inv_do [of _ "UpsertPosition _"] by (induction ps arbitrary: s) simp_all

lemma store_inv_ops:
  "store_inv s \<Longrightarrow> store_inv (upsertOrder x s)" "store_inv s \<Longrightarrow> store_inv (upsertPosition y s)"
  "store_inv s \<Longrightarrow> store_inv (removePosition i s)" "store_inv s \<Longrightarrow> store_inv (appendAuditLog l s)"
  "store_inv s \<Longrightarrow> store_inv (s\<lparr>wsLastMessageAt := Some t\<rparr>)" "store_inv s \<Longrightarrow> store_inv (s\<lparr>wsStatus := w\<rparr>)"
  using store_inv_do [of s "UpsertOrder x"] store_inv_do [of s "UpsertPosition y"] store_inv_do [of s "RemovePosition i"]
    store_inv_do [of s "AppendAuditLog l"] store_inv_do [of s "SetWsLastMessageAt t"] store_inv_do [of s "SetWsStatus w"]
  by simp_all

lemma store_inv_change:
  "store_inv s \<Longrightarrow> store_inv (change_order i f s)" "store_inv s \<Longrightarrow> store_inv (change_position i g s)"
  by (simp_all add: change_order_def change_position_def store_inv_ops split: option.split)

lemma hook_inv_schedule: "hook_inv h \<Longrightarrow> hook_inv (schedulePositionUpdate p h)"
  by (auto simp: hook_inv_def schedulePositionUpdate_def keyed_set Let_def)

lemma hook_inv_flush: "hook_inv h \<Longrightarrow> hook_inv (flushPositionUpdates h)"
  by (auto simp: hook_inv_def flushPositionUpdates_def Let_def store_inv_upserts)

lemma hook_inv_on_store: "hook_inv h \<Longrightarrow> store_inv (f (hstore h)) \<Longrightarrow> hook_inv (on_store f h)"
  by (simp add: hook_inv_def)

lemma hook_inv_toast: "hook_inv (add_toast t h) = hook_inv h"
  by (simp add: hook_inv_def)

lemma hook_inv_D: "hook_inv h \<Longrightarrow> store_inv (hstore h)"
  by (simp add: hook_inv_def)

lemma hook_inv_event: "hook_inv h \<Longrightarrow> hook_inv (admin_event c e h)"
  by (cases e) (simp_all add: hook_inv_toast hook_inv_on_store hook_inv_schedule store_inv_ops store_inv_change hook_inv_D Let_def)

lemma hook_inv_cleanup: "hook_inv h \<Longrightarrow> hook_inv (hook_cleanup h)"
  by (auto simp: hook_inv_def hook_cleanup_def Let_def)

lemma hook_inv_step: "hook_inv h \<Longrightarrow> hook_enabled a h \<Longrightarrow> hook_inv (hook_do c a h)"
  by (cases a) (simp_all add: admin_message_def hook_inv_event hook_inv_on_store store_inv_ops store_inv_do hook_inv_D
      hook_inv_flush hook_inv_cleanup, simp add: hook_inv_def)

interpretation ahi: invariant_system hook_enabled "hook_do c" hook_inv "\<lambda>h. \<exists>st. h = hook_init st" for c
  by unfold_locales (rule hook_inv_step, assumption, assumption, auto simp: hook_inv_def store_inv_def hook_init_def admin_init_def)

section \<open>Theorems\<close>

text \<open>In every reachable state the maps of orders, positions, histories and buffered updates hold every item
  under its own id and no id twice. A flush is pending exactly when an update is buffered, so no
  update is left behind; only after the screen is left can its timer be cancelled.\<close>

theorem admin_invariant:
  assumes "reach (\<lambda>h. \<exists>st. h = hook_init st) hook_enabled (hook_do c) h"
  shows "keyed ao_id (orders (hstore h)) \<and> keyed ap_id (positions (hstore h)) \<and>
    keyed ao_id (orderHistory (hstore h)) \<and> keyed ap_id (positionHistory (hstore h)) \<and> keyed ap_id (updateBuffer h) \<and>
    (updateBuffer h = [] \<longleftrightarrow> flushTimeout h = Idle) \<and> (mounted h \<longrightarrow> flushTimeout h \<noteq> Cleared)"
  using ahi.reach_inv [OF assms] by (simp add: hook_inv_def store_inv_def)

lemma schedule_buffer: "updateBuffer (foldl (\<lambda>h p. schedulePositionUpdate p h) h ps) =
    foldl (\<lambda>m x. map_set (ap_id x) x m) (updateBuffer h) ps"
  "hstore (foldl (\<lambda>h p. schedulePositionUpdate p h) h ps) = hstore h"
  by (induction ps arbitrary: h) (simp_all add: schedulePositionUpdate_def Let_def)

lemma flush_positions: "positions (hstore (flushPositionUpdates h)) =
    foldl (\<lambda>m x. map_set (ap_id x) x m) (positions (hstore h)) (map_values (updateBuffer h))"
  by (simp add: flushPositionUpdates_def Let_def upserts_fold map_values_def)

lemma fold_through:
  fixes key :: "'a \<Rightarrow> string"
  shows "foldl (\<lambda>m x. map_set (key x) x m) m (map_values (foldl (\<lambda>m x. map_set (key x) x m) [] xs)) =
     foldl (\<lambda>m x. map_set (key x) x m) m xs"
proof (induction xs rule: rev_induct)
  case (snoc x xs)
  then show ?case using write_through [of key "foldl (\<lambda>m x. map_set (key x) x m) [] xs" m x]
    by (simp add: keyed_fold)
qed (simp add: map_values_def)

text \<open>C37. Buffering is invisible: position updates that are scheduled one after another and then flushed leave
  the map of positions, order included, that applying each of them at once would have left.\<close>

theorem buffering_equivalent:
  assumes "updateBuffer h = []"
  shows "positions (hstore (flushPositionUpdates (foldl (\<lambda>h p. schedulePositionUpdate p h) h ps))) =
    positions (foldl (\<lambda>s p. upsertPosition p s) (hstore h) ps)"
  unfolding flush_positions schedule_buffer upserts_fold assms by (rule fold_through)

text \<open>What is loaded is what is listed: the arrays of orders and of positions are the loaded lists, in their
  order, when the server sends no id twice.\<close>

theorem admin_lists_roundtrip:
  assumes "distinct (map ao_id xs)" "distinct (map ap_id ys)"
  shows "getOrdersArray (setOrders xs cu m s) = xs \<and> getPositionsArray (setPositions ys cu m s) = ys"
  using assms by (simp add: getOrdersArray_def setOrders_def getPositionsArray_def setPositions_def by_id_def
      map_values_load_distinct map_values_def comp_def)

text \<open>The stored tab is read back.\<close>

lemma saved_tab_roundtrip: "adminStorage s \<noteq> None \<Longrightarrow> saved_tab (adminStorage (fst (setActiveTab t s))) = t"
  by (cases t) (auto simp: setActiveTab_def saved_tab_def getItem_setItem Let_def)

section \<open>Concrete runs\<close>

definition sample_position :: "string \<Rightarrow> jsnum \<Rightarrow> AdminPosition" where
  "sample_position i m = \<lparr>ap_id = i, ap_userId = ''u'', ap_userName = ''U'', ap_userEmail = None, ap_groupId = ''g'',
     ap_groupName = ''G'', ap_symbolId = ''s'', ap_symbol = ''BTC'', ap_side = LONG, ap_size = Num 1, ap_entryPrice = Num 1,
     ap_markPrice = m, ap_leverage = Num 1, ap_marginUsed = Num 1, ap_marginAvailable = None, ap_liquidationPrice = Num 0,
     ap_pnl = Num 0, ap_pnlPercent = Num 0, ap_accumulatedSwapUsd = None, ap_accumulatedFeesUsd = None,
     ap_status = PsOPEN, ap_stopLoss = None, ap_takeProfit = None, ap_openedAt = [], ap_closedAt = None, ap_lastUpdatedAt = []\<rparr>"

definition sample_casts :: casts where
  "sample_casts = \<lparr>as_order = (\<lambda>j. undefined), as_position = (\<lambda>j. case j of JStr i \<Rightarrow> sample_position i (Num 7)
     | _ \<Rightarrow> sample_position [] (Num 0)), as_log = (\<lambda>j. undefined)\<rparr>"

text \<open>
  A position that is closed while an update for it is buffered comes back with the flush, and stays
  in the list of open positions.
\<close>

definition closing_run :: "hook_event list" where
  "closing_run = [Act (SetPositions [sample_position ''p1'' (Num 1)] None None),
     ServerEvent (Num 0) (InAdminPositionUpdated (JStr ''p1'')),
     ServerEvent (Num 1) (InAdminPositionClosed \<lparr>apc_positionId = ''p1'', apc_userId = ''u'', apc_closedSize = Num 1,
        apc_pnl = Num 0, apc_timestamp = []\<rparr>), TimerFires, FrameRuns]"

definition closing_end :: admin_hook where
  "closing_end = the (run hook_enabled (hook_do sample_casts) closing_run (hook_init None))"

lemma closed_position_returns:
  "run hook_enabled (hook_do sample_casts) closing_run (hook_init None) \<noteq> None \<and>
   getPositionsArray (hstore closing_end) = [sample_position ''p1'' (Num 7)]"
  by code_simp

lemma closing_end_run: "run hook_enabled (hook_do sample_casts) closing_run (hook_init None) = Some closing_end"
  using closed_position_returns by (auto simp: closing_end_def)

lemma admin_invariant_witness: "keyed ap_id (positions (hstore closing_end))"
  using admin_invariant [OF run_start [OF _ closing_end_run]] by blast

lemma buffering_equivalent_witness:
  "positions (hstore (flushPositionUpdates (foldl (\<lambda>h p. schedulePositionUpdate p h) (hook_init None)
      [sample_position ''p'' (Num 1), sample_position ''p'' (Num 2)]))) =
    positions (foldl (\<lambda>s p. upsertPosition p s) (admin_init None) [sample_position ''p'' (Num 1), sample_position ''p'' (Num 2)])"
  using buffering_equivalent [of "hook_init None" "[sample_position ''p'' (Num 1), sample_position ''p'' (Num 2)]"]
  by (simp add: hook_init_def)

lemma admin_lists_roundtrip_witness:
  "getPositionsArray (setPositions [sample_position ''p'' (Num 1), sample_position ''q'' (Num 1)] None None (admin_init None)) =
     [sample_position ''p'' (Num 1), sample_position ''q'' (Num 1)]"
  using admin_lists_roundtrip [of "[]" "[sample_position ''p'' (Num 1), sample_position ''q'' (Num 1)]" None None "admin_init None"]
  by (simp add: sample_position_def)

end
