(* ===== verification/Notifications.thy ===== *)
theory Notifications
  imports Ws_Events Machine Js_Json
begin

text \<open>
  The notifications of a user: \<open>shared/store/notificationsStore.ts\<close>. An action that waits for the
  server is cut in two, and the state counts the answers still outstanding.
\<close>

section \<open>Kinds\<close>

fun kind_name :: "NotificationKind \<Rightarrow> string" where
  "kind_name DEPOSIT_REQUEST = ''DEPOSIT_REQUEST''" | "kind_name DEPOSIT_APPROVED = ''DEPOSIT_APPROVED''"
| "kind_name DEPOSIT_REJECTED = ''DEPOSIT_REJECTED''" | "kind_name WITHDRAWAL_APPROVED = ''WITHDRAWAL_APPROVED''"
| "kind_name POSITION_SL = ''POSITION_SL''" | "kind_name POSITION_TP = ''POSITION_TP''"
| "kind_name POSITION_LIQUIDATED = ''POSITION_LIQUIDATED''" | "kind_name ADMIN_MESSAGE = ''ADMIN_MESSAGE''"
| "kind_name SWAP_FIRST_CHARGE = ''SWAP_FIRST_CHARGE''"

type_synonym notification = NotificationPushPayload

text \<open>The kinds that report the close of a position.\<close>

definition close_kind :: "notification \<Rightarrow> bool" where
  "close_kind n = (np_kind n = POSITION_SL \<or> np_kind n = POSITION_TP \<or> np_kind n = POSITION_LIQUIDATED)"

text \<open>\<open>n.meta?.positionId\<close>, where it is neither missing nor null.\<close>

definition position_id :: "notification \<Rightarrow> json option" where
  "position_id n = (case np_meta n of
     None \<Rightarrow> None
   | Some fs \<Rightarrow> (case map_of (rev fs) ''positionId'' of Some JNull \<Rightarrow> None | v \<Rightarrow> v))"

text \<open>\<open>item.meta?.positionId === p\<close> for a value \<open>p\<close> that is not null.\<close>

definition at_position :: "json \<Rightarrow> notification \<Rightarrow> bool" where
  "at_position p n = (case position_id n of Some q \<Rightarrow> strict_eq q p | None \<Rightarrow> False)"

section \<open>State and actions\<close>

record notifications =
  items :: "notification list"
  unreadCount :: int
  isLoading :: bool
  markReads :: "string list"
  markAlls :: nat
  loads :: nat

definition notifications_init :: notifications where
  "notifications_init = \<lparr>items = [], unreadCount = 0, isLoading = False, markReads = [], markAlls = 0, loads = 0\<rparr>"

definition push :: "notification \<Rightarrow> notifications \<Rightarrow> notifications" where
  "push n s =
     (if np_id n = [] \<or> list_ex (\<lambda>i. np_id i = np_id n) (items s) then s
      else
        (let already = (case position_id n of
             Some p \<Rightarrow> close_kind n \<and>
               list_ex (\<lambda>i. close_kind i \<and> at_position p i \<and> np_message i = np_message n) (items s)
           | None \<Rightarrow> False)
         in if already then s else s\<lparr>items := n # items s, unreadCount := unreadCount s + 1\<rparr>))"

definition markRead :: "string \<Rightarrow> notifications \<Rightarrow> notifications" where
  "markRead i s = s\<lparr>markReads := markReads s @ [i]\<rparr>"

text \<open>The answer to \<open>markRead\<close>; \<open>ok\<close> is whether the server accepted.\<close>

definition markRead_done :: "bool \<Rightarrow> string \<Rightarrow> notifications \<Rightarrow> notifications" where
  "markRead_done ok i s =
     (let s = s\<lparr>markReads := remove1 i (markReads s)\<rparr> in
      if \<not> ok then s
      else case find (\<lambda>n. np_id n = i) (items s) of
        Some n \<Rightarrow>
          if \<not> np_read n
          then s\<lparr>items := map (\<lambda>n. if np_id n = i then n\<lparr>np_read := True\<rparr> else n) (items s),
                 unreadCount := max 0 (unreadCount s - 1)\<rparr>
          else s
      | None \<Rightarrow> s)"

definition markAllRead :: "notifications \<Rightarrow> notifications" where
  "markAllRead s = s\<lparr>markAlls := markAlls s + 1\<rparr>"

definition markAllRead_done :: "bool \<Rightarrow> notifications \<Rightarrow> notifications" where
  "markAllRead_done ok s =
     (let s = s\<lparr>markAlls := markAlls s - 1\<rparr> in
      if \<not> ok then s else s\<lparr>items := map (\<lambda>n. n\<lparr>np_read := True\<rparr>) (items s), unreadCount := 0\<rparr>)"

definition clear :: "notifications \<Rightarrow> notifications" where
  "clear s = s\<lparr>items := [], unreadCount := 0\<rparr>"

definition setLoading :: "bool \<Rightarrow> notifications \<Rightarrow> notifications" where
  "setLoading b s = s\<lparr>isLoading := b\<rparr>"

definition loadNotifications :: "notifications \<Rightarrow> notifications" where
  "loadNotifications s = (if isLoading s then s else s\<lparr>isLoading := True, loads := loads s + 1\<rparr>)"

text \<open>The key of a close event, and the filter that keeps the first notification of every key.\<close>

definition close_key :: "notification \<Rightarrow> string option" where
  "close_key n = (case position_id n of
     Some p \<Rightarrow> if close_kind n then Some (kind_name (np_kind n) @ '':'' @ show_json p @ '':'' @ np_message n) else None
   | None \<Rightarrow> None)"

fun dedupe :: "string list \<Rightarrow> notification list \<Rightarrow> notification list" where
  "dedupe seen [] = []"
| "dedupe seen (n # ns) =
     (case close_key n of
        None \<Rightarrow> n # dedupe seen ns
      | Some k \<Rightarrow> if k \<in> set seen then dedupe seen ns else n # dedupe (k # seen) ns)"

text \<open>The answer to \<open>loadNotifications\<close>: a list (missing when falsy), or an error with its status.\<close>

datatype load_answer = Loaded "notification list option" | LoadFailed "nat option"

definition unread :: "notification list \<Rightarrow> int" where
  "unread ns = int (length (filter (\<lambda>n. \<not> np_read n) ns))"

definition load_done :: "load_answer \<Rightarrow> notifications \<Rightarrow> notifications" where
  "load_done a s =
     (let s = s\<lparr>loads := loads s - 1\<rparr>;
          s = (case a of
                 Loaded raw \<Rightarrow>
                   (let ns = dedupe [] (case raw of Some r \<Rightarrow> r | None \<Rightarrow> [])
                    in s\<lparr>items := ns, unreadCount := unread ns\<rparr>)
               | LoadFailed st \<Rightarrow>
                   if st = Some 401 then s\<lparr>items := [], unreadCount := 0\<rparr>
                   else if st = Some 404 \<or> st = Some 500 then s\<lparr>items := [], unreadCount := 0\<rparr>
                   else s)
      in s\<lparr>isLoading := False\<rparr>)"

section \<open>The machine\<close>

datatype notif_event =
    Push notification | MarkRead string | MarkReadDone bool string | MarkAll | MarkAllDone bool
  | Clear | SetLoading bool | Load | LoadDone load_answer

fun notif_enabled :: "notif_event \<Rightarrow> notifications \<Rightarrow> bool" where
  "notif_enabled (MarkReadDone ok i) s = (i \<in> set (markReads s))"
| "notif_enabled (MarkAllDone ok) s = (0 < markAlls s)"
| "notif_enabled (LoadDone a) s = (0 < loads s)"
| "notif_enabled _ s = True"

fun notif_do :: "notif_event \<Rightarrow> notifications \<Rightarrow> notifications" where
  "notif_do (Push n) s = push n s"
| "notif_do (MarkRead i) s = markRead i s"
| "notif_do (MarkReadDone ok i) s = markRead_done ok i s"
| "notif_do MarkAll s = markAllRead s"
| "notif_do (MarkAllDone ok) s = markAllRead_done ok s"
| "notif_do Clear s = clear s"
| "notif_do (SetLoading b) s = setLoading b s"
| "notif_do Load s = loadNotifications s"
| "notif_do (LoadDone a) s = load_done a s"

text \<open>What the server is expected to send: unread pushes, and lists without an id twice.\<close>

fun server_ok :: "notif_event \<Rightarrow> bool" where
  "server_ok (Push n) = (\<not> np_read n)"
| "server_ok (LoadDone (Loaded (Some ns))) = distinct (map np_id ns)"
| "server_ok _ = True"

section \<open>Invariant\<close>

definition count_ok :: "notifications \<Rightarrow> bool" where
  "count_ok s \<longleftrightarrow> distinct (map np_id (items s)) \<and> unreadCount s = unread (items s)"

lemma dedupe_subset: "set (dedupe seen ns) \<subseteq> set ns"
  by (induction seen ns rule: dedupe.induct) (auto split: option.split)

lemma dedupe_distinct: "distinct (map np_id ns) \<Longrightarrow> distinct (map np_id (dedupe seen ns))"
  using dedupe_subset by (induction seen ns rule: dedupe.induct) (fastforce split: option.split)+

lemma unread_read_all: "unread (map (\<lambda>n. n\<lparr>np_read := True\<rparr>) ns) = 0"
  by (simp add: unread_def)

lemma unread_Cons: "unread (n # ns) = (if np_read n then unread ns else unread ns + 1)"
  by (simp add: unread_def)

lemma unread_nonneg [simp]: "0 \<le> unread ns"
  by (simp add: unread_def)

lemma map_mark_id: "map np_id (map (\<lambda>n. if np_id n = i then n\<lparr>np_read := True\<rparr> else n) ns) = map np_id ns"
  by (induction ns) simp_all

lemma map_mark_none: "i \<notin> np_id ` set ns \<Longrightarrow> map (\<lambda>n. if np_id n = i then n\<lparr>np_read := True\<rparr> else n) ns = ns"
  by (induction ns) auto

lemma unread_mark:
  "distinct (map np_id ns) \<Longrightarrow> find (\<lambda>n. np_id n = i) ns = Some n \<Longrightarrow> \<not> np_read n \<Longrightarrow>
     unread (map (\<lambda>n. if np_id n = i then n\<lparr>np_read := True\<rparr> else n) ns) = unread ns - 1"
proof (induction ns)
  case (Cons m ns)
  show ?case
  proof (cases "np_id m = i")
    case True
    then have rest: "map (\<lambda>n. if np_id n = i then n\<lparr>np_read := True\<rparr> else n) ns = ns"
      using Cons.prems(1) by (intro map_mark_none) auto
    show ?thesis using Cons.prems True by (simp add: rest unread_Cons)
  next
    case False
    then show ?thesis using Cons by (simp add: unread_Cons)
  qed
qed simp

lemma count_ok_step: "count_ok s \<Longrightarrow> server_ok e \<Longrightarrow> count_ok (notif_do e s)"
proof (cases e)
  case (Push n)
  assume "count_ok s" "server_ok e"
  with Push show ?thesis by (auto simp: count_ok_def push_def unread_Cons list_ex_iff Let_def)
next
  case (MarkReadDone ok i)
  assume s: "count_ok s"
  show ?thesis
  proof (cases "find (\<lambda>n. np_id n = i) (items s)")
    case None
    then show ?thesis using s MarkReadDone by (simp add: count_ok_def markRead_done_def Let_def)
  next
    case (Some n)
    show ?thesis
    proof (cases "ok \<and> \<not> np_read n")
      case True
      then have unr: "\<not> np_read n" by blast
      have len: "unread (map (\<lambda>n. if np_id n = i then n\<lparr>np_read := True\<rparr> else n) (items s)) = unread (items s) - 1"
        using s by (intro unread_mark [OF _ Some unr]) (simp add: count_ok_def)
      then have "0 \<le> unread (items s) - 1" using unread_nonneg by metis
      then show ?thesis using s Some True MarkReadDone len
        by (simp add: count_ok_def markRead_done_def map_mark_id Let_def del: map_map)
    next
      case False
      then show ?thesis using s Some MarkReadDone by (auto simp: count_ok_def markRead_done_def Let_def)
    qed
  qed
next
  case (LoadDone a)
  assume s: "count_ok s" "server_ok e"
  show ?thesis
  proof (cases a)
    case (Loaded raw)
    then show ?thesis using s LoadDone
      by (cases raw) (simp_all add: count_ok_def load_done_def dedupe_distinct Let_def)
  next
    case (LoadFailed st)
    then show ?thesis using s LoadDone by (auto simp: count_ok_def load_done_def unread_def Let_def)
  qed
qed (auto simp: count_ok_def markRead_def markAllRead_def markAllRead_done_def clear_def setLoading_def
      loadNotifications_def unread_read_all unread_def comp_def Let_def)

interpretation nco: invariant_system "\<lambda>e s. notif_enabled e s \<and> server_ok e" notif_do count_ok "\<lambda>s. s = notifications_init"
  by unfold_locales (use count_ok_step in blast, simp add: count_ok_def notifications_init_def unread_def)

text \<open>Two notifications report the same close.\<close>

definition same_close :: "notification \<Rightarrow> notification \<Rightarrow> bool" where
  "same_close m n \<longleftrightarrow> close_kind m \<and> close_kind n \<and> np_kind m = np_kind n \<and> np_message m = np_message n \<and>
     (case position_id n of Some p \<Rightarrow> at_position p m | None \<Rightarrow> False)"

definition no_double_close :: "notification list \<Rightarrow> bool" where
  "no_double_close ns = sorted_wrt (\<lambda>a b. \<not> same_close b a) ns"

lemma same_close_key: "same_close m n \<Longrightarrow> close_key m = close_key n \<and> close_key n \<noteq> None"
  by (auto simp: same_close_def close_key_def at_position_def dest: strict_eq_show split: option.splits)

lemma dedupe_seen: "n \<in> set (dedupe seen ns) \<Longrightarrow> close_key n = Some k \<Longrightarrow> k \<notin> set seen"
  by (induction seen ns rule: dedupe.induct) (auto split: option.splits if_splits)

lemma dedupe_no_double: "no_double_close (dedupe seen ns)"
proof (induction seen ns rule: dedupe.induct)
  case (2 seen n ns)
  show ?case
  proof (cases "close_key n")
    case None
    then have "\<not> same_close m n" for m using same_close_key by blast
    with 2 None show ?thesis by (simp add: no_double_close_def)
  next
    case (Some k)
    have "\<not> same_close m n" if "m \<in> set (dedupe (k # seen) ns)" for m
      using dedupe_seen [OF that] same_close_key [of m n] Some by fastforce
    with 2 Some show ?thesis by (simp add: no_double_close_def)
  qed
qed (simp add: no_double_close_def)

text \<open>Marking as read does not touch what the comparison reads.\<close>

lemma read_update [simp]: "close_kind (n\<lparr>np_read := b\<rparr>) = close_kind n" "position_id (n\<lparr>np_read := b\<rparr>) = position_id n"
  "at_position p (n\<lparr>np_read := b\<rparr>) = at_position p n"
  by (simp_all add: close_kind_def position_id_def at_position_def)

lemma same_close_read:
  "same_close (if P m then m\<lparr>np_read := True\<rparr> else m) (if P n then n\<lparr>np_read := True\<rparr> else n) = same_close m n"
  "same_close (m\<lparr>np_read := True\<rparr>) (n\<lparr>np_read := True\<rparr>) = same_close m n"
  by (simp_all add: same_close_def split: option.split)

lemma no_double_map:
  "no_double_close (map (\<lambda>n. if P n then n\<lparr>np_read := True\<rparr> else n) ns) = no_double_close ns"
  "no_double_close (map (\<lambda>n. n\<lparr>np_read := True\<rparr>) ns) = no_double_close ns"
  by (simp_all add: no_double_close_def sorted_wrt_map same_close_read)

lemma push_no_double:
  "no_double_close (items s) \<Longrightarrow> no_double_close (items (push n s))"
  by (auto simp: push_def no_double_close_def same_close_def list_ex_iff Let_def split: option.splits)

lemma no_double_step: "no_double_close (items s) \<Longrightarrow> no_double_close (items (notif_do e s))"
proof (cases e)
  case (LoadDone a)
  assume "no_double_close (items s)"
  with LoadDone show ?thesis
    by (cases a) (auto simp: load_done_def dedupe_no_double Let_def no_double_close_def [of "[]"])
next
  case (MarkReadDone ok i)
  assume "no_double_close (items s)"
  with MarkReadDone show ?thesis
    by (auto simp: markRead_done_def Let_def no_double_map split: option.split)
qed (simp_all add: push_no_double markRead_def markAllRead_def markAllRead_done_def clear_def setLoading_def
      loadNotifications_def no_double_map Let_def no_double_close_def [of "[]"])

interpretation ndc: invariant_system "\<lambda>e s. notif_enabled e s" notif_do "\<lambda>s. no_double_close (items s)" "\<lambda>s. s = notifications_init"
  by unfold_locales (use no_double_step in blast, simp add: notifications_init_def no_double_close_def)

section \<open>Theorems\<close>

text \<open>The badge tells the truth: as long as the server pushes unread notifications and lists no id twice, the
  unread counter is in every reachable state the number of unread notifications shown, however marks,
  pushes and loads interleave.\<close>

theorem unread_count_exact:
  assumes "reach (\<lambda>s. s = notifications_init) (\<lambda>e s. notif_enabled e s \<and> server_ok e) notif_do s"
  shows "unreadCount s = int (length (filter (\<lambda>n. \<not> np_read n) (items s))) \<and> distinct (map np_id (items s))"
  using nco.reach_inv [OF assms] by (simp add: count_ok_def unread_def)

text \<open>The close of a position is shown once: in no reachable state do two listed notifications have the same
  close kind, position and message, whatever the server sends.\<close>

theorem close_shown_once:
  assumes "reach (\<lambda>s. s = notifications_init) (\<lambda>e s. notif_enabled e s) notif_do s" "i < j" "j < length (items s)"
  shows "\<not> same_close (items s ! j) (items s ! i)"
  using ndc.reach_inv [OF assms(1)] assms(2,3) by (auto simp: no_double_close_def sorted_wrt_iff_nth_less)

section \<open>Concrete runs\<close>

definition sample_notification :: "string \<Rightarrow> notification" where
  "sample_notification i = \<lparr>np_id = i, np_kind = POSITION_SL, np_title = [], np_message = ''m'', np_createdAt = [],
     np_read = False, np_meta = Some [(''positionId'', JStr ''p'')]\<rparr>"

definition notif_run :: "notif_event list" where
  "notif_run = [Push (sample_notification ''a''), Push (sample_notification ''b''),
     Push ((sample_notification ''c'')\<lparr>np_meta := None\<rparr>), MarkRead ''c'', MarkReadDone True ''c'']"

definition notif_end :: notifications where
  "notif_end = the (run (\<lambda>e s. notif_enabled e s \<and> server_ok e) notif_do notif_run notifications_init)"

lemma notif_eval: "run (\<lambda>e s. notif_enabled e s \<and> server_ok e) notif_do notif_run notifications_init \<noteq> None \<and>
    map np_id (items notif_end) = [''c'', ''a''] \<and> unreadCount notif_end = 1"
  by code_simp

lemma notif_end_run: "run (\<lambda>e s. notif_enabled e s \<and> server_ok e) notif_do notif_run notifications_init = Some notif_end"
  using notif_eval by (auto simp: notif_end_def)

lemma unread_count_exact_witness: "unreadCount notif_end = int (length (filter (\<lambda>n. \<not> np_read n) (items notif_end)))"
  using unread_count_exact [OF run_start [OF refl notif_end_run]] by blast

lemma notif_end_plain: "run (\<lambda>e s. notif_enabled e s) notif_do notif_run notifications_init = Some notif_end"
  using notif_end_run by (auto simp: notif_run_def split: if_splits)

lemma close_shown_once_witness: "\<not> same_close (items notif_end ! 1) (items notif_end ! 0)"
  using close_shown_once [OF run_start [OF refl notif_end_plain], of 0 1] notif_eval
  by (metis One_nat_def length_Cons length_map lessI zero_less_Suc list.size(3))

text \<open>A notification pushed while a list is being loaded disappears with the answer.\<close>

lemma push_lost_by_load:
  "case run notif_enabled notif_do [Load, Push (sample_notification ''a''), LoadDone (Loaded (Some []))] notifications_init of
     Some s \<Rightarrow> items s = [] | None \<Rightarrow> False"
  by code_simp

end
