(* ===== verification/Durations.thy ===== *)
theory Durations
  imports Js_Text
begin

text \<open>
  Texts for spans of time: \<open>features/terminal/utils/sessionCountdown.ts\<close> and
  \<open>shared/utils/duration.ts\<close>. The time value of a date text (\<open>new Date(s).getTime()\<close>, NaN when it
  cannot be read) and \<open>toLocaleString\<close> are parameters. The quotients are taken in binary64; the lemma
  \<open>jfloor_jdiv\<close> shows that rounding them down gives the integer quotient.
\<close>

section \<open>Integer quotients in binary64\<close>

lemma fl_div_below:
  fixes n d :: int
  assumes "0 \<le> n" "n < 2 ^ 53" "1 \<le> d" "d \<le> 10 ^ 15"
  shows "fl (of_int n / of_int d) < of_int (n div d) + 1"
proof (cases "n = 0")
  case False
  define y :: rat where "y = of_int n / of_int d"
  define e :: rat where "e = 2 powi (-53)"
  have e: "e * 2 ^ 53 = 1" "0 < e" by (simp_all add: e_def power_int_minus)
  have d1: "1 \<le> (of_int d :: rat)" "(of_int d :: rat) \<le> 10 ^ 15"
    using assms(3,4) of_int_le_iff [of d "10 ^ 15", where 'a = rat] by auto
  have n1: "1 \<le> (of_int n :: rat)" "(of_int n :: rat) < 2 ^ 53"
    using False assms(1,2) of_int_less_iff [of n "2 ^ 53", where 'a = rat] by auto
  have "(1::rat) / 10 ^ 15 \<le> y" unfolding y_def using n1(1) d1 by (intro frac_le) simp_all
  moreover have "(2::rat) powi (-1022) \<le> 2 powi (-50)" by (simp only: powi2_le_iff)
  moreover have "(2::rat) powi (-50) \<le> 1 / 10 ^ 15" by (simp add: power_int_minus)
  ultimately have normal: "2 powi (-1022) \<le> \<bar>y\<bar>" "0 < y" by (auto simp: field_simps)
  have "\<bar>fl y - y\<bar> \<le> \<bar>y\<bar> * e" unfolding e_def using normal(1) by (rule fl_error)
  then have up: "fl y \<le> y + y * e" using normal(2) by linarith
  have "of_int n * e < 2 ^ 53 * e" using n1(2) e(2) by (intro mult_strict_right_mono) simp_all
  then have "of_int n * e < 1" using e(1) by (simp add: mult.commute)
  then have "of_int n * e / of_int d < 1 / of_int d" using d1(1) by (intro divide_strict_right_mono) simp_all
  then have small: "y * e < 1 / of_int d" by (simp add: y_def)
  have "n \<le> d * (n div d) + (d - 1)"
    using pos_mod_bound [of d n] assms(3) mult_div_mod_eq [of d n] by linarith
  then have "(of_int n :: rat) \<le> of_int (d * (n div d) + (d - 1))" by (simp only: of_int_le_iff)
  then have "of_int n / of_int d \<le> (of_int d * of_int (n div d) + (of_int d - 1)) / (of_int d :: rat)"
    using d1(1) by (intro divide_right_mono) simp_all
  also have "\<dots> = of_int (n div d) + 1 - 1 / of_int d" using d1(1) by (simp add: field_simps)
  finally have "y \<le> of_int (n div d) + 1 - 1 / of_int d" by (simp add: y_def)
  then show ?thesis using up small unfolding y_def [symmetric] by linarith
qed simp

lemma div_between:
  fixes n d :: int
  assumes "0 \<le> n" "1 \<le> d"
  shows "0 \<le> n div d" "n div d \<le> n"
  using assms zdiv_mono2 [of n 1 d] by (simp_all add: pos_imp_zdiv_nonneg_iff)

lemma fl_div_above:
  fixes n d :: int
  assumes "0 \<le> n" "n < 2 ^ 53" "1 \<le> d"
  shows "of_int (n div d) \<le> fl (of_int n / of_int d)"
proof -
  have "d * (n div d) \<le> n" using assms(3) pos_mod_sign [of d n] mult_div_mod_eq [of d n] by linarith
  then have "of_int (d * (n div d)) \<le> (of_int n :: rat)" by (simp only: of_int_le_iff)
  then have "of_int (n div d) \<le> (of_int n / of_int d :: rat)" using assms(3) by (simp add: field_simps)
  then have "fl (of_int (n div d)) \<le> fl (of_int n / of_int d)" by (rule fl_mono)
  moreover have "\<bar>n div d\<bar> \<le> 2 ^ 53" using div_between [OF assms(1,3)] assms(2) by linarith
  ultimately show ?thesis by (simp only: fl_of_int)
qed

lemma jfloor_jdiv:
  fixes n d :: int
  assumes "0 \<le> n" "n < 2 ^ 53" "1 \<le> d" "d \<le> 10 ^ 15"
  shows "jfloor (jdiv (Num (of_int n)) (Num (of_int d))) = Num (of_int (n div d))"
proof -
  define m where "m = n div d"
  define y where "y = fl (of_int n / of_int d)"
  have y: "of_int m \<le> y" "y < of_int m + 1"
    unfolding m_def y_def by (rule fl_div_above [OF assms(1-3)], rule fl_div_below [OF assms])
  then have f: "\<lfloor>y\<rfloor> = m" by (rule floor_unique)
  have m: "0 \<le> m" "m + 1 \<le> 2 ^ 53" using div_between [OF assms(1,3)] assms(2) by (simp_all add: m_def)
  have "(of_int (m + 1) :: rat) \<le> of_int (2 ^ 53)" using m(2) by (simp only: of_int_le_iff)
  moreover have "(of_int (2 ^ 53) :: rat) < dbl_limit" using of_int_small [of "2 ^ 53"] by simp
  moreover have "(0::rat) \<le> of_int m" using m(1) by simp
  ultimately have "\<bar>y\<bar> < dbl_limit" using y by simp
  then have "jdiv (Num (of_int n)) (Num (of_int d)) = Num y"
    using assms(3) by (simp add: y_def to_num_def)
  then show ?thesis by (simp add: f m_def)
qed

section \<open>Countdown\<close>

record date_env =
  time_of :: "string \<Rightarrow> jsnum"
  locale_text :: "jsnum \<Rightarrow> string \<Rightarrow> string"

text \<open>\<open>a % b\<close>: the remainder has the sign of the dividend and is exact.\<close>

fun jrem :: "jsnum \<Rightarrow> jsnum \<Rightarrow> jsnum" where
  "jrem (Num x) (Num y) =
     (if y = 0 then NaN
      else Num (x - y * of_int (if 0 \<le> x / y then \<lfloor>x / y\<rfloor> else \<lceil>x / y\<rceil>)))"
| "jrem (Num x) PInf = Num x"
| "jrem (Num x) NInf = Num x"
| "jrem _ _ = NaN"

definition formatTimeUntil :: "date_env \<Rightarrow> string option \<Rightarrow> string option \<Rightarrow> jsnum \<Rightarrow> string" where
  "formatTimeUntil E targetIso timezone nowMs =
     (if \<not> truthy targetIso then []
      else
        let target = time_of E (the targetIso); diffMs = jsub target nowMs in
        if jle diffMs (Num 0) then ''now''
        else
          let seconds = jfloor (jdiv diffMs (Num 1000));
              minutes = jfloor (jdiv seconds (Num 60));
              hours = jfloor (jdiv minutes (Num 60));
              days = jfloor (jdiv hours (Num 24)) in
          if jle (Num 1) days then locale_text E target (if truthy timezone then the timezone else ''UTC'')
          else if jle (Num 1) hours then toString hours @ ''h '' @ toString (jrem minutes (Num 60)) @ ''m''
          else if jle (Num 1) minutes then toString minutes @ ''m''
          else toString seconds @ ''s'')"

definition formatOpensInLabel :: "date_env \<Rightarrow> string option \<Rightarrow> string option \<Rightarrow> jsnum \<Rightarrow> string" where
  "formatOpensInLabel E nextOpenAt timezone nowMs =
     (let inner = formatTimeUntil E nextOpenAt timezone nowMs in
      if inner = [] then [] else if inner = ''now'' then ''Opens now'' else ''Opens in '' @ inner)"

definition formatClosesInLabel :: "date_env \<Rightarrow> string option \<Rightarrow> string option \<Rightarrow> jsnum \<Rightarrow> string" where
  "formatClosesInLabel E nextCloseAt timezone nowMs =
     (let inner = formatTimeUntil E nextCloseAt timezone nowMs in
      if inner = [] then [] else if inner = ''now'' then ''Closes now'' else ''Closes in '' @ inner)"

section \<open>Age of an account\<close>

definition formatAccountAge :: "date_env \<Rightarrow> string \<Rightarrow> jsnum \<Rightarrow> string" where
  "formatAccountAge E createdAt nowMs =
     (let diffMs = jsub nowMs (time_of E createdAt);
          diffDays = jfloor (jdiv diffMs (Num 86400000)) in
      if jeq diffDays (Num 0) then ''Today''
      else if jeq diffDays (Num 1) then ''1 day''
      else if jlt diffDays (Num 30) then toString diffDays @ '' days''
      else
        let diffMonths = jfloor (jdiv diffDays (Num 30)) in
        if jeq diffMonths (Num 1) then ''1 month''
        else if jlt diffMonths (Num 12) then toString diffMonths @ '' months''
        else
          let diffYears = jfloor (jdiv diffMonths (Num 12)) in
          if jeq diffYears (Num 1) then ''1 year'' else toString diffYears @ '' years'')"

section \<open>Reference definitions\<close>

text \<open>The same texts from a whole number of milliseconds, in integer arithmetic.\<close>

definition countdown_text :: "int \<Rightarrow> string" where
  "countdown_text ms =
     (if ms \<ge> 3600000 then show_int (ms div 3600000) @ ''h '' @ show_int (ms div 60000 mod 60) @ ''m''
      else if ms \<ge> 60000 then show_int (ms div 60000) @ ''m''
      else show_int (ms div 1000) @ ''s'')"

definition age_text :: "int \<Rightarrow> string" where
  "age_text ms =
     (let days = ms div 86400000; months = days div 30; years = months div 12 in
      if days = 0 then ''Today''
      else if days < 30 then show_int days @ (if days = 1 then '' day'' else '' days'')
      else if months < 12 then show_int months @ (if months = 1 then '' month'' else '' months'')
      else show_int years @ (if years = 1 then '' year'' else '' years''))"

lemma toString_int: "0 \<le> n \<Longrightarrow> n < 2 ^ 53 \<Longrightarrow> toString (Num (of_int n)) = show_int n"
proof -
  assume "0 \<le> n" "n < 2 ^ 53"
  then have "\<bar>of_int n :: rat\<bar> < of_int (2 ^ 53)" using of_int_less_iff [of n "2 ^ 53", where 'a = rat] by simp
  then show ?thesis by simp
qed

lemma show_one: "show_int 1 = ''1''"
  by code_simp

lemma jrem_int: "0 \<le> a \<Longrightarrow> 0 < b \<Longrightarrow> jrem (Num (of_int a)) (Num (of_int b)) = Num (of_int (a mod b))"
  by (simp add: floor_divide_of_int_eq minus_mult_div_eq_mod flip: of_int_mult of_int_diff)

lemma jle_int [simp]: "jle (Num 1) (Num (of_int n)) \<longleftrightarrow> 1 \<le> n" "jle (Num (of_int n)) (Num 0) \<longleftrightarrow> n \<le> 0"
  by simp_all

section \<open>Theorems\<close>

text \<open>Every text below is of a quotient of the milliseconds.\<close>

lemma quotient_text:
  assumes "0 \<le> ms" "ms < 2 ^ 53" "1 \<le> d"
  shows "toString (Num (of_int (ms div d))) = show_int (ms div d)"
  using div_between [OF assms(1,3)] assms(2) by (intro toString_int) linarith+

lemma quotient_step:
  assumes "0 \<le> ms" "ms < 2 ^ 53" "1 \<le> d" "1 \<le> e" "e \<le> 10 ^ 15"
  shows "jfloor (jdiv (Num (of_int (ms div d))) (Num (of_int e))) = Num (of_int (ms div (d * e)))"
  using jfloor_jdiv [of "ms div d" e] div_between [OF assms(1,3)] assms by (simp add: zdiv_zmult2_eq)

lemmas js_numbers = toString.simps jrem.simps jfloor.simps jdiv.simps of_int_0

text \<open>The countdown, computed with three rounded quotients, is the exact one: for a session that opens in
  \<open>ms\<close> whole milliseconds, less than a day, the text is hours and minutes, minutes, or seconds of
  the integer quotients.\<close>

theorem countdown_exact:
  assumes "jsub (time_of E t) now = Num (of_int ms)" "0 < ms" "ms < 86400000" "t \<noteq> []"
  shows "formatTimeUntil E (Some t) tz now = countdown_text ms"
proof -
  have big: "0 \<le> ms" "ms < 2 ^ 53" using assms(2,3) by simp_all
  have q: "jfloor (jdiv (Num (of_int ms)) (Num 1000)) = Num (of_int (ms div 1000))"
    "jfloor (jdiv (Num (of_int (ms div 1000))) (Num 60)) = Num (of_int (ms div 60000))"
    "jfloor (jdiv (Num (of_int (ms div 60000))) (Num 60)) = Num (of_int (ms div 3600000))"
    "jfloor (jdiv (Num (of_int (ms div 3600000))) (Num 24)) = Num (of_int (ms div 86400000))"
    using jfloor_jdiv [of ms 1000] quotient_step [OF big, of 1000 60] quotient_step [OF big, of 60000 60]
      quotient_step [OF big, of 3600000 24] big by simp_all
  have r: "jrem (Num (of_int (ms div 60000))) (Num 60) = Num (of_int (ms div 60000 mod 60))"
    using jrem_int [of "ms div 60000" 60] big by (simp add: pos_imp_zdiv_nonneg_iff)
  have t: "toString (Num (of_int (ms div 60000 mod 60))) = show_int (ms div 60000 mod 60)"
    by (intro toString_int) (simp, rule less_trans [of _ 60], simp_all)
  have cases: "1 \<le> ms div 3600000 \<longleftrightarrow> ms \<ge> 3600000" "1 \<le> ms div 60000 \<longleftrightarrow> ms \<ge> 60000"
    "\<not> 1 \<le> ms div 86400000" using assms(2,3) by linarith+
  show ?thesis using assms(2,4)
    by (simp add: formatTimeUntil_def assms(1) Let_def q r t quotient_text [OF big] cases countdown_text_def
        del: js_numbers)
qed

theorem countdown_exact_witness:
  "formatTimeUntil \<lparr>time_of = \<lambda>_. Num 8100000, locale_text = \<lambda>_ _. []\<rparr> (Some ''2025-01-06T00:00:00Z'') None (Num 0) =
   countdown_text 8100000"
  by (rule countdown_exact) (simp_all add: jsub_def num_simps)

text \<open>The age of an account is exact too: for a creation date \<open>ms\<close> whole milliseconds before now the text counts
  whole days, then months of 30 days, then years of twelve such months, with the singular for one.\<close>

theorem account_age_exact:
  assumes "jsub now (time_of E t) = Num (of_int ms)" "0 \<le> ms" "ms < 2 ^ 53"
  shows "formatAccountAge E t now = age_text ms"
proof -
  let ?d = "ms div 86400000"
  have q: "jfloor (jdiv (Num (of_int ms)) (Num 86400000)) = Num (of_int ?d)"
    "jfloor (jdiv (Num (of_int ?d)) (Num 30)) = Num (of_int (ms div 2592000000))"
    "jfloor (jdiv (Num (of_int (ms div 2592000000))) (Num 12)) = Num (of_int (ms div 31104000000))"
    using jfloor_jdiv [of ms 86400000] quotient_step [OF assms(2,3), of 86400000 30]
      quotient_step [OF assms(2,3), of 2592000000 12] assms(2,3) by simp_all
  have d: "?d div 30 = ms div 2592000000" "ms div 2592000000 div 12 = ms div 31104000000"
    using zdiv_zmult2_eq [of 30 ms 86400000] zdiv_zmult2_eq [of 12 ms 2592000000] by simp_all
  show ?thesis
    by (simp add: formatAccountAge_def assms(1) Let_def q quotient_text [OF assms(2,3)] age_text_def d show_one
        del: js_numbers)
qed

theorem account_age_exact_witness:
  "formatAccountAge \<lparr>time_of = \<lambda>_. Num 0, locale_text = \<lambda>_ _. []\<rparr> ''1970-01-01'' (Num 172800000) = age_text 172800000"
  by (rule account_age_exact) (simp_all add: jsub_def num_simps)

end
