(* ===== verification/Position_Dock.thy ===== *)
theory Position_Dock
  imports Orders Machine Js_Json Js_Sort
begin

text \<open>
  The lists of open positions and pending orders in the terminal's dock
  (\<open>features/terminal/components/BottomDock.tsx\<close>, \<open>api/positions.api.ts\<close>). Three sources change them:
  answers to GET requests, which may be older than what is shown; updates over the WebSocket; and
  the user, who closes positions optimistically. Two maps keep them consistent: positions that the
  WebSocket added before the server lists them (\<open>wsAppendedAt\<close>), and tombstones of what was closed.

  Times are the milliseconds of \<open>Date.now()\<close>, integers. An update function given to \<open>setState\<close> runs
  in the step that schedules it. The requests a handler starts are recorded in \<open>requests\<close>.
\<close>

section \<open>Positions\<close>

record Position =
  pos_id :: string
  pos_user_id :: string
  pos_symbol :: string
  pos_side :: string
  pos_size :: string
  pos_original_size :: "string option"
  pos_entry_price :: string
  pos_avg_price :: string
  pos_exit_price :: "string option"
  pos_sl :: "string option"
  pos_tp :: "string option"
  pos_leverage :: string
  pos_margin :: string
  pos_unrealized_pnl :: string
  pos_realized_pnl :: string
  pos_accumulatedSwapUsd :: "string option"
  pos_accumulatedFeesUsd :: "string option"
  pos_status :: string
  pos_opened_at :: jsnum
  pos_updated_at :: jsnum
  pos_closed_at :: "jsnum option"

definition canonicalPositionId :: "string \<Rightarrow> string" where
  "canonicalPositionId i = toLowerCase (trim i)"

definition pos_key :: "Position \<Rightarrow> string" where
  "pos_key p = canonicalPositionId (pos_id p)"

definition WS_POSITION_GRACE_MS :: int where "WS_POSITION_GRACE_MS = 5000"
definition POSITION_CLOSE_TOMBSTONE_MS :: int where "POSITION_CLOSE_TOMBSTONE_MS = 25000"
definition POSITION_CLOSE_TOMBSTONE_MAX_MS :: int where "POSITION_CLOSE_TOMBSTONE_MAX_MS = 60000"

lemmas dock_times = WS_POSITION_GRACE_MS_def POSITION_CLOSE_TOMBSTONE_MS_def POSITION_CLOSE_TOMBSTONE_MAX_MS_def

text \<open>The loop of \<open>mergePositions\<close> over the current rows; it deletes the entries whose grace is over.\<close>

fun merge_locals ::
  "int \<Rightarrow> int \<Rightarrow> (string, Position) jsmap \<Rightarrow> Position list \<Rightarrow> (string, int) jsmap \<Rightarrow> Position list \<times> (string, int) jsmap" where
  "merge_locals now grace restById [] w = ([], w)"
| "merge_locals now grace restById (p # ps) w =
     (if map_has restById (pos_key p) then merge_locals now grace restById ps w
      else if pos_status p \<noteq> ''OPEN'' then merge_locals now grace restById ps w
      else case map_get w (pos_key p) of
        None \<Rightarrow> merge_locals now grace restById ps w
      | Some t \<Rightarrow>
          if grace < now - t then merge_locals now grace restById ps (map_delete (pos_key p) w)
          else let (kept, w') = merge_locals now grace restById ps w in (p # kept, w'))"

definition mergePositions ::
  "int \<Rightarrow> Position list \<Rightarrow> Position list \<Rightarrow> (string, int) jsmap \<Rightarrow> int \<Rightarrow> Position list \<times> (string, int) jsmap" where
  "mergePositions now rest cur w grace =
     (let restById = by_id pos_key rest;
          (kept, w') = merge_locals now grace restById cur w
      in (rest @ kept, filter (\<lambda>(k, t). \<not> map_has restById k) w'))"

definition filterRestAfterClientClose ::
  "int \<Rightarrow> Position list \<Rightarrow> (string, int) jsmap \<Rightarrow> Position list \<times> (string, int) jsmap" where
  "filterRestAfterClientClose now rest tombs =
     (let tombs = filter (\<lambda>(k, ts). \<not> POSITION_CLOSE_TOMBSTONE_MAX_MS < now - ts) tombs;
          filtered = filter (\<lambda>p. case map_get tombs (pos_key p) of
              None \<Rightarrow> True
            | Some ts \<Rightarrow> \<not> (pos_status p = ''OPEN'' \<and> now - ts < POSITION_CLOSE_TOMBSTONE_MS)) rest
      in (filtered, filter (\<lambda>(k, ts). list_ex (\<lambda>p. pos_key p = k) rest) tombs))"

section \<open>State\<close>

datatype fetch = FetchOpen nat | FetchOrders nat | FetchFilled nat

record dock =
  d_positions :: "Position list"
  d_orders :: "Order list"
  d_filled :: "Order list"
  d_closed :: "Position list"
  wsAppendedAt :: "(string, int) jsmap"
  closeTombstones :: "(string, int) jsmap"
  orderTombstones :: "(string, int) jsmap"
  requests :: "fetch list"

definition dock_init :: dock where
  "dock_init = \<lparr>d_positions = [], d_orders = [], d_filled = [], d_closed = [], wsAppendedAt = [],
     closeTombstones = [], orderTombstones = [], requests = []\<rparr>"

definition issue :: "fetch list \<Rightarrow> dock \<Rightarrow> dock" where
  "issue fs d = d\<lparr>requests := requests d @ fs\<rparr>"

section \<open>Answers\<close>

text \<open>The filter and the merge read the clock each for itself.\<close>

definition rest_open :: "int \<Rightarrow> int \<Rightarrow> Position list \<Rightarrow> dock \<Rightarrow> dock" where
  "rest_open now now' rest d =
     (let (filtered, tombs) = filterRestAfterClientClose now rest (closeTombstones d);
          (ps, w) = mergePositions now' filtered (d_positions d) (wsAppendedAt d) WS_POSITION_GRACE_MS
      in d\<lparr>d_positions := ps, wsAppendedAt := w, closeTombstones := tombs\<rparr>)"

definition rest_orders :: "int \<Rightarrow> Order list \<Rightarrow> Order list \<Rightarrow> dock \<Rightarrow> dock" where
  "rest_orders now pending cancelling d =
     (let byId = by_id ord_id (pending @ cancelling);
          tombs = filter (\<lambda>(k, ts). \<not> 600000 < now - ts) (orderTombstones d)
      in d\<lparr>orderTombstones := tombs, d_orders := filter (\<lambda>x. \<not> map_has tombs (ord_id x)) (map_values byId)\<rparr>)"

section \<open>WebSocket updates\<close>

definition closed_status :: "string \<Rightarrow> bool" where
  "closed_status st = (st = ''CLOSED'' \<or> st = ''LIQUIDATED'')"

definition drop_key :: "string \<Rightarrow> Position list \<Rightarrow> Position list" where
  "drop_key k ps = filter (\<lambda>p. pos_key p \<noteq> k) ps"

text \<open>Replace, or remove, the first row that satisfies a test.\<close>

fun update_first :: "('a \<Rightarrow> bool) \<Rightarrow> ('a \<Rightarrow> 'a) \<Rightarrow> 'a list \<Rightarrow> 'a list" where
  "update_first P f [] = []"
| "update_first P f (x # xs) = (if P x then f x # xs else x # update_first P f xs)"

fun remove_first :: "('a \<Rightarrow> bool) \<Rightarrow> 'a list \<Rightarrow> 'a list" where
  "remove_first P [] = []"
| "remove_first P (x # xs) = (if P x then xs else x # remove_first P xs)"

definition update_row :: "int \<Rightarrow> string \<Rightarrow> string \<Rightarrow> json \<Rightarrow> Position \<Rightarrow> Position" where
  "update_row now positionId st data p =
     p\<lparr>pos_id := positionId, pos_symbol := text_or (json_field data ''symbol'') (pos_symbol p),
       pos_side := text_or (json_field data ''side'') (pos_side p),
       pos_size := text_or (json_field data ''quantity'') (pos_size p),
       pos_unrealized_pnl := text_or (json_field data ''unrealized_pnl'') (pos_unrealized_pnl p),
       pos_status := st, pos_updated_at := Num (of_int now)\<rparr>"

definition new_row :: "int \<Rightarrow> string \<Rightarrow> string \<Rightarrow> json \<Rightarrow> Position" where
  "new_row now positionId st data =
     \<lparr>pos_id = positionId, pos_user_id = [], pos_symbol = text_or (json_field data ''symbol'') [],
      pos_side = (if json_str data ''side'' = Some ''LONG'' \<or> json_str data ''side'' = Some ''long'' then ''LONG'' else ''SHORT''),
      pos_size = text_or (json_field data ''quantity'') ''0'', pos_original_size = None, pos_entry_price = ''0'',
      pos_avg_price = ''0'', pos_exit_price = None, pos_sl = None, pos_tp = None, pos_leverage = ''50'',
      pos_margin = ''0'', pos_unrealized_pnl = text_or (json_field data ''unrealized_pnl'') ''0'', pos_realized_pnl = ''0'',
      pos_accumulatedSwapUsd = None, pos_accumulatedFeesUsd = None, pos_status = st,
      pos_opened_at = Num (of_int now), pos_updated_at = Num (of_int now), pos_closed_at = None\<rparr>"

text \<open>A row leaves the list and its key gets a tombstone.\<close>

definition bury :: "int \<Rightarrow> string \<Rightarrow> dock \<Rightarrow> dock" where
  "bury now k d = d\<lparr>wsAppendedAt := map_delete k (wsAppendedAt d),
     closeTombstones := map_set k now (closeTombstones d), d_positions := drop_key k (d_positions d)\<rparr>"

text \<open>The status text; \<open>None\<close> when \<open>toUpperCase\<close> or \<open>trim\<close> throws because it is not a string.\<close>

definition status_text :: "json option \<Rightarrow> string \<Rightarrow> string option" where
  "status_text v dflt = (case v of
     Some j \<Rightarrow> if \<not> json_truthy j then Some dflt else (case j of JStr s \<Rightarrow> Some s | _ \<Rightarrow> None)
   | None \<Rightarrow> Some dflt)"

definition position_update :: "int \<Rightarrow> string \<Rightarrow> string \<Rightarrow> json \<Rightarrow> dock \<Rightarrow> dock" where
  "position_update now positionId st data d =
     (let pid = canonicalPositionId positionId in
      if list_ex (\<lambda>p. pos_key p = pid) (d_positions d)
      then
        (if closed_status st then bury now pid d
         else d\<lparr>d_positions := update_first (\<lambda>p. pos_key p = pid) (update_row now positionId st data) (d_positions d)\<rparr>)
      else if st = ''OPEN'' then
        (case map_get (closeTombstones d) pid of
           Some ts \<Rightarrow> if now - ts < POSITION_CLOSE_TOMBSTONE_MS then d
                     else issue [FetchOpen 500, FetchOrders 500]
                       (d\<lparr>wsAppendedAt := map_set pid now (wsAppendedAt d),
                          d_positions := d_positions d @ [new_row now positionId st data]\<rparr>)
         | None \<Rightarrow> issue [FetchOpen 500, FetchOrders 500]
                       (d\<lparr>wsAppendedAt := map_set pid now (wsAppendedAt d),
                          d_positions := d_positions d @ [new_row now positionId st data]\<rparr>))
      else if closed_status st then bury now pid d
      else d)"

definition on_position_update :: "int \<Rightarrow> json \<Rightarrow> dock \<Rightarrow> dock" where
  "on_position_update now data d =
     (case json_field data ''position_id'' of
        Some (JStr positionId) \<Rightarrow>
          if positionId = [] then d
          else (case status_text (json_field data ''status'') ''OPEN'' of
                  Some s \<Rightarrow> position_update now positionId (toUpperCase s) data d
                | None \<Rightarrow> d)
      | _ \<Rightarrow> d)"

definition terminal_status :: "string \<Rightarrow> bool" where
  "terminal_status st = (st = ''FILLED'' \<or> st = ''CANCELLED'' \<or> st = ''REJECTED'')"

text \<open>The message itself, or its \<open>payload\<close> when that is an object.\<close>

definition order_payload :: "json \<Rightarrow> json" where
  "order_payload data = (case json_field data ''payload'' of
     Some p \<Rightarrow> if is_object p then p else data | None \<Rightarrow> data)"

definition order_id_of :: "json \<Rightarrow> string" where
  "order_id_of raw = trim (case first_field raw [''order_id'', ''orderId''] of Some v \<Rightarrow> show_json v | None \<Rightarrow> [])"

definition update_order :: "string \<Rightarrow> json \<Rightarrow> Order \<Rightarrow> Order" where
  "update_order stRaw raw x =
     (let qty = (case first_field raw [''quantity'', ''filled_size''] of Some v \<Rightarrow> show_json v | None \<Rightarrow> []);
          px = (case first_field raw [''price'', ''avg_fill_price''] of Some v \<Rightarrow> show_json v | None \<Rightarrow> []);
          s = (if toUpperCase stRaw = ''CANCELLING'' then ''cancelling'' else toLowerCase stRaw)
      in x\<lparr>ord_status := (if s \<noteq> [] then s else ord_status x),
           ord_filled_size := (if qty \<noteq> [] then Some qty else ord_filled_size x),
           ord_avg_fill_price := (if px \<noteq> [] then Some px else ord_avg_fill_price x)\<rparr>)"

definition new_order :: "string \<Rightarrow> string \<Rightarrow> json \<Rightarrow> Order" where
  "new_order iso_now orderId raw =
     \<lparr>ord_id = orderId, ord_symbol = text_or (json_field raw ''symbol'') ''UNKNOWN'',
      ord_side = text_or (json_field raw ''side'') ''BUY'', ord_order_type = ''MARKET'',
      ord_size = text_or (json_field raw ''quantity'') ''0'',
      ord_price = (case first_field raw [''price''] of Some v \<Rightarrow> Some (show_json v) | None \<Rightarrow> None),
      ord_stop_price = None, ord_filled_size = None, ord_average_price = None, ord_avg_fill_price = None,
      ord_status = ''pending'', ord_created_at = iso_now, ord_updated_at = iso_now, ord_filled_at = None,
      ord_cancelled_at = None\<rparr>"

definition after_fill :: "string \<Rightarrow> fetch list" where
  "after_fill st = (if st = ''FILLED'' then [FetchOpen 0, FetchFilled 0, FetchOpen 600] else [])"

definition order_update :: "int \<Rightarrow> string \<Rightarrow> string \<Rightarrow> string \<Rightarrow> json \<Rightarrow> dock \<Rightarrow> dock" where
  "order_update now iso_now orderId stRaw raw d =
     (let st = toUpperCase stRaw;
          d = (if list_ex (\<lambda>x. ord_id x = orderId) (d_orders d)
               then
                 (if terminal_status st
                  then issue (after_fill st)
                    (d\<lparr>orderTombstones := map_set orderId now (orderTombstones d),
                       d_orders := remove_first (\<lambda>x. ord_id x = orderId) (d_orders d)\<rparr>)
                  else d\<lparr>d_orders := update_first (\<lambda>x. ord_id x = orderId) (update_order stRaw raw) (d_orders d)\<rparr>)
               else if st = ''PENDING'' then d\<lparr>d_orders := d_orders d @ [new_order iso_now orderId raw]\<rparr>
               else d)
      in if terminal_status st then issue (FetchOrders 0 # after_fill st) d else d)"

definition on_order_update :: "int \<Rightarrow> string \<Rightarrow> json \<Rightarrow> dock \<Rightarrow> dock" where
  "on_order_update now iso_now data d =
     (let raw = order_payload data; orderId = order_id_of raw in
      case status_text (json_field raw ''status'') [] of
        None \<Rightarrow> d
      | Some s \<Rightarrow>
          if orderId = [] then issue [FetchOrders 0] d
          else order_update now iso_now orderId (trim s) raw d)"

section \<open>The user\<close>

definition close_click :: "int \<Rightarrow> string \<Rightarrow> dock \<Rightarrow> dock" where
  "close_click now i d =
     (let k = canonicalPositionId i in
      d\<lparr>closeTombstones := map_set k now (closeTombstones d), d_positions := drop_key k (d_positions d)\<rparr>)"

definition close_done :: "bool \<Rightarrow> string \<Rightarrow> dock \<Rightarrow> dock" where
  "close_done ok i d =
     (if ok then issue [FetchOpen 500, FetchOpen 1200] d
      else issue [FetchOpen 0] (d\<lparr>closeTombstones := map_delete (canonicalPositionId i) (closeTombstones d)\<rparr>))"

definition cancel_done :: "string \<Rightarrow> dock \<Rightarrow> dock" where
  "cancel_done i d = issue [FetchOrders 0]
     (d\<lparr>d_orders := map (\<lambda>x. if ord_id x = i then x\<lparr>ord_status := ''cancelling''\<rparr> else x) (d_orders d)\<rparr>)"

section \<open>What is shown\<close>

definition open_time :: "Position \<Rightarrow> jsnum" where
  "open_time p = num_or (num_or (pos_opened_at p) (pos_updated_at p)) (Num 0)"

definition newest_first :: "Position js_comparator" where
  "newest_first a b = jsub (open_time b) (open_time a)"

definition sortedOpenPositions :: "Position list \<Rightarrow> Position list" where
  "sortedOpenPositions ps = js_sort newest_first (filter (\<lambda>p. pos_status p = ''OPEN'') ps)"

definition positionSymbols :: "Position list \<Rightarrow> string list" where
  "positionSymbols ps = set_of_list (map (\<lambda>p. toUpperCase (pos_symbol p)) (sortedOpenPositions ps))"

definition mobileFilteredOpenPositions :: "string \<Rightarrow> Position list \<Rightarrow> Position list" where
  "mobileFilteredOpenPositions query ps =
     (let q = toLowerCase (trim query); xs = sortedOpenPositions ps in
      if q = [] then xs
      else filter (\<lambda>p. str_includes (toLowerCase (pos_symbol p)) q \<or> str_includes (toLowerCase (pos_side p)) q \<or>
             pos_side p = ''LONG'' \<and> q = ''buy'' \<or> pos_side p = ''SHORT'' \<and> q = ''sell'') xs)"

section \<open>The machine\<close>

datatype dock_event =
    RestOpen int int "Position list" | RestOrders int "Order list" "Order list" | RestFilled "Order list"
  | RestClosed "Position list" | WsPosition int json | WsOrder int string json
  | CloseClick int string | CloseDone bool string | CancelDone string

fun dock_do :: "dock_event \<Rightarrow> dock \<Rightarrow> dock" where
  "dock_do (RestOpen now now' rest) d = rest_open now now' rest d"
| "dock_do (RestOrders now pending cancelling) d = rest_orders now pending cancelling d"
| "dock_do (RestFilled xs) d = d\<lparr>d_filled := xs\<rparr>"
| "dock_do (RestClosed ps) d = d\<lparr>d_closed := ps\<rparr>"
| "dock_do (WsPosition now data) d = on_position_update now data d"
| "dock_do (WsOrder now iso_now data) d = on_order_update now iso_now data d"
| "dock_do (CloseClick now i) d = close_click now i d"
| "dock_do (CloseDone ok i) d = close_done ok i d"
| "dock_do (CancelDone i) d = cancel_done i d"

text \<open>The server lists no position twice.\<close>

fun lists_once :: "dock_event \<Rightarrow> dock \<Rightarrow> bool" where
  "lists_once (RestOpen now now' rest) d = distinct (map pos_key rest)"
| "lists_once _ d = True"

section \<open>Merging\<close>

text \<open>A row the answer does not list is kept while its grace lasts.\<close>

definition keeps :: "int \<Rightarrow> int \<Rightarrow> string set \<Rightarrow> (string, int) jsmap \<Rightarrow> Position \<Rightarrow> bool" where
  "keeps now grace listed w p \<longleftrightarrow> pos_key p \<notin> listed \<and> pos_status p = ''OPEN'' \<and>
     (\<exists>t. map_get w (pos_key p) = Some t \<and> now - t \<le> grace)"

lemma merge_locals_kept:
  "fst (merge_locals now grace m ps w) = filter (keeps now grace {k. map_has m k} w) ps"
proof (induction ps arbitrary: w)
  case (Cons p ps)
  have del: "keeps now grace {k. map_has m k} (map_delete (pos_key p) w) q = keeps now grace {k. map_has m k} w q"
    if "map_get w (pos_key p) = Some t" "grace < now - t" for q t
    using that by (auto simp: keeps_def map_get_delete)
  show ?case using Cons.IH del
    by (auto simp: keeps_def split: option.split prod.split) (metis fst_conv)+
qed simp

lemma merge_locals_wf: "map_wf w \<Longrightarrow> map_wf (snd (merge_locals now grace m ps w))"
  by (induction ps arbitrary: w) (auto split: option.split prod.split, metis snd_conv)

lemma merge_simps:
  "fst (mergePositions now rest cur w grace) = rest @ filter (keeps now grace (pos_key ` set rest) w) cur"
  "map_wf w \<Longrightarrow> map_wf (snd (mergePositions now rest cur w grace))"
proof -
  let ?m = "by_id pos_key rest"
  obtain kept w' where r: "merge_locals now grace ?m cur w = (kept, w')" by force
  have "{k. map_has ?m k} = pos_key ` set rest"
    by (simp add: map_has_by_id)
  then have "kept = filter (keeps now grace (pos_key ` set rest) w) cur"
    using merge_locals_kept [of now grace ?m cur w] by (simp add: r)
  then show "fst (mergePositions now rest cur w grace) = rest @ filter (keeps now grace (pos_key ` set rest) w) cur"
    by (simp add: mergePositions_def r)
  show "map_wf w \<Longrightarrow> map_wf (snd (mergePositions now rest cur w grace))"
    using merge_locals_wf [of w now grace ?m cur] by (simp add: mergePositions_def r)
qed

text \<open>A listed row is hidden while the tombstone of its key is young.\<close>

definition hidden :: "int \<Rightarrow> (string, int) jsmap \<Rightarrow> Position \<Rightarrow> bool" where
  "hidden now tombs p \<longleftrightarrow> pos_status p = ''OPEN'' \<and>
     (\<exists>ts. map_get tombs (pos_key p) = Some ts \<and> now - ts < POSITION_CLOSE_TOMBSTONE_MS)"

lemma filter_fst:
  assumes "map_wf tombs"
  shows "fst (filterRestAfterClientClose now rest tombs) = filter (\<lambda>p. \<not> hidden now tombs p) rest"
proof -
  have "(case map_get (filter (\<lambda>(k, ts). \<not> POSITION_CLOSE_TOMBSTONE_MAX_MS < now - ts) tombs) (pos_key p) of
      None \<Rightarrow> True | Some ts \<Rightarrow> \<not> (pos_status p = ''OPEN'' \<and> now - ts < POSITION_CLOSE_TOMBSTONE_MS)) = (\<not> hidden now tombs p)" for p
    using assms by (cases "map_get tombs (pos_key p)") (simp_all add: map_get_filter hidden_def dock_times)
  then show ?thesis by (simp add: filterRestAfterClientClose_def)
qed

lemma filter_snd:
  "map_wf tombs \<Longrightarrow> map_get (snd (filterRestAfterClientClose now rest tombs)) k =
     (case map_get tombs k of
        Some ts \<Rightarrow> if now - ts \<le> POSITION_CLOSE_TOMBSTONE_MAX_MS \<and> k \<in> pos_key ` set rest then Some ts else None
      | None \<Rightarrow> None)"
  by (auto simp: filterRestAfterClientClose_def map_get_filter list_ex_iff Let_def split: option.split)

lemma filter_snd_wf: "map_wf tombs \<Longrightarrow> map_wf (snd (filterRestAfterClientClose now rest tombs))"
  by (simp add: filterRestAfterClientClose_def Let_def)

lemma rest_open_eq:
  "rest_open now now' rest d =
     (let f = filterRestAfterClientClose now rest (closeTombstones d);
          m = mergePositions now' (fst f) (d_positions d) (wsAppendedAt d) WS_POSITION_GRACE_MS
      in d\<lparr>d_positions := fst m, wsAppendedAt := snd m, closeTombstones := snd f\<rparr>)"
  by (simp add: rest_open_def Let_def split: prod.split)

lemma rest_open_simps:
  "closeTombstones (rest_open now now' rest d) = snd (filterRestAfterClientClose now rest (closeTombstones d))"
  "map_wf (closeTombstones d) \<Longrightarrow> d_positions (rest_open now now' rest d) =
     (let listed = filter (\<lambda>p. \<not> hidden now (closeTombstones d) p) rest
      in listed @ filter (keeps now' WS_POSITION_GRACE_MS (pos_key ` set listed) (wsAppendedAt d)) (d_positions d))"
  "d_orders (rest_open now now' rest d) = d_orders d" "orderTombstones (rest_open now now' rest d) = orderTombstones d"
  "map_wf (wsAppendedAt d) \<Longrightarrow> map_wf (wsAppendedAt (rest_open now now' rest d))"
  by (simp_all add: rest_open_eq Let_def filter_fst merge_simps)

section \<open>Invariant\<close>

definition dock_inv :: "dock \<Rightarrow> bool" where
  "dock_inv d \<longleftrightarrow> distinct (map pos_key (d_positions d)) \<and> distinct (map ord_id (d_orders d)) \<and>
     map_wf (wsAppendedAt d) \<and> map_wf (closeTombstones d) \<and> map_wf (orderTombstones d)"

lemma issue_simps [simp]: "d_positions (issue fs d) = d_positions d" "d_orders (issue fs d) = d_orders d"
  "wsAppendedAt (issue fs d) = wsAppendedAt d" "closeTombstones (issue fs d) = closeTombstones d"
  "orderTombstones (issue fs d) = orderTombstones d" "requests (issue fs d) = requests d @ fs"
  by (simp_all add: issue_def)

lemma update_first_keys: "(\<And>x. P x \<Longrightarrow> key (f x) = key x) \<Longrightarrow> map key (update_first P f xs) = map key xs"
  by (induction xs) auto

lemma update_row_key: "pos_key p = canonicalPositionId i \<Longrightarrow> pos_key (update_row now i st data p) = pos_key p"
  by (simp add: pos_key_def update_row_def)

lemma new_row_key: "pos_key (new_row now i st data) = canonicalPositionId i"
  by (simp add: pos_key_def new_row_def)

lemma update_order_id: "ord_id (update_order st raw x) = ord_id x"
  by (simp add: update_order_def Let_def)

lemma new_order_id: "ord_id (new_order t i raw) = i"
  by (simp add: new_order_def)

lemma set_remove_first: "set (remove_first P xs) \<subseteq> set xs"
  by (induction xs) auto

lemma distinct_remove_first: "distinct (map key xs) \<Longrightarrow> distinct (map key (remove_first P xs))"
  using set_remove_first by (induction xs) fastforce+

lemma remove_first_gone: "distinct (map key xs) \<Longrightarrow> k \<notin> key ` set (remove_first (\<lambda>x. key x = k) xs)"
  by (induction xs) auto

lemma bury_simps [simp]: "d_positions (bury now k d) = drop_key k (d_positions d)" "d_orders (bury now k d) = d_orders d"
  "wsAppendedAt (bury now k d) = map_delete k (wsAppendedAt d)"
  "closeTombstones (bury now k d) = map_set k now (closeTombstones d)" "orderTombstones (bury now k d) = orderTombstones d"
  by (simp_all add: bury_def)

lemma set_drop_key [simp]: "pos_key ` set (drop_key k ps) = pos_key ` set ps - {k}"
  by (auto simp: drop_key_def)

lemma distinct_drop_key: "distinct (map pos_key ps) \<Longrightarrow> distinct (map pos_key (drop_key k ps))"
  by (simp add: drop_key_def distinct_map_filter)

text \<open>What an update can do to the rows: bury a key, change a row under its key, add a row, or nothing.\<close>

definition young_tombstone :: "int \<Rightarrow> string \<Rightarrow> dock \<Rightarrow> bool" where
  "young_tombstone now k d \<longleftrightarrow>
     (\<exists>ts. map_get (closeTombstones d) k = Some ts \<and> now - ts < POSITION_CLOSE_TOMBSTONE_MS)"

definition change_row :: "int \<Rightarrow> string \<Rightarrow> string \<Rightarrow> json \<Rightarrow> dock \<Rightarrow> dock" where
  "change_row now i st data d = d\<lparr>d_positions :=
     update_first (\<lambda>p. pos_key p = canonicalPositionId i) (update_row now i st data) (d_positions d)\<rparr>"

definition add_row :: "int \<Rightarrow> string \<Rightarrow> string \<Rightarrow> json \<Rightarrow> dock \<Rightarrow> dock" where
  "add_row now i st data d = issue [FetchOpen 500, FetchOrders 500]
     (d\<lparr>wsAppendedAt := map_set (canonicalPositionId i) now (wsAppendedAt d),
        d_positions := d_positions d @ [new_row now i st data]\<rparr>)"

lemma position_update_eq:
  "position_update now i st data d =
     (if canonicalPositionId i \<in> pos_key ` set (d_positions d)
      then if closed_status st then bury now (canonicalPositionId i) d else change_row now i st data d
      else if st = ''OPEN'' then if young_tombstone now (canonicalPositionId i) d then d else add_row now i st data d
      else if closed_status st then bury now (canonicalPositionId i) d else d)"
proof -
  have "list_ex (\<lambda>p. pos_key p = canonicalPositionId i) (d_positions d) \<longleftrightarrow> canonicalPositionId i \<in> pos_key ` set (d_positions d)"
    by (auto simp: list_ex_iff intro: rev_image_eqI)
  then show ?thesis
    by (simp add: position_update_def young_tombstone_def change_row_def add_row_def Let_def split: option.split)
qed

lemma change_row_simps [simp]: "map pos_key (d_positions (change_row now i st data d)) = map pos_key (d_positions d)"
  "d_orders (change_row now i st data d) = d_orders d" "wsAppendedAt (change_row now i st data d) = wsAppendedAt d"
  "closeTombstones (change_row now i st data d) = closeTombstones d"
  "orderTombstones (change_row now i st data d) = orderTombstones d"
  unfolding change_row_def by (simp_all add: update_first_keys update_row_key)

lemma change_row_keys [simp]: "pos_key ` set (d_positions (change_row now i st data d)) = pos_key ` set (d_positions d)"
  by (simp only: set_map [symmetric] change_row_simps)

lemma add_row_simps [simp]: "map pos_key (d_positions (add_row now i st data d)) = map pos_key (d_positions d) @ [canonicalPositionId i]"
  "d_orders (add_row now i st data d) = d_orders d" "closeTombstones (add_row now i st data d) = closeTombstones d"
  "wsAppendedAt (add_row now i st data d) = map_set (canonicalPositionId i) now (wsAppendedAt d)"
  "orderTombstones (add_row now i st data d) = orderTombstones d"
  by (simp_all add: add_row_def new_row_key)

lemma add_row_keys [simp]: "pos_key ` set (d_positions (add_row now i st data d)) = insert (canonicalPositionId i) (pos_key ` set (d_positions d))"
  by (simp only: set_map [symmetric] add_row_simps) simp

lemma dock_inv_position: "dock_inv d \<Longrightarrow> dock_inv (position_update now i st data d)"
  by (simp add: position_update_eq dock_inv_def distinct_drop_key)

lemma order_update_inv: "dock_inv d \<Longrightarrow> dock_inv (order_update now t i st raw d)"
  by (auto simp: dock_inv_def order_update_def distinct_remove_first update_first_keys update_order_id new_order_id
      list_ex_iff Let_def)

lemma cancel_ids: "map ord_id (map (\<lambda>x. if ord_id x = i then x\<lparr>ord_status := st\<rparr> else x) xs) = map ord_id xs"
  by (induction xs) simp_all

lemma dock_inv_step: "dock_inv d \<Longrightarrow> lists_once e d \<Longrightarrow> dock_inv (dock_do e d)"
proof (cases e)
  case (RestOpen now now' rest)
  assume d: "dock_inv d" "lists_once e d"
  have "distinct (map pos_key (filter (\<lambda>p. \<not> hidden now (closeTombstones d) p) rest))"
    using d(2) by (simp add: RestOpen distinct_map_filter)
  moreover have "distinct (map pos_key (filter (keeps now' WS_POSITION_GRACE_MS L w) (d_positions d)))" for L w
    using d(1) by (simp add: dock_inv_def distinct_map_filter)
  ultimately show ?thesis using d(1)
    by (auto simp: RestOpen dock_inv_def rest_open_simps filter_snd_wf keeps_def image_iff Let_def)
next
  case (WsPosition now data)
  assume "dock_inv d"
  then show ?thesis
    by (auto simp: WsPosition on_position_update_def dock_inv_position split: option.split json.split)
next
  case (WsOrder now t data)
  assume "dock_inv d"
  then show ?thesis
    using order_update_inv [of d] by (auto simp: WsOrder on_order_update_def Let_def split: option.split) (simp add: dock_inv_def)
next
  case (RestOrders now xs ys)
  assume "dock_inv d"
  then show ?thesis
    by (simp add: RestOrders rest_orders_def dock_inv_def distinct_map_filter [OF distinct_by_id] Let_def)
qed (simp_all add: dock_inv_def close_click_def close_done_def cancel_done_def distinct_drop_key cancel_ids Let_def
      del: map_map)

interpretation dki: invariant_system lists_once dock_do dock_inv "\<lambda>d. d = dock_init"
  by unfold_locales (rule dock_inv_step, assumption, assumption, simp add: dock_inv_def dock_init_def)

section \<open>What stays away\<close>

text \<open>
  The time in which the server may still list a position that was closed at \<open>t0\<close>: every list has it,
  as open, all within the tombstone's time, and the close does not fail.
\<close>

fun lagging :: "string \<Rightarrow> int \<Rightarrow> dock_event \<Rightarrow> dock \<Rightarrow> bool" where
  "lagging k t0 (RestOpen now now' rest) d \<longleftrightarrow> now < t0 + POSITION_CLOSE_TOMBSTONE_MS \<and>
     k \<in> pos_key ` set rest \<and> (\<forall>p \<in> set rest. pos_key p = k \<longrightarrow> pos_status p = ''OPEN'')"
| "lagging k t0 (WsPosition now data) d \<longleftrightarrow> t0 \<le> now \<and> now < t0 + POSITION_CLOSE_TOMBSTONE_MS"
| "lagging k t0 (CloseClick now i) d \<longleftrightarrow> t0 \<le> now"
| "lagging k t0 (CloseDone ok i) d \<longleftrightarrow> ok \<or> canonicalPositionId i \<noteq> k"
| "lagging k t0 _ d \<longleftrightarrow> True"

definition buried :: "string \<Rightarrow> int \<Rightarrow> dock \<Rightarrow> bool" where
  "buried k t0 d \<longleftrightarrow> map_wf (closeTombstones d) \<and> k \<notin> pos_key ` set (d_positions d) \<and>
     (\<exists>ts. map_get (closeTombstones d) k = Some ts \<and> t0 \<le> ts)"

lemma buried_position:
  assumes "buried k t0 d" "t0 \<le> now" "now < t0 + POSITION_CLOSE_TOMBSTONE_MS"
  shows "buried k t0 (position_update now i st data d)"
proof -
  have "young_tombstone now k d" using assms by (auto simp: buried_def young_tombstone_def)
  then show ?thesis using assms by (auto simp: position_update_eq buried_def map_get_set)
qed

lemma buried_cong: "d_positions d' = d_positions d \<Longrightarrow> closeTombstones d' = closeTombstones d \<Longrightarrow> buried k t0 d' = buried k t0 d"
  by (simp add: buried_def)

lemma order_update_rows [simp]: "d_positions (order_update now t i st raw d) = d_positions d"
  "closeTombstones (order_update now t i st raw d) = closeTombstones d"
  by (simp_all add: order_update_def Let_def)

lemma buried_step: "buried k t0 d \<Longrightarrow> lagging k t0 e d \<Longrightarrow> buried k t0 (dock_do e d)"
proof (cases e)
  case (RestOpen now now' rest)
  assume a: "buried k t0 d" "lagging k t0 e d"
  then obtain ts where ts: "map_get (closeTombstones d) k = Some ts" "t0 \<le> ts" "map_wf (closeTombstones d)"
    by (auto simp: buried_def)
  have "hidden now (closeTombstones d) p" if "p \<in> set rest" "pos_key p = k" for p
    using a(2) ts that by (auto simp: RestOpen hidden_def)
  then have "k \<notin> pos_key ` set (d_positions (rest_open now now' rest d))"
    using a(1) ts(3) by (auto simp: rest_open_simps buried_def Let_def)
  moreover have "now - ts \<le> POSITION_CLOSE_TOMBSTONE_MAX_MS" using a(2) ts(2) by (simp add: RestOpen dock_times)
  ultimately show ?thesis using a(2) ts
    by (simp add: RestOpen buried_def rest_open_simps filter_snd filter_snd_wf)
next
  case (WsPosition now data)
  assume "buried k t0 d" "lagging k t0 e d"
  with WsPosition show ?thesis
    by (auto simp: on_position_update_def buried_position split: option.split json.split)
next
  case (WsOrder now t data)
  assume "buried k t0 d"
  with WsOrder show ?thesis by (auto simp: on_order_update_def Let_def buried_def split: option.split)
qed (auto simp: buried_def rest_orders_def close_click_def close_done_def cancel_done_def map_get_set map_get_delete Let_def)

interpretation bur: stable_system "lagging k t0" dock_do "buried k t0" for k t0
  by unfold_locales (rule buried_step)

text \<open>An update that calls an order pending.\<close>

definition calls_pending :: "string \<Rightarrow> json \<Rightarrow> bool" where
  "calls_pending i data \<longleftrightarrow> order_id_of (order_payload data) = i \<and>
     (\<exists>s. status_text (json_field (order_payload data) ''status'') [] = Some s \<and> toUpperCase (trim s) = ''PENDING'')"

fun order_lagging :: "string \<Rightarrow> int \<Rightarrow> dock_event \<Rightarrow> dock \<Rightarrow> bool" where
  "order_lagging i t0 (RestOrders now xs ys) d \<longleftrightarrow> now \<le> t0 + 600000"
| "order_lagging i t0 (WsOrder now t data) d \<longleftrightarrow> t0 \<le> now \<and> \<not> calls_pending i data"
| "order_lagging i t0 _ d \<longleftrightarrow> True"

definition settled_order :: "string \<Rightarrow> int \<Rightarrow> dock \<Rightarrow> bool" where
  "settled_order i t0 d \<longleftrightarrow> map_wf (orderTombstones d) \<and> i \<notin> ord_id ` set (d_orders d) \<and>
     (\<exists>ts. map_get (orderTombstones d) i = Some ts \<and> t0 \<le> ts)"

lemma update_order_ids: "map ord_id (update_first (\<lambda>x. ord_id x = i) (update_order st raw) xs) = map ord_id xs"
  by (simp add: update_first_keys update_order_id)

lemma settled_update:
  assumes "settled_order i t0 d" "t0 \<le> now" "j = i \<longrightarrow> toUpperCase st \<noteq> ''PENDING''"
  shows "settled_order i t0 (order_update now t j st raw d)"
proof -
  have sub: "i \<notin> ord_id ` set (remove_first P (d_orders d))" for P
    using assms(1) set_remove_first [of P "d_orders d"] by (auto simp: settled_order_def)
  have same: "ord_id ` set (update_first (\<lambda>x. ord_id x = j) (update_order st raw) (d_orders d)) = ord_id ` set (d_orders d)"
    by (simp only: set_map [symmetric] update_order_ids)
  show ?thesis using assms sub same
    by (auto simp: order_update_def settled_order_def new_order_id map_get_set Let_def)
qed

lemma settled_step: "settled_order i t0 d \<Longrightarrow> order_lagging i t0 e d \<Longrightarrow> settled_order i t0 (dock_do e d)"
proof (cases e)
  case (WsOrder now t data)
  assume a: "settled_order i t0 d" "order_lagging i t0 e d"
  let ?raw = "order_payload data"
  show ?thesis
  proof (cases "status_text (json_field ?raw ''status'') []")
    case None
    then show ?thesis using a(1) by (simp add: WsOrder on_order_update_def Let_def)
  next
    case (Some s)
    have "order_id_of ?raw = i \<longrightarrow> toUpperCase (trim s) \<noteq> ''PENDING''" "t0 \<le> now"
      using a(2) Some by (auto simp: WsOrder calls_pending_def)
    then have "settled_order i t0 (order_update now t (order_id_of ?raw) (trim s) ?raw d)"
      by (intro settled_update [OF a(1)])
    moreover have "settled_order i t0 (issue [FetchOrders 0] d)" using a(1) by (simp add: settled_order_def)
    ultimately show ?thesis using Some by (simp add: WsOrder on_order_update_def Let_def)
  qed
next
  case (RestOrders now xs ys)
  assume a: "settled_order i t0 d" "order_lagging i t0 e d"
  then obtain ts where "map_get (orderTombstones d) i = Some ts" "t0 \<le> ts" "map_wf (orderTombstones d)"
    by (auto simp: settled_order_def)
  with a show ?thesis by (auto simp: RestOrders settled_order_def rest_orders_def map_get_filter map_has_get Let_def)
next
  case (WsPosition now data)
  assume "settled_order i t0 d"
  with WsPosition show ?thesis
    by (auto simp: on_position_update_def position_update_eq settled_order_def split: option.split json.split)
next
  case (CancelDone j)
  assume "settled_order i t0 d"
  moreover have "map ord_id (d_orders (cancel_done j d)) = map ord_id (d_orders d)"
    by (simp add: cancel_done_def cancel_ids del: map_map)
  then have "ord_id ` set (d_orders (cancel_done j d)) = ord_id ` set (d_orders d)"
    by (metis set_map)
  ultimately show ?thesis by (simp add: CancelDone settled_order_def) (simp add: cancel_done_def)
qed (auto simp: settled_order_def rest_open_simps close_click_def close_done_def Let_def)

interpretation ost: stable_system "order_lagging i t0" dock_do "settled_order i t0" for i t0
  by unfold_locales (rule settled_step)

section \<open>Newest first\<close>

definition timed :: "Position \<Rightarrow> bool" where
  "timed p = (is_double (pos_opened_at p) \<and> is_double (pos_updated_at p))"

lemma open_time_double: "timed p \<Longrightarrow> is_double (open_time p) \<and> open_time p \<noteq> NaN"
  using is_double_of_int [of 0] by (auto simp: timed_def open_time_def num_or_def num_truthy_def)

lemma newest_first_iff: "timed a \<Longrightarrow> timed b \<Longrightarrow> not_after newest_first a b \<longleftrightarrow> \<not> jlt (open_time a) (open_time b)"
  using open_time_double by (simp add: not_after_def newest_first_def jlt_0_jsub)

interpretation nf: ordering_comparator newest_first "{p. timed p}"
proof
  fix x y z
  assume t: "x \<in> {p. timed p}" "y \<in> {p. timed p}" "z \<in> {p. timed p}"
    and xy: "not_after newest_first x y" and yz: "not_after newest_first y z"
  then show "not_after newest_first x z"
    using open_time_double by (simp add: newest_first_iff not_jlt_iff) (metis jle_trans)
next
  fix x y
  assume "x \<in> {p. timed p}" "y \<in> {p. timed p}"
  then show "not_after newest_first x y \<or> not_after newest_first y x"
    using jlt_trans [of "open_time x" "open_time y" "open_time x"] by (auto simp: newest_first_iff)
qed

section \<open>Theorems on positions\<close>

text \<open>As long as the server's lists have no position twice, the dock shows no position and no order twice, in
  every reachable state, however answers, updates and clicks interleave and however the ids are
  written.\<close>

theorem dock_no_duplicates:
  assumes "reach (\<lambda>d. d = dock_init) lists_once dock_do d"
  shows "distinct (map (\<lambda>p. canonicalPositionId (pos_id p)) (d_positions d)) \<and> distinct (map ord_id (d_orders d))"
  using dki.reach_inv [OF assms] by (simp add: dock_inv_def pos_key_def [abs_def])

text \<open>What an answer makes of the list: first the rows of the answer, as the server sent them, less those that
  were closed less than 25 seconds ago; then, in their order, the current open rows the answer does
  not list and the WebSocket added at most 5 seconds ago. Everything else is gone.\<close>

theorem rest_open_result:
  assumes "reach (\<lambda>d. d = dock_init) lists_once dock_do d"
  shows "d_positions (rest_open now now' rest d) =
     (let listed = filter (\<lambda>p. \<not> (pos_status p = ''OPEN'' \<and>
            (\<exists>ts. map_get (closeTombstones d) (pos_key p) = Some ts \<and> now - ts < 25000))) rest
      in listed @ filter (\<lambda>p. pos_key p \<notin> pos_key ` set listed \<and> pos_status p = ''OPEN'' \<and>
            (\<exists>t. map_get (wsAppendedAt d) (pos_key p) = Some t \<and> now' - t \<le> 5000)) (d_positions d))"
  using dki.reach_inv [OF assms] by (simp add: rest_open_simps dock_inv_def Let_def hidden_def [abs_def] keeps_def [abs_def] dock_times)

text \<open>C5. A closed position does not flicker back: while the server's lists lag behind, for 25 seconds after the
  click, no answer and no update shows it again.\<close>

theorem closed_stays_hidden:
  assumes "reach (\<lambda>d. d = dock_init) lists_once dock_do d"
    and "run (lagging (canonicalPositionId i) t0) dock_do es (close_click t0 i d) = Some d'"
  shows "canonicalPositionId i \<notin> pos_key ` set (d_positions d')"
proof -
  have "buried (canonicalPositionId i) t0 (close_click t0 i d)"
    using dki.reach_inv [OF assms(1)] by (simp add: buried_def close_click_def dock_inv_def map_get_set Let_def)
  from bur.run_stable [OF this assms(2)] show ?thesis by (simp add: buried_def)
qed

text \<open>C6. A close that fails loses nothing: the next answer that lists the position shows it again, as listed.\<close>

theorem failed_close_restores:
  assumes "reach (\<lambda>d. d = dock_init) lists_once dock_do d" "p \<in> set rest" "canonicalPositionId i = pos_key p"
  shows "p \<in> set (d_positions (rest_open now now' rest (close_done False i (close_click t0 i d)))) \<and>
    FetchOpen 0 \<in> set (requests (close_done False i (close_click t0 i d)))"
proof -
  let ?d = "close_done False i (close_click t0 i d)"
  have w: "map_wf (closeTombstones ?d)"
    using dki.reach_inv [OF assms(1)] by (simp add: close_done_def close_click_def dock_inv_def Let_def)
  have "\<not> hidden now (closeTombstones ?d) p"
    using assms(3) by (simp add: hidden_def close_done_def close_click_def map_get_delete Let_def)
  then show ?thesis using assms(2) w by (simp add: rest_open_simps Let_def close_done_def)
qed

section \<open>Theorems on orders\<close>

text \<open>C7. An order of the list that the WebSocket reports as filled, cancelled or rejected leaves the list, and no
  answer of the next ten minutes brings it back, unless an update calls it pending again.\<close>

theorem settled_order_stays_gone:
  assumes "reach (\<lambda>d. d = dock_init) lists_once dock_do d" "i \<in> ord_id ` set (d_orders d)"
    and "terminal_status (toUpperCase st)"
    and "run (order_lagging i t0) dock_do es (order_update t0 t i st raw d) = Some d'"
  shows "i \<notin> ord_id ` set (d_orders d')"
proof -
  have inv: "distinct (map ord_id (d_orders d))" "map_wf (orderTombstones d)"
    using dki.reach_inv [OF assms(1)] by (simp_all add: dock_inv_def)
  have listed: "list_ex (\<lambda>x. ord_id x = i) (d_orders d)" using assms(2) by (auto simp: list_ex_iff)
  have "settled_order i t0 (order_update t0 t i st raw d)"
    using assms(3) inv remove_first_gone [OF inv(1), of i]
    by (simp add: settled_order_def order_update_def listed map_get_set Let_def)
  from ost.run_stable [OF this assms(4)] show ?thesis by (simp add: settled_order_def)
qed

text \<open>Every fill is followed up: whatever the update looks like, when it names an order and says it is filled,
  the order is not listed as it was, and the open positions, now and again after 600 ms, the pending
  orders and the filled orders are asked for.\<close>

theorem fill_refetches:
  assumes "order_id_of (order_payload data) \<noteq> []"
    and "json_str (order_payload data) ''status'' = Some s" "toUpperCase (trim s) = ''FILLED''"
  shows "\<exists>fs. requests (on_order_update now t data d) = requests d @ fs \<and>
    {FetchOrders 0, FetchOpen 0, FetchOpen 600, FetchFilled 0} \<subseteq> set fs"
proof -
  have "s \<noteq> []" using assms(3) by auto
  then have "status_text (json_field (order_payload data) ''status'') [] = Some s"
    using assms(2) by (auto simp: status_text_def json_str_def split: option.splits json.splits)
  then show ?thesis using assms(1,3)
    by (simp add: on_order_update_def order_update_def terminal_status_def after_fill_def Let_def)
qed

text \<open>The list of open positions is sorted, the newest first; positions opened at the same time keep their order.\<close>

theorem sortedOpenPositions_newest:
  assumes "\<forall>p \<in> set ps. is_double (pos_opened_at p) \<and> is_double (pos_updated_at p)"
  shows "let out = sortedOpenPositions ps in
    mset out = filter_mset (\<lambda>p. pos_status p = ''OPEN'') (mset ps) \<and>
    sorted_wrt (\<lambda>a b. \<not> jlt (open_time a) (open_time b)) out \<and>
    (\<forall>z \<in> set out. filter (ties newest_first z) out =
       filter (ties newest_first z) (filter (\<lambda>p. pos_status p = ''OPEN'') ps))"
proof -
  let ?xs = "filter (\<lambda>p. pos_status p = ''OPEN'') ps"
  have sub: "set ?xs \<subseteq> {p. timed p}" using assms by (auto simp: timed_def)
  have "sorted_wrt (\<lambda>a b. \<not> jlt (open_time a) (open_time b)) (js_sort newest_first ?xs)"
    using sub by (intro sorted_wrt_mono_rel [OF _ nf.sorted_js_sort [OF sub]]) (simp add: newest_first_iff subset_iff)
  moreover have "\<forall>z \<in> set ?xs. filter (ties newest_first z) (js_sort newest_first ?xs) = filter (ties newest_first z) ?xs"
    using nf.stable_js_sort [OF _ sub] sub by blast
  ultimately show ?thesis by (simp add: sortedOpenPositions_def Let_def)
qed

section \<open>Concrete runs\<close>

definition sample_pos :: "string \<Rightarrow> Position" where
  "sample_pos i = new_row 0 i ''OPEN'' (JObj [(''symbol'', JStr ''BTC'')])"

definition ws_pos :: "string \<Rightarrow> string \<Rightarrow> json" where
  "ws_pos i st = JObj [(''position_id'', JStr i), (''status'', JStr st)]"

definition ws_ord :: "string \<Rightarrow> string \<Rightarrow> json" where
  "ws_ord i st = JObj [(''order_id'', JStr i), (''status'', JStr st)]"

text \<open>The start of the runs: two positions listed, one order pending.\<close>

definition dock_start :: "dock_event list" where
  "dock_start = [RestOpen 0 0 [sample_pos ''p'', sample_pos ''q''], WsOrder 1 [] (ws_ord ''o'' ''pending'')]"

definition dock_run :: "dock_event list \<Rightarrow> dock" where
  "dock_run es = the (run lists_once dock_do es dock_init)"

lemma dock_start_eval:
  "run lists_once dock_do dock_start dock_init \<noteq> None \<and> map pos_id (d_positions (dock_run dock_start)) = [''p'', ''q''] \<and>
   map ord_id (d_orders (dock_run dock_start)) = [''o''] \<and> closeTombstones (dock_run dock_start) = [] \<and>
   wsAppendedAt (dock_run dock_start) = [] \<and> orderTombstones (dock_run dock_start) = []"
  by code_simp

lemma dock_start_run: "run lists_once dock_do dock_start dock_init = Some (dock_run dock_start)"
  using dock_start_eval by (auto simp: dock_run_def)

lemmas dock_start_reach = run_start [where init = "\<lambda>d. d = dock_init", OF refl dock_start_run]

lemma dock_no_duplicates_witness: "distinct (map ord_id (d_orders (dock_run dock_start)))"
  using dock_no_duplicates [OF dock_start_reach] by blast

lemma rest_open_result_witness: "d_positions (rest_open 7 7 [sample_pos ''r''] (dock_run dock_start)) = [sample_pos ''r'']"
  using rest_open_result [OF dock_start_reach, of 7 7 "[sample_pos ''r'']"] dock_start_eval
  by (simp add: map_get_def)

definition lag_run :: "dock_event list" where
  "lag_run = [RestOpen 400 400 [sample_pos ''p''], WsPosition 500 (ws_pos ''P'' ''open''), CloseDone True ''p'']"

definition lag_end :: dock where
  "lag_end = the (run (lagging (canonicalPositionId ''p'') 100) dock_do lag_run (close_click 100 ''p'' (dock_run dock_start)))"

lemma lag_end_run: "run (lagging (canonicalPositionId ''p'') 100) dock_do lag_run (close_click 100 ''p'' (dock_run dock_start)) = Some lag_end"
proof -
  have "run (lagging (canonicalPositionId ''p'') 100) dock_do lag_run (close_click 100 ''p'' (dock_run dock_start)) \<noteq> None"
    by code_simp
  then show ?thesis by (auto simp: lag_end_def)
qed

lemma closed_stays_hidden_witness: "canonicalPositionId ''p'' \<notin> pos_key ` set (d_positions lag_end)"
  by (rule closed_stays_hidden [OF dock_start_reach lag_end_run])

lemma failed_close_restores_witness:
  "sample_pos ''p'' \<in> set (d_positions (rest_open 200 200 [sample_pos ''p''] (close_done False ''p'' (close_click 100 ''p'' (dock_run dock_start)))))"
  using failed_close_restores [OF dock_start_reach, of "sample_pos ''p''" "[sample_pos ''p'']" "''p''" 200 200 100]
  by (simp add: pos_key_def sample_pos_def new_row_def)

definition fill_end :: dock where
  "fill_end = the (run (order_lagging ''o'' 5) dock_do [RestOrders 300 [new_order [] ''o'' JNull] []]
     (order_update 5 [] ''o'' ''filled'' (ws_ord ''o'' ''filled'') (dock_run dock_start)))"

lemma settled_order_stays_gone_witness: "''o'' \<notin> ord_id ` set (d_orders fill_end)"
proof (rule settled_order_stays_gone [OF dock_start_reach])
  show "''o'' \<in> ord_id ` set (d_orders (dock_run dock_start))"
    using dock_start_eval by (metis list.set_intros(1) set_map)
  show "terminal_status (toUpperCase ''filled'')" by code_simp
  have "run (order_lagging ''o'' 5) dock_do [RestOrders 300 [new_order [] ''o'' JNull] []]
     (order_update 5 [] ''o'' ''filled'' (ws_ord ''o'' ''filled'') (dock_run dock_start)) \<noteq> None" by simp
  then show "run (order_lagging ''o'' 5) dock_do [RestOrders 300 [new_order [] ''o'' JNull] []]
     (order_update 5 [] ''o'' ''filled'' (ws_ord ''o'' ''filled'') (dock_run dock_start)) = Some fill_end"
    by (simp add: fill_end_def)
qed

lemma fill_refetches_witness: "FetchFilled 0 \<in> set (requests (on_order_update 5 [] (ws_ord ''o'' ''filled'') dock_init))"
proof -
  have "order_id_of (order_payload (ws_ord ''o'' ''filled'')) \<noteq> []"
    "json_str (order_payload (ws_ord ''o'' ''filled'')) ''status'' = Some ''filled''" "toUpperCase (trim ''filled'') = ''FILLED''"
    by code_simp+
  from fill_refetches [OF this, of 5 "[]" dock_init] show ?thesis by auto
qed

lemma sortedOpenPositions_newest_witness: "length (sortedOpenPositions [sample_pos ''p'', sample_pos ''q'']) = 2"
proof -
  have "mset (sortedOpenPositions [sample_pos ''p'', sample_pos ''q'']) = mset [sample_pos ''p'', sample_pos ''q'']"
    using sortedOpenPositions_newest [of "[sample_pos ''p'', sample_pos ''q'']"] is_double_of_int [of 0]
    by (simp add: sample_pos_def new_row_def Let_def)
  then show ?thesis by (metis length_Cons list.size(3) numeral_2_eq_2 size_mset)
qed

text \<open>
  The tombstone is lifted by the first list without the position. An older list that is answered
  later then shows the closed position again; so does a late update over the WebSocket.
\<close>

lemma stale_list_reopens:
  "map pos_id (d_positions (dock_run (dock_start @ [CloseClick 100 ''p'', CloseDone True ''p'',
     RestOpen 700 700 [sample_pos ''q''], RestOpen 900 900 [sample_pos ''p'', sample_pos ''q'']]))) = [''p'', ''q'']"
  "map pos_id (d_positions (dock_run (dock_start @ [CloseClick 100 ''p'', CloseDone True ''p'',
     RestOpen 700 700 [sample_pos ''q''], WsPosition 900 (ws_pos ''p'' ''OPEN'')]))) = [''q'', ''p'']"
  by code_simp+

text \<open>A late update that calls a filled order pending puts it back, in spite of its tombstone.\<close>

lemma pending_update_revives:
  "map ord_id (d_orders (dock_run (dock_start @ [WsOrder 5 [] (ws_ord ''o'' ''FILLED''), WsOrder 6 [] (ws_ord ''o'' ''PENDING'')]))) = [''o'']"
  by code_simp

text \<open>A fill of an order that is not listed leaves no tombstone: a list that lags behind shows it as pending.\<close>

lemma unlisted_fill_reappears:
  "map ord_id (d_orders (dock_run [WsOrder 5 [] (ws_ord ''o'' ''FILLED''), RestOrders 6 [new_order [] ''o'' JNull] []])) = [''o'']"
  by code_simp

end
