(* ===== verification/Position_Pnl.thy ===== *)
theory Position_Pnl
  imports Position_Dock Position_Calc
begin

text \<open>
  Profit and loss of positions as the user's screens compute it: the breakdown into market, swap and
  fees (\<open>shared/components/PositionPnLBreakdown.tsx\<close>), the rows of the dock
  (\<open>BottomDockOpenPositionRows.tsx\<close>), the user's position page (\<open>UserPositionsPage.tsx\<close>), the two-way
  stop-loss and take-profit fields (\<open>BottomDock.tsx\<close>), and the watcher behind "close only profitable"
  (\<open>BottomDockCloseProfitableLive.tsx\<close>). A tick is the pair of its bid and ask texts.
\<close>

section \<open>Parts\<close>

definition finite_or_0 :: "jsnum \<Rightarrow> jsnum" where
  "finite_or_0 x = (if isFinite x then x else Num 0)"

definition pnlCostNumber :: "json option \<Rightarrow> jsnum" where
  "pnlCostNumber v = (case v of
     None \<Rightarrow> Num 0
   | Some JNull \<Rightarrow> Num 0
   | Some (JStr []) \<Rightarrow> Num 0
   | Some (JNum n) \<Rightarrow> finite_or_0 n
   | Some j \<Rightarrow> finite_or_0 (parseFloat (remove_char (CHR '','') (show_json j))))"

definition cost :: "string option \<Rightarrow> jsnum" where
  "cost s = pnlCostNumber (map_option JStr s)"

record pnl_parts =
  market :: jsnum
  net :: jsnum
  swap :: jsnum
  fees :: jsnum

definition openPositionPnlParts :: "Position \<Rightarrow> jsnum option \<Rightarrow> jsnum \<Rightarrow> jsnum \<Rightarrow> pnl_parts" where
  "openPositionPnlParts p livePrice sizeNum entryPrice =
     (let sw = cost (pos_accumulatedSwapUsd p); fe = cost (pos_accumulatedFeesUsd p);
          m = (case livePrice of
                 Some live \<Rightarrow>
                   if jlt (Num 0) sizeNum \<and> jlt (Num 0) entryPrice
                   then (if pos_side p = ''LONG'' then jmul (jsub live entryPrice) sizeNum
                         else jmul (jsub entryPrice live) sizeNum)
                   else jadd (jadd (cost (Some (pos_unrealized_pnl p))) sw) fe
               | None \<Rightarrow> jadd (jadd (cost (Some (pos_unrealized_pnl p))) sw) fe)
      in \<lparr>market = m, net = jsub (jsub m sw) fe, swap = sw, fees = fe\<rparr>)"

definition closedPositionPnlParts :: "Position \<Rightarrow> pnl_parts" where
  "closedPositionPnlParts p =
     (let m = cost (Some (pos_realized_pnl p)); sw = cost (pos_accumulatedSwapUsd p); fe = cost (pos_accumulatedFeesUsd p)
      in \<lparr>market = m, net = jsub (jsub m sw) fe, swap = sw, fees = fe\<rparr>)"

section \<open>Rows\<close>

type_synonym tick = "string \<times> string"

definition livePriceFromTick :: "Position \<Rightarrow> tick option \<Rightarrow> jsnum option" where
  "livePriceFromTick p price = (case price of None \<Rightarrow> None
     | Some (bidT, askT) \<Rightarrow> Some (if pos_side p = ''LONG'' then parseFloat bidT else parseFloat askT))"

text \<open>\<open>a || b || '0'\<close> on texts.\<close>

definition or_0 :: "string list \<Rightarrow> string" where
  "or_0 ss = (case find (\<lambda>s. s \<noteq> []) ss of Some s \<Rightarrow> s | None \<Rightarrow> ''0'')"

definition pos_size_num :: "Position \<Rightarrow> jsnum" where
  "pos_size_num p = parseFloat (or_0 [pos_size p])"

definition pos_entry_num :: "Position \<Rightarrow> jsnum" where
  "pos_entry_num p = parseFloat (or_0 [pos_avg_price p, pos_entry_price p])"

definition row_pnl :: "Position \<Rightarrow> tick option \<Rightarrow> pnl_parts" where
  "row_pnl p t = openPositionPnlParts p (livePriceFromTick p t) (pos_size_num p) (pos_entry_num p)"

text \<open>The user's page has its own copy.\<close>

definition parseNum :: "string \<Rightarrow> jsnum" where
  "parseNum s = (if s = [] then Num 0 else finite_or_0 (parseFloat s))"

definition unrealizedPnlFromTick :: "Position \<Rightarrow> tick option \<Rightarrow> jsnum" where
  "unrealizedPnlFromTick p t =
     (let entry = parseNum (pos_entry_price p); sz = parseNum (pos_size p); stored = parseNum (pos_unrealized_pnl p) in
      case t of
        None \<Rightarrow> stored
      | Some (bidT, askT) \<Rightarrow>
          let mark = (if pos_side p = ''LONG'' then parseFloat bidT else parseFloat askT) in
          if isFinite mark
          then (if pos_side p = ''LONG'' then jmul (jsub mark entry) sz else jmul (jsub entry mark) sz)
          else stored)"

definition pnl_percent :: "Position \<Rightarrow> tick option \<Rightarrow> jsnum" where
  "pnl_percent p t =
     (let notional = jmul (parseNum (pos_entry_price p)) (parseNum (pos_size p)) in
      if jlt (Num 0) notional then jmul (jdiv (unrealizedPnlFromTick p t) notional) (Num 100) else Num 0)"

section \<open>Stop loss and take profit\<close>

text \<open>The amounts at a price and the prices at an amount; \<open>lg\<close> says that the position is long.\<close>

definition positive_text :: "jsnum \<Rightarrow> string" where
  "positive_text x = (if jlt (Num 0) x then toFixed_nat x 2 else [])"

definition edit_text :: "Position \<Rightarrow> (jsnum \<Rightarrow> jsnum \<Rightarrow> jsnum \<Rightarrow> jsnum) \<Rightarrow> string \<Rightarrow> string" where
  "edit_text p f s =
     (if s = [] then []
      else let entry = pos_entry_num p; sz = pos_size_num p; v = parseFloat s in
        if \<not> isNaN v \<and> jlt (Num 0) sz then positive_text (f entry sz v) else [])"

definition sl_amount :: "Position \<Rightarrow> string \<Rightarrow> string" where
  "sl_amount p = edit_text p (\<lambda>entry sz price. if pos_side p = ''LONG'' then jmul (jsub entry price) sz
     else jmul (jsub price entry) sz)"

definition sl_price :: "Position \<Rightarrow> string \<Rightarrow> string" where
  "sl_price p = edit_text p (\<lambda>entry sz loss. if pos_side p = ''LONG'' then jsub entry (jdiv loss sz) else jadd entry (jdiv loss sz))"

definition tp_amount :: "Position \<Rightarrow> string \<Rightarrow> string" where
  "tp_amount p = edit_text p (\<lambda>entry sz price. if pos_side p = ''LONG'' then jmul (jsub price entry) sz
     else jmul (jsub entry price) sz)"

definition tp_price :: "Position \<Rightarrow> string \<Rightarrow> string" where
  "tp_price p = edit_text p (\<lambda>entry sz gain. if pos_side p = ''LONG'' then jadd entry (jdiv gain sz) else jsub entry (jdiv gain sz))"

section \<open>Profitable positions\<close>

record profit_watch =
  profitableIds :: "string list"
  hasState :: bool
  reports :: "bool list"

definition watch_init :: profit_watch where
  "watch_init = \<lparr>profitableIds = [], hasState = False, reports = []\<rparr>"

definition report_has :: "profit_watch \<Rightarrow> profit_watch" where
  "report_has w =
     (let has = (profitableIds w \<noteq> []) in
      if has \<noteq> hasState w then w\<lparr>hasState := has, reports := reports w @ [has]\<rparr> else w)"

definition onNet :: "string \<Rightarrow> jsnum \<Rightarrow> profit_watch \<Rightarrow> profit_watch" where
  "onNet cid v w =
     (let nowProf = (isFinite v \<and> jlt (Num 0) v) in
      if nowProf = (cid \<in> set (profitableIds w)) then w
      else report_has (w\<lparr>profitableIds := (if nowProf then set_add cid (profitableIds w) else set_delete cid (profitableIds w))\<rparr>))"

definition onPositions :: "Position list \<Rightarrow> profit_watch \<Rightarrow> profit_watch" where
  "onPositions ps w =
     (let allowed = map pos_key ps; ids = filter (\<lambda>i. i \<in> set allowed) (profitableIds w) in
      if ids = profitableIds w then w else report_has (w\<lparr>profitableIds := ids\<rparr>))"

datatype watch_event = Net string jsnum | Listed "Position list"

fun watch_do :: "watch_event \<Rightarrow> profit_watch \<Rightarrow> profit_watch" where
  "watch_do (Net c v) w = onNet c v w"
| "watch_do (Listed ps) w = onPositions ps w"

section \<open>Lemmas\<close>

lemma finite_or_0 [simp]: "isFinite (finite_or_0 x)" "finite_or_0 x \<noteq> NaN"
  by (cases x; simp add: finite_or_0_def)+

lemma finite_cost [simp]: "isFinite (cost s)"
  by (auto simp: cost_def pnlCostNumber_def split: option.split json.split list.split)

lemma isFinite_Num: "isFinite x \<Longrightarrow> \<exists>q. x = Num q"
  by (cases x) auto

lemma jsub_finite_not_nan: "x \<noteq> NaN \<Longrightarrow> isFinite y \<Longrightarrow> jsub x y \<noteq> NaN"
  by (cases y) simp_all

lemma jadd_finite_not_nan: "x \<noteq> NaN \<Longrightarrow> isFinite y \<Longrightarrow> jadd x y \<noteq> NaN"
  by (cases y) simp_all

text \<open>The product has the sign of its first factor, for a positive second one.\<close>

lemma jmul_pos_imp:
  assumes "jlt (Num 0) (jmul x y)" "jlt (Num 0) y"
  shows "jlt (Num 0) x"
proof (cases "\<exists>a b. x = Num a \<and> y = Num b")
  case True
  then obtain a b where ab: "x = Num a" "y = Num b" by blast
  show ?thesis
  proof (rule ccontr)
    assume "\<not> jlt (Num 0) x"
    then have "a * b \<le> 0" using assms(2) by (simp add: ab mult_le_0_iff)
    then have "jle (jmul x y) (Num 0)" by (simp add: ab to_num_nonpos)
    then show False using assms(1) not_jlt_iff [of "Num 0" "jmul x y"] jlt_not_nan by blast
  qed
next
  case False
  then show ?thesis using assms
    by (cases x; cases y) (auto simp: inf_of_sign_def sgn_if split: if_splits)
qed

lemma jmul_finite_not_nan: "isFinite x \<or> x = PInf \<or> x = NInf \<Longrightarrow> isFinite y \<Longrightarrow> jlt (Num 0) y \<Longrightarrow> jmul x y \<noteq> NaN"
  by (cases x; cases y) (auto simp: inf_of_sign_def)

lemma positive_text_iff: "positive_text x \<noteq> [] \<Longrightarrow> jlt (Num 0) x"
  by (auto simp: positive_text_def split: if_splits)

lemma edit_text_nonempty:
  "edit_text p f s \<noteq> [] \<Longrightarrow> jlt (Num 0) (f (pos_entry_num p) (pos_size_num p) (parseFloat s)) \<and> jlt (Num 0) (pos_size_num p) \<and> parseFloat s \<noteq> NaN"
  by (auto simp: edit_text_def Let_def isNaN_def split: if_splits dest: positive_text_iff)

lemma entry_double: "is_double (pos_entry_num p)" "is_double (pos_size_num p)"
  by (simp_all add: pos_entry_num_def pos_size_num_def)

text \<open>A positive product of a difference tells the order of the two.\<close>

lemma diff_product_pos:
  assumes "jlt (Num 0) (jmul (jsub a b) y)" "jlt (Num 0) y" "is_double a" "is_double b"
  shows "jlt b a"
proof -
  have d: "jlt (Num 0) (jsub a b)" using assms(1,2) by (rule jmul_pos_imp)
  then have "a \<noteq> NaN" "b \<noteq> NaN" by (cases a; cases b; simp add: jsub_def)+
  then show ?thesis using d jlt_0_jsub [OF assms(3,4)] by simp
qed

section \<open>The watcher\<close>

definition watch_inv :: "profit_watch \<Rightarrow> bool" where
  "watch_inv w \<longleftrightarrow> distinct (profitableIds w) \<and> (hasState w \<longleftrightarrow> profitableIds w \<noteq> []) \<and>
     reports w = map even [0..<length (reports w)] \<and> hasState w = odd (length (reports w))"

lemma report_has_inv:
  assumes "distinct ids" "watch_inv w"
  shows "watch_inv (report_has (w\<lparr>profitableIds := ids\<rparr>))"
proof -
  have "reports w @ [b] = map even [0..<Suc (length (reports w))]" if "b = even (length (reports w))" for b
    using assms(2) that by (simp add: watch_inv_def)
  then show ?thesis using assms by (auto simp: watch_inv_def report_has_def Let_def)
qed

lemma watch_inv_step: "watch_inv w \<Longrightarrow> watch_inv (watch_do e w)"
proof (cases e)
  case (Net c v)
  assume w: "watch_inv w"
  then have "distinct (set_add c (profitableIds w))" "distinct (set_delete c (profitableIds w))"
    by (simp_all add: watch_inv_def jset.wf_add jset.wf_del)
  with w Net show ?thesis by (auto simp: onNet_def report_has_inv Let_def)
next
  case (Listed ps)
  assume "watch_inv w"
  with Listed show ?thesis by (auto simp: onPositions_def report_has_inv watch_inv_def [of w] Let_def intro: report_has_inv)
qed

interpretation pwi: invariant_system "\<lambda>e w. True" watch_do watch_inv "\<lambda>w. w = watch_init"
  by unfold_locales (rule watch_inv_step, assumption, simp add: watch_inv_def watch_init_def)

section \<open>Theorems\<close>



text \<open>The breakdown adds up and is a number: the costs are finite whatever their texts are, net is market less swap
  less fees, and none of the three is NaN for a closed position, nor for an open one whose price, if
  there is one, and size are finite.\<close>

theorem pnl_parts_defined:
  assumes "case livePriceFromTick p t of None \<Rightarrow> True | Some live \<Rightarrow> isFinite live" "isFinite (pos_size_num p)" "isFinite (pos_entry_num p)"
    and "q = row_pnl p t \<or> q = closedPositionPnlParts p"
  shows "net q = jsub (jsub (market q) (swap q)) (fees q) \<and> isFinite (swap q) \<and> isFinite (fees q) \<and>
    market q \<noteq> NaN \<and> net q \<noteq> NaN"
proof -
  obtain sz en where n: "pos_size_num p = Num sz" "pos_entry_num p = Num en"
    using assms(2,3) by (blast dest: isFinite_Num)
  have prod: "jmul (jsub (Num a) (Num b)) (Num sz) \<noteq> NaN" if "0 < sz" for a b
    using that to_num_range [of "a - b"] by (intro jmul_finite_not_nan) (auto simp: jsub_def)
  have cost: "cost u \<noteq> NaN" for u
    using finite_cost [of u] by (cases "cost u") simp_all
  have stored: "jadd (jadd (cost u) (cost v)) (cost w) \<noteq> NaN" for u v w
    by (intro jadd_finite_not_nan cost finite_cost)
  have "market (row_pnl p t) \<noteq> NaN"
  proof (cases "livePriceFromTick p t")
    case None
    then show ?thesis by (simp add: row_pnl_def openPositionPnlParts_def Let_def stored)
  next
    case (Some live)
    with assms(1) obtain l where "live = Num l" by (auto dest: isFinite_Num)
    with Some show ?thesis by (simp add: row_pnl_def openPositionPnlParts_def Let_def n prod stored)
  qed
  then have "market q \<noteq> NaN"
    using assms(4) by (auto simp: closedPositionPnlParts_def Let_def cost)
  moreover have "net q = jsub (jsub (market q) (swap q)) (fees q)" "isFinite (swap q)" "isFinite (fees q)"
    using assms(4) by (auto simp: row_pnl_def openPositionPnlParts_def closedPositionPnlParts_def Let_def)
  ultimately show ?thesis by (simp add: jsub_finite_not_nan)
qed

text \<open>The stop-loss and take-profit fields know their sides: a price for which a loss amount is shown is on the
  losing side of the entry price, one for which a profit amount is shown on the winning side, so no
  price shows both.\<close>

theorem sl_tp_sides:
  "(sl_amount p s \<noteq> [] \<longrightarrow>
      (if pos_side p = ''LONG'' then jlt (parseFloat s) (pos_entry_num p) else jlt (pos_entry_num p) (parseFloat s))) \<and>
    (tp_amount p s \<noteq> [] \<longrightarrow>
      (if pos_side p = ''LONG'' then jlt (pos_entry_num p) (parseFloat s) else jlt (parseFloat s) (pos_entry_num p))) \<and>
    (sl_amount p s = [] \<or> tp_amount p s = [])"
proof -
  have sl: "if pos_side p = ''LONG'' then jlt (parseFloat s) (pos_entry_num p) else jlt (pos_entry_num p) (parseFloat s)"
    if "sl_amount p s \<noteq> []"
    using edit_text_nonempty [OF that [unfolded sl_amount_def]] entry_double
    by (auto split: if_splits dest: diff_product_pos)
  have tp: "if pos_side p = ''LONG'' then jlt (pos_entry_num p) (parseFloat s) else jlt (parseFloat s) (pos_entry_num p)"
    if "tp_amount p s \<noteq> []"
    using edit_text_nonempty [OF that [unfolded tp_amount_def]] entry_double
    by (auto split: if_splits dest: diff_product_pos)
  have "False" if a: "sl_amount p s \<noteq> []" "tp_amount p s \<noteq> []"
    using sl [OF a(1)] tp [OF a(2)] jlt_trans [of "parseFloat s" "pos_entry_num p" "parseFloat s"]
    by (simp split: if_splits)
  then show ?thesis using sl tp by blast
qed

text \<open>The dock is told about profitable positions exactly when that changes: in every reachable state the reports
  alternate, beginning with true, the last one is the current state, and the state says whether the
  set of profitable ids is inhabited.\<close>

theorem profitable_reports_alternate:
  assumes "reach (\<lambda>w. w = watch_init) (\<lambda>e w. True) watch_do w"
  shows "reports w = map even [0..<length (reports w)] \<and> hasState w = odd (length (reports w)) \<and>
    (hasState w \<longleftrightarrow> profitableIds w \<noteq> []) \<and> distinct (profitableIds w)"
  using pwi.reach_inv [OF assms] unfolding watch_inv_def by blast

section \<open>Concrete positions\<close>

definition fx_pos :: "string \<Rightarrow> Position" where
  "fx_pos sd = (sample_pos ''p'')\<lparr>pos_side := sd, pos_size := ''1024'', pos_entry_price := ''1.0625'', pos_avg_price := ''1.0625''\<rparr>"

lemma fx_fixed: "toFixed_nat (Num 64) 2 = ''64.00''" "toFixed_nat (Num (135 / 128)) 2 = ''1.05''"
  by (simp_all add: toFixed_nat_def fixed_num_def fixed_pos_def fixed_int_def dec_digits_simps digit_chars [unfolded One_nat_def]
      floor_divide_of_int_eq [where 'a = rat, of "numeral k" "numeral l" for k l, simplified] Let_def)

lemma fx_texts:
  "parseFloat ''1.0625'' = Num (17 / 16)" "parseFloat ''1024'' = Num 1024" "parseFloat ''1.0703125'' = Num (137 / 128)"
  "parseFloat ''1.0'' = Num 1" "parseFloat ''8'' = Num 8" "parseFloat [] = NaN" "parseFloat ''0.0'' = Num 0"
  using to_num_dyadic [of "17 / 16" 4 17] to_num_dyadic [of "137 / 128" 7 137]
  by (simp_all add: parse_float_simps num_simps)

lemma fx_pos_simps [simp]:
  "pos_side (fx_pos sd) = sd" "pos_size (fx_pos sd) = ''1024''" "pos_entry_price (fx_pos sd) = ''1.0625''"
  "pos_avg_price (fx_pos sd) = ''1.0625''"
  by (simp_all add: fx_pos_def)

lemma fx_nums [simp]: "pos_size_num (fx_pos sd) = Num 1024" "pos_entry_num (fx_pos sd) = Num (17 / 16)"
  by (simp_all add: pos_size_num_def pos_entry_num_def or_0_def fx_texts)


lemma pnl_parts_defined_witness: "net (row_pnl (fx_pos ''SHORT'') (Some (''1.0'', ''1.0''))) \<noteq> NaN"
proof -
  have "case livePriceFromTick (fx_pos ''SHORT'') (Some (''1.0'', ''1.0'')) of None \<Rightarrow> True | Some live \<Rightarrow> isFinite live"
    by (simp add: livePriceFromTick_def fx_texts)
  from pnl_parts_defined [OF this _ _ disjI1 [OF refl]] show ?thesis unfolding fx_nums isFinite.simps by blast
qed

lemma sl_tp_sides_witness: "tp_amount (fx_pos ''LONG'') ''1.0'' = []"
proof -
  have "sl_amount (fx_pos ''LONG'') ''1.0'' = ''64.00''"
    by (simp add: sl_amount_def edit_text_def fx_texts positive_text_def fx_fixed jsub_def num_simps Let_def isNaN_def
        to_num_dyadic [of "1 / 16" 4 1])
  then show ?thesis using sl_tp_sides [of "fx_pos ''LONG''" "''1.0''"] by simp
qed

definition watch_events :: "watch_event list" where
  "watch_events = [Net ''p'' (Num 1), Net ''q'' PInf, Net ''p'' (Num (-1)), Net ''p'' (Num 2), Listed []]"

lemma profitable_reports_alternate_witness:
  "reports (fold watch_do watch_events watch_init) = map even [0..<length (reports (fold watch_do watch_events watch_init))] \<and>
   reports (fold watch_do watch_events watch_init) = [True, False, True, False]"
proof -
  have "run (\<lambda>e w. True) watch_do watch_events watch_init = Some (fold watch_do watch_events watch_init)"
    by (simp add: watch_events_def)
  then have "reach (\<lambda>w. w = watch_init) (\<lambda>e w. True) watch_do (fold watch_do watch_events watch_init)"
    by (rule run_start [where init = "\<lambda>w. w = watch_init", OF refl])
  from profitable_reports_alternate [OF this] show ?thesis
    by (simp add: watch_events_def onNet_def onPositions_def report_has_def watch_init_def set_add_def set_delete_def)
qed

text \<open>
  The dock only asks whether there is a tick, not whether its text is a number: an unreadable bid
  makes its profit NaN, where the user's page falls back to the stored one.
\<close>

lemma unreadable_bid_nan:
  "market (row_pnl (fx_pos ''LONG'') (Some ([], ''1.0''))) = NaN"
  "unrealizedPnlFromTick (fx_pos ''LONG'') (Some ([], ''1.0'')) = parseNum (pos_unrealized_pnl (fx_pos ''LONG''))"
  by (simp_all add: row_pnl_def livePriceFromTick_def openPositionPnlParts_def unrealizedPnlFromTick_def fx_texts jsub_def Let_def)

text \<open>
  The stop-loss price of an amount is rounded to two decimals, whatever the symbol's tick is: a loss
  of 8 dollars on 1024 units at 1.0625 becomes the price 1.05 instead of
  1.0546875, and so a loss of 12.80.
\<close>

lemma sl_price_rounds_away: "sl_price (fx_pos ''LONG'') ''8'' = ''1.05''"
  using to_num_dyadic [of "1 / 128" 7 1] to_num_dyadic [of "135 / 128" 7 135]
  by (simp add: sl_price_def edit_text_def fx_texts positive_text_def fx_fixed jsub_def Let_def isNaN_def)

end
