(* ===== verification/Request_Timing.thy ===== *)
theory Request_Timing
  imports Js_Json
begin

text \<open>
  The timing of requests that is shown with a deposit or a withdrawal
  (\<open>shared/utils/requestTiming.ts\<close>). The browser's resource entries are an argument; the URL parser
  is the pair of parameters \<open>pathname\<close> and \<open>origin\<close>, which give \<open>None\<close> when \<open>new URL\<close> throws.
\<close>

definition bullet :: string where "bullet = [CHR 0xE2, CHR 0x80, CHR 0xA2]"
definition newline :: string where "newline = [CHR 10]"

record resource_entry =
  e_name :: string
  e_duration :: jsnum
  e_domainLookupStart :: jsnum
  e_domainLookupEnd :: jsnum
  e_connectStart :: jsnum
  e_connectEnd :: jsnum
  e_requestStart :: jsnum
  e_responseStart :: jsnum
  e_responseEnd :: jsnum

record RequestTimingBreakdown =
  rt_url :: string
  rt_label :: string
  rt_totalMs :: jsnum
  rt_dnsMs :: jsnum
  rt_connectMs :: jsnum
  rt_ttfbMs :: jsnum
  rt_downloadMs :: jsnum

record TimingSummary =
  t_totalMs :: jsnum
  requests_of :: "RequestTimingBreakdown list"

definition formatMs :: "jsnum \<Rightarrow> string" where
  "formatMs ms =
     (if jlt ms (Num 1) then ''<1ms''
      else if jle (Num 1000) ms then toFixed_nat (jdiv ms (Num 1000)) 1 @ ''s''
      else toString (jround ms) @ ''ms'')"

definition getRequestLabel :: "(string \<Rightarrow> string option) \<Rightarrow> string \<Rightarrow> string" where
  "getRequestLabel pathname url =
     (if str_includes url ''/deposits/request'' then ''Deposit API''
      else if str_includes url ''/withdrawals/request'' then ''Withdrawal API''
      else if str_includes url ''/auth/refresh'' then ''Token refresh''
      else case pathname url of
        Some path \<Rightarrow> if path \<noteq> [] then path else ''API''
      | None \<Rightarrow> ''Request'')"

text \<open>A phase whose end is not recorded took no time.\<close>

definition phase :: "jsnum \<Rightarrow> jsnum \<Rightarrow> jsnum" where
  "phase stop start = (if jlt (Num 0) stop then jsub stop start else Num 0)"

definition parseResourceTiming :: "(string \<Rightarrow> string option) \<Rightarrow> resource_entry \<Rightarrow> RequestTimingBreakdown" where
  "parseResourceTiming pathname e =
     \<lparr>rt_url = e_name e, rt_label = getRequestLabel pathname (e_name e), rt_totalMs = e_duration e,
      rt_dnsMs = phase (e_domainLookupEnd e) (e_domainLookupStart e),
      rt_connectMs = phase (e_connectEnd e) (e_connectStart e),
      rt_ttfbMs = phase (e_responseStart e) (e_requestStart e),
      rt_downloadMs = phase (e_responseEnd e) (e_responseStart e)\<rparr>"

definition getNewResourceEntries ::
  "(string \<Rightarrow> string option) \<Rightarrow> (string \<Rightarrow> string option) \<Rightarrow> string \<Rightarrow> resource_entry list \<Rightarrow> string \<Rightarrow> nat \<Rightarrow> RequestTimingBreakdown list" where
  "getNewResourceEntries pathname origin location entries apiBaseUrl previousCount =
     (let baseOrigin = (if apiBaseUrl = [] then location else case origin apiBaseUrl of Some x \<Rightarrow> x | None \<Rightarrow> location) in
      map (parseResourceTiming pathname)
        (filter (\<lambda>e. startsWith (e_name e) baseOrigin \<or> str_includes (e_name e) ''/api/'' \<or> str_includes (e_name e) ''/v1/'')
          (drop previousCount entries)))"

definition segments :: "RequestTimingBreakdown \<Rightarrow> string list" where
  "segments r =
     (let part = (\<lambda>name ms. if jlt (Num 0) ms then [name @ '' '' @ formatMs ms] else []);
          ss = part ''DNS'' (rt_dnsMs r) @ part ''Connect'' (rt_connectMs r) @ part ''Server'' (rt_ttfbMs r) @
               part ''Download'' (rt_downloadMs r)
      in if ss = [] then [''Total '' @ formatMs (rt_totalMs r)] else ss)"

definition formatTimingForToast :: "TimingSummary \<Rightarrow> string" where
  "formatTimingForToast summary =
     join_with newline (map (\<lambda>r. rt_label r @ '': '' @ join_with ('' '' @ bullet @ '' '') (segments r)) (requests_of summary))"

definition captureAfter ::
  "(string \<Rightarrow> string option) \<Rightarrow> (string \<Rightarrow> string option) \<Rightarrow> string \<Rightarrow> resource_entry list \<Rightarrow> nat \<Rightarrow> string \<Rightarrow> TimingSummary" where
  "captureAfter pathname origin location entries previousCount apiBaseUrl =
     (let rs = getNewResourceEntries pathname origin location entries (if apiBaseUrl = [] then location else apiBaseUrl) previousCount
      in \<lparr>t_totalMs = foldl (\<lambda>sum r. jadd sum (rt_totalMs r)) (Num 0) rs, requests_of = rs\<rparr>)"

text \<open>What is shown comes from entries that arrived after the count was taken; a request always has a segment.\<close>

lemma entries_new:
  "r \<in> set (requests_of (captureAfter pn og loc es n base)) \<Longrightarrow>
   \<exists>e \<in> set (drop n es). r = parseResourceTiming pn e"
  by (auto simp: captureAfter_def getNewResourceEntries_def Let_def)

lemma segments_not_Nil [simp]: "segments r \<noteq> []"
  by (simp add: segments_def Let_def)

lemma captureAfter_none: "captureAfter pn og loc es (length es) base = \<lparr>t_totalMs = Num 0, requests_of = []\<rparr>"
  by (simp add: captureAfter_def getNewResourceEntries_def Let_def)

end
