(* ===== verification/Wallet.thy ===== *)
theory Wallet
  imports Request_Timing Ws_Events Machine
begin

text \<open>
  The user's wallet: the store (\<open>shared/store/walletStore.ts\<close>), the five listeners that apply
  \<open>wallet.balance.updated\<close> to it (\<open>useGlobalWalletBalance.ts\<close>, \<open>useDepositFlow.ts\<close>,
  \<open>useWithdrawalFlow.ts\<close>, \<open>LeftSidebar.tsx\<close>, \<open>BottomDock.tsx\<close>), the approvals of deposits and
  withdrawals, and the flow of requesting one.

  The store keeps what the listeners put in: the sidebar and the dock convert with \<open>Number\<close>, the
  hooks keep the values of the message. \<open>isSubmitting\<close> is that of the flow looked at. Toasts and pushed notifications are recorded; the texts
  \<open>toLocaleString\<close> gives are the parameter \<open>money\<close>.
\<close>

section \<open>Store\<close>

record wallet =
  w_balance :: json
  w_currency :: json
  w_available :: json
  w_locked :: json
  w_equity :: json
  w_margin_used :: json
  w_free_margin :: json
  w_isLoading :: bool

definition wallet_init :: wallet where
  "wallet_init = \<lparr>w_balance = JNum (Num 0), w_currency = JStr ''USD'', w_available = JNum (Num 0), w_locked = JNum (Num 0),
     w_equity = JNum (Num 0), w_margin_used = JNum (Num 0), w_free_margin = JNum (Num 0), w_isLoading = False\<rparr>"

definition setBalance :: "json \<Rightarrow> wallet \<Rightarrow> wallet" where
  "setBalance b w = w\<lparr>w_balance := b\<rparr>"

text \<open>The arguments are balance, currency, available, locked, equity, margin used and free margin.\<close>

definition setWalletData :: "json \<Rightarrow> json \<Rightarrow> json \<Rightarrow> json \<Rightarrow> json \<Rightarrow> json \<Rightarrow> json \<Rightarrow> wallet \<Rightarrow> wallet" where
  "setWalletData b c av lk eq mu fm w =
     w\<lparr>w_balance := b, w_currency := c, w_available := av, w_locked := lk, w_equity := eq, w_margin_used := mu, w_free_margin := fm\<rparr>"

definition setLoading :: "bool \<Rightarrow> wallet \<Rightarrow> wallet" where
  "setLoading b w = w\<lparr>w_isLoading := b\<rparr>"

text \<open>What the browser keeps of the store.\<close>

definition partialize :: "wallet \<Rightarrow> json" where
  "partialize w = JObj [(''balance'', w_balance w), (''currency'', w_currency w)]"

section \<open>Balance updates\<close>

text \<open>\<open>v || d\<close>, and \<open>Number\<close> of the first of several fields that is there.\<close>

definition js_or :: "json option \<Rightarrow> json \<Rightarrow> json" where
  "js_or v d = (case v of Some j \<Rightarrow> if json_truthy j then j else d | None \<Rightarrow> d)"

definition number_field :: "json \<Rightarrow> string list \<Rightarrow> jsnum \<Rightarrow> jsnum" where
  "number_field p ks d = (case first_field p ks of Some v \<Rightarrow> json_number v | None \<Rightarrow> d)"

definition value_field :: "json \<Rightarrow> string list \<Rightarrow> json \<Rightarrow> json" where
  "value_field p ks d = (case first_field p ks of Some v \<Rightarrow> v | None \<Rightarrow> d)"

definition normalizeUserId :: "json option \<Rightarrow> string" where
  "normalizeUserId v = (case v of
     Some j \<Rightarrow> if json_truthy j then remove_char (CHR ''-'') (toLowerCase (trim (show_json j))) else []
   | None \<Rightarrow> [])"

datatype wallet_toast =
    BalanceUpdated json | BalanceChanged bool json | Success string | Failure string

record wallet_ui =
  wallet_of :: wallet
  wtoasts :: "wallet_toast list"
  pushed :: "NotificationPushPayload list"
  isSubmitting :: bool

definition user_key :: "string option \<Rightarrow> string" where
  "user_key u = normalizeUserId (map_option JStr u)"

definition same_user :: "string \<Rightarrow> string option \<Rightarrow> bool" where
  "same_user k u = (k \<noteq> [] \<and> user_key u \<noteq> [] \<and> k = user_key u)"

definition toast_if :: "bool \<Rightarrow> wallet_toast \<Rightarrow> wallet_ui \<Rightarrow> wallet_ui" where
  "toast_if b t s = (if b then s\<lparr>wtoasts := wtoasts s @ [t]\<rparr> else s)"

text \<open>Is the balance new, where 0 counts as not yet loaded?\<close>

definition balance_changes :: "wallet_ui \<Rightarrow> json \<Rightarrow> bool" where
  "balance_changes s b = (let cur = w_balance (wallet_of s) in \<not> strict_eq cur (JNum (Num 0)) \<and> \<not> strict_eq cur b)"

definition hook_data :: "json \<Rightarrow> wallet \<Rightarrow> wallet" where
  "hook_data p = setWalletData
     (js_or (json_field p ''balance'') (JNum (Num 0)))
     (js_or (json_field p ''currency'') (JStr ''USD''))
     (js_or (json_field p ''available'') (js_or (json_field p ''balance'') (JNum (Num 0))))
     (js_or (json_field p ''locked'') (JNum (Num 0)))
     (js_or (json_field p ''equity'') (js_or (json_field p ''balance'') (JNum (Num 0))))
     (value_field p [''margin_used''] (JNum (num_or (number_field p [''marginUsed''] NaN) (Num 0))))
     (JNum (num_or (number_field p [''free_margin'', ''freeMargin'', ''available'', ''balance''] NaN) (Num 0)))"

text \<open>
  The listener of the hooks. The fields are read with \<open>||\<close> for the id, so that an empty \<open>userId\<close>
  falls back to \<open>user_id\<close>; a payload that is no object has no fields and matches nobody.
\<close>

definition hook_user :: "json \<Rightarrow> string" where
  "hook_user p = normalizeUserId (case json_field p ''userId'' of
     Some j \<Rightarrow> if json_truthy j then Some j else json_field p ''user_id'' | None \<Rightarrow> json_field p ''user_id'')"

definition global_balance :: "string option \<Rightarrow> json \<Rightarrow> wallet_ui \<Rightarrow> wallet_ui" where
  "global_balance u p s =
     (if same_user (hook_user p) u then
        (let newBalance = js_or (json_field p ''balance'') (JNum (Num 0)) in
         toast_if (balance_changes s newBalance) (BalanceUpdated newBalance) (s\<lparr>wallet_of := hook_data p (wallet_of s)\<rparr>))
      else s)"

definition deposit_balance :: "string option \<Rightarrow> json \<Rightarrow> wallet_ui \<Rightarrow> wallet_ui" where
  "deposit_balance u p s =
     (if same_user (hook_user p) u then
        (let newBalance = js_or (json_field p ''balance'') (JNum (Num 0)) in
         toast_if (balance_changes s newBalance) (BalanceUpdated newBalance) (s\<lparr>wallet_of := hook_data p (wallet_of s)\<rparr>))
      else s)"

definition withdrawal_balance :: "string option \<Rightarrow> json \<Rightarrow> wallet_ui \<Rightarrow> wallet_ui" where
  "withdrawal_balance u p s = (if same_user (hook_user p) u then s\<lparr>wallet_of := hook_data p (wallet_of s)\<rparr> else s)"

text \<open>The listeners of the sidebar and the dock.\<close>

definition panel_balance :: "json \<Rightarrow> jsnum" where
  "panel_balance p = number_field p [''balance'', ''available''] (Num 0)"

definition panel_data :: "json \<Rightarrow> wallet \<Rightarrow> wallet" where
  "panel_data p = setWalletData
     (JNum (panel_balance p))
     (value_field p [''currency''] (JStr ''USD''))
     (JNum (number_field p [''available'', ''balance''] (Num 0)))
     (JNum (number_field p [''locked''] (Num 0)))
     (JNum (number_field p [''equity'', ''balance''] (Num 0)))
     (JNum (number_field p [''margin_used'', ''marginUsed''] (Num 0)))
     (JNum (number_field p [''free_margin'', ''freeMargin''] (Num 0)))"

definition panel_update :: "string option \<Rightarrow> json \<Rightarrow> wallet_ui \<Rightarrow> wallet_ui" where
  "panel_update u p s =
     (if same_user (normalizeUserId (first_field p [''userId'', ''user_id''])) u then
        (let newBalance = panel_balance p in
         toast_if (balance_changes s (JNum newBalance))
           (BalanceChanged (jlt (json_number (w_balance (wallet_of s))) newBalance) (JNum newBalance))
           (s\<lparr>wallet_of := panel_data p (setLoading False (wallet_of s))\<rparr>))
      else s)"

definition dock_balance :: "string option \<Rightarrow> json \<Rightarrow> wallet_ui \<Rightarrow> wallet_ui" where
  "dock_balance u p s = (if is_object p then panel_update u p s else s)"

definition sidebar_balance :: "string option \<Rightarrow> json \<Rightarrow> wallet_ui \<Rightarrow> wallet_ui" where
  "sidebar_balance u p s =
     (if is_object p then panel_update u p s else s\<lparr>wallet_of := setLoading False (wallet_of s)\<rparr>)"

datatype listener = GlobalHook | DepositFlow | WithdrawalFlow | Sidebar | Dock

fun hear :: "string option \<Rightarrow> json \<Rightarrow> listener \<Rightarrow> wallet_ui \<Rightarrow> wallet_ui" where
  "hear u p GlobalHook = global_balance u p"
| "hear u p DepositFlow = deposit_balance u p"
| "hear u p WithdrawalFlow = withdrawal_balance u p"
| "hear u p Sidebar = sidebar_balance u p"
| "hear u p Dock = dock_balance u p"

text \<open>The first balance, fetched by the sidebar unless it was left in the meantime.\<close>

definition sidebar_fetched :: "bool \<Rightarrow> json option \<Rightarrow> wallet_ui \<Rightarrow> wallet_ui" where
  "sidebar_fetched cancelled res s =
     (if cancelled then s
      else case res of
        None \<Rightarrow> s\<lparr>wallet_of := setLoading False (wallet_of s)\<rparr>
      | Some r \<Rightarrow>
          (let available = number_field r [''available''] (Num 0) in
           s\<lparr>wallet_of := setLoading False (setWalletData (JNum available) (value_field r [''currency''] (JStr ''USD''))
               (JNum available) (JNum (number_field r [''locked''] (Num 0))) (JNum (number_field r [''equity''] available))
               (JNum (number_field r [''marginUsed'', ''margin_used''] (Num 0)))
               (JNum (number_field r [''freeMargin'', ''free_margin''] (Num 0))) (wallet_of s))\<rparr>))"

section \<open>Approvals\<close>

definition approved_data :: "jsnum \<Rightarrow> wallet \<Rightarrow> wallet" where
  "approved_data b = setWalletData (JNum b) (JStr ''USD'') (JNum b) (JNum (Num 0)) (JNum b) (JNum (Num 0)) (JNum b)"

text \<open>Without a transaction or request id the toast is not reached, because \<open>slice\<close> of undefined throws.\<close>

definition deposit_approved ::
  "(jsnum \<Rightarrow> string) \<Rightarrow> string \<Rightarrow> string option \<Rightarrow> DepositRequestApprovedPayload \<Rightarrow> wallet_ui \<Rightarrow> wallet_ui" where
  "deposit_approved money uuid u p s =
     (if Some (drd_userId p) \<noteq> u then s
      else
        (let transactionId = (if drd_transactionId p \<noteq> [] then Some (drd_transactionId p) else drd_requestId p);
             note = \<lparr>np_id = uuid, np_kind = DEPOSIT_APPROVED, np_title = ''Deposit Approved'',
               np_message = ''Your deposit of $'' @ toString (drd_amount p) @ '' has been approved. New balance: $'' @ money (drd_newBalance p),
               np_createdAt = drd_approvedAt p, np_read = False,
               np_meta = Some ((case transactionId of Some t \<Rightarrow> [(''transactionId'', JStr t)] | None \<Rightarrow> []) @ [(''amount'', JNum (drd_amount p))])\<rparr>;
             s = s\<lparr>wallet_of := approved_data (drd_newBalance p) (wallet_of s), pushed := pushed s @ [note]\<rparr>
         in case transactionId of
              None \<Rightarrow> s
            | Some t \<Rightarrow> s\<lparr>wtoasts := wtoasts s @ [Success (''Deposit approved (ID: '' @ take 8 t @ ''...). Balance updated to $'' @
                money (drd_newBalance p))]\<rparr>))"

definition withdrawal_approved ::
  "(jsnum \<Rightarrow> string) \<Rightarrow> string \<Rightarrow> string option \<Rightarrow> WithdrawalApprovedPayload \<Rightarrow> wallet_ui \<Rightarrow> wallet_ui" where
  "withdrawal_approved money uuid u p s =
     (if Some (wa_userId p) \<noteq> u then s
      else s\<lparr>wallet_of := approved_data (wa_newBalance p) (wallet_of s),
             pushed := pushed s @ [\<lparr>np_id = uuid, np_kind = WITHDRAWAL_APPROVED, np_title = ''Withdrawal Approved'',
               np_message = ''Your withdrawal of $'' @ toString (wa_amount p) @ '' has been approved. New balance: $'' @ money (wa_newBalance p),
               np_createdAt = wa_approvedAt p, np_read = False,
               np_meta = Some [(''requestId'', JStr (wa_requestId p)), (''amount'', JNum (wa_amount p))]\<rparr>],
             wtoasts := wtoasts s @ [Success (''Withdrawal approved (ID: '' @ take 8 (wa_requestId p) @ ''...). Balance updated to $'' @
               money (wa_newBalance p))]\<rparr>)"

section \<open>Requests\<close>

text \<open>
  A flow asks when a user is there; the answer is the request's id with the timing, or the error.
  \<open>what\<close> is \<open>deposit\<close> or \<open>withdraw\<close>, \<open>noun\<close> its noun.
\<close>

definition submit_start :: "string \<Rightarrow> string option \<Rightarrow> wallet_ui \<Rightarrow> wallet_ui" where
  "submit_start what u s =
     (if u = None \<or> u = Some [] then s\<lparr>wtoasts := wtoasts s @ [Failure (''You must be logged in to '' @ what)]\<rparr>
      else s\<lparr>isSubmitting := True\<rparr>)"

definition total_text :: "jsnum \<Rightarrow> string" where
  "total_text ms = (if jle (Num 1000) ms then toFixed_nat (jdiv ms (Num 1000)) 1 @ ''s'' else toString ms @ ''ms'')"

definition request_error :: "string \<Rightarrow> json \<Rightarrow> string" where
  "request_error noun e =
     (let nested = (case json_field e ''response'' of Some r \<Rightarrow>
           (case json_field r ''data'' of Some d \<Rightarrow>
              (case json_field d ''error'' of Some i \<Rightarrow> json_field i ''message'' | None \<Rightarrow> None) | None \<Rightarrow> None) | None \<Rightarrow> None)
      in text_or nested (text_or (json_field e ''message'') (''Failed to submit '' @ noun @ '' request'')))"

definition submit_done :: "string \<Rightarrow> string \<Rightarrow> (json, string \<times> TimingSummary) sum \<Rightarrow> wallet_ui \<Rightarrow> wallet_ui" where
  "submit_done Noun noun res s =
     (let msg = (case res of
            Inl e \<Rightarrow> Failure (request_error noun e)
          | Inr (requestId, timing) \<Rightarrow>
              Success (Noun @ '' request sent (ID: '' @ take 8 requestId @ ''...) '' @ bullet @ '' Total: '' @ total_text (t_totalMs timing) @
                (if requests_of timing \<noteq> [] then newline @ newline @ formatTimingForToast timing else [])))
      in s\<lparr>wtoasts := wtoasts s @ [msg], isSubmitting := False\<rparr>)"

section \<open>Lemmas\<close>

text \<open>A complete message: every field is there, and the numbers are numbers.\<close>

record full_update =
  f_user :: string
  f_balance :: jsnum
  f_currency :: string
  f_available :: jsnum
  f_locked :: jsnum
  f_equity :: jsnum
  f_margin :: jsnum
  f_free :: jsnum

definition message :: "full_update \<Rightarrow> json" where
  "message m = JObj [(''userId'', JStr (f_user m)), (''balance'', JNum (f_balance m)), (''currency'', JStr (f_currency m)),
     (''available'', JNum (f_available m)), (''locked'', JNum (f_locked m)), (''equity'', JNum (f_equity m)),
     (''margin_used'', JNum (f_margin m)), (''free_margin'', JNum (f_free m))]"

definition data_of :: "full_update \<Rightarrow> wallet \<Rightarrow> wallet" where
  "data_of m = setWalletData (JNum (f_balance m)) (JStr (f_currency m)) (JNum (f_available m)) (JNum (f_locked m))
     (JNum (f_equity m)) (JNum (f_margin m)) (JNum (f_free m))"

definition announces :: "listener \<Rightarrow> bool" where
  "announces l = (l \<noteq> WithdrawalFlow)"

lemma num_or_0: "x \<noteq> NaN \<Longrightarrow> num_or x (Num 0) = x"
  by (cases x) (simp_all add: num_or_def num_truthy_def)

lemma js_or_num [simp]: "x \<noteq> NaN \<Longrightarrow> js_or (Some (JNum x)) (JNum (Num 0)) = JNum x"
  by (cases x) (simp_all add: js_or_def num_truthy_def)

lemma strict_eq_refl_num [simp]: "x \<noteq> NaN \<Longrightarrow> strict_eq (JNum x) (JNum x)"
  by (simp add: jeq_def)

lemma message_fields [simp]:
  "json_field (message m) ''balance'' = Some (JNum (f_balance m))" "json_field (message m) ''userId'' = Some (JStr (f_user m))"
  "is_object (message m)" "panel_balance (message m) = f_balance m"
  by (simp_all add: message_def panel_balance_def number_field_def)

lemma message_user:
  "f_user m \<noteq> [] \<Longrightarrow> hook_user (message m) = user_key (Some (f_user m))"
  "normalizeUserId (first_field (message m) [''userId'', ''user_id'']) = user_key (Some (f_user m))"
  by (simp_all add: hook_user_def user_key_def)

lemma toast_if_simps [simp]:
  "wallet_of (toast_if b t s) = wallet_of s" "length (wtoasts (toast_if b t s)) = length (wtoasts s) + of_bool b"
  by (simp_all add: toast_if_def)

lemma data_balance [simp]:
  "w_balance (hook_data p w) = js_or (json_field p ''balance'') (JNum (Num 0))"
  "w_balance (panel_data p w) = JNum (panel_balance p)" "w_balance (setLoading b w) = w_balance w"
  by (simp_all add: hook_data_def panel_data_def setWalletData_def setLoading_def)

lemma balance_changes_cong: "w_balance (wallet_of s) = w_balance (wallet_of t) \<Longrightarrow> balance_changes s b = balance_changes t b"
  by (simp add: balance_changes_def)

text \<open>One listener that hears of its user.\<close>

lemma hear_one:
  assumes "f_balance m \<noteq> NaN" "user_key (Some (f_user m)) = user_key u" "user_key u \<noteq> []"
  shows "w_balance (wallet_of (hear u (message m) l s)) = JNum (f_balance m)"
    and "length (wtoasts (hear u (message m) l s)) = length (wtoasts s) + of_bool (announces l \<and> balance_changes s (JNum (f_balance m)))"
proof -
  have "f_user m \<noteq> []" using assms(2,3) by (auto simp: user_key_def normalizeUserId_def)
  then have u: "same_user (hook_user (message m)) u" "same_user (normalizeUserId (first_field (message m) [''userId'', ''user_id''])) u"
    using assms(2,3) by (simp_all add: message_user same_user_def del: first_field.simps)
  show "w_balance (wallet_of (hear u (message m) l s)) = JNum (f_balance m)"
    using u assms(1) by (cases l) (simp_all add: global_balance_def deposit_balance_def withdrawal_balance_def
        dock_balance_def sidebar_balance_def panel_update_def Let_def del: first_field.simps)
  show "length (wtoasts (hear u (message m) l s)) = length (wtoasts s) + of_bool (announces l \<and> balance_changes s (JNum (f_balance m)))"
    using u assms(1) by (cases l) (simp_all add: global_balance_def deposit_balance_def withdrawal_balance_def announces_def
        dock_balance_def sidebar_balance_def panel_update_def Let_def balance_changes_def del: first_field.simps)
qed

lemma hear_again:
  assumes "f_balance m \<noteq> NaN" "user_key (Some (f_user m)) = user_key u" "user_key u \<noteq> []"
    and "w_balance (wallet_of s) = JNum (f_balance m)"
  shows "w_balance (wallet_of (fold (hear u (message m)) ls s)) = JNum (f_balance m) \<and>
    length (wtoasts (fold (hear u (message m)) ls s)) = length (wtoasts s)"
  using assms(4)
proof (induction ls arbitrary: s)
  case (Cons l ls)
  have "\<not> balance_changes s (JNum (f_balance m))" using Cons.prems assms(1) by (simp add: balance_changes_def jeq_def)
  then show ?case using Cons.IH [of "hear u (message m) l s"] hear_one [OF assms(1-3)] by simp
qed simp

text \<open>The data a complete message leaves, when neither the available sum nor the equity is zero.\<close>

lemma hook_data_full:
  assumes "f_balance m \<noteq> NaN" "f_available m \<noteq> NaN" "f_locked m \<noteq> NaN" "f_equity m \<noteq> NaN" "f_free m \<noteq> NaN"
    and "f_available m \<noteq> Num 0" "f_equity m \<noteq> Num 0" "f_currency m \<noteq> []"
  shows "hook_data (message m) = data_of m"
proof -
  have av: "js_or (Some (JNum x)) d = JNum x" if "x \<noteq> NaN" "x \<noteq> Num 0" for x d
    using that by (simp add: js_or_def num_truthy_def)
  have "hook_data (message m) w = data_of m w" for w
    using assms by (simp add: hook_data_def data_of_def message_def av value_field_def number_field_def num_or_0)
      (simp add: js_or_def)
  then show ?thesis by (rule ext)
qed

lemma panel_data_full: "panel_data (message m) = data_of m"
  by (rule ext) (simp add: panel_data_def data_of_def message_def value_field_def number_field_def panel_balance_def)

lemma set_data_again [simp]: "data_of m (data_of m w) = data_of m w" "data_of m (setLoading b w) = setLoading b (data_of m w)"
  "setLoading b (setLoading c w) = setLoading b w"
  by (simp_all add: data_of_def setWalletData_def setLoading_def)

section \<open>Theorems\<close>

text \<open>However many of the listeners that announce balances are mounted, one message gives one toast when the
  balance was known and is new, and none otherwise; and all leave the balance of the message.\<close>

theorem one_toast_per_update:
  assumes "f_balance m \<noteq> NaN" "user_key (Some (f_user m)) = user_key u" "user_key u \<noteq> []"
    and "ls \<noteq> []" "\<forall>l \<in> set ls. announces l"
  shows "length (wtoasts (fold (hear u (message m)) ls s)) =
      length (wtoasts s) + (if balance_changes s (JNum (f_balance m)) then 1 else 0) \<and>
    w_balance (wallet_of (fold (hear u (message m)) ls s)) = JNum (f_balance m)"
proof -
  obtain l ls' where ls: "ls = l # ls'" using assms(4) by (cases ls) auto
  have a: "announces l" using assms(5) ls by simp
  show ?thesis using hear_one [OF assms(1-3), of l s] hear_again [OF assms(1-3), of "hear u (message m) l s" ls'] a
    by (simp add: ls)
qed

text \<open>The listeners agree: a complete message with an available sum and an equity that are not zero leaves the same
  wallet whichever of them are mounted, in whatever order they hear it; only the loading flag tells
  whether the sidebar or the dock was among them.\<close>

theorem listeners_agree:
  assumes "f_balance m \<noteq> NaN" "f_available m \<noteq> NaN" "f_locked m \<noteq> NaN" "f_equity m \<noteq> NaN" "f_free m \<noteq> NaN"
    and "f_available m \<noteq> Num 0" "f_equity m \<noteq> Num 0" "f_currency m \<noteq> []"
    and "user_key (Some (f_user m)) = user_key u" "user_key u \<noteq> []" "ls \<noteq> []"
  shows "wallet_of (fold (hear u (message m)) ls s) =
    (let w = data_of m (wallet_of s) in if Sidebar \<in> set ls \<or> Dock \<in> set ls then setLoading False w else w)"
proof -
  have "f_user m \<noteq> []" using assms(9,10) by (auto simp: user_key_def normalizeUserId_def)
  then have u: "same_user (hook_user (message m)) u" "same_user (normalizeUserId (first_field (message m) [''userId'', ''user_id''])) u"
    using assms(9,10) by (simp_all add: message_user same_user_def del: first_field.simps)
  have one: "wallet_of (hear u (message m) l s) =
      (if l = Sidebar \<or> l = Dock then setLoading False (data_of m (wallet_of s)) else data_of m (wallet_of s))" for l s
    using u hook_data_full [OF assms(1-8)]
    by (cases l) (simp_all add: global_balance_def deposit_balance_def withdrawal_balance_def dock_balance_def
        sidebar_balance_def panel_update_def panel_data_full Let_def del: first_field.simps)
  show ?thesis using assms(11)
  proof (induction ls arbitrary: s)
    case (Cons l ls)
    show ?case
    proof (cases "ls = []")
      case True
      then show ?thesis by (auto simp: one Let_def)
    next
      case False
      have IH: "wallet_of (fold (hear u (message m)) ls t) =
        (let w = data_of m (wallet_of t) in if Sidebar \<in> set ls \<or> Dock \<in> set ls then setLoading False w else w)" for t
        by (rule Cons.IH [OF False])
      show ?thesis by (auto simp add: IH one Let_def)
    qed
  qed simp
qed

section \<open>Concrete messages\<close>

definition sample_update :: "jsnum \<Rightarrow> full_update" where
  "sample_update av = \<lparr>f_user = ''AB-1'', f_balance = Num 200, f_currency = ''USD'', f_available = av, f_locked = Num 50,
     f_equity = Num 190, f_margin = Num 50, f_free = Num 140\<rparr>"

definition sample_ui :: wallet_ui where
  "sample_ui = \<lparr>wallet_of = setBalance (JNum (Num 100)) wallet_init, wtoasts = [], pushed = [], isSubmitting = False\<rparr>"

lemma sample_user: "user_key (Some ''AB-1'') = user_key (Some ''ab1'') \<and> user_key (Some ''ab1'') \<noteq> []"
  by code_simp

lemma one_toast_per_update_witness:
  "length (wtoasts (fold (hear (Some ''ab1'') (message (sample_update (Num 150)))) [GlobalHook, Sidebar, Dock] sample_ui)) = 1"
proof -
  have "balance_changes sample_ui (JNum (Num 200))"
    by (simp add: balance_changes_def sample_ui_def setBalance_def jeq_def)
  then show ?thesis
    using one_toast_per_update [of "sample_update (Num 150)" "Some ''ab1''" "[GlobalHook, Sidebar, Dock]" sample_ui] sample_user
    by (simp add: sample_update_def announces_def) (simp add: sample_ui_def)
qed

lemma listeners_agree_witness:
  "wallet_of (fold (hear (Some ''ab1'') (message (sample_update (Num 150)))) [WithdrawalFlow, GlobalHook] sample_ui) =
   data_of (sample_update (Num 150)) (wallet_of sample_ui)"
  using listeners_agree [of "sample_update (Num 150)" "Some ''ab1''" "[WithdrawalFlow, GlobalHook]" sample_ui] sample_user
  by (simp add: sample_update_def Let_def)

text \<open>
  A user whose whole balance is locked has nothing available. The hooks read that zero as missing and
  show the balance as available; the panels show zero.
\<close>

lemma nothing_available_shown_as_balance:
  "w_available (wallet_of (hear (Some ''ab1'') (message (sample_update (Num 0))) GlobalHook sample_ui)) = JNum (Num 200)"
  "w_available (wallet_of (hear (Some ''ab1'') (message (sample_update (Num 0))) Sidebar sample_ui)) = JNum (Num 0)"
  by code_simp+

text \<open>A listener that is not asked leaves the wallet of another user's message alone.\<close>

lemma other_user_ignored:
  "user_key (Some (f_user m)) \<noteq> user_key u \<Longrightarrow> f_user m \<noteq> [] \<Longrightarrow> hear u (message m) l s = s"
  by (cases l) (simp_all add: global_balance_def deposit_balance_def withdrawal_balance_def dock_balance_def
      sidebar_balance_def panel_update_def same_user_def message_user del: first_field.simps)

end
