(* ===== verification/Account.thy ===== *)
theory Account
  imports Js_Json Machine
begin

text \<open>
  The account summary: its cache and the guard against zeros after a reconnect
  (\<open>features/wallet/hooks/useAccountSummary.ts\<close>), the margin call (\<open>useMarginCall.ts\<close>), and how the
  summary is shown (\<open>formatAccountSummary.ts\<close>). A message can reach the cache over two sockets. The
  query's answers and the renderings are events of their own.
\<close>

section \<open>Summary\<close>

record AccountSummary =
  s_userId :: string
  s_balance :: jsnum
  s_equity :: jsnum
  s_marginUsed :: jsnum
  s_freeMargin :: jsnum
  s_marginLevel :: string
  s_marginCallLevelThreshold :: "jsnum option"
  s_stopOutLevelThreshold :: "jsnum option"
  s_realizedPnl :: jsnum
  s_unrealizedPnl :: jsnum
  s_bonus :: jsnum
  s_totalSwapPaidUsd :: "jsnum option"
  s_totalFeesPaidUsd :: "jsnum option"
  s_updatedAt :: string

record account =
  summary :: "AccountSummary option"
  lastEquity :: "jsnum option"

definition account_init :: account where
  "account_init = \<lparr>summary = None, lastEquity = None\<rparr>"

definition normalizeUserIdForCompare :: "string \<Rightarrow> string" where
  "normalizeUserIdForCompare i = remove_char (CHR ''-'') (toLowerCase (trim i))"

text \<open>\<open>Number(r.a ?? r.b ?? 0)\<close>, \<open>String(r.a ?? r.b ?? '')\<close>, and a number that may be missing.\<close>

definition num_of :: "json \<Rightarrow> string list \<Rightarrow> jsnum" where
  "num_of r ks = (case first_field r ks of Some v \<Rightarrow> json_number v | None \<Rightarrow> Num 0)"

definition text_of :: "json \<Rightarrow> string list \<Rightarrow> string" where
  "text_of r ks = (case first_field r ks of Some v \<Rightarrow> show_json v | None \<Rightarrow> [])"

definition opt_num :: "json \<Rightarrow> string list \<Rightarrow> jsnum option" where
  "opt_num r ks = map_option json_number (first_field r ks)"

definition read_summary :: "json \<Rightarrow> AccountSummary" where
  "read_summary r =
     \<lparr>s_userId = trim (text_of r [''userId'', ''user_id'']), s_balance = num_of r [''balance''], s_equity = num_of r [''equity''],
      s_marginUsed = num_of r [''marginUsed'', ''margin_used''], s_freeMargin = num_of r [''freeMargin'', ''free_margin''],
      s_marginLevel = text_of r [''marginLevel'', ''margin_level''],
      s_marginCallLevelThreshold = opt_num r [''marginCallLevelThreshold'', ''margin_call_level_threshold''],
      s_stopOutLevelThreshold = opt_num r [''stopOutLevelThreshold'', ''stop_out_level_threshold''],
      s_realizedPnl = num_of r [''realizedPnl'', ''realized_pnl''], s_unrealizedPnl = num_of r [''unrealizedPnl'', ''unrealized_pnl''],
      s_bonus = num_of r [''bonus''], s_totalSwapPaidUsd = opt_num r [''totalSwapPaidUsd'', ''total_swap_paid_usd''],
      s_totalFeesPaidUsd = opt_num r [''totalFeesPaidUsd'', ''total_fees_paid_usd''],
      s_updatedAt = text_of r [''updatedAt'', ''updated_at'']\<rparr>"

definition all_zero :: "AccountSummary \<Rightarrow> bool" where
  "all_zero s = (jeq (s_balance s) (Num 0) \<and> jeq (s_equity s) (Num 0) \<and> jeq (s_marginUsed s) (Num 0))"

definition guarded :: "account \<Rightarrow> bool" where
  "guarded a = (case lastEquity a of Some e \<Rightarrow> jlt (Num 0) e | None \<Rightarrow> False)"

definition applyAccountSummaryWsToQueryCache :: "string option \<Rightarrow> json \<Rightarrow> account \<Rightarrow> account" where
  "applyAccountSummaryWsToQueryCache u raw a =
     (let s = read_summary raw in
      if u = None \<or> u = Some [] \<or> \<not> is_object raw then a
      else if s_userId s = [] then a
      else if normalizeUserIdForCompare (s_userId s) \<noteq> normalizeUserIdForCompare (the u) then a
      else if all_zero s \<and> guarded a then a
      else a\<lparr>summary := Some s, lastEquity := Some (s_equity s)\<rparr>)"

definition fetched :: "AccountSummary \<Rightarrow> account \<Rightarrow> account" where
  "fetched s a = a\<lparr>summary := Some s\<rparr>"

definition rendered :: "account \<Rightarrow> account" where
  "rendered a = (case summary a of Some s \<Rightarrow> a\<lparr>lastEquity := Some (s_equity s)\<rparr> | None \<Rightarrow> a)"

datatype account_event = Message "string option" json | Fetched AccountSummary | Rendered

fun account_do :: "account_event \<Rightarrow> account \<Rightarrow> account" where
  "account_do (Message u raw) a = applyAccountSummaryWsToQueryCache u raw a"
| "account_do (Fetched s) a = fetched s a"
| "account_do Rendered a = rendered a"

section \<open>Margin call\<close>

definition DEFAULT_THRESHOLD :: jsnum where "DEFAULT_THRESHOLD = Num 50"
definition COOLDOWN_MS :: int where "COOLDOWN_MS = 120000"

record margin_call =
  showModal :: bool
  lastShown :: int
  wasBelow :: bool
  mc_toasts :: "(int \<times> jsnum) list"

definition margin_init :: margin_call where
  "margin_init = \<lparr>showModal = False, lastShown = 0, wasBelow = False, mc_toasts = []\<rparr>"

definition threshold :: "AccountSummary option \<Rightarrow> jsnum" where
  "threshold s = (case s of
     Some x \<Rightarrow> (case s_marginCallLevelThreshold x of Some t \<Rightarrow> t | None \<Rightarrow> DEFAULT_THRESHOLD)
   | None \<Rightarrow> DEFAULT_THRESHOLD)"

definition currentLevel :: "AccountSummary option \<Rightarrow> jsnum option" where
  "currentLevel s = (case s of
     Some x \<Rightarrow> if s_marginLevel x \<noteq> ''inf'' then Some (parseFloat (s_marginLevel x)) else None
   | None \<Rightarrow> None)"

definition isMarginCall :: "AccountSummary option \<Rightarrow> bool" where
  "isMarginCall s =
     (jlt (Num 0) (case s of Some x \<Rightarrow> s_marginUsed x | None \<Rightarrow> Num 0) \<and>
      (case currentLevel s of Some l \<Rightarrow> \<not> isNaN l \<and> jlt l (threshold s) | None \<Rightarrow> False))"

text \<open>The effect, with the clock it reads; a toast is its time and the threshold it names.\<close>

definition margin_effect :: "int \<Rightarrow> AccountSummary option \<Rightarrow> margin_call \<Rightarrow> margin_call" where
  "margin_effect now s m =
     (let m = (if \<not> isMarginCall s then m\<lparr>wasBelow := False, showModal := False\<rparr> else m) in
      if s = None \<or> \<not> isMarginCall s then m
      else
        (let cooldownPassed = (COOLDOWN_MS \<le> now - lastShown m) in
         if \<not> cooldownPassed \<and> wasBelow m then m
         else m\<lparr>wasBelow := True, lastShown := now, mc_toasts := mc_toasts m @ [(now, threshold s)], showModal := True\<rparr>))"

datatype margin_event = Effect int "AccountSummary option" | SetShowModal bool

fun margin_do :: "margin_event \<Rightarrow> margin_call \<Rightarrow> margin_call" where
  "margin_do (Effect now s) m = margin_effect now s m"
| "margin_do (SetShowModal b) m = m\<lparr>showModal := b\<rparr>"

section \<open>Display\<close>

definition infinity_sign :: string where "infinity_sign = [CHR 0xE2, CHR 0x88, CHR 0x9E]"

definition dollars :: "jsnum \<Rightarrow> string" where
  "dollars x = ''$'' @ toFixed_nat x 2"

definition formatBalance :: "AccountSummary option \<Rightarrow> string" where
  "formatBalance s = (case s of None \<Rightarrow> em_dash | Some x \<Rightarrow> dollars (s_balance x))"

definition formatEquity :: "AccountSummary option \<Rightarrow> string" where
  "formatEquity s = (case s of None \<Rightarrow> em_dash | Some x \<Rightarrow> dollars (s_equity x))"

definition formatMargin :: "AccountSummary option \<Rightarrow> string" where
  "formatMargin s = (case s of None \<Rightarrow> em_dash
     | Some x \<Rightarrow> dollars (if s_marginLevel x = ''inf'' then Num 0 else s_marginUsed x))"

definition formatFreeMargin :: "AccountSummary option \<Rightarrow> string" where
  "formatFreeMargin s = (case s of None \<Rightarrow> em_dash | Some x \<Rightarrow> dollars (s_freeMargin x))"

definition formatMarginLevel :: "AccountSummary option \<Rightarrow> string" where
  "formatMarginLevel s = (case s of None \<Rightarrow> em_dash
     | Some x \<Rightarrow> if s_marginLevel x = ''inf'' then infinity_sign else s_marginLevel x @ ''%'')"

definition signed_dollars :: "jsnum \<Rightarrow> string" where
  "signed_dollars v = (if jle (Num 0) v then dollars v else ''-'' @ dollars (jabs v))"

definition formatRealizedPnl :: "AccountSummary option \<Rightarrow> string" where
  "formatRealizedPnl s = (case s of None \<Rightarrow> em_dash | Some x \<Rightarrow> signed_dollars (s_realizedPnl x))"

definition formatUnrealizedPnl :: "AccountSummary option \<Rightarrow> string" where
  "formatUnrealizedPnl s = (case s of None \<Rightarrow> em_dash | Some x \<Rightarrow> signed_dollars (s_unrealizedPnl x))"

definition isRealizedPnlNegative :: "AccountSummary option \<Rightarrow> bool" where
  "isRealizedPnlNegative s = jlt (case s of Some x \<Rightarrow> s_realizedPnl x | None \<Rightarrow> Num 0) (Num 0)"

definition isUnrealizedPnlNegative :: "AccountSummary option \<Rightarrow> bool" where
  "isUnrealizedPnlNegative s = jlt (case s of Some x \<Rightarrow> s_unrealizedPnl x | None \<Rightarrow> Num 0) (Num 0)"

section \<open>Lemmas\<close>

definition synced :: "account \<Rightarrow> bool" where
  "synced a = (\<forall>s. summary a = Some s \<longrightarrow> lastEquity a = Some (s_equity s))"

lemma positive_not_zero: "jlt (Num 0) (s_equity s) \<Longrightarrow> \<not> all_zero s"
  by (cases "s_equity s") (auto simp: all_zero_def jeq_def)

lemma zero_not_guarded: "all_zero s \<Longrightarrow> \<not> guarded (a\<lparr>lastEquity := Some (s_equity s)\<rparr>)"
  using positive_not_zero by (auto simp: guarded_def)

lemma isMarginCall_None [simp]: "\<not> isMarginCall None"
  by (simp add: isMarginCall_def)

lemma margin_effect_outside: "\<not> isMarginCall s \<Longrightarrow> margin_effect now s m = m\<lparr>wasBelow := False, showModal := False\<rparr>"
  by (simp add: margin_effect_def Let_def)

lemma margin_effect_inside: "isMarginCall s \<Longrightarrow> margin_effect now s m =
    (if wasBelow m \<and> now - lastShown m < COOLDOWN_MS then m
     else m\<lparr>wasBelow := True, lastShown := now, mc_toasts := mc_toasts m @ [(now, threshold s)], showModal := True\<rparr>)"
  by (cases s) (auto simp: margin_effect_def Let_def)

definition modal_ok :: "margin_call \<Rightarrow> bool" where
  "modal_ok m = (showModal m \<longrightarrow> wasBelow m)"

text \<open>The modal is only ever closed from outside.\<close>

fun only_closed :: "margin_event \<Rightarrow> margin_call \<Rightarrow> bool" where
  "only_closed (SetShowModal b) m = (\<not> b)"
| "only_closed _ m = True"

lemma modal_ok_step: "modal_ok m \<Longrightarrow> only_closed e m \<Longrightarrow> modal_ok (margin_do e m)"
proof (cases e)
  case (Effect now s)
  assume "modal_ok m"
  then show ?thesis
    by (cases "isMarginCall s") (simp_all add: Effect modal_ok_def margin_effect_inside margin_effect_outside)
qed (simp_all add: modal_ok_def)

interpretation mci: invariant_system only_closed margin_do modal_ok "\<lambda>m. m = margin_init"
  by unfold_locales (rule modal_ok_step, assumption+, simp add: modal_ok_def margin_init_def)

text \<open>The effects of one margin call.\<close>

definition effects :: "(int \<times> AccountSummary option) list \<Rightarrow> margin_call \<Rightarrow> margin_call" where
  "effects es m = fold (\<lambda>(t, s). margin_effect t s) es m"

lemma effects_simps [simp]: "effects [] m = m" "effects ((t, s) # es) m = effects es (margin_effect t s m)"
  by (simp_all add: effects_def)

definition spaced :: "int list \<Rightarrow> bool" where
  "spaced ts = successively (\<lambda>a b. COOLDOWN_MS \<le> b - a) ts"

lemma episode_goes_on:
  assumes "\<forall>(t, s) \<in> set es. isMarginCall s" "wasBelow m"
  shows "\<exists>new. mc_toasts (effects es m) = mc_toasts m @ new \<and> spaced (lastShown m # map fst new)"
  using assms
proof (induction es arbitrary: m)
  case Nil
  then show ?case by (simp add: spaced_def)
next
  case (Cons e es)
  obtain t s where e: "e = (t, s)" by force
  have s: "isMarginCall s" using Cons.prems(1) by (simp add: e)
  show ?case
  proof (cases "t - lastShown m < COOLDOWN_MS")
    case True
    then show ?thesis using Cons by (simp add: e margin_effect_inside [OF s])
  next
    case False
    let ?m = "m\<lparr>lastShown := t, mc_toasts := mc_toasts m @ [(t, threshold s)], showModal := True\<rparr>"
    have m: "margin_effect t s m = ?m" using False Cons.prems(2) by (simp add: margin_effect_inside [OF s])
    obtain new where n: "mc_toasts (effects es ?m) = mc_toasts ?m @ new" "spaced (lastShown ?m # map fst new)"
      using Cons.IH [of ?m] Cons.prems by auto
    have "mc_toasts (effects (e # es) m) = mc_toasts m @ ((t, threshold s) # new)"
      using n(1) by (simp add: e m)
    moreover have "spaced (lastShown m # map fst ((t, threshold s) # new))"
      using n(2) False by (simp add: spaced_def)
    ultimately show ?thesis by blast
  qed
qed

section \<open>Theorems\<close>

text \<open>A summary that arrives over both sockets has the effect of one: applying a message twice is applying it once.\<close>

theorem summary_message_idem:
  "applyAccountSummaryWsToQueryCache u raw (applyAccountSummaryWsToQueryCache u raw a) =
   applyAccountSummaryWsToQueryCache u raw a"
  using zero_not_guarded by (auto simp: applyAccountSummaryWsToQueryCache_def Let_def)

text \<open>C15. Zeros sent after a reconnect do not flash: while the summary shown has a positive equity and has been rendered,
  no message of either socket, for whichever user, replaces it by one whose balance, equity and used
  margin are all zero, and a message for somebody else replaces nothing.\<close>

theorem no_zero_flash:
  assumes "synced a" "summary a = Some s" "jlt (Num 0) (s_equity s)"
  shows "(\<exists>s'. summary (applyAccountSummaryWsToQueryCache u raw a) = Some s' \<and> \<not> all_zero s') \<and>
    synced (applyAccountSummaryWsToQueryCache u raw a) \<and>
    (normalizeUserIdForCompare (s_userId (read_summary raw)) \<noteq> normalizeUserIdForCompare (the u) \<longrightarrow>
       applyAccountSummaryWsToQueryCache u raw a = a)"
proof -
  have "guarded a" using assms by (simp add: synced_def guarded_def)
  then show ?thesis using assms positive_not_zero [OF assms(3)]
    by (auto simp: applyAccountSummaryWsToQueryCache_def Let_def synced_def)
qed

text \<open>The margin-call dialog is shown only during a margin call, and after every effect the hook knows whether there
  is one.\<close>

theorem margin_modal_only_below:
  assumes "reach (\<lambda>m. m = margin_init) only_closed margin_do m"
  shows "(showModal m \<longrightarrow> wasBelow m) \<and> wasBelow (margin_effect now s m) = isMarginCall s \<and>
    (showModal (margin_effect now s m) \<longrightarrow> isMarginCall s)"
proof -
  have "modal_ok m" by (rule mci.reach_inv [OF assms])
  then show ?thesis by (cases "isMarginCall s") (auto simp: modal_ok_def margin_effect_inside margin_effect_outside)
qed

text \<open>C17. A margin call is announced at once and then at most every two minutes: the first effect of an episode shows a
  toast, whatever was shown before, and the toasts of the episode lie at least the cooldown apart.\<close>

theorem margin_episode:
  assumes "\<not> wasBelow m" "\<forall>(t, s) \<in> set ((t0, s0) # es). isMarginCall s"
  shows "\<exists>new. mc_toasts (effects ((t0, s0) # es) m) = mc_toasts m @ (t0, threshold s0) # new \<and>
    spaced (t0 # map fst new)"
proof -
  have s0: "isMarginCall s0" using assms(2) by simp
  let ?m = "m\<lparr>wasBelow := True, lastShown := t0, mc_toasts := mc_toasts m @ [(t0, threshold s0)], showModal := True\<rparr>"
  have m: "margin_effect t0 s0 m = ?m" using assms(1) by (simp add: margin_effect_inside [OF s0])
  show ?thesis using episode_goes_on [of es ?m] assms(2) by (simp add: m)
qed

text \<open>Profit and loss are shown with a minus sign exactly when they are coloured as negative.\<close>

theorem signed_display:
  assumes "s_realizedPnl x \<noteq> NaN" "s_unrealizedPnl x \<noteq> NaN"
  shows "(startsWith (formatRealizedPnl (Some x)) ''-'' \<longleftrightarrow> isRealizedPnlNegative (Some x)) \<and>
    (startsWith (formatUnrealizedPnl (Some x)) ''-'' \<longleftrightarrow> isUnrealizedPnlNegative (Some x))"
proof -
  have *: "startsWith (signed_dollars v) ''-'' = jlt v (Num 0)" if "v \<noteq> NaN" for v
    using that not_jle_iff [of "Num 0" v] by (auto simp: signed_dollars_def dollars_def startsWith_def)
  show ?thesis using assms
    by (simp add: * formatRealizedPnl_def formatUnrealizedPnl_def isRealizedPnlNegative_def isUnrealizedPnlNegative_def)
qed

section \<open>Concrete summaries\<close>

definition summary_message :: "jsnum \<Rightarrow> json" where
  "summary_message x = JObj [(''userId'', JStr ''u-1''), (''balance'', JNum x), (''equity'', JNum x), (''marginUsed'', JNum (Num 0))]"

definition shown_account :: account where
  "shown_account = applyAccountSummaryWsToQueryCache (Some ''u1'') (summary_message (Num 100)) account_init"

lemma shown_account_eval:
  "summary shown_account = Some (read_summary (summary_message (Num 100)))" "lastEquity shown_account = Some (Num 100)"
  "s_equity (read_summary (summary_message (Num 100))) = Num 100"
  by (simp_all add: shown_account_def applyAccountSummaryWsToQueryCache_def read_summary_def summary_message_def text_of_def
      num_of_def account_init_def normalizeUserIdForCompare_def all_zero_def trim_def is_space_def low_char_def remove_char_def
      guarded_def Let_def)

lemma no_zero_flash_witness:
  "\<exists>s'. summary (applyAccountSummaryWsToQueryCache (Some ''u1'') (summary_message (Num 0)) shown_account) = Some s' \<and> \<not> all_zero s'"
proof -
  have "synced shown_account" by (simp add: synced_def shown_account_eval)
  from no_zero_flash [OF this shown_account_eval(1)] show ?thesis by (simp add: shown_account_eval)
qed

definition summary_at :: "string \<Rightarrow> AccountSummary option" where
  "summary_at lvl = Some ((read_summary (summary_message (Num 100)))\<lparr>s_marginUsed := Num 10, s_marginLevel := lvl,
     s_realizedPnl := Num (- 5), s_unrealizedPnl := Num 7\<rparr>)"

lemma summary_at_eval: "isMarginCall (summary_at ''40'')" "\<not> isMarginCall (summary_at ''inf'')" "threshold (summary_at ''40'') = Num 50"
  by (simp_all add: summary_at_def isMarginCall_def currentLevel_def threshold_def read_summary_def summary_message_def opt_num_def
      parse_float_simps num_simps DEFAULT_THRESHOLD_def isNaN_def)

lemma margin_modal_only_below_witness: "wasBelow (margin_effect 5 (summary_at ''40'') margin_init)"
proof -
  have "reach (\<lambda>m. m = margin_init) only_closed margin_do margin_init" by (rule reach_init) simp
  from margin_modal_only_below [OF this, of 5 "summary_at ''40''"] show ?thesis by (simp add: summary_at_eval)
qed

lemma margin_episode_witness:
  "\<exists>new. mc_toasts (effects [(5, summary_at ''40''), (6, summary_at ''40'')] margin_init) = (5, Num 50) # new"
proof -
  have "\<not> wasBelow margin_init" by (simp add: margin_init_def)
  moreover have "\<forall>(t, s) \<in> set [(5, summary_at ''40''), (6, summary_at ''40'')]. isMarginCall s"
    by (simp add: summary_at_eval)
  ultimately show ?thesis
    using margin_episode [of margin_init 5 "summary_at ''40''" "[(6, summary_at ''40'')]"] by (auto simp: summary_at_eval margin_init_def)
qed

lemma signed_display_witness: "startsWith (formatRealizedPnl (summary_at ''inf'')) ''-''"
  using signed_display [of "the (summary_at ''inf'')"] by (simp add: summary_at_def isRealizedPnlNegative_def)

text \<open>
  The cooldown only holds within an episode: an account that flaps around its threshold is told each
  time it falls below, here twice within two milliseconds.
\<close>

lemma flapping_ignores_cooldown:
  "map fst (mc_toasts (effects [(200000, summary_at ''40''), (200001, summary_at ''inf''), (200002, summary_at ''40'')] margin_init)) =
   [200000, 200002]"
  by (simp add: margin_effect_inside [OF summary_at_eval(1)] margin_effect_outside [OF summary_at_eval(2)] margin_init_def)

end
