(* ===== verification/Order_Feedback.thy ===== *)
theory Order_Feedback
  imports Terminal_Store Durations Js_Json
begin

text \<open>
  What the user is told about an order that did not go through: errors of the request
  (\<open>features/terminal/utils/placeOrderErrorToast.ts\<close>, \<open>reportPlaceOrderHttpError\<close> in
  \<open>RightTradingPanel.tsx\<close>) and rejections that arrive later over the WebSocket
  (\<open>features/terminal/hooks/useTerminalOrderRejectToast.ts\<close>). An error is a JSON value with the flag
  whether it is an \<open>Error\<close>; \<open>formatMoney\<close> is a parameter.
\<close>

section \<open>Errors of the request\<close>

text \<open>\<open>v?.k\<close>.\<close>

definition fld :: "json option \<Rightarrow> string \<Rightarrow> json option" where
  "fld v k = (case v of Some j \<Rightarrow> json_field j k | None \<Rightarrow> None)"

definition readPlaceOrderErrorPayload :: "json \<Rightarrow> json option" where
  "readPlaceOrderErrorPayload err =
     (case fld (json_field err ''response'') ''data'' of
        Some d \<Rightarrow> if \<not> is_object d then None
          else (case json_field d ''error'' of Some (JObj fs) \<Rightarrow> Some (JObj fs) | _ \<Rightarrow> None)
      | None \<Rightarrow> None)"

definition closed_suffix :: "date_env \<Rightarrow> json \<Rightarrow> jsnum \<Rightarrow> string" where
  "closed_suffix E inner nowMs =
     (let nextOpenAt = json_str inner ''nextOpenAt''; until = formatTimeUntil E nextOpenAt (json_str inner ''timezone'') nowMs in
      if truthy nextOpenAt \<and> until \<noteq> []
      then (if until = ''now'' then ''Opens now.'' else ''Opens in '' @ until @ ''.'')
      else ''No upcoming session.'')"

text \<open>The toast of a known code; \<open>None\<close> when the generic message is to be shown.\<close>

definition tryToastPlaceOrderForbiddenError :: "date_env \<Rightarrow> json \<Rightarrow> jsnum \<Rightarrow> string option" where
  "tryToastPlaceOrderForbiddenError E err nowMs =
     (case readPlaceOrderErrorPayload err of
        None \<Rightarrow> None
      | Some inner \<Rightarrow>
          (case json_str inner ''code'' of
             None \<Rightarrow> None
           | Some code \<Rightarrow>
               if code = ''MARKET_CLOSED'' then Some (''Market is closed. '' @ closed_suffix E inner nowMs)
               else if code = ''TRADING_DISABLED''
               then Some ''Trading is disabled for this symbol. Contact support if you believe this is an error.''
               else if code = ''CLOSE_ONLY''
               then Some ''This symbol is in close-only mode. You can only reduce existing positions, not open new ones.''
               else if code = ''NEW_ORDERS_DISABLED''
               then Some ''New positions on this symbol are temporarily disabled. Existing positions can still be closed.''
               else None))"

definition truthy_json :: "json option \<Rightarrow> bool" where
  "truthy_json v = (case v of Some j \<Rightarrow> json_truthy j | None \<Rightarrow> False)"

text \<open>\<open>typeof v === 'object'\<close>, which holds for null.\<close>

definition typeof_object :: "json option \<Rightarrow> bool" where
  "typeof_object v = (case v of Some j \<Rightarrow> j = JNull \<or> is_object j | None \<Rightarrow> False)"

definition api_message :: "json option \<Rightarrow> json option" where
  "api_message data =
     (let e = fld data ''error'' in
      if typeof_object e \<and> truthy_json (fld e ''message'') then fld e ''message''
      else if present (fld data ''message'') then fld data ''message''
      else if typeof_object e then fld e ''message'' else None)"

definition has_code :: "json option \<Rightarrow> string \<Rightarrow> bool" where
  "has_code data code =
     (fld data ''error'' = Some (JStr code) \<or>
      (typeof_object (fld data ''error'') \<and> fld (fld data ''error'') ''code'' = Some (JStr code)))"

definition number_of :: "json option \<Rightarrow> jsnum" where
  "number_of v = (case v of Some j \<Rightarrow> json_number j | None \<Rightarrow> NaN)"

definition reportPlaceOrderHttpError ::
  "date_env \<Rightarrow> (jsnum \<Rightarrow> string) \<Rightarrow> jsnum \<Rightarrow> json \<Rightarrow> bool \<Rightarrow> string" where
  "reportPlaceOrderHttpError E formatMoney nowMs err isError =
     (case tryToastPlaceOrderForbiddenError E err nowMs of
        Some msg \<Rightarrow> msg
      | None \<Rightarrow>
          (let data = fld (json_field err ''response'') ''data''; status = fld (json_field err ''response'') ''status'';
               apiMessage = api_message data;
               insufficientCode = has_code data ''INSUFFICIENT_FREE_MARGIN'';
               minRequiredMarginCode = has_code data ''MIN_REQUIRED_MARGIN_NOT_MET'';
               required = number_of (fld data ''required_margin''); free = number_of (fld data ''free_margin'');
               minRequired = number_of (fld data ''min_required_margin'');
               insufficientMessage = (if isFinite required \<and> isFinite free
                 then ''Insufficient funds: required margin '' @ formatMoney required @ '', free margin '' @ formatMoney free
                 else ''Insufficient funds/margin to place this order'');
               minRequiredMessage = ''Estimated margin must be at least '' @
                 formatMoney (if isFinite minRequired then minRequired else Num 10) @ '' to open a position'';
               is403 = ((case status of Some s \<Rightarrow> strict_eq s (JNum (Num 403)) | None \<Rightarrow> False) \<or>
                        (case json_str err ''message'' of Some m \<Rightarrow> str_includes m ''403'' | None \<Rightarrow> False));
               errorMessage = (if minRequiredMarginCode then minRequiredMessage
                 else if insufficientCode then insufficientMessage
                 else if truthy_json apiMessage then show_json (the apiMessage)
                 else if is403 then ''Trading is disabled. You cannot open new positions.''
                 else if isError then (case json_field err ''message'' of Some m \<Rightarrow> show_json m | None \<Rightarrow> []) else ''Failed to place order'')
           in if minRequiredMarginCode \<or> insufficientCode \<or> is403 \<or> truthy_json apiMessage then errorMessage
              else ''Order failed: '' @ errorMessage))"

section \<open>Later rejections\<close>

definition RECENT_ORDER_TOAST_WINDOW_MS :: jsnum where "RECENT_ORDER_TOAST_WINDOW_MS = Num 30000"

text \<open>The payload when there is one, with what it lacks taken from the message.\<close>

definition copied_keys :: "string list" where
  "copied_keys = [''reason'', ''details'', ''user_id'', ''userId'', ''order_id'', ''orderId'', ''status'', ''symbol'', ''side'']"

definition own_fields :: "json \<Rightarrow> (string \<times> json) list" where
  "own_fields j = (case j of JObj fs \<Rightarrow> fs | _ \<Rightarrow> [])"

definition copy_key :: "json \<Rightarrow> string \<Rightarrow> (string \<times> json) list \<Rightarrow> (string \<times> json) list" where
  "copy_key data k base = (case json_field data k of
     Some v \<Rightarrow> if v \<noteq> JNull \<and> \<not> present (json_field (JObj base) k) then base @ [(k, v)] else base
   | None \<Rightarrow> base)"

definition flattenOrderUpdatePayload :: "json \<Rightarrow> json" where
  "flattenOrderUpdatePayload data =
     (let base = (case json_field data ''payload'' of
            Some p \<Rightarrow> if is_object p then own_fields p else own_fields data | None \<Rightarrow> own_fields data)
      in JObj (fold (copy_key data) copied_keys base))"

definition text_field :: "json \<Rightarrow> string list \<Rightarrow> string" where
  "text_field r ks = trim (case first_field r ks of Some v \<Rightarrow> show_json v | None \<Rightarrow> [])"

definition bps_text :: "json option \<Rightarrow> string" where
  "bps_text v = (case v of Some (JNum x) \<Rightarrow> if isFinite x then toString x else ''?'' | Some (JStr t) \<Rightarrow> t | _ \<Rightarrow> ''?'')"

definition slippage_text :: "json \<Rightarrow> string" where
  "slippage_text raw =
     (let d = (case json_field raw ''details'' of Some (JObj fs) \<Rightarrow> JObj fs | _ \<Rightarrow> JNull);
          actual = bps_text (first_field d [''slippageBps'', ''slippage_bps'']);
          most = bps_text (first_field d [''maxBps'', ''max_bps''])
      in if actual \<noteq> ''?'' \<and> most \<noteq> ''?''
         then ''Order rejected '' @ em_dash @ '' price moved '' @ actual @ '' bps from the quote at submit (your max was '' @ most @
              '' bps). Try a higher max slippage in Advanced.''
         else ''Order rejected '' @ em_dash @
              '' price moved too far from your quote (slippage). Try increasing max slippage under Advanced.'')"

definition reject_text :: "json \<Rightarrow> string" where
  "reject_text raw =
     (let reason = text_field raw [''reason'', ''rejection_reason''] in
      if reason = ''SLIPPAGE_EXCEEDED'' then slippage_text raw
      else if reason \<noteq> [] then ''Order rejected: '' @ reason
      else ''Order rejected. If the market moved quickly, try a higher max slippage (Advanced) or retry.'')"

text \<open>The store and the toasts with their orders.\<close>

record feedback =
  fb_store :: terminal
  fb_toasts :: "(string \<times> string) list"

definition forget :: "string \<Rightarrow> feedback \<Rightarrow> feedback" where
  "forget i f = f\<lparr>fb_store := forgetRecentSubmittedOrder i (fb_store f)\<rparr>"

text \<open>What is said about one order, whose payload is \<open>raw\<close>.\<close>

definition settle_recent :: "jsnum \<Rightarrow> string \<Rightarrow> json \<Rightarrow> feedback \<Rightarrow> feedback" where
  "settle_recent now orderId raw f =
     (case map_get (recentOrderSubmitAtById (fb_store f)) orderId of
        None \<Rightarrow> f
      | Some placedAt \<Rightarrow>
          if jlt RECENT_ORDER_TOAST_WINDOW_MS (jsub now placedAt) then forget orderId f
          else
            (let st = toUpperCase (text_field raw [''status'']) in
             if st \<in> {''FILLED'', ''CANCELLED'', ''CANCELED'', ''CANCELLING''} then forget orderId f
             else if st \<noteq> ''REJECTED'' then f
             else (forget orderId f)\<lparr>fb_toasts := fb_toasts f @ [(orderId, reject_text raw)]\<rparr>))"

definition on_order_event :: "string \<Rightarrow> jsnum \<Rightarrow> jsnum \<Rightarrow> json \<Rightarrow> feedback \<Rightarrow> feedback" where
  "on_order_event ty now now' data f =
     (if ty \<notin> {''order_update'', ''order.update'', ''order_updated''} then f
      else
        (let f = f\<lparr>fb_store := pruneStaleRecentSubmittedOrders now (fb_store f)\<rparr>;
             raw = flattenOrderUpdatePayload data; orderId = text_field raw [''order_id'', ''orderId''] in
         if orderId = [] then f else settle_recent now' orderId raw f))"

datatype feedback_event = OrderMessage string jsnum jsnum json | StoreAction terminal_event

fun feedback_do :: "feedback_event \<Rightarrow> feedback \<Rightarrow> feedback" where
  "feedback_do (OrderMessage ty now now' data) f = on_order_event ty now now' data f"
| "feedback_do (StoreAction a) f = f\<lparr>fb_store := terminal_do a (fb_store f)\<rparr>"

section \<open>Lemmas\<close>

definition recent :: "feedback \<Rightarrow> (string, jsnum) jsmap" where
  "recent f = recentOrderSubmitAtById (fb_store f)"

definition told :: "string \<Rightarrow> feedback \<Rightarrow> nat" where
  "told i f = length (filter (\<lambda>x. fst x = i) (fb_toasts f))"

fun not_registered :: "string \<Rightarrow> feedback_event \<Rightarrow> feedback \<Rightarrow> bool" where
  "not_registered i (StoreAction (RegisterOrder now j)) f = (j \<noteq> i)"
| "not_registered i _ f = True"

lemma prune_has: "map_has (recentOrderSubmitAtById (pruneStaleRecentSubmittedOrders now t)) i \<Longrightarrow> map_has (recentOrderSubmitAtById t) i"
proof -
  have "map_has (foldl (\<lambda>m (i, ts). if P ts then map_set i ts m else m) acc m) i \<Longrightarrow> map_has acc i \<or> map_has m i" for P acc m
  proof (induction m arbitrary: acc)
    case (Cons x m)
    obtain k v where x: "x = (k, v)" by force
    have c: "map_has ((k, v) # m) i = (k = i \<or> map_has m i)" by (auto simp: map_has_def)
    show ?case using Cons.prems Cons.IH [of acc] Cons.IH [of "map_set k v acc"]
      by (auto simp: x c map_has_set split: if_splits)
  qed simp
  from this [of "\<lambda>ts. jle (jsub now ts) (Num 90000)" "[]"] show "map_has (recentOrderSubmitAtById (pruneStaleRecentSubmittedOrders now t)) i \<Longrightarrow> map_has (recentOrderSubmitAtById t) i"
    by (auto simp: pruneStaleRecentSubmittedOrders_def map_has_def)
qed

lemma recent_other:
  "(\<And>now j. a \<noteq> RegisterOrder now j) \<Longrightarrow> (\<And>j. a \<noteq> ForgetOrder j) \<Longrightarrow> (\<And>now. a \<noteq> PruneOrders now) \<Longrightarrow>
   recentOrderSubmitAtById (terminal_do a t) = recentOrderSubmitAtById t"
  by (cases a) (auto simp: setter_defs setSymbols_def setSelectedSymbol_def setWatchlist_def toggleWatchlist_def
      requestOpenPositionsRefresh_def Let_def)

lemma recent_do:
  assumes "not_registered i (StoreAction a) f" "map_has (recentOrderSubmitAtById (terminal_do a t)) i"
  shows "map_has (recentOrderSubmitAtById t) i"
proof -
  consider (reg) now j where "a = RegisterOrder now j" | (forget) j where "a = ForgetOrder j"
    | (prune) now where "a = PruneOrders now" | (other) "recentOrderSubmitAtById (terminal_do a t) = recentOrderSubmitAtById t"
    using recent_other by metis
  then show ?thesis
  proof cases
    case reg
    then show ?thesis using assms by (simp add: registerRecentSubmittedOrder_def map_has_set)
  next
    case forget
    then show ?thesis using assms(2) by (auto simp: forgetRecentSubmittedOrder_def map_has_def map_delete_def)
  next
    case prune
    then show ?thesis using assms(2) prune_has by simp
  qed (use assms(2) in simp)
qed

lemma forget_has: "\<not> map_has (recent (forget i f)) i" "map_has (recent (forget i f)) j \<Longrightarrow> map_has (recent f) j"
  by (auto simp: recent_def forget_def forgetRecentSubmittedOrder_def map_has_def map_delete_def)

lemma forget_toasts [simp]: "fb_toasts (forget i f) = fb_toasts f"
  by (simp add: forget_def)

lemma has_iff_get: "map_has m i = (map_get m i \<noteq> None)"
  by (auto simp: map_has_def map_get_def map_of_eq_None_iff simp del: not_None_eq)

text \<open>What a message does: nothing new in the map, and a toast only for the order it removes.\<close>

definition tells :: "feedback \<Rightarrow> feedback \<Rightarrow> bool" where
  "tells f g = ((\<forall>j. map_has (recent g) j \<longrightarrow> map_has (recent f) j) \<and>
     (fb_toasts g = fb_toasts f \<or>
      (\<exists>i msg. fb_toasts g = fb_toasts f @ [(i, msg)] \<and> map_has (recent f) i \<and> \<not> map_has (recent g) i)))"

lemma tells_forget: "tells f (forget i f)" "tells f f"
  using forget_has(2) by (auto simp: tells_def)

lemma tells_settle: "tells f (settle_recent now i raw f)"
proof (cases "map_get (recentOrderSubmitAtById (fb_store f)) i")
  case None
  then show ?thesis by (simp add: settle_recent_def tells_forget)
next
  case (Some p)
  have r: "recent ((forget i f)\<lparr>fb_toasts := x\<rparr>) = recent (forget i f)" for x by (simp add: recent_def)
  have "map_has (recent f) i" using Some by (simp add: has_iff_get recent_def)
  then have "tells f ((forget i f)\<lparr>fb_toasts := fb_toasts f @ [(i, reject_text raw)]\<rparr>)"
    using forget_has by (auto simp: tells_def r)
  then show ?thesis by (simp add: settle_recent_def Some tells_forget Let_def)
qed

lemma tells_event: "tells f (on_order_event ty now now' data f)"
proof -
  define f1 where "f1 = f\<lparr>fb_store := pruneStaleRecentSubmittedOrders now (fb_store f)\<rparr>"
  have f1: "fb_toasts f1 = fb_toasts f" "map_has (recent f1) j \<Longrightarrow> map_has (recent f) j" for j
    using prune_has by (auto simp: f1_def recent_def)
  have "tells f1 g \<Longrightarrow> tells f g" for g
    using f1 by (auto simp: tells_def)
  then show ?thesis
    using tells_settle tells_forget by (simp add: on_order_event_def f1_def [symmetric] Let_def)
qed

lemma told_step:
  assumes "not_registered i e f"
  shows "told i (feedback_do e f) + of_bool (map_has (recent (feedback_do e f)) i) \<le> told i f + of_bool (map_has (recent f) i)"
proof (cases e)
  case (OrderMessage ty now now' data)
  then show ?thesis using tells_event [of f ty now now' data] by (auto simp: told_def tells_def)
next
  case (StoreAction a)
  then show ?thesis using recent_do [of i a f "fb_store f"] assms by (auto simp: told_def recent_def)
qed

section \<open>Theorems\<close>

text \<open>A rejection is told at most once: whatever messages arrive over whichever event types and whatever else
  happens to the store, an order that is not submitted again gets at most one toast, and none when it
  was not waiting for its outcome.\<close>

theorem reject_told_once:
  assumes "run (not_registered i) feedback_do es f = Some f'"
  shows "told i f' \<le> told i f + of_bool (map_has (recent f) i)"
proof -
  have "told i f' + of_bool (map_has (recent f') i) \<le> told i f + of_bool (map_has (recent f) i)"
    using assms
  proof (induction es arbitrary: f)
    case (Cons e es)
    then show ?case using told_step [of i e f] by (auto split: if_splits dest: Cons.IH)
  qed simp
  then show ?thesis by linarith
qed

text \<open>A known reason for refusing an order is told as such, whatever else the answer says: close-only symbols, too
  little free margin and a margin below the minimum have their own texts.\<close>

theorem order_error_texts:
  assumes "readPlaceOrderErrorPayload err = Some inner"
  shows "(json_str inner ''code'' = Some ''CLOSE_ONLY'' \<longrightarrow>
      startsWith (reportPlaceOrderHttpError E money now err b) ''This symbol is in close-only mode.'') \<and>
    (json_str inner ''code'' = Some ''INSUFFICIENT_FREE_MARGIN'' \<longrightarrow>
      startsWith (reportPlaceOrderHttpError E money now err b) ''Insufficient funds'') \<and>
    (json_str inner ''code'' = Some ''MIN_REQUIRED_MARGIN_NOT_MET'' \<longrightarrow>
      startsWith (reportPlaceOrderHttpError E money now err b) ''Estimated margin must be at least '')"
proof -
  obtain d fs where d: "fld (json_field err ''response'') ''data'' = Some d" "json_field d ''error'' = Some (JObj fs)" "inner = JObj fs"
    using assms by (auto simp: readPlaceOrderErrorPayload_def split: option.splits if_splits json.splits)
  have code: "has_code (Some d) c = (json_str inner ''code'' = Some c)" for c
    by (auto simp: has_code_def fld_def d(2,3) typeof_object_def json_str_def split: option.splits json.splits)
  show ?thesis
    by (auto simp: reportPlaceOrderHttpError_def tryToastPlaceOrderForbiddenError_def assms d(1) code Let_def startsWith_def)
qed

section \<open>Concrete orders\<close>

definition waiting :: feedback where
  "waiting = \<lparr>fb_store = registerRecentSubmittedOrder (Num 0) ''o'' (terminal_init None), fb_toasts = []\<rparr>"

definition rejection :: json where
  "rejection = JObj [(''type'', JStr ''order_update''), (''order_id'', JStr ''o''),
     (''payload'', JObj [(''status'', JStr ''rejected''), (''reason'', JStr ''SLIPPAGE_EXCEEDED'')])]"

definition two_rejections :: "feedback_event list" where
  "two_rejections = [OrderMessage ''order_update'' (Num 5) (Num 5) rejection, OrderMessage ''order.update'' (Num 6) (Num 6) rejection]"

lemma reject_told_once_witness: "told ''o'' (the (run (not_registered ''o'') feedback_do two_rejections waiting)) \<le> 1"
proof -
  have "run (not_registered ''o'') feedback_do two_rejections waiting \<noteq> None" by (simp add: two_rejections_def)
  then obtain f where f: "run (not_registered ''o'') feedback_do two_rejections waiting = Some f" by blast
  have "told ''o'' f \<le> told ''o'' waiting + of_bool (map_has (recent waiting) ''o'')" by (rule reject_told_once [OF f])
  also have "\<dots> \<le> 1" by (simp add: told_def waiting_def)
  finally show ?thesis by (simp add: f)
qed

definition refused :: json where
  "refused = JObj [(''response'', JObj [(''status'', JNum (Num 403)), (''data'', JObj [(''error'', JObj [(''code'', JStr ''CLOSE_ONLY'')])])])]"

definition sample_dates :: date_env where
  "sample_dates = \<lparr>time_of = parseFloat, locale_text = (\<lambda>n z. toString n)\<rparr>"

lemma order_error_texts_witness:
  "startsWith (reportPlaceOrderHttpError sample_dates toString (Num 0) refused True) ''This symbol is in close-only mode.''"
proof -
  have "readPlaceOrderErrorPayload refused = Some (JObj [(''code'', JStr ''CLOSE_ONLY'')])"
    by (simp add: readPlaceOrderErrorPayload_def refused_def fld_def)
  from order_error_texts [OF this, of sample_dates toString "Num 0" True] show ?thesis by (simp add: json_str_def)
qed

end
