(* ===== verification/Order_Ticket.thy ===== *)
theory Order_Ticket
  imports Order_Feedback Orders Position_Pnl
begin

text \<open>
  The order ticket (\<open>features/terminal/components/RightTradingPanel.tsx\<close>,
  \<open>OrderConfirmationDialog.tsx\<close>): what the typed size means in units, lots and money per pip, the
  conversions when the user changes how the size is given, the default size, the margin estimate and
  the checks before an order, the order itself with its confirmation, and the updates that settle it.

  The values the panel gets from its hooks are the record \<open>ticket_env\<close>, its own state is the record
  \<open>ticket\<close>. Formatting of money is left to the parameters \<open>formatMoney\<close> and \<open>formatAmount\<close>; the
  idempotency key is an argument. Requests sent, answers received, orders registered with the
  terminal's store and refreshes asked of it are recorded. An order type that is not \<open>limit\<close> is sent
  as \<open>MARKET\<close>: the panel's buttons set no other than the two.
\<close>

section \<open>Values and state\<close>

datatype size_mode = Units | Lots | PipPosition

record ticket_env =
  en_admins :: "AdminSymbol list"
  en_bid :: "string option"
  en_ask :: "string option"
  en_tiers :: "SymbolLeverageTier list option"
  en_min :: "jsnum option"
  en_max :: "jsnum option"
  en_confirm :: "bool option"
  en_freeMargin :: "jsnum option"
  en_requiredMargin :: "string option"
  en_feeUsd :: "string option"

record pending_confirm =
  pc_payload :: PlaceOrderRequest
  pc_side :: OrderSide
  pc_baseSize :: jsnum
  pc_displaySize :: string
  pc_youEntered :: string

datatype ticket_toast = TError string | TSuccess string | TPlain string

record ticket =
  ot_symbol :: "MockSymbol option"
  ot_orderType :: string
  ot_sizeMode :: size_mode
  ot_explicit :: bool
  ot_size :: string
  ot_lotSize :: string
  ot_pip :: string
  ot_pipCurrency :: string
  ot_currency :: string
  ot_useSlTp :: bool
  ot_stopLoss :: string
  ot_takeProfit :: string
  ot_stopLossAmount :: string
  ot_takeProfitAmount :: string
  ot_slTpSide :: PositionSide
  ot_limitPrice :: string
  ot_seedKey :: string
  ot_previewSide :: OrderSide
  ot_slippageBps :: jsnum
  ot_slippageOverridden :: bool
  ot_submitting :: bool
  ot_confirmOpen :: bool
  ot_pending :: "pending_confirm option"
  ot_pendingOrders :: "string list"
  ot_sent :: "PlaceOrderRequest list"
  ot_answers :: nat
  ot_registered :: "string list"
  ot_refreshes :: nat
  ot_toasts :: "ticket_toast list"

definition MIN_EST_MARGIN_DOLLARS :: jsnum where "MIN_EST_MARGIN_DOLLARS = Num 10"

definition say :: "ticket_toast \<Rightarrow> ticket \<Rightarrow> ticket" where
  "say m t = t\<lparr>ot_toasts := ot_toasts t @ [m]\<rparr>"

section \<open>Helpers\<close>

definition formatTierNotional :: "string \<Rightarrow> string" where
  "formatTierNotional v = (let n = parseFloat v in if isNaN n then v else toFixed_nat n 2)"

definition frac :: "string option \<Rightarrow> nat" where
  "frac q = (case q of None \<Rightarrow> 0
     | Some s \<Rightarrow> if CHR ''.'' \<in> set s then length (split_char (CHR ''.'') s ! 1) else 0)"

definition quoteFractionDigits :: "string option \<Rightarrow> string option \<Rightarrow> nat" where
  "quoteFractionDigits bid ask = max (max (frac bid) (frac ask)) 2"

definition liveQuoteSpreadFormatted ::
  "MockSymbol \<Rightarrow> jsnum \<Rightarrow> jsnum \<Rightarrow> string option \<Rightarrow> string option \<Rightarrow> string js" where
  "liveQuoteSpreadFormatted s bidNum askNum bidStr askStr =
     (if jle bidNum (Num 0) \<or> jle askNum (Num 0) then Inr ''0''
      else if ms_assetClass s = Some FX \<and> truthy bidStr \<and> truthy askStr
      then toFixed (jabs (jsub (parseFloat (the askStr)) (parseFloat (the bidStr)))) (Num (of_nat (quoteFractionDigits bidStr askStr)))
      else toFixed (jabs (jsub askNum bidNum)) (nullish (ms_pricePrecision s) (Num 2)))"

definition getDefaultSizeModeForSymbol :: "MockSymbol option \<Rightarrow> AdminSymbol option \<Rightarrow> size_mode" where
  "getDefaultSizeModeForSymbol terminalSymbol admin =
     (if terminalSymbol = None \<and> admin = None then Units
      else
        (let cls = (case Option.bind admin assetClass of Some c \<Rightarrow> Some c
                  | None \<Rightarrow> Option.bind terminalSymbol ms_assetClass);
             ac = (case cls of Some c \<Rightarrow> toUpperCase (trim (class_name c)) | None \<Rightarrow> []);
             mk = toLowerCase (trim (nullish (Option.bind admin sym_market) []));
             cs = num_or (jmax (Num 0) (num_or (parseFloat (case admin of Some a \<Rightarrow> contractSize a | None \<Rightarrow> ''1'')) (Num 0))) (Num 1)
         in if ac = ''FX'' \<or> mk = ''forex'' then Lots
            else if jlt (Num 1) cs \<and> (ac = ''INDICES'' \<or> ac = ''INDEX'' \<or> mk = ''indices'' \<or> ac = ''METALS'' \<or> ac = ''METAL''
                \<or> mk = ''metals'' \<or> ac = ''COMMODITIES'' \<or> ac = ''COMMODITY'' \<or> mk = ''commodities'') then Lots
            else Units))"

definition defaultSizeStringToBaseUnits :: "string \<Rightarrow> MockSymbol \<Rightarrow> string \<Rightarrow> jsnum \<Rightarrow> jsnum option" where
  "defaultSizeStringToBaseUnits sizeStr s cur executionPrice =
     (let n = parseFloat sizeStr in
      if \<not> isFinite n \<or> jle n (Num 0) \<or> jle executionPrice (Num 0) then None
      else if cur = ms_quoteCurrency s then Some (jdiv n executionPrice) else Some n)"

text \<open>The live prices as numbers; missing or unreadable is 0.\<close>

definition live_num :: "string option \<Rightarrow> jsnum" where
  "live_num q = (case q of None \<Rightarrow> Num 0 | Some s \<Rightarrow> parseNum s)"

definition bid_num :: "ticket_env \<Rightarrow> jsnum" where "bid_num e = live_num (en_bid e)"
definition ask_num :: "ticket_env \<Rightarrow> jsnum" where "ask_num e = live_num (en_ask e)"

definition adminSymbol :: "ticket_env \<Rightarrow> MockSymbol \<Rightarrow> AdminSymbol option" where
  "adminSymbol e s = find (\<lambda>a. sym_id a = ms_id s) (en_admins e)"

definition fallback_symbol :: "MockSymbol \<Rightarrow> AdminSymbol" where
  "fallback_symbol s =
     \<lparr>sym_id = ms_id s, symbolCode = ms_code s, sym_code = None, sym_name = None, sym_market = None, providerSymbol = None,
      mmdpsCategory = None, providerDescription = None, assetClass = Some Crypto, baseCurrency = ms_baseCurrency s,
      quoteCurrency = ms_quoteCurrency s, pricePrecision = Num 2, volumePrecision = Num 2, contractSize = ''1'',
      tickSize = Some (to_num (1 / 100)), lotMin = Some (to_num (1 / 100)), lotMax = Some (Num 100), defaultPipPosition = None,
      pipPositionMin = None, pipPositionMax = None, isEnabled = ms_enabled s, tradingEnabled = ms_enabled s,
      leverageProfileId = None, leverageProfileName = None, sessionTemplateId = None, sessionTemplateName = None,
      createdAt = [], updatedAt = []\<rparr>"

definition getSymbolForCalculations :: "ticket_env \<Rightarrow> MockSymbol \<Rightarrow> AdminSymbol" where
  "getSymbolForCalculations e s = (case adminSymbol e s of Some a \<Rightarrow> a | None \<Rightarrow> fallback_symbol s)"

section \<open>Size\<close>

record calculations =
  c_pipValuePerLot :: jsnum
  c_lots :: jsnum
  c_units :: jsnum
  c_pip :: jsnum

text \<open>\<open>parseFloat(s) || 0\<close>.\<close>

definition num_text :: "string \<Rightarrow> jsnum" where
  "num_text s = num_or (parseFloat s) (Num 0)"

definition raw_sizes :: "AdminSymbol \<Rightarrow> MockSymbol \<Rightarrow> jsnum \<Rightarrow> ticket \<Rightarrow> jsnum \<times> jsnum \<times> jsnum" where
  "raw_sizes a s price t =
     (case ot_sizeMode t of
        Units \<Rightarrow>
          (let n = num_text (ot_size t);
               u = (if ot_currency t = ms_quoteCurrency s \<and> jlt (Num 0) price then jdiv n price else n);
               l = calculateLotsFromUnits u a
           in (l, u, calculatePipPositionFromLots l a price))
      | Lots \<Rightarrow>
          (let l = normalizeLotSize (num_text (ot_lotSize t)) a
           in (l, calculateUnitsFromLots l a, calculatePipPositionFromLots l a price))
      | PipPosition \<Rightarrow>
          (let p = num_text (ot_pip t); l = calculateLotSizeFromPipPosition p a price
           in (l, calculateUnitsFromLots l a, p)))"

definition sizeCalculations :: "ticket_env \<Rightarrow> ticket \<Rightarrow> calculations" where
  "sizeCalculations e t =
     (case ot_symbol t of
        None \<Rightarrow> \<lparr>c_pipValuePerLot = Num 0, c_lots = Num 0, c_units = Num 0, c_pip = Num 0\<rparr>
      | Some s \<Rightarrow>
          if jle (bid_num e) (Num 0) then \<lparr>c_pipValuePerLot = Num 0, c_lots = Num 0, c_units = Num 0, c_pip = Num 0\<rparr>
          else
            (let a = getSymbolForCalculations e s; (l, u, p) = raw_sizes a s (bid_num e) t
             in \<lparr>c_pipValuePerLot = finite_or_0 (calculatePipValuePerLot a (bid_num e)), c_lots = finite_or_0 l,
                 c_units = finite_or_0 u, c_pip = finite_or_0 p\<rparr>))"

text \<open>An exception of \<open>toFixed\<close> leaves what was set before it.\<close>

definition handleSizeModeChange :: "ticket_env \<Rightarrow> size_mode \<Rightarrow> ticket \<Rightarrow> ticket" where
  "handleSizeModeChange e newMode t =
     (if newMode = ot_sizeMode t then t
      else
        (let t1 = t\<lparr>ot_explicit := True\<rparr> in
         case ot_symbol t of
           None \<Rightarrow> t1\<lparr>ot_sizeMode := newMode\<rparr>
         | Some s \<Rightarrow>
             if jle (bid_num e) (Num 0) then t1\<lparr>ot_sizeMode := newMode\<rparr>
             else
               (let a = getSymbolForCalculations e s; c = sizeCalculations e t in
                case newMode of
                  Units \<Rightarrow> (case toFixed (c_units c) (num_or (volumePrecision a) (Num 2)) of
                      Inr x \<Rightarrow> t1\<lparr>ot_size := x, ot_sizeMode := Units\<rparr> | Inl _ \<Rightarrow> t1)
                | Lots \<Rightarrow> (case formatLotSize (c_lots c) a of
                      Inr x \<Rightarrow> t1\<lparr>ot_lotSize := x, ot_sizeMode := Lots\<rparr> | Inl _ \<Rightarrow> t1)
                | PipPosition \<Rightarrow> t1\<lparr>ot_pip := toFixed_nat (c_pip c) 2, ot_sizeMode := PipPosition\<rparr>)))"

definition follow_symbol_mode :: "ticket_env \<Rightarrow> ticket \<Rightarrow> ticket" where
  "follow_symbol_mode e t =
     (if ot_explicit t then t
      else case ot_symbol t of
        None \<Rightarrow> t
      | Some s \<Rightarrow> t\<lparr>ot_sizeMode := getDefaultSizeModeForSymbol (Some s) (adminSymbol e s)\<rparr>)"

section \<open>The default size\<close>

definition market_price :: "ticket_env \<Rightarrow> jsnum" where
  "market_price e = num_or (num_or (ask_num e) (bid_num e)) (Num 0)"

definition ticket_price :: "ticket_env \<Rightarrow> ticket \<Rightarrow> jsnum" where
  "ticket_price e t =
     (let lp = parseFloat (ot_limitPrice t) in
      if ot_orderType t = ''limit'' \<and> isFinite lp \<and> jlt (Num 0) lp then lp else market_price e)"

text \<open>The loop of five rounds, with its \<open>break\<close>: the leverage of the notional gives the next notional.\<close>

fun min_notional :: "ticket_env \<Rightarrow> nat \<Rightarrow> jsnum \<Rightarrow> jsnum" where
  "min_notional e 0 n = n"
| "min_notional e (Suc k) n =
     (let lev = getEffectiveLeverage n (en_tiers e) (en_min e) (en_max e) (Num 50) in
      if \<not> isFinite lev \<or> jle lev (Num 0) then n
      else min_notional e k (jmul MIN_EST_MARGIN_DOLLARS lev))"

definition getDefaultSizeForMinMargin :: "ticket_env \<Rightarrow> ticket \<Rightarrow> string option js" where
  "getDefaultSizeForMinMargin e t =
     (case ot_symbol t of
        None \<Rightarrow> Inr None
      | Some s \<Rightarrow>
          let price = ticket_price e t in
          if jle price (Num 0) then Inr None
          else
            let notional = min_notional e 5 (jmul MIN_EST_MARGIN_DOLLARS (Num 50)) in
            if \<not> isFinite notional \<or> jle notional (Num 0) then Inr None
            else if ot_currency t = ms_quoteCurrency s then Inr (Some (toFixed_nat notional 2))
            else js_bind (toFixed (jdiv notional price) (volumePrecision (getSymbolForCalculations e s))) (\<lambda>x. Inr (Some x)))"

definition seed_key :: "MockSymbol \<Rightarrow> ticket \<Rightarrow> string" where
  "seed_key s t = join_with ''|'' [ms_code s, ot_currency t, ot_orderType t,
     (if ot_orderType t = ''limit'' then trim (ot_limitPrice t) else ''market''),
     (case ot_sizeMode t of Units \<Rightarrow> ''units'' | Lots \<Rightarrow> ''lots'' | PipPosition \<Rightarrow> ''pipPosition'')]"

definition auto_seed :: "ticket_env \<Rightarrow> ticket \<Rightarrow> ticket" where
  "auto_seed e t =
     (case ot_symbol t of
        None \<Rightarrow> t
      | Some s \<Rightarrow>
          if ot_currency t = [] \<or> (ot_orderType t = ''limit'' \<and> trim (ot_limitPrice t) = []) then t
          else if ot_seedKey t = seed_key s t then t
          else
            (case getDefaultSizeForMinMargin e t of
               Inr (Some nextSize) \<Rightarrow>
                 if nextSize = [] \<or> jle (ticket_price e t) (Num 0) then t
                 else
                   (case defaultSizeStringToBaseUnits nextSize s (ot_currency t) (ticket_price e t) of
                      None \<Rightarrow> t
                    | Some baseUnits \<Rightarrow>
                        if jle baseUnits (Num 0) then t
                        else
                          (let t = t\<lparr>ot_seedKey := seed_key s t\<rparr>; a = getSymbolForCalculations e s;
                               lots = normalizeLotSize (calculateLotsFromUnits baseUnits a) a in
                           case ot_sizeMode t of
                             Units \<Rightarrow> t\<lparr>ot_size := nextSize\<rparr>
                           | Lots \<Rightarrow> (case formatLotSize lots a of Inr x \<Rightarrow> t\<lparr>ot_lotSize := x\<rparr> | Inl _ \<Rightarrow> t)
                           | PipPosition \<Rightarrow>
                               (let pip = calculatePipPositionFromLots lots a (ticket_price e t) in
                                if isFinite pip \<and> jlt (Num 0) pip then t\<lparr>ot_pip := toFixed_nat pip 2\<rparr> else t)))
             | _ \<Rightarrow> t))"

section \<open>Margin\<close>

definition canEstimateServerMargin :: "ticket_env \<Rightarrow> ticket \<Rightarrow> bool" where
  "canEstimateServerMargin e t =
     (ot_symbol t \<noteq> None \<and> isFinite (c_units (sizeCalculations e t)) \<and> jlt (Num 0) (c_units (sizeCalculations e t)) \<and>
      (ot_orderType t = ''market'' \<or> (ot_orderType t = ''limit'' \<and> trim (ot_limitPrice t) \<noteq> [])))"

definition placementFeeFromEstimateUsd :: "ticket_env \<Rightarrow> jsnum option" where
  "placementFeeFromEstimateUsd e =
     (case en_feeUsd e of
        None \<Rightarrow> None
      | Some raw \<Rightarrow> if raw = [] then None
          else let n = toNumber raw in if \<not> isFinite n \<or> jle n (Num 0) then None else Some n)"

definition limit_execution :: "ticket \<Rightarrow> jsnum option" where
  "limit_execution t =
     (let px = (if ot_orderType t = ''limit'' \<and> trim (ot_limitPrice t) \<noteq> [] then parseFloat (ot_limitPrice t) else NaN) in
      if isFinite px \<and> jlt (Num 0) px then Some px else None)"

definition fallback_args :: "ticket_env \<Rightarrow> ticket \<Rightarrow> margin_args" where
  "fallback_args e t =
     \<lparr>ma_bid = bid_num e, ma_ask = num_or (ask_num e) (bid_num e), ma_side = ot_previewSide t,
      ma_baseUnits = c_units (sizeCalculations e t), ma_tiers = en_tiers e, ma_userMin = en_min e, ma_userMax = en_max e,
      ma_orderType = (if ot_orderType t = ''limit'' then LIMIT else MARKET), ma_limitExecutionPrice = limit_execution t\<rparr>"

definition fallbackMarginUsd :: "ticket_env \<Rightarrow> ticket \<Rightarrow> jsnum option" where
  "fallbackMarginUsd e t = (if ot_symbol t = None then None else clientMarketFallbackMarginUsdOrNull (fallback_args e t))"

definition parsedServerMarginUsd :: "ticket_env \<Rightarrow> jsnum option" where
  "parsedServerMarginUsd e =
     (case en_requiredMargin e of
        None \<Rightarrow> None
      | Some s \<Rightarrow> if s = [] then None else let n = parseFloat s in if isFinite n then Some n else None)"

definition estMarginDollars :: "ticket_env \<Rightarrow> ticket \<Rightarrow> jsnum option" where
  "estMarginDollars e t = (case parsedServerMarginUsd e of Some m \<Rightarrow> Some m | None \<Rightarrow> fallbackMarginUsd e t)"

definition marginCalcUnavailable :: "ticket_env \<Rightarrow> ticket \<Rightarrow> bool" where
  "marginCalcUnavailable e t = (canEstimateServerMargin e t \<and> estMarginDollars e t = None)"

definition free_margin_of :: "ticket_env \<Rightarrow> jsnum" where
  "free_margin_of e = nullish (en_freeMargin e) (Num 0)"

definition insufficientFreeMargin :: "ticket_env \<Rightarrow> ticket \<Rightarrow> bool" where
  "insufficientFreeMargin e t =
     (case estMarginDollars e t of
        None \<Rightarrow> False
      | Some m \<Rightarrow> jlt (free_margin_of e) (jadd m (nullish (placementFeeFromEstimateUsd e) (Num 0))))"

definition belowMinRequiredMargin :: "ticket_env \<Rightarrow> ticket \<Rightarrow> bool" where
  "belowMinRequiredMargin e t =
     (case estMarginDollars e t of None \<Rightarrow> False | Some m \<Rightarrow> jlt (Num 0) m \<and> jlt m MIN_EST_MARGIN_DOLLARS)"

definition currentOrderNotional :: "ticket_env \<Rightarrow> ticket \<Rightarrow> jsnum" where
  "currentOrderNotional e t =
     (if ot_symbol t = None then Num 0
      else case limit_execution t of
        Some lp \<Rightarrow> jmul (c_units (sizeCalculations e t)) lp
      | None \<Rightarrow>
          (let exec = (if ot_previewSide t = SELL then bid_num e else num_or (ask_num e) (bid_num e)) in
           if jle exec (Num 0) then Num 0 else jmul (c_units (sizeCalculations e t)) exec))"

record cost_breakdown =
  cb_spread :: string
  cb_margin :: string
  cb_liquidation :: string
  cb_usdValue :: string
  cb_baseSize :: string
  cb_quoteValue :: string

definition costBreakdown :: "ticket_env \<Rightarrow> ticket \<Rightarrow> cost_breakdown" where
  "costBreakdown e t =
     (if ot_symbol t = None
      then \<lparr>cb_spread = ''0.00'', cb_margin = ''0.00'', cb_liquidation = ''-'', cb_usdValue = ''0.00'', cb_baseSize = ''0.00'', cb_quoteValue = ''0.00''\<rparr>
      else
        (let bid = bid_num e; ask = num_or (ask_num e) bid;
             mid = (if jeq ask bid then bid else jdiv (jadd bid ask) (Num 2));
             baseSize = c_units (sizeCalculations e t);
             quoteValue = (if jlt (Num 0) mid then jmul baseSize mid else Num 0)
         in \<lparr>cb_spread = toFixed_nat (jabs (jsub ask bid)) 2,
             cb_margin = (case clientMarketFallbackMarginUsdOrNull (fallback_args e t) of Some m \<Rightarrow> toFixed_nat m 2 | None \<Rightarrow> em_dash),
             cb_liquidation = ''-'', cb_usdValue = toFixed_nat quoteValue 2, cb_baseSize = toFixed_nat baseSize 8,
             cb_quoteValue = toFixed_nat quoteValue 2\<rparr>))"

definition effectiveLeverageForCard :: "ticket_env \<Rightarrow> ticket \<Rightarrow> jsnum" where
  "effectiveLeverageForCard e t = getEffectiveLeverage (currentOrderNotional e t) (en_tiers e) (en_min e) (en_max e) (Num 50)"

section \<open>Placing an order\<close>

text \<open>A refusal with its text, an exception (of \<open>toFixed\<close>), or a result.\<close>

datatype 'a attempt = Refused string | Throws | Ready 'a

fun and_then :: "'a attempt \<Rightarrow> ('a \<Rightarrow> 'b attempt) \<Rightarrow> 'b attempt" where
  "and_then (Refused m) f = Refused m"
| "and_then Throws f = Throws"
| "and_then (Ready x) f = f x"

definition text_js :: "string js \<Rightarrow> string attempt" where
  "text_js x = (case x of Inl _ \<Rightarrow> Throws | Inr v \<Rightarrow> Ready v)"

definition not_positive :: "jsnum \<Rightarrow> bool" where
  "not_positive n = (\<not> num_truthy n \<or> jle n (Num 0))"

definition order_size ::
  "(jsnum \<Rightarrow> string \<Rightarrow> string) \<Rightarrow> ticket_env \<Rightarrow> MockSymbol \<Rightarrow> ticket \<Rightarrow> (jsnum \<times> string) attempt" where
  "order_size formatAmount e s t =
     (let a = getSymbolForCalculations e s in
      case ot_sizeMode t of
        Units \<Rightarrow>
          (let n = parseFloat (ot_size t) in
           if not_positive n then Refused ''Please enter a valid size''
           else
             (let baseSize = (if ot_currency t = ms_quoteCurrency s \<and> jlt (Num 0) (bid_num e) then jdiv n (bid_num e) else n) in
              Ready (baseSize,
                (if ot_currency t = ms_quoteCurrency s
                 then ot_size t @ '' '' @ ms_quoteCurrency s @ '' ('' @ toFixed_nat baseSize 8 @ '' '' @ ms_baseCurrency s @ '')''
                 else ot_size t @ '' '' @ ms_baseCurrency s))))
      | Lots \<Rightarrow>
          (let n = parseFloat (ot_lotSize t) in
           if not_positive n then Refused ''Please enter a valid lot size''
           else
             (let lots = normalizeLotSize n a; baseSize = calculateUnitsFromLots lots a in
              and_then (text_js (formatLotSize lots a)) (\<lambda>l. and_then (text_js (formatUnits baseSize a)) (\<lambda>u.
                Ready (baseSize, l @ '' lots ('' @ u @ '' units)'')))))
      | PipPosition \<Rightarrow>
          (let n = parseFloat (ot_pip t) in
           if not_positive n then Refused ''Please enter a valid pip position''
           else if jle (bid_num e) (Num 0) then Refused ''Price not available''
           else
             (let lots = calculateLotSizeFromPipPosition n a (bid_num e); baseSize = calculateUnitsFromLots lots a in
              and_then (text_js (formatLotSize lots a)) (\<lambda>l. and_then (text_js (formatUnits baseSize a)) (\<lambda>u.
                Ready (baseSize, formatAmount n (ot_pipCurrency t) @ ''/pip ('' @ l @ '' lots, '' @ u @ '' units)''))))))"

definition checked_margin :: "(jsnum \<Rightarrow> string) \<Rightarrow> ticket_env \<Rightarrow> ticket \<Rightarrow> string option" where
  "checked_margin formatMoney e t =
     (if canEstimateServerMargin e t \<and> estMarginDollars e t = None
      then Some (''Margin cannot be calculated '' @ em_dash @
        '' tier configuration unavailable or price data missing. Check Admin leverage profiles for this symbol.'')
      else if insufficientFreeMargin e t
      then Some (''Insufficient funds: required margin '' @ formatMoney (the (estMarginDollars e t)) @ '', free margin '' @
        formatMoney (free_margin_of e))
      else if belowMinRequiredMargin e t
      then Some (''Estimated margin must be at least '' @ formatMoney MIN_EST_MARGIN_DOLLARS @ '' to open a position'')
      else None)"

definition some_text :: "bool \<Rightarrow> string \<Rightarrow> string option" where
  "some_text b s = (if b \<and> s \<noteq> [] then Some s else None)"

definition order_payload_of :: "string \<Rightarrow> OrderSide \<Rightarrow> MockSymbol \<Rightarrow> jsnum \<Rightarrow> ticket \<Rightarrow> PlaceOrderRequest" where
  "order_payload_of key sd s baseSize t =
     \<lparr>po_symbol = ms_code s, po_side = sd, po_order_type = (if ot_orderType t = ''limit'' then LIMIT else MARKET),
      po_size = toString baseSize, po_limit_price = some_text (ot_orderType t = ''limit'') (ot_limitPrice t),
      po_sl = some_text (ot_useSlTp t) (ot_stopLoss t), po_tp = some_text (ot_useSlTp t) (ot_takeProfit t),
      po_tif = Some GTC, po_client_order_id = None, po_idempotency_key = key,
      po_slippage_bps = (if ot_orderType t = ''market'' \<and> ot_slippageOverridden t then Some (ot_slippageBps t) else None)\<rparr>"

definition youEnteredLabel :: "ticket \<Rightarrow> string" where
  "youEnteredLabel t = (case ot_sizeMode t of
     Units \<Rightarrow> ot_size t @ '' '' @ ot_currency t
   | Lots \<Rightarrow> ot_lotSize t @ '' lots''
   | PipPosition \<Rightarrow> ot_pip t @ '' '' @ ot_pipCurrency t @ ''/pip'')"

definition check_order ::
  "(jsnum \<Rightarrow> string) \<Rightarrow> (jsnum \<Rightarrow> string \<Rightarrow> string) \<Rightarrow> ticket_env \<Rightarrow> string \<Rightarrow> OrderSide \<Rightarrow> ticket \<Rightarrow> pending_confirm attempt" where
  "check_order formatMoney formatAmount e key sd t =
     (case ot_symbol t of
        None \<Rightarrow> Refused ''Please select a symbol''
      | Some s \<Rightarrow>
          and_then (order_size formatAmount e s t) (\<lambda>(baseSize, displaySize).
            if \<not> isFinite baseSize \<or> jle baseSize (Num 0) then Refused ''Invalid position size''
            else if ot_orderType t = ''limit'' \<and> ot_limitPrice t = [] then Refused ''Please enter a limit price for limit orders''
            else case checked_margin formatMoney e t of
              Some m \<Rightarrow> Refused m
            | None \<Rightarrow> Ready \<lparr>pc_payload = order_payload_of key sd s baseSize t, pc_side = sd, pc_baseSize = baseSize,
                pc_displaySize = displaySize, pc_youEntered = youEnteredLabel t\<rparr>))"

definition send_order :: "PlaceOrderRequest \<Rightarrow> ticket \<Rightarrow> ticket" where
  "send_order p t = t\<lparr>ot_submitting := True, ot_sent := ot_sent t @ [p]\<rparr>"

definition handlePlaceOrder ::
  "(jsnum \<Rightarrow> string) \<Rightarrow> (jsnum \<Rightarrow> string \<Rightarrow> string) \<Rightarrow> ticket_env \<Rightarrow> string \<Rightarrow> OrderSide \<Rightarrow> ticket \<Rightarrow> ticket" where
  "handlePlaceOrder formatMoney formatAmount e key sd t =
     (case check_order formatMoney formatAmount e key sd t of
        Refused m \<Rightarrow> say (TError m) t
      | Throws \<Rightarrow> t
      | Ready pc \<Rightarrow>
          if nullish (en_confirm e) True then t\<lparr>ot_pending := Some pc, ot_confirmOpen := True\<rparr>
          else send_order (pc_payload pc) t)"

text \<open>Buy and Sell set the previewed side, but the handler they call is the one of the last rendering.\<close>

definition handleBuySell ::
  "(jsnum \<Rightarrow> string) \<Rightarrow> (jsnum \<Rightarrow> string \<Rightarrow> string) \<Rightarrow> ticket_env \<Rightarrow> string \<Rightarrow> OrderSide \<Rightarrow> ticket \<Rightarrow> ticket" where
  "handleBuySell formatMoney formatAmount e key sd t =
     (handlePlaceOrder formatMoney formatAmount e key sd t)\<lparr>ot_previewSide := sd\<rparr>"

definition handleConfirmPendingOrder :: "ticket \<Rightarrow> ticket" where
  "handleConfirmPendingOrder t = (case ot_pending t of
     None \<Rightarrow> t
   | Some pc \<Rightarrow> if ot_symbol t = None then say (TError ''Order failed: No symbol selected'') t
       else send_order (pc_payload pc) t)"

definition close_confirm :: "ticket \<Rightarrow> ticket" where
  "close_confirm t = (if ot_submitting t then t else t\<lparr>ot_confirmOpen := False, ot_pending := None\<rparr>)"

text \<open>
  The answer to a request: \<open>t0\<close> and \<open>e\<close> are the ticket and the values of the rendering that sent it,
  \<open>confirmed\<close> tells whether the dialog did. \<open>range_text\<close> is the browser's text of a \<open>RangeError\<close>.
\<close>

definition reset_after :: "ticket_env \<Rightarrow> ticket \<Rightarrow> ticket \<Rightarrow> ticket option" where
  "reset_after e t0 t =
     (if ot_orderType t0 \<noteq> ''market'' then Some t
      else
        (let clear = (\<lambda>t. t\<lparr>ot_stopLoss := [], ot_takeProfit := [], ot_useSlTp := False\<rparr>) in
         case ot_sizeMode t0 of
           Units \<Rightarrow> (case getDefaultSizeForMinMargin e t0 of
               Inr d \<Rightarrow> Some (clear (t\<lparr>ot_size := nullish d ''0.003457''\<rparr>)) | Inl _ \<Rightarrow> None)
         | Lots \<Rightarrow> Some (clear (t\<lparr>ot_lotSize := ''0.5''\<rparr>))
         | PipPosition \<Rightarrow> Some (clear (t\<lparr>ot_pip := ''5''\<rparr>))))"

definition side_text :: "OrderSide \<Rightarrow> string" where
  "side_text sd = (case sd of BUY \<Rightarrow> ''BUY'' | SELL \<Rightarrow> ''SELL'')"

definition order_answered ::
  "ticket_env \<Rightarrow> ticket \<Rightarrow> bool \<Rightarrow> pending_confirm \<Rightarrow> string \<Rightarrow> string option \<Rightarrow> ticket \<Rightarrow> ticket" where
  "order_answered e t0 confirmed pc range_text res t =
     (let t = t\<lparr>ot_submitting := False, ot_answers := Suc (ot_answers t)\<rparr> in
      if \<not> truthy res then say (TError ''Order failed: Order ID not returned from server'') t
      else
        (let orderId = the res;
             t = say (TSuccess (side_text (pc_side pc) @ '' order submitted: '' @ pc_displaySize pc @ '' @ '' @
                   ms_code (the (ot_symbol t0)) @ '' (Order ID: '' @ take 8 orderId @ ''...)''))
                 (t\<lparr>ot_pendingOrders := set_add orderId (ot_pendingOrders t), ot_registered := ot_registered t @ [orderId],
                    ot_refreshes := Suc (ot_refreshes t)\<rparr>)
         in case reset_after e t0 t of
              None \<Rightarrow> say (TError (''Order failed: '' @ range_text)) t
            | Some t \<Rightarrow> if confirmed then t\<lparr>ot_confirmOpen := False, ot_pending := None\<rparr> else t))"

text \<open>A failed request; \<open>msg\<close> is the text \<open>reportPlaceOrderHttpError\<close> gives.\<close>

definition order_failed :: "string \<Rightarrow> ticket \<Rightarrow> ticket" where
  "order_failed msg t = say (TError msg) (t\<lparr>ot_submitting := False, ot_answers := Suc (ot_answers t)\<rparr>)"

section \<open>Messages about orders\<close>

text \<open>\<open>a || b || ...\<close> on fields: the first truthy one, or the last.\<close>

fun first_truthy :: "json option list \<Rightarrow> json option" where
  "first_truthy [] = None"
| "first_truthy [v] = v"
| "first_truthy (v # vs) = (if truthy_json v then v else first_truthy vs)"

definition status_is :: "json option \<Rightarrow> string list \<Rightarrow> bool" where
  "status_is v names = (case v of Some (JStr t) \<Rightarrow> t \<in> set names | _ \<Rightarrow> False)"

definition is_filled :: "json option \<Rightarrow> bool" where
  "is_filled status = status_is status [''Filled'', ''FILLED'', ''filled'']"

definition settle_pending :: "string \<Rightarrow> json option \<Rightarrow> string \<Rightarrow> ticket \<Rightarrow> ticket" where
  "settle_pending i status reason t =
     (if i = [] \<or> i \<notin> set (ot_pendingOrders t) then t
      else
        (let t = t\<lparr>ot_pendingOrders := set_delete i (ot_pendingOrders t)\<rparr>; name = ''Order '' @ take 8 i in
         if is_filled status then say (TSuccess (name @ ''... filled successfully'')) t
         else if status_is status [''Rejected'', ''REJECTED'', ''rejected''] then say (TError (name @ ''... rejected: '' @ reason)) t
         else if status_is status [''Cancelled'', ''CANCELLED'', ''cancelled''] then say (TPlain (name @ ''... cancelled'')) t
         else t))"

definition ask_refresh :: "bool \<Rightarrow> ticket \<Rightarrow> ticket" where
  "ask_refresh b t = (if b then t\<lparr>ot_refreshes := Suc (ot_refreshes t)\<rparr> else t)"

definition on_order_message :: "string \<Rightarrow> json \<Rightarrow> ticket \<Rightarrow> ticket" where
  "on_order_message ty payload t =
     (if ty \<notin> {''admin.order.updated'', ''admin.order.filled'', ''admin.order.canceled'', ''admin.order.rejected''} then t
      else
        (let order = first_truthy [json_field payload ''order'', Some payload];
             orderId = first_truthy [fld order ''orderId'', fld order ''id'', json_field payload ''orderId''];
             status = first_truthy [fld order ''status'', json_field payload ''status''];
             reason = text_or (first_truthy [fld order ''reason'', json_field payload ''reason'']) ''Unknown reason'';
             t = ask_refresh (is_filled status) t
         in case orderId of Some (JStr i) \<Rightarrow> settle_pending i status reason t | _ \<Rightarrow> t))"

section \<open>Other fields of the ticket\<close>

definition handleMaxSize :: "ticket_env \<Rightarrow> ticket \<Rightarrow> ticket" where
  "handleMaxSize e t =
     (case ot_symbol t of
        None \<Rightarrow> say (TError ''Please select a symbol'') t
      | Some s \<Rightarrow>
          if \<not> num_truthy (bid_num e) then say (TError ''Please select a symbol'') t
          else
            (let maxQuoteValue = jmul (to_num (249556 / 100)) (to_num (1 / 100)) in
             say (TSuccess ''Size set to maximum'')
               (t\<lparr>ot_size := (if ot_currency t = ms_quoteCurrency s then toFixed_nat maxQuoteValue 2
                  else toFixed_nat (jdiv maxQuoteValue (bid_num e)) 8)\<rparr>)))"

definition handleCurrencyChange :: "ticket_env \<Rightarrow> string \<Rightarrow> ticket \<Rightarrow> ticket" where
  "handleCurrencyChange e cur t =
     (case ot_symbol t of
        None \<Rightarrow> t\<lparr>ot_currency := cur\<rparr>
      | Some s \<Rightarrow>
          (let n = num_text (ot_size t); price = bid_num e in
           if \<not> num_truthy price \<or> ot_currency t = cur \<or> jle n (Num 0) \<or> jle price (Num 0) then t\<lparr>ot_currency := cur\<rparr>
           else
             (let newSize = (if ot_currency t = ms_baseCurrency s \<and> cur = ms_quoteCurrency s then jmul n price
                             else if ot_currency t = ms_quoteCurrency s \<and> cur = ms_baseCurrency s then jdiv n price
                             else n)
              in t\<lparr>ot_size := toFixed_nat newSize (if cur = ms_quoteCurrency s then 2 else 8), ot_currency := cur\<rparr>)))"

definition follow_currency :: "ticket \<Rightarrow> ticket" where
  "follow_currency t =
     (case ot_symbol t of
        None \<Rightarrow> t
      | Some s \<Rightarrow>
          if ms_baseCurrency s \<noteq> [] \<and> (ot_currency t = [] \<or> (ot_currency t \<noteq> ms_baseCurrency s \<and> ot_currency t \<noteq> ms_quoteCurrency s))
          then t\<lparr>ot_currency := ms_baseCurrency s\<rparr> else t)"

text \<open>The stop-loss and take-profit fields, each a price and an amount.\<close>

definition sltp_entry :: "ticket_env \<Rightarrow> ticket \<Rightarrow> jsnum" where
  "sltp_entry e t = (if ot_slTpSide t = LONG then num_or (ask_num e) (bid_num e) else bid_num e)"

definition sltp_text :: "ticket_env \<Rightarrow> ticket \<Rightarrow> (jsnum \<Rightarrow> jsnum \<Rightarrow> jsnum \<Rightarrow> jsnum) \<Rightarrow> string \<Rightarrow> string" where
  "sltp_text e t f x =
     (if ot_symbol t = None \<or> x = [] then []
      else let n = c_units (sizeCalculations e t); v = parseFloat x in
        if \<not> isNaN v \<and> jlt (Num 0) n then positive_text (f (sltp_entry e t) n v) else [])"

definition changeStopLoss :: "ticket_env \<Rightarrow> string \<Rightarrow> ticket \<Rightarrow> ticket" where
  "changeStopLoss e x t = t\<lparr>ot_stopLoss := x, ot_stopLossAmount := sltp_text e t (\<lambda>entry n price.
     if ot_slTpSide t = LONG then jmul (jsub entry price) n else jmul (jsub price entry) n) x\<rparr>"

definition changeStopLossAmount :: "ticket_env \<Rightarrow> string \<Rightarrow> ticket \<Rightarrow> ticket" where
  "changeStopLossAmount e x t = t\<lparr>ot_stopLossAmount := x, ot_stopLoss := sltp_text e t (\<lambda>entry n loss.
     if ot_slTpSide t = LONG then jsub entry (jdiv loss n) else jadd entry (jdiv loss n)) x\<rparr>"

definition changeTakeProfit :: "ticket_env \<Rightarrow> string \<Rightarrow> ticket \<Rightarrow> ticket" where
  "changeTakeProfit e x t = t\<lparr>ot_takeProfit := x, ot_takeProfitAmount := sltp_text e t (\<lambda>entry n price.
     if ot_slTpSide t = LONG then jmul (jsub price entry) n else jmul (jsub entry price) n) x\<rparr>"

definition changeTakeProfitAmount :: "ticket_env \<Rightarrow> string \<Rightarrow> ticket \<Rightarrow> ticket" where
  "changeTakeProfitAmount e x t = t\<lparr>ot_takeProfitAmount := x, ot_takeProfit := sltp_text e t (\<lambda>entry n gain.
     if ot_slTpSide t = LONG then jadd entry (jdiv gain n) else jsub entry (jdiv gain n)) x\<rparr>"

section \<open>The confirmation dialog\<close>

definition execQuote :: "bool \<Rightarrow> string option \<Rightarrow> OrderSide \<Rightarrow> jsnum option \<Rightarrow> jsnum option \<Rightarrow> jsnum option" where
  "execQuote is_limit limit_price sd liveBid liveAsk =
     (if is_limit \<and> truthy limit_price
      then let n = parseFloat (the limit_price) in (if isFinite n \<and> jlt (Num 0) n then Some n else None)
      else case (if sd = BUY then liveAsk else liveBid) of
        Some x \<Rightarrow> if jlt (Num 0) x then Some x else None | None \<Rightarrow> None)"

definition notionalQuote :: "jsnum option \<Rightarrow> jsnum \<Rightarrow> jsnum option" where
  "notionalQuote q baseSize =
     (case q of
        None \<Rightarrow> None
      | Some x \<Rightarrow> if \<not> num_truthy x \<or> \<not> isFinite baseSize \<or> jle baseSize (Num 0) then None else Some (jmul baseSize x))"

definition dialog_lots :: "AdminSymbol \<Rightarrow> jsnum \<Rightarrow> jsnum option" where
  "dialog_lots a baseSize =
     (let cs = num_or (parseFloat (contractSize a)) (Num 1) in if jle cs (Num 0) then None else Some (jdiv baseSize cs))"

definition bidAskDisplay :: "AdminSymbol \<Rightarrow> jsnum option \<Rightarrow> jsnum option \<Rightarrow> string js" where
  "bidAskDisplay a liveBid liveAsk =
     (case (liveBid, liveAsk) of
        (Some b, Some k) \<Rightarrow>
          if jlt (Num 0) b \<and> jlt (Num 0) k \<and> isFinite b \<and> isFinite k
          then js_bind (toFixed b (pricePrecision a)) (\<lambda>x. js_bind (toFixed k (pricePrecision a)) (\<lambda>y. Inr (x @ '' / '' @ y)))
          else Inr em_dash
      | _ \<Rightarrow> Inr em_dash)"

section \<open>The machine\<close>

datatype ticket_event =
    PressOrder ticket_env string OrderSide | PressConfirm | CloseConfirm
  | Answered ticket_env ticket bool pending_confirm string "string option" | FailedWith string | TicketMessage string json
  | ChangeMode ticket_env size_mode | ChangeCurrency ticket_env string | PressMax ticket_env
  | TypeSize string | TypeLots string | TypePip string | TypeLimit string | SetOrderType string
  | PickSymbol "MockSymbol option" | FollowMode ticket_env | FollowCurrency | Seed ticket_env | PreviewSide OrderSide
  | TypeStopLoss ticket_env string | TypeStopLossAmount ticket_env string
  | TypeTakeProfit ticket_env string | TypeTakeProfitAmount ticket_env string

fun ticket_do :: "(jsnum \<Rightarrow> string) \<times> (jsnum \<Rightarrow> string \<Rightarrow> string) \<Rightarrow> ticket_event \<Rightarrow> ticket \<Rightarrow> ticket" where
  "ticket_do (fm, fa) (PressOrder e key sd) t = handleBuySell fm fa e key sd t"
| "ticket_do F PressConfirm t = handleConfirmPendingOrder t"
| "ticket_do F CloseConfirm t = close_confirm t"
| "ticket_do F (Answered e t0 c pc r res) t = order_answered e t0 c pc r res t"
| "ticket_do F (FailedWith m) t = order_failed m t"
| "ticket_do F (TicketMessage ty p) t = on_order_message ty p t"
| "ticket_do F (ChangeMode e m) t = handleSizeModeChange e m t"
| "ticket_do F (ChangeCurrency e c) t = handleCurrencyChange e c t"
| "ticket_do F (PressMax e) t = handleMaxSize e t"
| "ticket_do F (TypeSize x) t = t\<lparr>ot_size := x\<rparr>"
| "ticket_do F (TypeLots x) t = t\<lparr>ot_lotSize := x\<rparr>"
| "ticket_do F (TypePip x) t = t\<lparr>ot_pip := x\<rparr>"
| "ticket_do F (TypeLimit x) t = t\<lparr>ot_limitPrice := x\<rparr>"
| "ticket_do F (SetOrderType x) t = t\<lparr>ot_orderType := x\<rparr>"
| "ticket_do F (PickSymbol s) t = t\<lparr>ot_symbol := s\<rparr>"
| "ticket_do F (FollowMode e) t = follow_symbol_mode e t"
| "ticket_do F FollowCurrency t = follow_currency t"
| "ticket_do F (Seed e) t = auto_seed e t"
| "ticket_do F (PreviewSide sd) t = t\<lparr>ot_previewSide := sd\<rparr>"
| "ticket_do F (TypeStopLoss e x) t = changeStopLoss e x t"
| "ticket_do F (TypeStopLossAmount e x) t = changeStopLossAmount e x t"
| "ticket_do F (TypeTakeProfit e x) t = changeTakeProfit e x t"
| "ticket_do F (TypeTakeProfitAmount e x) t = changeTakeProfitAmount e x t"

text \<open>The buttons are disabled while a request is out, and an answer needs one.\<close>

fun ticket_enabled :: "ticket_event \<Rightarrow> ticket \<Rightarrow> bool" where
  "ticket_enabled (PressOrder e key sd) t = (\<not> ot_submitting t)"
| "ticket_enabled PressConfirm t = (ot_confirmOpen t \<and> \<not> ot_submitting t)"
| "ticket_enabled (Answered e t0 c pc r res) t = ot_submitting t"
| "ticket_enabled (FailedWith m) t = ot_submitting t"
| "ticket_enabled _ t = True"

section \<open>Lemmas\<close>

lemma and_then_Ready: "and_then m f = Ready y \<longleftrightarrow> (\<exists>x. m = Ready x \<and> f x = Ready y)"
  by (cases m) auto

lemma say_simps [simp]: "ot_submitting (say m t) = ot_submitting t" "ot_sent (say m t) = ot_sent t"
  "ot_answers (say m t) = ot_answers t" "ot_pending (say m t) = ot_pending t"
  by (simp_all add: say_def)

text \<open>What a request says, whatever the ticket was.\<close>

definition request_ok :: "PlaceOrderRequest \<Rightarrow> bool" where
  "request_ok p = ((\<exists>x. isFinite x \<and> jlt (Num 0) x \<and> po_size p = toString x) \<and>
     (po_order_type p = LIMIT \<longrightarrow> truthy (po_limit_price p)) \<and>
     (po_slippage_bps p \<noteq> None \<longrightarrow> po_order_type p = MARKET))"

text \<open>What an accepted ticket satisfies.\<close>

lemma check_order_Ready:
  assumes "check_order fm fa e key sd t = Ready pc"
  obtains s n d where "ot_symbol t = Some s" "order_size fa e s t = Ready (n, d)" "isFinite n" "\<not> jle n (Num 0)"
    "ot_orderType t = ''limit'' \<longrightarrow> ot_limitPrice t \<noteq> []" "checked_margin fm e t = None"
    "pc = \<lparr>pc_payload = order_payload_of key sd s n t, pc_side = sd, pc_baseSize = n, pc_displaySize = d, pc_youEntered = youEnteredLabel t\<rparr>"
  using assms by (auto simp: check_order_def and_then_Ready split: option.splits if_splits)

lemma finite_pos: "isFinite n \<Longrightarrow> \<not> jle n (Num 0) \<Longrightarrow> jlt (Num 0) n"
  by (cases n) auto

lemma check_order_request_ok:
  assumes "check_order fm fa e key sd t = Ready pc" shows "request_ok (pc_payload pc)"
proof -
  obtain s n d where "isFinite n" "\<not> jle n (Num 0)" "ot_orderType t = ''limit'' \<longrightarrow> ot_limitPrice t \<noteq> []"
    "pc_payload pc = order_payload_of key sd s n t" by (rule check_order_Ready [OF assms]) simp
  then show ?thesis using finite_pos [of n] by (auto simp: request_ok_def order_payload_of_def some_text_def)
qed

text \<open>The part of the ticket that concerns requests, which most operations leave alone.\<close>

definition order_part :: "ticket \<Rightarrow> bool \<times> PlaceOrderRequest list \<times> nat \<times> pending_confirm option" where
  "order_part t = (ot_submitting t, ot_sent t, ot_answers t, ot_pending t)"

lemma order_part_upd [simp]:
  "order_part (t\<lparr>ot_symbol := x_ot_symbol\<rparr>) = order_part t" "order_part (t\<lparr>ot_orderType := x_ot_orderType\<rparr>) = order_part t"
  "order_part (t\<lparr>ot_sizeMode := x_ot_sizeMode\<rparr>) = order_part t" "order_part (t\<lparr>ot_explicit := x_ot_explicit\<rparr>) = order_part t"
  "order_part (t\<lparr>ot_size := x_ot_size\<rparr>) = order_part t" "order_part (t\<lparr>ot_lotSize := x_ot_lotSize\<rparr>) = order_part t"
  "order_part (t\<lparr>ot_pip := x_ot_pip\<rparr>) = order_part t" "order_part (t\<lparr>ot_currency := x_ot_currency\<rparr>) = order_part t"
  "order_part (t\<lparr>ot_useSlTp := x_ot_useSlTp\<rparr>) = order_part t" "order_part (t\<lparr>ot_stopLoss := x_ot_stopLoss\<rparr>) = order_part t"
  "order_part (t\<lparr>ot_takeProfit := x_ot_takeProfit\<rparr>) = order_part t" "order_part (t\<lparr>ot_stopLossAmount := x_ot_stopLossAmount\<rparr>) = order_part t"
  "order_part (t\<lparr>ot_takeProfitAmount := x_ot_takeProfitAmount\<rparr>) = order_part t" "order_part (t\<lparr>ot_limitPrice := x_ot_limitPrice\<rparr>) = order_part t"
  "order_part (t\<lparr>ot_seedKey := x_ot_seedKey\<rparr>) = order_part t" "order_part (t\<lparr>ot_previewSide := x_ot_previewSide\<rparr>) = order_part t"
  "order_part (t\<lparr>ot_pendingOrders := x_ot_pendingOrders\<rparr>) = order_part t" "order_part (t\<lparr>ot_registered := x_ot_registered\<rparr>) = order_part t"
  "order_part (t\<lparr>ot_refreshes := x_ot_refreshes\<rparr>) = order_part t" "order_part (t\<lparr>ot_toasts := x_ot_toasts\<rparr>) = order_part t"
  "order_part (say m t) = order_part t"
  by (simp_all add: order_part_def say_def)

lemma order_part_texts:
  "order_part (changeStopLoss e x t) = order_part t" "order_part (changeStopLossAmount e x t) = order_part t"
  "order_part (changeTakeProfit e x t) = order_part t" "order_part (changeTakeProfitAmount e x t) = order_part t"
  by (simp_all add: changeStopLoss_def changeStopLossAmount_def changeTakeProfit_def changeTakeProfitAmount_def)

lemma order_part_mode: "order_part (handleSizeModeChange e m t) = order_part t"
  unfolding handleSizeModeChange_def Let_def
  by (cases m; cases "ot_symbol t") (simp_all split: sum.split)

lemma order_part_currency: "order_part (handleCurrencyChange e c t) = order_part t"
  unfolding handleCurrencyChange_def Let_def by (cases "ot_symbol t") simp_all

lemma order_part_follow: "order_part (follow_symbol_mode e t) = order_part t" "order_part (follow_currency t) = order_part t"
  "order_part (handleMaxSize e t) = order_part t"
  unfolding follow_symbol_mode_def follow_currency_def handleMaxSize_def Let_def by (cases "ot_symbol t"; simp)+

lemma order_part_seed: "order_part (auto_seed e t) = order_part t"
  unfolding auto_seed_def Let_def
  by (cases "ot_symbol t"; cases "getDefaultSizeForMinMargin e t"; cases "ot_sizeMode t")
    (simp_all split: option.split sum.split)

lemma order_part_message: "order_part (on_order_message ty p t) = order_part t"
proof -
  have s: "order_part (settle_pending i st r t) = order_part t" for i st r and t :: ticket
    by (simp add: settle_pending_def Let_def)
  have "order_part (case v of Some (JStr i) \<Rightarrow> settle_pending i st r t | _ \<Rightarrow> t) = order_part t" for v st r and t :: ticket
    by (simp add: s split: option.split json.split)
  moreover have "order_part (ask_refresh b t) = order_part t" for b by (simp add: ask_refresh_def)
  ultimately show ?thesis unfolding on_order_message_def Let_def by simp
qed

lemmas order_part_other = order_part_texts order_part_mode order_part_currency order_part_follow order_part_seed order_part_message

lemma reset_after_part: "reset_after e t0 t = Some t' \<Longrightarrow> order_part t' = order_part t"
  by (auto simp: reset_after_def order_part_def Let_def split: if_splits size_mode.splits sum.splits)

definition ticket_inv :: "ticket \<Rightarrow> bool" where
  "ticket_inv t = (length (ot_sent t) = ot_answers t + of_bool (ot_submitting t) \<and> list_all request_ok (ot_sent t) \<and>
     (\<forall>pc. ot_pending t = Some pc \<longrightarrow> request_ok (pc_payload pc)))"

lemma ticket_inv_cong: "order_part t' = order_part t \<Longrightarrow> ticket_inv t \<Longrightarrow> ticket_inv t'"
  by (simp add: ticket_inv_def order_part_def)

lemma ticket_inv_press: "ticket_inv t \<Longrightarrow> \<not> ot_submitting t \<Longrightarrow> ticket_inv (handleBuySell fm fa e key sd t)"
proof -
  assume t: "ticket_inv t" "\<not> ot_submitting t"
  have "ticket_inv (handlePlaceOrder fm fa e key sd t)"
    using t check_order_request_ok
    by (auto simp: handlePlaceOrder_def ticket_inv_def send_order_def split: attempt.split)
  then show ?thesis by (auto simp: handleBuySell_def intro: ticket_inv_cong [rotated])
qed

lemma ticket_inv_answered:
  assumes "ticket_inv t" "ot_submitting t" shows "ticket_inv (order_answered e t0 c pc r res t)"
proof -
  define t1 where "t1 = t\<lparr>ot_submitting := False, ot_answers := Suc (ot_answers t)\<rparr>"
  have t1: "ticket_inv t1" using assms by (simp add: t1_def ticket_inv_def)
  have drop: "ticket_inv u \<Longrightarrow> ticket_inv (u\<lparr>ot_confirmOpen := False, ot_pending := None\<rparr>)" for u
    by (simp add: ticket_inv_def)
  have keep: "order_part u = order_part t1 \<Longrightarrow> ticket_inv u" for u using t1 by (rule ticket_inv_cong [rotated])
  show ?thesis unfolding order_answered_def Let_def t1_def [symmetric]
    by (auto intro!: keep drop dest: reset_after_part split: option.split)
qed

lemma ticket_inv_step:
  assumes "ticket_inv t" "ticket_enabled a t" shows "ticket_inv (ticket_do F a t)"
proof -
  obtain fm fa where F: "F = (fm, fa)" by force
  have other: "order_part (ticket_do F a t) = order_part t \<Longrightarrow> ?thesis" using assms(1) by (rule ticket_inv_cong [rotated])
  show ?thesis
  proof (cases a)
    case (PressOrder e key sd)
    then show ?thesis using assms by (simp add: F ticket_inv_press)
  next
    case PressConfirm
    then show ?thesis using assms
      by (auto simp: ticket_inv_def handleConfirmPendingOrder_def send_order_def split: option.split)
  next
    case CloseConfirm
    then show ?thesis using assms by (simp add: ticket_inv_def close_confirm_def)
  next
    case (Answered e t0 c pc r res)
    then show ?thesis using assms by (simp add: ticket_inv_answered)
  next
    case (FailedWith m)
    then show ?thesis using assms by (simp add: ticket_inv_def order_failed_def)
  qed (rule other, simp add: order_part_other)+
qed

interpretation tki: invariant_system ticket_enabled "ticket_do F" ticket_inv "\<lambda>t. ot_sent t = [] \<and> ot_answers t = 0 \<and> \<not> ot_submitting t \<and> ot_pending t = None" for F
  by unfold_locales (rule ticket_inv_step, assumption+, simp add: ticket_inv_def)

section \<open>Theorems\<close>

text \<open>C2. Orders go out one at a time and well formed: from an empty ticket on, whatever the user does and whatever the
  server answers, at most one request is unanswered, namely while the buttons are disabled, and every
  request has a positive finite size, a limit price if it is a limit order, and a slippage only if it
  is a market order.\<close>

theorem orders_one_at_a_time:
  assumes "reach (\<lambda>t. ot_sent t = [] \<and> ot_answers t = 0 \<and> \<not> ot_submitting t \<and> ot_pending t = None) ticket_enabled (ticket_do F) t"
  shows "length (ot_sent t) = ot_answers t + (if ot_submitting t then 1 else 0) \<and>
    (\<forall>p \<in> set (ot_sent t). (\<exists>x. isFinite x \<and> jlt (Num 0) x \<and> po_size p = toString x) \<and>
       (po_order_type p = LIMIT \<longrightarrow> truthy (po_limit_price p)) \<and>
       (po_slippage_bps p \<noteq> None \<longrightarrow> po_order_type p = MARKET))"
  using tki.reach_inv [OF assms] by (simp add: ticket_inv_def list_all_iff request_ok_def)


text \<open>C4. An order given in lots is for a number of lots within the symbol's limits, whatever was typed.\<close>

theorem lots_order_in_limits:
  assumes "check_order fm fa e key sd t = Ready pc" "ot_sizeMode t = Lots" "ot_symbol t = Some s"
    and "symbol_ok (getSymbolForCalculations e s)"
  shows "\<exists>l. pc_baseSize pc = calculateUnitsFromLots l (getSymbolForCalculations e s) \<and>
    jle (nullish (lotMin (getSymbolForCalculations e s)) (to_num (1 / 100))) l \<and>
    jle l (nullish (lotMax (getSymbolForCalculations e s)) (Num 100))"
proof -
  let ?a = "getSymbolForCalculations e s" and ?n = "parseFloat (ot_lotSize t)"
  obtain s' n d where r: "ot_symbol t = Some s'" "order_size fa e s' t = Ready (n, d)" "pc_baseSize pc = n"
    by (rule check_order_Ready [OF assms(1)]) simp
  have "order_size fa e s t = Ready (pc_baseSize pc, d)" using r assms(3) by simp
  then have n: "\<not> not_positive ?n" "pc_baseSize pc = calculateUnitsFromLots (normalizeLotSize ?n ?a) ?a"
    by (auto simp: order_size_def assms(2) and_then_Ready Let_def split: if_splits)
  then have "?n \<noteq> NaN" "\<not> jle ?n (Num 0)" by (auto simp: not_positive_def num_truthy_def)
  from normalize_in_limits [OF assms(4) this] n(2) show ?thesis
    by (intro exI [of _ "normalizeLotSize ?n ?a"]) (simp add: lot_lo_def lot_hi_def)
qed

text \<open>What the panel shows of a size is always a number: whatever is typed, whatever the symbol and the prices are,
  lots, units, pip position and pip value are finite, and they are zero without a symbol or a price.\<close>

theorem sizes_finite:
  "isFinite (c_lots (sizeCalculations e t)) \<and> isFinite (c_units (sizeCalculations e t)) \<and> isFinite (c_pip (sizeCalculations e t)) \<and>
   isFinite (c_pipValuePerLot (sizeCalculations e t)) \<and>
   (ot_symbol t = None \<or> jle (bid_num e) (Num 0) \<longrightarrow> c_units (sizeCalculations e t) = Num 0)"
  by (auto simp: sizeCalculations_def Let_def split: option.split prod.split)

text \<open>The default size is for the minimum margin: after its five rounds the notional is the minimum times a leverage
  that is the default one or within the user's limits.\<close>

theorem min_notional_target:
  assumes "lo \<noteq> NaN" "hi \<noteq> NaN" "\<forall>t \<in> set ts. max_leverage t \<noteq> NaN" "en_tiers e = Some ts" "en_min e = Some lo" "en_max e = Some hi"
  shows "\<exists>l. min_notional e 5 (jmul MIN_EST_MARGIN_DOLLARS (Num 50)) = jmul MIN_EST_MARGIN_DOLLARS l \<and>
    (l = Num 50 \<or> (jle lo l \<and> jle l hi))"
proof -
  have "\<exists>l. min_notional e k (jmul MIN_EST_MARGIN_DOLLARS l0) = jmul MIN_EST_MARGIN_DOLLARS l \<and> (l = Num 50 \<or> (jle lo l \<and> jle l hi))"
    if "l0 = Num 50 \<or> (jle lo l0 \<and> jle l0 hi)" for k l0
    using that
  proof (induction k arbitrary: l0)
    case (Suc k)
    let ?l = "getEffectiveLeverage (jmul MIN_EST_MARGIN_DOLLARS l0) (Some ts) (Some lo) (Some hi) (Num 50)"
    have "?l = Num 50 \<or> (jle lo ?l \<and> jle ?l hi)" by (rule getEffectiveLeverage_bounds [OF assms(1-3)])
    then show ?case using Suc.IH [of ?l] Suc.prems by (auto simp: assms(4-6) Let_def)
  qed auto
  then show ?thesis by simp
qed

section \<open>Observations\<close>

text \<open>
  The margin is checked for the side that was previewed, not for the one that is placed: an order is
  accepted for both sides or for neither, although they execute at different prices.
\<close>

lemma side_not_checked: "(\<exists>pc. check_order fm fa e key BUY t = Ready pc) = (\<exists>pc. check_order fm fa e key SELL t = Ready pc)"
proof -
  have "\<exists>pc. check_order fm fa e key sd' t = Ready pc" if a: "check_order fm fa e key sd t = Ready pc" for sd sd' pc
    by (rule check_order_Ready [OF a]) (simp add: check_order_def)
  then show ?thesis by blast
qed

text \<open>The MAX button is announced as one percent of the balance, and does not look at the account.\<close>

lemma max_size_fixed: "handleMaxSize (e\<lparr>en_freeMargin := x\<rparr>) t = handleMaxSize e t"
proof -
  have "bid_num (e\<lparr>en_freeMargin := x\<rparr>) = bid_num e" by (simp add: bid_num_def)
  then show ?thesis by (simp only: handleMaxSize_def)
qed

text \<open>
  For a currency pair whose contract size cannot be read the order is sized with 100000 units a lot,
  and the dialog that asks for confirmation counts its lots with one.
\<close>

lemma dialog_lots_differ:
  assumes "is_fx a" "parseFloat (contractSize a) = NaN"
  shows "dialog_lots a n = Some (jdiv n (Num 1)) \<and> contract_size a = Num 100000"
  using assms by (simp add: dialog_lots_def contract_size_def num_or_def num_truthy_def)

section \<open>Concrete tickets\<close>

definition eurusd :: MockSymbol where
  "eurusd = (sample_ms ''EURUSD'' (Some FX))\<lparr>ms_id := sym_id Position_Calc.sample_symbol\<rparr>"

definition sample_env :: ticket_env where
  "sample_env = \<lparr>en_admins = [Position_Calc.sample_symbol], en_bid = Some ''2'', en_ask = Some ''4'', en_tiers = None, en_min = None,
     en_max = None, en_confirm = Some False, en_freeMargin = Some (Num 100), en_requiredMargin = Some ''20'', en_feeUsd = None\<rparr>"

definition sample_ticket :: ticket where
  "sample_ticket = \<lparr>ot_symbol = Some eurusd, ot_orderType = ''market'', ot_sizeMode = Lots, ot_explicit = False, ot_size = [],
     ot_lotSize = ''3'', ot_pip = [], ot_pipCurrency = ''USD'', ot_currency = [], ot_useSlTp = False, ot_stopLoss = [],
     ot_takeProfit = [], ot_stopLossAmount = [], ot_takeProfitAmount = [], ot_slTpSide = LONG, ot_limitPrice = [], ot_seedKey = [],
     ot_previewSide = BUY, ot_slippageBps = Num 50, ot_slippageOverridden = False, ot_submitting = False, ot_confirmOpen = False,
     ot_pending = None, ot_pendingOrders = [], ot_sent = [], ot_answers = 0, ot_registered = [], ot_refreshes = 0, ot_toasts = []\<rparr>"

lemma sample_calc: "getSymbolForCalculations sample_env eurusd = Position_Calc.sample_symbol"
  by (simp add: getSymbolForCalculations_def adminSymbol_def sample_env_def eurusd_def)

lemma three_lots: "normalizeLotSize (Num 3) Position_Calc.sample_symbol = Num 3"
  using normalize_pos [OF sample_symbol_ok, of "Num 3"]
  by (simp add: sample_limits sample_multiplier round_scaled_def num_simps jmax_def jmin_def)

lemma sample_size: "\<exists>d. order_size fa sample_env eurusd sample_ticket = Ready (Num 300000, d)"
proof -
  have "parseFloat ''3'' = Num 3" by (simp add: parse_float_simps num_simps)
  then show ?thesis
    by (simp add: order_size_def sample_calc sample_ticket_def not_positive_def num_truthy_def three_lots and_then_Ready text_js_def
        formatLotSize_def formatUnits_def toFixed_def calculateUnitsFromLots_def sample_contract num_simps Let_def)
      (simp add: Position_Calc.sample_symbol_def num_or_def num_truthy_def)
qed

lemma sample_margin_20: "estMarginDollars sample_env sample_ticket = Some (Num 20)"
  by (simp add: estMarginDollars_def parsedServerMarginUsd_def sample_env_def parse_float_simps num_simps)

lemma sample_check: "\<exists>pc. check_order fm fa sample_env key sd sample_ticket = Ready pc \<and> pc_baseSize pc = Num 300000"
proof -
  obtain d where d: "order_size fa sample_env eurusd sample_ticket = Ready (Num 300000, d)" using sample_size by blast
  have "checked_margin fm sample_env sample_ticket = None"
    by (simp add: checked_margin_def insufficientFreeMargin_def belowMinRequiredMargin_def sample_margin_20)
      (simp add: sample_env_def free_margin_of_def placementFeeFromEstimateUsd_def num_simps MIN_EST_MARGIN_DOLLARS_def)
  moreover have "ot_symbol sample_ticket = Some eurusd" "ot_orderType sample_ticket = ''market''" by (simp_all add: sample_ticket_def)
  ultimately show ?thesis by (simp add: check_order_def d)
qed

definition plain_amount :: "jsnum \<Rightarrow> string \<Rightarrow> string" where
  "plain_amount n c = toString n @ '' '' @ c"


lemma lots_order_in_limits_witness:
  "\<exists>pc l. check_order toString plain_amount sample_env ''k'' BUY sample_ticket = Ready pc \<and> jle l (Num 50) \<and>
     pc_baseSize pc = calculateUnitsFromLots l Position_Calc.sample_symbol"
proof -
  obtain pc where c: "check_order toString plain_amount sample_env ''k'' BUY sample_ticket = Ready pc" using sample_check by blast
  have "ot_sizeMode sample_ticket = Lots" "ot_symbol sample_ticket = Some eurusd" by (simp_all add: sample_ticket_def)
  from lots_order_in_limits [OF c this] have "\<exists>l. pc_baseSize pc = calculateUnitsFromLots l Position_Calc.sample_symbol \<and>
      jle l (nullish (lotMax Position_Calc.sample_symbol) (Num 100))"
    unfolding sample_calc using sample_symbol_ok by blast
  moreover have "nullish (lotMax Position_Calc.sample_symbol) (Num 100) = Num 50"
    using sample_limits(2) by (simp only: lot_hi_def)
  ultimately show ?thesis using c by auto
qed


lemma sizes_finite_witness: "c_units (sizeCalculations sample_env (sample_ticket\<lparr>ot_symbol := None\<rparr>)) = Num 0"
  using sizes_finite [of sample_env "sample_ticket\<lparr>ot_symbol := None\<rparr>"] by simp

lemma orders_one_at_a_time_witness:
  "\<exists>t. run ticket_enabled (ticket_do (toString, plain_amount)) [PressOrder sample_env ''k'' BUY] sample_ticket = Some t \<and> length (ot_sent t) = 1"
proof -
  let ?t = "handleBuySell toString plain_amount sample_env ''k'' BUY sample_ticket"
  obtain pc where "check_order toString plain_amount sample_env ''k'' BUY sample_ticket = Ready pc" using sample_check by blast
  then have t: "ot_submitting ?t" "ot_answers ?t = 0"
    by (simp_all add: handleBuySell_def handlePlaceOrder_def send_order_def) (simp_all add: sample_env_def sample_ticket_def)
  have r: "run ticket_enabled (ticket_do (toString, plain_amount)) [PressOrder sample_env ''k'' BUY] sample_ticket = Some ?t"
    by (simp add: sample_ticket_def)
  have "reach (\<lambda>t. ot_sent t = [] \<and> ot_answers t = 0 \<and> \<not> ot_submitting t \<and> ot_pending t = None) ticket_enabled (ticket_do (toString, plain_amount)) ?t"
    by (rule run_start [OF _ r]) (simp add: sample_ticket_def)
  from orders_one_at_a_time [OF this] r t show ?thesis by auto
qed

end
