(* ===== verification/Chart_Data.thy ===== *)
theory Chart_Data
  imports Price_Stream Js_Json Js_Sort
begin

text \<open>
  The data of the terminal's chart: which of the two history services a symbol belongs to and the
  request that is sent (\<open>binanceKlines.ts\<close>), the bars read from their answers, the choices of the
  toolbar (\<open>chartOptions.ts\<close>, \<open>indicatorParams.ts\<close>), the dialog that edits an indicator's parameters,
  and the toolbar's state with its copy in \<open>localStorage\<close> (\<open>chartToolbarPersistence.ts\<close>,
  \<open>CenterWorkspace.tsx\<close>). \<open>JSON.parse\<close> and \<open>JSON.stringify\<close> are parameters of the copy. Names that
  every object inherits (\<open>constructor\<close> and the like) are not looked up as indicators here.
\<close>

section \<open>Which service has the symbol\<close>

definition isFiat3 :: "string \<Rightarrow> bool" where
  "isFiat3 code = (code \<in> set
    [''USD'', ''EUR'', ''GBP'', ''JPY'', ''AUD'', ''NZD'', ''CAD'', ''CHF'', ''SEK'', ''NOK'', ''DKK'',
     ''MXN'', ''ZAR'', ''TRY'', ''PLN'', ''HUF'', ''CZK'', ''ILS'', ''CNY'', ''CNH'', ''HKD'', ''SGD'',
     ''RON'', ''RUB'', ''INR'', ''IDR'', ''THB'', ''PHP'', ''KRW'', ''SAR'', ''AED'', ''COP'', ''BRL'',
     ''ARS'', ''CLP'', ''PEN'', ''BGN'', ''HRK'', ''ISK'', ''MAD'', ''TWD'', ''MYR'', ''VND'', ''BHD'',
     ''JOD'', ''KWD'', ''OMR'', ''QAR'', ''EGP'', ''NGN'', ''GHS'', ''KES'', ''UGX'', ''TZS'', ''ZMW''])"

definition is_upper :: "char \<Rightarrow> bool" where
  "is_upper c = (let n = of_char c :: nat in 65 \<le> n \<and> n \<le> 90)"

definition isLikelyClassicFxOrMetal6 :: "string \<Rightarrow> bool" where
  "isLikelyClassicFxOrMetal6 key =
     (if length key \<noteq> 6 \<or> \<not> list_all is_upper key then False
      else let a = take 3 key; b = drop 3 key in
        if isFiat3 a \<and> isFiat3 b then True
        else a \<in> set [''XAU'', ''XAG'', ''XPT'', ''XPD''] \<and> isFiat3 b)"

definition stableQuotes :: "string list" where
  "stableQuotes = [''USDT'', ''USDC'', ''BUSD'', ''FDUSD'', ''TUSD'', ''USDD'', ''DAI'']"

definition cryptoQuotes :: "string list" where
  "cryptoQuotes = [''EUR'', ''TRY'', ''BRL'', ''BTC'', ''ETH'', ''BNB'', ''AUD'', ''GBP'', ''RUB'', ''ZAR'', ''MXN'', ''ARS'', ''PLN'',
     ''RON'', ''UAH'', ''NGN'']"

definition quoted_in :: "string list \<Rightarrow> string \<Rightarrow> bool" where
  "quoted_in qs key = list_ex (\<lambda>q. length q < length key \<and> endsWith key q) qs"

definition isBinanceSpotStyleSymbol :: "string \<Rightarrow> bool" where
  "isBinanceSpotStyleSymbol key =
     (if isLikelyClassicFxOrMetal6 key then False
      else if quoted_in stableQuotes key then True
      else quoted_in cryptoQuotes key)"

definition normalizeChartSymbolKey :: "string \<Rightarrow> string" where
  "normalizeChartSymbolKey code = toUpperCase (remove_char (CHR ''-'') code)"

record chart_env =
  ce_web :: web_env
  ce_parse :: url_parser
  VITE_MMDPS_SYMBOLS :: "string option"

definition listed_symbols :: "string \<Rightarrow> string set" where
  "listed_symbols t = set (filter (\<lambda>s. s \<noteq> []) (map (\<lambda>part. toUpperCase (trim part)) (split_char (CHR '','') t)))"

definition isMmdpsChartSymbol :: "chart_env \<Rightarrow> string \<Rightarrow> bool" where
  "isMmdpsChartSymbol ce feedSymbol =
     (let key = normalizeChartSymbolKey feedSymbol;
          auto = (if getDataProviderPricesBaseUrl (ce_web ce) (ce_parse ce) = [] then False
                  else \<not> isBinanceSpotStyleSymbol key)
      in case VITE_MMDPS_SYMBOLS ce of
           None \<Rightarrow> auto
         | Some t \<Rightarrow>
             if t = [] then False
             else if trim t \<noteq> [] then key \<in> listed_symbols t
             else auto)"

definition toBinanceSymbol :: "string \<Rightarrow> string option \<Rightarrow> string" where
  "toBinanceSymbol code qc =
     (let base = normalizeChartSymbolKey code in
      if base = [] then ''BTCUSDT''
      else if endsWith base ''USD'' \<and> \<not> endsWith base ''USDT'' then drop_last 3 base @ ''USDT''
      else if qc = Some ''USD'' then toUpperCase (hd (split_char (CHR ''-'') code)) @ ''USDT''
      else base)"

definition toChartFeedSymbol :: "chart_env \<Rightarrow> string \<Rightarrow> string option \<Rightarrow> string" where
  "toChartFeedSymbol ce code qc =
     (let key = normalizeChartSymbolKey code in
      if isMmdpsChartSymbol ce key then key else toBinanceSymbol code qc)"

definition toBinanceInterval :: "jsnum \<Rightarrow> string \<Rightarrow> string" where
  "toBinanceInterval sp type =
     (if type = ''minute'' then toString sp @ ''m''
      else if type = ''hour'' then toString sp @ ''h''
      else if type = ''day'' then toString sp @ ''d''
      else if type = ''week'' then toString sp @ ''w''
      else if type = ''month'' then toString sp @ ''M''
      else if type = ''second'' then toString sp @ ''s''
      else ''1d'')"

section \<open>The request\<close>

definition BARS_PER_CHUNK :: jsnum where "BARS_PER_CHUNK = Num 500"

definition BINANCE_KLINES :: string where "BINANCE_KLINES = ''https://api.binance.com/api/v3/klines''"

text \<open>A request with its query pairs, an answer without a request, or an error.\<close>

datatype chart_request = ChartFetch string "(string \<times> string) list" | ChartEmpty | ChartThrows string

definition window :: "string \<Rightarrow> jsnum option \<Rightarrow> (string \<times> string) list" where
  "window k v = (case v of Some t \<Rightarrow> [(k, toString t)] | None \<Rightarrow> [])"

definition fetchBinanceKlines :: "string \<Rightarrow> string \<Rightarrow> jsnum \<Rightarrow> jsnum option \<Rightarrow> jsnum option \<Rightarrow> chart_request" where
  "fetchBinanceKlines binanceSymbol interval limit endTime startTime =
     ChartFetch BINANCE_KLINES
       ([(''symbol'', binanceSymbol), (''interval'', interval), (''limit'', toString (jmin limit (Num 1000)))]
        @ window ''endTime'' endTime @ window ''startTime'' startTime)"

definition fetchMmdpsHistoryKlines ::
  "chart_env \<Rightarrow> string \<Rightarrow> string \<Rightarrow> jsnum \<Rightarrow> jsnum option \<Rightarrow> jsnum option \<Rightarrow> chart_request" where
  "fetchMmdpsHistoryKlines ce symbol timeframe limit endTime startTime =
     (let base = getDataProviderPricesBaseUrl (ce_web ce) (ce_parse ce) in
      if base = [] then ChartThrows ''MMDPS chart history requires VITE_DATA_PROVIDER_HTTP_URL (or VITE_DATA_PROVIDER_WS_URL for port inference)''
      else let count = jmin (jmax (Num 1) limit) (Num 500) in
        if endTime \<noteq> None \<or> startTime \<noteq> None then ChartEmpty
        else ChartFetch (base @ ''/feed/history'')
          [(''symbol'', normalizeChartSymbolKey symbol), (''timeframe'', timeframe), (''count'', toString count)])"

definition fetchChartKlines ::
  "chart_env \<Rightarrow> string \<Rightarrow> string \<Rightarrow> jsnum \<Rightarrow> jsnum option \<Rightarrow> jsnum option \<Rightarrow> chart_request" where
  "fetchChartKlines ce feedSymbol interval limit endTime startTime =
     (if isMmdpsChartSymbol ce feedSymbol then fetchMmdpsHistoryKlines ce feedSymbol interval limit endTime startTime
      else fetchBinanceKlines feedSymbol interval limit endTime startTime)"

section \<open>The bars of an answer\<close>

record KLineBar =
  kb_timestamp :: jsnum
  kb_open :: jsnum
  kb_high :: jsnum
  kb_low :: jsnum
  kb_close :: jsnum
  kb_volume :: jsnum

text \<open>Rows of the exchange: the time as a number, the prices and the volume as texts.\<close>

definition binance_bar :: "jsnum \<times> string \<times> string \<times> string \<times> string \<times> string \<Rightarrow> KLineBar" where
  "binance_bar r = (case r of (t, a, h, l, c, v) \<Rightarrow>
     \<lparr>kb_timestamp = t, kb_open = parseFloat a, kb_high = parseFloat h, kb_low = parseFloat l, kb_close = parseFloat c,
      kb_volume = parseFloat v\<rparr>)"

definition hist_num :: "json option \<Rightarrow> jsnum" where
  "hist_num x = (case x of
     Some (JNum n) \<Rightarrow> if isFinite n then n else NaN
   | Some (JStr s) \<Rightarrow> (let n = parseFloat s in if isFinite n then n else NaN)
   | _ \<Rightarrow> NaN)"

text \<open>Times below \<open>1e12\<close> are taken for seconds.\<close>

definition to_ms :: "jsnum \<Rightarrow> jsnum" where
  "to_ms ts = (if jlt ts (Num 1000000000000) then jmul ts (Num 1000) else ts)"

definition make_bar :: "jsnum \<Rightarrow> jsnum \<Rightarrow> jsnum \<Rightarrow> jsnum \<Rightarrow> jsnum \<Rightarrow> jsnum \<Rightarrow> KLineBar option" where
  "make_bar ts a h l c v =
     (if \<not> isFinite ts then None
      else if \<not> list_all isFinite [a, h, l, c] then None
      else Some \<lparr>kb_timestamp = to_ms ts, kb_open = a, kb_high = h, kb_low = l, kb_close = c,
        kb_volume = (if isFinite v then v else Num 0)\<rparr>)"

definition index0 :: "json \<Rightarrow> json option" where
  "index0 row = (case row of JArr (x # xs) \<Rightarrow> Some x | _ \<Rightarrow> json_field row ''0'')"

definition or_else :: "json option \<Rightarrow> json option \<Rightarrow> json option" where
  "or_else v w = (if present v then v else w)"

definition object_bar :: "json \<Rightarrow> KLineBar option" where
  "object_bar row =
     (let tRaw = or_else (first_field row [''timestamp'', ''time'', ''t'', ''open_time'', ''openTime'', ''ts'']) (index0 row)
      in make_bar (hist_num tRaw) (hist_num (first_field row [''open'', ''o''])) (hist_num (first_field row [''high'', ''h'']))
           (hist_num (first_field row [''low'', ''l''])) (hist_num (first_field row [''close'', ''c'']))
           (hist_num (or_else (first_field row [''volume'', ''v'']) (Some (JNum (Num 0))))))"

definition history_row :: "json \<Rightarrow> KLineBar option" where
  "history_row row =
     (case row of
        JArr (t # a # h # l # c # v # rest) \<Rightarrow>
          make_bar (hist_num (Some t)) (hist_num (Some a)) (hist_num (Some h)) (hist_num (Some l)) (hist_num (Some c)) (hist_num (Some v))
      | _ \<Rightarrow> if is_object row then object_bar row else None)"

definition history_rows :: "json \<Rightarrow> json list" where
  "history_rows j =
     (case j of
        JArr rows \<Rightarrow> rows
      | JObj fs \<Rightarrow> (case first_field j [''bars'', ''data'', ''candles'', ''result''] of Some (JArr rows) \<Rightarrow> rows | _ \<Rightarrow> [])
      | _ \<Rightarrow> [])"

definition by_timestamp :: "KLineBar js_comparator" where
  "by_timestamp a b = jsub (kb_timestamp a) (kb_timestamp b)"

definition parseMmdpsHistoryPayload :: "json \<Rightarrow> KLineBar list" where
  "parseMmdpsHistoryPayload j = js_sort by_timestamp (List.map_filter history_row (history_rows j))"

section \<open>The toolbar's choices\<close>

definition TIMEFRAMES :: "string list" where
  "TIMEFRAMES = [''1m'', ''5m'', ''15m'', ''1H'', ''4H'', ''1D'', ''1W'']"

definition timeframeToPeriod :: "string \<Rightarrow> jsnum \<times> string" where
  "timeframeToPeriod tf =
     (case map_of [(''1m'', (Num 1, ''minute'')), (''5m'', (Num 5, ''minute'')), (''15m'', (Num 15, ''minute'')),
        (''1H'', (Num 1, ''hour'')), (''4H'', (Num 4, ''hour'')), (''1D'', (Num 1, ''day'')), (''1W'', (Num 1, ''week''))] tf of
      Some p \<Rightarrow> p | None \<Rightarrow> (Num 1, ''day''))"

definition chartTypeToCandleType :: "string \<Rightarrow> string" where
  "chartTypeToCandleType type =
     (if type = ''line'' then ''candle_stroke'' else if type = ''area'' then ''area'' else ''candle_solid'')"

record ChartSettings =
  cs_grid :: bool
  cs_crosshair :: bool
  tooltipShowRule :: string
  candleUpColor :: string
  candleDownColor :: string

definition DEFAULT_CHART_SETTINGS :: ChartSettings where
  "DEFAULT_CHART_SETTINGS = \<lparr>cs_grid = True, cs_crosshair = True, tooltipShowRule = ''follow_cross'',
     candleUpColor = ''#22c55e'', candleDownColor = ''#ef4444''\<rparr>"

section \<open>Indicators and their parameters\<close>

record IndicatorParamSchema =
  paramLabels :: "string list"
  defaults :: "jsnum list"

definition INDICATOR_PARAM_SCHEMAS :: "(string \<times> IndicatorParamSchema) list" where
  "INDICATOR_PARAM_SCHEMAS = [
     (''MA'', \<lparr>paramLabels = [''Period 1'', ''Period 2'', ''Period 3'', ''Period 4''], defaults = [Num 5, Num 10, Num 30, Num 60]\<rparr>),
     (''EMA'', \<lparr>paramLabels = [''Period 1'', ''Period 2'', ''Period 3''], defaults = [Num 6, Num 12, Num 20]\<rparr>),
     (''SMA'', \<lparr>paramLabels = [''Period 1'', ''Period 2'', ''Period 3''], defaults = [Num 6, Num 12, Num 20]\<rparr>),
     (''RSI'', \<lparr>paramLabels = [''Period 1'', ''Period 2'', ''Period 3''], defaults = [Num 6, Num 12, Num 24]\<rparr>),
     (''MACD'', \<lparr>paramLabels = [''Fast'', ''Slow'', ''Signal''], defaults = [Num 12, Num 26, Num 9]\<rparr>),
     (''BOLL'', \<lparr>paramLabels = [''Period'', ''Std Dev''], defaults = [Num 20, Num 2]\<rparr>),
     (''KDJ'', \<lparr>paramLabels = [''K'', ''D'', ''J''], defaults = [Num 9, Num 3, Num 3]\<rparr>),
     (''VOL'', \<lparr>paramLabels = [''MA1'', ''MA2'', ''MA3''], defaults = [Num 5, Num 10, Num 20]\<rparr>),
     (''CCI'', \<lparr>paramLabels = [''Period''], defaults = [Num 14]\<rparr>),
     (''DMI'', \<lparr>paramLabels = [''Period''], defaults = [Num 14]\<rparr>),
     (''OBV'', \<lparr>paramLabels = [], defaults = []\<rparr>),
     (''SAR'', \<lparr>paramLabels = [''Step'', ''Max''], defaults = [to_num (2 / 100), to_num (2 / 10)]\<rparr>),
     (''WR'', \<lparr>paramLabels = [''Period 1'', ''Period 2''], defaults = [Num 6, Num 10]\<rparr>),
     (''DMA'', \<lparr>paramLabels = [''Short'', ''Long'', ''Period''], defaults = [Num 10, Num 50, Num 10]\<rparr>),
     (''TRIX'', \<lparr>paramLabels = [''Period''], defaults = [Num 12]\<rparr>),
     (''CR'', \<lparr>paramLabels = [''Period''], defaults = [Num 26]\<rparr>),
     (''PSY'', \<lparr>paramLabels = [''Period''], defaults = [Num 12]\<rparr>),
     (''BRAR'', \<lparr>paramLabels = [''Period''], defaults = [Num 26]\<rparr>),
     (''EMV'', \<lparr>paramLabels = [''Period''], defaults = [Num 14]\<rparr>),
     (''ROC'', \<lparr>paramLabels = [''Period''], defaults = [Num 12]\<rparr>),
     (''MTM'', \<lparr>paramLabels = [''Period'', ''MA''], defaults = [Num 6, Num 6]\<rparr>),
     (''VRSI'', \<lparr>paramLabels = [''Period''], defaults = [Num 6]\<rparr>),
     (''BBI'', \<lparr>paramLabels = [''P1'', ''P2'', ''P3'', ''P4''], defaults = [Num 3, Num 6, Num 12, Num 24]\<rparr>),
     (''ATR'', \<lparr>paramLabels = [''Period''], defaults = [Num 14]\<rparr>),
     (''STOCHRSI'', \<lparr>paramLabels = [''RSI'', ''Stoch'', ''K'', ''D''], defaults = [Num 14, Num 14, Num 3, Num 3]\<rparr>)]"

definition getIndicatorParamSchema :: "string \<Rightarrow> IndicatorParamSchema" where
  "getIndicatorParamSchema name =
     (case map_of INDICATOR_PARAM_SCHEMAS name of
        Some s \<Rightarrow> s | None \<Rightarrow> \<lparr>paramLabels = [''Period''], defaults = [Num 14]\<rparr>)"

definition getDefaultIndicatorParams :: "string \<Rightarrow> jsnum list" where
  "getDefaultIndicatorParams name = defaults (getIndicatorParamSchema name)"

definition clampIndicatorParam :: "string \<Rightarrow> nat \<Rightarrow> jsnum \<Rightarrow> jsnum" where
  "clampIndicatorParam name paramIndex value =
     (let isDecimal = (name = ''SAR'' \<and> paramIndex \<le> 1);
          v = (if isDecimal then jmax (to_num (1 / 1000)) (jmin (Num 10) value)
               else jround (jmax (Num 1) (jmin (Num 999) value)))
      in if isDecimal then toNumber (toFixed_nat v 3) else v)"

record ChartIndicator =
  ci_name :: string
  ci_params :: "jsnum list"

text \<open>The edit dialog: the values it starts from, what a changed field does, what is saved.\<close>

definition dialog_defaults :: "string \<Rightarrow> jsnum list" where
  "dialog_defaults name = (let d = defaults (getIndicatorParamSchema name) in if d \<noteq> [] then d else [Num 14])"

definition padded_params :: "ChartIndicator \<Rightarrow> jsnum list" where
  "padded_params ind =
     (let ls = paramLabels (getIndicatorParamSchema (ci_name ind)); d = dialog_defaults (ci_name ind);
          len = max (max (length (ci_params ind)) (if ls = [] then 1 else length ls)) (length d)
      in map (\<lambda>i. if i < length (ci_params ind) then ci_params ind ! i else if i < length d then d ! i else Num 14) [0..<len])"

definition param_labels :: "ChartIndicator \<Rightarrow> string list" where
  "param_labels ind =
     (let ls = paramLabels (getIndicatorParamSchema (ci_name ind)) in
      if ls \<noteq> [] then ls
      else if ci_params ind \<noteq> [] then map (\<lambda>i. ''Param '' @ dec_digits (Suc i)) [0..<length (ci_params ind)]
      else [''Period''])"

definition updateParam :: "nat \<Rightarrow> jsnum \<Rightarrow> jsnum list \<Rightarrow> jsnum list" where
  "updateParam index value prev = (if index < length prev then prev[index := value] else prev @ [value])"

definition saved_params :: "ChartIndicator \<Rightarrow> jsnum list \<Rightarrow> jsnum list" where
  "saved_params ind params =
     (let ps = take (length (param_labels ind)) params;
          clamped = map (\<lambda>i. clampIndicatorParam (ci_name ind) i (ps ! i)) [0..<length ps]
      in if clamped \<noteq> [] then clamped else dialog_defaults (ci_name ind))"

section \<open>The toolbar\<close>

record PersistedChartToolbar =
  tb_chartType :: string
  tb_timeframe :: string
  tb_indicators :: "ChartIndicator list"
  tb_drawingTool :: "string option"
  tb_drawingMagnetMode :: string
  tb_chartSettings :: ChartSettings

definition onIndicatorAdd :: "string \<Rightarrow> ChartIndicator list \<Rightarrow> ChartIndicator list" where
  "onIndicatorAdd name prev =
     (if list_ex (\<lambda>i. ci_name i = name) prev then prev
      else prev @ [\<lparr>ci_name = name, ci_params = getDefaultIndicatorParams name\<rparr>])"

definition onIndicatorRemove :: "string \<Rightarrow> ChartIndicator list \<Rightarrow> ChartIndicator list" where
  "onIndicatorRemove name prev = filter (\<lambda>i. ci_name i \<noteq> name) prev"

definition onIndicatorParamsChange :: "string \<Rightarrow> jsnum list \<Rightarrow> ChartIndicator list \<Rightarrow> ChartIndicator list" where
  "onIndicatorParamsChange name params prev = map (\<lambda>i. if ci_name i = name then i\<lparr>ci_params := params\<rparr> else i) prev"

definition toolbar_start :: PersistedChartToolbar where
  "toolbar_start = \<lparr>tb_chartType = ''candles'', tb_timeframe = ''15m'', tb_indicators = [], tb_drawingTool = None,
     tb_drawingMagnetMode = ''normal'', tb_chartSettings = DEFAULT_CHART_SETTINGS\<rparr>"

section \<open>The toolbar in storage\<close>

definition TOOLBAR_KEY :: string where "TOOLBAR_KEY = ''terminal-chart-toolbar''"

definition VALID_CHART_TYPES :: "string list" where "VALID_CHART_TYPES = [''candles'', ''line'', ''area'']"

definition VALID_MAGNET_MODES :: "string list" where "VALID_MAGNET_MODES = [''normal'', ''weak_magnet'', ''strong_magnet'']"

definition VALID_TOOLTIP_RULES :: "string list" where "VALID_TOOLTIP_RULES = [''always'', ''follow_cross'', ''none'']"

text \<open>A text that is one of the listed ones, and the default otherwise.\<close>

definition one_of :: "string list \<Rightarrow> string \<Rightarrow> json option \<Rightarrow> string" where
  "one_of valid d v = (case v of Some (JStr s) \<Rightarrow> if s \<in> set valid then s else d | _ \<Rightarrow> d)"

fun number_of :: "json \<Rightarrow> jsnum option" where
  "number_of (JNum n) = Some n"
| "number_of _ = None"

definition isChartIndicator :: "json \<Rightarrow> (string \<times> jsnum list) option" where
  "isChartIndicator v =
     (if \<not> is_object v then None
      else case (json_field v ''name'', json_field v ''params'') of
        (Some (JStr n), Some (JArr ps)) \<Rightarrow>
          if list_all (\<lambda>p. number_of p \<noteq> None) ps then Some (n, List.map_filter number_of ps) else None
      | _ \<Rightarrow> None)"

definition isChartSettings :: "json \<Rightarrow> ChartSettings option" where
  "isChartSettings v =
     (if \<not> is_object v then None
      else case (json_field v ''grid'', json_field v ''crosshair'', json_field v ''tooltipShowRule'',
                 json_field v ''candleUpColor'', json_field v ''candleDownColor'') of
        (Some (JBool g), Some (JBool x), Some (JStr r), Some (JStr u), Some (JStr d)) \<Rightarrow>
          if r \<in> set VALID_TOOLTIP_RULES
          then Some \<lparr>cs_grid = g, cs_crosshair = x, tooltipShowRule = r, candleUpColor = u, candleDownColor = d\<rparr> else None
      | _ \<Rightarrow> None)"

definition stored_indicator :: "string \<times> jsnum list \<Rightarrow> ChartIndicator" where
  "stored_indicator i = (case i of (n, ps) \<Rightarrow>
     \<lparr>ci_name = n, ci_params = (if ps \<noteq> [] then ps else getDefaultIndicatorParams n)\<rparr>)"

definition read_toolbar :: "json \<Rightarrow> PersistedChartToolbar" where
  "read_toolbar data =
     \<lparr>tb_chartType = one_of VALID_CHART_TYPES ''candles'' (json_field data ''chartType''),
      tb_timeframe = one_of TIMEFRAMES ''15m'' (json_field data ''timeframe''),
      tb_indicators = (case json_field data ''indicators'' of
          Some (JArr xs) \<Rightarrow> map stored_indicator (List.map_filter isChartIndicator xs) | _ \<Rightarrow> []),
      tb_drawingTool = (case json_field data ''drawingTool'' of
          Some (JStr s) \<Rightarrow> if s \<noteq> [] then Some s else None | _ \<Rightarrow> None),
      tb_drawingMagnetMode = one_of VALID_MAGNET_MODES ''normal'' (json_field data ''drawingMagnetMode''),
      tb_chartSettings = (case json_field data ''chartSettings'' of
          Some v \<Rightarrow> (case isChartSettings v of Some s \<Rightarrow> s | None \<Rightarrow> DEFAULT_CHART_SETTINGS)
        | None \<Rightarrow> DEFAULT_CHART_SETTINGS)\<rparr>"

definition loadChartToolbarState :: "(string \<Rightarrow> json option) \<Rightarrow> storage \<Rightarrow> PersistedChartToolbar option" where
  "loadChartToolbarState parse st =
     (case getItem st TOOLBAR_KEY of
        None \<Rightarrow> None
      | Some raw \<Rightarrow>
          if raw = [] then None
          else case parse raw of
            None \<Rightarrow> None
          | Some data \<Rightarrow> if is_object data then Some (read_toolbar data) else None)"

definition settings_json :: "ChartSettings \<Rightarrow> json" where
  "settings_json s = JObj [(''grid'', JBool (cs_grid s)), (''crosshair'', JBool (cs_crosshair s)),
     (''tooltipShowRule'', JStr (tooltipShowRule s)), (''candleUpColor'', JStr (candleUpColor s)),
     (''candleDownColor'', JStr (candleDownColor s))]"

definition indicator_json :: "ChartIndicator \<Rightarrow> json" where
  "indicator_json i = JObj [(''name'', JStr (ci_name i)), (''params'', JArr (map JNum (ci_params i)))]"

definition toolbar_json :: "PersistedChartToolbar \<Rightarrow> json" where
  "toolbar_json t = JObj [(''chartType'', JStr (tb_chartType t)), (''timeframe'', JStr (tb_timeframe t)),
     (''indicators'', JArr (map indicator_json (tb_indicators t))),
     (''drawingTool'', case tb_drawingTool t of Some s \<Rightarrow> JStr s | None \<Rightarrow> JNull),
     (''drawingMagnetMode'', JStr (tb_drawingMagnetMode t)), (''chartSettings'', settings_json (tb_chartSettings t))]"

definition saveChartToolbarState :: "(json \<Rightarrow> string) \<Rightarrow> PersistedChartToolbar \<Rightarrow> storage \<Rightarrow> storage" where
  "saveChartToolbarState stringify state st = setItem TOOLBAR_KEY (stringify (toolbar_json state)) st"


section \<open>Routing\<close>

lemma up_char_dash [simp]: "up_char c = CHR ''-'' \<longleftrightarrow> c = CHR ''-''" "CHR ''-'' = up_char c \<longleftrightarrow> c = CHR ''-''"
proof -
  have "char_of (n - 32) \<noteq> CHR ''-''" if "97 \<le> n" "n \<le> 122" for n :: nat
  proof
    assume "char_of (n - 32) = CHR ''-''"
    then have "of_char (char_of (n - 32)) = (of_char (CHR ''-'') :: nat)" by (rule arg_cong)
    then show False using that by simp
  qed
  then show "up_char c = CHR ''-'' \<longleftrightarrow> c = CHR ''-''" by (auto simp: up_char_def Let_def)
  then show "CHR ''-'' = up_char c \<longleftrightarrow> c = CHR ''-''" by metis
qed

lemma key_dash_free: "CHR ''-'' \<notin> set (normalizeChartSymbolKey s)"
  by (auto simp: normalizeChartSymbolKey_def toUpperCase_def remove_char_def image_iff)

lemma dash_free_key: "normalizeChartSymbolKey s = s" if "CHR ''-'' \<notin> set s" "toUpperCase s = s"
  using that by (simp add: normalizeChartSymbolKey_def)

lemma key_upper [simp]: "toUpperCase (normalizeChartSymbolKey s) = normalizeChartSymbolKey s"
  by (simp add: normalizeChartSymbolKey_def)

lemma normalizeChartSymbolKey_idem [simp]: "normalizeChartSymbolKey (normalizeChartSymbolKey s) = normalizeChartSymbolKey s"
  by (rule dash_free_key) (simp_all add: key_dash_free)

text \<open>Whatever comes before \<open>USDT\<close>, the symbol is one of the exchange's.\<close>

lemma usdt_is_binance: assumes "x \<noteq> []" shows "isBinanceSpotStyleSymbol (x @ ''USDT'')"
proof -
  have "drop 3 (x @ ''USDT'') = ''SDT''" if "length (x @ ''USDT'') = 6"
  proof -
    have "length x = 2" using that by simp
    then obtain a b where "x = [a, b]" by (auto simp: length_Suc_conv numeral_eq_Suc)
    then show ?thesis by simp
  qed
  then have "\<not> isLikelyClassicFxOrMetal6 (x @ ''USDT'')"
    by (auto simp: isLikelyClassicFxOrMetal6_def isFiat3_def Let_def)
  moreover have "quoted_in stableQuotes (x @ ''USDT'')"
    using assms by (auto simp: quoted_in_def stableQuotes_def)
  ultimately show ?thesis by (simp add: isBinanceSpotStyleSymbol_def)
qed

lemma toUpperCase_take: "toUpperCase (take n s) = take n (toUpperCase s)"
  by (simp add: toUpperCase_def take_map)

lemma usdt_key: assumes "CHR ''-'' \<notin> set x" "toUpperCase x = x"
  shows "normalizeChartSymbolKey (x @ ''USDT'') = x @ ''USDT''"
  using assms by (intro dash_free_key) (auto simp: up_char_def Let_def)

lemma split_char_hd: "CHR ''-'' \<notin> set (hd (split_char (CHR ''-'') s))"
proof (induction s)
  case (Cons x s)
  have "split_char (CHR ''-'') s \<noteq> []" by (cases s) (auto split: list.splits)
  then show ?case using Cons.IH by (auto split: list.splits)
qed simp

lemma quoted_longer: "quoted_in qs k \<Longrightarrow> \<forall>q \<in> set qs. 3 \<le> length q \<Longrightarrow> 3 < length k"
  by (fastforce simp: quoted_in_def list_ex_iff)

lemma binance_not_short: "isBinanceSpotStyleSymbol k \<Longrightarrow> 3 < length k"
proof -
  have "\<forall>q \<in> set stableQuotes. 3 \<le> length q" "\<forall>q \<in> set cryptoQuotes. 3 \<le> length q"
    by (simp_all add: stableQuotes_def cryptoQuotes_def)
  then show "isBinanceSpotStyleSymbol k \<Longrightarrow> 3 < length k"
    by (auto simp: isBinanceSpotStyleSymbol_def split: if_splits dest: quoted_longer)
qed

text \<open>A symbol of the exchange stays one when it is written the exchange's way.\<close>

lemma toBinanceSymbol_binance:
  assumes b: "isBinanceSpotStyleSymbol (normalizeChartSymbolKey code)" and d: "hd (split_char (CHR ''-'') code) \<noteq> []"
  shows "isBinanceSpotStyleSymbol (normalizeChartSymbolKey (toBinanceSymbol code qc))"
proof -
  let ?k = "normalizeChartSymbolKey code"
  have l: "3 < length ?k" by (rule binance_not_short [OF b])
  have 1: "isBinanceSpotStyleSymbol (normalizeChartSymbolKey (drop_last 3 ?k @ ''USDT''))"
  proof (subst usdt_key)
    show "CHR ''-'' \<notin> set (drop_last 3 ?k)" using key_dash_free [of code] by (auto simp: drop_last_def dest: in_set_takeD)
    show "toUpperCase (drop_last 3 ?k) = drop_last 3 ?k" by (simp add: drop_last_def toUpperCase_take)
    show "isBinanceSpotStyleSymbol (drop_last 3 ?k @ ''USDT'')" using l by (intro usdt_is_binance) (auto simp: drop_last_def)
  qed
  let ?h = "hd (split_char (CHR ''-'') code)"
  have "CHR ''-'' \<notin> set (toUpperCase ?h)"
    using split_char_hd [of code] by (simp add: toUpperCase_def image_iff)
  then have 2: "isBinanceSpotStyleSymbol (normalizeChartSymbolKey (toUpperCase ?h @ ''USDT''))"
    using d by (subst usdt_key) (auto intro!: usdt_is_binance simp: toUpperCase_def)
  show ?thesis using 1 2 b l by (auto simp: toBinanceSymbol_def Let_def)
qed

text \<open>The symbol that is handed to the chart's loader belongs to the same service as the terminal's symbol: where the
  services are told apart by the symbol's name, history is never asked of the wrong one.\<close>

theorem chart_route_coherent:
  assumes "VITE_MMDPS_SYMBOLS ce = None" "hd (split_char (CHR ''-'') code) \<noteq> []"
  shows "isMmdpsChartSymbol ce (toChartFeedSymbol ce code qc) = isMmdpsChartSymbol ce code"
proof (cases "isMmdpsChartSymbol ce code")
  case True
  then show ?thesis using assms(1) by (simp add: toChartFeedSymbol_def isMmdpsChartSymbol_def Let_def)
next
  case False
  then have f: "toChartFeedSymbol ce code qc = toBinanceSymbol code qc"
    using assms(1) by (auto simp: toChartFeedSymbol_def isMmdpsChartSymbol_def Let_def)
  show ?thesis using False toBinanceSymbol_binance [OF _ assms(2), of qc]
    by (auto simp: f isMmdpsChartSymbol_def assms(1) Let_def split: if_splits)
qed

section \<open>Bars\<close>

text \<open>Every number in the value is a double, as in any value that was parsed.\<close>

fun doubles :: "json \<Rightarrow> bool" where
  "doubles (JNum n) = is_double n"
| "doubles (JArr xs) = list_all doubles xs"
| "doubles (JObj fs) = list_all (\<lambda>kv. doubles (snd kv)) fs"
| "doubles _ = True"

definition good_bar :: "KLineBar \<Rightarrow> bool" where
  "good_bar b \<longleftrightarrow> list_all isFinite [kb_open b, kb_high b, kb_low b, kb_close b, kb_volume b] \<and>
     kb_timestamp b \<noteq> NaN \<and> is_double (kb_timestamp b)"

lemma hist_num_double: "(\<And>j. x = Some j \<Longrightarrow> doubles j) \<Longrightarrow> is_double (hist_num x)"
  by (auto simp: hist_num_def Let_def split: option.splits json.splits)

lemma make_bar_good: "make_bar ts a h l c v = Some b \<Longrightarrow> is_double ts \<Longrightarrow> good_bar b"
  by (cases ts) (auto simp: make_bar_def good_bar_def to_ms_def split: if_splits)

lemma doubles_field: "doubles j \<Longrightarrow> json_field j k = Some v \<Longrightarrow> doubles v"
  by (cases j) (auto simp: list_all_iff dest!: map_of_SomeD bspec [of _ _ "(k, v)"])

lemma doubles_first: "doubles j \<Longrightarrow> first_field j ks = Some v \<Longrightarrow> doubles v"
  by (induction ks) (auto split: if_splits dest: doubles_field)

lemma doubles_index0: "doubles j \<Longrightarrow> index0 j = Some v \<Longrightarrow> doubles v"
  by (cases j) (auto simp: index0_def split: list.splits dest: doubles_field [of "JObj fs" for fs, simplified])

lemma object_bar_good: assumes "object_bar row = Some b" "doubles row" shows "good_bar b"
proof -
  have "is_double (hist_num (or_else (first_field row ks) (index0 row)))" for ks
    using doubles_first [OF assms(2)] doubles_index0 [OF assms(2)]
    by (intro hist_num_double) (simp add: or_else_def split: if_splits)
  then show ?thesis using make_bar_good assms(1) unfolding object_bar_def Let_def by blast
qed

lemma history_row_good: "history_row row = Some b \<Longrightarrow> doubles row \<Longrightarrow> good_bar b"
  by (auto simp: history_row_def intro: hist_num_double object_bar_good elim!: make_bar_good split: json.splits list.splits if_splits)

lemma history_rows_doubles: "doubles j \<Longrightarrow> r \<in> set (history_rows j) \<Longrightarrow> doubles r"
proof (cases j)
  case (JObj fs)
  assume d: "doubles j" and r: "r \<in> set (history_rows j)"
  define f where "f = first_field j [''bars'', ''data'', ''candles'', ''result'']"
  have "r \<in> set (case f of Some (JArr rows) \<Rightarrow> rows | _ \<Rightarrow> [])"
    using r unfolding history_rows_def f_def JObj json.case .
  moreover have "f = Some v \<Longrightarrow> doubles v" for v using doubles_first [OF d] by (simp only: f_def)
  ultimately show "doubles r" by (force simp: list_all_iff split: option.splits json.splits)
qed (auto simp: history_rows_def list_all_iff)

interpretation timestamps: ordering_comparator by_timestamp "{b. good_bar b}"
proof unfold_locales
  fix a b c :: KLineBar
  have after: "not_after by_timestamp a b \<longleftrightarrow> jle (kb_timestamp a) (kb_timestamp b)" if "good_bar a" "good_bar b" for a b
    using that by (simp add: good_bar_def not_after_def by_timestamp_def jlt_0_jsub not_jlt_iff)
  { assume "a \<in> {b. good_bar b}" "b \<in> {b. good_bar b}"
    then show "not_after by_timestamp a b \<or> not_after by_timestamp b a"
      using jlt_linear [of "kb_timestamp a" "kb_timestamp b"] by (auto simp: after jle_def jeq_def good_bar_def) }
  assume "a \<in> {b. good_bar b}" "b \<in> {b. good_bar b}" "c \<in> {b. good_bar b}"
    "not_after by_timestamp a b" "not_after by_timestamp b c"
  then show "not_after by_timestamp a c" by (auto simp: after dest: jle_trans)
qed

lemma history_sorted:
  assumes "doubles j"
  shows "sorted_wrt (\<lambda>a b. jle (kb_timestamp a) (kb_timestamp b)) (parseMmdpsHistoryPayload j)"
    "list_all good_bar (parseMmdpsHistoryPayload j)"
proof -
  have good: "good_bar b" if "b \<in> set (List.map_filter history_row (history_rows j))" for b
    using that history_row_good history_rows_doubles [OF assms(1)] by (auto simp: List.map_filter_def)
  then show all: "list_all good_bar (parseMmdpsHistoryPayload j)" by (simp add: parseMmdpsHistoryPayload_def list_all_iff)
  have "sorted_wrt (not_after by_timestamp) (parseMmdpsHistoryPayload j)"
    unfolding parseMmdpsHistoryPayload_def using good by (intro timestamps.sorted_js_sort) auto
  then show "sorted_wrt (\<lambda>a b. jle (kb_timestamp a) (kb_timestamp b)) (parseMmdpsHistoryPayload j)"
    using all by (elim sorted_wrt_mono_rel [rotated])
      (auto simp: list_all_iff good_bar_def not_after_def by_timestamp_def jlt_0_jsub not_jlt_iff)
qed

text \<open>Whatever the history service answers, the chart gets bars with finite prices and volumes in ascending order of
  time: exactly the rows that can be read, each once.\<close>

theorem history_bars_sorted:
  assumes "doubles j"
  defines "bs \<equiv> parseMmdpsHistoryPayload j"
  shows "sorted_wrt (\<lambda>a b. jle (kb_timestamp a) (kb_timestamp b)) bs \<and> list_all good_bar bs \<and>
    mset bs = mset (List.map_filter history_row (history_rows j))"
  using history_sorted [OF assms(1)] by (simp add: bs_def parseMmdpsHistoryPayload_def)

section \<open>Indicator parameters\<close>

definition param_ok :: "jsnum \<Rightarrow> bool" where
  "param_ok p \<longleftrightarrow> (\<exists>n :: int. p = Num (of_int n) \<and> 1 \<le> n \<and> n \<le> 999)"

lemma param_ok_of_int: "1 \<le> n \<Longrightarrow> n \<le> 999 \<Longrightarrow> param_ok (Num (of_int n))"
  by (auto simp: param_ok_def)

lemmas param_ok_numeral = param_ok_of_int [of "numeral k" for k, simplified]

lemma clamp_param_ok:
  assumes "value \<noteq> NaN" "\<not> (name = ''SAR'' \<and> i \<le> 1)"
  shows "param_ok (clampIndicatorParam name i value)"
proof -
  let ?x = "jmax (Num 1) (jmin (Num 999) value)"
  have b: "jle (Num 1) ?x" "jle ?x (Num 999)"
    using clamp_bounds [of "Num 1" "Num 999" "value"] assms(1) by auto
  then obtain q where q: "?x = Num q" "1 \<le> q" "q \<le> 999"
    by (cases ?x) (auto simp: jle_def jeq_def)
  have "1 \<le> \<lfloor>q + 1 / 2\<rfloor>" "\<lfloor>q + 1 / 2\<rfloor> \<le> 999" using q(2,3) by linarith+
  moreover have "clampIndicatorParam name i value = Num (of_int \<lfloor>q + 1 / 2\<rfloor>)"
    using assms(2) q(1) by (auto simp: clampIndicatorParam_def)
  ultimately show ?thesis by (auto simp: param_ok_def)
qed

lemma schemas_ok: "list_all (\<lambda>(n, s). n = ''SAR'' \<or> list_all param_ok (defaults s)) INDICATOR_PARAM_SCHEMAS"
  by (simp add: INDICATOR_PARAM_SCHEMAS_def param_ok_numeral)

lemma dialog_defaults_ok: assumes "name \<noteq> ''SAR''" shows "list_all param_ok (dialog_defaults name)"
proof (cases "map_of INDICATOR_PARAM_SCHEMAS name")
  case (Some s)
  then have "list_all param_ok (defaults s)" using schemas_ok assms by (auto simp: list_all_iff dest!: map_of_SomeD)
  then show ?thesis using Some by (simp add: dialog_defaults_def getIndicatorParamSchema_def param_ok_numeral Let_def)
qed (simp add: dialog_defaults_def getIndicatorParamSchema_def param_ok_numeral)

text \<open>The parameters the dialog saves are whole numbers from 1 to 999, whatever was typed into its fields; only the
  parabolic indicator has fractions.\<close>

theorem saved_params_in_range:
  assumes "ci_name ind \<noteq> ''SAR''" "NaN \<notin> set ps"
  shows "saved_params ind ps \<noteq> [] \<and> list_all param_ok (saved_params ind ps)"
proof -
  have "param_ok (clampIndicatorParam (ci_name ind) i (take k ps ! i))" if "i < length (take k ps)" for i k
    using that assms by (intro clamp_param_ok) (auto dest: nth_mem)
  moreover have "dialog_defaults (ci_name ind) \<noteq> []" by (simp add: dialog_defaults_def Let_def)
  ultimately show ?thesis using dialog_defaults_ok [OF assms(1)]
    by (auto simp: saved_params_def Let_def list_all_iff)
qed

section \<open>The toolbar's state\<close>

text \<open>No indicator twice, whatever is added, removed and changed.\<close>

lemma indicators_distinct:
  assumes "distinct (map ci_name is')"
  shows "distinct (map ci_name (onIndicatorAdd n is'))" "distinct (map ci_name (onIndicatorRemove n is'))"
    "distinct (map ci_name (onIndicatorParamsChange n ps is'))"
proof -
  have "map ci_name (onIndicatorParamsChange n ps is') = map ci_name is'"
    by (induction is') (auto simp: onIndicatorParamsChange_def)
  then show "distinct (map ci_name (onIndicatorParamsChange n ps is'))" using assms by simp
qed (use assms in \<open>auto simp: onIndicatorAdd_def onIndicatorRemove_def list_ex_iff distinct_map inj_on_def\<close>)

definition valid_toolbar :: "PersistedChartToolbar \<Rightarrow> bool" where
  "valid_toolbar t \<longleftrightarrow> tb_chartType t \<in> set VALID_CHART_TYPES \<and> tb_timeframe t \<in> set TIMEFRAMES \<and>
     tb_drawingMagnetMode t \<in> set VALID_MAGNET_MODES \<and> tb_drawingTool t \<noteq> Some [] \<and>
     tooltipShowRule (tb_chartSettings t) \<in> set VALID_TOOLTIP_RULES \<and>
     list_all (\<lambda>i. ci_params i \<noteq> [] \<or> getDefaultIndicatorParams (ci_name i) = []) (tb_indicators t)"






lemma default_choices [simp]: "''candles'' \<in> set VALID_CHART_TYPES" "''15m'' \<in> set TIMEFRAMES"
  "''normal'' \<in> set VALID_MAGNET_MODES" "''follow_cross'' \<in> set VALID_TOOLTIP_RULES"
  by (simp_all add: VALID_CHART_TYPES_def TIMEFRAMES_def VALID_MAGNET_MODES_def VALID_TOOLTIP_RULES_def)


lemma numbers_back [simp]: "List.map_filter number_of (map JNum ps) = ps"
  by (induction ps) (auto simp: List.map_filter_def)

lemma indicator_back: "isChartIndicator (indicator_json i) = Some (ci_name i, ci_params i)"
  by (simp add: isChartIndicator_def indicator_json_def list_all_iff)

lemma indicators_back:
  "list_all (\<lambda>i. ci_params i \<noteq> [] \<or> getDefaultIndicatorParams (ci_name i) = []) xs \<Longrightarrow>
     map stored_indicator (List.map_filter isChartIndicator (map indicator_json xs)) = xs"
  by (induction xs) (auto simp: List.map_filter_def indicator_back stored_indicator_def)

lemma settings_back: "tooltipShowRule s \<in> set VALID_TOOLTIP_RULES \<Longrightarrow> isChartSettings (settings_json s) = Some s"
  by (simp add: isChartSettings_def settings_json_def)

lemma toolbar_back: assumes "valid_toolbar t" shows "read_toolbar (toolbar_json t) = t"
  using assms by (cases "tb_drawingTool t")
    (auto simp: read_toolbar_def toolbar_json_def valid_toolbar_def one_of_def settings_back indicators_back
      intro!: PersistedChartToolbar.equality)

text \<open>The chart's toolbar survives a reload: what was saved is what is loaded.\<close>

theorem toolbar_reload:
  assumes "valid_toolbar t" "st \<noteq> None" "stringify (toolbar_json t) \<noteq> []"
    "parse (stringify (toolbar_json t)) = Some (toolbar_json t)"
  shows "loadChartToolbarState parse (saveChartToolbarState stringify t st) = Some t"
proof -
  have "is_object (toolbar_json t)" by (simp add: toolbar_json_def)
  then show ?thesis
    using assms by (simp add: loadChartToolbarState_def saveChartToolbarState_def getItem_setItem toolbar_back)
qed


section \<open>Observations\<close>

text \<open>Pairs quoted in the stable coins whose code ends in \<open>USD\<close> are taken for pairs in dollars.\<close>

lemma busd_pair_renamed: "toBinanceSymbol ''BTC-BUSD'' None = ''BTCBUSDT''"
  by code_simp

lemma usdt_pair_doubled: "toBinanceSymbol ''BTCUSDT'' (Some ''USD'') = ''BTCUSDTUSDT''"
  by code_simp

section \<open>Concrete charts\<close>

definition plain_web :: chart_env where
  "plain_web = \<lparr>ce_web = \<lparr>VITE_WS_URL = None, DEV = False, VITE_WS_PORT = None, VITE_DATA_PROVIDER_WS_URL = None,
     VITE_DATA_PROVIDER_HTTP_URL = Some ''http://dp'', VITE_DATA_PROVIDER_HTTP_PATH = None, location = None\<rparr>,
     ce_parse = \<lambda>u. None, VITE_MMDPS_SYMBOLS = None\<rparr>"

lemma chart_route_coherent_witness:
  "\<not> isMmdpsChartSymbol plain_web (toChartFeedSymbol plain_web ''BTC-USDT'' None)"
proof -
  have "\<not> isMmdpsChartSymbol plain_web ''BTC-USDT''" by code_simp
  then show ?thesis using chart_route_coherent [of plain_web "''BTC-USDT''" None] by (simp add: plain_web_def)
qed

definition sample_rows :: json where
  "sample_rows = JObj [(''bars'', JArr [
     JObj [(''time'', JNum (Num 1700000120)), (''o'', JNum (Num 2)), (''h'', JNum (Num 3)), (''l'', JNum (Num 1)), (''c'', JNum (Num 2))],
     JNull,
     JArr [JNum (Num 1700000060), JNum (Num 1), JNum (Num 2), JNum (Num 1), JNum (Num 2), JNum (Num 7)]])]"

lemma history_bars_sorted_witness: "map kb_timestamp (parseMmdpsHistoryPayload sample_rows) = [Num 1700000060000, Num 1700000120000]"
proof -
  have d: "doubles sample_rows"
    by (simp add: sample_rows_def is_double_of_int [of "numeral k" for k, simplified] is_double_of_int [of 1, simplified])
  let ?bs = "parseMmdpsHistoryPayload sample_rows"
  have m: "image_mset kb_timestamp (mset ?bs) = {#Num 1700000060000, Num 1700000120000#}"
    unfolding history_bars_sorted [OF d, THEN conjunct2, THEN conjunct2]
    by (simp add: sample_rows_def history_rows_def history_row_def object_bar_def or_else_def index0_def hist_num_def make_bar_def
        to_ms_def List.map_filter_def num_simps)
  then have "length ?bs = 2" by (metis mset_map size_mset length_map size_add_mset size_empty numeral_2_eq_2)
  then obtain a b where ab: "?bs = [a, b]" by (auto simp: length_Suc_conv numeral_2_eq_2)
  have "jle (kb_timestamp a) (kb_timestamp b)" using history_bars_sorted [OF d] by (simp add: ab)
  moreover have "kb_timestamp a = Num 1700000060000 \<and> kb_timestamp b = Num 1700000120000 \<or>
      kb_timestamp a = Num 1700000120000 \<and> kb_timestamp b = Num 1700000060000"
    using m by (auto simp: ab add_eq_conv_ex)
  ultimately show ?thesis by (elim disjE) (simp_all add: ab)
qed

definition edited :: ChartIndicator where "edited = \<lparr>ci_name = ''MA'', ci_params = [Num 5, Num 10, Num 30, Num 60]\<rparr>"

lemma saved_params_in_range_witness: "list_all param_ok (saved_params edited [Num 0, Num 12, Num (1 / 2), Num 5000])"
  using saved_params_in_range [of edited "[Num 0, Num 12, Num (1 / 2), Num 5000]"] by (simp add: edited_def)

definition sample_toolbar :: PersistedChartToolbar where
  "sample_toolbar = toolbar_start\<lparr>tb_timeframe := ''4H'', tb_indicators := [edited], tb_drawingTool := Some ''segment''\<rparr>"

lemma toolbar_reload_witness:
  "loadChartToolbarState (\<lambda>s. if s = ''saved'' then Some (toolbar_json sample_toolbar) else None)
     (saveChartToolbarState (\<lambda>j. ''saved'') sample_toolbar (Some [])) = Some sample_toolbar"
proof (rule toolbar_reload)
  show "valid_toolbar sample_toolbar"
    by (simp add: valid_toolbar_def sample_toolbar_def toolbar_start_def edited_def DEFAULT_CHART_SETTINGS_def
        VALID_CHART_TYPES_def TIMEFRAMES_def VALID_MAGNET_MODES_def VALID_TOOLTIP_RULES_def)
qed simp_all

end
