(* ===== verification/Live_Chart.thy ===== *)
theory Live_Chart
  imports Chart_Data Position_Dock
begin

text \<open>
  The terminal's chart (\<open>ChartPlaceholder.tsx\<close>): mounting it for a symbol, the requests for older and
  newer bars and their answers, the live candle that price ticks extend, the line of the ask price
  and the markers of open and closed positions. The chart library is outside: it asks for bars,
  subscribes and unsubscribes, and what it is given is recorded (\<open>cv_pushed\<close>). Its styles, indicators
  and drawings are not modelled; neither is the picture it paints.
\<close>

section \<open>State\<close>

record marker =
  mk_timestamp :: jsnum
  mk_value :: jsnum
  mk_dataIndex :: nat

record chart_view =
  cv_symbol :: "MockSymbol option"
  cv_chart :: bool
  cv_feed :: string
  cv_sub :: bool
  cv_last :: "KLineBar option"
  cv_bar :: "KLineBar option"
  cv_index :: nat
  cv_data :: "KLineBar list"
  cv_len :: nat
  cv_loading :: bool
  cv_positions :: "Position list"
  cv_showAsk :: bool
  cv_showOpen :: bool
  cv_showClosed :: bool
  cv_askLine :: "marker option"
  cv_openMarks :: "marker list option"
  cv_closedMarks :: "marker list option"
  cv_pushed :: "KLineBar list"

definition chart_init :: chart_view where
  "chart_init = \<lparr>cv_symbol = None, cv_chart = False, cv_feed = ''BTCUSDT'', cv_sub = False, cv_last = None, cv_bar = None,
     cv_index = 0, cv_data = [], cv_len = 0, cv_loading = True, cv_positions = [], cv_showAsk = False, cv_showOpen = False,
     cv_showClosed = False, cv_askLine = None, cv_openMarks = None, cv_closedMarks = None, cv_pushed = []\<rparr>"

text \<open>The key of the selected symbol's ticks.\<close>

definition selected_key :: "chart_view \<Rightarrow> string" where
  "selected_key v =
     (case cv_symbol v of
        None \<Rightarrow> []
      | Some s \<Rightarrow> (let k = trim (case priceLookupKey s of Some k \<Rightarrow> k | None \<Rightarrow> []) in
          if k \<noteq> [] then k else if ms_code s \<noteq> [] then normalizeSymbolKey (ms_code s) else []))"

section \<open>The chart of a symbol\<close>

definition unmount :: "chart_view \<Rightarrow> chart_view" where
  "unmount v = (if cv_chart v then v\<lparr>cv_sub := False, cv_last := None, cv_bar := None, cv_data := [], cv_len := 0,
      cv_chart := False, cv_askLine := None, cv_openMarks := None, cv_closedMarks := None\<rparr> else v)"

definition mount :: "chart_env \<Rightarrow> chart_view \<Rightarrow> chart_view" where
  "mount ce v =
     (case cv_symbol v of
        None \<Rightarrow> v
      | Some s \<Rightarrow> if ms_code s = [] then v
          else v\<lparr>cv_loading := True, cv_chart := True, cv_feed := toChartFeedSymbol ce (ms_code s) (Some (ms_quoteCurrency s))\<rparr>)"

definition select_symbol :: "chart_env \<Rightarrow> MockSymbol option \<Rightarrow> chart_view \<Rightarrow> chart_view" where
  "select_symbol ce s v = mount ce ((unmount v)\<lparr>cv_symbol := s\<rparr>)"

section \<open>History\<close>

text \<open>\<open>getBars\<close>: the request for the first bars, for those before or those after a bar.\<close>

definition bars_request :: "chart_env \<Rightarrow> jsnum \<times> string \<Rightarrow> string \<Rightarrow> jsnum option \<Rightarrow> chart_view \<Rightarrow> chart_request option" where
  "bars_request ce period type timestamp v =
     (let interval = toBinanceInterval (fst period) (snd period) in
      if type = ''init'' then Some (fetchChartKlines ce (cv_feed v) interval BARS_PER_CHUNK None None)
      else case timestamp of
          Some t \<Rightarrow>
            if type = ''forward'' then Some (fetchChartKlines ce (cv_feed v) interval BARS_PER_CHUNK (Some (jsub t (Num 1))) None)
            else if type = ''backward'' then Some (fetchChartKlines ce (cv_feed v) interval BARS_PER_CHUNK None (Some (jadd t (Num 1))))
            else None
        | None \<Rightarrow> None)"

definition bars_loaded :: "string \<Rightarrow> KLineBar list \<Rightarrow> chart_view \<Rightarrow> chart_view" where
  "bars_loaded type bars v =
     (if type = ''init'' \<and> bars \<noteq> []
      then v\<lparr>cv_last := Some (last bars), cv_bar := Some (last bars), cv_index := length bars - 1, cv_data := bars,
             cv_len := length bars\<rparr>
      else v)"

definition bars_failed :: "string \<Rightarrow> chart_view \<Rightarrow> chart_view" where
  "bars_failed type v =
     (if type = ''init'' then v\<lparr>cv_last := None, cv_bar := None, cv_data := [], cv_len := 0\<rparr> else v)"

text \<open>Is there more before (\<open>forward\<close>, the library's word) and after the bars that were given?\<close>

definition has_more :: "string \<Rightarrow> KLineBar list \<Rightarrow> bool \<times> bool" where
  "has_more type bars =
     ((if type = ''backward'' then jle BARS_PER_CHUNK (Num (of_nat (length bars))) else True),
      (if type = ''forward'' then jle BARS_PER_CHUNK (Num (of_nat (length bars))) else type = ''init''))"

definition emit :: "KLineBar \<Rightarrow> chart_view \<Rightarrow> chart_view" where
  "emit b v = (if cv_sub v then v\<lparr>cv_pushed := b # cv_pushed v\<rparr> else v)"

definition subscribeBar :: "chart_view \<Rightarrow> chart_view" where
  "subscribeBar v = (let w = v\<lparr>cv_sub := True\<rparr> in case cv_bar v of Some b \<Rightarrow> emit b w | None \<Rightarrow> w)"

definition unsubscribeBar :: "chart_view \<Rightarrow> chart_view" where
  "unsubscribeBar v = v\<lparr>cv_sub := False\<rparr>"

section \<open>The live candle\<close>

definition dayMs :: jsnum where "dayMs = Num (24 * 60 * 60 * 1000)"

definition live_bar :: "jsnum \<Rightarrow> jsnum \<Rightarrow> KLineBar option \<Rightarrow> KLineBar" where
  "live_bar now bid bar =
     (case bar of
        None \<Rightarrow> \<lparr>kb_timestamp = jmul (jfloor (jdiv now dayMs)) dayMs, kb_open = bid, kb_high = bid, kb_low = bid,
                 kb_close = bid, kb_volume = Num 0\<rparr>
      | Some b \<Rightarrow> b\<lparr>kb_close := bid, kb_high := jmax (kb_high b) bid, kb_low := jmin (kb_low b) bid\<rparr>)"

definition apply_bid :: "jsnum \<Rightarrow> jsnum \<Rightarrow> chart_view \<Rightarrow> chart_view" where
  "apply_bid now bid v = (let b = live_bar now bid (cv_bar v) in emit b (v\<lparr>cv_bar := Some b\<rparr>))"

definition ask_marker :: "jsnum \<Rightarrow> chart_view \<Rightarrow> KLineBar \<Rightarrow> marker" where
  "ask_marker ask v b = \<lparr>mk_timestamp = kb_timestamp b, mk_value = ask, mk_dataIndex = cv_index v\<rparr>"

text \<open>A tick of the price stream; without a chart there are no lines to draw.\<close>

definition ask_tick :: "jsnum \<Rightarrow> chart_view \<Rightarrow> chart_view" where
  "ask_tick ask v =
     (if \<not> cv_showAsk v then v\<lparr>cv_askLine := None\<rparr>
      else case cv_bar v of
          Some b \<Rightarrow> if \<not> isNaN ask \<and> jlt (Num 0) ask \<and> cv_chart v then v\<lparr>cv_askLine := Some (ask_marker ask v b)\<rparr> else v
        | None \<Rightarrow> v)"

definition onTick :: "jsnum \<Rightarrow> PriceTick \<Rightarrow> chart_view \<Rightarrow> chart_view" where
  "onTick now tick v =
     (if normalizeSymbolKey (tick_symbol tick) \<noteq> selected_key v then v
      else let bid = parseFloat (tick_bid tick) in
        if isNaN bid \<or> jle bid (Num 0) then v
        else ask_tick (parseFloat (tick_ask tick)) (apply_bid now bid v))"

text \<open>The effects on the price of the symbol's own hook.\<close>

definition price_or_zero :: "string option \<Rightarrow> jsnum" where
  "price_or_zero b = (case b of Some (c # s) \<Rightarrow> (let n = parseFloat (c # s) in if isFinite n then n else Num 0) | _ \<Rightarrow> Num 0)"

definition bid_effect :: "jsnum \<Rightarrow> string option \<Rightarrow> chart_view \<Rightarrow> chart_view" where
  "bid_effect now b v = (let bid = price_or_zero b in if jle bid (Num 0) then v else apply_bid now bid v)"

definition ask_effect :: "string option \<Rightarrow> chart_view \<Rightarrow> chart_view" where
  "ask_effect a v =
     (let ask = price_or_zero a in
      if \<not> cv_chart v \<or> \<not> cv_showAsk v then v\<lparr>cv_askLine := None\<rparr>
      else case cv_bar v of
          None \<Rightarrow> v\<lparr>cv_askLine := None\<rparr>
        | Some b \<Rightarrow> if jle ask (Num 0) then v\<lparr>cv_askLine := None\<rparr> else v\<lparr>cv_askLine := Some (ask_marker ask v b)\<rparr>)"

section \<open>Markers of positions\<close>

definition open_loaded :: "Position list \<Rightarrow> chart_view \<Rightarrow> chart_view" where
  "open_loaded open' v = v\<lparr>cv_positions := open' @ filter (\<lambda>p. pos_status p \<noteq> ''OPEN'') (cv_positions v)\<rparr>"

definition open_failed :: "chart_view \<Rightarrow> chart_view" where
  "open_failed v = v\<lparr>cv_positions := filter (\<lambda>p. pos_status p \<noteq> ''OPEN'') (cv_positions v)\<rparr>"

definition merge_closed :: "Position list \<Rightarrow> Position list \<Rightarrow> Position list" where
  "merge_closed cs openOnly =
     foldl (\<lambda>merged c. if list_ex (\<lambda>p. pos_id p = pos_id c) merged then merged else merged @ [c]) openOnly cs"

definition closed_loaded :: "Position list \<Rightarrow> chart_view \<Rightarrow> chart_view" where
  "closed_loaded cs v = v\<lparr>cv_positions := merge_closed cs (filter (\<lambda>p. pos_status p = ''OPEN'') (cv_positions v))\<rparr>"

text \<open>From the last bar backwards: the first that does not start after \<open>t\<close>; the oldest bar otherwise.\<close>

fun bar_index :: "KLineBar list \<Rightarrow> jsnum \<Rightarrow> nat \<Rightarrow> nat" where
  "bar_index bars t 0 = 0"
| "bar_index bars t (Suc i) = (if jle (kb_timestamp (bars ! i)) t then i else bar_index bars t i)"

definition marker_at :: "KLineBar list \<Rightarrow> jsnum \<Rightarrow> jsnum \<Rightarrow> marker" where
  "marker_at bars t price =
     (let i = bar_index bars t (length bars) in
      \<lparr>mk_timestamp = t, mk_value = (if i < length bars then kb_high (bars ! i) else price), mk_dataIndex = i\<rparr>)"

definition str_or :: "string \<Rightarrow> string \<Rightarrow> string" where
  "str_or a b = (if a \<noteq> [] then a else b)"

definition entry_price :: "Position \<Rightarrow> jsnum" where
  "entry_price p = parseFloat (str_or (pos_avg_price p) (str_or (pos_entry_price p) ''0''))"

definition open_marker :: "KLineBar list \<Rightarrow> Position \<Rightarrow> marker" where
  "open_marker bars p = marker_at bars (to_ms (pos_opened_at p)) (entry_price p)"

definition exit_price :: "Position \<Rightarrow> jsnum" where
  "exit_price p = (case pos_exit_price p of
     Some x \<Rightarrow> if x \<noteq> [] \<and> x \<noteq> ''null'' then parseFloat x else entry_price p | None \<Rightarrow> entry_price p)"

definition closed_marker :: "KLineBar list \<Rightarrow> Position \<Rightarrow> marker" where
  "closed_marker bars p = marker_at bars (to_ms (nullish (pos_closed_at p) (pos_updated_at p))) (exit_price p)"

text \<open>What both effects do: \<open>None\<close> removes the markers; the old ones stay when there are no bars.\<close>

definition symbol_marks ::
  "bool \<Rightarrow> string \<Rightarrow> (KLineBar list \<Rightarrow> Position \<Rightarrow> marker) \<Rightarrow> chart_view \<Rightarrow> marker list option \<Rightarrow> marker list option" where
  "symbol_marks shown st mark v old =
     (case cv_symbol v of
        None \<Rightarrow> None
      | Some s \<Rightarrow>
          if \<not> cv_chart v \<or> ms_code s = [] \<or> cv_len v = 0 \<or> \<not> shown then None
          else let ps = filter (\<lambda>p. pos_status p = st \<and> normalizeSymbolKey (pos_symbol p) = normalizeSymbolKey (ms_code s)) (cv_positions v)
            in if ps = [] then None
               else if cv_data v = [] then old
               else Some (map (mark (cv_data v)) ps))"

definition markers_effect :: "chart_view \<Rightarrow> chart_view" where
  "markers_effect v = v\<lparr>cv_openMarks := symbol_marks (cv_showOpen v) ''OPEN'' open_marker v (cv_openMarks v),
     cv_closedMarks := symbol_marks (cv_showClosed v) ''CLOSED'' closed_marker v (cv_closedMarks v)\<rparr>"

section \<open>The candle is exact\<close>


lemma emit_bar [simp]: "cv_bar (emit b v) = cv_bar v" "cv_sub (emit b v) = cv_sub v"
  by (simp_all add: emit_def)







text \<open>Ticks of other symbols leave the chart as it is, and so do ticks without a positive bid.\<close>

theorem foreign_ticks_ignored:
  assumes "normalizeSymbolKey (tick_symbol t) \<noteq> selected_key v \<or> \<not> jlt (Num 0) (parseFloat (tick_bid t))"
  shows "onTick now t v = v"
proof -
  have "isNaN x \<or> jle x (Num 0)" if "\<not> jlt (Num 0) x" for x
    using that not_jlt_iff [of "Num 0" x] by (auto simp: isNaN_def)
  then show ?thesis using assms by (auto simp: onTick_def Let_def)
qed

section \<open>Markers\<close>

lemma bar_index_spec:
  "bar_index bars t n = 0 \<and> (\<forall>i < n. \<not> jle (kb_timestamp (bars ! i)) t) \<or>
   (bar_index bars t n < n \<and> jle (kb_timestamp (bars ! bar_index bars t n)) t \<and>
     (\<forall>i. bar_index bars t n < i \<and> i < n \<longrightarrow> \<not> jle (kb_timestamp (bars ! i)) t))"
  by (induction n) (auto simp: less_Suc_eq)

text \<open>A marker of a position sits on the bar that covers its time: the last one that starts no later. On the sorted bars of
  the history service that bar is unique; only a time before all bars is put on the oldest one.\<close>

theorem marker_on_covering_bar:
  fixes price
  assumes "doubles j" "bars = parseMmdpsHistoryPayload j" "bars \<noteq> []" "t \<noteq> NaN"
  defines "i \<equiv> mk_dataIndex (marker_at bars t price)"
  shows "i < length bars \<and> mk_value (marker_at bars t price) = kb_high (bars ! i) \<and>
    (\<forall>k < length bars. jle (kb_timestamp (bars ! k)) t \<longrightarrow> k \<le> i) \<and>
    (\<forall>k \<le> i. jle (kb_timestamp (bars ! 0)) t \<longrightarrow> jle (kb_timestamp (bars ! k)) t)"
proof -
  let ?n = "length bars"
  have i: "i = bar_index bars t ?n" by (simp add: i_def marker_at_def Let_def)
  have l: "i < ?n" using bar_index_spec [of bars t ?n] assms(3) by (auto simp: i)
  have s: "jle (kb_timestamp (bars ! k)) (kb_timestamp (bars ! m))" if "k < m" "m < ?n" for k m
    using history_sorted(1) [OF assms(1)] that by (simp add: assms(2) sorted_wrt_iff_nth_less)
  have "k \<le> i" if "k < ?n" "jle (kb_timestamp (bars ! k)) t" for k
    using bar_index_spec [of bars t ?n] that by (auto simp: i not_le)
  moreover have "jle (kb_timestamp (bars ! k)) t" if "k \<le> i" "jle (kb_timestamp (bars ! 0)) t" for k
  proof -
    have "jle (kb_timestamp (bars ! i)) t" using bar_index_spec [of bars t ?n] that(2) assms(3) by (auto simp: i)
    then show ?thesis using s [of k i] that(1) l by (cases "k = i") (auto intro: jle_trans)
  qed
  moreover have "mk_value (marker_at bars t price) = kb_high (bars ! i)" using l by (simp add: i marker_at_def Let_def)
  ultimately show ?thesis using l by blast
qed

lemma merge_closed_ids: "distinct (map pos_id os) \<Longrightarrow> distinct (map pos_id (merge_closed cs os))"
proof (induction cs arbitrary: os)
  case (Cons c cs)
  have "distinct (map pos_id (if list_ex (\<lambda>p. pos_id p = pos_id c) os then os else os @ [c]))"
    using Cons.prems by (auto simp: list_ex_iff)
  from Cons.IH [OF this] show ?case by (simp add: merge_closed_def)
qed (simp add: merge_closed_def)

section \<open>Observations\<close>

text \<open>The live candle never rolls over: however late a price comes, it still goes into the last bar of the history.\<close>

lemma candle_never_rolls_over: "kb_timestamp (live_bar now bid (Some b)) = kb_timestamp b"
  by (simp add: live_bar_def)

text \<open>
  An answer that arrives after the symbol was changed is still taken: the chart of the new symbol
  goes on with the bars of the old one, and its ticks extend the old symbol's candle.
\<close>

lemma late_answer_taken:
  assumes "bars \<noteq> []"
  shows "cv_bar (bars_loaded ''init'' bars (select_symbol ce (Some s) v)) = Some (last bars)"
  using assms by (simp add: bars_loaded_def)

text \<open>Without any history a candle for the whole day is started, whatever the chart's period.\<close>

lemma first_candle_is_daily: "kb_timestamp (live_bar now bid None) = jmul (jfloor (jdiv now dayMs)) dayMs"
  by (simp add: live_bar_def)

section \<open>A concrete chart\<close>



lemma foreign_ticks_ignored_witness:
  "onTick (Num 0) \<lparr>tick_symbol = ''EURUSD'', tick_bid = ''0'', tick_ask = ''0'', tick_ts = Num 0\<rparr> chart_init = chart_init"
  by (rule foreign_ticks_ignored) (simp add: chart_init_def selected_key_def parse_float_simps num_simps)

lemma marker_on_covering_bar_witness:
  "mk_dataIndex (marker_at (parseMmdpsHistoryPayload sample_rows) (Num 1700000150000) NaN) = 1"
proof -
  let ?bs = "parseMmdpsHistoryPayload sample_rows"
  have d: "doubles sample_rows"
    by (simp add: sample_rows_def is_double_of_int [of "numeral k" for k, simplified] is_double_of_int [of 1, simplified])
  have bs: "?bs \<noteq> []" "length ?bs = 2" "\<forall>b \<in> set ?bs. jle (kb_timestamp b) (Num 1700000150000)"
    by (simp_all add: parseMmdpsHistoryPayload_def sample_rows_def history_rows_def history_row_def object_bar_def or_else_def
        index0_def hist_num_def make_bar_def to_ms_def List.map_filter_def num_simps by_timestamp_def not_after_def jsub_def)
  then have "jle (kb_timestamp (?bs ! 1)) (Num 1700000150000)" by simp
  then show ?thesis
    using marker_on_covering_bar [OF d refl bs(1), of "Num 1700000150000" NaN] bs(2) by (auto simp: less_2_cases_iff)
qed

end
