(* ===== verification/Formats.thy ===== *)
theory Formats
  imports Js_Text
begin

text \<open>
  How amounts, prices, sizes and times are written: \<open>shared/currency\<close> (conversion with exchange rates,
  which currency and time zone applies to a user), \<open>shared/finance\<close> (sizes by asset class, prices by
  the symbol's digits, names of transactions) and \<open>shared/datetime\<close> (relative times, wall-clock times
  of a zone). \<open>Intl\<close> is a record of parameters: what it prints, and \<open>None\<close> where its constructor throws.
\<close>

section \<open>Amounts of money\<close>

record intl =
  grouped :: "jsnum \<Rightarrow> string"
  currency_digits :: "string \<Rightarrow> jsnum option"
  money_text :: "string \<Rightarrow> jsnum \<Rightarrow> jsnum \<Rightarrow> string option"
  zone_known :: "string \<Rightarrow> bool"

text \<open>\<open>number | string | null | undefined\<close>; nothing is \<open>NoInput\<close>.\<close>

datatype MoneyInput = NumInput jsnum | TextInput string | NoInput

definition money_number :: "MoneyInput \<Rightarrow> jsnum option" where
  "money_number i =
     (case i of
        NoInput \<Rightarrow> None
      | TextInput s \<Rightarrow> if s = [] then None else let n = toNumber s in if isFinite n then Some n else None
      | NumInput n \<Rightarrow> if isFinite n then Some n else None)"

definition getCurrencyDecimals :: "intl \<Rightarrow> string \<Rightarrow> jsnum" where
  "getCurrencyDecimals I currency =
     (let upper = toUpperCase currency in
      if upper = ''BTC'' \<or> upper = ''ETH'' then Num 8
      else if upper = ''USDT'' \<or> upper = ''USDC'' then Num 2
      else case currency_digits I upper of Some d \<Rightarrow> d | None \<Rightarrow> Num 2)"

definition formatAmount :: "intl \<Rightarrow> MoneyInput \<Rightarrow> string \<Rightarrow> string js" where
  "formatAmount I amount currency =
     (case money_number amount of
        None \<Rightarrow> Inr em_dash
      | Some n \<Rightarrow>
          let upper = toUpperCase currency; d = getCurrencyDecimals I upper in
          if upper = ''BTC'' \<or> upper = ''ETH'' \<or> upper = ''USDT'' \<or> upper = ''USDC''
          then js_bind (toFixed n d) (\<lambda>t. Inr (t @ '' '' @ upper))
          else case money_text I upper d n of
              Some t \<Rightarrow> Inr t
            | None \<Rightarrow> js_bind (toFixed n (Num 2)) (\<lambda>t. Inr (t @ '' '' @ upper)))"

definition stable_as_usd :: "string \<Rightarrow> string" where
  "stable_as_usd c = (if c = ''USDT'' \<or> c = ''USDC'' then ''USD'' else c)"

definition fx_rate :: "(string \<Rightarrow> string option) \<Rightarrow> string \<Rightarrow> jsnum" where
  "fx_rate rates c = (if c = ''USD'' then Num 1 else case rates c of Some t \<Rightarrow> toNumber t | None \<Rightarrow> NaN)"

definition convertAmount :: "MoneyInput \<Rightarrow> string \<Rightarrow> string \<Rightarrow> (string \<Rightarrow> string option) \<Rightarrow> jsnum option" where
  "convertAmount amount from' to' rates =
     (case money_number amount of
        None \<Rightarrow> None
      | Some n \<Rightarrow>
          let fromUpper = toUpperCase from'; toUpper = toUpperCase to' in
          if fromUpper = toUpper then Some n
          else let fromN = stable_as_usd fromUpper; toN = stable_as_usd toUpper in
            if fromN = toN then Some n
            else let rateFrom = fx_rate rates fromN; rateTo = fx_rate rates toN in
              if \<not> isFinite rateFrom \<or> \<not> isFinite rateTo \<or> rateFrom = Num 0 then None
              else Some (jdiv (jmul n rateTo) rateFrom))"

definition formatConverted :: "intl \<Rightarrow> MoneyInput \<Rightarrow> string \<Rightarrow> string \<Rightarrow> (string \<Rightarrow> string option) \<Rightarrow> string js" where
  "formatConverted I amount from' to' rates =
     (case convertAmount amount from' to' rates of
        None \<Rightarrow> Inr em_dash
      | Some c \<Rightarrow> formatAmount I (NumInput c) to')"

definition formatFromUsd :: "intl \<Rightarrow> MoneyInput \<Rightarrow> string \<Rightarrow> (string \<Rightarrow> string option) \<Rightarrow> string js" where
  "formatFromUsd I usdAmount target rates =
     (case convertAmount usdAmount ''USD'' target rates of
        None \<Rightarrow> Inr em_dash
      | Some c \<Rightarrow> formatAmount I (NumInput c) target)"

text \<open>The sign in front of the text of the absolute amount.\<close>

definition with_sign :: "jsnum \<Rightarrow> string js \<Rightarrow> string js" where
  "with_sign n formatted = js_bind formatted (\<lambda>t.
     if t = em_dash then Inr em_dash else if jle (Num 0) n then Inr (''+'' @ t) else Inr (''-'' @ t))"

definition formatSignedFromUsd :: "intl \<Rightarrow> MoneyInput \<Rightarrow> string \<Rightarrow> (string \<Rightarrow> string option) \<Rightarrow> string js" where
  "formatSignedFromUsd I usdAmount target rates =
     (case money_number usdAmount of
        None \<Rightarrow> Inr em_dash
      | Some n \<Rightarrow> with_sign n (formatFromUsd I (NumInput (jabs n)) target rates))"

definition formatSignedAmount :: "intl \<Rightarrow> MoneyInput \<Rightarrow> string \<Rightarrow> string js" where
  "formatSignedAmount I amount currency =
     (case money_number amount of
        None \<Rightarrow> Inr em_dash
      | Some n \<Rightarrow> with_sign n (formatAmount I (NumInput (jabs n)) currency))"

definition formatSignedConverted :: "intl \<Rightarrow> MoneyInput \<Rightarrow> string \<Rightarrow> string \<Rightarrow> (string \<Rightarrow> string option) \<Rightarrow> string js" where
  "formatSignedConverted I amount from' to' rates =
     (case money_number amount of
        None \<Rightarrow> Inr em_dash
      | Some n \<Rightarrow> with_sign n (formatConverted I (NumInput (jabs n)) from' to' rates))"

section \<open>Which currency and which time zone\<close>

datatype origin = OfUser | OfGroup | OfPlatform | Fallback

definition isValidCurrencyCode :: "intl \<Rightarrow> string option \<Rightarrow> bool" where
  "isValidCurrencyCode I c =
     (case c of
        None \<Rightarrow> False
      | Some t \<Rightarrow> if t = [] then False else if t \<in> set [''USDT'', ''USDC''] then True else currency_digits I t \<noteq> None)"

definition first_valid :: "('a \<Rightarrow> bool) \<Rightarrow> 'a \<Rightarrow> ('a option \<times> origin) list \<Rightarrow> 'a \<times> origin" where
  "first_valid ok d cs = (case find (\<lambda>(c, og). case c of Some t \<Rightarrow> ok t | None \<Rightarrow> False) cs of
     Some (Some t, og) \<Rightarrow> (t, og) | _ \<Rightarrow> (d, Fallback))"

definition resolveEffectiveCurrency :: "intl \<Rightarrow> string option \<Rightarrow> string option \<Rightarrow> string option \<Rightarrow> string \<times> origin" where
  "resolveEffectiveCurrency I u g p =
     first_valid (\<lambda>t. isValidCurrencyCode I (Some t)) ''USD'' [(u, OfUser), (g, OfGroup), (p, OfPlatform)]"

definition isValidIanaTimezone :: "intl \<Rightarrow> string option \<Rightarrow> bool" where
  "isValidIanaTimezone I tz = (case tz of None \<Rightarrow> False | Some t \<Rightarrow> if t = [] then False else zone_known I t)"

definition resolveEffectiveTimezone :: "intl \<Rightarrow> string option \<Rightarrow> string option \<Rightarrow> string option \<Rightarrow> string \<times> origin" where
  "resolveEffectiveTimezone I u g p =
     first_valid (\<lambda>t. isValidIanaTimezone I (Some t)) ''UTC'' [(u, OfUser), (g, OfGroup), (p, OfPlatform)]"

section \<open>Sizes\<close>

record FormattedSize =
  fs_primary :: string
  fs_unit :: string
  fs_secondary :: string
  fs_display :: string

datatype num_text = AsNum jsnum | AsText string

record SymbolMeta =
  sm_assetClass :: "string option"
  sm_market :: "string option"
  sm_contractSize :: "num_text option"
  sm_baseCurrency :: "string option"
  sm_volumePrecision :: "jsnum option"

definition num_text_string :: "num_text \<Rightarrow> string" where
  "num_text_string v = (case v of AsNum n \<Rightarrow> toString n | AsText s \<Rightarrow> s)"

definition num_text_number :: "num_text \<Rightarrow> jsnum" where
  "num_text_number v = (case v of AsNum n \<Rightarrow> n | AsText s \<Rightarrow> parseFloat s)"

definition formatRawUnits :: "intl \<Rightarrow> jsnum \<Rightarrow> string option \<Rightarrow> string" where
  "formatRawUnits I units baseCurrency =
     (if truthy baseCurrency then grouped I units @ '' '' @ the baseCurrency else grouped I units)"

definition fallbackFormatted :: "intl \<Rightarrow> num_text \<Rightarrow> FormattedSize" where
  "fallbackFormatted I raw =
     (let s = num_text_string raw; n = num_text_number raw in
      if isFinite n then \<lparr>fs_primary = grouped I n, fs_unit = ''units'', fs_secondary = [], fs_display = grouped I n\<rparr>
      else \<lparr>fs_primary = s, fs_unit = ''units'', fs_secondary = [], fs_display = s\<rparr>)"

definition contract_of :: "SymbolMeta \<Rightarrow> jsnum" where
  "contract_of m =
     num_or (jmax (Num 0) (num_or (parseFloat (case sm_contractSize m of Some v \<Rightarrow> num_text_string v | None \<Rightarrow> ''1'')) (Num 0))) (Num 1)"

text \<open>Is the symbol of one of these classes, or on this market?\<close>

definition of_class :: "string list \<Rightarrow> string \<Rightarrow> SymbolMeta \<Rightarrow> bool" where
  "of_class cs mk m =
     (toUpperCase (trim (case sm_assetClass m of Some a \<Rightarrow> a | None \<Rightarrow> [])) \<in> set cs \<or>
      toLowerCase (trim (case sm_market m of Some a \<Rightarrow> a | None \<Rightarrow> [])) = mk)"

definition lots_label :: "intl \<Rightarrow> SymbolMeta \<Rightarrow> jsnum \<Rightarrow> string \<Rightarrow> string \<Rightarrow> FormattedSize" where
  "lots_label I m units unit primary =
     \<lparr>fs_primary = primary, fs_unit = unit, fs_secondary = formatRawUnits I units (sm_baseCurrency m),
      fs_display = primary @ '' '' @ unit\<rparr>"

definition crypto_label :: "SymbolMeta \<Rightarrow> string \<Rightarrow> FormattedSize" where
  "crypto_label m primary =
     (let b = (case sm_baseCurrency m of Some b \<Rightarrow> trim b | None \<Rightarrow> []) in
      \<lparr>fs_primary = primary, fs_unit = (if b \<noteq> [] then b else ''units''), fs_secondary = [],
       fs_display = (if b \<noteq> [] then primary @ '' '' @ b else primary)\<rparr>)"

definition class_size :: "intl \<Rightarrow> SymbolMeta \<Rightarrow> jsnum \<Rightarrow> FormattedSize js" where
  "class_size I m units =
     (let cs = contract_of m; precision = (case sm_volumePrecision m of Some p \<Rightarrow> p | None \<Rightarrow> Num 2) in
      if of_class [''FX''] ''forex'' m
      then js_bind (toFixed (if jlt (Num 0) cs then jdiv units cs else units) (Num 4)) (\<lambda>p. Inr (lots_label I m units ''lots'' p))
      else if of_class [''CRYPTO''] ''crypto'' m
      then js_bind (toFixed units precision) (\<lambda>p. Inr (crypto_label m p))
      else if of_class [''STOCKS'', ''STOCK''] ''stocks'' m
      then (let p = toString (jround units) in
            Inr \<lparr>fs_primary = p, fs_unit = ''shares'', fs_secondary = [], fs_display = p @ '' shares''\<rparr>)
      else if (of_class [''INDICES'', ''INDEX''] ''indices'' m \<or> of_class [''METALS'', ''METAL''] ''metals'' m \<or>
               of_class [''COMMODITIES'', ''COMMODITY''] ''commodities'' m) \<and> jlt (Num 1) cs
      then js_bind (toFixed (jdiv units cs) precision) (\<lambda>p. Inr (lots_label I m units ''lots'' p))
      else js_bind (toFixed units precision) (\<lambda>p. Inr (lots_label I m units ''units'' p)))"

definition formatPositionSize :: "intl \<Rightarrow> num_text \<Rightarrow> SymbolMeta option \<Rightarrow> FormattedSize js" where
  "formatPositionSize I raw symbol =
     (let units = num_text_number raw in
      if \<not> isFinite units then Inr (fallbackFormatted I raw)
      else case symbol of
          None \<Rightarrow> Inr (fallbackFormatted I (AsNum units))
        | Some m \<Rightarrow> class_size I m units)"

section \<open>Prices\<close>

definition safe_digits :: "jsnum option \<Rightarrow> jsnum option \<Rightarrow> jsnum" where
  "safe_digits pricePrecision digits =
     (let precision = (case pricePrecision of Some p \<Rightarrow> p | None \<Rightarrow> (case digits of Some d \<Rightarrow> d | None \<Rightarrow> Num 2))
      in jmax (Num 0) (jmin (Num 16) (num_or (jfloor precision) (Num 2))))"

definition formatSymbolPrice :: "num_text option \<Rightarrow> jsnum option \<Rightarrow> jsnum option \<Rightarrow> string js" where
  "formatSymbolPrice price pricePrecision digits =
     (case price of
        None \<Rightarrow> Inr em_dash
      | Some v \<Rightarrow>
          if v = AsText [] then Inr em_dash
          else let num = num_text_number v in
            if \<not> isFinite num then Inr em_dash
            else toFixed num (safe_digits pricePrecision digits))"

section \<open>Names of transactions\<close>

definition capitalize :: "string \<Rightarrow> string" where
  "capitalize t = toUpperCase (take 1 t) @ drop 1 t"

definition transaction_names :: "(string \<times> string) list" where
  "transaction_names = [(''fee'', ''Trading fee''), (''swap'', ''Swap''), (''margin_lock'', ''Margin lock (cash)''),
     (''margin_unlock'', ''Margin unlock (cash)''), (''bonus_margin_lock'', ''Margin lock (bonus)''),
     (''bonus_margin_release'', ''Margin release (bonus)''), (''affiliate_commission'', ''Affiliate commission''),
     (''pnl_credit'', ''Realized profit''), (''pnl_debit'', ''Realized loss''), (''bonus_grant'', ''Bonus grant''),
     (''bonus_revoke'', ''Bonus revoke''), (''bonus_loss_absorb'', ''Bonus loss absorb'')]"

definition transactionPrimaryLabel :: "string \<Rightarrow> string" where
  "transactionPrimaryLabel type =
     (let t = toLowerCase type in case map_of transaction_names t of Some n \<Rightarrow> n | None \<Rightarrow> capitalize t)"

record FeeSwapMethodDetails =
  md_kind :: "string option"
  md_symbol :: "string option"
  md_refund :: bool

definition feeSwapSubtitle :: "string \<Rightarrow> FeeSwapMethodDetails \<Rightarrow> string" where
  "feeSwapSubtitle type md =
     (let t = toLowerCase type in
      if t = ''fee'' then
        (if md_refund md then ''Fee refund''
         else if truthy (md_symbol md) then ''On '' @ the (md_symbol md) @ '' order'' else ''Order fee'')
      else if t = ''swap'' then
        (if md_kind md = Some ''swap_settlement''
         then (if truthy (md_symbol md) then ''On closed '' @ the (md_symbol md) @ '' position''
               else ''Swap settlement on closed position'')
         else ''Financing / swap'')
      else [])"

section \<open>Times\<close>

text \<open>A date as its time value; an invalid one is \<open>None\<close>. \<open>date_text\<close> is the calendar date in the zone.\<close>

definition formatRelative :: "(jsnum \<Rightarrow> string) \<Rightarrow> jsnum option \<Rightarrow> jsnum \<Rightarrow> string" where
  "formatRelative date_text d now =
     (case d of
        None \<Rightarrow> em_dash
      | Some t \<Rightarrow>
          let diffSec = jround (jdiv (jsub now t) (Num 1000)) in
          if jlt diffSec (Num 60) then ''just now''
          else if jlt diffSec (Num 3600) then toString (jfloor (jdiv diffSec (Num 60))) @ ''m ago''
          else if jlt diffSec (Num 86400) then toString (jfloor (jdiv diffSec (Num 3600))) @ ''h ago''
          else if jlt diffSec (Num (7 * 86400)) then toString (jfloor (jdiv diffSec (Num 86400))) @ ''d ago''
          else date_text t)"

text \<open>
  \<open>wall t\<close>: the time value whose UTC fields are the fields the zone's clock shows at \<open>t\<close>, which is how
  \<open>getUtcOffsetLabelMinutes\<close> reads the zone. The clock time asked for is the time value with its fields.
\<close>

definition getUtcOffsetMinutes :: "(jsnum \<Rightarrow> jsnum) \<Rightarrow> jsnum \<Rightarrow> jsnum" where
  "getUtcOffsetMinutes wall t = jdiv (jsub (wall t) t) (Num 60000)"

definition fromZonedWallClock :: "(jsnum \<Rightarrow> jsnum) \<Rightarrow> jsnum \<Rightarrow> jsnum" where
  "fromZonedWallClock wall naiveUtc = jsub naiveUtc (jmul (getUtcOffsetMinutes wall naiveUtc) (Num 60000))"

section \<open>Conversion\<close>

text \<open>No conversion between equal currencies, dollars and the two stable coins, however they are written.\<close>

lemma convert_same:
  assumes "money_number a = Some n" "stable_as_usd (toUpperCase c) = stable_as_usd (toUpperCase d)"
  shows "convertAmount a c d rates = Some n"
  using assms by (simp add: convertAmount_def Let_def)

text \<open>With positive rates a larger amount is never shown as a smaller one, and the sign is kept.\<close>

lemma convert_mono:
  assumes "money_number a = Some x" "money_number b = Some y" "jle x y"
    "fx_rate rates (stable_as_usd (toUpperCase c)) = Num r" "0 < r"
    "fx_rate rates (stable_as_usd (toUpperCase d)) = Num q" "0 < q"
  obtains u v where "convertAmount a c d rates = Some u" "convertAmount b c d rates = Some v" "jle u v"
proof -
  consider "stable_as_usd (toUpperCase c) = stable_as_usd (toUpperCase d)"
    | "toUpperCase c \<noteq> toUpperCase d" "stable_as_usd (toUpperCase c) \<noteq> stable_as_usd (toUpperCase d)"
    by metis
  then show ?thesis
  proof cases
    case 1 then show ?thesis using assms(1-3) that by (simp add: convert_same)
  next
    case 2
    have "jle (jdiv (jmul x (Num q)) (Num r)) (jdiv (jmul y (Num q)) (Num r))"
      using assms(3,5,7) by (intro jdiv_mono_pos jmul_mono_pos)
    then show ?thesis using 2 assms that by (simp add: convertAmount_def Let_def)
  qed
qed

section \<open>Whose currency\<close>

text \<open>The first valid choice of user, group and platform wins, and the fallback only if there is none.\<close>

lemma first_valid_cases:
  "first_valid ok d [(u, OfUser), (g, OfGroup), (p, OfPlatform)] =
     (if \<exists>t. u = Some t \<and> ok t then (the u, OfUser) else if \<exists>t. g = Some t \<and> ok t then (the g, OfGroup)
      else if \<exists>t. p = Some t \<and> ok t then (the p, OfPlatform) else (d, Fallback))"
  by (auto simp: first_valid_def split: option.split)

lemma resolved_currency_valid:
  "resolveEffectiveCurrency I u g p = (c, og) \<Longrightarrow> isValidCurrencyCode I (Some c) \<or> c = ''USD'' \<and> og = Fallback"
  unfolding resolveEffectiveCurrency_def first_valid_cases by (auto split: if_splits)

section \<open>Prices can be read back\<close>

lemma safe_digits_nat: obtains f where "safe_digits p d = Num (of_nat f)" "f \<le> 16"
proof -
  have n: "\<exists>f \<le> 16. jmax (Num 0) (jmin (Num 16) (Num (of_int k))) = Num (of_nat f)" for k :: int
  proof (cases "0 \<le> k \<and> k \<le> 16")
    case True
    then have "jmax (Num 0) (jmin (Num 16) (Num (of_int k))) = Num (of_nat (nat k))"
      by (subst clamp_id) (simp_all add: of_nat_nat)
    then show ?thesis using True by (intro exI [of _ "nat k"]) (simp add: nat_le_iff)
  next
    case False
    then have "jmax (Num 0) (jmin (Num 16) (Num (of_int k))) = (if k < 0 then Num (of_nat 0) else Num (of_nat 16))"
      by (auto simp: jmax_def jmin_def)
    then show ?thesis by (cases "k < 0") (auto intro: exI [of _ 0] exI [of _ 16])
  qed
  define x where "x = jfloor (case p of Some p \<Rightarrow> p | None \<Rightarrow> (case d of Some d \<Rightarrow> d | None \<Rightarrow> Num 2))"
  have x: "(\<exists>k. x = Num (of_int k)) \<or> x = NaN \<or> x = PInf \<or> x = NInf"
    unfolding x_def by (cases "case p of Some p \<Rightarrow> p | None \<Rightarrow> (case d of Some d \<Rightarrow> d | None \<Rightarrow> Num 2)") auto
  have s: "safe_digits p d = jmax (Num 0) (jmin (Num 16) (num_or x (Num 2)))"
    unfolding safe_digits_def x_def Let_def ..
  have "\<exists>f \<le> 16. safe_digits p d = Num (of_nat f)"
  proof (cases "\<exists>k. x = Num (of_int k)")
    case True
    then obtain k where k: "x = Num (of_int k)" by blast
    then show ?thesis using n [of k] n [of 2] by (auto simp: s num_or_def)
  next
    case False
    then show ?thesis using x n [of 2] n [of 16] n [of 0] by (auto simp: s num_or_def num_truthy_def jmin_def jmax_def)
  qed
  then show ?thesis using that by blast
qed

text \<open>A price is shown with at most 16 decimals, never fails to be shown, and the text read back as a number is within half a
  unit of its last decimal of the price.\<close>

theorem price_reads_back:
  assumes "num_text_number v = Num x" "v \<noteq> AsText []"
  shows "\<exists>t f. formatSymbolPrice (Some v) p d = Inr t \<and> f \<le> 16 \<and>
    (\<bar>x\<bar> < 10 ^ 21 \<longrightarrow> (\<exists>q. parseFloat t = to_num q \<and> \<bar>q - x\<bar> \<le> 1 / (2 * 10 ^ f)))"
proof -
  obtain f where f: "safe_digits p d = Num (of_nat f)" "f \<le> 16" by (rule safe_digits_nat)
  have t: "formatSymbolPrice (Some v) p d = Inr (toFixed_nat (Num x) f)"
    using assms f by (simp add: formatSymbolPrice_def toFixed_ok)
  have "\<bar>sgn x * fixed_val \<bar>x\<bar> f - x\<bar> \<le> 1 / (2 * 10 ^ f)"
  proof -
    have "\<bar>fixed_val \<bar>x\<bar> f - \<bar>x\<bar>\<bar> \<le> 1 / (2 * 10 ^ f)" by (rule fixed_val_error) simp
    moreover have "sgn x * fixed_val \<bar>x\<bar> f - x = sgn x * (fixed_val \<bar>x\<bar> f - \<bar>x\<bar>)"
      by (cases "x < 0") (auto simp: sgn_if algebra_simps)
    ultimately show ?thesis by (cases "x = 0") (simp_all add: abs_mult)
  qed
  then show ?thesis using t f(2) toFixed_nat_parse [of x f] by blast
qed

section \<open>Sizes\<close>

text \<open>Sizes in lots of currencies are always shown, with four decimals; a unit count in decimals fails for digits outside 0 to 100.\<close>

lemma fx_size_shown:
  assumes "num_text_number v = Num x" "of_class [''FX''] ''forex'' m"
  shows "\<exists>t. formatPositionSize I v (Some m) = Inr (lots_label I m (Num x) ''lots'' t)"
proof -
  have "toFixed y (Num 4) = Inr (toFixed_nat y 4)" for y using toFixed_ok [of y 4] by simp
  then show ?thesis using assms by (simp add: formatPositionSize_def class_size_def Let_def) blast
qed

lemma contract_positive: "jlt (Num 0) (contract_of m)"
proof -
  define y where "y = num_or (parseFloat (case sm_contractSize m of Some v \<Rightarrow> num_text_string v | None \<Rightarrow> ''1'')) (Num 0)"
  have "y \<noteq> NaN" by (auto simp: y_def num_or_def num_truthy_def)
  then have "jle (Num 0) (jmax (Num 0) y)" by (intro jmax_ge1) simp_all
  then show ?thesis unfolding contract_of_def y_def [symmetric]
    by (cases "jmax (Num 0) y") (auto simp: num_or_def num_truthy_def)
qed

section \<open>Clock times of a zone\<close>

lemma zoned_instant:
  assumes "wall (Num (of_int n)) = Num (of_int (n + m * 60000))" "\<bar>n\<bar> \<le> 2 ^ 52" "\<bar>m\<bar> \<le> 10000"
  shows "fromZonedWallClock wall (Num (of_int n)) = Num (of_int (n - m * 60000))"
proof -
  have i: "to_num (of_int k) = Num (of_int k)" if "\<bar>k\<bar> \<le> 2 ^ 53" for k by (rule to_num_of_int [OF that])
  have d: "jsub (Num (of_int (n + m * 60000))) (Num (of_int n)) = Num (of_int (m * 60000))"
    using assms(2,3) i [of "m * 60000"] by (simp add: jsub_def)
  have "jdiv (Num (of_int (m * 60000))) (Num 60000) = Num (of_int m)" using assms(3) i [of m] by simp
  then have o: "getUtcOffsetMinutes wall (Num (of_int n)) = Num (of_int m)"
    by (simp only: getUtcOffsetMinutes_def assms(1) d)
  have p: "jmul (Num (of_int m)) (Num 60000) = Num (of_int (m * 60000))"
    using assms(3) i [of "m * 60000"] by simp
  have "jsub (Num (of_int n)) (Num (of_int (m * 60000))) = Num (of_int (n - m * 60000))"
    using assms(2,3) i [of "n - m * 60000"] by (simp add: jsub_def)
  then show ?thesis by (simp only: fromZonedWallClock_def o p)
qed

text \<open>A clock time of a zone is turned into the instant at which the zone's clock shows it, provided the zone has the same
  offset then and at the instant the first guess looks at.\<close>

theorem zoned_wall_clock:
  assumes "wall (Num (of_int n)) = Num (of_int (n + m * 60000))"
    "wall (Num (of_int (n - m * 60000))) = Num (of_int (n - m * 60000 + m * 60000))"
    "\<bar>n\<bar> \<le> 2 ^ 52" "\<bar>m\<bar> \<le> 10000"
  shows "wall (fromZonedWallClock wall (Num (of_int n))) = Num (of_int n)"
  using zoned_instant [of wall n m, OF assms(1,3,4)] assms(2) by simp

section \<open>Observations\<close>

text \<open>A symbol whose prices have no decimals is shown with two: zero digits count as missing.\<close>

lemma zero_digits_become_two: "safe_digits (Some (Num 0)) d = Num 2"
  by (simp add: safe_digits_def num_or_def num_truthy_def jmax_def jmin_def)

text \<open>
  A zone five hours behind that moves to four at time zero. Three hours before that, by its clock, is
  a time after the change; it is taken for an instant that the clock shows as an hour later.
\<close>

definition eastern :: "jsnum \<Rightarrow> jsnum" where
  "eastern t = (if jlt t (Num 0) then jsub t (Num 18000000) else jsub t (Num 14400000))"

lemma clock_change_off_by_an_hour:
  "eastern (Num 3600000) = Num (-10800000)" "eastern (fromZonedWallClock eastern (Num (-10800000))) = Num (-7200000)"
proof -
  have i: "to_num (of_int k) = Num (of_int k)" if "\<bar>k\<bar> \<le> 2 ^ 53" for k by (rule to_num_of_int [OF that])
  note is' = i [of "-10800000", simplified] i [of "-28800000", simplified] i [of "-18000000", simplified] i [of "-300", simplified]
    i [of 7200000, simplified] i [of "-7200000", simplified]
  show "eastern (Num 3600000) = Num (-10800000)" by (simp add: eastern_def jsub_def is')
  show "eastern (fromZonedWallClock eastern (Num (-10800000))) = Num (-7200000)"
    by (simp add: fromZonedWallClock_def getUtcOffsetMinutes_def eastern_def jsub_def is')
qed

section \<open>Concrete values\<close>

lemma price_reads_back_witness:
  "\<exists>t q. formatSymbolPrice (Some (AsNum (Num (5 / 4)))) (Some (Num 1)) None = Inr t \<and> parseFloat t = to_num q \<and> \<bar>q - 5 / 4\<bar> \<le> 1"
proof -
  obtain t f where t: "formatSymbolPrice (Some (AsNum (Num (5 / 4)))) (Some (Num 1)) None = Inr t"
    "\<bar>5 / 4 :: rat\<bar> < 10 ^ 21 \<longrightarrow> (\<exists>q. parseFloat t = to_num q \<and> \<bar>q - 5 / 4\<bar> \<le> 1 / (2 * 10 ^ f))"
    using price_reads_back [of "AsNum (Num (5 / 4))" "5 / 4" "Some (Num 1)" None] by (auto simp: num_text_number_def)
  then obtain q where q: "parseFloat t = to_num q" "\<bar>q - 5 / 4\<bar> \<le> 1 / (2 * 10 ^ f)" by auto
  have "(1 :: rat) \<le> 2 * 10 ^ f" using one_le_power [of "10 :: rat" f] by linarith
  then have "(1 :: rat) / (2 * 10 ^ f) \<le> 1" by (simp add: divide_le_eq)
  then have "\<bar>q - 5 / 4\<bar> \<le> 1" using q(2) by linarith
  then show ?thesis using t(1) q(1) by blast
qed

lemma zoned_wall_clock_witness:
  "(\<lambda>t. jadd t (Num 3600000)) (fromZonedWallClock (\<lambda>t. jadd t (Num 3600000)) (Num 7200000)) = Num 7200000"
  using zoned_wall_clock [of "\<lambda>t. jadd t (Num 3600000)" 7200000 60] by (simp add: num_simps)

end
