(* ===== verification/Ai_Reports.thy ===== *)
theory Ai_Reports
  imports Js_Json Ws_Events
begin

text \<open>
  Reports that are written while they are shown (\<open>features/aiReports\<close>): the store of their texts, the
  messages of the socket that extend them, and what the view shows from the store and from the
  fetched report. Times are those of \<open>Date.now()\<close>. Ids, texts and counts are cast from \<open>unknown\<close>
  by the source; they count here as the texts and numbers they become where they are used.
\<close>

section \<open>The store\<close>

datatype AiReportStatus = RPending | RStreaming | RCompleted | RFailed

record ReportStreamState =
  rs_text :: string
  rs_status :: AiReportStatus
  rs_error :: "string option"
  startedAtMs :: "jsnum option"
  completedAtMs :: "jsnum option"

definition emptyStream :: "AiReportStatus \<Rightarrow> ReportStreamState" where
  "emptyStream status = \<lparr>rs_text = [], rs_status = status, rs_error = None, startedAtMs = None, completedAtMs = None\<rparr>"

definition or_empty :: "json option \<Rightarrow> string" where
  "or_empty v = (if present v then show_json (the v) else [])"

definition opt_text :: "json option \<Rightarrow> string option" where
  "opt_text v = (if present v then Some (show_json (the v)) else None)"

definition truthy_text :: "json option \<Rightarrow> string option" where
  "truthy_text v = (case v of Some j \<Rightarrow> if json_truthy j then Some (show_json j) else None | None \<Rightarrow> None)"

definition payload_of :: "json \<Rightarrow> string \<Rightarrow> AiReportStreamPayload option" where
  "payload_of o' type =
     (let reportId = truthy_text (first_field o' [''reportId'', ''report_id'']);
          batch = first_field o' [''bulkBatchId'', ''bulk_batch_id'']
      in if type = ''batch_progress'' then
           (case (truthy_text batch, json_field o' ''completed'', json_field o' ''total'') of
              (Some b, Some c, Some t) \<Rightarrow> if c = JNull \<or> t = JNull then None else Some (AiBatchProgress b (json_number c) (json_number t))
            | _ \<Rightarrow> None)
         else case reportId of
             None \<Rightarrow> None
           | Some r \<Rightarrow>
               if type = ''started''
               then Some (AiStarted r (or_empty (first_field o' [''subjectUserId'', ''subject_user_id''])) (opt_text batch))
               else if type = ''delta'' then Some (AiDelta r (or_empty (json_field o' ''text'')))
               else if type = ''done'' then Some (AiDone r (opt_text batch))
               else if type = ''error''
               then Some (AiError r (case opt_text (first_field o' [''message'', ''error'']) of
                      Some m \<Rightarrow> m | None \<Rightarrow> ''Report generation failed'') (opt_text batch))
               else None)"

definition normalizePayload :: "json \<Rightarrow> AiReportStreamPayload option" where
  "normalizePayload raw =
     (if \<not> is_object raw then None
      else case json_field raw ''type'' of Some (JStr type) \<Rightarrow> payload_of raw type | _ \<Rightarrow> None)"

record ai_reports =
  streams :: "(string, ReportStreamState) jsmap"
  batchProgress :: "(string, jsnum \<times> jsnum) jsmap"

definition ai_init :: ai_reports where
  "ai_init = \<lparr>streams = [], batchProgress = []\<rparr>"

definition initStream :: "string \<Rightarrow> AiReportStatus \<Rightarrow> ai_reports \<Rightarrow> ai_reports" where
  "initStream r status s = s\<lparr>streams := map_set r (emptyStream status) (streams s)\<rparr>"

definition clearStream :: "string \<Rightarrow> ai_reports \<Rightarrow> ai_reports" where
  "clearStream r s = s\<lparr>streams := map_delete r (streams s)\<rparr>"

definition next_stream :: "jsnum \<Rightarrow> AiReportStreamPayload \<Rightarrow> ReportStreamState \<Rightarrow> ReportStreamState" where
  "next_stream now payload prev =
     (case payload of
        AiStarted r u b \<Rightarrow> \<lparr>rs_text = [], rs_status = RStreaming, rs_error = None, startedAtMs = Some now, completedAtMs = None\<rparr>
      | AiDelta r t \<Rightarrow> prev\<lparr>rs_status := RStreaming, rs_text := rs_text prev @ t\<rparr>
      | AiDone r b \<Rightarrow> prev\<lparr>rs_status := RCompleted, completedAtMs := Some now\<rparr>
      | AiError r m b \<Rightarrow> prev\<lparr>rs_status := RFailed, rs_error := Some m, completedAtMs := Some now\<rparr>
      | AiBatchProgress b c t \<Rightarrow> prev)"

definition stream_of :: "ai_reports \<Rightarrow> string \<Rightarrow> ReportStreamState" where
  "stream_of s r = (case map_get (streams s) r of Some x \<Rightarrow> x | None \<Rightarrow> emptyStream RPending)"

definition applyStreamEvent :: "jsnum \<Rightarrow> string \<Rightarrow> AiReportStreamPayload \<Rightarrow> ai_reports \<Rightarrow> ai_reports" where
  "applyStreamEvent now r payload s =
     (case payload of
        AiBatchProgress b c t \<Rightarrow> s
      | _ \<Rightarrow> s\<lparr>streams := map_set r (next_stream now payload (stream_of s r)) (streams s)\<rparr>)"

definition setBatchProgress :: "string \<Rightarrow> jsnum \<Rightarrow> jsnum \<Rightarrow> ai_reports \<Rightarrow> ai_reports" where
  "setBatchProgress b c t s = s\<lparr>batchProgress := map_set b (c, t) (batchProgress s)\<rparr>"

fun report_id :: "AiReportStreamPayload \<Rightarrow> string option" where
  "report_id (AiStarted r u b) = Some r"
| "report_id (AiDelta r t) = Some r"
| "report_id (AiDone r b) = Some r"
| "report_id (AiError r m b) = Some r"
| "report_id (AiBatchProgress b c t) = None"

definition handle_payload :: "jsnum \<Rightarrow> AiReportStreamPayload \<Rightarrow> ai_reports \<Rightarrow> ai_reports" where
  "handle_payload now p s =
     (case p of
        AiBatchProgress b c t \<Rightarrow> setBatchProgress b c t s
      | _ \<Rightarrow> (case report_id p of Some r \<Rightarrow> applyStreamEvent now r p s | None \<Rightarrow> s))"

definition handleWsPayload :: "jsnum \<Rightarrow> json \<Rightarrow> ai_reports \<Rightarrow> ai_reports" where
  "handleWsPayload now raw s = (case normalizePayload raw of None \<Rightarrow> s | Some p \<Rightarrow> handle_payload now p s)"

section \<open>The view\<close>

record AiReportDto =
  rd_content :: string
  rd_status :: AiReportStatus
  rd_error :: "string option"
  rd_createdMs :: jsnum
  rd_completedMs :: "jsnum option"

text \<open>The effect on the status of the fetched report.\<close>

definition pending_effect :: "string \<Rightarrow> AiReportDto option \<Rightarrow> ai_reports \<Rightarrow> ai_reports" where
  "pending_effect r report s =
     (case report of
        Some d \<Rightarrow> if r \<noteq> [] \<and> rd_status d = RPending then initStream r RPending s else s
      | None \<Rightarrow> s)"

definition displayStatus :: "ReportStreamState option \<Rightarrow> AiReportDto option \<Rightarrow> AiReportStatus" where
  "displayStatus stream report =
     (let rest = (case report of Some d \<Rightarrow> rd_status d | None \<Rightarrow> RPending) in
      case stream of
        Some x \<Rightarrow> if rs_status x = RStreaming \<or> rs_text x \<noteq> [] then rs_status x else rest
      | None \<Rightarrow> rest)"

definition displayContent :: "ReportStreamState option \<Rightarrow> AiReportDto option \<Rightarrow> string" where
  "displayContent stream report =
     (let rest = (case report of Some d \<Rightarrow> rd_content d | None \<Rightarrow> []) in
      case stream of Some x \<Rightarrow> if rs_text x \<noteq> [] then rs_text x else rest | None \<Rightarrow> rest)"

definition displayError :: "ReportStreamState option \<Rightarrow> AiReportDto option \<Rightarrow> string option" where
  "displayError stream report =
     (case stream of
        Some x \<Rightarrow> (case rs_error x of Some e \<Rightarrow> Some e | None \<Rightarrow> (case report of Some d \<Rightarrow> rd_error d | None \<Rightarrow> None))
      | None \<Rightarrow> (case report of Some d \<Rightarrow> rd_error d | None \<Rightarrow> None))"

definition formatDurationMs :: "jsnum \<Rightarrow> string" where
  "formatDurationMs ms =
     (let sec = jmax (Num 1) (jround (jdiv ms (Num 1000))) in
      toString sec @ '' second'' @ (if sec = Num 1 then [] else ''s''))"

definition durationLabel :: "ReportStreamState option \<Rightarrow> AiReportDto option \<Rightarrow> string option" where
  "durationLabel stream report =
     (let own = (case stream of
            Some x \<Rightarrow> (case (startedAtMs x, completedAtMs x) of
                (Some a, Some b) \<Rightarrow> if num_truthy a \<and> num_truthy b then Some (formatDurationMs (jsub b a)) else None | _ \<Rightarrow> None)
          | None \<Rightarrow> None)
      in case own of
           Some l \<Rightarrow> Some l
         | None \<Rightarrow> (case report of
               Some d \<Rightarrow> (case rd_completedMs d of
                   Some c \<Rightarrow> (let ms = jsub c (rd_createdMs d) in if jlt (Num 0) ms then Some (formatDurationMs ms) else None)
                 | None \<Rightarrow> None)
             | None \<Rightarrow> None))"

definition isStreaming :: "ReportStreamState option \<Rightarrow> AiReportDto option \<Rightarrow> bool" where
  "isStreaming stream report =
     (let d = displayStatus stream report in
      d = RStreaming \<or> d = RPending \<or>
      d = RCompleted \<and> (case stream of Some x \<Rightarrow> rs_status x = RStreaming | None \<Rightarrow> False))"

section \<open>The text that is shown is the text that was sent\<close>

text \<open>What a client should have of a report after some messages: the pieces since it was last started.\<close>

fun text_sent :: "string \<Rightarrow> string \<Rightarrow> AiReportStreamPayload list \<Rightarrow> string" where
  "text_sent r acc [] = acc"
| "text_sent r acc (AiStarted q u b # ps) = text_sent r (if q = r then [] else acc) ps"
| "text_sent r acc (AiDelta q t # ps) = text_sent r (if q = r then acc @ t else acc) ps"
| "text_sent r acc (p # ps) = text_sent r acc ps"

fun last_status :: "string \<Rightarrow> AiReportStatus \<Rightarrow> AiReportStreamPayload list \<Rightarrow> AiReportStatus" where
  "last_status r st [] = st"
| "last_status r st (AiStarted q u b # ps) = last_status r (if q = r then RStreaming else st) ps"
| "last_status r st (AiDelta q t # ps) = last_status r (if q = r then RStreaming else st) ps"
| "last_status r st (AiDone q b # ps) = last_status r (if q = r then RCompleted else st) ps"
| "last_status r st (AiError q m b # ps) = last_status r (if q = r then RFailed else st) ps"
| "last_status r st (AiBatchProgress b c t # ps) = last_status r st ps"

definition handle_all :: "(jsnum \<times> AiReportStreamPayload) list \<Rightarrow> ai_reports \<Rightarrow> ai_reports" where
  "handle_all ps s = fold (\<lambda>(now, p). handle_payload now p) ps s"

lemma stream_set [simp]: "stream_of (s\<lparr>streams := map_set q x (streams s)\<rparr>) r = (if r = q then x else stream_of s r)"
  by (simp add: stream_of_def map_get_set)

lemma stream_batch [simp]: "stream_of (s\<lparr>batchProgress := b\<rparr>) r = stream_of s r"
  by (simp add: stream_of_def)

lemmas handle_simps = handle_payload_def applyStreamEvent_def next_stream_def setBatchProgress_def

lemma handle_stream:
  "rs_text (stream_of (handle_payload now p s) r) = text_sent r (rs_text (stream_of s r)) [p]"
  "rs_status (stream_of (handle_payload now p s) r) = last_status r (rs_status (stream_of s r)) [p]"
  by (cases p; simp add: handle_simps)+

lemma text_sent_Cons: "text_sent r acc (p # ps) = text_sent r (text_sent r acc [p]) ps"
  by (cases p) simp_all

lemma last_status_Cons: "last_status r st (p # ps) = last_status r (last_status r st [p]) ps"
  by (cases p) simp_all

text \<open>Whatever messages arrive, interleaved over any number of reports, a report's text in the store is the concatenation of
  its pieces since it was last started, and its status is the one its last message gives.\<close>

theorem stream_text_exact:
  "rs_text (stream_of (handle_all ps s) r) = text_sent r (rs_text (stream_of s r)) (map snd ps) \<and>
   rs_status (stream_of (handle_all ps s) r) = last_status r (rs_status (stream_of s r)) (map snd ps)"
proof (induction ps arbitrary: s)
  case (Cons np ps)
  obtain now p where np: "np = (now, p)" by force
  show ?case
    using Cons [of "handle_payload now p s"] text_sent_Cons last_status_Cons
    by (metis (no_types, lifting) np handle_all_def fold_simps(2) case_prod_conv list.map(2) snd_conv handle_stream)
qed (simp add: handle_all_def)

text \<open>Messages that cannot be read change nothing.\<close>

lemma unreadable_ignored: "normalizePayload raw = None \<Longrightarrow> handleWsPayload now raw s = s"
  by (simp add: handleWsPayload_def)

section \<open>Observations\<close>

text \<open>
  An answer of the server that still says \<open>pending\<close> empties a stream that has begun: the pieces so
  far are lost, and the view goes on preferring the truncated text when the report is complete.
\<close>

lemma late_pending_loses_text:
  assumes "r \<noteq> []" "rd_status d = RPending"
  shows "rs_text (stream_of (handle_all [(t1, AiDelta r ''b''), (t2, AiDone r None)]
           (pending_effect r (Some d) (handle_all [(t0, AiStarted r [] None), (t0, AiDelta r ''a'')] ai_init))) r) = ''b''"
    "displayContent (Some \<lparr>rs_text = ''b'', rs_status = RCompleted, rs_error = None, startedAtMs = None, completedAtMs = Some t2\<rparr>)
       (Some (d\<lparr>rd_content := ''ab'', rd_status := RCompleted\<rparr>)) = ''b''"
  using assms by (simp_all add: handle_all_def handle_simps pending_effect_def initStream_def emptyStream_def displayContent_def stream_of_def map_get_set)

text \<open>A piece that arrives after the end reopens the report, and it stays streaming.\<close>

lemma late_piece_reopens: "rs_status (stream_of (handle_all [(t0, AiDone r None), (t1, AiDelta r t)] s) r) = RStreaming"
  by (simp add: handle_all_def handle_simps stream_of_def map_get_set)

end
