(* ===== verification/Bulk_Ops.thy ===== *)
theory Bulk_Ops
  imports Admin_Trading Js_Json
begin

text \<open>
  Bulk operations of administrators (\<open>features/adminBulkOperations\<close>): one direct deposit, or one order,
  for every selected user, sent one after the other; and the form that creates many users at once.
  The first two share selection, run and summary, modelled once over a record of what differs
  (\<open>bulk_kind\<close>). An answer of the server is an event; so is every click while a run is under way. The
  text of an error is the one the page extracts from it.
\<close>

section \<open>Selecting users\<close>

record UserResponse =
  ur_id :: string
  ur_email :: "string option"
  ur_first_name :: "string option"
  ur_last_name :: "string option"

definition field_includes :: "string option \<Rightarrow> string \<Rightarrow> bool" where
  "field_includes f q = (case f of Some t \<Rightarrow> str_includes (toLowerCase t) q | None \<Rightarrow> False)"

definition filteredUsers :: "string \<Rightarrow> UserResponse list \<Rightarrow> UserResponse list" where
  "filteredUsers search us =
     (if trim search = [] then us
      else let q = toLowerCase (trim search) in
        filter (\<lambda>u. field_includes (ur_email u) q \<or> field_includes (ur_first_name u) q \<or> field_includes (ur_last_name u) q) us)"

definition toggleOne :: "string \<Rightarrow> string list \<Rightarrow> string list" where
  "toggleOne i sel = (if i \<in> set sel then set_delete i sel else set_add i sel)"

definition allSelected :: "UserResponse list \<Rightarrow> string list \<Rightarrow> bool" where
  "allSelected us sel =
     (let ids = set_of_list (map ur_id us) in
      0 < length ids \<and> length (filter (\<lambda>u. ur_id u \<in> set sel) us) = length ids)"

definition toggleSelectAll :: "UserResponse list \<Rightarrow> string list \<Rightarrow> string list" where
  "toggleSelectAll us sel =
     (let ids = set_of_list (map ur_id us) in
      if allSelected us sel then foldl (\<lambda>s i. set_delete i s) sel ids
      else foldl (\<lambda>s i. set_add i s) sel ids)"

section \<open>The run\<close>

text \<open>What a kind of run checks before it starts, the form it starts again with, and what it says when all went well.\<close>

record 'f bulk_kind =
  bk_check :: "'f \<Rightarrow> string option"
  bk_reset :: 'f
  bk_done :: "nat \<Rightarrow> 'f \<Rightarrow> string"
  bk_none :: string

record 'f bulk_run =
  br_form :: 'f
  br_left :: "string list"
  br_ok :: nat
  br_failed :: "(string \<times> string) list"

record 'f bulk =
  bu_selected :: "string list"
  bu_form :: 'f
  bu_run :: "'f bulk_run option"
  bu_sent :: "(string \<times> 'f) list"
  bu_toasts :: "(bool \<times> string) list"

definition bulk_init :: "'f bulk_kind \<Rightarrow> 'f bulk" where
  "bulk_init K = \<lparr>bu_selected = [], bu_form = bk_reset K, bu_run = None, bu_sent = [], bu_toasts = []\<rparr>"

definition bulk_toast :: "bool \<Rightarrow> string \<Rightarrow> 'f bulk \<Rightarrow> 'f bulk" where
  "bulk_toast good t b = b\<lparr>bu_toasts := (good, t) # bu_toasts b\<rparr>"

definition summary_text :: "nat \<Rightarrow> (string \<times> string) list \<Rightarrow> string" where
  "summary_text n fs = dec_digits n @ '' succeeded, '' @ dec_digits (length fs) @ '' failed. First failure: '' @ snd (hd fs)"

text \<open>After the last answer.\<close>

definition finish_run :: "'f bulk_kind \<Rightarrow> 'f bulk_run \<Rightarrow> 'f bulk \<Rightarrow> 'f bulk" where
  "finish_run K r b0 =
     (let b = b0\<lparr>bu_run := None\<rparr> in
      if br_failed r = [] then bulk_toast True (bk_done K (br_ok r) (br_form r)) (b\<lparr>bu_form := bk_reset K, bu_selected := []\<rparr>)
      else if 0 < br_ok r then bulk_toast False (summary_text (br_ok r) (br_failed r)) b
      else bulk_toast False (snd (hd (br_failed r))) b)"

text \<open>The next request of a run, or its end.\<close>

definition continue_run :: "'f bulk_kind \<Rightarrow> 'f bulk_run \<Rightarrow> 'f bulk \<Rightarrow> 'f bulk" where
  "continue_run K r b =
     (case br_left r of
        [] \<Rightarrow> finish_run K r b
      | i # is' \<Rightarrow> b\<lparr>bu_run := Some r, bu_sent := bu_sent b @ [(i, br_form r)]\<rparr>)"

text \<open>The button is disabled during a run.\<close>

definition handleProceed :: "'f bulk_kind \<Rightarrow> 'f bulk \<Rightarrow> 'f bulk" where
  "handleProceed K b =
     (if bu_run b \<noteq> None then b
      else case bk_check K (bu_form b) of
          Some e \<Rightarrow> bulk_toast False e b
        | None \<Rightarrow>
            if bu_selected b = [] then bulk_toast False (bk_none K) b
            else continue_run K \<lparr>br_form = bu_form b, br_left = bu_selected b, br_ok = 0, br_failed = []\<rparr> b)"

text \<open>The answer to the request that is under way: \<open>None\<close> for success, or the reason.\<close>

definition answered :: "'f bulk_kind \<Rightarrow> string option \<Rightarrow> 'f bulk \<Rightarrow> 'f bulk" where
  "answered K a b =
     (case bu_run b of
        None \<Rightarrow> b
      | Some r \<Rightarrow>
          (case br_left r of
             [] \<Rightarrow> b
           | i # is' \<Rightarrow> continue_run K
               (case a of
                  None \<Rightarrow> r\<lparr>br_left := is', br_ok := Suc (br_ok r)\<rparr>
                | Some reason \<Rightarrow> r\<lparr>br_left := is', br_failed := br_failed r @ [(i, reason)]\<rparr>) b))"

datatype 'f bulk_event =
    Proceed | Answer "string option" | Toggle string | ToggleAll "UserResponse list" | ClearSelection | EditForm 'f

fun bulk_do :: "'f bulk_kind \<Rightarrow> 'f bulk_event \<Rightarrow> 'f bulk \<Rightarrow> 'f bulk" where
  "bulk_do K Proceed b = handleProceed K b"
| "bulk_do K (Answer a) b = answered K a b"
| "bulk_do K (Toggle i) b = b\<lparr>bu_selected := toggleOne i (bu_selected b)\<rparr>"
| "bulk_do K (ToggleAll us) b = b\<lparr>bu_selected := toggleSelectAll us (bu_selected b)\<rparr>"
| "bulk_do K ClearSelection b = b\<lparr>bu_selected := []\<rparr>"
| "bulk_do K (EditForm f) b = b\<lparr>bu_form := f\<rparr>"

section \<open>Deposits\<close>

record deposit_form =
  df_amount :: string
  df_note :: string

definition deposit_check :: "deposit_form \<Rightarrow> string option" where
  "deposit_check f =
     (let n = parseFloat (df_amount f) in
      if \<not> isFinite n \<or> jle n (Num 0) then Some ''Please enter a valid amount greater than 0'' else None)"

definition plural :: "nat \<Rightarrow> string" where
  "plural n = (if n = 1 then [] else ''s'')"

definition deposit_kind :: "(jsnum \<Rightarrow> string) \<Rightarrow> deposit_form bulk_kind" where
  "deposit_kind formatMoney =
     \<lparr>bk_check = deposit_check, bk_reset = \<lparr>df_amount = [], df_note = []\<rparr>,
      bk_done = (\<lambda>n f. dec_digits n @ '' deposit'' @ plural n @ '' of '' @ formatMoney (parseFloat (df_amount f)) @ '' applied successfully.''),
      bk_none = ''Please select at least one user''\<rparr>"

text \<open>The body of one request.\<close>

definition deposit_request :: "string \<times> deposit_form \<Rightarrow> string \<times> jsnum \<times> string option" where
  "deposit_request s = (case s of (i, f) \<Rightarrow>
     (i, parseFloat (df_amount f), if trim (df_note f) \<noteq> [] then Some (trim (df_note f)) else None))"

section \<open>Orders\<close>

record order_form =
  of_symbolId :: string
  of_side :: OrderSide
  of_orderType :: OrderType
  of_size :: jsnum
  of_price :: "jsnum option"
  of_stopPrice :: "jsnum option"
  of_timeInForce :: TimeInForce
  of_stopLoss :: "jsnum option"
  of_takeProfit :: "jsnum option"

definition DEFAULT_ORDER_FORM :: order_form where
  "DEFAULT_ORDER_FORM = \<lparr>of_symbolId = [], of_side = BUY, of_orderType = MARKET, of_size = Num 0, of_price = None,
     of_stopPrice = None, of_timeInForce = GTC, of_stopLoss = None, of_takeProfit = None\<rparr>"

definition missing_price :: "jsnum option \<Rightarrow> bool" where
  "missing_price p = (case p of None \<Rightarrow> True | Some x \<Rightarrow> jle x (Num 0))"

definition order_check :: "order_form \<Rightarrow> string option" where
  "order_check f =
     (if of_symbolId f = [] \<or> jle (of_size f) (Num 0) then Some ''Please fill in Symbol and Size''
      else if (of_orderType f = LIMIT \<or> of_orderType f = STOP_LIMIT) \<and> missing_price (of_price f)
      then Some ''Please enter a limit price''
      else if (of_orderType f = STOP \<or> of_orderType f = STOP_LIMIT) \<and> missing_price (of_stopPrice f)
      then Some ''Please enter a stop price''
      else None)"

definition canSubmit :: "order_form \<Rightarrow> string list \<Rightarrow> bool" where
  "canSubmit f sel \<longleftrightarrow> of_symbolId f \<noteq> [] \<and> jlt (Num 0) (of_size f) \<and>
     (if of_orderType f \<noteq> LIMIT \<and> of_orderType f \<noteq> STOP_LIMIT then True
      else jlt (Num 0) (case of_price f of Some x \<Rightarrow> x | None \<Rightarrow> Num 0)) \<and>
     (if of_orderType f \<noteq> STOP \<and> of_orderType f \<noteq> STOP_LIMIT then True
      else jlt (Num 0) (case of_stopPrice f of Some x \<Rightarrow> x | None \<Rightarrow> Num 0)) \<and> sel \<noteq> []"

definition order_kind :: "order_form bulk_kind" where
  "order_kind = \<lparr>bk_check = order_check, bk_reset = DEFAULT_ORDER_FORM,
     bk_done = (\<lambda>n f. dec_digits n @ '' order'' @ plural n @ '' created successfully.''),
     bk_none = ''Please select at least one user''\<rparr>"

definition order_request :: "string \<times> order_form \<Rightarrow> string \<times> order_form" where
  "order_request s = s"

text \<open>The fields of the form: a number that cannot be read, or zero, is no price.\<close>

definition typed_size :: "string \<Rightarrow> jsnum" where
  "typed_size t = num_or (parseFloat t) (Num 0)"

definition typed_price :: "string \<Rightarrow> jsnum option" where
  "typed_price t = (let n = parseFloat t in if num_truthy n then Some n else None)"

section \<open>Creating users\<close>

record user_config =
  uc_count :: jsnum
  uc_usernamePrefix :: string
  uc_emailDomain :: string
  uc_password :: string
  uc_firstNamePrefix :: string
  uc_lastName :: string
  uc_startingNumber :: jsnum
  uc_groupId :: string
  uc_accountMode :: string
  uc_balanceEnabled :: bool
  uc_balanceAmount :: jsnum
  uc_balanceFee :: jsnum
  uc_balanceReference :: string

definition defaultConfig :: user_config where
  "defaultConfig = \<lparr>uc_count = Num 0, uc_usernamePrefix = [], uc_emailDomain = [], uc_password = [], uc_firstNamePrefix = ''User'',
     uc_lastName = ''Test'', uc_startingNumber = Num 1, uc_groupId = [], uc_accountMode = ''hedging'', uc_balanceEnabled = False,
     uc_balanceAmount = Num 0, uc_balanceFee = Num 0, uc_balanceReference = []\<rparr>"

definition user_count :: "user_config \<Rightarrow> jsnum" where
  "user_count c = jmax (Num 0) (num_or (uc_count c) (Num 0))"

definition or_text :: "string \<Rightarrow> string \<Rightarrow> string" where
  "or_text a d = (if a \<noteq> [] then a else d)"

text \<open>\<open>padStart(3, '0')\<close>.\<close>

definition pad3 :: "string \<Rightarrow> string" where
  "pad3 t = replicate (3 - length t) (CHR ''0'') @ t"

definition preview_user :: "user_config \<Rightarrow> nat \<Rightarrow> string \<times> string \<times> string \<times> string" where
  "preview_user c i =
     (let n = jadd (uc_startingNumber c) (Num (of_nat i));
          username = trim (or_text (uc_usernamePrefix c) ''user'') @ pad3 (toString n)
      in (username, username @ ''@'' @ trim (or_text (uc_emailDomain c) ''example.com''),
          trim (or_text (uc_firstNamePrefix c) ''User'') @ toString n, trim (or_text (uc_lastName c) ''Test'')))"

definition previewUsers :: "user_config \<Rightarrow> (string \<times> string \<times> string \<times> string) list" where
  "previewUsers c =
     (if jle (user_count c) (Num 0) \<or> jlt (Num 10) (user_count c) then []
      else map (preview_user c) [0..<(case trunc_num (jmin (user_count c) (Num 5)) of Some k \<Rightarrow> nat k | None \<Rightarrow> 0)])"

definition validate :: "(jsnum \<Rightarrow> string) \<Rightarrow> jsnum \<Rightarrow> user_config \<Rightarrow> string option" where
  "validate grouped' maxUsers c =
     (if jle (user_count c) (Num 0) then Some ''Please enter a valid number of users to create''
      else if jlt maxUsers (user_count c) then Some (''Maximum '' @ grouped' maxUsers @ '' users can be created at once'')
      else if trim (uc_usernamePrefix c) = [] then Some ''Username prefix is required''
      else if trim (uc_emailDomain c) = [] then Some ''Email domain is required''
      else if length (uc_password c) < 8 then Some ''Password must be at least 8 characters''
      else if \<not> list_ex is_digit (uc_password c) then Some ''Password must contain at least one number''
      else if uc_balanceEnabled c then
        (if jle (uc_balanceAmount c) (Num 0) then Some ''Initial balance amount must be greater than 0''
         else if jlt (uc_balanceAmount c) (num_or (uc_balanceFee c) (Num 0)) then Some ''Fee cannot exceed amount''
         else None)
      else None)"

record user_request =
  uq_count :: jsnum
  uq_username_prefix :: string
  uq_email_domain :: string
  uq_password :: string
  uq_first_name_prefix :: "string option"
  uq_last_name :: "string option"
  uq_starting_number :: jsnum
  uq_group_id :: "string option"
  uq_account_mode :: string
  uq_balance_enabled :: bool
  uq_balance_amount :: "jsnum option"
  uq_balance_fee :: "jsnum option"
  uq_balance_reference :: "string option"

definition some_text :: "string \<Rightarrow> string option" where
  "some_text t = (if t \<noteq> [] then Some t else None)"

definition some_num :: "jsnum \<Rightarrow> jsnum option" where
  "some_num n = (if num_truthy n then Some n else None)"

definition user_payload :: "user_config \<Rightarrow> user_request" where
  "user_payload c =
     \<lparr>uq_count = user_count c, uq_username_prefix = trim (uc_usernamePrefix c), uq_email_domain = trim (uc_emailDomain c),
      uq_password = uc_password c, uq_first_name_prefix = some_text (trim (uc_firstNamePrefix c)),
      uq_last_name = some_text (trim (uc_lastName c)), uq_starting_number = uc_startingNumber c,
      uq_group_id = some_text (uc_groupId c), uq_account_mode = uc_accountMode c, uq_balance_enabled = uc_balanceEnabled c,
      uq_balance_amount = (if uc_balanceEnabled c then some_num (uc_balanceAmount c) else None),
      uq_balance_fee = (if uc_balanceEnabled c then some_num (uc_balanceFee c) else None),
      uq_balance_reference = some_text (trim (uc_balanceReference c))\<rparr>"

definition handleCreate :: "(jsnum \<Rightarrow> string) \<Rightarrow> jsnum \<Rightarrow> user_config \<Rightarrow> string + user_request" where
  "handleCreate grouped' maxUsers c =
     (case validate grouped' maxUsers c of Some e \<Rightarrow> Inl e | None \<Rightarrow> Inr (user_payload c))"

text \<open>The downloaded table.\<close>

record user_result =
  ut_username :: string
  ut_email :: string
  ut_success :: bool
  ut_userId :: "string option"
  ut_accountId :: "string option"
  ut_error :: "string option"

definition text_of_opt :: "string option \<Rightarrow> string" where
  "text_of_opt t = (case t of Some s \<Rightarrow> s | None \<Rightarrow> [])"

definition csv_row :: "user_result \<Rightarrow> string" where
  "csv_row r = ut_username r @ '','' @ ut_email r @ '','' @ (if ut_success r then ''success'' else ''failed'') @ '','' @
     text_of_opt (ut_userId r) @ '','' @ text_of_opt (ut_accountId r) @ '','' @
     replace_char (CHR '','') (CHR '';'') (text_of_opt (ut_error r))"

definition results_csv :: "user_result list \<Rightarrow> string" where
  "results_csv rs = join_with [CHR 10] (''username,email,success,userId,accountId,error'' # map csv_row rs)"

section \<open>Every selected user is served once\<close>

text \<open>While a run is under way: one request is unanswered, the rest of its users wait, and each request so far was counted.\<close>

definition run_state :: "'f \<Rightarrow> string list \<Rightarrow> string list \<Rightarrow> (string \<times> 'f) list \<Rightarrow> 'f bulk \<Rightarrow> bool" where
  "run_state f done' left sent0 b \<longleftrightarrow>
     (\<exists>r. bu_run b = Some r \<and> br_form r = f \<and> br_left r = left \<and> br_ok r + length (br_failed r) = length done' \<and>
        bu_sent b = sent0 @ map (\<lambda>i. (i, f)) (done' @ [hd left]))"

lemma continue_running:
  "br_left r = i # is' \<Longrightarrow> br_form r = f \<Longrightarrow> br_ok r + length (br_failed r) = length done' \<Longrightarrow>
     bu_sent b = sent0 @ map (\<lambda>i. (i, f)) done' \<Longrightarrow> run_state f done' (i # is') sent0 (continue_run K r b)"
  by (simp add: run_state_def continue_run_def)

lemma finish_sent: "bu_sent (finish_run K r b) = bu_sent b" "bu_run (finish_run K r b) = None"
  by (simp_all add: finish_run_def bulk_toast_def Let_def)

definition is_answer :: "'f bulk_event \<Rightarrow> bool" where
  "is_answer e = (case e of Answer a \<Rightarrow> True | _ \<Rightarrow> False)"

lemma run_answered:
  assumes "run_state f done' (i # is') sent0 b"
  shows "if is' = [] then bu_run (answered K a b) = None \<and> bu_sent (answered K a b) = sent0 @ map (\<lambda>i. (i, f)) (done' @ [i])
    else run_state f (done' @ [i]) is' sent0 (answered K a b)"
proof -
  obtain r where r: "bu_run b = Some r" "br_form r = f" "br_left r = i # is'"
    "br_ok r + length (br_failed r) = length done'" "bu_sent b = sent0 @ map (\<lambda>i. (i, f)) (done' @ [i])"
    using assms by (auto simp: run_state_def)
  show ?thesis
  proof (cases is')
    case Nil
    then show ?thesis using r by (cases a) (simp_all add: answered_def continue_run_def finish_sent)
  next
    case (Cons j js)
    then show ?thesis using r
      by (cases a) (auto simp: answered_def intro!: continue_running)
  qed
qed

lemma run_other: assumes "run_state f d l sent0 b" "\<not> is_answer e" shows "run_state f d l sent0 (bulk_do K e b)"
  using assms by (cases e) (auto simp: run_state_def is_answer_def handleProceed_def)

lemma run_to_end:
  assumes "run_state f done' left sent0 b" "left \<noteq> []" "length (filter is_answer es) = length left" "is_answer (last es)"
  shows "bu_run (fold (bulk_do K) es b) = None \<and> bu_sent (fold (bulk_do K) es b) = sent0 @ map (\<lambda>i. (i, f)) (done' @ left)"
  using assms
proof (induction es arbitrary: done' left b)
  case (Cons e es)
  obtain i is' where left: "left = i # is'" using Cons.prems(2) by (cases left) auto
  show ?case
  proof (cases "is_answer e")
    case False
    then have "es \<noteq> []" using Cons.prems(4) by auto
    then show ?thesis using Cons.IH [OF run_other [OF Cons.prems(1) False]] Cons.prems False by simp
  next
    case True
    then obtain a where e: "e = Answer a" by (cases e) (auto simp: is_answer_def)
    note step = run_answered [OF Cons.prems(1) [unfolded left], of K a]
    show ?thesis
    proof (cases is')
      case Nil
      have "es = []"
      proof (rule ccontr)
        assume "es \<noteq> []"
        then have "last es \<in> set (filter is_answer es)" using Cons.prems(4) by simp
        then show False using Cons.prems(3) True Nil left by (auto simp: filter_empty_conv)
      qed
      then show ?thesis using step Nil by (simp add: e left)
    next
      case (Cons j js)
      then have r: "run_state f (done' @ [i]) is' sent0 (bulk_do K e b)" using step by (simp add: e)
      have n: "length (filter is_answer es) = length is'" using Cons.prems(3) True left by simp
      then have "es \<noteq> []" using \<open>is' = j # js\<close> by auto
      then show ?thesis using Cons.IH [OF r] n \<open>is' = j # js\<close> Cons.prems(4) by (simp add: left)
    qed
  qed
qed simp

text \<open>C39. A bulk run sends exactly one request to every user that was selected when it was started, all with the form of that
  moment, whatever is clicked meanwhile and however the server answers; then the next run can start.\<close>

theorem bulk_serves_each_once:
  assumes "bu_run b = None" "bk_check K (bu_form b) = None" "bu_selected b \<noteq> []"
    "length (filter is_answer es) = length (bu_selected b)" "is_answer (last es)"
  defines "b' \<equiv> fold (bulk_do K) (Proceed # es) b"
  shows "bu_run b' = None \<and> bu_sent b' = bu_sent b @ map (\<lambda>i. (i, bu_form b)) (bu_selected b)"
proof -
  obtain i is' where s: "bu_selected b = i # is'" using assms(3) by (cases "bu_selected b") auto
  have "run_state (bu_form b) [] (bu_selected b) (bu_sent b) (handleProceed K b)"
    using assms(1-3) by (simp add: handleProceed_def s continue_running)
  from run_to_end [OF this assms(3-5), of K] show ?thesis by (simp add: b'_def)
qed

text \<open>The deposits of a run are for the amount that was checked: positive and finite.\<close>

lemma deposits_positive:
  assumes "bk_check (deposit_kind m) f = None" "deposit_request (i, f) = (j, amount, note)"
  shows "j = i \<and> isFinite amount \<and> jlt (Num 0) amount"
proof -
  have n: "isFinite (parseFloat (df_amount f))" "\<not> jle (parseFloat (df_amount f)) (Num 0)"
    using assms(1) by (auto simp: deposit_kind_def deposit_check_def Let_def split: if_splits)
  then have "parseFloat (df_amount f) \<noteq> NaN" by auto
  then show ?thesis using n assms(2) by (auto simp: deposit_request_def not_jle_iff split: if_splits)
qed

text \<open>What the order button allows the handler accepts.\<close>

lemma canSubmit_checked: "canSubmit f sel \<Longrightarrow> order_check f = None"
proof -
  have p: "jlt (Num 0) (case p of Some x \<Rightarrow> x | None \<Rightarrow> Num 0) \<Longrightarrow> \<not> missing_price p" for p
    by (cases p) (auto simp: missing_price_def jle_def jeq_def dest: jlt_trans)
  have "jlt (Num 0) x \<Longrightarrow> \<not> jle x (Num 0)" for x by (auto simp: jle_def jeq_def dest: jlt_trans)
  then show "canSubmit f sel \<Longrightarrow> order_check f = None"
    by (auto simp: canSubmit_def order_check_def p split: if_splits)
qed

section \<open>Accepted users\<close>

lemma validate_None:
  assumes "validate g m c = None"
  shows "jlt (Num 0) (uq_count (user_payload c)) \<and> \<not> jlt m (uq_count (user_payload c)) \<and> uq_username_prefix (user_payload c) \<noteq> [] \<and>
    uq_email_domain (user_payload c) \<noteq> [] \<and> 8 \<le> length (uq_password (user_payload c)) \<and> list_ex is_digit (uq_password (user_payload c))"
proof -
  have "num_or (uc_count c) (Num 0) \<noteq> NaN" by (auto simp: num_or_def num_truthy_def)
  then have "user_count c \<noteq> NaN" by (auto simp: user_count_def jmax_def)
  then have "jlt (Num 0) (user_count c)" if "\<not> jle (user_count c) (Num 0)"
    using that by (simp add: not_jle_iff)
  then show ?thesis using assms by (auto simp: validate_def user_payload_def split: if_splits)
qed

section \<open>The table's columns\<close>

text \<open>A row has its six columns, provided no field but the error has a comma.\<close>

lemma csv_row_columns:
  assumes "CHR '','' \<notin> set (ut_username r @ ut_email r @ text_of_opt (ut_userId r) @ text_of_opt (ut_accountId r))"
  shows "split_char (CHR '','') (csv_row r) =
    [ut_username r, ut_email r, if ut_success r then ''success'' else ''failed'', text_of_opt (ut_userId r), text_of_opt (ut_accountId r),
     replace_char (CHR '','') (CHR '';'') (text_of_opt (ut_error r))]"
proof -
  have "CHR '','' \<notin> set (replace_char (CHR '','') (CHR '';'') t)" for t by (auto simp: replace_char_def)
  then show ?thesis using assms by (auto simp: csv_row_def split_char_append split_char_none)
qed

section \<open>Observations\<close>

text \<open>
  After a run that failed for some users the selection still holds the others, so that starting it
  again pays them a second time: here \<open>a\<close> is paid twice when \<open>b\<close> is retried.
\<close>

definition two_users :: "deposit_form bulk" where
  "two_users = \<lparr>bu_selected = [''a'', ''b''], bu_form = \<lparr>df_amount = ''5'', df_note = []\<rparr>, bu_run = None, bu_sent = [], bu_toasts = []\<rparr>"

lemma five_ok: "deposit_check \<lparr>df_amount = ''5'', df_note = []\<rparr> = None"
  by (simp add: deposit_check_def parse_float_simps num_simps)

lemma retry_pays_twice:
  "map fst (bu_sent (fold (bulk_do (deposit_kind toString))
     [Proceed, Answer None, Answer (Some ''timeout''), Proceed, Answer None, Answer None] two_users)) = [''a'', ''b'', ''a'', ''b'']"
  by (simp add: handleProceed_def two_users_def deposit_kind_def five_ok continue_run_def answered_def finish_run_def bulk_toast_def Let_def)

text \<open>A comma in a user's name or address moves the columns of the downloaded table.\<close>

lemma comma_moves_columns:
  "length (split_char (CHR '','') (csv_row \<lparr>ut_username = ''a,b'', ut_email = ''e'', ut_success = True, ut_userId = None,
     ut_accountId = None, ut_error = None\<rparr>)) = 7"
  by code_simp

section \<open>A concrete run\<close>

lemma bulk_serves_each_once_witness:
  "map fst (bu_sent (fold (bulk_do (deposit_kind toString))
     [Proceed, Toggle ''b'', Answer None, ClearSelection, Answer (Some ''timeout'')] two_users)) = [''a'', ''b'']"
  using bulk_serves_each_once [of two_users "deposit_kind toString" "[Toggle ''b'', Answer None, ClearSelection, Answer (Some ''timeout'')]"]
  by (simp add: two_users_def deposit_kind_def five_ok is_answer_def)

end
