(* ===== verification/Metrics_Board.thy ===== *)
theory Metrics_Board
  imports Js_Json Machine Bulk_Ops
begin

text \<open>
  The board of account figures of several users (\<open>MultiUserMetricsModal.tsx\<close>): boxes that show one
  user each, the requests that fill them, refreshing all of them, and the search for users below a
  margin level. Requests under way are kept in a list and answered one by one; an answer is applied
  to the box that asked, by its id. A request that fails gives the default figures.
\<close>

section \<open>Figures of a user\<close>

record UserMetrics =
  um_balance :: jsnum
  um_equity :: jsnum
  um_margin :: jsnum
  um_freeMargin :: jsnum
  um_marginLevel :: "jsnum option"
  um_bonus :: jsnum
  um_realizedPnl :: jsnum
  um_unrealizedPnl :: jsnum

definition defaultMetrics :: UserMetrics where
  "defaultMetrics = \<lparr>um_balance = Num 0, um_equity = Num 0, um_margin = Num 0, um_freeMargin = Num 0, um_marginLevel = None,
     um_bonus = Num 0, um_realizedPnl = Num 0, um_unrealizedPnl = Num 0\<rparr>"

definition number_or_0 :: "json \<Rightarrow> string list \<Rightarrow> jsnum" where
  "number_or_0 r ks = (case first_field r ks of Some v \<Rightarrow> json_number v | None \<Rightarrow> Num 0)"

definition read_metrics :: "json \<Rightarrow> UserMetrics" where
  "read_metrics r =
     \<lparr>um_balance = number_or_0 r [''balance''], um_equity = number_or_0 r [''equity''],
      um_margin = number_or_0 r [''marginUsed'', ''margin''], um_freeMargin = number_or_0 r [''freeMargin'', ''free_margin''],
      um_marginLevel = (case json_field r ''marginLevel'' of
          Some v \<Rightarrow> if v \<noteq> JNull \<and> v \<noteq> JStr ''inf'' then Some (json_number v) else None | None \<Rightarrow> None),
      um_bonus = number_or_0 r [''bonus''], um_realizedPnl = number_or_0 r [''realizedPnl'', ''realized_pnl''],
      um_unrealizedPnl = number_or_0 r [''unrealizedPnl'', ''unrealized_pnl'']\<rparr>"

text \<open>The answer of the server, or \<open>None\<close> when the request failed.\<close>

definition fetchUserMetrics :: "json option \<Rightarrow> UserMetrics" where
  "fetchUserMetrics answer = (case answer of Some r \<Rightarrow> read_metrics r | None \<Rightarrow> defaultMetrics)"

section \<open>Boxes\<close>

record box =
  bx_id :: string
  bx_userId :: "string option"
  bx_userName :: "string option"
  bx_userEmail :: "string option"
  bx_metrics :: "UserMetrics option"
  bx_loading :: bool

record board_user =
  bd_id :: string
  bd_email :: string
  bd_first :: string
  bd_last :: string

definition user_label :: "board_user \<Rightarrow> string" where
  "user_label u = or_text (trim (bd_first u @ '' '' @ bd_last u)) (bd_email u)"

record board =
  bo_boxes :: "box list"
  bo_dropdown :: "string option"
  bo_search :: string
  bo_pending :: "(string \<times> string) list"
  bo_refreshing :: bool

definition board_init :: board where
  "board_init = \<lparr>bo_boxes = [], bo_dropdown = None, bo_search = [], bo_pending = [], bo_refreshing = False\<rparr>"

definition update_box :: "string \<Rightarrow> (box \<Rightarrow> box) \<Rightarrow> box list \<Rightarrow> box list" where
  "update_box i f bs = map (\<lambda>b. if bx_id b = i then f b else b) bs"

text \<open>The new box's id, from clock and chance, is an argument.\<close>

definition addBox :: "string \<Rightarrow> board \<Rightarrow> board" where
  "addBox i s = s\<lparr>bo_boxes := bo_boxes s @ [\<lparr>bx_id = i, bx_userId = None, bx_userName = None, bx_userEmail = None,
     bx_metrics = None, bx_loading = False\<rparr>]\<rparr>"

definition removeBox :: "string \<Rightarrow> board \<Rightarrow> board" where
  "removeBox i s = s\<lparr>bo_boxes := filter (\<lambda>b. bx_id b \<noteq> i) (bo_boxes s),
     bo_dropdown := (if bo_dropdown s = Some i then None else bo_dropdown s)\<rparr>"

definition openDropdown :: "string \<Rightarrow> board \<Rightarrow> board" where
  "openDropdown i s = s\<lparr>bo_dropdown := Some i, bo_search := []\<rparr>"

definition setBoxUser :: "string \<Rightarrow> board_user option \<Rightarrow> board \<Rightarrow> board" where
  "setBoxUser i user s =
     (case user of
        None \<Rightarrow> s\<lparr>bo_boxes := update_box i (\<lambda>b. b\<lparr>bx_userId := None, bx_userName := None, bx_userEmail := None,
            bx_metrics := None, bx_loading := False\<rparr>) (bo_boxes s), bo_dropdown := None\<rparr>
      | Some u \<Rightarrow> s\<lparr>bo_boxes := update_box i (\<lambda>b. b\<lparr>bx_userId := Some (bd_id u), bx_userName := Some (user_label u),
            bx_userEmail := Some (bd_email u), bx_metrics := None, bx_loading := True\<rparr>) (bo_boxes s), bo_dropdown := None,
            bo_pending := bo_pending s @ [(i, bd_id u)]\<rparr>)"

text \<open>The answer to the \<open>k\<close>-th request under way.\<close>

definition metrics_arrived :: "nat \<Rightarrow> UserMetrics \<Rightarrow> board \<Rightarrow> board" where
  "metrics_arrived k m s =
     s\<lparr>bo_boxes := update_box (fst (bo_pending s ! k)) (\<lambda>b. b\<lparr>bx_metrics := Some m, bx_loading := False\<rparr>) (bo_boxes s),
       bo_pending := take k (bo_pending s) @ drop (Suc k) (bo_pending s)\<rparr>"

text \<open>Refreshing all: the boxes to ask for, the board meanwhile, and the board with all answers.\<close>

definition with_user :: "board \<Rightarrow> (string \<times> string) list" where
  "with_user s = List.map_filter (\<lambda>b. case bx_userId b of Some u \<Rightarrow> Some (bx_id b, u) | None \<Rightarrow> None) (bo_boxes s)"

definition has_user :: "box \<Rightarrow> bool" where
  "has_user b = (case bx_userId b of Some u \<Rightarrow> u \<noteq> [] | None \<Rightarrow> False)"

definition refresh_start :: "board \<Rightarrow> board" where
  "refresh_start s =
     (if with_user s = [] then s
      else s\<lparr>bo_refreshing := True, bo_boxes := map (\<lambda>b. if has_user b then b\<lparr>bx_loading := True\<rparr> else b) (bo_boxes s)\<rparr>)"

definition refresh_done :: "(string \<times> UserMetrics) list \<Rightarrow> board \<Rightarrow> board" where
  "refresh_done results s =
     s\<lparr>bo_boxes := map (\<lambda>b. if has_user b then b\<lparr>bx_loading := False\<rparr> else b)
         (map (\<lambda>b. case map_of results (bx_id b) of Some m \<Rightarrow> b\<lparr>bx_metrics := Some m, bx_loading := False\<rparr> | None \<Rightarrow> b) (bo_boxes s)),
       bo_refreshing := False\<rparr>"

text \<open>What is asked when the board is opened again; these answers leave the spinner alone.\<close>

definition opened_arrived :: "string \<Rightarrow> UserMetrics \<Rightarrow> board \<Rightarrow> board" where
  "opened_arrived i m s = s\<lparr>bo_boxes := update_box i (\<lambda>b. b\<lparr>bx_metrics := Some m\<rparr>) (bo_boxes s)\<rparr>"

definition board_users :: "string \<Rightarrow> board_user list \<Rightarrow> board_user list" where
  "board_users search us =
     (if trim search = [] then us
      else let q = toLowerCase search in
        filter (\<lambda>u. str_includes (toLowerCase (bd_first u @ '' '' @ bd_last u)) q \<or> str_includes (toLowerCase (bd_email u)) q) us)"

section \<open>Users below a margin level\<close>

definition level_of :: "string \<Rightarrow> jsnum \<Rightarrow> jsnum" where
  "level_of t d = num_or (parseFloat t) d"

definition below_level :: "jsnum \<Rightarrow> UserMetrics \<Rightarrow> bool" where
  "below_level threshold m = (case um_marginLevel m of Some l \<Rightarrow> jlt l threshold | None \<Rightarrow> False)"

definition below_users :: "string \<Rightarrow> (board_user \<Rightarrow> UserMetrics) \<Rightarrow> board_user list \<Rightarrow> (board_user \<times> UserMetrics) list" where
  "below_users marginThreshold m us =
     filter (\<lambda>(u, x). below_level (level_of marginThreshold (Num 30)) x) (map (\<lambda>u. (u, m u)) (take 50 us))"

definition handleFindAndAdd :: "string \<Rightarrow> (board_user \<Rightarrow> UserMetrics) \<Rightarrow> board_user list \<Rightarrow> nat" where
  "handleFindAndAdd marginThreshold m us = length (below_users marginThreshold m us)"

definition confirmAddUsers :: "(nat \<Rightarrow> string) \<Rightarrow> string \<Rightarrow> (board_user \<Rightarrow> UserMetrics) \<Rightarrow> board_user list \<Rightarrow> board \<Rightarrow> board" where
  "confirmAddUsers new_id marginThreshold m us s =
     (let below = below_users marginThreshold m us in
      s\<lparr>bo_boxes := map (\<lambda>i. case below ! i of (u, x) \<Rightarrow>
          \<lparr>bx_id = new_id i, bx_userId = Some (bd_id u), bx_userName = Some (user_label u), bx_userEmail = Some (bd_email u),
           bx_metrics = Some x, bx_loading = False\<rparr>) [0..<length below]\<rparr>)"

definition activeCount :: "board \<Rightarrow> nat" where
  "activeCount s = length (filter (\<lambda>b. bx_userId b \<noteq> None) (bo_boxes s))"

definition blinks :: "string \<Rightarrow> box \<Rightarrow> bool" where
  "blinks blinkLevel b = (case bx_metrics b of Some m \<Rightarrow> below_level (level_of blinkLevel (Num 100)) m | None \<Rightarrow> False)"

section \<open>Answers in order\<close>

datatype board_event = AddBox string | RemoveBox string | PickUser string "board_user option" | OpenDropdown string | Arrived nat

text \<open>The answer is the first that is due for its box; \<open>m\<close> gives each user's figures.\<close>

fun board_enabled :: "board_event \<Rightarrow> board \<Rightarrow> bool" where
  "board_enabled (Arrived k) s =
     (k < length (bo_pending s) \<and> fst (bo_pending s ! k) \<notin> fst ` set (take k (bo_pending s)))"
| "board_enabled (AddBox i) s = (i \<notin> bx_id ` set (bo_boxes s))"
| "board_enabled _ s = True"

fun board_do :: "(string \<Rightarrow> UserMetrics) \<Rightarrow> board_event \<Rightarrow> board \<Rightarrow> board" where
  "board_do m (AddBox i) s = addBox i s"
| "board_do m (RemoveBox i) s = removeBox i s"
| "board_do m (PickUser i u) s = setBoxUser i u s"
| "board_do m (OpenDropdown i) s = openDropdown i s"
| "board_do m (Arrived k) s = metrics_arrived k (m (snd (bo_pending s ! k))) s"

definition due :: "string \<Rightarrow> board \<Rightarrow> string list" where
  "due i s = map snd (filter (\<lambda>p. fst p = i) (bo_pending s))"

definition box_ok :: "(string \<Rightarrow> UserMetrics) \<Rightarrow> board \<Rightarrow> box \<Rightarrow> bool" where
  "box_ok m s b \<longleftrightarrow> (\<forall>u. bx_userId b = Some u \<longrightarrow>
     (if due (bx_id b) s = [] then bx_metrics b = Some (m u) \<and> \<not> bx_loading b else last (due (bx_id b) s) = u))"

lemma due_arrived:
  assumes "board_enabled (Arrived k) s" "bo_pending s ! k = (j, u)"
  shows "due i (metrics_arrived k x s) = (if i = j then tl (due i s) else due i s)" "i = j \<Longrightarrow> due i s = u # tl (due i s)"
proof -
  let ?p = "bo_pending s"
  have k: "k < length ?p" "j \<notin> fst ` set (take k ?p)" using assms by auto
  have p: "?p = take k ?p @ (j, u) # drop (Suc k) ?p" using k(1) assms(2) by (metis id_take_nth_drop)
  have n: "filter (\<lambda>p. fst p = j) (take k ?p) = []" using k(2) by (auto simp: filter_empty_conv)
  have d: "due i s = map snd (filter (\<lambda>p. fst p = i) (take k ?p) @ filter (\<lambda>p. fst p = i) ((j, u) # drop (Suc k) ?p))"
    unfolding due_def by (subst p) simp
  have a: "due i (metrics_arrived k x s) = map snd (filter (\<lambda>p. fst p = i) (take k ?p) @ filter (\<lambda>p. fst p = i) (drop (Suc k) ?p))"
    by (simp add: due_def metrics_arrived_def)
  show "due i (metrics_arrived k x s) = (if i = j then tl (due i s) else due i s)" "i = j \<Longrightarrow> due i s = u # tl (due i s)"
    unfolding a d using n by auto
qed

lemma due_pick:
  "due i (setBoxUser j (Some u) s) = due i s @ (if j = i then [bd_id u] else [])" "due i (setBoxUser j None s) = due i s"
  by (simp_all add: due_def setBoxUser_def)

lemma due_other: "due i (addBox j s) = due i s" "due i (removeBox j s) = due i s" "due i (openDropdown j s) = due i s"
  by (simp_all add: due_def addBox_def removeBox_def openDropdown_def)

lemma ok_picked:
  assumes "box_ok m s b"
  shows "box_ok m (setBoxUser i (Some u) s) (if bx_id b = i then b\<lparr>bx_userId := Some (bd_id u), bx_userName := n, bx_userEmail := e,
      bx_metrics := None, bx_loading := True\<rparr> else b)"
    "box_ok m (setBoxUser i None s) (if bx_id b = i then b\<lparr>bx_userId := None, bx_userName := n, bx_userEmail := e,
      bx_metrics := None, bx_loading := False\<rparr> else b)"
  using assms by (simp_all add: box_ok_def due_pick)

lemma ok_arrived:
  assumes "box_ok m s b" "board_enabled (Arrived k) s" "bo_pending s ! k = (j, u)"
  shows "box_ok m (metrics_arrived k x s) (if bx_id b = j then b\<lparr>bx_metrics := Some (m u), bx_loading := False\<rparr> else b)"
proof (cases "bx_id b = j")
  case True
  obtain ds where ds: "due j s = u # ds" using due_arrived(2) [OF assms(2,3) refl] by metis
  have d: "due j (metrics_arrived k x s) = ds" using due_arrived(1) [OF assms(2,3), of j] ds by simp
  show ?thesis using assms(1) True ds d by (cases ds) (simp_all add: box_ok_def)
next
  case False
  then show ?thesis using assms(1) due_arrived(1) [OF assms(2,3), of "bx_id b"] by (simp add: box_ok_def)
qed

lemma update_ok:
  assumes "\<And>b. box_ok m s b \<Longrightarrow> box_ok m s' (if bx_id b = i then f b else b)" "\<forall>b \<in> set bs. box_ok m s b"
  shows "\<forall>b \<in> set (update_box i f bs). box_ok m s' b"
proof
  fix b' assume "b' \<in> set (update_box i f bs)"
  then obtain b where b: "b \<in> set bs" "b' = (if bx_id b = i then f b else b)" by (auto simp: update_box_def)
  show "box_ok m s' b'" unfolding b(2) by (rule assms(1)) (use assms(2) b(1) in blast)
qed

lemma boxes_ok_step:
  assumes "\<forall>b \<in> set (bo_boxes s). box_ok m s b" "board_enabled e s"
  shows "\<forall>b \<in> set (bo_boxes (board_do m e s)). box_ok m (board_do m e s) b"
proof (cases e)
  case (PickUser i u)
  show ?thesis
  proof (cases u)
    case None
    then have "bo_boxes (board_do m e s) = update_box i (\<lambda>b. b\<lparr>bx_userId := None, bx_userName := None, bx_userEmail := None,
        bx_metrics := None, bx_loading := False\<rparr>) (bo_boxes s)" by (simp add: PickUser setBoxUser_def)
    then show ?thesis using update_ok [OF ok_picked(2) assms(1)] by (simp only: PickUser None board_do.simps)
  next
    case (Some v)
    then have "bo_boxes (board_do m e s) = update_box i (\<lambda>b. b\<lparr>bx_userId := Some (bd_id v), bx_userName := Some (user_label v),
        bx_userEmail := Some (bd_email v), bx_metrics := None, bx_loading := True\<rparr>) (bo_boxes s)" by (simp add: PickUser setBoxUser_def)
    then show ?thesis using update_ok [OF ok_picked(1) assms(1)] by (simp only: PickUser Some board_do.simps)
  qed
next
  case (Arrived k)
  obtain j u where j: "bo_pending s ! k = (j, u)" by force
  have d: "board_do m e s = metrics_arrived k (m u) s" by (simp add: Arrived j)
  have b: "bo_boxes (metrics_arrived k (m u) s) = update_box j (\<lambda>b. b\<lparr>bx_metrics := Some (m u), bx_loading := False\<rparr>) (bo_boxes s)"
    by (simp add: j metrics_arrived_def)
  show ?thesis unfolding d b
    by (rule update_ok [OF ok_arrived [OF _ assms(2) [unfolded Arrived] j] assms(1)])
qed (use assms in \<open>auto simp: box_ok_def due_other\<close>, auto simp: addBox_def removeBox_def openDropdown_def)

interpretation board: invariant_system board_enabled "board_do m" "\<lambda>s. \<forall>b \<in> set (bo_boxes s). box_ok m s b" "\<lambda>s. s = board_init" for m
  by unfold_locales (auto simp: board_init_def dest: boxes_ok_step)

text \<open>When the answers for each box come in the order of its requests, a box for which nothing is due any more shows the
  figures of the user it names, and no spinner, however users were picked, boxes added and removed.\<close>

theorem board_shows_own_figures:
  assumes "reach (\<lambda>s. s = board_init) board_enabled (board_do m) s" "b \<in> set (bo_boxes s)" "bx_userId b = Some u" "due (bx_id b) s = []"
  shows "bx_metrics b = Some (m u) \<and> \<not> bx_loading b"
  using board.reach_inv [OF assms(1)] assms(2-4) by (auto simp: box_ok_def)

text \<open>The search counts exactly the users that its confirmation then shows, if their figures did not change meanwhile.\<close>

lemma found_are_added: "length (bo_boxes (confirmAddUsers new_id t m us s)) = handleFindAndAdd t m us"
  by (simp add: confirmAddUsers_def handleFindAndAdd_def Let_def)

section \<open>Observations\<close>

definition ann :: board_user where "ann = \<lparr>bd_id = ''a'', bd_email = ''a@x'', bd_first = ''Ann'', bd_last = []\<rparr>"
definition bob :: board_user where "bob = \<lparr>bd_id = ''b'', bd_email = ''b@x'', bd_first = ''Bob'', bd_last = []\<rparr>"

definition balance_of :: "string \<Rightarrow> UserMetrics" where
  "balance_of u = defaultMetrics\<lparr>um_balance := (if u = ''a'' then Num 1 else Num 2)\<rparr>"

definition both_picked :: board where
  "both_picked = fold (board_do balance_of) [AddBox ''x'', PickUser ''x'' (Some ann), PickUser ''x'' (Some bob)] board_init"

text \<open>
  When Bob is picked before Ann's figures have arrived, and the answers cross, the box named Bob goes
  on showing Ann's figures. Nothing compares the answer with the user the box now names.
\<close>

lemma figures_of_another_user:
  "map (\<lambda>b. (bx_userName b, bx_metrics b, bx_loading b)) (bo_boxes (fold (board_do balance_of) [Arrived 1, Arrived 0] both_picked)) =
    [(Some ''Bob'', Some (balance_of ''a''), False)]"
  by (simp add: both_picked_def ann_def bob_def addBox_def setBoxUser_def metrics_arrived_def update_box_def board_init_def
      user_label_def or_text_def trim_def is_space_def)

text \<open>A user whose figures could not be fetched is never found to be below a level.\<close>

lemma failed_fetch_not_below: "\<not> below_level t (fetchUserMetrics None)"
  by (simp add: fetchUserMetrics_def below_level_def defaultMetrics_def)

text \<open>What is called adding the users replaces the boxes that were there.\<close>

lemma confirm_replaces: "bo_boxes (confirmAddUsers new_id t m us s) = bo_boxes (confirmAddUsers new_id t m us board_init)"
  by (simp add: confirmAddUsers_def Let_def)

section \<open>A concrete board\<close>

lemma board_shows_own_figures_witness:
  "\<exists>s. run board_enabled (board_do balance_of) [AddBox ''x'', PickUser ''x'' (Some ann), PickUser ''x'' (Some bob), Arrived 0, Arrived 0] board_init = Some s \<and>
     (\<forall>b. b \<in> set (bo_boxes s) \<longrightarrow> bx_metrics b = Some (balance_of ''b''))"
proof -
  let ?es = "[AddBox ''x'', PickUser ''x'' (Some ann), PickUser ''x'' (Some bob), Arrived 0, Arrived 0]"
  obtain s where r: "run board_enabled (board_do balance_of) ?es board_init = Some s"
    and s: "map (\<lambda>b. (bx_id b, bx_userId b)) (bo_boxes s) = [(''x'', Some ''b'')]" "bo_pending s = []"
    by (simp add: ann_def bob_def addBox_def setBoxUser_def metrics_arrived_def update_box_def board_init_def)
  have "bx_metrics b = Some (balance_of ''b'')" if b: "b \<in> set (bo_boxes s)" for b
  proof -
    have "(bx_id b, bx_userId b) \<in> set (map (\<lambda>b. (bx_id b, bx_userId b)) (bo_boxes s))" using b by auto
    then have "bx_userId b = Some ''b''" unfolding s by simp
    then show ?thesis using board_shows_own_figures [OF run_start [OF refl r] b] s(2) by (simp add: due_def)
  qed
  then show ?thesis using r by blast
qed

end
