(* ===== verification/Manager_Stats.thy ===== *)
theory Manager_Stats
  imports Admin_Trading Js_Sort
begin

text \<open>
  The statistics of a manager (\<open>useManagerStats.ts\<close>): figures computed from lists of transactions,
  positions and orders for a manager who looks at himself, figures of the server for a super
  administrator, and nothing for anyone else. The state of a request is a \<open>query\<close>; the calendar day of a
  time stamp and the clock are parameters.
\<close>

section \<open>Figures\<close>

text \<open>Of overviews and transactions, the fields that are read.\<close>

record FinanceOverview =
  fo_pendingDeposits :: "jsnum option"
  fo_pendingWithdrawals :: "jsnum option"
  fo_depositsToday :: "(jsnum option \<times> jsnum option) option"
  fo_withdrawalsToday :: "(jsnum option \<times> jsnum option) option"

record Transaction =
  tx_id :: string
  tx_userEmail :: string
  tx_userFirstName :: "string option"
  tx_userLastName :: "string option"
  tx_type :: string
  tx_amount :: "jsnum option"
  tx_currency :: "string option"
  tx_netAmount :: "jsnum option"
  tx_status :: string
  tx_createdAt :: string

record counts =
  ct_totalUsers :: jsnum
  ct_totalGroups :: jsnum
  ct_activeUsers :: jsnum
  ct_assignedLeads :: jsnum

record money_flow =
  mf_totalCount :: jsnum
  mf_totalVolume :: jsnum
  mf_todayCount :: jsnum
  mf_todayVolume :: jsnum
  mf_pendingCount :: jsnum

record position_row =
  pr_id :: string
  pr_symbol :: string
  pr_side :: string
  pr_size :: jsnum
  pr_entry :: jsnum
  pr_mark :: jsnum
  pr_livePnl :: jsnum
  pr_user :: string

record position_figures =
  pf_openCount :: jsnum
  pf_totalExposure :: jsnum
  pf_closedToday :: jsnum
  pf_livePnl :: jsnum
  pf_items :: "position_row list"

record order_row =
  or_id :: string
  or_user :: string
  or_symbol :: string
  or_side :: string
  or_type :: string
  or_status :: string

record order_figures =
  of_activeCount :: jsnum
  of_filledToday :: jsnum
  of_cancelledToday :: jsnum
  of_items :: "order_row list"

record recent_row =
  rr_id :: string
  rr_user :: string
  rr_amount :: jsnum
  rr_currency :: string
  rr_status :: string
  rr_time :: string

record trader_row =
  tr_rank :: nat
  tr_user :: string
  tr_pnl :: jsnum
  tr_winRate :: jsnum
  tr_volume :: jsnum

record Stats =
  st_overview :: counts
  st_deposits :: money_flow
  st_withdrawals :: money_flow
  st_positions :: position_figures
  st_orders :: order_figures
  st_recentDeposits :: "recent_row list"
  st_recentWithdrawals :: "recent_row list"
  st_topTraders :: "trader_row list"
  st_topLosers :: "trader_row list"

definition or_zero :: "jsnum option \<Rightarrow> jsnum" where
  "or_zero v = (case v of Some n \<Rightarrow> n | None \<Rightarrow> Num 0)"

definition no_counts :: counts where
  "no_counts = \<lparr>ct_totalUsers = Num 0, ct_totalGroups = Num 0, ct_activeUsers = Num 0, ct_assignedLeads = Num 0\<rparr>"

definition no_flow :: money_flow where
  "no_flow = \<lparr>mf_totalCount = Num 0, mf_totalVolume = Num 0, mf_todayCount = Num 0, mf_todayVolume = Num 0, mf_pendingCount = Num 0\<rparr>"

definition EMPTY_STATS :: Stats where
  "EMPTY_STATS = \<lparr>st_overview = no_counts, st_deposits = no_flow, st_withdrawals = no_flow,
     st_positions = \<lparr>pf_openCount = Num 0, pf_totalExposure = Num 0, pf_closedToday = Num 0, pf_livePnl = Num 0, pf_items = []\<rparr>,
     st_orders = \<lparr>of_activeCount = Num 0, of_filledToday = Num 0, of_cancelledToday = Num 0, of_items = []\<rparr>,
     st_recentDeposits = [], st_recentWithdrawals = [], st_topTraders = [], st_topLosers = []\<rparr>"

section \<open>From the lists\<close>

text \<open>\<open>day\<close>: the calendar day of a date text; \<open>ms\<close>: its time value, NaN when it is no date.\<close>

record calendar =
  cal_day :: "string \<Rightarrow> string"
  cal_ms :: "string \<Rightarrow> jsnum"
  cal_today :: string
  cal_now :: jsnum

definition plural_s :: "jsnum \<Rightarrow> string" where
  "plural_s n = (if n \<noteq> Num 1 then ''s'' else [])"

definition formatRelativeTime :: "calendar \<Rightarrow> (string \<Rightarrow> string) \<Rightarrow> string \<Rightarrow> string" where
  "formatRelativeTime cal local_date iso' =
     (let diffMs = jsub (cal_now cal) (cal_ms cal iso'); diffMins = jfloor (jdiv diffMs (Num 60000));
          diffHours = jfloor (jdiv diffMs (Num 3600000)); diffDays = jfloor (jdiv diffMs (Num 86400000)) in
      if jlt diffMins (Num 1) then ''Just now''
      else if jlt diffMins (Num 60) then toString diffMins @ '' min ago''
      else if jlt diffHours (Num 24) then toString diffHours @ '' hour'' @ plural_s diffHours @ '' ago''
      else if jlt diffDays (Num 7) then toString diffDays @ '' day'' @ plural_s diffDays @ '' ago''
      else local_date iso')"

definition full_name :: "Transaction \<Rightarrow> string" where
  "full_name tx = join_with '' '' (filter (\<lambda>t. t \<noteq> []) (map (\<lambda>t. case t of Some s \<Rightarrow> s | None \<Rightarrow> []) [tx_userFirstName tx, tx_userLastName tx]))"

definition tx_size :: "Transaction \<Rightarrow> jsnum" where
  "tx_size t = jabs (case tx_netAmount t of Some n \<Rightarrow> n | None \<Rightarrow> or_zero (tx_amount t))"

definition txToRecent :: "calendar \<Rightarrow> (string \<Rightarrow> string) \<Rightarrow> Transaction \<Rightarrow> recent_row" where
  "txToRecent cal local_date tx =
     \<lparr>rr_id = tx_id tx, rr_user = (if full_name tx \<noteq> [] then full_name tx else tx_userEmail tx), rr_amount = tx_size tx,
      rr_currency = (case tx_currency tx of Some c \<Rightarrow> c | None \<Rightarrow> ''USD''), rr_status = tx_status tx,
      rr_time = formatRelativeTime cal local_date (tx_createdAt tx)\<rparr>"

definition is_open :: "AdminPosition \<Rightarrow> bool" where
  "is_open p = (ap_status p = PsOPEN \<or> ap_status p = PsOpen)"

definition is_active :: "AdminOrder \<Rightarrow> bool" where
  "is_active ord = (ao_status ord = OsPending \<or> ao_status ord = OsPENDING \<or> ao_status ord = OsOpen)"

text \<open>An empty date text is falsy.\<close>

definition on_today :: "calendar \<Rightarrow> string option \<Rightarrow> bool" where
  "on_today cal d = (case d of Some t \<Rightarrow> t \<noteq> [] \<and> cal_day cal t = cal_today cal | None \<Rightarrow> False)"

definition how_many :: "('a \<Rightarrow> bool) \<Rightarrow> 'a list \<Rightarrow> jsnum" where
  "how_many p xs = Num (of_nat (length (filter p xs)))"

definition position_user :: "AdminPosition \<Rightarrow> string" where
  "position_user p = (case ap_userEmail p of Some e \<Rightarrow> e | None \<Rightarrow> ap_userName p)"

fun side_name :: "PositionSide \<Rightarrow> string" where
  "side_name LONG = ''LONG''" | "side_name SHORT = ''SHORT''"

definition to_position_row :: "AdminPosition \<Rightarrow> position_row" where
  "to_position_row p = \<lparr>pr_id = ap_id p, pr_symbol = ap_symbol p, pr_side = side_name (ap_side p), pr_size = ap_size p,
     pr_entry = ap_entryPrice p, pr_mark = ap_markPrice p, pr_livePnl = ap_pnl p, pr_user = position_user p\<rparr>"

fun order_side_name :: "OrderSide \<Rightarrow> string" where
  "order_side_name BUY = ''BUY''" | "order_side_name SELL = ''SELL''"

text \<open>With the underscore replaced.\<close>

fun order_type_text :: "OrderType \<Rightarrow> string" where
  "order_type_text MARKET = ''MARKET''" | "order_type_text LIMIT = ''LIMIT''"
| "order_type_text STOP = ''STOP''" | "order_type_text STOP_LIMIT = ''STOP LIMIT''"

definition to_order_row :: "(OrderStatus \<Rightarrow> string) \<Rightarrow> AdminOrder \<Rightarrow> order_row" where
  "to_order_row status_name ord = \<lparr>or_id = ao_id ord,
     or_user = (case ao_userEmail ord of Some e \<Rightarrow> e | None \<Rightarrow> ao_userName ord),
     or_symbol = ao_symbol ord, or_side = order_side_name (ao_side ord), or_type = order_type_text (ao_orderType ord),
     or_status = status_name (ao_status ord)\<rparr>"

text \<open>Profit and volume by user, in the order in which users first appear.\<close>

definition add_position :: "(string, jsnum \<times> jsnum) jsmap \<Rightarrow> AdminPosition \<Rightarrow> (string, jsnum \<times> jsnum) jsmap" where
  "add_position m p =
     (let u = position_user p; cur = (case map_get m u of Some c \<Rightarrow> c | None \<Rightarrow> (Num 0, Num 0)) in
      map_set u (jadd (fst cur) (ap_pnl p), jadd (snd cur) (jmul (ap_size p) (ap_entryPrice p))) m)"

definition pnlByUser :: "AdminPosition list \<Rightarrow> (string, jsnum \<times> jsnum) jsmap" where
  "pnlByUser ps = foldl add_position [] (filter is_open ps)"

type_synonym user_pnl = "string \<times> jsnum \<times> jsnum"

definition pnl_of :: "user_pnl \<Rightarrow> jsnum" where
  "pnl_of r = fst (snd r)"

definition by_pnl :: "user_pnl js_comparator" where
  "by_pnl a b = jsub (pnl_of b) (pnl_of a)"

definition byPnl :: "AdminPosition list \<Rightarrow> user_pnl list" where
  "byPnl ps = js_sort by_pnl (pnlByUser ps)"

definition ranked :: "user_pnl list \<Rightarrow> trader_row list" where
  "ranked rs = map (\<lambda>(i, u, x, v). \<lparr>tr_rank = i + 1, tr_user = u, tr_pnl = x, tr_winRate = Num 0, tr_volume = v\<rparr>)
     (enumerate 0 rs)"

definition topTraders :: "AdminPosition list \<Rightarrow> trader_row list" where
  "topTraders ps = ranked (take 5 (filter (\<lambda>r. jlt (Num 0) (pnl_of r)) (byPnl ps)))"

definition topLosers :: "AdminPosition list \<Rightarrow> trader_row list" where
  "topLosers ps = ranked (take 5 (filter (\<lambda>r. jlt (pnl_of r) (Num 0)) (byPnl ps)))"

definition flow :: "Transaction list \<Rightarrow> (jsnum option \<times> jsnum option) option \<Rightarrow> jsnum option \<Rightarrow> money_flow" where
  "flow txs today pending =
     \<lparr>mf_totalCount = Num (of_nat (length txs)), mf_totalVolume = jsum (map tx_size txs),
      mf_todayCount = (case today of Some (c, a) \<Rightarrow> or_zero c | None \<Rightarrow> Num 0),
      mf_todayVolume = (case today of Some (c, a) \<Rightarrow> or_zero a | None \<Rightarrow> Num 0), mf_pendingCount = or_zero pending\<rparr>"

definition buildStatsFromApis ::
  "calendar \<Rightarrow> (string \<Rightarrow> string) \<Rightarrow> (OrderStatus \<Rightarrow> string) \<Rightarrow> counts \<Rightarrow> FinanceOverview \<Rightarrow> Transaction list \<Rightarrow>
     AdminPosition list \<Rightarrow> AdminOrder list \<Rightarrow> Stats" where
  "buildStatsFromApis cal local_date status_name cs overview transactions ps ords =
     (let deposits = filter (\<lambda>t. tx_type t = ''deposit'') transactions;
          withdrawals = filter (\<lambda>t. tx_type t = ''withdrawal'') transactions;
          open' = filter is_open ps in
      \<lparr>st_overview = cs,
       st_deposits = flow deposits (fo_depositsToday overview) (fo_pendingDeposits overview),
       st_withdrawals = flow withdrawals (fo_withdrawalsToday overview) (fo_pendingWithdrawals overview),
       st_positions = \<lparr>pf_openCount = Num (of_nat (length open')),
         pf_totalExposure = jsum (map (\<lambda>p. jmul (ap_size p) (ap_markPrice p)) open'),
         pf_closedToday = how_many (\<lambda>p. on_today cal (ap_closedAt p)) ps,
         pf_livePnl = jsum (map ap_pnl open'), pf_items = map to_position_row (take 10 open')\<rparr>,
       st_orders = \<lparr>of_activeCount = how_many is_active ords, of_filledToday = how_many (\<lambda>x. on_today cal (ao_filledAt x)) ords,
         of_cancelledToday = how_many (\<lambda>x. on_today cal (ao_cancelledAt x)) ords,
         of_items = map (to_order_row status_name) (take 10 ords)\<rparr>,
       st_recentDeposits = map (txToRecent cal local_date) (take 10 deposits),
       st_recentWithdrawals = map (txToRecent cal local_date) (take 10 withdrawals),
       st_topTraders = topTraders ps, st_topLosers = topLosers ps\<rparr>)"

section \<open>From the server\<close>

record ManagerStatisticsResponse =
  ms_overview :: "counts option"
  ms_deposits :: "money_flow option"
  ms_withdrawals :: "money_flow option"
  ms_positions :: "(jsnum option \<times> jsnum option \<times> jsnum option \<times> jsnum option) option"
  ms_orders :: "(jsnum option \<times> jsnum option \<times> jsnum option) option"
  ms_recentDeposits :: "recent_row list option"
  ms_recentWithdrawals :: "recent_row list option"
  ms_openPositions :: "position_row list option"
  ms_recentOrders :: "order_row list option"
  ms_topTraders :: "trader_row list option"
  ms_topLosers :: "trader_row list option"

definition or_none :: "'a list option \<Rightarrow> 'a list" where
  "or_none v = (case v of Some xs \<Rightarrow> xs | None \<Rightarrow> [])"

definition mapApiStatsToStats :: "ManagerStatisticsResponse \<Rightarrow> Stats" where
  "mapApiStatsToStats r =
     \<lparr>st_overview = (case ms_overview r of Some c \<Rightarrow> c | None \<Rightarrow> no_counts),
      st_deposits = (case ms_deposits r of Some c \<Rightarrow> c | None \<Rightarrow> no_flow),
      st_withdrawals = (case ms_withdrawals r of Some c \<Rightarrow> c | None \<Rightarrow> no_flow),
      st_positions = (case (case ms_positions r of Some q \<Rightarrow> q | None \<Rightarrow> (None, None, None, None)) of (a, b, c, d) \<Rightarrow>
        \<lparr>pf_openCount = or_zero a, pf_totalExposure = or_zero b, pf_closedToday = or_zero c, pf_livePnl = or_zero d,
         pf_items = or_none (ms_openPositions r)\<rparr>),
      st_orders = (case (case ms_orders r of Some q \<Rightarrow> q | None \<Rightarrow> (None, None, None)) of (a, b, c) \<Rightarrow>
        \<lparr>of_activeCount = or_zero a, of_filledToday = or_zero b, of_cancelledToday = or_zero c, of_items = or_none (ms_recentOrders r)\<rparr>),
      st_recentDeposits = or_none (ms_recentDeposits r), st_recentWithdrawals = or_none (ms_recentWithdrawals r),
      st_topTraders = or_none (ms_topTraders r), st_topLosers = or_none (ms_topLosers r)\<rparr>"

section \<open>Who sees what\<close>

text \<open>A request that is switched off, under way, refused, or answered.\<close>

datatype 'a query = Idle | Loading | Failed string | Loaded 'a

fun is_loading :: "'a query \<Rightarrow> bool" where
  "is_loading Loading = True" | "is_loading _ = False"

fun query_data :: "'a query \<Rightarrow> 'a option" where
  "query_data (Loaded x) = Some x" | "query_data _ = None"

record Manager =
  mg_id :: string
  mg_userId :: string

record self_queries =
  sq_users :: "jsnum query"
  sq_groups :: "jsnum query"
  sq_active :: "jsnum query"
  sq_leads :: "jsnum query"
  sq_overview :: "FinanceOverview query"
  sq_transactions :: "Transaction list query"
  sq_positions :: "AdminPosition list query"
  sq_orders :: "AdminOrder list query"

record shown_stats =
  ss_stats :: "Stats option"
  ss_isLoading :: bool
  ss_error :: "string option"
  ss_isOtherManagerUnsupported :: bool

definition isSuperAdmin :: "(string \<times> string) option \<Rightarrow> bool" where
  "isSuperAdmin user = (case user of Some (i, role) \<Rightarrow> toLowerCase role = ''super_admin'' | None \<Rightarrow> False)"

definition isViewingSelf :: "string option \<Rightarrow> (string \<times> string) option \<Rightarrow> Manager option \<Rightarrow> bool" where
  "isViewingSelf managerId user manager =
     (managerId \<noteq> None \<and> managerId \<noteq> Some [] \<and>
      (case (user, manager) of (Some (i, r), Some m) \<Rightarrow> mg_userId m = i | _ \<Rightarrow> False))"

definition self_loading :: "self_queries \<Rightarrow> bool" where
  "self_loading q = (is_loading (sq_users q) \<or> is_loading (sq_groups q) \<or> is_loading (sq_active q) \<or> is_loading (sq_leads q) \<or>
     is_loading (sq_overview q) \<or> is_loading (sq_transactions q) \<or> is_loading (sq_positions q) \<or> is_loading (sq_orders q))"

definition self_ready :: "self_queries \<Rightarrow> bool" where
  "self_ready q = (query_data (sq_users q) \<noteq> None \<and> query_data (sq_groups q) \<noteq> None \<and> query_data (sq_overview q) \<noteq> None \<and>
     query_data (sq_transactions q) \<noteq> None \<and> query_data (sq_positions q) \<noteq> None \<and> query_data (sq_orders q) \<noteq> None)"

definition self_stats :: "calendar \<Rightarrow> (string \<Rightarrow> string) \<Rightarrow> (OrderStatus \<Rightarrow> string) \<Rightarrow> self_queries \<Rightarrow> Stats" where
  "self_stats cal local_date status_name q =
     (case query_data (sq_overview q) of
        Some ov \<Rightarrow> buildStatsFromApis cal local_date status_name
          \<lparr>ct_totalUsers = or_zero (query_data (sq_users q)), ct_totalGroups = or_zero (query_data (sq_groups q)),
           ct_activeUsers = or_zero (query_data (sq_active q)), ct_assignedLeads = or_zero (query_data (sq_leads q))\<rparr>
          ov (or_none (query_data (sq_transactions q))) (or_none (query_data (sq_positions q))) (or_none (query_data (sq_orders q)))
      | None \<Rightarrow> EMPTY_STATS)"

text \<open>
  The answers \<open>None\<close> of the two requests for another manager's record and figures stand for \<open>null\<close>.
\<close>

definition manager_of :: "Manager option query \<Rightarrow> Manager option" where
  "manager_of mq = (case query_data mq of Some m \<Rightarrow> m | None \<Rightarrow> None)"

definition useManagerStats ::
  "calendar \<Rightarrow> (string \<Rightarrow> string) \<Rightarrow> (OrderStatus \<Rightarrow> string) \<Rightarrow> string option \<Rightarrow> (string \<times> string) option \<Rightarrow> Manager option query \<Rightarrow>
     ManagerStatisticsResponse option query \<Rightarrow> self_queries \<Rightarrow> shown_stats" where
  "useManagerStats cal local_date status_name managerId user mq other q =
     (let manager = manager_of mq; self = isViewingSelf managerId user manager; super = isSuperAdmin user;
          (stats, unsupported) =
            (if query_data mq = Some None then (None, False)
             else if self \<and> self_ready q then (Some (self_stats cal local_date status_name q), False)
             else if manager \<noteq> None \<and> \<not> self \<and> super then
               (case other of
                  Loaded (Some r) \<Rightarrow> (Some (mapApiStatsToStats r), False)
                | Loaded None \<Rightarrow> (Some EMPTY_STATS, True)
                | _ \<Rightarrow> (None, False))
             else if manager \<noteq> None \<and> \<not> self \<and> \<not> super then (Some EMPTY_STATS, True)
             else (None, False))
      in \<lparr>ss_stats = stats,
          ss_isLoading = (is_loading mq \<or> (self \<and> self_loading q) \<or> (manager \<noteq> None \<and> \<not> self \<and> super \<and> is_loading other)),
          ss_error = (case mq of Failed e \<Rightarrow> Some e | _ \<Rightarrow> None), ss_isOtherManagerUnsupported = unsupported\<rparr>)"

text \<open>Finding the manager: by id, or in the list where the server has no request for one.\<close>

definition find_manager :: "string \<Rightarrow> Manager option \<Rightarrow> Manager list \<Rightarrow> Manager option" where
  "find_manager managerId answer list =
     (case answer of Some m \<Rightarrow> Some m | None \<Rightarrow> List.find (\<lambda>m. mg_id m = managerId) list)"

section \<open>Sums by user\<close>

lemma add_position_get:
  "map_get (add_position m p) u = (if u = position_user p
     then (let cur = (case map_get m u of Some c \<Rightarrow> c | None \<Rightarrow> (Num 0, Num 0)) in
       Some (jadd (fst cur) (ap_pnl p), jadd (snd cur) (jmul (ap_size p) (ap_entryPrice p))))
     else map_get m u)"
  by (simp add: add_position_def Let_def map_get_set)

definition sums_of :: "string \<Rightarrow> AdminPosition list \<Rightarrow> (jsnum \<times> jsnum) option" where
  "sums_of u ps =
     (let qs = filter (\<lambda>p. position_user p = u) (filter is_open ps) in
      if qs = [] then None
      else Some (jsum (map ap_pnl qs), jsum (map (\<lambda>p. jmul (ap_size p) (ap_entryPrice p)) qs)))"

lemma jsum_snoc: "jsum (xs @ [x]) = jadd (jsum xs) x"
  by (simp add: jsum_def)

lemma pnlByUser_get: "map_get (pnlByUser ps) u = sums_of u ps"
proof (induction ps rule: rev_induct)
  case (snoc p ps)
  have "pnlByUser (ps @ [p]) = (if is_open p then add_position (pnlByUser ps) p else pnlByUser ps)"
    by (simp add: pnlByUser_def)
  with snoc show ?case by (auto simp: sums_of_def Let_def add_position_get jsum_snoc) (simp_all add: jsum_def)
qed (simp add: pnlByUser_def sums_of_def map_get_def)

lemma pnlByUser_wf: "map_wf (pnlByUser ps)"
proof (induction ps rule: rev_induct)
  case (snoc p ps)
  then show ?case by (simp add: pnlByUser_def add_position_def Let_def)
qed (simp add: pnlByUser_def map_wf_def)

lemma byPnl_iff: "(u, s) \<in> set (byPnl ps) \<longleftrightarrow> sums_of u ps = Some s"
proof -
  have "(u, s) \<in> set (pnlByUser ps) \<longleftrightarrow> map_get (pnlByUser ps) u = Some s"
    using pnlByUser_wf [of ps] by (simp add: map_get_def map_wf_def)
  then show ?thesis by (simp add: byPnl_def pnlByUser_get)
qed

section \<open>The order of the table\<close>

definition sound_row :: "user_pnl \<Rightarrow> bool" where
  "sound_row r = (is_double (pnl_of r) \<and> pnl_of r \<noteq> NaN)"

lemma by_pnl_iff: "sound_row a \<Longrightarrow> sound_row b \<Longrightarrow> not_after by_pnl a b \<longleftrightarrow> jle (pnl_of b) (pnl_of a)"
  by (simp add: not_after_def by_pnl_def sound_row_def jlt_0_jsub not_jlt_iff)

interpretation pnl_order: ordering_comparator by_pnl "{r. sound_row r}"
proof
  fix x y
  assume xy: "x \<in> {r. sound_row r}" "y \<in> {r. sound_row r}"
  have "jle (pnl_of x) (pnl_of y)" if "\<not> jle (pnl_of y) (pnl_of x)"
    using that xy by (simp add: not_jle_iff sound_row_def) (simp add: jle_def)
  then show "not_after by_pnl x y \<or> not_after by_pnl y x" using xy by (auto simp: by_pnl_iff)
qed (auto simp: by_pnl_iff intro: jle_trans)

lemma is_double_jsum: "is_double (jsum xs)"
  using is_double_of_int [of 0] by (induction xs rule: rev_induct) (simp_all add: jsum_snoc jsum_def)

text \<open>No user's sum is NaN: it could only be when profits overflow in both directions.\<close>

definition sums_defined :: "AdminPosition list \<Rightarrow> bool" where
  "sums_defined ps = list_all (\<lambda>r. pnl_of r \<noteq> NaN) (pnlByUser ps)"

lemma sound_rows: "sums_defined ps \<Longrightarrow> set (pnlByUser ps) \<subseteq> {r. sound_row r}"
proof
  fix r assume d: "sums_defined ps" and r: "r \<in> set (pnlByUser ps)"
  have "sums_of (fst r) ps = Some (snd r)" using r byPnl_iff [of "fst r" "snd r" ps] by (simp add: byPnl_def)
  then have "is_double (fst (snd r))" 
    by (cases r) (auto simp: sums_of_def Let_def is_double_jsum split: if_splits)
  then show "r \<in> {r. sound_row r}" using d r by (simp add: sound_row_def pnl_of_def sums_defined_def list_all_iff)
qed

lemma sorted_rows:
  assumes "sums_defined ps" shows "sorted_wrt (\<lambda>a b. jle (pnl_of b) (pnl_of a)) (filter P (byPnl ps))"
proof -
  have "sorted_wrt (not_after by_pnl) (byPnl ps)" unfolding byPnl_def by (rule pnl_order.sorted_js_sort) (rule sound_rows [OF assms])
  then have "sorted_wrt (\<lambda>a b. jle (pnl_of b) (pnl_of a)) (byPnl ps)"
    by (rule sorted_wrt_mono_rel [rotated]) (use sound_rows [OF assms] in \<open>auto simp: byPnl_def by_pnl_iff subset_eq\<close>)
  then show ?thesis by (rule sorted_wrt_filter)
qed

lemma left_out:
  assumes "sorted_wrt Q rs" "r \<in> set rs" "r \<notin> set (take n rs)"
  shows "length (take n rs) = n \<and> (\<forall>t \<in> set (take n rs). Q t r)"
proof -
  have d: "r \<in> set (drop n rs)" using assms(2,3) by (metis append_take_drop_id set_append Un_iff)
  have "sorted_wrt Q (take n rs @ drop n rs)" using assms(1) by simp
  then have "\<forall>t \<in> set (take n rs). Q t r" using d by (simp only: sorted_wrt_append) blast
  moreover have "n < length rs" using d by (metis drop_eq_Nil2 empty_iff leI list.set(1))
  ultimately show ?thesis by simp
qed

definition row_of :: "trader_row \<Rightarrow> user_pnl" where
  "row_of t = (tr_user t, tr_pnl t, tr_volume t)"

lemma ranked_rows: "map row_of (ranked rs) = rs" "map tr_rank (ranked rs) = [1..<Suc (length rs)]"
proof -
  have "map row_of (ranked rs) = map snd (enumerate 0 rs)"
    unfolding ranked_def map_map by (rule map_cong [OF refl]) (simp add: row_of_def split: prod.splits)
  then show "map row_of (ranked rs) = rs" by simp
  have "map tr_rank (ranked rs) = map Suc (map fst (enumerate 0 rs))"
    unfolding ranked_def map_map by (rule map_cong [OF refl]) (simp split: prod.splits)
  then show "map tr_rank (ranked rs) = [1..<Suc (length rs)]" by (simp add: map_Suc_upt)
qed

lemma length_ranked: "length (ranked rs) = length rs"
  by (simp add: ranked_def)

text \<open>A table: the first five rows, by falling profit, of the users whose profit is of one sign.\<close>

definition table :: "(user_pnl \<Rightarrow> bool) \<Rightarrow> AdminPosition list \<Rightarrow> trader_row list" where
  "table P ps = ranked (take 5 (filter P (byPnl ps)))"

lemma tables: "topTraders ps = table (\<lambda>r. jlt (Num 0) (pnl_of r)) ps" "topLosers ps = table (\<lambda>r. jlt (pnl_of r) (Num 0)) ps"
  by (simp_all add: table_def topTraders_def topLosers_def)

lemma table_rows: "map row_of (table P ps) = take 5 (filter P (byPnl ps))"
  by (simp add: table_def ranked_rows)

lemma table_sorted:
  assumes "sums_defined ps" shows "sorted_wrt (\<lambda>a b. jle (tr_pnl b) (tr_pnl a)) (table P ps)"
proof -
  have "sorted_wrt (\<lambda>a b. jle (pnl_of b) (pnl_of a)) (map row_of (table P ps))"
    unfolding table_rows by (rule sorted_wrt_take) (rule sorted_rows [OF assms])
  then show ?thesis by (simp add: sorted_wrt_map row_of_def pnl_of_def)
qed

lemma table_row:
  assumes "t \<in> set (table P ps)" shows "sums_of (tr_user t) ps = Some (tr_pnl t, tr_volume t)" "P (row_of t)"
proof -
  have "row_of t \<in> set (map row_of (table P ps))" using assms by simp
  then have "row_of t \<in> set (filter P (byPnl ps))" unfolding table_rows by (rule in_set_takeD)
  then show "sums_of (tr_user t) ps = Some (tr_pnl t, tr_volume t)" "P (row_of t)" by (simp_all add: row_of_def byPnl_iff)
qed

lemma table_left_out:
  assumes "sums_defined ps" "sums_of u ps = Some (x, v)" "P (u, x, v)" "u \<notin> tr_user ` set (table P ps)"
  shows "length (table P ps) = 5 \<and> (\<forall>t \<in> set (table P ps). jle x (tr_pnl t))"
proof -
  let ?rs = "filter P (byPnl ps)"
  have m: "(u, x, v) \<in> set ?rs" using assms(2,3) by (simp add: byPnl_iff)
  have n: "(u, x, v) \<notin> set (take 5 ?rs)"
  proof
    assume "(u, x, v) \<in> set (take 5 ?rs)"
    then obtain t where "t \<in> set (table P ps)" "row_of t = (u, x, v)" unfolding table_rows [symmetric] by auto
    then show False using assms(4) by (auto simp: row_of_def)
  qed
  have "length (map row_of (table P ps)) = 5 \<and> (\<forall>r \<in> set (map row_of (table P ps)). jle (pnl_of (u, x, v)) (pnl_of r))"
    unfolding table_rows by (rule left_out [OF sorted_rows [OF assms(1)] m n])
  then show ?thesis by (simp add: row_of_def pnl_of_def)
qed

section \<open>Theorems\<close>

text \<open>The table of top traders: at most five, ranked from one, each with the sums of his open positions and a profit; from the
  highest profit down; and a user with a profit who is not listed has none higher than the five listed.\<close>

theorem top_traders_best:
  assumes "sums_defined ps"
  shows "map tr_rank (topTraders ps) = [1..<Suc (length (topTraders ps))] \<and> length (topTraders ps) \<le> 5 \<and>
    sorted_wrt (\<lambda>a b. jle (tr_pnl b) (tr_pnl a)) (topTraders ps) \<and>
    list_all (\<lambda>t. sums_of (tr_user t) ps = Some (tr_pnl t, tr_volume t) \<and> jlt (Num 0) (tr_pnl t)) (topTraders ps) \<and>
    (\<forall>u x v. sums_of u ps = Some (x, v) \<and> jlt (Num 0) x \<and> u \<notin> tr_user ` set (topTraders ps) \<longrightarrow>
       length (topTraders ps) = 5 \<and> list_all (\<lambda>t. jle x (tr_pnl t)) (topTraders ps))"
proof (intro conjI)
  let ?P = "\<lambda>r. jlt (Num 0) (pnl_of r)"
  show "sorted_wrt (\<lambda>a b. jle (tr_pnl b) (tr_pnl a)) (topTraders ps)" unfolding tables by (rule table_sorted [OF assms])
  show "list_all (\<lambda>t. sums_of (tr_user t) ps = Some (tr_pnl t, tr_volume t) \<and> jlt (Num 0) (tr_pnl t)) (topTraders ps)"
    unfolding tables list_all_iff using table_row [of _ ?P ps] by (simp add: row_of_def pnl_of_def)
  show "\<forall>u x v. sums_of u ps = Some (x, v) \<and> jlt (Num 0) x \<and> u \<notin> tr_user ` set (topTraders ps) \<longrightarrow>
       length (topTraders ps) = 5 \<and> list_all (\<lambda>t. jle x (tr_pnl t)) (topTraders ps)"
  proof (intro allI impI, elim conjE)
    fix u x v assume "sums_of u ps = Some (x, v)" "jlt (Num 0) x" "u \<notin> tr_user ` set (topTraders ps)"
    then show "length (topTraders ps) = 5 \<and> list_all (\<lambda>t. jle x (tr_pnl t)) (topTraders ps)"
      using table_left_out [OF assms, of u x v ?P] by (simp add: tables list_all_iff pnl_of_def)
  qed
qed (simp_all add: tables table_def ranked_rows length_ranked)

text \<open>
  The table of top losers is cut from the same falling order: of more than five losers it lists the
  five smallest losses, and whoever lost more than all of them is left out.
\<close>

lemma losers_left_out_are_worse:
  assumes "sums_defined ps" "sums_of u ps = Some (x, v)" "jlt x (Num 0)" "u \<notin> tr_user ` set (topLosers ps)" "t \<in> set (topLosers ps)"
  shows "jle x (tr_pnl t)"
  using table_left_out [OF assms(1,2), of "\<lambda>r. jlt (pnl_of r) (Num 0)"] assms(3-5) by (simp add: tables pnl_of_def)

text \<open>Only the manager himself and a super administrator see figures; anybody else is shown zeros marked as not supported, and
  nothing at all when the manager is not known.\<close>

theorem stats_need_rank:
  assumes "\<not> isViewingSelf managerId user (manager_of mq)" "\<not> isSuperAdmin user"
  shows "ss_stats (useManagerStats cal ld sn managerId user mq other q) = (if manager_of mq = None then None else Some EMPTY_STATS) \<and>
    ss_isOtherManagerUnsupported (useManagerStats cal ld sn managerId user mq other q) = (manager_of mq \<noteq> None)"
proof -
  have "query_data mq = Some None \<Longrightarrow> manager_of mq = None" by (simp add: manager_of_def)
  moreover have "\<not> isViewingSelf managerId user None" by (simp add: isViewingSelf_def split: option.splits)
  ultimately show ?thesis using assms by (auto simp: useManagerStats_def Let_def)
qed

text \<open>
  A request of one's own figures that fails leaves no figures, no error and no spinner: the page
  shows nothing.
\<close>

lemma failed_query_silent:
  assumes "isViewingSelf managerId user (Some m)" "sq_orders q = Failed e" "\<not> self_loading q"
  shows "ss_stats (useManagerStats cal ld sn managerId user (Loaded (Some m)) other q) = None \<and>
    \<not> ss_isLoading (useManagerStats cal ld sn managerId user (Loaded (Some m)) other q) \<and>
    ss_error (useManagerStats cal ld sn managerId user (Loaded (Some m)) other q) = None"
  using assms by (simp add: useManagerStats_def Let_def manager_of_def self_ready_def)

text \<open>Deposits count and add up whatever became of them: also those that were rejected or failed.\<close>

lemma rejected_deposit_counted:
  "mf_totalCount (st_deposits (buildStatsFromApis cal ld sn cs ov [tx\<lparr>tx_type := ''deposit'', tx_status := ''rejected''\<rparr>] ps ords)) = Num 1"
  by (simp add: buildStatsFromApis_def Let_def flow_def)

section \<open>Concrete figures\<close>

definition held_position :: "string \<Rightarrow> rat \<Rightarrow> AdminPosition" where
  "held_position u x = \<lparr>ap_id = u, ap_userId = u, ap_userName = u, ap_userEmail = None, ap_groupId = [], ap_groupName = [], ap_symbolId = [],
     ap_symbol = [], ap_side = LONG, ap_size = Num 0, ap_entryPrice = Num 0, ap_markPrice = Num 0, ap_leverage = Num 1, ap_marginUsed = Num 0,
     ap_marginAvailable = None, ap_liquidationPrice = Num 0, ap_pnl = Num x, ap_pnlPercent = Num 0, ap_accumulatedSwapUsd = None,
     ap_accumulatedFeesUsd = None, ap_status = PsOpen, ap_stopLoss = None, ap_takeProfit = None, ap_openedAt = [], ap_closedAt = None,
     ap_lastUpdatedAt = []\<rparr>"

definition desk :: "AdminPosition list" where
  "desk = [held_position ''a'' 1, held_position ''b'' 2, held_position ''a'' 4, held_position ''c'' (-1)]"

lemma desk_sums: "pnlByUser desk = [(''a'', Num 5, Num 0), (''b'', Num 2, Num 0), (''c'', Num (-1), Num 0)]"
  by (simp add: pnlByUser_def desk_def held_position_def is_open_def add_position_def position_user_def map_get_def num_simps)

lemma top_traders_best_witness: "sorted_wrt (\<lambda>a b. jle (tr_pnl b) (tr_pnl a)) (topTraders desk) \<and> sums_of ''a'' desk = Some (Num 5, Num 0)"
proof -
  have "sums_defined desk" by (simp add: sums_defined_def desk_sums pnl_of_def)
  moreover have "sums_of ''a'' desk = Some (Num 5, Num 0)" unfolding pnlByUser_get [symmetric] desk_sums by (simp add: map_get_def)
  ultimately show ?thesis using top_traders_best [of desk] by blast
qed

lemma stats_need_rank_witness:
  "ss_stats (useManagerStats \<lparr>cal_day = id, cal_ms = (\<lambda>t. NaN), cal_today = [], cal_now = Num 0\<rparr> id (\<lambda>s. []) (Some ''m'') (Some (''u'', ''admin''))
     (Loaded (Some \<lparr>mg_id = ''m'', mg_userId = ''v''\<rparr>)) Idle
     \<lparr>sq_users = Idle, sq_groups = Idle, sq_active = Idle, sq_leads = Idle, sq_overview = Idle, sq_transactions = Idle, sq_positions = Idle,
      sq_orders = Idle\<rparr>) = Some EMPTY_STATS"
  using stats_need_rank [of "Some ''m''" "Some (''u'', ''admin'')" "Loaded (Some \<lparr>mg_id = ''m'', mg_userId = ''v''\<rparr>)"]
  by (simp add: manager_of_def isViewingSelf_def isSuperAdmin_def toLowerCase_def)

end
