(* ===== verification/Support_Chat.thy ===== *)
theory Support_Chat
  imports Js_Json Machine
begin

text \<open>
  The support chat, of which the program has four copies: the tab of the terminal
  (\<open>SupportChatTab.tsx\<close>), the page of a user (\<open>UserSupportPage.tsx\<close>), the chat in an administrator's
  view of a user (\<open>UserDetailsModal.tsx\<close>) and the support desk with many conversations
  (\<open>SupportPage.tsx\<close>). Each loads a history, takes messages pushed over the socket, sends messages,
  and keeps the ids it knows in a set. Requests, their answers and pushes are separate events; the
  fields of a pushed message are taken when they are texts.
\<close>

section \<open>Messages\<close>

record ChatMessageDto =
  cd_id :: string
  cd_senderType :: string
  cd_body :: string
  cd_createdAt :: string

datatype sender = SupportSender | UserSender

record ChatMessage =
  cm_id :: string
  cm_sender :: sender
  cm_name :: string
  cm_text :: string
  cm_time :: string

text \<open>\<open>formatTime\<close> and the clock are parameters.\<close>

record chat_env =
  ce_time :: "string \<Rightarrow> string"
  ce_now :: string
  ce_userId :: string

definition dtoToMessage :: "chat_env \<Rightarrow> string \<Rightarrow> ChatMessageDto \<Rightarrow> ChatMessage" where
  "dtoToMessage E user_name d =
     (let s = (if cd_senderType d = ''user'' then UserSender else SupportSender) in
      \<lparr>cm_id = cd_id d, cm_sender = s, cm_name = (if s = UserSender then user_name else ''Support''),
       cm_text = cd_body d, cm_time = ce_time E (cd_createdAt d)\<rparr>)"

definition text_of :: "json option \<Rightarrow> string option" where
  "text_of v = (case v of Some (JStr s) \<Rightarrow> Some s | _ \<Rightarrow> None)"

definition text_default :: "string \<Rightarrow> json option \<Rightarrow> string" where
  "text_default d v = (case text_of v of Some s \<Rightarrow> s | None \<Rightarrow> d)"

definition event_payload :: "json \<Rightarrow> json" where
  "event_payload e = (case first_field e [''payload''] of Some p \<Rightarrow> p | None \<Rightarrow> e)"

text \<open>The user a pushed message belongs to, and the message; \<open>dflt\<close> is the sender that is assumed.\<close>

definition read_push :: "chat_env \<Rightarrow> string \<Rightarrow> json \<Rightarrow> (string \<times> ChatMessageDto) option" where
  "read_push E dflt e =
     (let p = event_payload e; uid = text_default [] (first_field p [''userId'', ''user_id'']); i = text_default [] (json_field p ''id'') in
      case json_str p ''body'' of
        None \<Rightarrow> None
      | Some body \<Rightarrow>
          if uid = [] \<or> i = [] then None
          else Some (uid, \<lparr>cd_id = i, cd_senderType = text_default dflt (first_field p [''senderType'', ''sender_type'']), cd_body = body,
                 cd_createdAt = text_default (ce_now E) (first_field p [''createdAt'', ''created_at''])\<rparr>))"

section \<open>One conversation\<close>

record chat =
  cs_messages :: "ChatMessage list"
  cs_known :: "string list"
  cs_input :: string
  cs_loading :: bool
  cs_loads :: nat
  cs_pending :: "string option"
  cs_error :: "string option"
  cs_asked :: bool

definition chat_init :: chat where
  "chat_init = \<lparr>cs_messages = [], cs_known = [], cs_input = [], cs_loading = False, cs_loads = 0, cs_pending = None, cs_error = None,
     cs_asked = False\<rparr>"

datatype chat_event = LoadStarted | HistoryLoaded "ChatMessageDto list" | HistoryFailed string | Pushed json | Typed string
  | SendClicked | SendDone ChatMessageDto | SendFailed string

definition load_started :: "chat \<Rightarrow> chat" where
  "load_started c = c\<lparr>cs_error := None, cs_loading := True, cs_loads := Suc (cs_loads c)\<rparr>"

definition history_failed :: "string \<Rightarrow> chat \<Rightarrow> chat" where
  "history_failed msg c = c\<lparr>cs_error := Some msg, cs_loading := False, cs_loads := cs_loads c - 1\<rparr>"

text \<open>The terminal starts its set of ids anew, the user's page extends it.\<close>

definition tab_loaded :: "chat_env \<Rightarrow> ChatMessageDto list \<Rightarrow> chat \<Rightarrow> chat" where
  "tab_loaded E ds c =
     c\<lparr>cs_messages := map (dtoToMessage E ''You'') ds, cs_known := set_of_list (map cd_id ds), cs_loading := False, cs_loads := cs_loads c - 1\<rparr>"

definition page_loaded :: "chat_env \<Rightarrow> ChatMessageDto list \<Rightarrow> chat \<Rightarrow> chat" where
  "page_loaded E ds c =
     c\<lparr>cs_messages := map (dtoToMessage E ''You'') ds, cs_known := foldl (\<lambda>s d. set_add (cd_id d) s) (cs_known c) ds,
       cs_loading := False, cs_loads := cs_loads c - 1\<rparr>"

definition append_new :: "chat_env \<Rightarrow> ChatMessageDto \<Rightarrow> chat \<Rightarrow> chat" where
  "append_new E d c =
     (if cd_id d \<in> set (cs_known c) then c
      else c\<lparr>cs_known := set_add (cd_id d) (cs_known c), cs_messages := cs_messages c @ [dtoToMessage E ''You'' d]\<rparr>)"

definition chat_push :: "chat_env \<Rightarrow> json \<Rightarrow> chat \<Rightarrow> chat" where
  "chat_push E e c =
     (case read_push E ''support'' e of
        Some (uid, d) \<Rightarrow> if uid = ce_userId E then append_new E d c else c
      | None \<Rightarrow> c)"

definition chat_send :: "chat \<Rightarrow> chat" where
  "chat_send c =
     (if trim (cs_input c) = [] \<or> cs_pending c \<noteq> None then c
      else c\<lparr>cs_pending := Some (trim (cs_input c)), cs_input := []\<rparr>)"

definition chat_sent :: "chat_env \<Rightarrow> ChatMessageDto \<Rightarrow> chat \<Rightarrow> chat" where
  "chat_sent E d c = (append_new E d c)\<lparr>cs_pending := None\<rparr>"

definition chat_send_failed :: "string \<Rightarrow> chat \<Rightarrow> chat" where
  "chat_send_failed msg c =
     c\<lparr>cs_error := Some msg, cs_input := (case cs_pending c of Some t \<Rightarrow> t | None \<Rightarrow> cs_input c), cs_pending := None\<rparr>"

fun chat_do :: "(chat_env \<Rightarrow> ChatMessageDto list \<Rightarrow> chat \<Rightarrow> chat) \<Rightarrow> chat_env \<Rightarrow> chat_event \<Rightarrow> chat \<Rightarrow> chat" where
  "chat_do loaded E LoadStarted c = load_started c"
| "chat_do loaded E (HistoryLoaded ds) c = loaded E ds c"
| "chat_do loaded E (HistoryFailed msg) c = history_failed msg c"
| "chat_do loaded E (Pushed e) c = chat_push E e c"
| "chat_do loaded E (Typed t) c = c\<lparr>cs_input := t\<rparr>"
| "chat_do loaded E SendClicked c = chat_send c"
| "chat_do loaded E (SendDone d) c = chat_sent E d c"
| "chat_do loaded E (SendFailed msg) c = chat_send_failed msg c"

abbreviation tab_do :: "chat_env \<Rightarrow> chat_event \<Rightarrow> chat \<Rightarrow> chat" where
  "tab_do \<equiv> chat_do tab_loaded"

abbreviation page_do :: "chat_env \<Rightarrow> chat_event \<Rightarrow> chat \<Rightarrow> chat" where
  "page_do \<equiv> chat_do page_loaded"

text \<open>Answers need a request; the server lists no message twice.\<close>

fun chat_enabled :: "chat_event \<Rightarrow> chat \<Rightarrow> bool" where
  "chat_enabled (HistoryLoaded ds) c = (0 < cs_loads c \<and> distinct (map cd_id ds))"
| "chat_enabled (HistoryFailed msg) c = (0 < cs_loads c)"
| "chat_enabled (SendDone d) c = (cs_pending c \<noteq> None)"
| "chat_enabled (SendFailed msg) c = (cs_pending c \<noteq> None)"
| "chat_enabled _ c = True"

section \<open>The chat in the administrator's view\<close>

text \<open>
  Here the messages come by their event type, a failed message stays in the input, and the history is
  asked for once (\<open>cs_asked\<close> is \<open>chatLoadedForUserIdRef\<close>, which only this copy has).
\<close>

definition modal_load :: "chat \<Rightarrow> chat" where
  "modal_load c = (if cs_asked c then c else (load_started c)\<lparr>cs_asked := True\<rparr>)"

text \<open>Another user: the state is cleared, the requests under way go on.\<close>

definition modal_reset :: "chat \<Rightarrow> chat" where
  "modal_reset c = chat_init\<lparr>cs_loads := cs_loads c\<rparr>"

definition modal_append :: "chat_env \<Rightarrow> string \<Rightarrow> ChatMessageDto \<Rightarrow> chat \<Rightarrow> chat" where
  "modal_append E user_name d c =
     (let c' = c\<lparr>cs_known := set_add (cd_id d) (cs_known c)\<rparr> in
      if list_ex (\<lambda>m. cm_id m = cd_id d) (cs_messages c) then c'
      else c'\<lparr>cs_messages := cs_messages c @ [dtoToMessage E user_name d]\<rparr>)"

definition modal_push :: "chat_env \<Rightarrow> string \<Rightarrow> json \<Rightarrow> chat \<Rightarrow> chat" where
  "modal_push E user_name e c =
     (if json_str e ''type'' \<noteq> Some ''chat.message'' then c
      else let p = (case json_field e ''payload'' of Some q \<Rightarrow> q | None \<Rightarrow> JNull); i = text_default [] (json_field p ''id'') in
        if text_of (json_field p ''userId'') \<noteq> Some (ce_userId E) \<or> i = [] \<or> i \<in> set (cs_known c) then c
        else modal_append E user_name \<lparr>cd_id = i, cd_senderType = text_default [] (json_field p ''senderType''),
               cd_body = text_default [] (json_field p ''body''), cd_createdAt = text_default [] (json_field p ''createdAt'')\<rparr> c)"

definition modal_loaded :: "chat_env \<Rightarrow> string \<Rightarrow> ChatMessageDto list \<Rightarrow> chat \<Rightarrow> chat" where
  "modal_loaded E user_name ds c =
     c\<lparr>cs_messages := map (dtoToMessage E user_name) ds, cs_known := foldl (\<lambda>s d. set_add (cd_id d) s) (cs_known c) ds,
       cs_loading := False, cs_loads := cs_loads c - 1\<rparr>"

definition modal_send :: "chat \<Rightarrow> chat" where
  "modal_send c =
     (if trim (cs_input c) = [] \<or> cs_pending c \<noteq> None then c else c\<lparr>cs_pending := Some (trim (cs_input c)), cs_error := None\<rparr>)"

definition modal_sent :: "chat_env \<Rightarrow> string \<Rightarrow> ChatMessageDto \<Rightarrow> chat \<Rightarrow> chat" where
  "modal_sent E user_name d c = (modal_append E user_name d c)\<lparr>cs_input := [], cs_pending := None\<rparr>"

definition modal_send_failed :: "string \<Rightarrow> chat \<Rightarrow> chat" where
  "modal_send_failed msg c = c\<lparr>cs_error := Some msg, cs_pending := None\<rparr>"

fun modal_do :: "string \<Rightarrow> chat_env \<Rightarrow> chat_event \<Rightarrow> chat \<Rightarrow> chat" where
  "modal_do n E LoadStarted c = modal_load c"
| "modal_do n E (HistoryLoaded ds) c = modal_loaded E n ds c"
| "modal_do n E (HistoryFailed msg) c = history_failed msg c"
| "modal_do n E (Pushed e) c = modal_push E n e c"
| "modal_do n E (Typed t) c = c\<lparr>cs_input := t\<rparr>"
| "modal_do n E SendClicked c = modal_send c"
| "modal_do n E (SendDone d) c = modal_sent E n d c"
| "modal_do n E (SendFailed msg) c = modal_send_failed msg c"

section \<open>The desk\<close>

record ConversationSummary =
  co_userId :: string
  co_userName :: string
  co_userEmail :: string
  co_lastMessage :: string
  co_lastTime :: string

record desk =
  dk_byUser :: "(string, ChatMessage list) jsmap"
  dk_known :: "(string, string list) jsmap"
  dk_conversations :: "ConversationSummary list"
  dk_selected :: "string option"
  dk_info :: "(string \<times> string \<times> string) option"
  dk_input :: string
  dk_loading :: bool
  dk_asked :: "string list"
  dk_listings :: nat
  dk_pending :: "(string \<times> string \<times> string option) option"
  dk_error :: "string option"

definition get_list :: "('k, 'v list) jsmap \<Rightarrow> 'k \<Rightarrow> 'v list" where
  "get_list m k = (case map_get m k of Some xs \<Rightarrow> xs | None \<Rightarrow> [])"

definition conversation_of :: "desk \<Rightarrow> string \<Rightarrow> ConversationSummary option" where
  "conversation_of s u = List.find (\<lambda>c. co_userId c = u) (dk_conversations s)"

text \<open>The name under which the selected user's messages are listed when they are loaded.\<close>

definition display_name :: "desk \<Rightarrow> string \<Rightarrow> string option" where
  "display_name s u =
     (if dk_selected s = Some u then
        (case conversation_of s u of
           Some c \<Rightarrow> Some (co_userName c)
         | None \<Rightarrow> (case dk_info s of Some (i, n, e) \<Rightarrow> if i = u then Some n else Some ''User'' | None \<Rightarrow> Some ''User''))
      else None)"

definition selected_name :: "desk \<Rightarrow> string option" where
  "selected_name s =
     (case dk_selected s of
        None \<Rightarrow> None
      | Some u \<Rightarrow>
          (case dk_info s of
             Some (i, n, e) \<Rightarrow> if i = u then Some n else map_option co_userName (conversation_of s u)
           | None \<Rightarrow> map_option co_userName (conversation_of s u)))"

definition or_user :: "string option \<Rightarrow> string" where
  "or_user n = (case n of Some t \<Rightarrow> t | None \<Rightarrow> ''User'')"

text \<open>The effect that loads a history runs when the selection or the messages changed.\<close>

definition load_effect :: "desk \<Rightarrow> desk" where
  "load_effect s =
     (case dk_selected s of
        None \<Rightarrow> s
      | Some u \<Rightarrow>
          if u = [] \<or> map_has (dk_byUser s) u then s else s\<lparr>dk_loading := True, dk_asked := dk_asked s @ [u]\<rparr>)"

definition set_messages :: "string \<Rightarrow> ChatMessage list \<Rightarrow> desk \<Rightarrow> desk" where
  "set_messages u ms s = load_effect (s\<lparr>dk_byUser := map_set u ms (dk_byUser s)\<rparr>)"

definition add_known :: "string \<Rightarrow> string list \<Rightarrow> desk \<Rightarrow> desk" where
  "add_known u is' s = s\<lparr>dk_known := map_set u (foldl (\<lambda>k i. set_add i k) (get_list (dk_known s) u) is') (dk_known s)\<rparr>"

definition add_message :: "string \<Rightarrow> ChatMessage \<Rightarrow> desk \<Rightarrow> desk" where
  "add_message u m s =
     (if list_ex (\<lambda>x. cm_id x = cm_id m) (get_list (dk_byUser s) u) then s
      else set_messages u (get_list (dk_byUser s) u @ [m]) s)"

definition desk_loaded :: "chat_env \<Rightarrow> nat \<Rightarrow> ChatMessageDto list \<Rightarrow> desk \<Rightarrow> desk" where
  "desk_loaded E k ds s =
     (let u = dk_asked s ! k; ms = map (dtoToMessage E (or_user (display_name s u))) ds in
      set_messages u ms (add_known u (map cd_id ds)
        (s\<lparr>dk_asked := take k (dk_asked s) @ drop (Suc k) (dk_asked s), dk_loading := False\<rparr>)))"

definition desk_load_failed :: "nat \<Rightarrow> string \<Rightarrow> desk \<Rightarrow> desk" where
  "desk_load_failed k msg s = s\<lparr>dk_asked := take k (dk_asked s) @ drop (Suc k) (dk_asked s), dk_loading := False, dk_error := Some msg\<rparr>"

definition touch_conversation :: "string \<Rightarrow> string \<Rightarrow> string \<Rightarrow> ConversationSummary list \<Rightarrow> ConversationSummary list" where
  "touch_conversation u body t cs = map (\<lambda>c. if co_userId c = u then c\<lparr>co_lastMessage := body, co_lastTime := t\<rparr> else c) cs"

text \<open>The time written into the list is that of the message, without the clock as a default.\<close>

definition desk_push :: "chat_env \<Rightarrow> json \<Rightarrow> desk \<Rightarrow> desk" where
  "desk_push E e s =
     (case read_push E ''user'' e of
        None \<Rightarrow> s
      | Some (uid, d) \<Rightarrow>
          if cd_id d \<in> set (get_list (dk_known s) uid) then s
          else
            let name = map_option co_userName (conversation_of s uid);
                s1 = add_message uid (dtoToMessage E (or_user name) d) (add_known uid [cd_id d] s);
                p = event_payload e
            in if text_of (first_field p [''senderType'', ''sender_type'']) \<noteq> Some ''user'' then s1
               else if conversation_of s uid = None then s1\<lparr>dk_listings := Suc (dk_listings s1)\<rparr>
               else s1\<lparr>dk_conversations := touch_conversation uid (cd_body d)
                      (ce_time E (text_default [] (first_field p [''createdAt'', ''created_at'']))) (dk_conversations s1)\<rparr>)"

definition desk_send :: "desk \<Rightarrow> desk" where
  "desk_send s =
     (case dk_selected s of
        None \<Rightarrow> s
      | Some u \<Rightarrow>
          if trim (dk_input s) = [] \<or> u = [] \<or> dk_pending s \<noteq> None then s
          else s\<lparr>dk_pending := Some (u, trim (dk_input s), selected_name s), dk_input := []\<rparr>)"

definition desk_sent :: "chat_env \<Rightarrow> ChatMessageDto \<Rightarrow> desk \<Rightarrow> desk" where
  "desk_sent E d s =
     (case dk_pending s of
        None \<Rightarrow> s
      | Some (u, t, n) \<Rightarrow>
          let s1 = add_message u (dtoToMessage E (or_user n) d) (add_known u [cd_id d] s) in
          s1\<lparr>dk_conversations := touch_conversation u t (ce_time E (cd_createdAt d)) (dk_conversations s1), dk_pending := None\<rparr>)"

definition desk_send_failed :: "string \<Rightarrow> desk \<Rightarrow> desk" where
  "desk_send_failed msg s =
     (case dk_pending s of
        None \<Rightarrow> s
      | Some (u, t, n) \<Rightarrow> s\<lparr>dk_error := Some msg, dk_input := t, dk_pending := None\<rparr>)"

text \<open>A click on a conversation, and the choice of a user from the list of all users.\<close>

definition select_conversation :: "string option \<Rightarrow> desk \<Rightarrow> desk" where
  "select_conversation u s = load_effect (s\<lparr>dk_info := None, dk_selected := u\<rparr>)"

definition handleSelectUser :: "string \<times> string option \<times> string option \<times> string option \<Rightarrow> desk \<Rightarrow> desk" where
  "handleSelectUser v s =
     (case v of (u, first_name, last_name, email) \<Rightarrow>
        let names = filter (\<lambda>t. t \<noteq> []) (List.map_filter (\<lambda>x. x) [first_name, last_name]);
            name = (if join_with '' '' names \<noteq> [] then join_with '' '' names
                    else case email of Some m \<Rightarrow> if m \<noteq> [] then m else ''User'' | None \<Rightarrow> ''User'')
        in load_effect (s\<lparr>dk_info := (if list_ex (\<lambda>c. co_userId c = u) (dk_conversations s) then None
              else Some (u, name, case email of Some m \<Rightarrow> m | None \<Rightarrow> [])), dk_selected := Some u\<rparr>))"

definition conversations_loaded :: "ConversationSummary list \<Rightarrow> desk \<Rightarrow> desk" where
  "conversations_loaded cs s = s\<lparr>dk_conversations := cs, dk_listings := dk_listings s - 1\<rparr>"

text \<open>The address of the page may select a user.\<close>

definition desk_init :: "string option \<Rightarrow> desk" where
  "desk_init u = load_effect \<lparr>dk_byUser = [], dk_known = [], dk_conversations = [], dk_selected = u, dk_info = None, dk_input = [],
     dk_loading = False, dk_asked = [], dk_listings = 1, dk_pending = None, dk_error = None\<rparr>"

datatype desk_event = DkSelect "string option" | DkPick "string \<times> string option \<times> string option \<times> string option"
  | DkLoaded nat "ChatMessageDto list" | DkLoadFailed nat string | DkPush json | DkTyped string | DkSend | DkSent ChatMessageDto
  | DkSendFailed string | DkConversations "ConversationSummary list"

fun desk_do :: "chat_env \<Rightarrow> desk_event \<Rightarrow> desk \<Rightarrow> desk" where
  "desk_do E (DkSelect u) s = select_conversation u s"
| "desk_do E (DkPick v) s = handleSelectUser v s"
| "desk_do E (DkLoaded k ds) s = desk_loaded E k ds s"
| "desk_do E (DkLoadFailed k msg) s = desk_load_failed k msg s"
| "desk_do E (DkPush e) s = desk_push E e s"
| "desk_do E (DkTyped t) s = s\<lparr>dk_input := t\<rparr>"
| "desk_do E DkSend s = desk_send s"
| "desk_do E (DkSent d) s = desk_sent E d s"
| "desk_do E (DkSendFailed msg) s = desk_send_failed msg s"
| "desk_do E (DkConversations cs) s = conversations_loaded cs s"

fun desk_enabled :: "desk_event \<Rightarrow> desk \<Rightarrow> bool" where
  "desk_enabled (DkLoaded k ds) s = (k < length (dk_asked s) \<and> distinct (map cd_id ds))"
| "desk_enabled (DkLoadFailed k msg) s = (k < length (dk_asked s))"
| "desk_enabled (DkSent d) s = (dk_pending s \<noteq> None)"
| "desk_enabled (DkSendFailed msg) s = (dk_pending s \<noteq> None)"
| "desk_enabled (DkConversations cs) s = (0 < dk_listings s)"
| "desk_enabled _ s = True"

section \<open>No message twice\<close>

definition ids :: "chat \<Rightarrow> string list" where
  "ids c = map cm_id (cs_messages c)"

lemma dtoToMessage_id [simp]: "cm_id (dtoToMessage E n d) = cd_id d"
  by (simp add: dtoToMessage_def Let_def)

lemma map_ids [simp]: "map (cm_id \<circ> dtoToMessage E n) ds = map cd_id ds"
  by simp

lemma set_add_known [simp]: "set (foldl (\<lambda>s d. set_add (f d) s) k ds) = set k \<union> f ` set ds"
  by (induction ds arbitrary: k) (auto simp: set_add_def)

lemma set_set_add [simp]: "set (set_add x s) = insert x (set s)"
  by (auto simp: set_add_def)

definition chat_ok :: "chat \<Rightarrow> bool" where
  "chat_ok c \<longleftrightarrow> distinct (ids c) \<and> set (ids c) \<subseteq> set (cs_known c)"

lemma append_new_ok: "chat_ok c \<Longrightarrow> chat_ok (append_new E d c)"
  by (auto simp: append_new_def chat_ok_def ids_def)

lemma modal_append_ok: "chat_ok c \<Longrightarrow> chat_ok (modal_append E n d c)"
  by (auto simp: modal_append_def chat_ok_def ids_def Let_def list_ex_iff)

lemma chat_ok_updates [simp]:
  "chat_ok (c\<lparr>cs_input := t\<rparr>) = chat_ok c" "chat_ok (c\<lparr>cs_pending := q\<rparr>) = chat_ok c" "chat_ok (c\<lparr>cs_error := msg\<rparr>) = chat_ok c"
  "chat_ok (c\<lparr>cs_loading := b\<rparr>) = chat_ok c" "chat_ok (c\<lparr>cs_loads := k\<rparr>) = chat_ok c" "chat_ok (c\<lparr>cs_asked := b\<rparr>) = chat_ok c"
  by (simp_all add: chat_ok_def ids_def)

lemmas chat_steps = load_started_def history_failed_def chat_push_def chat_send_def chat_sent_def chat_send_failed_def append_new_ok
lemmas modal_steps = modal_load_def load_started_def history_failed_def modal_push_def modal_send_def modal_sent_def modal_send_failed_def
  modal_append_ok

definition keeps_ids :: "(chat_env \<Rightarrow> ChatMessageDto list \<Rightarrow> chat \<Rightarrow> chat) \<Rightarrow> bool" where
  "keeps_ids loaded \<longleftrightarrow> (\<forall>E ds c. distinct (map cd_id ds) \<longrightarrow> chat_ok c \<longrightarrow> chat_ok (loaded E ds c))"

lemma loaded_keeps_ids: "keeps_ids tab_loaded" "keeps_ids page_loaded" "keeps_ids (\<lambda>E ds c. modal_loaded E n ds c)"
  by (auto simp: keeps_ids_def tab_loaded_def page_loaded_def modal_loaded_def chat_ok_def ids_def)

lemma chat_ok_step:
  assumes "keeps_ids loaded" "chat_ok c" "chat_enabled e c" shows "chat_ok (chat_do loaded E e c)"
  using assms by (cases e) (auto simp: chat_steps keeps_ids_def split: option.splits)

lemma modal_chat_ok_step: assumes "chat_ok c" "chat_enabled e c" shows "chat_ok (modal_do n E e c)"
  using assms loaded_keeps_ids(3) [of n] by (cases e) (auto simp: modal_steps keeps_ids_def Let_def split: option.splits)

lemma chat_ok_init: "chat_ok chat_init" by (simp add: chat_ok_def ids_def chat_init_def)

interpretation tab: invariant_system chat_enabled "tab_do E" chat_ok "\<lambda>c. c = chat_init" for E
  by unfold_locales (auto intro: chat_ok_step loaded_keeps_ids chat_ok_init)

interpretation page: invariant_system chat_enabled "page_do E" chat_ok "\<lambda>c. c = chat_init" for E
  by unfold_locales (auto intro: chat_ok_step loaded_keeps_ids chat_ok_init)

interpretation modal: invariant_system chat_enabled "modal_do n E" chat_ok "\<lambda>c. c = chat_init" for n E
  by unfold_locales (auto intro: modal_chat_ok_step chat_ok_init)

section \<open>The desk\<close>

definition desk_ok :: "desk \<Rightarrow> bool" where
  "desk_ok s \<longleftrightarrow> (\<forall>u. distinct (map cm_id (get_list (dk_byUser s) u)) \<and>
     set (map cm_id (get_list (dk_byUser s) u)) \<subseteq> set (get_list (dk_known s) u))"

lemma get_list_set: "get_list (map_set k xs m) k' = (if k' = k then xs else get_list m k')"
  by (simp add: get_list_def map_get_set)

lemma load_effect_same [simp]: "dk_byUser (load_effect s) = dk_byUser s" "dk_known (load_effect s) = dk_known s"
  by (simp_all add: load_effect_def split: option.splits)

lemma desk_ok_load [simp]: "desk_ok (load_effect s) = desk_ok s" by (simp add: desk_ok_def)

lemma desk_ok_updates [simp]:
  "desk_ok (s\<lparr>dk_conversations := cs\<rparr>) = desk_ok s" "desk_ok (s\<lparr>dk_selected := u\<rparr>) = desk_ok s" "desk_ok (s\<lparr>dk_info := i\<rparr>) = desk_ok s"
  "desk_ok (s\<lparr>dk_input := t\<rparr>) = desk_ok s" "desk_ok (s\<lparr>dk_loading := b\<rparr>) = desk_ok s" "desk_ok (s\<lparr>dk_asked := q\<rparr>) = desk_ok s"
  "desk_ok (s\<lparr>dk_listings := k\<rparr>) = desk_ok s" "desk_ok (s\<lparr>dk_pending := q'\<rparr>) = desk_ok s" "desk_ok (s\<lparr>dk_error := msg\<rparr>) = desk_ok s"
  by (simp_all add: desk_ok_def)

lemma desk_ok_known: "desk_ok s \<Longrightarrow> desk_ok (add_known u is' s)"
  by (auto simp: desk_ok_def add_known_def get_list_set)

lemma add_known_known [simp]: "set (get_list (dk_known (add_known u is' s)) v) = set (get_list (dk_known s) v) \<union> (if v = u then set is' else {})"
  by (simp add: add_known_def get_list_set)

lemma add_known_byUser [simp]: "dk_byUser (add_known u is' s) = dk_byUser s"
  by (simp add: add_known_def)

lemma desk_ok_add: "desk_ok s \<Longrightarrow> cm_id m \<in> set (get_list (dk_known s) u) \<Longrightarrow> desk_ok (add_message u m s)"
  by (auto simp: add_message_def set_messages_def desk_ok_def get_list_set list_ex_iff)

lemma desk_ok_added: "desk_ok s \<Longrightarrow> desk_ok (add_message u (dtoToMessage E n d) (add_known u [cd_id d] s))"
  by (rule desk_ok_add) (simp_all add: desk_ok_known)

lemma desk_ok_loaded: "desk_ok s \<Longrightarrow> distinct (map cd_id ds) \<Longrightarrow> desk_ok (desk_loaded E k ds s)"
  by (auto simp: desk_loaded_def Let_def set_messages_def desk_ok_def get_list_set)

lemma desk_ok_step: assumes "desk_ok s" "desk_enabled e s" shows "desk_ok (desk_do E e s)"
proof (cases e)
  case (DkLoaded k ds)
  then show ?thesis using assms by (simp add: desk_ok_loaded)
next
  case (DkPush j)
  show ?thesis using assms(1) by (auto simp: DkPush desk_push_def Let_def desk_ok_added split: option.splits)
qed (use assms in \<open>auto simp: select_conversation_def handleSelectUser_def desk_load_failed_def desk_send_def desk_sent_def desk_send_failed_def
    conversations_loaded_def Let_def desk_ok_added split: option.splits prod.splits\<close>)

lemma desk_ok_init: "desk_ok (desk_init u)"
  by (simp add: desk_init_def) (simp add: desk_ok_def get_list_def map_get_def)

interpretation support_desk: invariant_system desk_enabled "desk_do E" desk_ok "\<lambda>s. \<exists>u. s = desk_init u" for E
  by unfold_locales (auto intro: desk_ok_step desk_ok_init)

section \<open>What is shown after a history\<close>

text \<open>The messages an event brings, and those of a list that are new to a set of ids, each once.\<close>

definition arrivals :: "chat_env \<Rightarrow> chat_event \<Rightarrow> ChatMessageDto list" where
  "arrivals E e =
     (case e of
        Pushed j \<Rightarrow> (case read_push E ''support'' j of Some (u, d) \<Rightarrow> if u = ce_userId E then [d] else [] | None \<Rightarrow> [])
      | SendDone d \<Rightarrow> [d]
      | _ \<Rightarrow> [])"

fun fresh :: "string set \<Rightarrow> ChatMessageDto list \<Rightarrow> ChatMessageDto list" where
  "fresh known [] = []"
| "fresh known (d # ds) = (if cd_id d \<in> known then fresh known ds else d # fresh (insert (cd_id d) known) ds)"

fun is_history :: "chat_event \<Rightarrow> bool" where
  "is_history (HistoryLoaded ds) = True" | "is_history _ = False"

definition gains :: "chat_env \<Rightarrow> ChatMessageDto list \<Rightarrow> chat \<Rightarrow> chat \<Rightarrow> bool" where
  "gains E ds c c' \<longleftrightarrow> cs_messages c' = cs_messages c @ map (dtoToMessage E ''You'') (fresh (set (cs_known c)) ds) \<and>
     set (cs_known c') = set (cs_known c) \<union> cd_id ` set ds"

lemma gains_append_new: "gains E [d] c (append_new E d c)"
  by (auto simp: gains_def append_new_def)

lemma gains_step: "\<not> is_history e \<Longrightarrow> gains E (arrivals E e) c (chat_do loaded E e c)"
  using gains_append_new [of E _ c]
  by (cases e) (auto simp: arrivals_def gains_def load_started_def history_failed_def chat_push_def chat_send_def chat_sent_def
      chat_send_failed_def split: option.splits)

lemma fresh_append: "fresh known (as @ bs) = fresh known as @ fresh (known \<union> cd_id ` set as) bs"
  by (induction known as rule: fresh.induct) (auto simp: insert_absorb)

lemma gains_trans: "gains E as a b \<Longrightarrow> gains E bs b c \<Longrightarrow> gains E (as @ bs) a c"
  by (auto simp: gains_def fresh_append)

lemma gains_fold:
  "list_all (\<lambda>e. \<not> is_history e) es \<Longrightarrow> gains E (concat (map (arrivals E) es)) c (fold (chat_do loaded E) es c)"
proof (induction es arbitrary: c)
  case (Cons e es)
  then show ?case using gains_trans [OF gains_step [of e E c loaded]] by simp
qed (simp add: gains_def)

section \<open>Theorems\<close>

text \<open>However loading, pushing and sending interleave, none of the four chats shows a message twice: neither a message that
  was sent here and then comes back over the socket, nor one that is pushed while the history that holds it is loading.\<close>

theorem no_message_twice:
  "(reach (\<lambda>c. c = chat_init) chat_enabled (tab_do E) c \<longrightarrow> distinct (map cm_id (cs_messages c))) \<and>
   (reach (\<lambda>c. c = chat_init) chat_enabled (page_do E) c \<longrightarrow> distinct (map cm_id (cs_messages c))) \<and>
   (reach (\<lambda>c. c = chat_init) chat_enabled (modal_do n E) c \<longrightarrow> distinct (map cm_id (cs_messages c))) \<and>
   (reach (\<lambda>s. \<exists>u. s = desk_init u) desk_enabled (desk_do E) s \<longrightarrow> distinct (map cm_id (get_list (dk_byUser s) v)))"
  using tab.reach_inv [of E c] page.reach_inv [of E c] modal.reach_inv [of n E c] support_desk.reach_inv [of E s]
  by (auto simp: chat_ok_def ids_def desk_ok_def)

text \<open>Once a history is shown in the terminal, and until the next one, the chat shows that history followed by exactly the
  messages of this user that were pushed or sent since and are new, each once and in the order in which they came.\<close>

theorem chat_complete:
  assumes "list_all (\<lambda>e. \<not> is_history e) es"
  shows "cs_messages (fold (tab_do E) (HistoryLoaded ds # es) c) =
    map (dtoToMessage E ''You'') (ds @ fresh (cd_id ` set ds) (concat (map (arrivals E) es)))"
  using gains_fold [OF assms, of E "tab_loaded E ds c" tab_loaded] by (simp add: gains_def) (simp add: tab_loaded_def)

section \<open>Observations\<close>

definition env0 :: chat_env where
  "env0 = \<lparr>ce_time = (\<lambda>t. t), ce_now = ''n'', ce_userId = ''u''\<rparr>"

definition hello :: json where
  "hello = JObj [(''payload'', JObj [(''userId'', JStr ''u''), (''id'', JStr ''7''), (''body'', JStr ''hi''), (''senderType'', JStr ''support'')])]"

definition hello_dto :: ChatMessageDto where
  "hello_dto = \<lparr>cd_id = ''7'', cd_senderType = ''support'', cd_body = ''hi'', cd_createdAt = ''n''\<rparr>"

lemma env0_user: "ce_userId env0 = ''u''" by (simp add: env0_def)

lemma read_hello: "read_push env0 d hello = Some (''u'', hello_dto)"
  by (simp add: read_push_def hello_def event_payload_def json_str_def text_default_def text_of_def env0_def Let_def hello_dto_def)

text \<open>
  A message that is pushed while a history without it is under way is removed by the answer. In the
  terminal a second delivery shows it; on the user's page its id stays known and it is never shown.
\<close>

lemma pushed_while_loading:
  "map cm_id (cs_messages (fold (tab_do env0) [LoadStarted, Pushed hello, HistoryLoaded []] chat_init)) = []"
  "map cm_id (cs_messages (fold (tab_do env0) [LoadStarted, Pushed hello, HistoryLoaded [], Pushed hello] chat_init)) = [''7'']"
  "map cm_id (cs_messages (fold (page_do env0) [LoadStarted, Pushed hello, HistoryLoaded [], Pushed hello] chat_init)) = []"
  by (simp_all add: chat_init_def load_started_def chat_push_def read_hello append_new_def env0_user tab_loaded_def page_loaded_def
      hello_dto_def set_add_def set_of_list_def)

text \<open>On the user's page a message whose id is known but which is not shown never comes back but with a history.\<close>

lemma known_never_shown:
  assumes "list_all (\<lambda>e. \<not> is_history e) es" "i \<in> set (cs_known c)" "i \<notin> set (ids c)"
  shows "i \<notin> set (ids (fold (page_do E) es c))"
proof -
  have "i \<notin> cd_id ` set (fresh k ds)" if "i \<in> k" for k ds
    using that by (induction k ds rule: fresh.induct) auto
  then show ?thesis using gains_fold [OF assms(1), of E c page_loaded] assms(2,3) by (auto simp: gains_def ids_def)
qed

text \<open>
  At the desk a message of a user whose conversation was not opened yet makes a list of that one
  message. From then on the conversation counts as loaded: its history is never asked for.
\<close>

definition never_asked :: "string \<Rightarrow> desk \<Rightarrow> bool" where
  "never_asked u s \<longleftrightarrow> map_has (dk_byUser s) u \<and> u \<notin> set (dk_asked s)"

lemma never_asked_effect: "never_asked u s \<Longrightarrow> never_asked u (load_effect s)"
  by (auto simp: never_asked_def load_effect_def split: option.splits)

lemma never_asked_updates [simp]:
  "never_asked u (s\<lparr>dk_conversations := cs\<rparr>) = never_asked u s" "never_asked u (s\<lparr>dk_selected := v\<rparr>) = never_asked u s"
  "never_asked u (s\<lparr>dk_info := i\<rparr>) = never_asked u s" "never_asked u (s\<lparr>dk_input := t\<rparr>) = never_asked u s"
  "never_asked u (s\<lparr>dk_loading := b\<rparr>) = never_asked u s" "never_asked u (s\<lparr>dk_listings := k\<rparr>) = never_asked u s"
  "never_asked u (s\<lparr>dk_pending := q\<rparr>) = never_asked u s" "never_asked u (s\<lparr>dk_error := msg\<rparr>) = never_asked u s"
  "never_asked u (s\<lparr>dk_known := m\<rparr>) = never_asked u s"
  by (simp_all add: never_asked_def)

lemma never_asked_set: "never_asked u s \<Longrightarrow> never_asked u (set_messages v ms s)"
  unfolding set_messages_def by (rule never_asked_effect) (simp add: never_asked_def)

lemma never_asked_add: "never_asked u s \<Longrightarrow> never_asked u (add_message v m s)" "never_asked u s \<Longrightarrow> never_asked u (add_known v is' s)"
  by (simp_all add: add_message_def never_asked_set add_known_def)

lemma never_asked_answered: "never_asked u s \<Longrightarrow> never_asked u (s\<lparr>dk_asked := take k (dk_asked s) @ drop l (dk_asked s)\<rparr>)"
  by (auto simp: never_asked_def dest: in_set_takeD in_set_dropD)

lemma never_asked_loaded: "never_asked u s \<Longrightarrow> never_asked u (desk_loaded E k ds s)"
  by (simp add: desk_loaded_def Let_def never_asked_set never_asked_add never_asked_answered)

lemma never_asked_step: assumes "never_asked u s" shows "never_asked u (desk_do E e s)"
proof (cases e)
  case (DkPush j)
  show ?thesis using assms by (auto simp: DkPush desk_push_def Let_def never_asked_add split: option.splits)
qed (use assms in \<open>auto simp: select_conversation_def handleSelectUser_def desk_load_failed_def desk_send_def desk_sent_def desk_send_failed_def
    conversations_loaded_def Let_def never_asked_add never_asked_effect never_asked_answered never_asked_loaded
    split: option.splits prod.splits\<close>)

interpretation history_skipped: stable_system desk_enabled "desk_do E" "never_asked u" for E u
  by unfold_locales (rule never_asked_step)

lemma history_never_loaded:
  "never_asked ''u'' (desk_push env0 hello (desk_init None))"
  "run desk_enabled (desk_do env0) es (desk_push env0 hello (desk_init None)) = Some s \<Longrightarrow> ''u'' \<notin> set (dk_asked s)"
proof -
  show start: "never_asked ''u'' (desk_push env0 hello (desk_init None))"
    by (simp add: desk_push_def read_hello desk_init_def load_effect_def Let_def add_known_def add_message_def set_messages_def
        get_list_def map_get_def map_has_def hello_dto_def never_asked_def)
  show "''u'' \<notin> set (dk_asked s)" if "run desk_enabled (desk_do env0) es (desk_push env0 hello (desk_init None)) = Some s"
    using history_skipped.run_stable [OF start that] by (simp add: never_asked_def)
qed

text \<open>In the administrator's view a history that failed is not asked for again, and one that arrives after the user was changed is
  shown for the new user.\<close>

lemma modal_never_retries:
  "cs_loads (fold (modal_do n E) [LoadStarted, HistoryFailed msg, LoadStarted] chat_init) = 0"
  by (simp add: modal_load_def load_started_def history_failed_def chat_init_def)

lemma modal_late_history:
  "map cm_id (cs_messages (modal_loaded E n [hello_dto] (modal_reset (modal_load chat_init)))) = [''7'']"
  by (simp add: modal_loaded_def hello_dto_def)

section \<open>A concrete chat\<close>

lemma chat_complete_witness:
  "map cm_id (cs_messages (fold (tab_do env0) [HistoryLoaded [], Pushed hello, Typed ''x'', Pushed hello] chat_init)) = [''7'']"
  using chat_complete [of "[Pushed hello, Typed ''x'', Pushed hello]" env0 "[]" chat_init]
  by (simp add: arrivals_def read_hello env0_user) (simp add: hello_dto_def)

lemma no_message_twice_witness: "distinct (map cm_id (cs_messages (fold (tab_do env0) [Pushed hello, Pushed hello] chat_init)))"
proof -
  have "run chat_enabled (tab_do env0) [Pushed hello, Pushed hello] chat_init = Some (fold (tab_do env0) [Pushed hello, Pushed hello] chat_init)"
    by simp
  from run_start [where init = "\<lambda>c. c = chat_init", OF refl this] show ?thesis using no_message_twice [where c = "fold (tab_do env0) [Pushed hello, Pushed hello] chat_init" and E = env0 and n = "[]" and s = "desk_init None" and v = "[]"] by blast
qed

end
