(* ===== verification/Ai_Chat.thy ===== *)
theory Ai_Chat
  imports Js_Json Machine
begin

text \<open>
  The assistant's chat (\<open>AiChatTab.tsx\<close>): messages that are shown before the server has them, answers
  that arrive in pieces over the socket, and answers of the server with the whole conversation, which
  are merged with what is shown. Timers ask for the conversation again after a message was sent. Every
  request, answer, timer and piece is an event of its own; fields of socket messages are taken when they are
  texts, and printing a time is a parameter.
\<close>

section \<open>Messages\<close>

datatype ai_role = RoleUser | RoleAssistant

record AiUiMessage =
  am_id :: string
  am_role :: ai_role
  am_content :: string
  am_streaming :: bool
  am_time :: string

record AiMessageDto =
  ad_id :: string
  ad_role :: string
  ad_content :: string
  ad_createdAt :: string

definition dtoToUi :: "(string \<Rightarrow> string) \<Rightarrow> AiMessageDto \<Rightarrow> AiUiMessage" where
  "dtoToUi formatTime m =
     \<lparr>am_id = ad_id m, am_role = (if ad_role m = ''user'' then RoleUser else RoleAssistant), am_content = ad_content m,
      am_streaming = False, am_time = formatTime (ad_createdAt m)\<rparr>"

definition has_text :: "string \<Rightarrow> bool" where
  "has_text t = (trim t \<noteq> [])"

definition is_temp :: "string \<Rightarrow> bool" where
  "is_temp i = (take 5 i = ''temp-'')"

text \<open>One message of the server against the local one with its id.\<close>

definition merge_one :: "AiUiMessage option \<Rightarrow> AiUiMessage \<Rightarrow> AiUiMessage" where
  "merge_one local' api =
     (case local' of
        None \<Rightarrow> api
      | Some l \<Rightarrow>
          if am_streaming l \<and> \<not> has_text (am_content api) then l
          else api\<lparr>am_content := (if has_text (am_content api) then am_content api else am_content l),
                   am_streaming := (if has_text (am_content api) then False else am_streaming l)\<rparr>)"

definition mergeApiWithLocal :: "(string \<Rightarrow> string) \<Rightarrow> AiUiMessage list \<Rightarrow> AiMessageDto list \<Rightarrow> AiUiMessage list" where
  "mergeApiWithLocal formatTime prev api =
     (let apiUi = map (dtoToUi formatTime) api; prevById = by_id am_id prev in
      map (\<lambda>m. merge_one (map_get prevById (am_id m)) m) apiUi @
      filter (\<lambda>m. am_id m \<notin> am_id ` set apiUi \<and> \<not> is_temp (am_id m)) prev)"

section \<open>The chat\<close>

record ai_chat =
  ai_messages :: "AiUiMessage list"
  ai_input :: string
  ai_pending :: "(string \<times> string \<times> string) option"
  ai_error :: "string option"
  ai_conversation :: "string option"
  ai_timers :: "(string \<times> nat list) option"
  ai_refreshes :: "(string \<times> bool) list"

definition ai_init :: ai_chat where
  "ai_init = \<lparr>ai_messages = [], ai_input = [], ai_pending = None, ai_error = None, ai_conversation = None, ai_timers = None,
     ai_refreshes = []\<rparr>"

definition clearSyncTimeouts :: "ai_chat \<Rightarrow> ai_chat" where
  "clearSyncTimeouts s = s\<lparr>ai_timers := None\<rparr>"

definition delaysMs :: "nat list" where
  "delaysMs = [2000, 4000, 7000, 11000, 16000, 22000, 30000]"

definition scheduleAssistantSync :: "string \<Rightarrow> ai_chat \<Rightarrow> ai_chat" where
  "scheduleAssistantSync i s = (clearSyncTimeouts s)\<lparr>ai_timers := Some (i, delaysMs)\<rparr>"

text \<open>A request for the conversation: for which answer, and whether a timer made it.\<close>

definition refreshConversationFromServer :: "string \<Rightarrow> bool \<Rightarrow> ai_chat \<Rightarrow> ai_chat" where
  "refreshConversationFromServer i by_timer s = s\<lparr>ai_refreshes := ai_refreshes s @ [(i, by_timer)]\<rparr>"

definition timer_fired :: "ai_chat \<Rightarrow> ai_chat" where
  "timer_fired s =
     (case ai_timers s of
        Some (i, d # ds) \<Rightarrow> refreshConversationFromServer i True (s\<lparr>ai_timers := Some (i, ds)\<rparr>)
      | _ \<Rightarrow> s)"

definition conversation_read :: "(string \<Rightarrow> string) \<Rightarrow> string \<Rightarrow> AiMessageDto list \<Rightarrow> ai_chat \<Rightarrow> ai_chat" where
  "conversation_read formatTime conv ms s =
     s\<lparr>ai_conversation := (if conv \<noteq> [] then Some conv else ai_conversation s),
       ai_messages := mergeApiWithLocal formatTime (ai_messages s) ms\<rparr>"

definition drop_refresh :: "nat \<Rightarrow> ai_chat \<Rightarrow> ai_chat" where
  "drop_refresh k s = s\<lparr>ai_refreshes := take k (ai_refreshes s) @ drop (Suc k) (ai_refreshes s)\<rparr>"

definition refresh_done :: "(string \<Rightarrow> string) \<Rightarrow> nat \<Rightarrow> string \<Rightarrow> AiMessageDto list \<Rightarrow> ai_chat \<Rightarrow> ai_chat" where
  "refresh_done formatTime k conv ms s =
     (let (i, by_timer) = ai_refreshes s ! k; s1 = conversation_read formatTime conv ms (drop_refresh k s);
          done' = (case List.find (\<lambda>m. ad_id m = i) ms of Some row \<Rightarrow> has_text (ad_content row) | None \<Rightarrow> False)
      in if by_timer \<and> done' then clearSyncTimeouts s1 else s1)"

fun upsert :: "string \<Rightarrow> (AiUiMessage option \<Rightarrow> AiUiMessage) \<Rightarrow> AiUiMessage list \<Rightarrow> AiUiMessage list" where
  "upsert i updater [] = [updater None]"
| "upsert i updater (m # ms) = (if am_id m = i then updater (Some m) # ms else m # upsert i updater ms)"

definition upsertAssistantMessage :: "string \<Rightarrow> (AiUiMessage option \<Rightarrow> AiUiMessage) \<Rightarrow> ai_chat \<Rightarrow> ai_chat" where
  "upsertAssistantMessage i updater s = s\<lparr>ai_messages := upsert i updater (ai_messages s)\<rparr>"

section \<open>Messages of the socket\<close>

record ai_push =
  ap_type :: string
  ap_conversationId :: string
  ap_messageId :: string
  ap_text :: "string option"
  ap_content :: "string option"

definition text_of :: "json option \<Rightarrow> string option" where
  "text_of v = (case v of Some (JStr s) \<Rightarrow> Some s | _ \<Rightarrow> None)"

definition or_blank :: "string option \<Rightarrow> string" where
  "or_blank v = (case v of Some t \<Rightarrow> t | None \<Rightarrow> [])"

definition read_ai_push :: "json \<Rightarrow> ai_push option" where
  "read_ai_push e =
     (if json_str e ''type'' \<noteq> Some ''ai.chat.delta'' then None
      else let raw = (case json_field e ''payload'' of Some p \<Rightarrow> p | None \<Rightarrow> JNull) in
        Some \<lparr>ap_type = or_blank (text_of (json_field raw ''type'')),
          ap_conversationId = or_blank (text_of (first_field raw [''conversationId'', ''conversation_id''])),
          ap_messageId = or_blank (text_of (first_field raw [''messageId'', ''message_id''])),
          ap_text = text_of (json_field raw ''text''), ap_content = text_of (json_field raw ''content'')\<rparr>)"

definition apology :: string where
  "apology = ''Sorry, I could not complete that response. Please try again.''"

definition piece_of :: "string \<Rightarrow> string \<Rightarrow> string \<Rightarrow> AiUiMessage option \<Rightarrow> AiUiMessage" where
  "piece_of i t now prev =
     \<lparr>am_id = i, am_role = RoleAssistant, am_content = (case prev of Some m \<Rightarrow> am_content m | None \<Rightarrow> []) @ t, am_streaming = True,
      am_time = (case prev of Some m \<Rightarrow> am_time m | None \<Rightarrow> now)\<rparr>"

definition finish_message :: "string \<Rightarrow> ai_chat \<Rightarrow> ai_chat" where
  "finish_message i s = s\<lparr>ai_messages := map (\<lambda>m. if am_id m = i then m\<lparr>am_streaming := False\<rparr> else m) (ai_messages s)\<rparr>"

text \<open>\<open>now\<close> is the printed time of the event.\<close>

definition apply_push :: "string \<Rightarrow> ai_push \<Rightarrow> ai_chat \<Rightarrow> ai_chat" where
  "apply_push now p s =
     (let i = ap_messageId p in
      if ai_conversation s \<noteq> None \<and> ai_conversation s \<noteq> Some [] \<and> ap_conversationId p \<noteq> [] \<and> ai_conversation s \<noteq> Some (ap_conversationId p)
      then s
      else if ap_type p = ''message'' then
        refreshConversationFromServer i False (clearSyncTimeouts (upsertAssistantMessage i
          (\<lambda>prev. \<lparr>am_id = i, am_role = RoleAssistant,
             am_content = (case ap_content p of Some t \<Rightarrow> t | None \<Rightarrow> or_blank (ap_text p)), am_streaming = False, am_time = now\<rparr>) s))
      else if ap_type p = ''delta'' \<and> ap_text p \<noteq> None \<and> ap_text p \<noteq> Some [] then
        upsertAssistantMessage i (piece_of i (or_blank (ap_text p)) now) s
      else if ap_type p = ''done'' then
        refreshConversationFromServer i False (finish_message i (clearSyncTimeouts s))
      else if ap_type p = ''error'' then
        refreshConversationFromServer i False (upsertAssistantMessage i
          (\<lambda>prev. \<lparr>am_id = i, am_role = RoleAssistant, am_content = (case ap_text p of Some t \<Rightarrow> t | None \<Rightarrow> apology), am_streaming = False,
             am_time = (case prev of Some m \<Rightarrow> am_time m | None \<Rightarrow> now)\<rparr>) (clearSyncTimeouts s))
      else s)"

definition handle_push :: "string \<Rightarrow> json \<Rightarrow> ai_chat \<Rightarrow> ai_chat" where
  "handle_push now e s = (case read_ai_push e of Some p \<Rightarrow> apply_push now p s | None \<Rightarrow> s)"

section \<open>Sending\<close>

definition handleSend :: "string \<Rightarrow> string \<Rightarrow> ai_chat \<Rightarrow> ai_chat" where
  "handleSend key now s =
     (let trimmed = trim (ai_input s); i = ''temp-user-'' @ key in
      if trimmed = [] \<or> ai_pending s \<noteq> None then s
      else s\<lparr>ai_pending := Some (trimmed, i, now), ai_input := [], ai_error := None,
        ai_messages := ai_messages s @ [\<lparr>am_id = i, am_role = RoleUser, am_content = trimmed, am_streaming = False, am_time = now\<rparr>]\<rparr>)"

definition send_done :: "string \<Rightarrow> string \<Rightarrow> string \<Rightarrow> ai_chat \<Rightarrow> ai_chat" where
  "send_done conv user_id assistant_id s =
     (case ai_pending s of
        None \<Rightarrow> s
      | Some (trimmed, i, now) \<Rightarrow>
          let withUser = map (\<lambda>m. if am_id m = i then m\<lparr>am_id := user_id\<rparr> else m) (ai_messages s) in
          scheduleAssistantSync assistant_id
            (s\<lparr>ai_conversation := Some conv, ai_pending := None,
              ai_messages := (if list_ex (\<lambda>m. am_id m = assistant_id) withUser then withUser
                else withUser @ [\<lparr>am_id = assistant_id, am_role = RoleAssistant, am_content = [], am_streaming = True, am_time = now\<rparr>])\<rparr>))"

definition send_failed :: "string \<Rightarrow> ai_chat \<Rightarrow> ai_chat" where
  "send_failed msg s =
     (case ai_pending s of
        None \<Rightarrow> s
      | Some (trimmed, i, now) \<Rightarrow>
          s\<lparr>ai_messages := filter (\<lambda>m. am_id m \<noteq> i) (ai_messages s), ai_error := Some msg, ai_input := trimmed, ai_pending := None\<rparr>)"

datatype ai_event = AiTyped string | AiSend string string | AiSent string string string | AiSendFailed string | AiPush string json
  | AiTimer | AiFetched string "AiMessageDto list" | AiRefreshed nat string "AiMessageDto list" | AiRefreshFailed nat | AiLoadFailed string

fun ai_do :: "(string \<Rightarrow> string) \<Rightarrow> ai_event \<Rightarrow> ai_chat \<Rightarrow> ai_chat" where
  "ai_do fmt (AiTyped t) s = s\<lparr>ai_input := t\<rparr>"
| "ai_do fmt (AiSend key now) s = handleSend key now s"
| "ai_do fmt (AiSent conv u a) s = send_done conv u a s"
| "ai_do fmt (AiSendFailed msg) s = send_failed msg s"
| "ai_do fmt (AiPush now e) s = handle_push now e s"
| "ai_do fmt AiTimer s = timer_fired s"
| "ai_do fmt (AiFetched conv ms) s = conversation_read fmt conv ms s"
| "ai_do fmt (AiRefreshed k conv ms) s = refresh_done fmt k conv ms s"
| "ai_do fmt (AiRefreshFailed k) s = drop_refresh k s"
| "ai_do fmt (AiLoadFailed msg) s = s\<lparr>ai_error := Some msg\<rparr>"

section \<open>Merging\<close>

lemma dtoToUi_simps [simp]: "am_id (dtoToUi fmt d) = ad_id d" "am_content (dtoToUi fmt d) = ad_content d" "am_streaming (dtoToUi fmt d) = False"
  by (simp_all add: dtoToUi_def)

lemma by_id_snoc: "by_id key (xs @ [x]) = map_set (key x) x (by_id key xs)"
  by (simp add: by_id_def)

lemma by_id_get: "map_get (by_id key xs) k = (let ys = filter (\<lambda>x. key x = k) xs in if ys = [] then None else Some (last ys))"
proof (induction xs rule: rev_induct)
  case (snoc x xs)
  then show ?case by (simp add: by_id_snoc map_get_set Let_def)
qed (simp add: by_id_def map_get_def)

lemma merge_one_id: assumes "\<And>l. local' = Some l \<Longrightarrow> am_id l = am_id m" shows "am_id (merge_one local' m) = am_id m"
proof (cases local')
  case (Some l)
  then have "am_id l = am_id m" using assms by blast
  then show ?thesis by (simp add: merge_one_def Some)
qed (simp add: merge_one_def)

definition merged_row :: "(string \<Rightarrow> string) \<Rightarrow> AiUiMessage list \<Rightarrow> AiMessageDto \<Rightarrow> AiUiMessage" where
  "merged_row fmt prev d = merge_one (map_get (by_id am_id prev) (ad_id d)) (dtoToUi fmt d)"

lemma merged_row_id [simp]: "am_id (merged_row fmt prev d) = ad_id d"
proof -
  have "am_id l = am_id (dtoToUi fmt d)" if "map_get (by_id am_id prev) (ad_id d) = Some l" for l
    using keyed_get [OF keyed_by_id that] by simp
  then show ?thesis unfolding merged_row_def by (subst merge_one_id) simp_all
qed

definition kept :: "AiMessageDto list \<Rightarrow> AiUiMessage \<Rightarrow> bool" where
  "kept api m \<longleftrightarrow> am_id m \<notin> ad_id ` set api \<and> \<not> is_temp (am_id m)"

lemma merge_eq: "mergeApiWithLocal fmt prev api = map (merged_row fmt prev) api @ filter (kept api) prev"
  by (simp add: mergeApiWithLocal_def Let_def merged_row_def kept_def [abs_def] image_image comp_def)

lemma merge_one_again: "\<not> am_streaming m \<Longrightarrow> merge_one (Some (merge_one l m)) m = merge_one l m"
  by (cases l) (simp_all add: merge_one_def)

lemma filter_one: "distinct (map key xs) \<Longrightarrow> x \<in> set xs \<Longrightarrow> filter (\<lambda>y. key y = key x) xs = [x]"
proof (induction xs)
  case (Cons a xs)
  then show ?case by (cases "x = a") (auto simp: filter_empty_conv rev_image_eqI)
qed simp

lemma merge_again:
  assumes "distinct (map ad_id api)"
  shows "mergeApiWithLocal fmt (mergeApiWithLocal fmt prev api) api = mergeApiWithLocal fmt prev api"
proof -
  let ?M = "mergeApiWithLocal fmt prev api"
  have get: "map_get (by_id am_id ?M) (ad_id d) = Some (merged_row fmt prev d)" if d: "d \<in> set api" for d
  proof -
    have "filter (\<lambda>x. ad_id x = ad_id d) api = [d]" by (rule filter_one [OF assms d])
    then have "filter (\<lambda>m. am_id m = ad_id d) ?M = [merged_row fmt prev d]"
      using d by (simp add: merge_eq filter_map comp_def) (auto simp: filter_empty_conv kept_def)
    then show ?thesis by (simp add: by_id_get)
  qed
  have "merged_row fmt ?M d = merged_row fmt prev d" if "d \<in> set api" for d
    using get [OF that] by (simp add: merged_row_def merge_one_again)
  moreover have "filter (kept api) ?M = filter (kept api) prev"
    by (simp add: merge_eq filter_map comp_def) (simp add: kept_def filter_empty_conv)
  ultimately show ?thesis by (subst merge_eq) (simp add: merge_eq cong: map_cong)
qed

lemma merge_ids: "map am_id (mergeApiWithLocal fmt prev api) =
    map ad_id api @ filter (\<lambda>i. i \<notin> ad_id ` set api \<and> \<not> is_temp i) (map am_id prev)"
  by (simp add: merge_eq filter_map comp_def kept_def [abs_def])

section \<open>A message that is being written\<close>

definition msgs_of :: "string \<Rightarrow> AiUiMessage list \<Rightarrow> AiUiMessage list" where
  "msgs_of i ms = filter (\<lambda>m. am_id m = i) ms"

lemma msgs_of_upsert_other:
  assumes "\<And>x. am_id (f x) = j" "j \<noteq> i" shows "msgs_of i (upsert j f ms) = msgs_of i ms"
  using assms(2) by (induction ms) (simp_all add: msgs_of_def assms(1))

lemma msgs_of_upsert:
  assumes "\<And>x. am_id (f x) = i" "msgs_of i ms = [m]" shows "msgs_of i (upsert i f ms) = [f (Some m)]"
  using assms(2) by (induction ms) (auto simp: msgs_of_def assms(1) split: if_splits)

lemma msgs_of_merge:
  assumes "msgs_of i prev = [m]" "am_streaming m" "\<not> is_temp i" "distinct (map ad_id api)"
    "\<And>d. d \<in> set api \<Longrightarrow> ad_id d = i \<Longrightarrow> \<not> has_text (ad_content d)"
  shows "msgs_of i (mergeApiWithLocal fmt prev api) = [m]"
proof (cases "i \<in> ad_id ` set api")
  case True
  then obtain d where d: "d \<in> set api" "ad_id d = i" by auto
  have "map_get (by_id am_id prev) i = Some m" using assms(1) by (simp add: by_id_get msgs_of_def)
  then have "merged_row fmt prev d = m" using assms(2) assms(5) [OF d] d(2) by (simp add: merged_row_def merge_one_def)
  moreover have "filter (\<lambda>x. ad_id x = i) api = [d]" using filter_one [OF assms(4) d(1)] d(2) by simp
  moreover have "filter (\<lambda>m. am_id m = i) (filter (kept api) prev) = []" using True by (auto simp: filter_empty_conv kept_def)
  ultimately show ?thesis by (simp add: msgs_of_def merge_eq filter_map comp_def)
next
  case False
  then have "filter (\<lambda>x. ad_id x = i) api = []" by (auto simp: filter_empty_conv)
  moreover have "filter (\<lambda>m. am_id m = i) (filter (kept api) prev) = filter (\<lambda>m. am_id m = i) prev"
    using False assms(3) by (simp add: kept_def) (rule filter_cong, auto)
  ultimately show ?thesis using assms(1) by (simp add: msgs_of_def merge_eq filter_map comp_def)
qed

text \<open>Events of a conversation that do not end the message \<open>i\<close>, and the piece one of them brings.\<close>

definition quiet_push :: "string \<Rightarrow> string \<Rightarrow> ai_push \<Rightarrow> bool" where
  "quiet_push c i p = (ap_conversationId p = c \<and> (ap_messageId p = i \<longrightarrow> ap_type p = ''delta''))"

definition quiet_rows :: "string \<Rightarrow> AiMessageDto list \<Rightarrow> bool" where
  "quiet_rows i ms = (distinct (map ad_id ms) \<and> list_all (\<lambda>d. ad_id d = i \<longrightarrow> \<not> has_text (ad_content d)) ms)"

fun quiet :: "string \<Rightarrow> string \<Rightarrow> ai_event \<Rightarrow> bool" where
  "quiet c i (AiPush now e) = (case read_ai_push e of Some p \<Rightarrow> quiet_push c i p | None \<Rightarrow> True)"
| "quiet c i (AiFetched conv ms) = (conv = c \<and> quiet_rows i ms)"
| "quiet c i (AiRefreshed k conv ms) = (conv = c \<and> quiet_rows i ms)"
| "quiet c i (AiSent conv u a) = (conv = c \<and> u \<noteq> i)"
| "quiet c i _ = True"

fun piece :: "string \<Rightarrow> ai_event \<Rightarrow> string" where
  "piece i (AiPush now e) = (case read_ai_push e of
      Some p \<Rightarrow> if ap_messageId p = i \<and> ap_type p = ''delta'' then or_blank (ap_text p) else []
    | None \<Rightarrow> [])"
| "piece i _ = []"

definition writing :: "string \<Rightarrow> string \<Rightarrow> string \<Rightarrow> ai_chat \<Rightarrow> bool" where
  "writing c i t s \<longleftrightarrow> (ai_conversation s = None \<or> ai_conversation s = Some c) \<and>
     (case ai_pending s of Some (x, j, n) \<Rightarrow> is_temp j | None \<Rightarrow> True) \<and>
     (\<exists>m. msgs_of i (ai_messages s) = [m] \<and> am_content m = t \<and> am_streaming m)"

lemma writing_messages:
  assumes "writing c i t s" "ai_conversation s' = ai_conversation s \<or> ai_conversation s' = Some c" "ai_pending s' = ai_pending s \<or> ai_pending s' = None"
    "msgs_of i (ai_messages s') = msgs_of i (ai_messages s)"
  shows "writing c i t s'"
  using assms by (auto simp: writing_def)

lemma writing_push:
  assumes "writing c i t s" "c \<noteq> []" "quiet_push c i p"
  shows "writing c i (t @ (if ap_messageId p = i \<and> ap_type p = ''delta'' then or_blank (ap_text p) else [])) (apply_push now p s)"
proof (cases "ap_messageId p = i")
  case True
  obtain m where m: "msgs_of i (ai_messages s) = [m]" "am_content m = t" "am_streaming m" using assms(1) by (auto simp: writing_def)
  have "msgs_of i (upsert i (piece_of i x now) (ai_messages s)) = [piece_of i x now (Some m)]" for x
    by (rule msgs_of_upsert) (simp_all add: piece_of_def m(1))
  then show ?thesis using assms True m
    by (auto simp: apply_push_def quiet_push_def upsertAssistantMessage_def writing_def or_blank_def piece_of_def)
next
  case False
  have "msgs_of i (map (\<lambda>m. if am_id m = ap_messageId p then m\<lparr>am_streaming := False\<rparr> else m) ms) = msgs_of i ms" for ms
    using False by (induction ms) (auto simp: msgs_of_def)
  then have "msgs_of i (ai_messages (apply_push now p s)) = msgs_of i (ai_messages s)"
    using False by (simp add: apply_push_def Let_def refreshConversationFromServer_def clearSyncTimeouts_def upsertAssistantMessage_def
        finish_message_def msgs_of_upsert_other piece_of_def)
  moreover have "ai_conversation (apply_push now p s) = ai_conversation s" "ai_pending (apply_push now p s) = ai_pending s"
    by (simp_all add: apply_push_def Let_def refreshConversationFromServer_def clearSyncTimeouts_def upsertAssistantMessage_def finish_message_def)
  ultimately show ?thesis using writing_messages [OF assms(1)] False by simp
qed

lemma writing_read:
  assumes "writing c i t s" "c \<noteq> []" "\<not> is_temp i" "quiet_rows i ms" shows "writing c i t (conversation_read fmt c ms s)"
proof -
  obtain m where m: "msgs_of i (ai_messages s) = [m]" "am_content m = t" "am_streaming m" using assms(1) by (auto simp: writing_def)
  have "msgs_of i (mergeApiWithLocal fmt (ai_messages s) ms) = [m]"
    by (rule msgs_of_merge [OF m(1,3) assms(3)]) (use assms(4) in \<open>auto simp: quiet_rows_def list_all_iff\<close>)
  then show ?thesis using assms(1,2) m by (simp add: writing_def conversation_read_def)
qed

lemma msgs_of_rename: "u \<noteq> i \<Longrightarrow> j \<noteq> i \<Longrightarrow> msgs_of i (map (\<lambda>m. if am_id m = j then m\<lparr>am_id := u\<rparr> else m) ms) = msgs_of i ms"
  by (induction ms) (auto simp: msgs_of_def)

lemma msgs_of_placeholder:
  assumes "msgs_of i ms = [m]" "am_id x = a"
  shows "msgs_of i (if list_ex (\<lambda>y. am_id y = a) ms then ms else ms @ [x]) = [m]"
proof -
  have "m \<in> set (msgs_of i ms)" using assms(1) by simp
  then have "m \<in> set ms \<and> am_id m = i" by (simp add: msgs_of_def)
  then have "\<not> list_ex (\<lambda>y. am_id y = a) ms \<Longrightarrow> a \<noteq> i" by (auto simp: list_ex_iff)
  then show ?thesis using assms by (auto simp: msgs_of_def)
qed

lemma writing_sent:
  assumes "writing c i t s" "u \<noteq> i" "\<not> is_temp i" shows "writing c i t (send_done c u a s)"
proof (cases "ai_pending s")
  case (Some q)
  obtain x j n where q: "q = (x, j, n)" by (cases q) auto
  then have j: "j \<noteq> i" using assms(1,3) by (auto simp: writing_def Some)
  obtain m where m: "msgs_of i (ai_messages s) = [m]" using assms(1) by (auto simp: writing_def)
  then have "msgs_of i (map (\<lambda>m. if am_id m = j then m\<lparr>am_id := u\<rparr> else m) (ai_messages s)) = [m]"
    using assms(2) j by (simp add: msgs_of_rename)
  then have "msgs_of i (ai_messages (send_done c u a s)) = msgs_of i (ai_messages s)"
    by (simp add: send_done_def Some q Let_def scheduleAssistantSync_def clearSyncTimeouts_def m msgs_of_placeholder)
  then show ?thesis
    by (rule writing_messages [OF assms(1), rotated 2])
      (simp_all add: send_done_def Some q Let_def scheduleAssistantSync_def clearSyncTimeouts_def)
qed (use assms(1) in \<open>simp add: send_done_def\<close>)

lemma writing_send: "writing c i t s \<Longrightarrow> \<not> is_temp i \<Longrightarrow> writing c i t (handleSend key now s)"
  by (auto simp: writing_def handleSend_def Let_def msgs_of_def is_temp_def)

lemma writing_failed:
  assumes "writing c i t s" "\<not> is_temp i" shows "writing c i t (send_failed msg s)"
proof -
  have "msgs_of i (filter (\<lambda>m. am_id m \<noteq> j) ms) = msgs_of i ms" if "is_temp j" for j ms
    using that assms(2) by (auto simp: msgs_of_def intro!: filter_cong)
  then show ?thesis using assms(1) by (auto simp: writing_def send_failed_def split: option.splits)
qed

lemma writing_step:
  assumes "writing c i t s" "c \<noteq> []" "\<not> is_temp i" "quiet c i e"
  shows "writing c i (t @ piece i e) (ai_do fmt e s)"
proof (cases e)
  case (AiPush now j)
  show ?thesis
  proof (cases "read_ai_push j")
    case (Some p)
    then show ?thesis using writing_push [OF assms(1,2), of p now] assms(4) by (simp add: AiPush handle_push_def)
  qed (use assms(1) in \<open>simp add: AiPush handle_push_def\<close>)
next
  case (AiRefreshed k conv ms)
  have "writing c i t (drop_refresh k s)" using assms(1) by (simp add: writing_def drop_refresh_def)
  then have "writing c i t (conversation_read fmt c ms (drop_refresh k s))" using assms(2-4) by (simp add: AiRefreshed writing_read)
  then show ?thesis using assms(4)
    by (simp add: AiRefreshed refresh_done_def Let_def split: prod.splits) (simp add: writing_def clearSyncTimeouts_def)
next
  case (AiFetched conv ms)
  then show ?thesis using assms by (simp add: writing_read)
qed (use assms in \<open>auto simp: writing_sent writing_send writing_failed\<close>, auto simp: writing_def timer_fired_def
    refreshConversationFromServer_def drop_refresh_def split: option.splits list.splits prod.splits)

lemma writing_fold:
  "writing c i t s \<Longrightarrow> c \<noteq> [] \<Longrightarrow> \<not> is_temp i \<Longrightarrow> list_all (quiet c i) es \<Longrightarrow>
     writing c i (t @ concat (map (piece i) es)) (fold (ai_do fmt) es s)"
proof (induction es arbitrary: t s)
  case (Cons e es)
  then have "writing c i (t @ piece i e) (ai_do fmt e s)" by (simp add: writing_step)
  then show ?case using Cons.IH [of "t @ piece i e" "ai_do fmt e s"] Cons.prems by simp
qed simp

section \<open>Theorems\<close>

text \<open>C38. While the assistant is writing a message, its text is what it had followed by the pieces received for it, in order:
  whatever is sent meanwhile, whatever else is written, and however often the conversation is read again while the server still
  has the message blank.\<close>

theorem written_text_exact:
  assumes "msgs_of i (ai_messages s) = [m]" "am_streaming m" "ai_conversation s = Some c" "c \<noteq> []" "\<not> is_temp i" "ai_pending s = None"
    "list_all (quiet c i) es"
  shows "\<exists>m'. msgs_of i (ai_messages (fold (ai_do fmt) es s)) = [m'] \<and> am_content m' = am_content m @ concat (map (piece i) es) \<and>
    am_streaming m'"
proof -
  have "writing c i (am_content m) s" using assms by (simp add: writing_def)
  from writing_fold [OF this assms(4,5,7), of fmt] show ?thesis by (simp add: writing_def)
qed

text \<open>Merging a conversation of the server with what is shown gives the server's messages in its order, then the others that
  were shown, but for those not yet confirmed; where the server has text, its text counts; no text is replaced by a blank; and
  merging the same answer again changes nothing.\<close>

theorem merge_sound:
  fixes fmt :: "string \<Rightarrow> string"
  assumes "distinct (map am_id prev)" "distinct (map ad_id api)"
  defines "M \<equiv> mergeApiWithLocal fmt prev api"
  shows "map am_id M = map ad_id api @ filter (\<lambda>i. i \<notin> ad_id ` set api \<and> \<not> is_temp i) (map am_id prev) \<and> distinct (map am_id M) \<and>
    (\<forall>d \<in> set api. has_text (ad_content d) \<longrightarrow> dtoToUi fmt d \<in> set M) \<and>
    (\<forall>l \<in> set prev. has_text (am_content l) \<and> \<not> is_temp (am_id l) \<longrightarrow> (\<exists>m \<in> set M. am_id m = am_id l \<and> has_text (am_content m))) \<and>
    mergeApiWithLocal fmt M api = M"
proof (intro conjI ballI impI)
  show ids: "map am_id M = map ad_id api @ filter (\<lambda>i. i \<notin> ad_id ` set api \<and> \<not> is_temp i) (map am_id prev)"
    unfolding M_def by (rule merge_ids)
  show "distinct (map am_id M)" unfolding ids using assms(1,2) by auto
  show "mergeApiWithLocal fmt M api = M" unfolding M_def by (rule merge_again [OF assms(2)])
  show "dtoToUi fmt d \<in> set M" if "d \<in> set api" "has_text (ad_content d)" for d
  proof -
    have "merged_row fmt prev d = dtoToUi fmt d" using that(2) by (simp add: merged_row_def merge_one_def split: option.splits)
    then show ?thesis using that(1) by (simp add: M_def merge_eq) (metis image_eqI)
  qed
  fix l assume l: "l \<in> set prev" "has_text (am_content l) \<and> \<not> is_temp (am_id l)"
  show "\<exists>m \<in> set M. am_id m = am_id l \<and> has_text (am_content m)"
  proof (cases "am_id l \<in> ad_id ` set api")
    case True
    then obtain d where d: "d \<in> set api" "ad_id d = am_id l" by auto
    have "map_get (by_id am_id prev) (ad_id d) = Some l" using filter_one [OF assms(1) l(1)] by (simp add: by_id_get d(2))
    then have "has_text (am_content (merged_row fmt prev d))" using l(2) by (simp add: merged_row_def merge_one_def)
    moreover have "merged_row fmt prev d \<in> set M" "am_id (merged_row fmt prev d) = am_id l" using d by (simp_all add: M_def merge_eq)
    ultimately show ?thesis by blast
  next
    case False
    then show ?thesis using l by (auto simp: M_def merge_eq kept_def)
  qed
qed

section \<open>Observations\<close>

text \<open>After the conversation was cleared on the server, merging its empty answer keeps every confirmed message on the screen.\<close>

lemma clear_keeps_messages: "mergeApiWithLocal fmt prev [] = filter (\<lambda>m. \<not> is_temp (am_id m)) prev"
  by (simp add: merge_eq kept_def [abs_def])

text \<open>
  The message just sent is shown under a temporary id. When the conversation is read again before
  the server has answered, it is dropped, and the answer no longer finds it: only the assistant's
  placeholder is left.
\<close>

definition asked :: "ai_chat" where
  "asked = handleSend ''k'' ''t'' (ai_init\<lparr>ai_input := ''hi''\<rparr>)"

lemma asked_messages: "ai_messages asked = [\<lparr>am_id = ''temp-user-k'', am_role = RoleUser, am_content = ''hi'', am_streaming = False, am_time = ''t''\<rparr>]"
  "ai_pending asked = Some (''hi'', ''temp-user-k'', ''t'')"
  by (simp_all add: asked_def handleSend_def ai_init_def Let_def trim_def is_space_def)

lemma sent_message_vanishes:
  "map am_id (ai_messages (fold (ai_do fmt) [AiSent ''c'' ''u1'' ''a1''] asked)) = [''u1'', ''a1'']"
  "map am_id (ai_messages (fold (ai_do fmt) [AiFetched ''c'' [], AiSent ''c'' ''u1'' ''a1''] asked)) = [''a1'']"
  by (simp_all add: send_done_def asked_messages scheduleAssistantSync_def clearSyncTimeouts_def conversation_read_def merge_eq kept_def is_temp_def)

text \<open>A piece that arrives after the whole text was read is appended to it.\<close>

lemma late_piece_doubles:
  "map am_content (ai_messages (apply_push now \<lparr>ap_type = ''delta'', ap_conversationId = ''c'', ap_messageId = ''a1'', ap_text = Some ''cd'', ap_content = None\<rparr>
     (conversation_read fmt ''c'' [\<lparr>ad_id = ''a1'', ad_role = ''assistant'', ad_content = ''abcd'', ad_createdAt = []\<rparr>] ai_init))) = [''abcdcd'']"
  by (simp add: apply_push_def conversation_read_def merge_eq merged_row_def merge_one_def ai_init_def upsertAssistantMessage_def piece_of_def
      by_id_def map_get_def or_blank_def Let_def)

text \<open>An answer for an earlier message, once complete, stops the timers that wait for a later one.\<close>

lemma old_answer_stops_new_timers:
  assumes "ai_refreshes s ! k = (i, True)" "has_text (ad_content d)" "ad_id d = i"
  shows "ai_timers (refresh_done fmt k conv [d] s) = None"
  using assms by (simp add: refresh_done_def clearSyncTimeouts_def)

section \<open>Concrete chats\<close>

definition hel :: json where
  "hel = JObj [(''type'', JStr ''ai.chat.delta''), (''payload'', JObj [(''type'', JStr ''delta''), (''conversationId'', JStr ''c''),
     (''messageId'', JStr ''a1''), (''text'', JStr ''Hel'')])]"

lemma read_hel: "read_ai_push hel = Some \<lparr>ap_type = ''delta'', ap_conversationId = ''c'', ap_messageId = ''a1'', ap_text = Some ''Hel'', ap_content = None\<rparr>"
  by (simp add: read_ai_push_def hel_def json_str_def text_of_def or_blank_def)

lemma written_text_exact_witness:
  "\<exists>m'. msgs_of ''a1'' (ai_messages (fold (ai_do id) [AiPush ''t'' hel, AiFetched ''c'' [\<lparr>ad_id = ''a1'', ad_role = ''assistant'', ad_content = [], ad_createdAt = []\<rparr>],
     AiPush ''t'' hel] (send_done ''c'' ''u1'' ''a1'' asked))) = [m'] \<and> am_content m' = ''HelHel'' \<and> am_streaming m'"
proof -
  let ?s = "send_done ''c'' ''u1'' ''a1'' asked"
  let ?m = "\<lparr>am_id = ''a1'', am_role = RoleAssistant, am_content = [], am_streaming = True, am_time = ''t''\<rparr>"
  have "msgs_of ''a1'' (ai_messages ?s) = [?m]" "ai_conversation ?s = Some ''c''" "ai_pending ?s = None"
    by (simp_all add: send_done_def asked_messages scheduleAssistantSync_def clearSyncTimeouts_def msgs_of_def)
  from written_text_exact [OF this(1) _ this(2) _ _ this(3), of "[AiPush ''t'' hel, AiFetched ''c'' [\<lparr>ad_id = ''a1'', ad_role = ''assistant'',
     ad_content = [], ad_createdAt = []\<rparr>], AiPush ''t'' hel]" id]
  show ?thesis by (simp add: read_hel quiet_push_def quiet_rows_def has_text_def trim_def is_temp_def or_blank_def)
qed

lemma merge_sound_witness:
  "mergeApiWithLocal id (mergeApiWithLocal id (ai_messages asked) []) [] = mergeApiWithLocal id (ai_messages asked) []"
  using merge_sound [where prev = "ai_messages asked" and api = "[]" and fmt = id] by (simp add: asked_messages)

end
