(* ===== verification/User_Details.thy ===== *)
theory User_Details
  imports Account Formats Position_Pnl Bulk_Ops
begin

text \<open>
  The administrator's view of one user (\<open>UserDetailsModal.tsx\<close>): which events of the admin socket
  concern the user, the account summary with its guard, the bar of figures computed from positions
  and live prices, the dialogs that close, reopen and modify positions, the order form, and new
  appointments. The chat of this view is in \<open>Support_Chat\<close>. A missing margin level is the empty text.
\<close>

section \<open>Events\<close>

definition id_text :: "json \<Rightarrow> string" where
  "id_text p = trim (case first_field p [''userId'', ''user_id''] of Some v \<Rightarrow> show_json v | None \<Rightarrow> [])"

definition object_user :: "json option \<Rightarrow> string \<Rightarrow> bool" where
  "object_user v t = (case v of Some p \<Rightarrow> is_object p \<and> id_text p = t | None \<Rightarrow> False)"

definition adminEventAffectsTargetUser :: "string \<Rightarrow> json \<Rightarrow> string \<Rightarrow> bool" where
  "adminEventAffectsTargetUser type payload targetUserId =
     (let t = trim targetUserId in
      if type \<in> {''admin.position.opened'', ''admin.position.updated''} then object_user (json_field payload ''position'') t
      else if type \<in> {''admin.position.closed'', ''admin.position.liquidated'', ''admin.position.sltp.modified'',
        ''admin.order.filled'', ''admin.order.canceled'', ''admin.order.rejected''} then id_text payload = t
      else if type \<in> {''admin.order.updated'', ''admin.order.created''} then object_user (json_field payload ''order'') t
      else False)"

section \<open>Tabs kept in the session\<close>

definition TAB_VALUES :: "string list" where
  "TAB_VALUES = [''overview'', ''funding'', ''appointments'', ''orders-positions'', ''notes'', ''chat'', ''reports'']"

definition ORDERS_POSITIONS_SUBTAB_VALUES :: "string list" where
  "ORDERS_POSITIONS_SUBTAB_VALUES = [''positions'', ''orders'', ''pending'', ''closed'']"

definition stored_one_of :: "string list \<Rightarrow> string \<Rightarrow> string \<Rightarrow> storage \<Rightarrow> string" where
  "stored_one_of vs d k st = (case getItem st k of Some v \<Rightarrow> if v \<in> set vs then v else d | None \<Rightarrow> d)"

definition getStoredUserDetailsTab :: "storage \<Rightarrow> string" where
  "getStoredUserDetailsTab st = stored_one_of TAB_VALUES ''overview'' ''admin-user-details-modal-tab'' st"

definition getStoredOrdersPositionsSubTab :: "storage \<Rightarrow> string" where
  "getStoredOrdersPositionsSubTab st =
     stored_one_of ORDERS_POSITIONS_SUBTAB_VALUES ''positions'' ''admin-user-details-orders-positions-subtab'' st"

definition visible_tab :: "bool \<Rightarrow> string \<Rightarrow> string" where
  "visible_tab canViewAiReports tab = (if tab = ''reports'' \<and> \<not> canViewAiReports then ''overview'' else tab)"

section \<open>The account summary\<close>

record user_view =
  uv_account :: account
  uv_balance :: jsnum
  uv_marginLevel :: jsnum
  uv_refetch_summary :: nat
  uv_refetch_positions :: nat

definition level_number :: "string \<Rightarrow> jsnum" where
  "level_number l = (if l \<noteq> [] \<and> l \<noteq> ''inf'' \<and> l \<noteq> ''Infinity'' then num_or (parseFloat l) (Num 0) else Num 0)"

definition summary_shown :: "user_view \<Rightarrow> user_view" where
  "summary_shown v =
     (case summary (uv_account v) of
        None \<Rightarrow> v
      | Some s \<Rightarrow> v\<lparr>uv_account := (uv_account v)\<lparr>lastEquity := Some (s_equity s)\<rparr>, uv_balance := s_balance s,
          uv_marginLevel := level_number (s_marginLevel s)\<rparr>)"

text \<open>\<open>account.summary.updated\<close>\<close>

definition summary_pushed :: "string \<Rightarrow> json \<Rightarrow> user_view \<Rightarrow> user_view" where
  "summary_pushed user raw v =
     (let s = read_summary raw in
      if user = [] \<or> \<not> is_object raw then v
      else if s_userId s \<noteq> trim user then v
      else if all_zero s \<and> guarded (uv_account v) then v
      else v\<lparr>uv_account := \<lparr>summary = Some s, lastEquity = Some (s_equity s)\<rparr>, uv_refetch_positions := Suc (uv_refetch_positions v)\<rparr>)"

definition wallet_pushed :: "string \<Rightarrow> json \<Rightarrow> user_view \<Rightarrow> user_view" where
  "wallet_pushed user p v = (if user \<noteq> [] \<and> id_text p = trim user then v\<lparr>uv_refetch_summary := Suc (uv_refetch_summary v)\<rparr> else v)"

definition admin_event :: "string \<Rightarrow> string \<Rightarrow> json \<Rightarrow> user_view \<Rightarrow> user_view" where
  "admin_event user type p v =
     (if user \<noteq> [] \<and> adminEventAffectsTargetUser type p user then v\<lparr>uv_refetch_positions := Suc (uv_refetch_positions v)\<rparr> else v)"

definition became_authenticated :: "string \<Rightarrow> string \<Rightarrow> string \<Rightarrow> user_view \<Rightarrow> user_view" where
  "became_authenticated user before after v =
     (if user \<noteq> [] \<and> after = ''authenticated'' \<and> before \<noteq> ''authenticated''
      then v\<lparr>uv_refetch_summary := Suc (uv_refetch_summary v), uv_refetch_positions := Suc (uv_refetch_positions v)\<rparr> else v)"

text \<open>The table behind the view brings the figures of this user.\<close>

definition parent_synced :: "string \<Rightarrow> string \<Rightarrow> jsnum \<Rightarrow> jsnum \<Rightarrow> user_view \<Rightarrow> user_view" where
  "parent_synced shown user balance level v = (if shown \<noteq> user then v else v\<lparr>uv_balance := balance, uv_marginLevel := level\<rparr>)"

section \<open>The bar of figures\<close>

definition entry_of :: "Position \<Rightarrow> jsnum" where
  "entry_of p = parseNum (if pos_avg_price p \<noteq> [] then pos_avg_price p else pos_entry_price p)"

definition shard_pnl :: "Position \<Rightarrow> tick option \<Rightarrow> jsnum" where
  "shard_pnl p t =
     (case t of
        None \<Rightarrow> parseNum (pos_unrealized_pnl p)
      | Some (bidT, askT) \<Rightarrow>
          let live = (if pos_side p = ''LONG'' then parseFloat bidT else parseFloat askT) in
          if \<not> isFinite live then parseNum (pos_unrealized_pnl p)
          else if pos_side p = ''LONG'' then jmul (jsub live (entry_of p)) (parseNum (pos_size p))
          else jmul (jsub (entry_of p) live) (parseNum (pos_size p)))"

definition report :: "string \<Rightarrow> jsnum \<Rightarrow> string \<Rightarrow> (string, jsnum \<times> string) jsmap \<Rightarrow> (string, jsnum \<times> string) jsmap" where
  "report i v symbol m =
     (case map_get m i of
        Some (v', s') \<Rightarrow> if jeq v' v \<and> s' = symbol then m else map_set i (v, symbol) m
      | None \<Rightarrow> map_set i (v, symbol) m)"

record metrics =
  me_balance :: jsnum
  me_equity :: jsnum
  me_margin :: jsnum
  me_freeMargin :: jsnum
  me_marginLevel :: jsnum
  me_unrealizedPnl :: jsnum

record money_env =
  mo_quoteFor :: "string \<Rightarrow> string"
  mo_display :: string
  mo_rates :: "string \<Rightarrow> string option"

definition converted :: "money_env \<Rightarrow> jsnum \<Rightarrow> string \<Rightarrow> jsnum" where
  "converted E v symbol = (case convertAmount (NumInput v) (mo_quoteFor E symbol) (mo_display E) (mo_rates E) of Some n \<Rightarrow> n | None \<Rightarrow> Num 0)"

definition total_margin :: "money_env \<Rightarrow> Position list \<Rightarrow> jsnum" where
  "total_margin E ps = jsum (map (\<lambda>p. converted E (parseNum (pos_margin p)) (pos_symbol p)) ps)"

definition total_pnl :: "money_env \<Rightarrow> (string, jsnum \<times> string) jsmap \<Rightarrow> Position list \<Rightarrow> jsnum" where
  "total_pnl E snaps ps = jsum (map (\<lambda>p. case map_get snaps (pos_id p) of
     Some (v, sym') \<Rightarrow> converted E v sym' | None \<Rightarrow> converted E (parseNum (pos_unrealized_pnl p)) (pos_symbol p)) ps)"

definition bar_metrics :: "money_env \<Rightarrow> AccountSummary option \<Rightarrow> jsnum \<Rightarrow> (string, jsnum \<times> string) jsmap \<Rightarrow> Position list \<Rightarrow> metrics" where
  "bar_metrics E s balanceFallback snaps ps =
     (let balance = (case s of Some x \<Rightarrow> s_balance x | None \<Rightarrow> balanceFallback);
          margin = total_margin E ps; pnl = total_pnl E snaps ps; equity = jadd balance pnl in
      case s of
        Some x \<Rightarrow> \<lparr>me_balance = balance, me_equity = s_equity x, me_margin = s_marginUsed x, me_freeMargin = s_freeMargin x,
          me_marginLevel = level_number (s_marginLevel x), me_unrealizedPnl = pnl\<rparr>
      | None \<Rightarrow> \<lparr>me_balance = balance, me_equity = equity, me_margin = margin, me_freeMargin = jsub equity margin,
          me_marginLevel = (if jlt (Num 0) margin then jmul (jdiv equity margin) (Num 100) else Num 0), me_unrealizedPnl = pnl\<rparr>)"

section \<open>Dialogs\<close>

record dialog =
  dl_open :: bool
  dl_id :: "string option"
  dl_symbol :: string
  dl_busy :: "string option"
  dl_inflight :: "string list"

definition dialog_init :: dialog where
  "dialog_init = \<lparr>dl_open = False, dl_id = None, dl_symbol = [], dl_busy = None, dl_inflight = []\<rparr>"

definition dialog_pick :: "Position \<Rightarrow> dialog \<Rightarrow> dialog" where
  "dialog_pick p s = s\<lparr>dl_id := Some (pos_id p), dl_symbol := pos_symbol p, dl_open := True\<rparr>"

definition dialog_cancel :: "dialog \<Rightarrow> dialog" where
  "dialog_cancel s = s\<lparr>dl_open := False, dl_id := None, dl_symbol := []\<rparr>"

definition close_click :: "dialog \<Rightarrow> dialog" where
  "close_click s =
     (case dl_id s of
        None \<Rightarrow> s
      | Some i \<Rightarrow> if i = [] then s else s\<lparr>dl_busy := Some i, dl_inflight := dl_inflight s @ [i]\<rparr>)"

text \<open>The button that reopens is disabled while a request is under way.\<close>

definition reopen_click :: "dialog \<Rightarrow> dialog" where
  "reopen_click s = (if dl_busy s \<noteq> None \<and> dl_busy s \<noteq> Some [] then s else close_click s)"

definition dialog_done :: "nat \<Rightarrow> dialog \<Rightarrow> dialog" where
  "dialog_done k s = s\<lparr>dl_open := False, dl_id := None, dl_symbol := [], dl_busy := None,
     dl_inflight := take k (dl_inflight s) @ drop (Suc k) (dl_inflight s)\<rparr>"

definition dialog_failed :: "nat \<Rightarrow> dialog \<Rightarrow> dialog" where
  "dialog_failed k s = s\<lparr>dl_busy := None, dl_inflight := take k (dl_inflight s) @ drop (Suc k) (dl_inflight s)\<rparr>"

datatype dialog_event = DlPick Position | DlCancel | DlConfirm | DlDone nat | DlFailed nat

fun dialog_do :: "(dialog \<Rightarrow> dialog) \<Rightarrow> dialog_event \<Rightarrow> dialog \<Rightarrow> dialog" where
  "dialog_do click (DlPick p) s = dialog_pick p s"
| "dialog_do click DlCancel s = dialog_cancel s"
| "dialog_do click DlConfirm s = click s"
| "dialog_do click (DlDone k) s = dialog_done k s"
| "dialog_do click (DlFailed k) s = dialog_failed k s"

fun dialog_enabled :: "dialog_event \<Rightarrow> dialog \<Rightarrow> bool" where
  "dialog_enabled (DlDone k) s = (k < length (dl_inflight s))"
| "dialog_enabled (DlFailed k) s = (k < length (dl_inflight s))"
| "dialog_enabled _ s = True"

section \<open>Forms\<close>

definition create_check :: "order_form \<Rightarrow> string option" where
  "create_check f =
     (if of_symbolId f = [] \<or> jle (of_size f) (Num 0) then Some ''Please fill in Symbol and Size''
      else if (of_orderType f = LIMIT \<or> of_orderType f = STOP_LIMIT) \<and> missing_price (of_price f) then Some ''Please enter a limit price''
      else None)"

definition price_text :: "string option \<Rightarrow> jsnum option" where
  "price_text t = (case t of Some s \<Rightarrow> let n = parseFloat s in if isNaN n then None else Some n | None \<Rightarrow> None)"

definition first_text :: "string option list \<Rightarrow> string" where
  "first_text ts = (case List.find (\<lambda>t. t \<noteq> None \<and> t \<noteq> Some []) ts of Some (Some s) \<Rightarrow> s | _ \<Rightarrow> ''0'')"

definition modify_open_prefill :: "LookupSymbol list \<Rightarrow> Position \<Rightarrow> order_form" where
  "modify_open_prefill symbols p =
     (let code = trim (toUpperCase (pos_symbol p)); price = price_text (Some (pos_entry_price p)) in
      \<lparr>of_symbolId = (case List.find (\<lambda>s. toUpperCase (lk_code s) = code) symbols of Some s \<Rightarrow> lk_id s | None \<Rightarrow> []),
       of_side = (if pos_side p = ''LONG'' then BUY else SELL),
       of_orderType = (case price of Some x \<Rightarrow> if jlt (Num 0) x then LIMIT else MARKET | None \<Rightarrow> MARKET),
       of_size = num_or (parseFloat (first_text [pos_original_size p, Some (pos_size p)])) (Num 0),
       of_price = price, of_stopPrice = None, of_timeInForce = GTC, of_stopLoss = price_text (pos_sl p), of_takeProfit = price_text (pos_tp p)\<rparr>)"

record reopen_request =
  rq_size :: jsnum
  rq_entryPrice :: "jsnum option"
  rq_side :: string
  rq_stopLoss :: "jsnum option"
  rq_takeProfit :: "jsnum option"

definition reopen_with_changes :: "order_form \<Rightarrow> string + reopen_request" where
  "reopen_with_changes f =
     (if jle (of_size f) (Num 0) then Inl ''Size is required''
      else Inr \<lparr>rq_size = of_size f, rq_entryPrice = (case of_price f of Some x \<Rightarrow> if jlt (Num 0) x then Some x else None | None \<Rightarrow> None),
        rq_side = (if of_side f = SELL then ''SHORT'' else ''LONG''), rq_stopLoss = of_stopLoss f, rq_takeProfit = of_takeProfit f\<rparr>)"

record modify_form =
  mf_size :: jsnum
  mf_entryPrice :: jsnum
  mf_stopLoss :: "jsnum option"
  mf_takeProfit :: "jsnum option"

definition modify_prefill :: "Position \<Rightarrow> modify_form" where
  "modify_prefill p =
     \<lparr>mf_size = num_or (parseFloat (first_text [Some (pos_size p)])) (Num 0),
      mf_entryPrice = num_or (parseFloat (first_text [Some (pos_avg_price p), Some (pos_entry_price p)])) (Num 0),
      mf_stopLoss = price_text (pos_sl p), mf_takeProfit = price_text (pos_tp p)\<rparr>"

definition modify_check :: "modify_form \<Rightarrow> string option" where
  "modify_check f =
     (if jle (mf_size f) (Num 0) then Some ''Size must be greater than 0''
      else if jle (mf_entryPrice f) (Num 0) then Some ''Entry price must be greater than 0''
      else None)"

section \<open>Appointments\<close>

record apt_form =
  af_title :: string
  af_description :: string
  af_date :: string
  af_time :: string
  af_duration :: jsnum
  af_type :: string
  af_link :: string
  af_location :: string
  af_notes :: string

record apt_request =
  aq_user_id :: string
  aq_title :: string
  aq_description :: "string option"
  aq_scheduled_at :: jsnum
  aq_duration_minutes :: jsnum
  aq_type :: string
  aq_meeting_link :: "string option"
  aq_location :: "string option"
  aq_notes :: "string option"

definition nth_number :: "char \<Rightarrow> string \<Rightarrow> nat \<Rightarrow> jsnum" where
  "nth_number c t k = (let ws = split_char c t in if k < length ws then toNumber (ws ! k) else NaN)"

text \<open>
  \<open>utc y m d h mi\<close> is the time value of \<open>Date.UTC(y, m - 1, d, h, mi)\<close>; \<open>None\<close>: nothing is sent, because a field
  is empty or because the time is invalid and \<open>toISOString\<close> throws.
\<close>

definition handleSubmitCreateApt ::
  "(string \<Rightarrow> jsnum \<Rightarrow> jsnum) \<Rightarrow> (jsnum \<Rightarrow> jsnum \<Rightarrow> jsnum \<Rightarrow> jsnum \<Rightarrow> jsnum \<Rightarrow> jsnum) \<Rightarrow> string option \<Rightarrow> string \<Rightarrow> apt_form \<Rightarrow> apt_request option" where
  "handleSubmitCreateApt wall utc timezone user f =
     (if trim (af_title f) = [] \<or> af_date f = [] \<or> af_time f = [] then None
      else
        let zone = (case timezone of Some z \<Rightarrow> if trim z \<noteq> [] then trim z else ''UTC'' | None \<Rightarrow> ''UTC'');
            n = (\<lambda>c t k. nth_number c t k);
            at' = fromZonedWallClock (wall zone) (utc (n (CHR ''-'') (af_date f) 0) (n (CHR ''-'') (af_date f) 1) (n (CHR ''-'') (af_date f) 2)
              (n (CHR '':'') (af_time f) 0) (n (CHR '':'') (af_time f) 1))
        in if isNaN at' then None
           else Some \<lparr>aq_user_id = user, aq_title = trim (af_title f), aq_description = some_text (trim (af_description f)),
             aq_scheduled_at = at', aq_duration_minutes = af_duration f, aq_type = af_type f, aq_meeting_link = some_text (trim (af_link f)),
             aq_location = some_text (trim (af_location f)), aq_notes = some_text (trim (af_notes f))\<rparr>)"

section \<open>One guard, two views\<close>



text \<open>The user's own view ignores case and dashes of the id, the administrator's does not.\<close>

definition pushed_ab :: json where
  "pushed_ab = JObj [(''userId'', JStr ''ab''), (''balance'', JNum (Num 1)), (''equity'', JNum (Num 2))]"

lemma pushed_ab_id: "s_userId (read_summary pushed_ab) = ''ab''"
  by (simp add: pushed_ab_def read_summary_def text_of_def trim_def is_space_def)

lemma admin_view_misses:
  "summary (uv_account (summary_pushed ''A-b'' pushed_ab v)) = summary (uv_account v)"
  "summary (applyAccountSummaryWsToQueryCache (Some ''A-b'') pushed_ab account_init) \<noteq> None"
proof -
  have t: "trim ''A-b'' = ''A-b''" by (simp add: trim_def is_space_def)
  have a: "char_of (97::nat) = CHR ''a''" by code_simp
  have n: "normalizeUserIdForCompare ''ab'' = normalizeUserIdForCompare ''A-b''" 
    by (simp add: normalizeUserIdForCompare_def trim_def is_space_def toLowerCase_def remove_char_def low_char_def a)
  show "summary (uv_account (summary_pushed ''A-b'' pushed_ab v)) = summary (uv_account v)"
    by (simp add: summary_pushed_def pushed_ab_id t Let_def)
  show "summary (applyAccountSummaryWsToQueryCache (Some ''A-b'') pushed_ab account_init) \<noteq> None"
    using n by (simp add: applyAccountSummaryWsToQueryCache_def pushed_ab_id Let_def account_init_def guarded_def) (simp add: pushed_ab_def)
qed

section \<open>Live profit\<close>

lemma report_get: "map_get (report i v s m) j = (if j = i then Some (v, s) else map_get m j)"
  by (auto simp: report_def map_get_set jeq_def split: option.splits)

text \<open>Once every open position has reported, the profit of the bar is the sum of the positions' live profits, each converted
  from its own currency, whatever was reported before.\<close>

theorem bar_pnl_live:
  fixes live :: "Position \<Rightarrow> tick option" and m0 :: "(string, jsnum \<times> string) jsmap"
  assumes "distinct (map pos_id ps)"
  defines "snaps \<equiv> foldl (\<lambda>m p. report (pos_id p) (shard_pnl p (live p)) (pos_symbol p) m) m0 ps"
  shows "total_pnl E snaps ps = jsum (map (\<lambda>p. converted E (shard_pnl p (live p)) (pos_symbol p)) ps)"
proof -
  have keep: "map_get (foldl (\<lambda>m p. report (pos_id p) (shard_pnl p (live p)) (pos_symbol p) m) m ps) i = map_get m i"
    if "i \<notin> pos_id ` set ps" for i m ps
    using that by (induction ps arbitrary: m) (auto simp: report_get)
  have "map_get (foldl (\<lambda>m p. report (pos_id p) (shard_pnl p (live p)) (pos_symbol p) m) m ps) (pos_id p) =
      Some (shard_pnl p (live p), pos_symbol p)" if "distinct (map pos_id ps)" "p \<in> set ps" for p m ps
    using that by (induction ps arbitrary: m) (auto simp: keep report_get)
  then have "map_get snaps (pos_id p) = Some (shard_pnl p (live p), pos_symbol p)" if "p \<in> set ps" for p
    using assms that by simp
  then show ?thesis by (simp add: total_pnl_def cong: map_cong)
qed

text \<open>
  Without a summary the bar adds the balance, which is in dollars, and the profit, which is already
  in the currency shown: a profit of 10 dollars on a balance of 100, shown in a currency of which a
  dollar buys two, gives an equity of 120 for the 110 dollars, and the view then converts the 120 as dollars.
\<close>

definition double :: money_env where
  "double = \<lparr>mo_quoteFor = (\<lambda>s. ''USD''), mo_display = ''EUR'', mo_rates = (\<lambda>c. Some ''2'')\<rparr>"

definition snap10 :: "(string, jsnum \<times> string) jsmap" where
  "snap10 = [(''p'', Num 10, ''X'')]"

lemma double_converts: "converted double (Num 10) s = Num 20"
proof -
  have upper: "toUpperCase ''USD'' = ''USD''" "toUpperCase ''EUR'' = ''EUR''" by (simp_all add: toUpperCase_def up_char_def)
  have two: "toNumber ''2'' = Num 2" using toNumber_dec_digits [of 2] by (simp add: dec_digits_simps num_simps)
  show ?thesis
    by (simp add: converted_def convertAmount_def double_def money_number_def fx_rate_def stable_as_usd_def Let_def upper two num_simps
        del: toUpperCase_simps)
qed

lemma equity_mixes_currencies:
  assumes "pos_id p = ''p''" shows "me_equity (bar_metrics double None (Num 100) snap10 [p]) = Num 120"
proof -
  have "total_pnl double snap10 [p] = Num 20"
    using assms by (simp add: total_pnl_def snap10_def map_get_def jsum_def double_converts num_simps)
  then show ?thesis by (simp add: bar_metrics_def Let_def num_simps)
qed

section \<open>Confirming twice\<close>

definition one_reopen :: "dialog \<Rightarrow> bool" where
  "one_reopen s \<longleftrightarrow> (dl_inflight s = [] \<and> dl_busy s = None) \<or> (\<exists>i. i \<noteq> [] \<and> dl_inflight s = [i] \<and> dl_busy s = Some i)"

lemma one_reopen_step: assumes "one_reopen s" "dialog_enabled e s" shows "one_reopen (dialog_do reopen_click e s)"
proof (cases "dl_inflight s")
  case Nil
  then have "dl_busy s = None" using assms(1) by (simp add: one_reopen_def)
  then show ?thesis using Nil assms(2)
    by (cases e) (simp_all add: one_reopen_def dialog_pick_def dialog_cancel_def reopen_click_def close_click_def split: option.split)
next
  case (Cons i is')
  then have i: "is' = []" "i \<noteq> []" "dl_busy s = Some i" using assms(1) by (auto simp: one_reopen_def)
  then show ?thesis using Cons assms(2)
    by (cases e) (simp_all add: one_reopen_def dialog_pick_def dialog_cancel_def reopen_click_def dialog_done_def dialog_failed_def)
qed

lemma one_reopen_init: "one_reopen dialog_init" by (simp add: one_reopen_def dialog_init_def)

interpretation reopening: invariant_system dialog_enabled "dialog_do reopen_click" one_reopen "\<lambda>s. s = dialog_init"
  by unfold_locales (auto intro: one_reopen_step one_reopen_init)

lemma reopen_once: "reach (\<lambda>s. s = dialog_init) dialog_enabled (dialog_do reopen_click) s \<Longrightarrow> length (dl_inflight s) \<le> 1"
  using reopening.reach_inv [of s] by (auto simp: one_reopen_def)

text \<open>The button that closes a position is not disabled: a second click sends a second request.\<close>

lemma close_sent_twice:
  assumes "pos_id p = ''p''"
  shows "dl_inflight (fold (dialog_do close_click) [DlPick p, DlConfirm, DlConfirm] dialog_init) = [''p'', ''p'']"
  using assms by (simp add: dialog_pick_def close_click_def dialog_init_def)

section \<open>Forms and tabs\<close>

lemma bulk_check_stronger: "order_check f = None \<Longrightarrow> create_check f = None"
  by (auto simp: order_check_def create_check_def split: if_splits)

text \<open>Unlike the form for many users, this one accepts a stop order without a stop price.\<close>

lemma stop_without_price:
  "create_check (DEFAULT_ORDER_FORM\<lparr>of_symbolId := ''x'', of_orderType := STOP, of_size := Num 1\<rparr>) = None"
  by (simp add: create_check_def DEFAULT_ORDER_FORM_def jle_def)

lemma reopen_keeps_side:
  assumes "pos_side p = ''LONG'' \<or> pos_side p = ''SHORT''" "reopen_with_changes (modify_open_prefill symbols p) = Inr r"
  shows "rq_side r = pos_side p"
  using assms by (auto simp: reopen_with_changes_def modify_open_prefill_def Let_def split: if_splits)

lemma stored_tab_valid: "getStoredUserDetailsTab st \<in> set TAB_VALUES"
  by (auto simp: getStoredUserDetailsTab_def stored_one_of_def TAB_VALUES_def split: option.splits)

lemma stored_tab_reload: "t \<in> set TAB_VALUES \<Longrightarrow> st \<noteq> None \<Longrightarrow> getStoredUserDetailsTab (setItem ''admin-user-details-modal-tab'' t st) = t"
  by (simp add: getStoredUserDetailsTab_def stored_one_of_def storage_simps)

section \<open>Concrete views\<close>



definition two_held :: "Position list" where
  "two_held = [(sample_pos [])\<lparr>pos_id := ''p''\<rparr>, (sample_pos [])\<lparr>pos_id := ''q''\<rparr>]"

lemma bar_pnl_live_witness:
  "total_pnl double (foldl (\<lambda>m p. report (pos_id p) (shard_pnl p None) (pos_symbol p) m) snap10 two_held) two_held =
     jsum (map (\<lambda>p. converted double (shard_pnl p None) (pos_symbol p)) two_held)"
  by (rule bar_pnl_live [where live = "\<lambda>p. None"]) (simp add: two_held_def)

end
