(* ===== verification/Calls.thy ===== *)
theory Calls
  imports Ws_Events Machine
begin

text \<open>
  Voice calls: the user who is called (\<open>features/call\<close>) and the administrator who calls
  (\<open>AdminCallUserPage.tsx\<close>). Both connect with WebRTC, of which the browser's part is outside: peer
  connections and microphone streams are numbered in the order they are made; \<open>closed\<close> are the
  connections that were closed, \<open>live\<close> the microphone streams that still record. A request for the
  microphone, a chain of promises, a found candidate are settled by events of their own. React's
  effects run when a change is committed, which is an event too: messages can arrive before it.
  A closed connection finds no candidates and completes no description; adding a track to it throws.
  The user's part stays mounted; the administrator's page can be left.
\<close>

section \<open>Connections and streams\<close>

record rtc =
  pc :: "nat option"
  localStream :: "nat option"
  remoteStream :: "nat option"
  peers :: "string list"
  closed :: "nat list"
  streams :: nat
  live :: "nat list"
  candidates :: "(nat \<times> string) list"

text \<open>The connections are listed with the id of their call.\<close>

definition new_peer :: "string \<Rightarrow> 'a rtc_scheme \<Rightarrow> 'a rtc_scheme" where
  "new_peer c r = r\<lparr>pc := Some (length (peers r)), peers := peers r @ [c]\<rparr>"

definition stop_tracks :: "nat option \<Rightarrow> nat list \<Rightarrow> nat list" where
  "stop_tracks s l = (case s of Some i \<Rightarrow> removeAll i l | None \<Rightarrow> l)"

definition cleanupWebRTC :: "'a rtc_scheme \<Rightarrow> 'a rtc_scheme" where
  "cleanupWebRTC r = r\<lparr>live := stop_tracks (localStream r) (live r), localStream := None,
     closed := (case pc r of Some p \<Rightarrow> p # closed r | None \<Rightarrow> closed r), pc := None, remoteStream := None\<rparr>"

definition mic_opened :: "'a rtc_scheme \<Rightarrow> 'a rtc_scheme" where
  "mic_opened r = r\<lparr>localStream := Some (streams r), live := streams r # live r, streams := Suc (streams r)\<rparr>"

text \<open>\<open>readable\<close>: neither \<open>JSON.parse\<close> nor the constructor of the candidate throws.\<close>

definition take_candidate :: "(string \<Rightarrow> bool) \<Rightarrow> string \<Rightarrow> 'a rtc_scheme \<Rightarrow> 'a rtc_scheme" where
  "take_candidate readable cand r =
     (case pc r of
        None \<Rightarrow> r
      | Some p \<Rightarrow> if cand = [] \<or> \<not> readable cand then r else r\<lparr>candidates := candidates r @ [(p, cand)]\<rparr>)"

definition remove_nth :: "nat \<Rightarrow> 'a list \<Rightarrow> 'a list" where
  "remove_nth i xs = take i xs @ drop (Suc i) xs"

lemma remove_nth_subset: "x \<in> set (remove_nth i xs) \<Longrightarrow> x \<in> set xs"
  by (auto simp: remove_nth_def dest: in_set_takeD in_set_dropD)

section \<open>The user who is called\<close>

record IncomingCall =
  ic_call_id :: string
  ic_admin_user_id :: string
  ic_admin_display_name :: "string option"

text \<open>
  \<open>seenCallId\<close> is the active call of the last commit, which the handler of messages and the effect were made
  with; \<open>effectLeft\<close>: that effect returned a cleanup. \<open>asking\<close> are the requests for the microphone, with the
  connection and the call they are for; \<open>answering\<close> the offers being answered.
\<close>

record callee = rtc +
  incomingCall :: "IncomingCall option"
  activeCallId :: "string option"
  voiceUnavailable :: bool
  pendingOffer :: "(string \<times> string) option"
  seenCallId :: "string option"
  effectLeft :: bool
  asking :: "(nat \<times> string) list"
  answering :: "(nat \<times> string \<times> string) list"
  callee_sent :: "WsOutboundEvent list"

definition clearCall :: "callee \<Rightarrow> callee" where
  "clearCall s = s\<lparr>incomingCall := None, activeCallId := None, remoteStream := None, voiceUnavailable := False\<rparr>"

definition callee_send :: "WsOutboundEvent \<Rightarrow> callee \<Rightarrow> callee" where
  "callee_send m s = s\<lparr>callee_sent := callee_sent s @ [m]\<rparr>"

definition callee_message :: "(string \<Rightarrow> bool) \<Rightarrow> WsInboundEvent \<Rightarrow> callee \<Rightarrow> callee" where
  "callee_message readable ev s =
     (case ev of
        InCallIncoming c a n \<Rightarrow> s\<lparr>incomingCall := Some \<lparr>ic_call_id = c, ic_admin_user_id = a, ic_admin_display_name = n\<rparr>\<rparr>
      | InCallEnded c by' \<Rightarrow> clearCall (cleanupWebRTC s)
      | InCallError c code msg \<Rightarrow> clearCall (cleanupWebRTC s)
      | InWebrtcOffer c sdp \<Rightarrow>
          if Some c \<noteq> seenCallId s then s
          else (case (pc s, localStream s) of
                  (Some p, Some l) \<Rightarrow> s\<lparr>answering := answering s @ [(p, c, sdp)]\<rparr>
                | _ \<Rightarrow> s\<lparr>pendingOffer := Some (c, sdp)\<rparr>)
      | InWebrtcIce c cand \<Rightarrow> take_candidate readable cand s
      | _ \<Rightarrow> s)"

text \<open>The effect, and the cleanup of the one before; \<open>media\<close>: the browser has \<open>getUserMedia\<close>.\<close>

definition callee_effect :: "bool \<Rightarrow> callee \<Rightarrow> callee" where
  "callee_effect media s =
     (case activeCallId s of
        None \<Rightarrow> s\<lparr>effectLeft := False\<rparr>
      | Some c \<Rightarrow>
          if c = [] then s\<lparr>effectLeft := False\<rparr>
          else if \<not> media then s\<lparr>voiceUnavailable := True, effectLeft := False\<rparr>
          else (new_peer c s)\<lparr>asking := asking s @ [(length (peers s), c)], effectLeft := True\<rparr>)"

definition callee_commit :: "bool \<Rightarrow> callee \<Rightarrow> callee" where
  "callee_commit media s =
     (if activeCallId s = seenCallId s then s
      else callee_effect media ((if effectLeft s then cleanupWebRTC s else s)\<lparr>seenCallId := activeCallId s\<rparr>))"

text \<open>What follows when \<open>getUserMedia\<close> answers the request \<open>i\<close>.\<close>

definition mic_failed :: "callee \<Rightarrow> callee" where
  "mic_failed s = (cleanupWebRTC s)\<lparr>voiceUnavailable := True\<rparr>"

definition mic_granted :: "nat \<Rightarrow> callee \<Rightarrow> callee" where
  "mic_granted i s =
     (case asking s ! i of (p, c) \<Rightarrow>
        let t = (mic_opened s)\<lparr>asking := remove_nth i (asking s)\<rparr> in
        if p \<in> set (closed t) then mic_failed t
        else (case pendingOffer t of
                Some (c', sdp) \<Rightarrow>
                  if c' = c then t\<lparr>pendingOffer := None, answering := answering t @ [(p, c, sdp)]\<rparr> else t
              | None \<Rightarrow> t))"

definition mic_refused :: "nat \<Rightarrow> callee \<Rightarrow> callee" where
  "mic_refused i s = mic_failed (s\<lparr>asking := remove_nth i (asking s)\<rparr>)"

text \<open>The end of the chain that answers an offer.\<close>

definition answer_made :: "nat \<Rightarrow> string \<Rightarrow> callee \<Rightarrow> callee" where
  "answer_made i sdp s =
     (case answering s ! i of (p, c, offer) \<Rightarrow>
        callee_send (OutWebrtcAnswer c sdp) (s\<lparr>answering := remove_nth i (answering s)\<rparr>))"

definition candidate_found :: "nat \<Rightarrow> string \<Rightarrow> callee \<Rightarrow> callee" where
  "candidate_found p cand s = callee_send (OutWebrtcIce (peers s ! p) cand) s"

text \<open>The buttons of \<open>IncomingCallModal\<close> and \<open>InCallBar\<close>.\<close>

definition handleAccept :: "callee \<Rightarrow> callee" where
  "handleAccept s =
     (case incomingCall s of
        None \<Rightarrow> s
      | Some c \<Rightarrow> (callee_send (OutCallAnswer (ic_call_id c)) s)\<lparr>activeCallId := Some (ic_call_id c), incomingCall := None\<rparr>)"

definition handleReject :: "callee \<Rightarrow> callee" where
  "handleReject s =
     (case incomingCall s of
        None \<Rightarrow> s
      | Some c \<Rightarrow> (callee_send (OutCallReject (ic_call_id c)) s)\<lparr>incomingCall := None\<rparr>)"

definition handleEnd :: "callee \<Rightarrow> callee" where
  "handleEnd s =
     (case activeCallId s of
        None \<Rightarrow> s
      | Some c \<Rightarrow> if c = [] then s else (callee_send (OutCallEnd c) s)\<lparr>activeCallId := None\<rparr>)"

definition callee_init :: callee where
  "callee_init = \<lparr>pc = None, localStream = None, remoteStream = None, peers = [], closed = [], streams = 0, live = [], candidates = [],
     incomingCall = None, activeCallId = None, voiceUnavailable = False, pendingOffer = None, seenCallId = None, effectLeft = False,
     asking = [], answering = [], callee_sent = []\<rparr>"

datatype callee_event =
    CuMessage WsInboundEvent
  | CuCommit bool
  | CuGranted nat
  | CuRefused nat
  | CuAnswer nat string
  | CuAnswerFailed nat
  | CuCandidate nat string
  | CuTrack nat nat
  | CuAccept
  | CuReject
  | CuEnd

fun callee_do :: "(string \<Rightarrow> bool) \<Rightarrow> callee_event \<Rightarrow> callee \<Rightarrow> callee" where
  "callee_do R (CuMessage m) s = callee_message R m s"
| "callee_do R (CuCommit media) s = callee_commit media s"
| "callee_do R (CuGranted i) s = mic_granted i s"
| "callee_do R (CuRefused i) s = mic_refused i s"
| "callee_do R (CuAnswer i sdp) s = answer_made i sdp s"
| "callee_do R (CuAnswerFailed i) s = s\<lparr>answering := remove_nth i (answering s)\<rparr>"
| "callee_do R (CuCandidate p cand) s = candidate_found p cand s"
| "callee_do R (CuTrack p st) s = s\<lparr>remoteStream := Some st\<rparr>"
| "callee_do R CuAccept s = handleAccept s"
| "callee_do R CuReject s = handleReject s"
| "callee_do R CuEnd s = handleEnd s"

fun callee_enabled :: "callee_event \<Rightarrow> callee \<Rightarrow> bool" where
  "callee_enabled (CuGranted i) s \<longleftrightarrow> i < length (asking s)"
| "callee_enabled (CuRefused i) s \<longleftrightarrow> i < length (asking s)"
| "callee_enabled (CuAnswer i sdp) s \<longleftrightarrow> i < length (answering s) \<and> fst (answering s ! i) \<notin> set (closed s)"
| "callee_enabled (CuAnswerFailed i) s \<longleftrightarrow> i < length (answering s)"
| "callee_enabled (CuCandidate p cand) s \<longleftrightarrow> p < length (peers s) \<and> p \<notin> set (closed s)"
| "callee_enabled (CuTrack p st) s \<longleftrightarrow> p < length (peers s) \<and> p \<notin> set (closed s)"
| "callee_enabled e s \<longleftrightarrow> True"

section \<open>The administrator who calls\<close>

datatype CallStatus = CsIdle | CsRinging | CsConnected | CsDeclined | CsError

text \<open>The chain of promises of one effect: waiting for the microphone, the offer, the description, or done.\<close>

datatype chain = WaitMic | WaitOffer | WaitDescription | ChainDone

text \<open>
  An effect is a connection, here its number, with its stage in \<open>chains\<close>; \<open>cancelled\<close> are the effects whose flag is set, and
  \<open>cleanupRef\<close> is the effect whose flag the next cleanup sets. \<open>seenDeps\<close> are the status and the call of the last commit.
\<close>

record caller = rtc +
  selectedUser :: "string option"
  status :: CallStatus
  currentCallId :: "string option"
  targetUserId :: "string option"
  errorMessage :: "string option"
  chains :: "chain list"
  cancelled :: "nat list"
  cleanupRef :: "nat option"
  seenDeps :: "CallStatus \<times> string option"
  callerEffectLeft :: bool
  mounted :: bool
  answersTaken :: "(nat \<times> string) list"
  caller_sent :: "WsOutboundEvent list"

definition caller_cleanup :: "caller \<Rightarrow> caller" where
  "caller_cleanup s =
     cleanupWebRTC (s\<lparr>cancelled := (case cleanupRef s of Some i \<Rightarrow> i # cancelled s | None \<Rightarrow> cancelled s), cleanupRef := None\<rparr>)"

definition caller_send :: "WsOutboundEvent \<Rightarrow> caller \<Rightarrow> caller" where
  "caller_send m s = s\<lparr>caller_sent := caller_sent s @ [m]\<rparr>"

definition handleWsEvent :: "(string \<Rightarrow> bool) \<Rightarrow> WsInboundEvent \<Rightarrow> caller \<Rightarrow> caller" where
  "handleWsEvent readable ev s =
     (case ev of
        InCallRinging c u \<Rightarrow> s\<lparr>currentCallId := Some c, targetUserId := Some u, status := CsRinging, errorMessage := None\<rparr>
      | InCallAccepted c u \<Rightarrow> s\<lparr>status := CsConnected, errorMessage := None\<rparr>
      | InCallRejected c u \<Rightarrow> s\<lparr>status := CsDeclined, errorMessage := None\<rparr>
      | InCallEnded c by' \<Rightarrow>
          (caller_cleanup s)\<lparr>status := CsIdle, currentCallId := None, targetUserId := None, errorMessage := None\<rparr>
      | InCallError c code msg \<Rightarrow>
          (caller_cleanup s)\<lparr>errorMessage := Some msg, status := CsError, currentCallId := None, targetUserId := None\<rparr>
      | InWebrtcAnswer c sdp \<Rightarrow>
          (case pc s of Some p \<Rightarrow> s\<lparr>answersTaken := answersTaken s @ [(p, sdp)]\<rparr> | None \<Rightarrow> s)
      | InWebrtcIce c cand \<Rightarrow> take_candidate readable cand s
      | _ \<Rightarrow> s)"

definition caller_effect :: "bool \<Rightarrow> caller \<Rightarrow> caller" where
  "caller_effect media s =
     (case currentCallId s of
        None \<Rightarrow> s\<lparr>callerEffectLeft := False\<rparr>
      | Some c \<Rightarrow>
          if status s \<noteq> CsConnected \<or> c = [] then s\<lparr>callerEffectLeft := False\<rparr>
          else if \<not> media then (caller_cleanup s)\<lparr>callerEffectLeft := False\<rparr>
          else (new_peer c s)\<lparr>chains := chains s @ [WaitMic], cleanupRef := Some (length (peers s)), callerEffectLeft := True\<rparr>)"

definition caller_commit :: "bool \<Rightarrow> caller \<Rightarrow> caller" where
  "caller_commit media s =
     (if (status s, currentCallId s) = seenDeps s then s
      else caller_effect media ((if callerEffectLeft s then caller_cleanup s else s)\<lparr>seenDeps := (status s, currentCallId s)\<rparr>))"

text \<open>The microphone is there. A cancelled effect stops it at once.\<close>

definition caller_granted :: "nat \<Rightarrow> caller \<Rightarrow> caller" where
  "caller_granted i s =
     (if i \<in> set (cancelled s) then s\<lparr>streams := Suc (streams s), chains := (chains s)[i := ChainDone]\<rparr>
      else (mic_opened s)\<lparr>chains := (chains s)[i := WaitOffer]\<rparr>)"

definition caller_offered :: "nat \<Rightarrow> caller \<Rightarrow> caller" where
  "caller_offered i s = s\<lparr>chains := (chains s)[i := if i \<in> set (cancelled s) then ChainDone else WaitDescription]\<rparr>"

definition caller_described :: "nat \<Rightarrow> string \<Rightarrow> caller \<Rightarrow> caller" where
  "caller_described i sdp s =
     (let t = s\<lparr>chains := (chains s)[i := ChainDone]\<rparr> in
      if i \<in> set (cancelled s) then t else caller_send (OutWebrtcOffer (peers s ! i) sdp) t)"

definition caller_failed :: "nat \<Rightarrow> caller \<Rightarrow> caller" where
  "caller_failed i s =
     (let t = s\<lparr>chains := (chains s)[i := ChainDone]\<rparr> in if i \<in> set (cancelled s) then t else caller_cleanup t)"

definition caller_candidate :: "nat \<Rightarrow> string \<Rightarrow> caller \<Rightarrow> caller" where
  "caller_candidate i cand s = (if i \<in> set (cancelled s) then s else caller_send (OutWebrtcIce (peers s ! i) cand) s)"

definition caller_track :: "nat \<Rightarrow> nat \<Rightarrow> caller \<Rightarrow> caller" where
  "caller_track i st s = (if i \<in> set (cancelled s) then s else s\<lparr>remoteStream := Some st\<rparr>)"

text \<open>The buttons; \<open>name\<close> is what the session's user is called.\<close>

definition call_user :: "string option \<Rightarrow> string \<Rightarrow> caller \<Rightarrow> caller" where
  "call_user name u s =
     caller_send (OutCallInitiate u name) (s\<lparr>selectedUser := Some u, status := CsRinging, targetUserId := Some u, errorMessage := None\<rparr>)"

definition handleCall :: "string option \<Rightarrow> caller \<Rightarrow> caller" where
  "handleCall name s = (case selectedUser s of None \<Rightarrow> s | Some u \<Rightarrow> call_user name u s)"

definition handleEndCall :: "caller \<Rightarrow> caller" where
  "handleEndCall s =
     (case currentCallId s of
        None \<Rightarrow> s
      | Some c \<Rightarrow> if c = [] then s
          else (caller_send (OutCallEnd c) (caller_cleanup s))\<lparr>currentCallId := None, status := CsIdle\<rparr>)"

definition handleCancelRinging :: "caller \<Rightarrow> caller" where
  "handleCancelRinging s =
     (case currentCallId s of
        None \<Rightarrow> s
      | Some c \<Rightarrow> if c = [] then s else (caller_send (OutCallEnd c) s)\<lparr>currentCallId := None, status := CsIdle\<rparr>)"

definition leave_page :: "caller \<Rightarrow> caller" where
  "leave_page s = (if callerEffectLeft s then caller_cleanup s else s)\<lparr>mounted := False, callerEffectLeft := False\<rparr>"

definition caller_init :: caller where
  "caller_init = \<lparr>pc = None, localStream = None, remoteStream = None, peers = [], closed = [], streams = 0, live = [], candidates = [],
     selectedUser = None, status = CsIdle, currentCallId = None, targetUserId = None, errorMessage = None, chains = [], cancelled = [],
     cleanupRef = None, seenDeps = (CsIdle, None), callerEffectLeft = False, mounted = True, answersTaken = [], caller_sent = []\<rparr>"

datatype caller_event =
    CaMessage WsInboundEvent
  | CaCommit bool
  | CaGranted nat
  | CaOffered nat
  | CaDescribed nat string
  | CaFailed nat
  | CaCandidate nat string
  | CaTrack nat nat
  | CaSelect string
  | CaCall
  | CaCallAgain string
  | CaEnd
  | CaCancel
  | CaDismiss
  | CaLeave

fun caller_do :: "(string \<Rightarrow> bool) \<Rightarrow> string option \<Rightarrow> caller_event \<Rightarrow> caller \<Rightarrow> caller" where
  "caller_do R n (CaMessage m) s = handleWsEvent R m s"
| "caller_do R n (CaCommit media) s = caller_commit media s"
| "caller_do R n (CaGranted i) s = caller_granted i s"
| "caller_do R n (CaOffered i) s = caller_offered i s"
| "caller_do R n (CaDescribed i sdp) s = caller_described i sdp s"
| "caller_do R n (CaFailed i) s = caller_failed i s"
| "caller_do R n (CaCandidate i cand) s = caller_candidate i cand s"
| "caller_do R n (CaTrack i st) s = caller_track i st s"
| "caller_do R n (CaSelect u) s = s\<lparr>selectedUser := Some u\<rparr>"
| "caller_do R n CaCall s = handleCall n s"
| "caller_do R n (CaCallAgain u) s = call_user n u s"
| "caller_do R n CaEnd s = handleEndCall s"
| "caller_do R n CaCancel s = handleCancelRinging s"
| "caller_do R n CaDismiss s = s\<lparr>status := CsIdle\<rparr>"
| "caller_do R n CaLeave s = leave_page s"

text \<open>The chain of an effect goes on where it stands; a button is there in its status; a page that was left does nothing more.\<close>

fun caller_enabled :: "caller_event \<Rightarrow> caller \<Rightarrow> bool" where
  "caller_enabled (CaGranted i) s \<longleftrightarrow> i < length (chains s) \<and> chains s ! i = WaitMic"
| "caller_enabled (CaOffered i) s \<longleftrightarrow> i < length (chains s) \<and> chains s ! i = WaitOffer"
| "caller_enabled (CaDescribed i sdp) s \<longleftrightarrow> i < length (chains s) \<and> chains s ! i = WaitDescription"
| "caller_enabled (CaFailed i) s \<longleftrightarrow> i < length (chains s) \<and> chains s ! i \<noteq> ChainDone"
| "caller_enabled (CaCandidate i cand) s \<longleftrightarrow> i < length (peers s) \<and> i \<notin> set (closed s)"
| "caller_enabled (CaTrack i st) s \<longleftrightarrow> i < length (peers s) \<and> i \<notin> set (closed s)"
| "caller_enabled CaCall s \<longleftrightarrow> mounted s \<and> status s = CsIdle"
| "caller_enabled (CaCallAgain u) s \<longleftrightarrow> mounted s \<and> status s = CsIdle"
| "caller_enabled CaEnd s \<longleftrightarrow> mounted s \<and> status s = CsConnected"
| "caller_enabled CaCancel s \<longleftrightarrow> mounted s \<and> status s = CsRinging"
| "caller_enabled CaDismiss s \<longleftrightarrow> mounted s \<and> (status s = CsDeclined \<or> status s = CsError)"
| "caller_enabled e s \<longleftrightarrow> mounted s"

section \<open>The caller's microphone\<close>

definition mic_of :: "'a rtc_scheme \<Rightarrow> nat list" where
  "mic_of r = (case localStream r of Some l \<Rightarrow> [l] | None \<Rightarrow> [])"

text \<open>
  At most one effect is not cancelled, and it is the one the next cleanup cancels; while there is one, the page was last
  rendered with a connected call. Only the stream that \<open>localStreamRef\<close> holds records.
\<close>

definition caller_ok :: "caller \<Rightarrow> bool" where
  "caller_ok s \<longleftrightarrow>
     length (chains s) = length (peers s) \<and>
     (\<forall>i < length (peers s). i \<in> set (cancelled s) \<or> cleanupRef s = Some i) \<and>
     (\<forall>i \<in> set (cancelled s). i < length (peers s)) \<and>
     live s = mic_of s \<and>
     (case cleanupRef s of
        None \<Rightarrow> localStream s = None
      | Some i \<Rightarrow> i < length (peers s) \<and> i \<notin> set (cancelled s) \<and> callerEffectLeft s \<and> mounted s \<and>
          (\<exists>c. seenDeps s = (CsConnected, Some c)) \<and> (chains s ! i = WaitMic \<longrightarrow> localStream s = None))"

lemma mic_of_simps [simp]:
  "localStream r = None \<Longrightarrow> mic_of r = []" "localStream r = Some l \<Longrightarrow> mic_of r = [l]"
  by (simp_all add: mic_of_def)

lemma stop_mic [simp]: "stop_tracks (localStream r) (mic_of r) = []"
  by (simp add: stop_tracks_def mic_of_def split: option.split)

lemma caller_cleanup_simps [simp]:
  "cleanupRef (caller_cleanup s) = None" "localStream (caller_cleanup s) = None" "peers (caller_cleanup s) = peers s"
  "chains (caller_cleanup s) = chains s" "caller_sent (caller_cleanup s) = caller_sent s" "seenDeps (caller_cleanup s) = seenDeps s"
  "status (caller_cleanup s) = status s" "currentCallId (caller_cleanup s) = currentCallId s"
  "callerEffectLeft (caller_cleanup s) = callerEffectLeft s" "mounted (caller_cleanup s) = mounted s"
  "live (caller_cleanup s) = stop_tracks (localStream s) (live s)"
  "cancelled (caller_cleanup s) = (case cleanupRef s of Some i \<Rightarrow> i # cancelled s | None \<Rightarrow> cancelled s)"
  by (simp_all add: caller_cleanup_def cleanupWebRTC_def)

lemma caller_ok_cleanup: "caller_ok s \<Longrightarrow> caller_ok (caller_cleanup s)"
  by (auto simp: caller_ok_def split: option.splits)

lemma caller_ok_updates [simp]:
  "caller_ok (s\<lparr>selectedUser := a\<rparr>) = caller_ok s" "caller_ok (s\<lparr>status := b\<rparr>) = caller_ok s"
  "caller_ok (s\<lparr>currentCallId := c\<rparr>) = caller_ok s" "caller_ok (s\<lparr>targetUserId := d\<rparr>) = caller_ok s"
  "caller_ok (s\<lparr>errorMessage := e\<rparr>) = caller_ok s" "caller_ok (s\<lparr>caller_sent := f\<rparr>) = caller_ok s"
  "caller_ok (s\<lparr>candidates := g\<rparr>) = caller_ok s" "caller_ok (s\<lparr>remoteStream := h\<rparr>) = caller_ok s"
  "caller_ok (s\<lparr>answersTaken := i\<rparr>) = caller_ok s"
  by (simp_all add: caller_ok_def mic_of_def cong: option.case_cong)

lemma caller_ok_commit: assumes ok: "caller_ok s" and on: "mounted s" shows "caller_ok (caller_commit media s)"
proof -
  let ?s = "(if callerEffectLeft s then caller_cleanup s else s)\<lparr>seenDeps := (status s, currentCallId s)\<rparr>"
  have off: "cleanupRef ?s = None" using ok by (auto simp: caller_ok_def split: option.splits)
  have ok': "caller_ok ?s"
  proof (cases "callerEffectLeft s")
    case True
    then show ?thesis using caller_ok_cleanup [OF ok] by (simp add: caller_ok_def mic_of_def)
  next
    case False
    then show ?thesis using ok by (auto simp: caller_ok_def mic_of_def split: option.splits)
  qed
  have "caller_ok (caller_effect media ?s)"
    using ok' off on
    by (auto simp: caller_ok_def caller_effect_def mic_of_def new_peer_def nth_append less_Suc_eq stop_tracks_def
        split: option.splits if_splits)
  then show ?thesis using ok by (simp add: caller_commit_def)
qed

lemma caller_ok_message: "caller_ok s \<Longrightarrow> caller_ok (handleWsEvent R ev s)"
  by (auto simp: handleWsEvent_def take_candidate_def caller_ok_cleanup split: WsInboundEvent.splits option.splits)

lemma caller_ok_granted:
  assumes "caller_ok s" "i < length (chains s)" "chains s ! i = WaitMic"
  shows "caller_ok (caller_granted i s)"
proof (cases "i \<in> set (cancelled s)")
  case True
  then show ?thesis using assms(1)
    by (auto simp: caller_granted_def caller_ok_def mic_of_def nth_list_update split: option.splits)
next
  case False
  then show ?thesis using assms
    by (auto simp: caller_granted_def mic_opened_def caller_ok_def mic_of_def nth_list_update split: option.splits)
qed

lemma nth_update_other: "(xs[i := x]) ! j = y \<Longrightarrow> x \<noteq> y \<Longrightarrow> j < length xs \<Longrightarrow> xs ! j = y"
  by (cases "i = j") auto

lemma caller_ok_stage: "caller_ok s \<Longrightarrow> x \<noteq> WaitMic \<Longrightarrow> caller_ok (s\<lparr>chains := (chains s)[i := x]\<rparr>)"
  by (auto simp: caller_ok_def mic_of_def split: option.splits dest: nth_update_other)

lemma caller_ok_step: assumes "caller_ok s" "caller_enabled e s" shows "caller_ok (caller_do R n e s)"
proof (cases e)
  case (CaCommit media)
  then show ?thesis using assms by (simp add: caller_ok_commit)
next
  case (CaGranted i)
  then show ?thesis using assms by (simp add: caller_ok_granted)
next
  case CaLeave
  have "caller_ok (if callerEffectLeft s then caller_cleanup s else s)" using assms caller_ok_cleanup by simp
  then show ?thesis using CaLeave assms(1)
    by (auto simp: leave_page_def caller_ok_def mic_of_def split: option.splits if_splits)
qed (use assms in \<open>auto simp: caller_ok_message caller_offered_def caller_described_def caller_failed_def caller_candidate_def
      caller_track_def handleCall_def call_user_def handleEndCall_def handleCancelRinging_def caller_send_def Let_def
      caller_ok_cleanup caller_ok_stage split: option.split\<close>)

lemma caller_ok_init: "caller_ok caller_init"
  by (simp add: caller_ok_def caller_init_def mic_of_def)

interpretation calling: invariant_system caller_enabled "caller_do R n" caller_ok "\<lambda>s. s = caller_init" for R n
  by unfold_locales (auto intro: caller_ok_step caller_ok_init)

lemma caller_ok_mic: "caller_ok s \<Longrightarrow> live s \<noteq> [] \<Longrightarrow> cleanupRef s \<noteq> None"
  by (auto simp: caller_ok_def split: option.splits)

text \<open>C12. Whatever messages, clicks and answers of the browser come in which order: at most one microphone stream of the
  administrator records, only while his page was last rendered with a connected call and is still open, and once a
  change of the status is rendered, only while the status is connected. A microphone that is granted after the
  call has ended is stopped at once.\<close>

theorem caller_microphone:
  assumes "reach (\<lambda>s. s = caller_init) caller_enabled (caller_do R n) s"
  shows "length (live s) \<le> 1 \<and>
    (live s \<noteq> [] \<longrightarrow> mounted s \<and> (\<exists>c. seenDeps s = (CsConnected, Some c))) \<and>
    (mounted s \<and> live (caller_commit media s) \<noteq> [] \<longrightarrow> status s = CsConnected \<and> currentCallId s \<noteq> None)"
proof -
  have ok: "caller_ok s" using assms by (rule calling.reach_inv)
  have one: "length (live s) \<le> 1" using ok by (auto simp: caller_ok_def mic_of_def split: option.splits)
  have shown: "mounted s \<and> (\<exists>c. seenDeps s = (CsConnected, Some c))" if "live s \<noteq> []"
    using ok caller_ok_mic [OF ok that] by (auto simp: caller_ok_def)
  have "status s = CsConnected \<and> currentCallId s \<noteq> None" if "live (caller_commit media s) \<noteq> []" "mounted s"
  proof -
    have ok': "caller_ok (caller_commit media s)" using ok that(2) by (rule caller_ok_commit)
    have "seenDeps (caller_commit media s) = (status s, currentCallId s)"
      by (auto simp: caller_commit_def caller_effect_def new_peer_def split: option.split)
    then show ?thesis using ok' caller_ok_mic [OF ok' that(1)] by (auto simp: caller_ok_def)
  qed
  with one shown show ?thesis by blast
qed

section \<open>The user's consent\<close>

definition accepted :: "callee \<Rightarrow> string \<Rightarrow> bool" where
  "accepted s c \<longleftrightarrow> OutCallAnswer c \<in> set (callee_sent s)"

fun media_call :: "WsOutboundEvent \<Rightarrow> string option" where
  "media_call (OutWebrtcAnswer c sdp) = Some c"
| "media_call (OutWebrtcIce c cand) = Some c"
| "media_call m = None"

definition callee_ok :: "callee \<Rightarrow> bool" where
  "callee_ok s \<longleftrightarrow>
     (\<forall>c. activeCallId s = Some c \<longrightarrow> accepted s c) \<and> (\<forall>c. seenCallId s = Some c \<longrightarrow> accepted s c) \<and>
     (\<forall>c \<in> set (peers s). accepted s c) \<and> (\<forall>(p, c) \<in> set (asking s). accepted s c) \<and>
     (\<forall>(p, c, sdp) \<in> set (answering s). accepted s c) \<and>
     (\<forall>m \<in> set (callee_sent s). \<forall>c. media_call m = Some c \<longrightarrow> accepted s c) \<and>
     (live s \<noteq> [] \<longrightarrow> (\<exists>c. accepted s c))"

lemma accepted_cong: "callee_sent s = callee_sent t \<Longrightarrow> accepted s = accepted t"
  by (auto simp: accepted_def fun_eq_iff)

lemma callee_cleanup_simps [simp]:
  "callee_sent (cleanupWebRTC s) = callee_sent s" "activeCallId (cleanupWebRTC s) = activeCallId s"
  "seenCallId (cleanupWebRTC s) = seenCallId s" "peers (cleanupWebRTC r) = peers r" "asking (cleanupWebRTC s) = asking s"
  "answering (cleanupWebRTC s) = answering s" "live (cleanupWebRTC r) = stop_tracks (localStream r) (live r)"
  by (simp_all add: cleanupWebRTC_def)

lemma stop_tracks_nonempty: "stop_tracks l xs \<noteq> [] \<Longrightarrow> xs \<noteq> []"
  by (auto simp: stop_tracks_def split: option.splits)

lemma callee_ok_cleanup: "callee_ok s \<Longrightarrow> callee_ok (cleanupWebRTC s)"
  using stop_tracks_nonempty [of "localStream s" "live s"] by (simp add: callee_ok_def accepted_def)

lemma callee_ok_simps [simp]:
  "callee_ok (s\<lparr>incomingCall := a\<rparr>) = callee_ok s" "callee_ok (s\<lparr>voiceUnavailable := b\<rparr>) = callee_ok s"
  "callee_ok (s\<lparr>pendingOffer := d\<rparr>) = callee_ok s" "callee_ok (s\<lparr>effectLeft := e\<rparr>) = callee_ok s"
  "callee_ok (s\<lparr>remoteStream := f\<rparr>) = callee_ok s" "callee_ok (s\<lparr>candidates := g\<rparr>) = callee_ok s"
  "callee_ok s \<Longrightarrow> callee_ok (s\<lparr>activeCallId := None\<rparr>)"
  "callee_ok s \<Longrightarrow> callee_ok (s\<lparr>seenCallId := activeCallId s\<rparr>)"
  by (simp_all add: callee_ok_def accepted_def)

lemma callee_ok_clear: "callee_ok s \<Longrightarrow> callee_ok (clearCall (cleanupWebRTC s))"
  by (simp add: clearCall_def callee_ok_cleanup)

lemma callee_ok_message: "callee_ok s \<Longrightarrow> callee_ok (callee_message R ev s)"
  by (auto simp: callee_message_def take_candidate_def callee_ok_clear split: WsInboundEvent.splits option.splits)
    (auto simp: callee_ok_def accepted_def)

lemma callee_ok_effect: "callee_ok s \<Longrightarrow> callee_ok (callee_effect media s)"
  by (auto simp: callee_effect_def split: option.split) (auto simp: callee_ok_def accepted_def new_peer_def)

lemma callee_ok_commit: "callee_ok s \<Longrightarrow> callee_ok (callee_commit media s)"
proof -
  assume ok: "callee_ok s"
  let ?t = "if effectLeft s then cleanupWebRTC s else s"
  have "callee_ok ?t" "activeCallId ?t = activeCallId s" using ok by (simp_all add: callee_ok_cleanup)
  then have "callee_ok (?t\<lparr>seenCallId := activeCallId s\<rparr>)" using callee_ok_simps(8) [of ?t] by simp
  then show ?thesis using ok callee_ok_effect by (simp add: callee_commit_def)
qed

lemma callee_ok_removed:
  "callee_ok s \<Longrightarrow> callee_ok (s\<lparr>asking := remove_nth i (asking s)\<rparr>)"
  "callee_ok s \<Longrightarrow> callee_ok (s\<lparr>answering := remove_nth i (answering s)\<rparr>)"
  by (auto simp: callee_ok_def accepted_def dest: remove_nth_subset)

lemma callee_ok_failed: "callee_ok s \<Longrightarrow> callee_ok (mic_failed s)"
  by (simp add: mic_failed_def callee_ok_cleanup)

lemma callee_ok_granted: assumes "callee_ok s" "i < length (asking s)" shows "callee_ok (mic_granted i s)"
proof -
  obtain p c where a: "asking s ! i = (p, c)" by (cases "asking s ! i")
  then have "(p, c) \<in> set (asking s)" using assms(2) nth_mem by metis
  then have c: "accepted s c" using assms(1) by (auto simp: callee_ok_def)
  let ?t = "(mic_opened s)\<lparr>asking := remove_nth i (asking s)\<rparr>"
  have ok: "callee_ok ?t"
    using callee_ok_removed(1) [OF assms(1), of i] c by (auto simp: callee_ok_def accepted_def mic_opened_def)
  have "callee_ok (?t\<lparr>pendingOffer := None, answering := answering ?t @ [(p, c, sdp)]\<rparr>)" for sdp
    using ok c by (auto simp: callee_ok_def accepted_def mic_opened_def)
  then show ?thesis using ok a by (simp add: mic_granted_def Let_def callee_ok_failed split: option.split)
qed

lemma callee_ok_send: "callee_ok s \<Longrightarrow> (\<And>c. media_call m = Some c \<Longrightarrow> accepted s c) \<Longrightarrow> callee_ok (callee_send m s)"
  by (auto simp: callee_ok_def accepted_def callee_send_def)

lemma callee_ok_answer: assumes "callee_ok s" "i < length (answering s)" shows "callee_ok (answer_made i sdp s)"
proof -
  obtain p c o' where a: "answering s ! i = (p, c, o')" by (cases "answering s ! i")
  then have "(p, c, o') \<in> set (answering s)" using assms(2) nth_mem by metis
  then have "accepted s c" using assms(1) by (auto simp: callee_ok_def)
  then show ?thesis using a assms(1) by (auto simp: answer_made_def accepted_def intro!: callee_ok_send callee_ok_removed)
qed

lemma callee_ok_accept: "callee_ok s \<Longrightarrow> callee_ok (handleAccept s)"
  by (auto simp: handleAccept_def callee_send_def callee_ok_def accepted_def split: option.split)

lemma callee_ok_step: assumes "callee_ok s" "callee_enabled e s" shows "callee_ok (callee_do R e s)"
  using assms
proof (cases e)
  case (CuCandidate p cand)
  then have "peers s ! p \<in> set (peers s)" using assms(2) by simp
  then have "accepted s (peers s ! p)" using assms(1) by (simp add: callee_ok_def)
  then show ?thesis using CuCandidate assms(1) by (auto simp: candidate_found_def intro!: callee_ok_send)
qed (auto simp: callee_ok_message callee_ok_commit callee_ok_granted mic_refused_def callee_ok_failed callee_ok_removed callee_ok_answer
      callee_ok_accept handleReject_def handleEnd_def split: option.split intro!: callee_ok_send callee_ok_simps(7))

lemma callee_ok_init: "callee_ok callee_init" by (simp add: callee_ok_def callee_init_def)

interpretation called: invariant_system callee_enabled "callee_do R" callee_ok "\<lambda>s. s = callee_init" for R
  by unfold_locales (auto intro: callee_ok_step callee_ok_init)

text \<open>C14. The user's microphone is asked for, a connection made, an offer answered and a candidate sent only for a call that the user
  accepted; no stream records before he accepted one.\<close>

theorem callee_consent:
  assumes "reach (\<lambda>s. s = callee_init) callee_enabled (callee_do R) s"
  shows "(\<forall>m \<in> set (callee_sent s). \<forall>c. media_call m = Some c \<longrightarrow> OutCallAnswer c \<in> set (callee_sent s)) \<and>
    (\<forall>c \<in> set (peers s) \<union> snd ` set (asking s). OutCallAnswer c \<in> set (callee_sent s)) \<and>
    (live s \<noteq> [] \<longrightarrow> (\<exists>c. OutCallAnswer c \<in> set (callee_sent s)))"
  using called.reach_inv [OF assms] by (auto simp: callee_ok_def accepted_def)

text \<open>It does not matter whether the offer or the microphone comes first: the offer is answered over the same connection, once.\<close>

theorem offer_or_microphone_first:
  assumes "seenCallId s = Some c" "asking s = [(p, c)]" "pc s = Some p" "localStream s = None" "p \<notin> set (closed s)"
    "pendingOffer s = None"
  shows "callee_message R (InWebrtcOffer c sdp) (mic_granted 0 s) = mic_granted 0 (callee_message R (InWebrtcOffer c sdp) s) \<and>
    answering (mic_granted 0 (callee_message R (InWebrtcOffer c sdp) s)) = answering s @ [(p, c, sdp)]"
  using assms by (simp add: callee_message_def mic_granted_def mic_opened_def Let_def remove_nth_def)

section \<open>What can go wrong\<close>

text \<open>
  The effect of the called user has no flag like the caller's. When a call ends while the browser still asks for the
  microphone and the next call is accepted, two requests are open. The late answer then overwrites \<open>localStreamRef\<close>, adding
  its track to the closed connection throws, and the cleanup stops the late stream and closes the connection of the
  new call: that call has no voice, and its own stream records on when both calls are over.
\<close>

definition two_calls :: "callee_event list" where
  "two_calls =
    [CuMessage (InCallIncoming ''a'' ''x'' None), CuAccept, CuCommit True, CuMessage (InCallEnded ''a'' ''x''), CuCommit True,
     CuMessage (InCallIncoming ''b'' ''x'' None), CuAccept, CuCommit True, CuGranted 1, CuGranted 0]"

definition silent_call :: callee where "silent_call = fold (callee_do (\<lambda>c. True)) two_calls callee_init"

lemmas callee_run = callee_message_def callee_commit_def callee_effect_def handleAccept_def callee_send_def clearCall_def cleanupWebRTC_def
  mic_granted_def mic_opened_def mic_failed_def new_peer_def stop_tracks_def remove_nth_def callee_init_def

lemma late_microphone:
  "activeCallId silent_call = Some ''b''" "pc silent_call = None" "voiceUnavailable silent_call" "live silent_call = [0]"
  "run callee_enabled (callee_do (\<lambda>c. True)) two_calls callee_init = Some silent_call"
  "live (fold (callee_do R) [CuMessage (InCallEnded ''b'' ''x''), CuCommit True] silent_call) = [0]"
  by (simp_all add: silent_call_def two_calls_def callee_run)

text \<open>The end of any call ends the active one, without telling its caller.\<close>

lemma other_call_ends_active:
  "activeCallId (callee_message R (InCallEnded c by') s) = None" "callee_sent (callee_message R (InCallEnded c by') s) = callee_sent s"
  by (simp_all add: callee_message_def clearCall_def)

text \<open>An offer that arrives before React has committed the acceptance is dropped.\<close>

lemma early_offer_dropped:
  assumes "seenCallId s \<noteq> Some c" shows "callee_message R (InWebrtcOffer c sdp) s = s"
  using assms by (simp add: callee_message_def)

text \<open>Before the server has named the call, the administrator cannot cancel it.\<close>

lemma cancel_without_id: "currentCallId s = None \<Longrightarrow> handleCancelRinging s = s"
  by (simp add: handleCancelRinging_def)

text \<open>A declined call keeps its id: cancelling the next one before it has an id ends the old one and leaves the new one ringing.\<close>

lemma cancel_ends_old_call:
  "caller_sent (fold (caller_do R n) [CaMessage (InCallRinging ''a'' ''u''), CaMessage (InCallRejected ''a'' ''u''), CaDismiss, CaSelect ''v'', CaCall,
     CaCancel] caller_init) = [OutCallInitiate ''v'' n, OutCallEnd ''a'']"
  by (simp add: handleWsEvent_def handleCall_def call_user_def handleCancelRinging_def caller_send_def caller_init_def)

text \<open>An acceptance that crosses the cancellation shows a connected call that has no id; ending it does nothing.\<close>

lemma connected_without_call:
  assumes "currentCallId s = None"
  shows "status (handleWsEvent R (InCallAccepted c u) s) = CsConnected"
    "handleEndCall (handleWsEvent R (InCallAccepted c u) s) = handleWsEvent R (InCallAccepted c u) s"
  using assms by (simp_all add: handleWsEvent_def handleEndCall_def)

text \<open>Leaving the page closes the microphone, and tells nobody.\<close>

lemma leaving_keeps_call: "caller_sent (leave_page s) = caller_sent s"
  by (simp add: leave_page_def)

section \<open>Concrete calls\<close>

definition connected_run :: "caller_event list" where
  "connected_run = [CaSelect ''u'', CaCall, CaMessage (InCallRinging ''a'' ''u''), CaMessage (InCallAccepted ''a'' ''u''), CaCommit True, CaGranted 0]"

definition connected_call :: caller where "connected_call = fold (caller_do (\<lambda>c. True) None) connected_run caller_init"

lemma connected_call_run: "run caller_enabled (caller_do (\<lambda>c. True) None) connected_run caller_init = Some connected_call"
  by (simp add: connected_call_def connected_run_def handleWsEvent_def handleCall_def call_user_def caller_send_def caller_init_def
      caller_commit_def caller_effect_def caller_granted_def new_peer_def mic_opened_def)

lemma connected_call_live: "live connected_call = [0]" "mounted connected_call" "status connected_call = CsConnected"
  by (simp_all add: connected_call_def connected_run_def handleWsEvent_def handleCall_def call_user_def caller_send_def caller_init_def
      caller_commit_def caller_effect_def caller_granted_def new_peer_def mic_opened_def)

lemma caller_microphone_witness: "\<exists>c. seenDeps connected_call = (CsConnected, Some c)"
  using caller_microphone [of "\<lambda>c. True" None connected_call] run_start [where init = "\<lambda>s. s = caller_init", OF _ connected_call_run] connected_call_live by simp

lemma callee_consent_witness: "OutCallAnswer ''b'' \<in> set (callee_sent silent_call)"
proof -
  have "''b'' \<in> set (peers silent_call)" by (simp add: silent_call_def two_calls_def callee_run)
  then show ?thesis using callee_consent [of "\<lambda>c. True" silent_call] run_start [where init = "\<lambda>s. s = callee_init", OF _ late_microphone(5)] by blast
qed

definition asking_call :: callee where
  "asking_call = fold (callee_do (\<lambda>c. True)) [CuMessage (InCallIncoming ''a'' ''x'' None), CuAccept, CuCommit True] callee_init"

lemma offer_or_microphone_first_witness:
  "answering (mic_granted 0 (callee_message (\<lambda>c. True) (InWebrtcOffer ''a'' ''sdp'') asking_call)) = [(0, ''a'', ''sdp'')]"
proof -
  have a: "seenCallId asking_call = Some ''a''" "asking asking_call = [(0, ''a'')]" "pc asking_call = Some 0"
    "localStream asking_call = None" "0 \<notin> set (closed asking_call)" "pendingOffer asking_call = None" "answering asking_call = []"
    by (simp_all add: asking_call_def callee_run)
  show ?thesis using offer_or_microphone_first [OF a(1-6), of "\<lambda>c. True" "''sdp''"] a(7) by simp
qed

end
