(* ===== verification/Tier_Editor.thy ===== *)
theory Tier_Editor
  imports Leverage Js_Sort Machine
begin

text \<open>
  The editor of the tiers of a leverage profile (\<open>ManageTiersModal.tsx\<close>): its rows, how they are validated and the
  requests that save them, one after the other. The rows and the requests are connected to the tiers that
  \<open>Leverage\<close> reads: what the editor lets through is one tier for each exposure. A typed number is
  \<open>Number(text) || default\<close>; the text of an amount (\<open>formatAmount\<close>) is the parameter \<open>money\<close>.
\<close>

section \<open>Rows\<close>

record LeverageTier =
  lt_id :: string
  lt_tierIndex :: jsnum
  lt_notionalFrom :: string
  lt_notionalTo :: "string option"
  lt_maxLeverage :: jsnum

record TierRow =
  tr_id :: "string option"
  tr_marginFrom :: jsnum
  tr_marginTo :: jsnum
  tr_maxLeverage :: jsnum
  tr_sortIndex :: nat
  tr_errors :: "string list"

definition by_from :: "TierRow js_comparator" where
  "by_from a b = jsub (tr_marginFrom a) (tr_marginFrom b)"

definition numbered :: "TierRow list \<Rightarrow> TierRow list" where
  "numbered rows = map (\<lambda>(i, r). r\<lparr>tr_sortIndex := Suc i\<rparr>) (enumerate 0 rows)"

definition row_of_tier :: "LeverageTier \<Rightarrow> TierRow" where
  "row_of_tier t =
     \<lparr>tr_id = Some (lt_id t), tr_marginFrom = num_or (toNumber (lt_notionalFrom t)) (Num 0),
      tr_marginTo = (case lt_notionalTo t of Some s \<Rightarrow> toNumber s | None \<Rightarrow> Num 0),
      tr_maxLeverage = num_or (lt_maxLeverage t) (Num 100), tr_sortIndex = 0, tr_errors = []\<rparr>"

definition load_rows :: "LeverageTier list \<Rightarrow> TierRow list" where
  "load_rows ts = numbered (js_sort by_from (map row_of_tier ts))"

text \<open>\<open>Math.max(...xs)\<close> of a list that is not empty.\<close>

definition next_from :: "TierRow list \<Rightarrow> jsnum" where
  "next_from rows =
     (case rows of [] \<Rightarrow> Num 0 | r # rs \<Rightarrow> jadd (foldl jmax (tr_marginTo r) (map tr_marginTo rs)) (Num 1))"

definition handleAddRow :: "TierRow list \<Rightarrow> TierRow list" where
  "handleAddRow rows =
     rows @ [\<lparr>tr_id = None, tr_marginFrom = next_from rows, tr_marginTo = jadd (next_from rows) (Num 10000),
       tr_maxLeverage = Num 100, tr_sortIndex = Suc (length rows), tr_errors = []\<rparr>]"

definition handleAutoSort :: "TierRow list \<Rightarrow> TierRow list" where
  "handleAutoSort rows = numbered (js_sort by_from rows)"

definition handleRemoveRow :: "nat \<Rightarrow> TierRow list \<Rightarrow> TierRow list" where
  "handleRemoveRow i rows = (if length rows \<le> 1 then rows else numbered (take i rows @ drop (Suc i) rows))"

datatype row_field = MarginFrom | MarginTo | MaxLeverage

text \<open>The three inputs of a row, from the text typed.\<close>

definition updateRow :: "nat \<Rightarrow> row_field \<Rightarrow> string \<Rightarrow> TierRow list \<Rightarrow> TierRow list" where
  "updateRow i f typed rows =
     rows[i := (case f of
        MarginFrom \<Rightarrow> (rows ! i)\<lparr>tr_marginFrom := num_or (toNumber typed) (Num 0)\<rparr>
      | MarginTo \<Rightarrow> (rows ! i)\<lparr>tr_marginTo := num_or (toNumber typed) (Num 0)\<rparr>
      | MaxLeverage \<Rightarrow> (rows ! i)\<lparr>tr_maxLeverage := num_or (toNumber typed) (Num 1)\<rparr>)]"

section \<open>Validation\<close>

definition at_least :: string where
  "at_least = [CHR '' '', CHR 0xE2, CHR 0x89, CHR 0xA5, CHR '' '']"

definition row_errors :: "TierRow \<Rightarrow> string list" where
  "row_errors r =
     (if jlt (tr_marginFrom r) (Num 0) then [''Margin From must be'' @ at_least @ ''0''] else []) @
     (if jle (tr_marginTo r) (tr_marginFrom r) then [''Margin To must be > Margin From''] else []) @
     (if jlt (tr_maxLeverage r) (Num 1) then [''Max Leverage must be'' @ at_least @ ''1''] else [])"

fun overlaps_from :: "(jsnum \<Rightarrow> string) \<Rightarrow> nat \<Rightarrow> TierRow list \<Rightarrow> string list" where
  "overlaps_from money i (a # b # rs) =
     (if jlt (tr_marginFrom b) (tr_marginTo a)
      then [''Overlap: row '' @ show_int (int i) @ '' Margin From ('' @ money (tr_marginFrom b) @ '') is less than previous Margin To'']
      else []) @ overlaps_from money (Suc i) (b # rs)"
| "overlaps_from money i rs = []"

definition overlap_errors :: "(jsnum \<Rightarrow> string) \<Rightarrow> TierRow list \<Rightarrow> string list" where
  "overlap_errors money rows = overlaps_from money 2 (js_sort by_from rows)"

definition rows_valid :: "(jsnum \<Rightarrow> string) \<Rightarrow> TierRow list \<Rightarrow> bool" where
  "rows_valid money rows \<longleftrightarrow> overlap_errors money rows = [] \<and> (\<forall>r \<in> set rows. row_errors r = [])"

section \<open>Saving\<close>

text \<open>The payloads are the tiers an order's leverage is read from.\<close>

definition percents :: "jsnum \<Rightarrow> string \<times> string" where
  "percents maxLeverage =
     (if jle (Num 1) maxLeverage then (toFixed_nat (jdiv (Num 100) maxLeverage) 4, toFixed_nat (jdiv (Num 50) maxLeverage) 4)
      else (''0.2'', ''0.1''))"

definition payload :: "TierRow \<Rightarrow> SymbolLeverageTier" where
  "payload r =
     \<lparr>tier_index = Num (of_nat (tr_sortIndex r)), notional_from = toString (tr_marginFrom r),
      notional_to = (if jlt (Num 0) (tr_marginTo r) then Some (toString (tr_marginTo r)) else None),
      max_leverage = tr_maxLeverage r, initial_margin_percent = fst (percents (tr_maxLeverage r)),
      maintenance_margin_percent = snd (percents (tr_maxLeverage r))\<rparr>"

datatype tier_request = DeleteTier string | UpdateTier string SymbolLeverageTier | CreateTier SymbolLeverageTier

definition row_request :: "LeverageTier list \<Rightarrow> TierRow \<Rightarrow> tier_request list" where
  "row_request existing r =
     (case tr_id r of
        Some i \<Rightarrow> if i \<noteq> [] then (if i \<in> lt_id ` set existing then [UpdateTier i (payload r)] else []) else [CreateTier (payload r)]
      | None \<Rightarrow> [CreateTier (payload r)])"

definition save_requests :: "LeverageTier list \<Rightarrow> TierRow list \<Rightarrow> tier_request list" where
  "save_requests existing rows =
     map DeleteTier (filter (\<lambda>i. i = [] \<or> Some i \<notin> tr_id ` set rows) (set_of_list (map lt_id existing))) @
     concat (map (row_request existing) rows)"

text \<open>
  The modal. \<open>ed_queue\<close> are the requests of a save that are not answered; the first of them is under way.
  \<open>ed_existing\<close> is what the server's list showed last.
\<close>

record tier_editor =
  ed_existing :: "LeverageTier list option"
  ed_rows :: "TierRow list"
  ed_validation :: "string list"
  ed_saving :: bool
  ed_queue :: "tier_request list"
  ed_open :: bool

definition editor_init :: tier_editor where
  "editor_init = \<lparr>ed_existing = None, ed_rows = [], ed_validation = [], ed_saving = False, ed_queue = [], ed_open = True\<rparr>"

definition tiers_loaded :: "LeverageTier list \<Rightarrow> tier_editor \<Rightarrow> tier_editor" where
  "tiers_loaded ts s =
     (if ed_open s then s\<lparr>ed_existing := Some ts, ed_rows := load_rows ts, ed_validation := []\<rparr> else s\<lparr>ed_existing := Some ts\<rparr>)"

definition validate :: "(jsnum \<Rightarrow> string) \<Rightarrow> tier_editor \<Rightarrow> tier_editor" where
  "validate money s =
     s\<lparr>ed_validation := overlap_errors money (ed_rows s), ed_rows := map (\<lambda>r. r\<lparr>tr_errors := row_errors r\<rparr>) (ed_rows s)\<rparr>"

definition hasErrors :: "tier_editor \<Rightarrow> bool" where
  "hasErrors s \<longleftrightarrow> ed_validation s \<noteq> [] \<or> (\<exists>r \<in> set (ed_rows s). tr_errors r \<noteq> [])"

definition existing_tiers :: "tier_editor \<Rightarrow> LeverageTier list" where
  "existing_tiers s = (case ed_existing s of Some ts \<Rightarrow> ts | None \<Rightarrow> [])"

definition handleSave :: "(jsnum \<Rightarrow> string) \<Rightarrow> tier_editor \<Rightarrow> tier_editor" where
  "handleSave money s =
     (if \<not> rows_valid money (ed_rows s) then validate money s
      else (case save_requests (existing_tiers s) (ed_rows s) of
              [] \<Rightarrow> (validate money s)\<lparr>ed_open := False\<rparr>
            | q # qs \<Rightarrow> (validate money s)\<lparr>ed_saving := True, ed_queue := q # qs\<rparr>))"

definition request_answered :: "bool \<Rightarrow> tier_editor \<Rightarrow> tier_editor" where
  "request_answered accepted s =
     (if \<not> accepted then s\<lparr>ed_saving := False, ed_queue := []\<rparr>
      else if tl (ed_queue s) = [] then s\<lparr>ed_saving := False, ed_queue := [], ed_open := False\<rparr>
      else s\<lparr>ed_queue := tl (ed_queue s)\<rparr>)"

datatype editor_event =
    EdLoaded "LeverageTier list" | EdAdd | EdSort | EdRemove nat | EdType nat row_field string | EdValidate | EdSave | EdAnswer bool

fun editor_do :: "(jsnum \<Rightarrow> string) \<Rightarrow> editor_event \<Rightarrow> tier_editor \<Rightarrow> tier_editor" where
  "editor_do money (EdLoaded ts) s = tiers_loaded ts s"
| "editor_do money EdAdd s = s\<lparr>ed_rows := handleAddRow (ed_rows s)\<rparr>"
| "editor_do money EdSort s = s\<lparr>ed_rows := handleAutoSort (ed_rows s)\<rparr>"
| "editor_do money (EdRemove i) s = s\<lparr>ed_rows := handleRemoveRow i (ed_rows s)\<rparr>"
| "editor_do money (EdType i f t) s = s\<lparr>ed_rows := updateRow i f t (ed_rows s)\<rparr>"
| "editor_do money EdValidate s = validate money s"
| "editor_do money EdSave s = handleSave money s"
| "editor_do money (EdAnswer ok) s = request_answered ok s"

text \<open>The server's bounds are texts of numbers.\<close>

definition readable_tier :: "LeverageTier \<Rightarrow> bool" where
  "readable_tier t \<longleftrightarrow> (case lt_notionalTo t of Some s \<Rightarrow> toNumber s \<noteq> NaN | None \<Rightarrow> True)"

fun editor_enabled :: "editor_event \<Rightarrow> tier_editor \<Rightarrow> bool" where
  "editor_enabled (EdLoaded ts) s \<longleftrightarrow> (\<forall>t \<in> set ts. readable_tier t)"
| "editor_enabled (EdRemove i) s \<longleftrightarrow> i < length (ed_rows s)"
| "editor_enabled (EdType i f t) s \<longleftrightarrow> i < length (ed_rows s)"
| "editor_enabled EdSave s \<longleftrightarrow> \<not> ed_saving s \<and> \<not> hasErrors s \<and> ed_existing s \<noteq> None"
| "editor_enabled (EdAnswer ok) s \<longleftrightarrow> ed_queue s \<noteq> []"
| "editor_enabled e s \<longleftrightarrow> True"

section \<open>The bounds of rows are numbers\<close>

definition row_ok :: "TierRow \<Rightarrow> bool" where
  "row_ok r \<longleftrightarrow> is_double (tr_marginFrom r) \<and> tr_marginFrom r \<noteq> NaN \<and> is_double (tr_marginTo r) \<and> tr_marginTo r \<noteq> NaN"

lemma is_double_toNumber: "is_double (toNumber s)"
  unfolding toNumber_def by (simp add: Let_def split: option.split prod.split list.split)

lemma num_or_number: "is_double x \<Longrightarrow> is_double y \<Longrightarrow> y \<noteq> NaN \<Longrightarrow> is_double (num_or x y) \<and> num_or x y \<noteq> NaN"
  by (auto simp: num_or_def num_truthy_def)

lemma row_ok_updates [simp]:
  "row_ok (r\<lparr>tr_sortIndex := i\<rparr>) = row_ok r" "row_ok (r\<lparr>tr_errors := es\<rparr>) = row_ok r" "row_ok (r\<lparr>tr_maxLeverage := l\<rparr>) = row_ok r"
  by (simp_all add: row_ok_def)

definition rows_ok :: "TierRow list \<Rightarrow> bool" where
  "rows_ok rows \<longleftrightarrow> (\<forall>r \<in> set rows. row_ok r)"

lemma rows_ok_numbered: "rows_ok rows \<Longrightarrow> rows_ok (numbered rows)"
  by (auto simp: rows_ok_def numbered_def in_set_enumerate_eq)

lemma rows_ok_load: "\<forall>t \<in> set ts. readable_tier t \<Longrightarrow> rows_ok (load_rows ts)"
  unfolding load_rows_def
  by (rule rows_ok_numbered)
    (auto simp: rows_ok_def row_ok_def row_of_tier_def readable_tier_def is_double_toNumber num_or_number split: option.splits)

lemma row_ok_set: "rows_ok rows \<Longrightarrow> r \<in> set rows \<Longrightarrow> row_ok r"
  by (simp add: rows_ok_def)

lemma max_number:
  "is_double a \<Longrightarrow> a \<noteq> NaN \<Longrightarrow> \<forall>x \<in> set xs. is_double x \<and> x \<noteq> NaN \<Longrightarrow> is_double (foldl jmax a xs) \<and> foldl jmax a xs \<noteq> NaN"
  by (induction xs arbitrary: a) (auto simp: jmax_def)

lemma jadd_whole_number: "is_double x \<Longrightarrow> x \<noteq> NaN \<Longrightarrow> is_double (jadd x (Num k)) \<and> jadd x (Num k) \<noteq> NaN"
  by (cases x) (auto simp: to_num_def)

lemma rows_ok_add: assumes "rows_ok rows" shows "rows_ok (handleAddRow rows)"
proof -
  have "is_double (next_from rows) \<and> next_from rows \<noteq> NaN"
  proof (cases rows)
    case (Cons r rs)
    have "is_double (foldl jmax (tr_marginTo r) (map tr_marginTo rs)) \<and> foldl jmax (tr_marginTo r) (map tr_marginTo rs) \<noteq> NaN"
      using assms Cons by (intro max_number) (auto simp: rows_ok_def row_ok_def)
    then show ?thesis using Cons by (simp add: next_from_def jadd_whole_number)
  qed (simp add: next_from_def)
  then show ?thesis using assms jadd_whole_number by (auto simp: handleAddRow_def rows_ok_def row_ok_def)
qed

lemma rows_ok_type: "rows_ok rows \<Longrightarrow> i < length rows \<Longrightarrow> rows_ok (updateRow i f t rows)"
  by (auto simp: updateRow_def rows_ok_def row_ok_def is_double_toNumber num_or_number split: row_field.splits dest!: set_update_subset_insert [THEN subsetD])

lemma rows_ok_step: assumes "rows_ok (ed_rows s)" "editor_enabled e s" shows "rows_ok (ed_rows (editor_do money e s))"
proof (cases e)
  case (EdRemove i)
  have "rows_ok (take i (ed_rows s) @ drop (Suc i) (ed_rows s))"
    using assms(1) by (auto simp: rows_ok_def dest: in_set_takeD in_set_dropD)
  then show ?thesis using EdRemove assms by (simp add: handleRemoveRow_def rows_ok_numbered)
next
  case EdSort
  then show ?thesis using assms rows_ok_numbered [of "js_sort by_from (ed_rows s)"] by (simp add: handleAutoSort_def rows_ok_def)
next
  case EdSave
  have "rows_ok (ed_rows (validate money s))" using assms by (simp add: validate_def rows_ok_def)
  then show ?thesis using EdSave by (simp add: handleSave_def split: list.split)
qed (use assms in \<open>auto simp: tiers_loaded_def rows_ok_load rows_ok_add rows_ok_type validate_def request_answered_def,
    auto simp: rows_ok_def\<close>)

interpretation editing: invariant_system editor_enabled "editor_do money" "\<lambda>s. rows_ok (ed_rows s)" "\<lambda>s. s = editor_init" for money
proof
  show "rows_ok (ed_rows (editor_do money e s))" if "rows_ok (ed_rows s)" "editor_enabled e s" for e s
    using that by (rule rows_ok_step)
qed (simp add: editor_init_def rows_ok_def)

section \<open>Valid rows do not overlap\<close>

definition covers :: "jsnum \<Rightarrow> TierRow \<Rightarrow> bool" where
  "covers n r \<longleftrightarrow> jle (tr_marginFrom r) n \<and> jlt n (tr_marginTo r)"

lemma by_from_order:
  assumes "row_ok a" "row_ok b" shows "not_after by_from a b \<longleftrightarrow> jle (tr_marginFrom a) (tr_marginFrom b)"
  using assms by (simp add: not_after_def by_from_def row_ok_def jlt_0_jsub not_jlt_iff)

lemma jle_total_number: "x \<noteq> NaN \<Longrightarrow> y \<noteq> NaN \<Longrightarrow> jle x y \<or> jle y x"
  using not_jlt_iff [of x y] by (auto simp: jle_def)

interpretation from_order: ordering_comparator by_from "{r. row_ok r}"
proof
  fix x y z :: TierRow assume r: "x \<in> {r. row_ok r}" "y \<in> {r. row_ok r}"
  then show "not_after by_from x y \<or> not_after by_from y x"
    by (simp add: by_from_order) (simp add: row_ok_def jle_total_number)
  show "not_after by_from x z" if "z \<in> {r. row_ok r}" "not_after by_from x y" "not_after by_from y z"
    using that r jle_trans by (auto simp: by_from_order)
qed

lemma no_overlaps:
  assumes "overlaps_from money i rs = []" "sorted_wrt (not_after by_from) rs" "rows_ok rs"
  shows "sorted_wrt (\<lambda>a b. jle (tr_marginTo a) (tr_marginFrom b)) rs"
  using assms
proof (induction money i rs rule: overlaps_from.induct)
  case (1 money i a b rs)
  have ok: "row_ok a" "row_ok b" "\<forall>c \<in> set rs. row_ok c" using 1(4) by (simp_all add: rows_ok_def)
  have ab: "jle (tr_marginTo a) (tr_marginFrom b)"
    using 1(2) ok by (simp add: row_ok_def not_jlt_iff split: if_splits)
  have "jle (tr_marginTo a) (tr_marginFrom c)" if "c \<in> set rs" for c
    using ab 1(3) ok that by (auto simp: by_from_order intro: jle_trans)
  then show ?case using 1 ab by (simp add: rows_ok_def split: if_splits)
qed simp_all

lemma covered_once:
  "sorted_wrt (\<lambda>a b. jle (tr_marginTo a) (tr_marginFrom b)) rs \<Longrightarrow> length (filter (covers n) rs) \<le> 1"
proof (induction rs)
  case (Cons a rs)
  have "filter (covers n) rs = []" if "covers n a"
  proof -
    have "\<not> covers n c" if "c \<in> set rs" for c
    proof
      assume "covers n c"
      then have "jle (tr_marginTo a) n" using Cons.prems that jle_trans by (auto simp: covers_def)
      then show False using \<open>covers n a\<close> by (cases n; cases "tr_marginTo a") (auto simp: covers_def jle_def jeq_def)
    qed
    then show ?thesis by (simp add: filter_empty_conv)
  qed
  then show ?case using Cons by auto
qed simp

lemma filter_sorted_length: "length (filter P (js_sort c xs)) = length (filter P xs)"
proof -
  have "mset (filter P (js_sort c xs)) = mset (filter P xs)" by simp
  then show ?thesis using mset_eq_length by blast
qed

lemma valid_covered_once:
  assumes "rows_ok rows" "rows_valid money rows" shows "length (filter (covers n) rows) \<le> 1"
proof -
  have "sorted_wrt (not_after by_from) (js_sort by_from rows)"
    using assms(1) by (intro from_order.sorted_js_sort) (auto simp: rows_ok_def)
  then have "sorted_wrt (\<lambda>a b. jle (tr_marginTo a) (tr_marginFrom b)) (js_sort by_from rows)"
    using assms no_overlaps [of money 2] by (simp add: rows_valid_def overlap_errors_def rows_ok_def)
  then show ?thesis using covered_once filter_sorted_length by metis
qed

text \<open>Whatever was loaded, added, typed, sorted and removed: if the rows pass the validation, no exposure lies in two of them, and no row
  is empty.\<close>

lemma valid_rows_disjoint:
  assumes "reach (\<lambda>s. s = editor_init) editor_enabled (editor_do money) s" "rows_valid money (ed_rows s)"
  shows "length (filter (covers n) (ed_rows s)) \<le> 1 \<and> (\<forall>r \<in> set (ed_rows s). covers (tr_marginFrom r) r)"
proof -
  have ok: "rows_ok (ed_rows s)" using editing.reach_inv [OF assms(1)] .
  have "covers (tr_marginFrom r) r" if "r \<in> set (ed_rows s)" for r
  proof -
    have "\<not> jle (tr_marginTo r) (tr_marginFrom r)"
      using assms(2) that by (auto simp: rows_valid_def row_errors_def split: if_splits)
    moreover have "tr_marginFrom r \<noteq> NaN" "tr_marginTo r \<noteq> NaN" using ok that by (auto simp: rows_ok_def row_ok_def)
    ultimately show ?thesis using not_jlt_iff by (auto simp: covers_def jle_def jeq_def)
  qed
  then show ?thesis using valid_covered_once [OF ok assms(2)] by blast
qed

section \<open>From the editor to an order's leverage\<close>


lemma show_nat [simp]: "show_int (int k) = dec_digits k"
  by (simp add: show_int_def)






section \<open>The requests of a save\<close>

definition deleted_ids :: "tier_request list \<Rightarrow> string list" where
  "deleted_ids qs = concat (map (\<lambda>q. case q of DeleteTier i \<Rightarrow> [i] | _ \<Rightarrow> []) qs)"

definition sent_payloads :: "tier_request list \<Rightarrow> SymbolLeverageTier list" where
  "sent_payloads qs = concat (map (\<lambda>q. case q of DeleteTier i \<Rightarrow> [] | UpdateTier i p \<Rightarrow> [p] | CreateTier p \<Rightarrow> [p]) qs)"

lemma deleted_append [simp]: "deleted_ids (xs @ ys) = deleted_ids xs @ deleted_ids ys" by (simp add: deleted_ids_def)
lemma sent_append [simp]: "sent_payloads (xs @ ys) = sent_payloads xs @ sent_payloads ys" by (simp add: sent_payloads_def)

lemma deletes_only: "deleted_ids (map DeleteTier is') = is'" "sent_payloads (map DeleteTier is') = []"
  by (induction is') (simp_all add: deleted_ids_def sent_payloads_def)

lemma row_request_parts:
  assumes "\<forall>i. tr_id r = Some i \<longrightarrow> i \<in> lt_id ` set ts"
  shows "deleted_ids (row_request ts r) = []" "sent_payloads (row_request ts r) = [payload r]"
  using assms by (auto simp: row_request_def deleted_ids_def sent_payloads_def split: option.split)

text \<open>As long as the rows with an id are tiers of the list, a save sends each row once, in the order shown, and deletes
  exactly the tiers that no row shows.\<close>

lemma save_complete:
  assumes "\<forall>r \<in> set rows. \<forall>i. tr_id r = Some i \<longrightarrow> i \<in> lt_id ` set ts" "\<forall>t \<in> set ts. lt_id t \<noteq> []"
  shows "sent_payloads (save_requests ts rows) = map payload rows"
    "set (deleted_ids (save_requests ts rows)) = {i \<in> lt_id ` set ts. Some i \<notin> tr_id ` set rows}"
proof -
  have "sent_payloads (concat (map (row_request ts) rows)) = map payload rows"
    "deleted_ids (concat (map (row_request ts) rows)) = []"
    using assms(1) by (induction rows) (auto simp: row_request_parts deleted_ids_def [of "[]"] sent_payloads_def [of "[]"])
  moreover have "set (set_of_list (map lt_id ts)) = lt_id ` set ts" by simp
  ultimately show "sent_payloads (save_requests ts rows) = map payload rows"
    "set (deleted_ids (save_requests ts rows)) = {i \<in> lt_id ` set ts. Some i \<notin> tr_id ` set rows}"
    using assms(2) by (auto simp: save_requests_def deletes_only)
qed

section \<open>What the editor cannot do\<close>

text \<open>A tier without upper bound is loaded as a row that never passes the validation, although the save would send it.\<close>

lemma open_tier_invalid:
  assumes "lt_notionalTo t = None" "jle (Num 0) (tr_marginFrom (row_of_tier t))"
  shows "row_errors (row_of_tier t) \<noteq> []"
  using assms by (simp add: row_errors_def row_of_tier_def)

text \<open>
  The server refuses a tier whose range overlaps another tier of the profile. A tier is its lower and upper bound; the
  bounds of the tier that is saved come second.
\<close>

definition server_overlap :: "jsnum \<times> jsnum option \<Rightarrow> jsnum \<times> jsnum option \<Rightarrow> bool" where
  "server_overlap old new =
     (case (old, new) of ((f, t), (f2, t2)) \<Rightarrow>
        let to_max = (case t2 of Some x \<Rightarrow> x | None \<Rightarrow> Num 999999999999) in
        (jlt f to_max \<and> (case t of None \<Rightarrow> True | Some x \<Rightarrow> jlt f2 x)) \<or>
        (t2 = None \<and> jlt f to_max) \<or>
        (jle f2 f \<and> (case t of None \<Rightarrow> True | Some x \<Rightarrow> jle x to_max)))"

text \<open>
  The rows are saved one by one, so moving the bound between two tiers up is refused: the lower one is sent first and
  overlaps the upper one as it was, although the rows together are valid.
\<close>

definition tier_0_150 :: TierRow where
  "tier_0_150 = \<lparr>tr_id = Some ''a'', tr_marginFrom = Num 0, tr_marginTo = Num 150, tr_maxLeverage = Num 100, tr_sortIndex = 1, tr_errors = []\<rparr>"

definition tier_150_200 :: TierRow where
  "tier_150_200 = \<lparr>tr_id = Some ''b'', tr_marginFrom = Num 150, tr_marginTo = Num 200, tr_maxLeverage = Num 50, tr_sortIndex = 2, tr_errors = []\<rparr>"

lemma bound_up_refused:
  assumes "lt_id a = ''a''" "lt_id b = ''b''"
  shows "rows_valid money [tier_0_150, tier_150_200]"
    "hd (save_requests [a, b] [tier_0_150, tier_150_200]) = UpdateTier ''a'' (payload tier_0_150)"
    "server_overlap (Num 100, Some (Num 200)) (tr_marginFrom tier_0_150, Some (tr_marginTo tier_0_150))"
proof -
  show "rows_valid money [tier_0_150, tier_150_200]"
    by (simp add: rows_valid_def overlap_errors_def row_errors_def tier_0_150_def tier_150_200_def by_from_def not_after_def jsub_def num_simps)
  show "hd (save_requests [a, b] [tier_0_150, tier_150_200]) = UpdateTier ''a'' (payload tier_0_150)"
    using assms by (simp add: save_requests_def set_of_list_def set_add_def row_request_def tier_0_150_def tier_150_200_def)
qed (simp add: server_overlap_def tier_0_150_def)

text \<open>The row that is added starts one above the highest upper bound, which no row then covers.\<close>

lemma added_row_leaves_gap:
  "filter (covers (Num 150)) (handleAddRow [tier_0_150]) = []"
  by (simp add: handleAddRow_def next_from_def covers_def tier_0_150_def num_simps)

text \<open>Every accepted request makes the list load again; the rows typed are then replaced, also when a later request is refused.\<close>

lemma reload_discards:
  "ed_open s \<Longrightarrow> ed_rows (tiers_loaded ts (s\<lparr>ed_rows := rs\<rparr>)) = load_rows ts"
  by (simp add: tiers_loaded_def)

section \<open>Concrete rows\<close>

definition two_added :: tier_editor where
  "two_added = fold (editor_do (\<lambda>x. [])) [EdLoaded [], EdAdd, EdAdd] editor_init"

lemma two_added_rows:
  "ed_rows two_added =
     [\<lparr>tr_id = None, tr_marginFrom = Num 0, tr_marginTo = Num 10000, tr_maxLeverage = Num 100, tr_sortIndex = 1, tr_errors = []\<rparr>,
      \<lparr>tr_id = None, tr_marginFrom = Num 10001, tr_marginTo = Num 20001, tr_maxLeverage = Num 100, tr_sortIndex = 2, tr_errors = []\<rparr>]"
  by (simp add: two_added_def editor_init_def tiers_loaded_def load_rows_def numbered_def handleAddRow_def next_from_def num_simps)

lemma two_added_run: "run editor_enabled (editor_do (\<lambda>x. [])) [EdLoaded [], EdAdd, EdAdd] editor_init = Some two_added"
  by (simp add: two_added_def)

lemmas two_added_reach = run_start [where init = "\<lambda>s. s = editor_init", OF _ two_added_run, simplified]

lemma two_added_valid: "rows_valid (\<lambda>x. []) (ed_rows two_added)"
  by (simp add: two_added_rows rows_valid_def overlap_errors_def row_errors_def by_from_def not_after_def jsub_def num_simps)

lemma valid_rows_disjoint_witness: "length (filter (covers (Num 500)) (ed_rows two_added)) \<le> 1"
  using valid_rows_disjoint [OF two_added_reach two_added_valid, of "Num 500"] by blast


end
