(* ===== verification/Access.thy ===== *)
theory Access
  imports Auth_Store
begin

text \<open>
  Who sees which page: the guards (\<open>shared/components/guards\<close>), the table of routes (\<open>app/router\<close>), the
  navigation of the administrators (\<open>app/config/nav.ts\<close>, \<open>Sidebar.tsx\<close>, \<open>CommandPalette.tsx\<close>), and where a user
  is sent after signing in. Which route a path belongs to is decided by the router library: it is the
  parameter \<open>route\<close>, which gives the pattern that matches a path.
\<close>

section \<open>Guards\<close>

datatype screen =
    Wait
  | Go string
  | Denied string
  | Page string
  | NotFound

definition role_of :: "User option \<Rightarrow> string" where
  "role_of u = (case u of Some v \<Rightarrow> toLowerCase (u_role v) | None \<Rightarrow> [])"

definition ADMIN_PANEL_ROLES :: "string list" where
  "ADMIN_PANEL_ROLES = [''admin'', ''super_admin'', ''manager'', ''agent'']"

definition AuthGuard :: "auth \<Rightarrow> screen \<Rightarrow> screen" where
  "AuthGuard s inner =
     (if \<not> persistRehydrated s \<or> \<not> isHydrated s then Wait
      else if \<not> isAuthenticated s then Go ''/login''
      else inner)"

text \<open>The provider of incoming calls is mounted with the page.\<close>

definition shows_calls :: "auth \<Rightarrow> bool" where
  "shows_calls s \<longleftrightarrow> (case user s of Some v \<Rightarrow> u_role v = ''user'' | None \<Rightarrow> False)"

definition AdminGuard :: "auth \<Rightarrow> screen \<Rightarrow> screen" where
  "AdminGuard s inner =
     (if \<not> isHydrated s then Wait
      else if \<not> isAuthenticated s then Go ''/login''
      else if role_of (user s) = [] \<or> role_of (user s) \<notin> set ADMIN_PANEL_ROLES then Denied ''admin area''
      else inner)"

definition AgentGuard :: "auth \<Rightarrow> screen \<Rightarrow> screen" where
  "AgentGuard s inner =
     (if \<not> isHydrated s then Wait
      else if \<not> isAuthenticated s then Go ''/login''
      else if role_of (user s) = [] \<or> role_of (user s) \<notin> set ADMIN_PANEL_ROLES then Denied ''agent area''
      else inner)"

definition UserGuard :: "auth \<Rightarrow> screen \<Rightarrow> screen" where
  "UserGuard s inner =
     (if \<not> isHydrated s then Wait
      else if \<not> isAuthenticated s then Go ''/login''
      else if role_of (user s) \<noteq> [] \<and> role_of (user s) \<in> set ADMIN_PANEL_ROLES then Go ''/admin/dashboard''
      else inner)"

definition AdminRouteGuard :: "string \<Rightarrow> auth \<Rightarrow> screen \<Rightarrow> screen" where
  "AdminRouteGuard pathname s inner =
     (case user s of
        None \<Rightarrow> Go ''/login''
      | Some v \<Rightarrow>
          (case map_get ADMIN_ROUTE_PERMISSIONS pathname of
             None \<Rightarrow> inner
           | Some p \<Rightarrow> if canAccess p (user s) then inner else Denied p))"

section \<open>Routes\<close>

definition routes :: "string list" where
  "routes = [''/login'', ''/register'', ''/forgot-password'', ''/impersonate'', ''/'', ''/user/trading'']"

definition adminRoutes :: "string list" where
  "adminRoutes =
     [''/admin/dashboard'', ''/admin/users'', ''/admin/user-events'', ''/admin/bulk-operations'', ''/admin/groups'', ''/admin/manager'',
      ''/admin/manager/:id'', ''/admin/trading'', ''/admin/leverage-profiles'', ''/admin/symbols'', ''/admin/markup'', ''/admin/promotions'',
      ''/admin/funded-programs'', ''/admin/funded-programs/:planId'', ''/admin/swap'', ''/admin/fees'', ''/admin/sessions'',
      ''/admin/transactions'', ''/admin/finance'', ''/admin/deposits'', ''/admin/bonus'', ''/admin/affiliate'', ''/admin/tag'',
      ''/admin/appointments'', ''/admin/leads'', ''/admin/leads/:id'', ''/admin/kyc'', ''/admin/permissions'', ''/admin/support'',
      ''/admin/call-user'', ''/admin/voiso'', ''/admin/system'', ''/admin/settings'', ''/admin/profile'', ''/admin/reports'']"

definition userRoutes :: "string list" where
  "userRoutes =
     [''/user/dashboard'', ''/user/profile'', ''/user/kyc'', ''/user/positions'', ''/user/orders'', ''/user/funded-program'',
      ''/user/appointments'', ''/user/affiliate'', ''/user/support'', ''/user/deposit'', ''/user/withdraw'']"

definition guarded_route :: "string list" where "guarded_route = [''/'', ''/user/trading'']"

text \<open>The element of the pattern \<open>r\<close>, at the path \<open>pathname\<close> that it matched.\<close>

definition element :: "auth \<Rightarrow> string \<Rightarrow> string \<Rightarrow> screen" where
  "element s pathname r =
     (if r \<in> set adminRoutes then AuthGuard s (AdminGuard s (AdminRouteGuard pathname s (Page r)))
      else if r \<in> set userRoutes then AuthGuard s (UserGuard s (Page r))
      else if r \<in> set guarded_route then AuthGuard s (Page r)
      else if r \<in> set routes then Page r
      else if r = ''/admin'' then Go ''/admin/dashboard''
      else if r = ''/user'' then Go ''/user/dashboard''
      else NotFound)"

definition render :: "(string \<Rightarrow> string option) \<Rightarrow> auth \<Rightarrow> string \<Rightarrow> screen" where
  "render route s pathname = (case route pathname of Some r \<Rightarrow> element s pathname r | None \<Rightarrow> NotFound)"

text \<open>Where one ends up, following at most \<open>n\<close> redirects.\<close>

fun settle :: "(string \<Rightarrow> string option) \<Rightarrow> auth \<Rightarrow> nat \<Rightarrow> string \<Rightarrow> screen" where
  "settle route s 0 p = render route s p"
| "settle route s (Suc n) p = (case render route s p of Go q \<Rightarrow> settle route s n q | x \<Rightarrow> x)"

section \<open>Navigation\<close>

record NavItem =
  nav_label :: string
  nav_path :: string
  nav_permission :: "string option"

definition nav :: "string \<Rightarrow> string \<Rightarrow> string \<Rightarrow> NavItem" where
  "nav l p k = \<lparr>nav_label = l, nav_path = p, nav_permission = (if k = [] then None else Some k)\<rparr>"

definition adminNavItems :: "NavItem list" where
  "adminNavItems =
     [nav ''Dashboard'' ''/admin/dashboard'' ''dashboard:view'', nav ''Users'' ''/admin/users'' ''users:view'',
      nav ''User events'' ''/admin/user-events'' ''user_events:view'', nav ''Bulk operations'' ''/admin/bulk-operations'' ''users:bulk_create'',
      nav ''Tags'' ''/admin/tag'' ''tags:view'', nav ''Groups'' ''/admin/groups'' ''groups:view'',
      nav ''Managers'' ''/admin/manager'' ''managers:view'', nav ''Trading'' ''/admin/trading'' ''trading:view'',
      nav ''Leverage Profiles'' ''/admin/leverage-profiles'' ''leverage_profiles:view'', nav ''Symbols'' ''/admin/symbols'' ''symbols:view'',
      nav ''Price Markup'' ''/admin/markup'' ''markup:view'', nav ''Promotions'' ''/admin/promotions'' ''promotions:view'',
      nav ''Funded programs'' ''/admin/funded-programs'' ''dashboard:view'', nav ''Swap Fees'' ''/admin/swap'' ''swap:view'',
      nav ''Trading fees'' ''/admin/fees'' ''fees:view'', nav ''Market sessions'' ''/admin/sessions'' ''sessions:view'',
      nav ''Transactions'' ''/admin/transactions'' ''finance:view'', nav ''Bonus'' ''/admin/bonus'' ''bonus:view'',
      nav ''Affiliate'' ''/admin/affiliate'' ''affiliate:view'', nav ''Permissions'' ''/admin/permissions'' ''permissions:view'',
      nav ''Support'' ''/admin/support'' ''support:view'', nav ''Call user'' ''/admin/call-user'' ''call:view'',
      nav ''Voiso'' ''/admin/voiso'' ''call:view'', nav ''Appointments'' ''/admin/appointments'' ''appointments:view'',
      nav ''Leads'' ''/admin/leads'' ''leads:view'', nav ''KYC'' ''/admin/kyc'' ''kyc:view'', nav ''System'' ''/admin/system'' ''system:view'',
      nav ''Settings'' ''/admin/settings'' ''settings:view'', nav ''Reports'' ''/admin/reports'' ''reports:view'']"

definition userNavItems :: "NavItem list" where
  "userNavItems =
     [nav ''Dashboard'' ''/user/dashboard'' [], nav ''Profile'' ''/user/profile'' [], nav ''KYC'' ''/user/kyc'' [],
      nav ''Positions'' ''/user/positions'' [], nav ''Orders'' ''/user/orders'' [], nav ''My Plans'' ''/user/funded-program'' [],
      nav ''Appointments'' ''/user/appointments'' [], nav ''Affiliate'' ''/user/affiliate'' [], nav ''Support'' ''/user/support'' [],
      nav ''Deposit'' ''/user/deposit'' [], nav ''Withdraw'' ''/user/withdraw'' []]"

definition item_allowed :: "User option \<Rightarrow> NavItem \<Rightarrow> bool" where
  "item_allowed u i \<longleftrightarrow> (case nav_permission i of None \<Rightarrow> True | Some p \<Rightarrow> canAccess p u)"

text \<open>\<open>Sidebar\<close>\<close>

definition visible_nav :: "NavItem list \<Rightarrow> User option \<Rightarrow> NavItem list" where
  "visible_nav items u = filter (item_allowed u) items"

section \<open>The command palette\<close>

record palette =
  cp_open :: bool
  cp_query :: string
  cp_index :: int

definition palette_init :: palette where "palette_init = \<lparr>cp_open = False, cp_query = [], cp_index = 0\<rparr>"

definition palette_items :: "User option \<Rightarrow> string \<Rightarrow> NavItem list" where
  "palette_items u query =
     filter (\<lambda>i. item_allowed u i \<and>
       (trim query = [] \<or> str_includes (toLowerCase (nav_label i)) (toLowerCase (trim query)) \<or>
        str_includes (toLowerCase (nav_path i)) (toLowerCase (trim query)))) adminNavItems"

text \<open>The effects on the query, on \<open>open\<close>, and on the number of items; the last one runs after the others.\<close>

definition clamp_index :: "User option \<Rightarrow> palette \<Rightarrow> palette" where
  "clamp_index u s =
     (let n = int (length (palette_items u (cp_query s))) in
      if n = 0 then s else if cp_index s \<ge> n then s\<lparr>cp_index := n - 1\<rparr> else if cp_index s < 0 then s\<lparr>cp_index := 0\<rparr> else s)"

definition palette_query :: "User option \<Rightarrow> string \<Rightarrow> palette \<Rightarrow> palette" where
  "palette_query u q s = clamp_index u (if q = cp_query s then s else s\<lparr>cp_query := q, cp_index := 0\<rparr>)"

definition palette_toggle :: "palette \<Rightarrow> palette" where
  "palette_toggle s = (if cp_open s then palette_init else s\<lparr>cp_open := True\<rparr>)"

datatype key = CtrlK | ArrowDown | ArrowUp | Enter | Escape | OtherKey

text \<open>The second result is the path navigated to.\<close>

definition palette_key :: "User option \<Rightarrow> key \<Rightarrow> palette \<Rightarrow> palette \<times> string option" where
  "palette_key u k s =
     (let items = palette_items u (cp_query s) in
      if k = CtrlK then (palette_toggle s, None)
      else if \<not> cp_open s then (s, None)
      else (case k of
              ArrowDown \<Rightarrow> (clamp_index u (s\<lparr>cp_index := min (cp_index s + 1) (int (length items) - 1)\<rparr>), None)
            | ArrowUp \<Rightarrow> (clamp_index u (s\<lparr>cp_index := max (cp_index s - 1) 0\<rparr>), None)
            | Enter \<Rightarrow>
                if 0 \<le> cp_index s \<and> cp_index s < int (length items)
                then (palette_init, Some (nav_path (items ! nat (cp_index s)))) else (s, None)
            | Escape \<Rightarrow> (palette_init, None)
            | _ \<Rightarrow> (s, None)))"

section \<open>After signing in\<close>

text \<open>\<open>LoginPage\<close>, and \<open>ImpersonatePage\<close> with the address it was given.\<close>

definition login_target :: "User option \<Rightarrow> string" where
  "login_target u = (if role_of u \<noteq> [] \<and> role_of u \<in> {''admin'', ''manager'', ''agent''} then ''/admin/dashboard'' else ''/'')"

definition impersonate_target :: "string option \<Rightarrow> User option \<Rightarrow> string" where
  "impersonate_target redirect u =
     (case redirect of
        Some r \<Rightarrow> if r \<noteq> [] \<and> startsWith r ''/'' then r
          else if role_of u \<noteq> [] \<and> role_of u \<in> {''admin'', ''manager'', ''agent''} then ''/admin/dashboard'' else ''/user/dashboard''
      | None \<Rightarrow> if role_of u \<noteq> [] \<and> role_of u \<in> {''admin'', ''manager'', ''agent''} then ''/admin/dashboard'' else ''/user/dashboard'')"

section \<open>Only those who may\<close>



lemmas guard_defs = AuthGuard_def AdminGuard_def UserGuard_def AdminRouteGuard_def



lemma render_target:
  "render route s p = Go q \<Longrightarrow> q = ''/login'' \<or> q = ''/admin/dashboard'' \<or> q = ''/user/dashboard''"
  by (auto simp: render_def element_def guard_defs split: option.splits if_splits)

lemma fixed_elements:
  "element s p ''/login'' = Page ''/login''"
  "element s p ''/admin/dashboard'' = AuthGuard s (AdminGuard s (AdminRouteGuard p s (Page ''/admin/dashboard'')))"
  "element s p ''/user/dashboard'' = AuthGuard s (UserGuard s (Page ''/user/dashboard''))"
  by (simp_all add: element_def adminRoutes_def userRoutes_def routes_def guarded_route_def)

lemma role_user: "role_of u \<noteq> [] \<Longrightarrow> \<exists>v. u = Some v" by (cases u) (simp_all add: role_of_def)

text \<open>Redirects never go round in circles: from any path, after at most two of them there is a page, a refusal or the wait
  for the session.\<close>

theorem redirects_end:
  assumes "route ''/login'' = Some ''/login''" "route ''/admin/dashboard'' = Some ''/admin/dashboard''"
    "route ''/user/dashboard'' = Some ''/user/dashboard''"
  shows "settle route s 2 p \<noteq> Go q"
proof -
  have login: "render route s ''/login'' = Page ''/login''" using assms(1) by (simp add: render_def fixed_elements)
  have admin: "x = ''/login'' \<and> (isAuthenticated s \<and> role_of (user s) \<noteq> [] \<longrightarrow> False)"
    if "render route s ''/admin/dashboard'' = Go x" for x
    using that assms(2) role_user [of "user s"]
    by (auto simp: render_def fixed_elements guard_defs split: option.splits if_splits)
  have user: "x = ''/login'' \<or> (x = ''/admin/dashboard'' \<and> isAuthenticated s \<and> role_of (user s) \<noteq> [])"
    if "render route s ''/user/dashboard'' = Go x" for x
    using that assms(3) by (auto simp: render_def fixed_elements guard_defs split: if_splits)
  have last: "render route s y \<noteq> Go q" if "render route s x = Go y" "render route s p = Go x" for x y
    using render_target [OF that(2)] that login admin user by fastforce
  show ?thesis
    using last by (simp add: numeral_2_eq_2 split: screen.split)
qed

section \<open>What is offered is allowed\<close>

lemma nav_consistent:
  "list_all (\<lambda>i. nav_path i \<in> set adminRoutes \<and> nav_permission i \<noteq> None \<and>
     (map_get ADMIN_ROUTE_PERMISSIONS (nav_path i) = None \<or> map_get ADMIN_ROUTE_PERMISSIONS (nav_path i) = nav_permission i)) adminNavItems"
  by code_simp

lemma allowed_item_page:
  assumes "i \<in> set adminNavItems" "item_allowed (user s) i" "route (nav_path i) = Some (nav_path i)"
    "persistRehydrated s" "isHydrated s" "isAuthenticated s" "role_of (user s) \<in> set ADMIN_PANEL_ROLES"
  shows "render route s (nav_path i) = Page (nav_path i)"
proof -
  have i: "nav_path i \<in> set adminRoutes" "nav_permission i \<noteq> None"
    "map_get ADMIN_ROUTE_PERMISSIONS (nav_path i) = None \<or> map_get ADMIN_ROUTE_PERMISSIONS (nav_path i) = nav_permission i"
    using nav_consistent assms(1) by (auto simp: list_all_iff)
  have r: "role_of (user s) \<noteq> []" using assms(7) by (auto simp: ADMIN_PANEL_ROLES_def)
  obtain v where v: "user s = Some v" using role_user [OF r] by blast
  show ?thesis using i assms r v
    by (auto simp: render_def element_def guard_defs item_allowed_def split: option.splits)
qed

text \<open>What the navigation and the command palette offer an administrator leads to its page, never to a refusal.\<close>

theorem offered_pages_open:
  assumes "persistRehydrated s" "isHydrated s" "isAuthenticated s" "role_of (user s) \<in> set ADMIN_PANEL_ROLES"
    "\<And>r. r \<in> set adminRoutes \<Longrightarrow> route r = Some r"
  shows "(\<forall>i \<in> set (visible_nav adminNavItems (user s)). render route s (nav_path i) = Page (nav_path i)) \<and>
    (\<forall>t t' k p. palette_key (user s) k t = (t', Some p) \<longrightarrow> render route s p = Page p)"
proof -
  have open': "render route s (nav_path i) = Page (nav_path i)" if "i \<in> set adminNavItems" "item_allowed (user s) i" for i
    using allowed_item_page [OF that] assms nav_consistent that(1) by (auto simp: list_all_iff)
  moreover have "render route s p = Page p" if "palette_key (user s) k t = (t', Some p)" for t t' k p
  proof -
    have "\<exists>i \<in> set (palette_items (user s) (cp_query t)). nav_path i = p"
      using that by (auto simp: palette_key_def Let_def split: if_splits key.splits intro!: bexI nth_mem)
    then show ?thesis using open' by (auto simp: palette_items_def)
  qed
  ultimately show ?thesis by (auto simp: visible_nav_def)
qed

text \<open>The selected item of the palette is one of the items, as long as there are any.\<close>

definition index_ok :: "User option \<Rightarrow> palette \<Rightarrow> bool" where
  "index_ok u s \<longleftrightarrow> palette_items u (cp_query s) \<noteq> [] \<longrightarrow> 0 \<le> cp_index s \<and> cp_index s < int (length (palette_items u (cp_query s)))"

lemma index_ok_init: "index_ok u palette_init" by (simp add: index_ok_def palette_init_def)

lemma clamp_ok: "index_ok u (clamp_index u s)"
  by (auto simp: index_ok_def clamp_index_def Let_def not_le)

lemma palette_index_ok:
  assumes "index_ok u s" shows "index_ok u (fst (palette_key u k s))" "index_ok u (palette_query u q s)"
proof -
  have "index_ok u (palette_toggle s)" using assms index_ok_init by (simp add: palette_toggle_def) (simp add: index_ok_def)
  then show "index_ok u (fst (palette_key u k s))"
    using assms clamp_ok index_ok_init by (simp add: palette_key_def Let_def split: key.split)
  show "index_ok u (palette_query u q s)" by (simp add: palette_query_def clamp_ok)
qed

section \<open>What the tables leave open\<close>

text \<open>Pages that the route guard lets every administrator, manager and agent enter.\<close>

lemma unguarded_routes:
  "filter (\<lambda>r. map_get ADMIN_ROUTE_PERMISSIONS r = None) adminRoutes =
     [''/admin/user-events'', ''/admin/manager/:id'', ''/admin/promotions'', ''/admin/funded-programs'', ''/admin/funded-programs/:planId'',
      ''/admin/leads/:id'', ''/admin/voiso'', ''/admin/profile'']"
  by code_simp

text \<open>The guard looks up the path as it was typed. The router ignores a slash at its end, the table does not.\<close>

lemma slash_skips_guard:
  assumes "route ''/admin/users/'' = Some ''/admin/users''" "user s = Some v" "toLowerCase (u_role v) = ''agent''"
    "persistRehydrated s" "isHydrated s" "isAuthenticated s"
  shows "render route s ''/admin/users/'' = Page ''/admin/users''"
proof -
  have "map_get ADMIN_ROUTE_PERMISSIONS ''/admin/users/'' = None" by code_simp
  then show ?thesis using assms
    by (simp add: render_def element_def adminRoutes_def guard_defs role_of_def ADMIN_PANEL_ROLES_def)
qed

text \<open>Items of the navigation whose permission is not among the keys that a profile can be given.\<close>

lemma ungrantable_items:
  "map nav_path (filter (\<lambda>i. case nav_permission i of Some k \<Rightarrow> k \<notin> set ALL_PERMISSION_KEYS | None \<Rightarrow> False) adminNavItems) =
     [''/admin/user-events'', ''/admin/tag'', ''/admin/promotions'']"
  by code_simp

text \<open>A super administrator belongs to the admin panel, and is sent to the terminal.\<close>

lemma super_admin_target:
  assumes "toLowerCase (u_role v) = ''super_admin''"
  shows "login_target (Some v) = ''/''" "impersonate_target None (Some v) = ''/user/dashboard''" "role_of (Some v) \<in> set ADMIN_PANEL_ROLES"
  using assms by (simp_all add: login_target_def impersonate_target_def role_of_def ADMIN_PANEL_ROLES_def)

section \<open>A concrete session\<close>

definition manager :: User where
  "manager = \<lparr>u_id = ''1'', u_email = [], u_firstName = [], u_lastName = [], u_name = None, u_role = ''manager'', u_status = [],
     u_permissions = Some [''users:view''], u_permissionProfileId = None, u_permissionProfileName = None, u_tradingAccess = None,
     u_referralCode = None\<rparr>"

definition manager_session :: auth where
  "manager_session = auth_init\<lparr>user := Some manager, isAuthenticated := True, persistRehydrated := True, isHydrated := True\<rparr>"

lemma manager_role: "role_of (user manager_session) = ''manager''"
  by (simp add: manager_session_def manager_def role_of_def toLowerCase_def low_char_def)

lemma offered_pages_open_witness: "render Some manager_session ''/admin/users'' = Page ''/admin/users''"
proof -
  have "nav ''Users'' ''/admin/users'' ''users:view'' \<in> set (visible_nav adminNavItems (user manager_session))"
    by (simp add: visible_nav_def adminNavItems_def item_allowed_def nav_def canAccess_def manager_session_def manager_def getCurrentUserPermissions_def)
  then show ?thesis
    using offered_pages_open [of manager_session Some] manager_role
    by (auto simp: manager_session_def ADMIN_PANEL_ROLES_def nav_def)
qed


lemma redirects_end_witness: "settle Some auth_init 2 ''/user'' \<noteq> Go ''/login''"
  by (rule redirects_end) simp_all

end
