(* ===== verification/Markup_Editor.thy ===== *)
theory Markup_Editor
  imports Js_Text Machine
begin

text \<open>
  The markups of a price profile (\<open>ConfigureMarkupsModal.tsx\<close>, \<open>TransferMarkupsModal.tsx\<close>): each symbol has the profile's
  markups or its own, which the editor keeps as texts while they are changed and saves where they differ.
  The symbols and the stored markups are loaded by two queries whose answers come in either order. The
  requests of a save are sent together and settled one by one.
\<close>

section \<open>Typed numbers\<close>

text \<open>One round of the loop over the characters; the sign is only kept at the start.\<close>

fun sanitize_from :: "string \<Rightarrow> bool \<Rightarrow> string \<Rightarrow> string" where
  "sanitize_from result hasDecimal [] = result"
| "sanitize_from result hasDecimal (c # cs) =
     (if c = CHR ''+'' \<or> c = CHR ''-'' then sanitize_from (if result = [] then result @ [c] else result) hasDecimal cs
      else if c = CHR ''.'' then
        (if \<not> hasDecimal then sanitize_from (result @ [c]) True cs else sanitize_from result hasDecimal cs)
      else if is_digit c then sanitize_from (result @ [c]) hasDecimal cs
      else sanitize_from result hasDecimal cs)"

definition sanitizeNumericInput :: "string \<Rightarrow> string" where
  "sanitizeNumericInput value = sanitize_from [] False value"

definition formatPrice :: "jsnum \<Rightarrow> string" where
  "formatPrice value = (if jle (Num 1) value then toFixed_nat value 2 else toFixed_nat value 6)"

text \<open>The preview of a price with a markup in percent, and of the spread; nothing is shown as NaN.\<close>

definition after_markup :: "string option \<Rightarrow> string \<Rightarrow> jsnum" where
  "after_markup price pct =
     (let live = (case price of Some p \<Rightarrow> parseFloat p | None \<Rightarrow> NaN) in
      if \<not> isNaN live \<and> \<not> jeq live (Num 0)
      then jmul live (jadd (Num 1) (jdiv (num_or (parseFloat pct) (Num 0)) (Num 100))) else NaN)"

definition preview_spread :: "(string \<times> string) option \<Rightarrow> string \<Rightarrow> string \<Rightarrow> string" where
  "preview_spread tick bidPct askPct =
     (let b = after_markup (map_option fst tick) bidPct; a = after_markup (map_option snd tick) askPct in
      if \<not> isNaN b \<and> \<not> isNaN a \<and> jlt (Num 0) b then toFixed_nat (jmul (jdiv (jsub a b) b) (Num 100)) 1 else ''0.0'')"

section \<open>The editor\<close>

type_synonym markups = "string \<times> string"

record SymbolItem =
  si_id :: string
  si_code :: string
  si_base :: "string option"
  si_quote :: "string option"

record SymbolWithMarkup =
  sw_symbol :: SymbolItem
  sw_markup :: markups
  sw_isOverride :: bool

text \<open>\<open>None\<close>: the query has not answered. \<open>me_queue\<close> are the requests of a save that are not settled.\<close>

record markup_editor =
  me_symbols :: "SymbolItem list option"
  me_overrides :: "(string \<times> markups) list option"
  me_local :: "(string, markups) jsmap"
  me_search :: string
  me_saving :: bool
  me_queue :: "(string \<times> markups) list"

definition markup_init :: markup_editor where
  "markup_init = \<lparr>me_symbols = None, me_overrides = None, me_local = [], me_search = [], me_saving = False, me_queue = []\<rparr>"

definition overrideMap :: "markup_editor \<Rightarrow> (string, markups) jsmap" where
  "overrideMap s = foldl (\<lambda>m o'. map_set (fst o') (snd o') m) [] (case me_overrides s of Some os \<Rightarrow> os | None \<Rightarrow> [])"

definition symbolsWithMarkup :: "markups \<Rightarrow> markup_editor \<Rightarrow> SymbolWithMarkup list" where
  "symbolsWithMarkup profile s =
     map (\<lambda>i. case map_get (overrideMap s) (si_id i) of
            Some m \<Rightarrow> \<lparr>sw_symbol = i, sw_markup = m, sw_isOverride = True\<rparr>
          | None \<Rightarrow> \<lparr>sw_symbol = i, sw_markup = profile, sw_isOverride = False\<rparr>)
       (case me_symbols s of Some is' \<Rightarrow> is' | None \<Rightarrow> [])"

abbreviation sw_id :: "SymbolWithMarkup \<Rightarrow> string" where "sw_id w \<equiv> si_id (sw_symbol w)"

text \<open>The effect on the symbols: those without local markups get the ones shown.\<close>

definition fill_local :: "markups \<Rightarrow> markup_editor \<Rightarrow> markup_editor" where
  "fill_local profile s =
     s\<lparr>me_local := foldl (\<lambda>m w. if map_has m (sw_id w) then m else map_set (sw_id w) (sw_markup w) m) (me_local s) (symbolsWithMarkup profile s)\<rparr>"

definition symbols_loaded :: "markups \<Rightarrow> SymbolItem list \<Rightarrow> markup_editor \<Rightarrow> markup_editor" where
  "symbols_loaded profile is' s = fill_local profile (s\<lparr>me_symbols := Some is'\<rparr>)"

definition overrides_loaded :: "markups \<Rightarrow> (string \<times> markups) list \<Rightarrow> markup_editor \<Rightarrow> markup_editor" where
  "overrides_loaded profile os s = fill_local profile (s\<lparr>me_overrides := Some os\<rparr>)"

definition contains_text :: "string \<Rightarrow> SymbolWithMarkup \<Rightarrow> bool" where
  "contains_text term' w \<longleftrightarrow>
     str_includes (toLowerCase (si_code (sw_symbol w))) term' \<or>
     (case si_base (sw_symbol w) of Some b \<Rightarrow> str_includes (toLowerCase b) term' | None \<Rightarrow> False) \<or>
     (case si_quote (sw_symbol w) of Some b \<Rightarrow> str_includes (toLowerCase b) term' | None \<Rightarrow> False)"

definition filteredRows :: "markups \<Rightarrow> markup_editor \<Rightarrow> SymbolWithMarkup list" where
  "filteredRows profile s =
     (let term' = toLowerCase (trim (me_search s)) in
      if term' = [] then symbolsWithMarkup profile s else filter (contains_text term') (symbolsWithMarkup profile s))"

text \<open>What a row shows.\<close>

definition shown_markup :: "markup_editor \<Rightarrow> SymbolWithMarkup \<Rightarrow> markups" where
  "shown_markup s w = (case map_get (me_local s) (sw_id w) of Some m \<Rightarrow> m | None \<Rightarrow> sw_markup w)"

definition local_or_zero :: "markup_editor \<Rightarrow> string \<Rightarrow> markups" where
  "local_or_zero s i = (case map_get (me_local s) i of Some m \<Rightarrow> m | None \<Rightarrow> (''0'', ''0''))"

definition stepped :: "string \<Rightarrow> jsnum \<Rightarrow> string" where
  "stepped cur delta =
     toFixed_nat (jmax (Num (-50)) (jmin (Num 50) (jadd (num_or (parseFloat cur) (Num 0)) delta))) 1"

definition handleBidChange :: "string \<Rightarrow> jsnum \<Rightarrow> markup_editor \<Rightarrow> markup_editor" where
  "handleBidChange i delta s =
     (let cur = local_or_zero s i in s\<lparr>me_local := map_set i (stepped (fst cur) delta, snd cur) (me_local s)\<rparr>)"

definition handleAskChange :: "string \<Rightarrow> jsnum \<Rightarrow> markup_editor \<Rightarrow> markup_editor" where
  "handleAskChange i delta s =
     (let cur = local_or_zero s i in s\<lparr>me_local := map_set i (fst cur, stepped (snd cur) delta) (me_local s)\<rparr>)"

text \<open>The text of an input when it is left.\<close>

definition commit_bid :: "string \<Rightarrow> string \<Rightarrow> markup_editor \<Rightarrow> markup_editor" where
  "commit_bid i v s = s\<lparr>me_local := map_set i (sanitizeNumericInput v, snd (local_or_zero s i)) (me_local s)\<rparr>"

definition commit_ask :: "string \<Rightarrow> string \<Rightarrow> markup_editor \<Rightarrow> markup_editor" where
  "commit_ask i v s = s\<lparr>me_local := map_set i (fst (local_or_zero s i), sanitizeNumericInput v) (me_local s)\<rparr>"

definition handleReset :: "string \<Rightarrow> markup_editor \<Rightarrow> markup_editor" where
  "handleReset i s = s\<lparr>me_local := map_set i (''0'', ''0'') (me_local s)\<rparr>"

text \<open>What a save sends. \<open>find\<close> gives the first row of a symbol.\<close>

definition to_save :: "markups \<Rightarrow> markup_editor \<Rightarrow> (string \<times> markups) list" where
  "to_save profile s =
     (let ws = symbolsWithMarkup profile s in
      filter (\<lambda>x. case find (\<lambda>w. sw_id w = fst x) ws of Some w \<Rightarrow> snd x \<noteq> sw_markup w | None \<Rightarrow> False)
        (map (\<lambda>w. (sw_id w, shown_markup s w)) ws))"

definition save_markups :: "markups \<Rightarrow> markup_editor \<Rightarrow> markup_editor" where
  "save_markups profile s =
     (if to_save profile s = [] then s else s\<lparr>me_saving := True, me_queue := to_save profile s\<rparr>)"

text \<open>
  One request settles. The first one that is refused ends the save; the others go on. When the last one succeeds the
  save ends too.
\<close>

definition save_settled :: "nat \<Rightarrow> bool \<Rightarrow> markup_editor \<Rightarrow> markup_editor" where
  "save_settled i accepted s =
     (let rest = take i (me_queue s) @ drop (Suc i) (me_queue s) in
      s\<lparr>me_queue := rest, me_saving := (me_saving s \<and> accepted \<and> rest \<noteq> [])\<rparr>)"

datatype markup_event =
    MeSymbols "SymbolItem list" | MeOverrides "(string \<times> markups) list" | MeSearch string | MeBid string jsnum | MeAsk string jsnum
  | MeTypeBid string string | MeTypeAsk string string | MeReset string | MeSave | MeSettled nat bool

fun markup_do :: "markups \<Rightarrow> markup_event \<Rightarrow> markup_editor \<Rightarrow> markup_editor" where
  "markup_do p (MeSymbols is') s = symbols_loaded p is' s"
| "markup_do p (MeOverrides os) s = overrides_loaded p os s"
| "markup_do p (MeSearch q) s = s\<lparr>me_search := q\<rparr>"
| "markup_do p (MeBid i d) s = handleBidChange i d s"
| "markup_do p (MeAsk i d) s = handleAskChange i d s"
| "markup_do p (MeTypeBid i v) s = commit_bid i v s"
| "markup_do p (MeTypeAsk i v) s = commit_ask i v s"
| "markup_do p (MeReset i) s = handleReset i s"
| "markup_do p MeSave s = save_markups p s"
| "markup_do p (MeSettled i ok) s = save_settled i ok s"

section \<open>Copying markups to other symbols\<close>

datatype transfer_mode = AllSymbols | SelectedSymbols

definition targets :: "transfer_mode \<Rightarrow> string list \<Rightarrow> string \<Rightarrow> SymbolWithMarkup \<Rightarrow> SymbolWithMarkup list \<Rightarrow> SymbolWithMarkup list" where
  "targets mode selectedIds search source all =
     (let others = filter (\<lambda>w. sw_id w \<noteq> sw_id source) all; term' = toLowerCase (trim search) in
      if mode = AllSymbols then others
      else filter (\<lambda>w. sw_id w \<in> set selectedIds) (if term' = [] then others else filter (contains_text term') others))"

text \<open>The transfer_batches of twenty requests, one after the other.\<close>

function transfer_batches :: "nat \<Rightarrow> 'a list \<Rightarrow> 'a list list" where
  "transfer_batches n xs = (if n = 0 \<or> xs = [] then [] else take n xs # transfer_batches n (drop n xs))"
  by pat_completeness auto

termination by (relation "measure (length \<circ> snd)") auto

declare transfer_batches.simps [simp del]

datatype transfer_toast = TransferDone nat | TransferPartly nat nat | TransferFailed

text \<open>From the outcomes of all requests.\<close>

definition transfer_result :: "bool list \<Rightarrow> transfer_toast" where
  "transfer_result outcomes =
     (let good = length (filter id outcomes); bad = length (filter Not outcomes) in
      if 0 < good \<and> bad = 0 then TransferDone good else if 0 < good then TransferPartly good bad else TransferFailed)"

section \<open>What is typed is a number\<close>

definition decimal_text :: "string \<Rightarrow> bool" where
  "decimal_text s \<longleftrightarrow>
     (\<exists>sign a b. s = sign @ a @ b \<and> sign \<in> {[], ''+'', ''-''} \<and> all_digits a \<and> (b = [] \<or> (\<exists>d. b = CHR ''.'' # d \<and> all_digits d)))"

text \<open>What has been kept so far, and whether it has its point.\<close>

definition kept :: "string \<Rightarrow> bool \<Rightarrow> bool" where
  "kept r p \<longleftrightarrow>
     (\<exists>sign a b. r = sign @ a @ b \<and> sign \<in> {[], ''+'', ''-''} \<and> all_digits a \<and>
        (if p then \<exists>d. b = CHR ''.'' # d \<and> all_digits d else b = []))"

lemma kept_digit: assumes "kept r p" "is_digit c" shows "kept (r @ [c]) p"
proof -
  obtain sign a b where r: "r = sign @ a @ b" "sign \<in> {[], ''+'', ''-''}" "all_digits a"
    "if p then \<exists>d. b = CHR ''.'' # d \<and> all_digits d else b = []" using assms(1) by (auto simp: kept_def)
  show ?thesis
  proof (cases p)
    case True
    then obtain d where "b = CHR ''.'' # d" "all_digits d" using r(4) by auto
    then show ?thesis using r True assms(2) unfolding kept_def
      by (intro exI [of _ sign] exI [of _ a] exI [of _ "b @ [c]"]) (auto simp: all_digits_def)
  next
    case False
    then show ?thesis using r assms(2) unfolding kept_def
      by (intro exI [of _ sign] exI [of _ "a @ [c]"] exI [of _ "[]"]) (auto simp: all_digits_def)
  qed
qed

lemma kept_point: assumes "kept r False" shows "kept (r @ [CHR ''.'']) True"
proof -
  obtain sign a where "r = sign @ a" "sign \<in> {[], ''+'', ''-''}" "all_digits a" using assms by (auto simp: kept_def)
  then show ?thesis unfolding kept_def
    by (intro exI [of _ sign] exI [of _ a] exI [of _ "''.''"]) (auto simp: all_digits_def)
qed

lemma kept_sign: "c = CHR ''+'' \<or> c = CHR ''-'' \<Longrightarrow> kept [c] False"
  unfolding kept_def by (intro exI [of _ "[c]"] exI [of _ "[]"]) (auto simp: all_digits_def)

lemma kept_decimal: "kept r p \<Longrightarrow> decimal_text r"
  unfolding kept_def decimal_text_def by (auto split: if_splits)

lemma kept_Nil: "\<not> kept [] True" "kept [] False"
  by (auto simp: kept_def all_digits_def)

lemma kept_start: "kept [] p \<Longrightarrow> c = CHR ''+'' \<or> c = CHR ''-'' \<Longrightarrow> kept [c] p"
  using kept_Nil(1) kept_sign by (cases p) auto

lemma sanitize_kept: "kept r p \<Longrightarrow> decimal_text (sanitize_from r p v)"
proof (induction r p v rule: sanitize_from.induct)
  case (2 r p c cs)
  then show ?case using kept_start [of p c] kept_point [of r] kept_digit [of r p c] by (cases "r = []") auto
qed (simp add: kept_decimal)

lemma sanitized_decimal: "decimal_text (sanitizeNumericInput v)"
  unfolding sanitizeNumericInput_def using kept_Nil(2) by (rule sanitize_kept)

text \<open>A text of that form is kept as it is.\<close>

lemma not_sign: "is_digit c \<Longrightarrow> c \<noteq> CHR ''+'' \<and> c \<noteq> CHR ''-'' \<and> c \<noteq> CHR ''.''"
  by (auto simp: is_digit_def)

lemma sanitize_digits: "all_digits a \<Longrightarrow> sanitize_from r p (a @ v) = sanitize_from (r @ a) p v"
  by (induction a arbitrary: r) (auto simp: all_digits_def not_sign)

lemma sanitize_plain: assumes "decimal_text v" shows "sanitizeNumericInput v = v"
proof -
  obtain sign a b where v: "v = sign @ a @ b" "sign \<in> {[], ''+'', ''-''}" "all_digits a"
    "b = [] \<or> (\<exists>d. b = CHR ''.'' # d \<and> all_digits d)" using assms by (auto simp: decimal_text_def)
  have b: "sanitize_from r False b = r @ b" for r
    using v(4) sanitize_digits [of _ "r @ ''.''" True "[]"] by auto
  have "sanitize_from [] False v = sanitize_from sign False (a @ b)" using v(1,2) by auto
  then show ?thesis using sanitize_digits [OF v(3)] b v(1) by (simp add: sanitizeNumericInput_def)
qed

lemma sanitize_idem: "sanitizeNumericInput (sanitizeNumericInput v) = sanitizeNumericInput v"
  by (rule sanitize_plain [OF sanitized_decimal])

section \<open>Nothing is left to save\<close>

lemma sw_ids: "map sw_id (symbolsWithMarkup profile s) = (case me_symbols s of Some is' \<Rightarrow> map si_id is' | None \<Rightarrow> [])"
  by (auto simp: symbolsWithMarkup_def split: option.split)


lemma find_key: "distinct (map f xs) \<Longrightarrow> x \<in> set xs \<Longrightarrow> find (\<lambda>y. f y = f x) xs = Some x"
  by (induction xs) (auto simp: rev_image_eqI)

lemma to_save_iff:
  assumes "distinct (map sw_id (symbolsWithMarkup profile s))"
  shows "(i, m) \<in> set (to_save profile s) \<longleftrightarrow>
    (\<exists>w \<in> set (symbolsWithMarkup profile s). sw_id w = i \<and> shown_markup s w = m \<and> m \<noteq> sw_markup w)"
  using find_key [OF assms] by (auto simp: to_save_def Let_def split: option.splits)


lemma fill_keeps: "map_has m i \<Longrightarrow> map_get (foldl (\<lambda>m w. if map_has m (f w) then m else map_set (f w) (g w) m) m ws) i = map_get m i"
  by (induction ws arbitrary: m) (auto simp: map_get_set)

lemma fill_has: "map_has (foldl (\<lambda>m w. if map_has m (f w) then m else map_set (f w) (g w) m) m ws) i \<longleftrightarrow> map_has m i \<or> i \<in> f ` set ws"
  by (induction ws arbitrary: m) auto

lemma fill_get:
  assumes "distinct (map f ws)" "w \<in> set ws" "\<not> map_has m (f w)"
  shows "map_get (foldl (\<lambda>m w. if map_has m (f w) then m else map_set (f w) (g w) m) m ws) (f w) = Some (g w)"
  using assms
proof (induction ws arbitrary: m)
  case (Cons v ws)
  show ?case
  proof (cases "v = w")
    case True
    then show ?thesis using Cons.prems by (simp add: fill_keeps map_get_set)
  next
    case False
    then have "f v \<noteq> f w" "w \<in> set ws" using Cons.prems by auto
    then show ?thesis using Cons by (cases "map_has m (f v)") simp_all
  qed
qed simp



section \<open>Which query answers first\<close>

text \<open>When the stored markups are known before the symbols are listed, a save without any change sends nothing.\<close>

lemma untouched_not_sent:
  assumes "me_local s = []" "me_overrides s = Some os" "distinct (map si_id is')"
  shows "to_save profile (symbols_loaded profile is' s) = []"
proof -
  let ?t = "symbols_loaded profile is' s"
  have ws: "symbolsWithMarkup profile ?t = symbolsWithMarkup profile (s\<lparr>me_symbols := Some is'\<rparr>)"
    by (simp add: symbols_loaded_def fill_local_def symbolsWithMarkup_def overrideMap_def)
  have d: "distinct (map sw_id (symbolsWithMarkup profile ?t))" using assms(3) by (simp add: ws sw_ids)
  have loc: "me_local ?t = foldl (\<lambda>m w. if map_has m (sw_id w) then m else map_set (sw_id w) (sw_markup w) m) [] (symbolsWithMarkup profile ?t)"
    unfolding ws by (simp add: symbols_loaded_def fill_local_def assms(1))
  have "shown_markup ?t w = sw_markup w" if "w \<in> set (symbolsWithMarkup profile ?t)" for w
    using fill_get [OF d that, of "[]" sw_markup] by (simp add: shown_markup_def loc map_has_def)
  then have "(i, m) \<notin> set (to_save profile ?t)" for i m using to_save_iff [OF d, of i m] by auto
  then show ?thesis by (cases "to_save profile ?t") auto
qed

text \<open>
  When the symbols are listed first, their local markups are those of the profile and stay so when the stored ones
  arrive: the save then replaces every markup of a symbol by the profile's.
\<close>

definition gold :: SymbolItem where
  "gold = \<lparr>si_id = ''g'', si_code = ''XAUUSD'', si_base = None, si_quote = None\<rparr>"

definition late_overrides :: markup_editor where
  "late_overrides = fold (markup_do (''1'', ''1'')) [MeSymbols [gold], MeOverrides [(''g'', (''5'', ''5''))]] markup_init"

lemma late_overrides_lost:
  "to_save (''1'', ''1'') late_overrides = [(''g'', (''1'', ''1''))]"
  by (simp add: late_overrides_def symbols_loaded_def overrides_loaded_def fill_local_def markup_init_def to_save_def symbolsWithMarkup_def
      overrideMap_def shown_markup_def gold_def map_get_def map_has_def)

text \<open>After a refused request the button is free again, while the other requests of that save are still under way.\<close>

lemma refused_frees_button: "\<not> me_saving (save_settled i False s)"
  by (simp add: save_settled_def Let_def)

section \<open>Batches\<close>

lemma concat_batches: "0 < n \<Longrightarrow> concat (transfer_batches n xs) = xs"
  by (induction n xs rule: transfer_batches.induct) (subst transfer_batches.simps, auto)

lemma batch_size: "b \<in> set (transfer_batches n xs) \<Longrightarrow> b \<noteq> [] \<and> length b \<le> n"
proof (induction n xs rule: transfer_batches.induct)
  case (1 n xs)
  then show ?case by (subst (asm) (2) transfer_batches.simps) (auto split: if_splits)
qed

lemma batch_count: "0 < n \<Longrightarrow> length (transfer_batches n xs) = (length xs + n - 1) div n"
proof (induction n xs rule: transfer_batches.induct)
  case (1 n xs)
  show ?case
  proof (cases "xs = []")
    case False
    then have "length (transfer_batches n xs) = Suc (length (transfer_batches n (drop n xs)))" using 1(2) by (subst transfer_batches.simps) simp
    also have "\<dots> = Suc ((length xs - n + n - 1) div n)" using 1 False by simp
    also have "\<dots> = (length xs + n - 1) div n"
    proof (cases "length xs \<le> n")
      case True
      have "(length xs + n - 1) div n = 1"
        using False True 1(2) by (intro div_nat_eqI) (cases "length xs", auto)
      then show ?thesis using True 1(2) by simp
    next
      case False
      then have "(length xs + n - 1) div n = (length xs - 1 + n) div n" using 1(2) by (intro arg_cong [where f = "\<lambda>x. x div n"]) linarith
      also have "\<dots> = Suc ((length xs - 1) div n)" using 1(2) by simp
      finally show ?thesis using False by simp
    qed
    finally show ?thesis .
  qed (use 1 in \<open>simp add: transfer_batches.simps\<close>)
qed

lemma all_transferred: "transfer_result outcomes = TransferDone k \<Longrightarrow> list_all id outcomes \<and> k = length outcomes"
  by (auto simp: transfer_result_def Let_def list_all_iff filter_empty_conv split: if_splits)

section \<open>A concrete editor\<close>



end
