(* ===== verification/Lead_Files.thy ===== *)
theory Lead_Files
  imports Js_Text
begin

text \<open>
  Leads in files: the export of \<open>AdminLeadsPage.tsx\<close>, which quotes cells as RFC 4180 asks, and the import of
  \<open>ImportLeadsModal.tsx\<close>, which splits at every line end and comma. \<open>csv_read\<close> is the reference: a reader of the
  format of the RFC.
\<close>

section \<open>Leads\<close>

record Lead =
  ld_id :: string
  ld_name :: string
  ld_email :: string
  ld_phone :: "string option"
  ld_company :: "string option"
  ld_source :: string
  ld_campaign :: "string option"
  ld_status :: string
  ld_ownerId :: "string option"
  ld_ownerName :: "string option"
  ld_createdByUserId :: "string option"
  ld_createdByEmail :: "string option"
  ld_score :: "jsnum option"
  ld_createdAt :: string
  ld_updatedAt :: string
  ld_lastActivityAt :: "string option"
  ld_convertedUserId :: "string option"
  ld_convertedAt :: "string option"

definition LEAD_SOURCE_LABELS :: "(string \<times> string) list" where
  "LEAD_SOURCE_LABELS = [(''website'', ''Website''), (''landing_page'', ''Landing page''), (''demo_request'', ''Demo request''),
     (''chat'', ''Chat''), (''google_ad'', ''Google ad''), (''meta_ad'', ''Meta ad''), (''referral'', ''Referral''),
     (''event'', ''Event''), (''other'', ''Other'')]"

definition VALID_SOURCES :: "string list" where
  "VALID_SOURCES = map fst LEAD_SOURCE_LABELS"

section \<open>Export\<close>

abbreviation "quote_mark \<equiv> CHR 34"
abbreviation "comma \<equiv> CHR '',''"
abbreviation "CRLF \<equiv> [CHR 13, CHR 10]"

definition csv_special :: "char \<Rightarrow> bool" where
  "csv_special c \<longleftrightarrow> c = quote_mark \<or> c = comma \<or> c = CHR 10 \<or> c = CHR 13"

definition double_quotes :: "string \<Rightarrow> string" where
  "double_quotes value = concat (map (\<lambda>c. if c = quote_mark then [quote_mark, quote_mark] else [c]) value)"

definition escapeCsvCell :: "string \<Rightarrow> string" where
  "escapeCsvCell value = (if list_ex csv_special value then [quote_mark] @ double_quotes value @ [quote_mark] else value)"

definition csv_headers :: "string list" where
  "csv_headers = [''ID'', ''Name'', ''Email'', ''Phone'', ''Company'', ''Source'', ''Status'', ''Owner'', ''Score'', ''Created'', ''Last activity'']"

definition or_blank :: "string option \<Rightarrow> string" where
  "or_blank v = (case v of Some s \<Rightarrow> s | None \<Rightarrow> [])"

definition lead_cells :: "Lead \<Rightarrow> string list" where
  "lead_cells l =
     [ld_id l, ld_name l, ld_email l, or_blank (ld_phone l), or_blank (ld_company l), ld_source l, ld_status l, or_blank (ld_ownerName l),
      case ld_score l of Some n \<Rightarrow> toString n | None \<Rightarrow> [], ld_createdAt l, or_blank (ld_lastActivityAt l)]"

definition csv_line :: "string list \<Rightarrow> string" where
  "csv_line cells = join_with [comma] (map escapeCsvCell cells)"

definition leads_csv :: "Lead list \<Rightarrow> string" where
  "leads_csv leads = join_with CRLF (csv_line csv_headers # map (\<lambda>l. csv_line (lead_cells l)) leads)"

section \<open>Import\<close>

text \<open>\<open>split(/\r?\n/)\<close>\<close>

definition strip_cr :: "string \<Rightarrow> string" where
  "strip_cr l = (if l \<noteq> [] \<and> last l = CHR 13 then butlast l else l)"

definition split_lines :: "string \<Rightarrow> string list" where
  "split_lines s = (let ls = split_char (CHR 10) s in map strip_cr (butlast ls) @ [last ls])"

text \<open>\<open>replace(/\s+/g, '_')\<close>; the flag says that the last character was a space.\<close>

fun underscores :: "bool \<Rightarrow> string \<Rightarrow> string" where
  "underscores b [] = []"
| "underscores b (c # cs) =
     (if is_space c then (if b then underscores True cs else CHR ''_'' # underscores True cs) else c # underscores False cs)"

definition csv_header :: "string \<Rightarrow> string" where
  "csv_header h = underscores False (toLowerCase (trim h))"

definition a_quote :: "char \<Rightarrow> bool" where
  "a_quote c \<longleftrightarrow> c = quote_mark \<or> c = CHR 39"

definition csv_value :: "string \<Rightarrow> string" where
  "csv_value v =
     (let t = trim v; a = (if t \<noteq> [] \<and> a_quote (hd t) then tl t else t) in
      if a \<noteq> [] \<and> a_quote (last a) then butlast a else a)"

definition csv_record :: "string list \<Rightarrow> string list \<Rightarrow> (string, string) jsmap" where
  "csv_record header values =
     foldl (\<lambda>row x. map_set (fst x) (if snd x < length values then values ! snd x else []) row) [] (zip header [0..<length header])"

definition parseCSV :: "string \<Rightarrow> (string, string) jsmap list" where
  "parseCSV t =
     (let lines = split_lines (trim t) in
      if length lines < 2 then []
      else let header = map csv_header (split_char comma (hd lines)) in
        map (\<lambda>l. csv_record header (map csv_value (split_char comma l))) (tl lines))"

definition normalizeSource :: "string \<Rightarrow> string" where
  "normalizeSource value =
     (let v = underscores False (toLowerCase (trim value)) in
      if v \<in> set VALID_SOURCES then v
      else case find (\<lambda>e. toLowerCase (snd e) = toLowerCase (trim value)) LEAD_SOURCE_LABELS of
        Some e \<Rightarrow> fst e | None \<Rightarrow> ''other'')"

record ImportRow =
  ir_name :: string
  ir_email :: string
  ir_phone :: "string option"
  ir_company :: "string option"
  ir_source :: string
  ir_campaign :: "string option"
  ir_notes :: "string option"

definition first_of :: "(string, string) jsmap \<Rightarrow> string list \<Rightarrow> string \<Rightarrow> string" where
  "first_of row ks d = (case find (map_has row) ks of Some k \<Rightarrow> the (map_get row k) | None \<Rightarrow> d)"

definition or_undefined :: "string \<Rightarrow> string option" where
  "or_undefined s = (if s = [] then None else Some s)"

definition mapRowToPayload :: "(string, string) jsmap \<Rightarrow> ImportRow option" where
  "mapRowToPayload row =
     (let name = trim (first_of row [''name'', ''full_name''] []); email = trim (first_of row [''email''] []);
          opt = (\<lambda>k. or_undefined (trim (first_of row [k] []))) in
      if email = [] then None
      else Some \<lparr>ir_name = (if name = [] then email else name), ir_email = email, ir_phone = opt ''phone'', ir_company = opt ''company'',
        ir_source = normalizeSource (first_of row [''source'', ''lead_source''] ''other''), ir_campaign = opt ''campaign'', ir_notes = opt ''notes''\<rparr>)"

definition file_rows :: "string \<Rightarrow> ImportRow list" where
  "file_rows t = List.map_filter mapRowToPayload (parseCSV t)"

section \<open>Sending the rows\<close>

datatype import_toast = NeedFile | Imported nat nat | AllFailed nat | NothingValid

record lead_import =
  im_rows :: "ImportRow list"
  im_submitting :: bool
  im_left :: "ImportRow list"
  im_sent :: "ImportRow list"
  im_imported :: nat
  im_failed :: nat
  im_open :: bool
  im_toasts :: "import_toast list"

definition import_init :: lead_import where
  "import_init = \<lparr>im_rows = [], im_submitting = False, im_left = [], im_sent = [], im_imported = 0, im_failed = 0, im_open = True, im_toasts = []\<rparr>"

text \<open>A file is read; \<open>None\<close>: the choice was taken back.\<close>

definition handleFileChange :: "string option \<Rightarrow> lead_import \<Rightarrow> lead_import" where
  "handleFileChange f s = s\<lparr>im_rows := (case f of Some t \<Rightarrow> file_rows t | None \<Rightarrow> [])\<rparr>"

definition import_report :: "nat \<Rightarrow> nat \<Rightarrow> import_toast" where
  "import_report imported failed = (if 0 < imported then Imported imported failed else if 0 < failed then AllFailed failed else NothingValid)"

text \<open>The rows are sent one after the other: the next round of the loop, or its end.\<close>

definition import_round :: "lead_import \<Rightarrow> lead_import" where
  "import_round s =
     (case im_left s of
        r # rs \<Rightarrow> s\<lparr>im_left := rs, im_sent := im_sent s @ [r]\<rparr>
      | [] \<Rightarrow> s\<lparr>im_submitting := False, im_open := False, im_toasts := im_toasts s @ [import_report (im_imported s) (im_failed s)]\<rparr>)"

definition handleImport :: "lead_import \<Rightarrow> lead_import" where
  "handleImport s =
     (if im_rows s = [] then s\<lparr>im_toasts := im_toasts s @ [NeedFile]\<rparr>
      else import_round (s\<lparr>im_submitting := True, im_imported := 0, im_failed := 0, im_left := im_rows s\<rparr>))"

definition row_answered :: "bool \<Rightarrow> lead_import \<Rightarrow> lead_import" where
  "row_answered created s =
     import_round (if created then s\<lparr>im_imported := im_imported s + 1\<rparr> else s\<lparr>im_failed := im_failed s + 1\<rparr>)"

section \<open>The reference reader\<close>

datatype csv_mode = Bare | Quoted | Closed

fun line_end :: "char \<Rightarrow> string \<Rightarrow> bool" where
  "line_end c cs = (c = CHR 13 \<and> take 1 cs = [CHR 10])"

function csv_from :: "csv_mode \<Rightarrow> string \<Rightarrow> string list \<Rightarrow> string \<Rightarrow> string list list" where
  "csv_from m f r [] = [r @ [f]]"
| "csv_from Quoted f r (c # cs) = (if c = quote_mark then csv_from Closed f r cs else csv_from Quoted (f @ [c]) r cs)"
| "csv_from Bare f r (c # cs) =
     (if c = quote_mark \<and> f = [] then csv_from Quoted [] r cs
      else if c = comma then csv_from Bare [] (r @ [f]) cs
      else if line_end c cs then (r @ [f]) # csv_from Bare [] [] (tl cs) else csv_from Bare (f @ [c]) r cs)"
| "csv_from Closed f r (c # cs) =
     (if c = quote_mark then csv_from Quoted (f @ [c]) r cs
      else if c = comma then csv_from Bare [] (r @ [f]) cs
      else if line_end c cs then (r @ [f]) # csv_from Bare [] [] (tl cs) else csv_from Bare (f @ [c]) r cs)"
  by pat_completeness auto

termination by (relation "measure (\<lambda>(m, f, r, s). length s)") auto

definition csv_read :: "string \<Rightarrow> string list list" where
  "csv_read t = csv_from Bare [] [] t"

declare line_end.simps [simp del]

section \<open>The export reads back\<close>

definition cell_end :: "string \<Rightarrow> bool" where
  "cell_end t \<longleftrightarrow> t = [] \<or> hd t = comma \<or> line_end (hd t) (tl t)"

lemma cell_ends [simp]: "cell_end []" "cell_end (comma # t)" "cell_end (CHR 13 # CHR 10 # t)"
  by (simp_all add: cell_end_def line_end.simps)

lemma read_plain: "\<not> list_ex csv_special v \<Longrightarrow> csv_from Bare f r (v @ t) = csv_from Bare (f @ v) r t"
  by (induction v arbitrary: f) (auto simp: csv_special_def line_end.simps)

lemma read_doubled: "csv_from Quoted f r (double_quotes v @ t) = csv_from Quoted (f @ v) r t"
  by (induction v arbitrary: f) (auto simp: double_quotes_def)

lemma read_cell: "cell_end t \<Longrightarrow> csv_from Bare [] r (escapeCsvCell v @ t) = csv_from Closed v r t"
proof -
  assume t: "cell_end t"
  have "csv_from Bare v r t = csv_from Closed v r t" using t by (cases t) (auto simp: cell_end_def line_end.simps)
  then show ?thesis using read_plain [of v "[]" r t] read_doubled [of "[]" r v "quote_mark # t"] by (simp add: escapeCsvCell_def)
qed

lemma join_with_Cons: "ws \<noteq> [] \<Longrightarrow> join_with sep (w # ws) = w @ sep @ join_with sep ws"
  by (cases ws) auto

lemma read_line:
  assumes "ws \<noteq> []" "t = [] \<or> take 2 t = CRLF"
  shows "csv_from Bare [] r (csv_line ws @ t) = (r @ ws) # (if t = [] then [] else csv_from Bare [] [] (drop 2 t))"
  using assms(1)
proof (induction ws arbitrary: r)
  case (Cons w ws)
  have t: "cell_end t" using assms(2) by (cases t; cases "tl t") (auto simp: cell_end_def line_end.simps)
  show ?case
  proof (cases "ws = []")
    case True
    then show ?thesis using read_cell [OF t, of r w] assms(2)
      by (cases t; cases "tl t") (auto simp: csv_line_def line_end.simps)
  next
    case False
    then show ?thesis using Cons.IH [of "r @ [w]"] read_cell [of "comma # csv_line ws @ t" r w]
      by (simp add: csv_line_def join_with_Cons)
  qed
qed simp

lemma read_lines: "rows \<noteq> [] \<Longrightarrow> [] \<notin> set rows \<Longrightarrow> csv_from Bare [] [] (join_with CRLF (map csv_line rows)) = rows"
proof (induction rows)
  case (Cons ws rows)
  then have "ws \<noteq> []" by auto
  then show ?case
    using Cons read_line [of ws "[]" "[]"] read_line [of ws "CRLF @ join_with CRLF (map csv_line rows)" "[]"]
    by (cases "rows = []") (simp_all add: join_with_Cons)
qed simp

text \<open>C34. A reader of the format finds in the exported file the headers and the cells of every lead, whatever characters they hold.\<close>

theorem export_reads_back: "csv_read (leads_csv leads) = csv_headers # map lead_cells leads"
proof -
  have "leads_csv leads = join_with CRLF (map csv_line (csv_headers # map lead_cells leads))" by (simp add: leads_csv_def comp_def)
  then show ?thesis unfolding csv_read_def by (simp only:) (rule read_lines, auto simp: csv_headers_def lead_cells_def)
qed

section \<open>What was exported is imported\<close>

definition plain_cell :: "string \<Rightarrow> bool" where
  "plain_cell v \<longleftrightarrow> \<not> list_ex csv_special v \<and> trim v = v \<and> \<not> a_quote (hd (v @ ''x'')) \<and> \<not> a_quote (last (''x'' @ v))"

lemma plain_value: "plain_cell v \<Longrightarrow> csv_value v = v \<and> escapeCsvCell v = v"
  by (cases v) (auto simp: plain_cell_def csv_value_def escapeCsvCell_def Let_def split: if_splits)

lemma trim_edges:
  assumes "s \<noteq> []" "\<not> is_space (hd s)" "\<not> is_space (last s)" shows "trim s = s"
proof -
  have "dropWhile is_space s = s" using assms by (cases s) auto
  moreover have "dropWhile is_space (rev s) = rev s" using assms by (cases s rule: rev_cases) auto
  ultimately show ?thesis by (simp add: trim_def)
qed

lemma trimmed_last: assumes "trim s = s" "s \<noteq> []" shows "\<not> is_space (last s)"
proof -
  have "rev s = dropWhile is_space (rev (dropWhile is_space s))" using arg_cong [OF assms(1), of rev] by (simp add: trim_def)
  then show ?thesis using assms(2) hd_dropWhile [of is_space "rev (dropWhile is_space s)"] by (metis hd_rev rev_is_Nil_conv)
qed

lemma split_joined: "ws \<noteq> [] \<Longrightarrow> \<forall>w \<in> set ws. c \<notin> set w \<Longrightarrow> split_char c (join_with [c] ws) = ws"
proof (induction ws)
  case (Cons w ws)
  then show ?case by (cases "ws = []") (simp_all add: split_char_none split_char_append join_with_Cons)
qed simp

lemma split_char_not_Nil: "split_char c s \<noteq> []"
  by (cases s) (auto split: list.splits)

lemma split_lines_Cons: "CHR 10 \<notin> set l \<Longrightarrow> split_lines (l @ CRLF @ t) = l # split_lines t"
  using split_char_append [of "CHR 10" "l @ [CHR 13]" t] split_char_not_Nil [of "CHR 10" t]
  by (simp add: split_lines_def Let_def strip_cr_def)

lemma split_lines_joined: "ls \<noteq> [] \<Longrightarrow> \<forall>l \<in> set ls. CHR 10 \<notin> set l \<Longrightarrow> split_lines (join_with CRLF ls) = ls"
proof (induction ls)
  case (Cons l ls)
  then show ?case
    using split_lines_Cons [of l "join_with CRLF ls"]
    by (cases "ls = []") (simp_all add: join_with_Cons, simp add: split_lines_def split_char_none)
qed simp

lemma set_joined: "set (join_with sep ws) \<subseteq> set sep \<union> \<Union> (set ` set ws)"
  by (induction sep ws rule: join_with.induct) auto

lemma plain_line:
  assumes "list_all plain_cell cells" "cells \<noteq> []"
  shows "csv_line cells = join_with [comma] cells" "split_char comma (csv_line cells) = cells" "CHR 10 \<notin> set (csv_line cells)"
    "map csv_value (split_char comma (csv_line cells)) = cells"
proof -
  have *: "map escapeCsvCell cells = cells" "map csv_value cells = cells" using assms(1) plain_value by (auto simp: list_all_iff intro: map_idI)
  then show l: "csv_line cells = join_with [comma] cells" by (simp add: csv_line_def)
  have no: "\<forall>w \<in> set cells. comma \<notin> set w \<and> CHR 10 \<notin> set w"
    using assms(1) by (auto simp: list_all_iff plain_cell_def csv_special_def list_ex_iff)
  then show s: "split_char comma (csv_line cells) = cells" using split_joined [OF assms(2)] l by simp
  show "CHR 10 \<notin> set (csv_line cells)" using no set_joined [of "[comma]" cells] l by auto
  show "map csv_value (split_char comma (csv_line cells)) = cells" by (simp only: s *)
qed

lemma last_joined: "ws \<noteq> [] \<Longrightarrow> sep \<noteq> [] \<Longrightarrow> length ws \<ge> 2 \<Longrightarrow>
    last (join_with sep ws) = (if last ws = [] then last sep else last (last ws)) \<and> join_with sep ws \<noteq> []"
proof (induction sep ws rule: join_with.induct)
  case (3 sep w v ws)
  then show ?case by (cases ws) auto
qed simp_all

lemma import_header:
  "map csv_header csv_headers =
    [''id'', ''name'', ''email'', ''phone'', ''company'', ''source'', ''status'', ''owner'', ''score'', ''created'', ''last_activity'']"
  by code_simp

lemma import_columns:
  assumes "length cells = 11"
  shows "csv_record (map csv_header csv_headers) cells =
    zip [''id'', ''name'', ''email'', ''phone'', ''company'', ''source'', ''status'', ''owner'', ''score'', ''created'', ''last_activity''] cells"
proof -
  obtain a b c d e f g h i j k where "cells = [a, b, c, d, e, f, g, h, i, j, k]"
    using assms by (auto simp: numeral_eq_Suc length_Suc_conv)
  then show ?thesis unfolding import_header by (simp add: csv_record_def upt_rec)
qed

lemma valid_source: "v \<in> set VALID_SOURCES \<Longrightarrow> normalizeSource v = v"
proof -
  have "list_all (\<lambda>v. normalizeSource v = v) VALID_SOURCES" by code_simp
  then show "v \<in> set VALID_SOURCES \<Longrightarrow> normalizeSource v = v" by (simp add: list_all_iff)
qed

text \<open>A lead whose texts survive the import.\<close>

definition simple_lead :: "Lead \<Rightarrow> bool" where
  "simple_lead l \<longleftrightarrow> list_all plain_cell (lead_cells l) \<and> ld_email l \<noteq> [] \<and> ld_source l \<in> set VALID_SOURCES"

definition imported_lead :: "Lead \<Rightarrow> ImportRow" where
  "imported_lead l =
     \<lparr>ir_name = (if ld_name l = [] then ld_email l else ld_name l), ir_email = ld_email l, ir_phone = or_undefined (or_blank (ld_phone l)),
      ir_company = or_undefined (or_blank (ld_company l)), ir_source = ld_source l, ir_campaign = None, ir_notes = None\<rparr>"

lemma map_simple_lead:
  assumes "simple_lead l"
  shows "mapRowToPayload (csv_record (map csv_header csv_headers) (lead_cells l)) = Some (imported_lead l)"
proof -
  have t: "trim (ld_name l) = ld_name l" "trim (ld_email l) = ld_email l" "trim (or_blank (ld_phone l)) = or_blank (ld_phone l)"
    "trim (or_blank (ld_company l)) = or_blank (ld_company l)" using assms by (auto simp: simple_lead_def lead_cells_def plain_cell_def)
  have c: "csv_record (map csv_header csv_headers) (lead_cells l) =
    zip [''id'', ''name'', ''email'', ''phone'', ''company'', ''source'', ''status'', ''owner'', ''score'', ''created'', ''last_activity''] (lead_cells l)"
    by (rule import_columns) (simp add: lead_cells_def)
  show ?thesis unfolding c using assms t
    by (simp add: mapRowToPayload_def first_of_def lead_cells_def map_has_def map_get_def simple_lead_def imported_lead_def valid_source or_undefined_def Let_def)
qed

lemma trim_csv:
  assumes "\<forall>l \<in> set leads. simple_lead l" shows "trim (leads_csv leads) = leads_csv leads"
proof -
  let ?lines = "csv_line csv_headers # map (\<lambda>l. csv_line (lead_cells l)) leads"
  have h: "csv_line csv_headers = ''ID,Name,Email,Phone,Company,Source,Status,Owner,Score,Created,Last activity''" by code_simp
  have last: "\<not> is_space (last (csv_line (lead_cells l))) \<and> csv_line (lead_cells l) \<noteq> []" if "simple_lead l" for l
  proof -
    have p: "list_all plain_cell (lead_cells l)" "lead_cells l \<noteq> []" using that by (auto simp: simple_lead_def lead_cells_def)
    have "last (csv_line (lead_cells l)) = (if last (lead_cells l) = [] then comma else last (last (lead_cells l))) \<and> csv_line (lead_cells l) \<noteq> []"
      using last_joined [of "lead_cells l" "[comma]"] plain_line(1) [OF p] by (simp add: lead_cells_def)
    moreover have "plain_cell (last (lead_cells l))" using p by (simp add: list_all_iff)
    ultimately show ?thesis using trimmed_last [of "last (lead_cells l)"] by (auto simp: plain_cell_def is_space_def)
  qed
  have "\<not> is_space (last (leads_csv leads)) \<and> leads_csv leads \<noteq> []"
  proof (cases leads rule: rev_cases)
    case Nil
    then show ?thesis by (simp add: leads_csv_def h is_space_def)
  next
    case (snoc ls l)
    then show ?thesis using last [of l] assms last_joined [of ?lines CRLF] by (simp add: leads_csv_def del: foldl_append)
  qed
  moreover have "hd (leads_csv leads) = CHR ''I''" by (cases leads) (simp_all add: leads_csv_def h)
  ultimately show ?thesis by (intro trim_edges) (auto simp: is_space_def)
qed

text \<open>When the cells of the exported leads have no comma, quote, line end or outer space, the import of the file gives every lead with an
  e-mail address back: its name, address, phone, company and source.\<close>

theorem exported_leads_import:
  assumes "\<forall>l \<in> set leads. simple_lead l" shows "file_rows (leads_csv leads) = map imported_lead leads"
proof -
  let ?lines = "csv_line csv_headers # map (\<lambda>l. csv_line (lead_cells l)) leads"
  have hp: "list_all plain_cell csv_headers" by code_simp
  have lp: "list_all plain_cell (lead_cells l) \<and> lead_cells l \<noteq> []" if "l \<in> set leads" for l
    using that assms by (auto simp: simple_lead_def lead_cells_def)
  have "\<forall>x \<in> set ?lines. CHR 10 \<notin> set x" using plain_line(3) [OF hp] plain_line(3) lp by (auto simp: csv_headers_def)
  then have "split_lines (leads_csv leads) = ?lines" unfolding leads_csv_def by (intro split_lines_joined) auto
  then have "parseCSV (leads_csv leads) = map (\<lambda>l. csv_record (map csv_header csv_headers) (lead_cells l)) leads"
    using plain_line(2) [OF hp] plain_line(4) lp trim_csv [OF assms] by (auto simp: parseCSV_def Let_def csv_headers_def)
  then show ?thesis using map_simple_lead assms by (simp add: file_rows_def map_filter_def comp_def)
qed

section \<open>What the import loses\<close>

definition ann :: Lead where
  "ann = \<lparr>ld_id = ''1'', ld_name = ''Ann'', ld_email = ''a@b.io'', ld_phone = None, ld_company = Some ''Acme'', ld_source = ''referral'',
     ld_campaign = None, ld_status = ''new'', ld_ownerId = None, ld_ownerName = None, ld_createdByUserId = None, ld_createdByEmail = None,
     ld_score = None, ld_createdAt = ''2026'', ld_updatedAt = ''2026'', ld_lastActivityAt = None, ld_convertedUserId = None, ld_convertedAt = None\<rparr>"

lemma exported_leads_import_witness: "file_rows (leads_csv [ann]) = [imported_lead ann]"
proof -
  have "\<forall>l \<in> set [ann]. simple_lead l" by code_simp
  then show ?thesis using exported_leads_import [of "[ann]"] by simp
qed

text \<open>A comma in the company moves the columns after it: the company is cut and the source is lost.\<close>

lemma comma_loses_source:
  "file_rows (leads_csv [ann\<lparr>ld_company := Some ''Acme, Inc''\<rparr>]) =
    [(imported_lead ann)\<lparr>ir_source := ''other''\<rparr>]"
  by code_simp

text \<open>A line end inside a quoted cell cuts the lead in two rows, and the second becomes a lead with the status as its address.\<close>

lemma line_end_cuts_row:
  "file_rows (leads_csv [ann\<lparr>ld_company := Some (''Acme'' @ [CHR 10] @ ''Inc'')\<rparr>]) =
    [(imported_lead ann)\<lparr>ir_source := ''other''\<rparr>,
     \<lparr>ir_name = ''referral'', ir_email = ''new'', ir_phone = None, ir_company = None, ir_source = ''other'', ir_campaign = None, ir_notes = None\<rparr>]"
  by code_simp

section \<open>Every row is sent once\<close>

datatype import_event = ChooseFile "string option" | PressImport | RowAnswered bool

fun import_do :: "import_event \<Rightarrow> lead_import \<Rightarrow> lead_import" where
  "import_do (ChooseFile f) s = handleFileChange f s"
| "import_do PressImport s = handleImport s"
| "import_do (RowAnswered ok) s = row_answered ok s"

lemma import_run:
  "im_submitting s \<Longrightarrow> im_open s \<Longrightarrow> length answers = Suc (length (im_left s)) \<Longrightarrow>
   let t = fold row_answered answers s in
     im_sent t = im_sent s @ im_left s \<and> \<not> im_submitting t \<and> \<not> im_open t \<and>
     im_toasts t = im_toasts s @ [import_report (im_imported s + length (filter id answers)) (im_failed s + length (filter Not answers))]"
proof (induction answers arbitrary: s)
  case (Cons a answers)
  show ?case
  proof (cases "im_left s")
    case Nil
    then show ?thesis using Cons.prems by (simp add: row_answered_def import_round_def Let_def)
  next
    case (Cons r rs)
    then show ?thesis using Cons.IH [of "row_answered a s"] Cons.prems \<open>im_left s = r # rs\<close>
      by (simp add: row_answered_def import_round_def Let_def)
  qed
qed simp

text \<open>An import sends each row of the file once and in order, and its report counts every answer.\<close>

lemma import_complete:
  assumes "im_rows s \<noteq> []" "im_open s" "length answers = length (im_rows s)"
  defines "t \<equiv> fold row_answered answers (handleImport s)"
  shows "im_sent t = im_sent s @ im_rows s \<and> \<not> im_submitting t \<and> \<not> im_open t \<and>
    im_toasts t = im_toasts s @ [import_report (length (filter id answers)) (length (filter Not answers))]"
proof -
  obtain r rs where r: "im_rows s = r # rs" using assms(1) by (cases "im_rows s") auto
  let ?u = "handleImport s"
  have u: "im_submitting ?u" "im_open ?u" "im_left ?u = rs" "im_sent ?u = im_sent s @ [r]" "im_imported ?u = 0" "im_failed ?u = 0"
    "im_toasts ?u = im_toasts s" using r assms(2) by (simp_all add: handleImport_def import_round_def)
  show ?thesis using import_run [of ?u answers] u r assms(3) by (simp add: t_def Let_def)
qed

end
