(* ===== verification/Leads.thy ===== *)
theory Leads
  imports Lead_Files Machine Durations "HOL-Library.Word"
begin

text \<open>
  The leads of the sales team: the requests of \<open>leads.api.ts\<close>, the pages of the list (\<open>AdminLeadsPage.tsx\<close>) and
  the modals that edit, assign and convert a lead. Of the server the update of a lead is translated
  (\<open>admin_leads.rs\<close>), because the modals rely on what it does with fields they leave out.
\<close>

section \<open>Requests\<close>

record ListLeadsParams =
  ll_page :: "jsnum option"
  ll_page_size :: "jsnum option"
  ll_search :: "string option"
  ll_status :: "string option"
  ll_source :: "string option"
  ll_owner_id :: "string option"
  ll_sort :: "string option"
  ll_order :: "string option"

definition text_param :: "string \<Rightarrow> string option \<Rightarrow> (string \<times> string) list" where
  "text_param k v = (case v of Some s \<Rightarrow> if s \<noteq> [] then [(k, s)] else [] | None \<Rightarrow> [])"

definition choice_param :: "string \<Rightarrow> string option \<Rightarrow> (string \<times> string) list" where
  "choice_param k v = (if v = Some ''all'' then [] else text_param k v)"

text \<open>The pairs of the query, in order.\<close>

definition leads_query :: "ListLeadsParams \<Rightarrow> (string \<times> string) list" where
  "leads_query p =
     [(''page'', toString (case ll_page p of Some x \<Rightarrow> x | None \<Rightarrow> Num 1)),
      (''page_size'', toString (case ll_page_size p of Some x \<Rightarrow> x | None \<Rightarrow> Num 20))] @
     text_param ''search'' (map_option trim (ll_search p)) @ choice_param ''status'' (ll_status p) @ choice_param ''source'' (ll_source p) @
     text_param ''owner_id'' (ll_owner_id p) @ text_param ''sort'' (ll_sort p) @ text_param ''order'' (ll_order p)"

record CreateLeadPayload =
  cl_name :: string
  cl_email :: string
  cl_phone :: "string option"
  cl_company :: "string option"
  cl_source :: string
  cl_campaign :: "string option"
  cl_status :: "string option"
  cl_ownerId :: "string option"
  cl_score :: "jsnum option"
  cl_notes :: "string option"

text \<open>\<open>JSON.stringify\<close> writes a number that is not finite as null.\<close>

definition json_num :: "jsnum \<Rightarrow> json" where
  "json_num x = (case x of Num q \<Rightarrow> JNum x | _ \<Rightarrow> JNull)"

definition or_null :: "string option \<Rightarrow> json" where
  "or_null v = (case v of Some s \<Rightarrow> JStr s | None \<Rightarrow> JNull)"

definition create_body :: "CreateLeadPayload \<Rightarrow> (string \<times> json) list" where
  "create_body p =
     [(''name'', JStr (cl_name p)), (''email'', JStr (cl_email p)), (''phone'', or_null (cl_phone p)), (''company'', or_null (cl_company p)),
      (''source'', JStr (cl_source p)), (''campaign'', or_null (cl_campaign p)), (''status'', or_null (cl_status p)),
      (''owner_id'', or_null (cl_ownerId p)), (''score'', case cl_score p of Some x \<Rightarrow> json_num x | None \<Rightarrow> JNull), (''notes'', or_null (cl_notes p))]"

record UpdateLeadPayload =
  up_name :: "string option"
  up_email :: "string option"
  up_phone :: "string option"
  up_company :: "string option"
  up_source :: "string option"
  up_campaign :: "string option"
  up_status :: "string option"
  up_ownerId :: "string option"
  up_ownerName :: "string option"
  up_score :: "jsnum option"

definition if_given :: "string \<Rightarrow> json option \<Rightarrow> (string \<times> json) list" where
  "if_given k v = (case v of Some j \<Rightarrow> [(k, j)] | None \<Rightarrow> [])"

definition update_body :: "UpdateLeadPayload \<Rightarrow> (string \<times> json) list" where
  "update_body p =
     if_given ''name'' (map_option JStr (up_name p)) @ if_given ''email'' (map_option JStr (up_email p)) @
     if_given ''phone'' (map_option JStr (up_phone p)) @ if_given ''company'' (map_option JStr (up_company p)) @
     if_given ''source'' (map_option JStr (up_source p)) @ if_given ''campaign'' (map_option JStr (up_campaign p)) @
     if_given ''status'' (map_option JStr (up_status p)) @ if_given ''owner_id'' (map_option JStr (up_ownerId p)) @
     if_given ''owner_name'' (map_option JStr (up_ownerName p)) @ if_given ''score'' (map_option json_num (up_score p))"

section \<open>The server's update\<close>

text \<open>
  A field that is missing or null is left as it is, except the owner, which is replaced when its identifier or its name is sent.
  The name of the owner is read from the users (\<open>mail\<close>). \<open>None\<close>: the update is refused.
\<close>

definition sent_text :: "(string \<times> json) list \<Rightarrow> string \<Rightarrow> string option" where
  "sent_text body k = (case map_of body k of Some (JStr s) \<Rightarrow> Some s | _ \<Rightarrow> None)"

definition sent_num :: "(string \<times> json) list \<Rightarrow> string \<Rightarrow> jsnum option" where
  "sent_num body k = (case map_of body k of Some (JNum x) \<Rightarrow> Some x | _ \<Rightarrow> None)"

definition VALID_STATUSES :: "string list" where
  "VALID_STATUSES = [''new'', ''contacted'', ''qualified'', ''proposal_sent'', ''negotiation'', ''converted'', ''lost'']"

fun int32 :: "jsnum \<Rightarrow> bool" where
  "int32 (Num q) = (q = of_int \<lfloor>q\<rfloor> \<and> -2147483648 \<le> q \<and> q \<le> 2147483647)"
| "int32 _ = False"

definition allowed :: "string list \<Rightarrow> string option \<Rightarrow> bool" where
  "allowed valid v = (case v of Some s \<Rightarrow> s \<in> set valid | None \<Rightarrow> True)"

definition update_lead :: "(string \<Rightarrow> string option) \<Rightarrow> (string \<times> json) list \<Rightarrow> Lead \<Rightarrow> Lead option" where
  "update_lead mail body l =
     (let new = (\<lambda>k old. case sent_text body k of Some s \<Rightarrow> s | None \<Rightarrow> old);
          opt = (\<lambda>k old. case sent_text body k of Some s \<Rightarrow> Some s | None \<Rightarrow> old);
          owner = (if sent_text body ''owner_id'' \<noteq> None \<or> sent_text body ''owner_name'' \<noteq> None then sent_text body ''owner_id'' else ld_ownerId l) in
      if (case sent_num body ''score'' of Some x \<Rightarrow> \<not> int32 x | None \<Rightarrow> False) then None
      else if \<not> allowed VALID_STATUSES (sent_text body ''status'') then None
      else if \<not> allowed VALID_SOURCES (sent_text body ''source'') then None
      else Some (l\<lparr>ld_name := new ''name'' (ld_name l), ld_email := new ''email'' (ld_email l), ld_phone := opt ''phone'' (ld_phone l),
        ld_company := opt ''company'' (ld_company l), ld_source := new ''source'' (ld_source l), ld_campaign := opt ''campaign'' (ld_campaign l),
        ld_status := new ''status'' (ld_status l), ld_ownerId := owner, ld_ownerName := Option.bind owner mail,
        ld_score := (case sent_num body ''score'' of Some x \<Rightarrow> Some x | None \<Rightarrow> ld_score l)\<rparr>))"

section \<open>Adding and editing a lead\<close>

text \<open>\<open>/^[^\s@]+@[^\s@]+\.[^\s@]+$/\<close>\<close>

definition email_shape :: "string \<Rightarrow> bool" where
  "email_shape s \<longleftrightarrow>
     \<not> list_ex is_space s \<and>
     (case split_char (CHR ''@'') s of
        [user, host] \<Rightarrow> user \<noteq> [] \<and> list_ex (\<lambda>i. host ! i = CHR ''.'') [1..<length host - 1]
      | _ \<Rightarrow> False)"

datatype 'a lead_submit = EmailRequired | EmailInvalid | Send 'a

definition checked_email :: "string \<Rightarrow> 'a \<Rightarrow> 'a lead_submit" where
  "checked_email email p = (if email = [] then EmailRequired else if \<not> email_shape email then EmailInvalid else Send p)"

record add_form =
  af_name :: string
  af_email :: string
  af_phone :: string
  af_company :: string
  af_source :: string
  af_campaign :: string
  af_notes :: string

definition add_lead :: "add_form \<Rightarrow> CreateLeadPayload lead_submit" where
  "add_lead f =
     checked_email (trim (af_email f))
       \<lparr>cl_name = (if trim (af_name f) = [] then em_dash else trim (af_name f)), cl_email = trim (af_email f),
        cl_phone = or_undefined (trim (af_phone f)), cl_company = or_undefined (trim (af_company f)), cl_source = af_source f,
        cl_campaign = or_undefined (trim (af_campaign f)), cl_status = Some ''new'', cl_ownerId = None, cl_score = None,
        cl_notes = or_undefined (trim (af_notes f))\<rparr>"

record edit_form =
  ef_name :: string
  ef_email :: string
  ef_phone :: string
  ef_company :: string
  ef_source :: string
  ef_campaign :: string
  ef_status :: string
  ef_score :: string

definition edit_of :: "Lead \<Rightarrow> edit_form" where
  "edit_of l =
     \<lparr>ef_name = ld_name l, ef_email = ld_email l, ef_phone = or_blank (ld_phone l), ef_company = or_blank (ld_company l), ef_source = ld_source l,
      ef_campaign = or_blank (ld_campaign l), ef_status = ld_status l, ef_score = (case ld_score l of Some n \<Rightarrow> toString n | None \<Rightarrow> [])\<rparr>"

text \<open>\<open>parseInt(s, 10)\<close>\<close>

definition parse_int :: "string \<Rightarrow> jsnum" where
  "parse_int s =
     (let (neg, u) = split_sign (dropWhile is_space s); d = takeWhile is_digit u in
      if d = [] then NaN else to_num ((if neg then -1 else 1) * of_nat (nat_of_digits d)))"

definition edit_lead :: "edit_form \<Rightarrow> UpdateLeadPayload lead_submit" where
  "edit_lead f =
     checked_email (trim (ef_email f))
       \<lparr>up_name = Some (if trim (ef_name f) = [] then em_dash else trim (ef_name f)), up_email = Some (trim (ef_email f)),
        up_phone = or_undefined (trim (ef_phone f)), up_company = or_undefined (trim (ef_company f)), up_source = Some (ef_source f),
        up_campaign = or_undefined (trim (ef_campaign f)), up_status = Some (ef_status f), up_ownerId = None, up_ownerName = None,
        up_score = (if trim (ef_score f) = [] then None else Some (parse_int (ef_score f)))\<rparr>"

record LeadOwner =
  lo_id :: string
  lo_name :: string
  lo_email :: string

definition assign_owner :: "LeadOwner list \<Rightarrow> string \<Rightarrow> UpdateLeadPayload" where
  "assign_owner owners ownerId =
     \<lparr>up_name = None, up_email = None, up_phone = None, up_company = None, up_source = None, up_campaign = None, up_status = None,
      up_ownerId = or_undefined ownerId, up_ownerName = map_option lo_name (find (\<lambda>o'. lo_id o' = ownerId) owners), up_score = None\<rparr>"

section \<open>What an edit stores\<close>

text \<open>The body as a map.\<close>

lemma if_given_last: "map_of (if_given k v) k' = (if k' = k then v else None)"
  by (auto simp: if_given_def split: option.splits)

lemma if_given_of: "map_of (if_given k v @ xs) k' = (if k' = k \<and> v \<noteq> None then v else map_of xs k')"
  by (auto simp: if_given_def split: option.splits)

lemma body_of:
  "map_of (update_body p) ''name'' = map_option JStr (up_name p)" "map_of (update_body p) ''email'' = map_option JStr (up_email p)"
  "map_of (update_body p) ''phone'' = map_option JStr (up_phone p)" "map_of (update_body p) ''company'' = map_option JStr (up_company p)"
  "map_of (update_body p) ''source'' = map_option JStr (up_source p)" "map_of (update_body p) ''campaign'' = map_option JStr (up_campaign p)"
  "map_of (update_body p) ''status'' = map_option JStr (up_status p)" "map_of (update_body p) ''owner_id'' = map_option JStr (up_ownerId p)"
  "map_of (update_body p) ''owner_name'' = map_option JStr (up_ownerName p)"
  unfolding update_body_def by (simp_all add: if_given_of if_given_last del: map_of_append)

lemma score_of: "map_of (update_body p) ''score'' = map_option json_num (up_score p)"
  unfolding update_body_def by (simp_all add: if_given_of if_given_last del: map_of_append)

lemma sent_option: "map_of body k = map_option JStr v \<Longrightarrow> sent_text body k = v"
  by (cases v) (simp_all add: sent_text_def)

lemmas sent_of = body_of [THEN sent_option]

lemma parse_digits: "parse_int (dec_digits n) = to_num (of_nat n)"
proof -
  have d: "dropWhile is_space (dec_digits n) = dec_digits n" using dec_digits_is_digit [of n] digit_not_space by (cases "dec_digits n") auto
  have "split_sign (dec_digits n) = (False, dec_digits n)"
    using dec_digits_is_digit [of n] by (cases "dec_digits n") (auto simp: split_sign_def is_digit_def)
  then show ?thesis by (simp add: parse_int_def d all_digits_whole(1) [OF all_digits_dec])
qed

definition trimmed_form :: "edit_form \<Rightarrow> edit_form" where
  "trimmed_form f =
     f\<lparr>ef_name := (if trim (ef_name f) = [] then em_dash else trim (ef_name f)), ef_email := trim (ef_email f), ef_phone := trim (ef_phone f),
       ef_company := trim (ef_company f), ef_campaign := trim (ef_campaign f)\<rparr>"

text \<open>A field that the lead has and the form leaves blank.\<close>

definition cleared :: "Lead \<Rightarrow> edit_form \<Rightarrow> bool" where
  "cleared l f \<longleftrightarrow>
     (trim (ef_phone f) = [] \<and> or_blank (ld_phone l) \<noteq> []) \<or> (trim (ef_company f) = [] \<and> or_blank (ld_company l) \<noteq> []) \<or>
     (trim (ef_campaign f) = [] \<and> or_blank (ld_campaign l) \<noteq> []) \<or> (trim (ef_score f) = [] \<and> ld_score l \<noteq> None)"

definition score_text :: "string \<Rightarrow> bool" where
  "score_text s \<longleftrightarrow> s = [] \<or> (\<exists>n \<le> 100. s = dec_digits n)"

lemma blank_or_kept:
  "\<not> (t = [] \<and> or_blank old \<noteq> []) \<Longrightarrow> or_blank (case or_undefined t of Some s \<Rightarrow> Some s | None \<Rightarrow> old) = t"
  by (cases old) (auto simp: or_undefined_def or_blank_def)

lemma small_number: "n \<le> 100 \<Longrightarrow> to_num (of_nat n) = Num (of_nat n) \<and> toString (Num (of_nat n)) = dec_digits n"
  using toString_int [of "int n"] to_num_of_int [of "int n"] by (simp add: show_int_def)

text \<open>C35. When the form clears no field that the lead has, and the server accepts its source and status, opening the editor again shows
  what was saved, without outer spaces; the owner and the other fields are untouched.\<close>

theorem edit_shown_again:
  assumes "edit_lead f = Send p" "\<not> cleared l f" "score_text (ef_score f)" "ef_source f \<in> set VALID_SOURCES"
    "ef_status f \<in> set VALID_STATUSES" "ld_ownerName l = Option.bind (ld_ownerId l) mail"
  shows "\<exists>l'. update_lead mail (update_body p) l = Some l' \<and> edit_of l' = trimmed_form f \<and>
    ld_id l' = ld_id l \<and> ld_ownerId l' = ld_ownerId l \<and> ld_ownerName l' = ld_ownerName l"
proof -
  have p: "up_name p = Some (ef_name (trimmed_form f))" "up_email p = Some (trim (ef_email f))" "up_phone p = or_undefined (trim (ef_phone f))"
    "up_company p = or_undefined (trim (ef_company f))" "up_source p = Some (ef_source f)" "up_campaign p = or_undefined (trim (ef_campaign f))"
    "up_status p = Some (ef_status f)" "up_ownerId p = None" "up_ownerName p = None"
    "up_score p = (if trim (ef_score f) = [] then None else Some (parse_int (ef_score f)))"
    using assms(1) by (auto simp: edit_lead_def checked_email_def trimmed_form_def split: if_splits)
  have score: "(case sent_num (update_body p) ''score'' of Some x \<Rightarrow> int32 x | None \<Rightarrow> True) \<and>
      (case (case sent_num (update_body p) ''score'' of Some x \<Rightarrow> Some x | None \<Rightarrow> ld_score l) of Some n \<Rightarrow> toString n | None \<Rightarrow> []) = ef_score f"
  proof (cases "ef_score f = []")
    case True
    then show ?thesis using assms(2) by (simp add: sent_num_def score_of p cleared_def)
  next
    case False
    then obtain n where n: "n \<le> 100" "ef_score f = dec_digits n" using assms(3) by (auto simp: score_text_def)
    then have "trim (ef_score f) \<noteq> []" by (simp add: trim_digits)
    then have "sent_num (update_body p) ''score'' = Some (Num (of_nat n))"
      using small_number [OF n(1)] by (simp add: sent_num_def score_of p n(2) parse_digits json_num_def del: toString.simps)
    then show ?thesis using small_number [OF n(1)] n by (simp del: toString.simps)
  qed
  show ?thesis
    using score assms(2-6) blank_or_kept [of "trim (ef_phone f)" "ld_phone l"] blank_or_kept [of "trim (ef_company f)" "ld_company l"]
      blank_or_kept [of "trim (ef_campaign f)" "ld_campaign l"]
    by (simp add: update_lead_def sent_of p allowed_def edit_of_def trimmed_form_def cleared_def Let_def split: option.splits)
qed

section \<open>What an edit cannot do\<close>

text \<open>A phone number that is cleared stays; so do the company, the campaign and the score.\<close>

lemma cleared_phone_stays:
  assumes "edit_lead f = Send p" "trim (ef_phone f) = []" "update_lead mail (update_body p) l = Some l'"
  shows "ld_phone l' = ld_phone l"
proof -
  have "up_phone p = None" using assms(1,2) by (auto simp: edit_lead_def checked_email_def or_undefined_def split: if_splits)
  then have "sent_text (update_body p) ''phone'' = None" by (simp add: sent_of)
  then show ?thesis using assms(3) by (auto simp: update_lead_def Let_def split: if_splits)
qed

text \<open>Choosing an owner stores it; choosing \<open>Unassigned\<close> sends an empty body, and the lead keeps its owner.\<close>

lemma owner_assigned:
  assumes "o' \<in> set owners" "lo_id o' \<noteq> []"
  shows "\<exists>l'. update_lead mail (update_body (assign_owner owners (lo_id o'))) l = Some l' \<and> ld_ownerId l' = Some (lo_id o')"
  using assms by (simp add: update_lead_def sent_of sent_num_def score_of assign_owner_def or_undefined_def allowed_def Let_def)

lemma unassign_ignored:
  assumes "\<forall>o' \<in> set owners. lo_id o' \<noteq> []" "ld_ownerName l = Option.bind (ld_ownerId l) mail"
  shows "update_body (assign_owner owners []) = [] \<and> update_lead mail [] l = Some l"
proof -
  have "find (\<lambda>o'. lo_id o' = []) owners = None" using assms(1) by (auto simp: find_None_iff)
  then show ?thesis
    using assms(2) by (simp add: assign_owner_def update_body_def if_given_def or_undefined_def update_lead_def sent_text_def sent_num_def allowed_def)
qed

section \<open>Converting a lead\<close>

definition nameParts :: "string option \<Rightarrow> string \<times> string" where
  "nameParts name =
     (let n = trim (or_blank name); i = length (takeWhile (\<lambda>c. c \<noteq> CHR '' '') n) in
      if i = 0 \<or> i = length n then (n, []) else (take i n, trim (drop (i + 1) n)))"

definition PASSWORD_CHARS :: string where
  "PASSWORD_CHARS = ''abcdefghijkmnopqrstuvwxyzABCDEFGHJKLMNPQRSTUVWXYZ23456789''"

text \<open>From the fourteen random bytes.\<close>

definition generateRandomPassword :: "8 word list \<Rightarrow> string" where
  "generateRandomPassword arr = map (\<lambda>b. PASSWORD_CHARS ! (unat b mod length PASSWORD_CHARS)) arr"

datatype convert_option = NewUser | LinkUser

record convert_form =
  cf_option :: convert_option
  cf_email :: string
  cf_first :: string
  cf_last :: string
  cf_password :: string
  cf_confirm :: string
  cf_query :: string
  cf_results :: "string list"
  cf_selected :: "string option"

record NewUserPayload =
  nu_email :: string
  nu_first_name :: string
  nu_last_name :: string
  nu_password :: string

datatype convert_error = SelectUser | NamesRequired | PasswordShort | PasswordsDiffer

definition convert_first :: "convert_form \<Rightarrow> convert_error + (string + NewUserPayload)" where
  "convert_first f =
     (if cf_option f = LinkUser then (case cf_selected f of None \<Rightarrow> Inl SelectUser | Some u \<Rightarrow> Inr (Inl u))
      else if trim (cf_email f) = [] \<or> trim (cf_first f) = [] \<or> trim (cf_last f) = [] then Inl NamesRequired
      else if length (cf_password f) < 8 then Inl PasswordShort
      else if cf_password f \<noteq> cf_confirm f then Inl PasswordsDiffer
      else Inr (Inr \<lparr>nu_email = trim (cf_email f), nu_first_name = trim (cf_first f), nu_last_name = trim (cf_last f), nu_password = cf_password f\<rparr>))"

text \<open>
  The modal with its requests. \<open>cv_searches\<close> are the searches that are under way, \<open>cv_created\<close> the requests for new users and
  \<open>cv_converted\<close> the users with which a conversion was asked for.
\<close>

datatype convert_request = Creating | Converting string

record convert_modal =
  cv_form :: convert_form
  cv_searches :: "string list"
  cv_pending :: "convert_request option"
  cv_created :: "NewUserPayload list"
  cv_converted :: "string list"
  cv_open :: bool
  cv_errors :: "convert_error option list"

definition convert_init :: "Lead \<Rightarrow> convert_modal" where
  "convert_init l =
     \<lparr>cv_form = \<lparr>cf_option = NewUser, cf_email = ld_email l, cf_first = fst (nameParts (Some (ld_name l))), cf_last = snd (nameParts (Some (ld_name l))),
        cf_password = [], cf_confirm = [], cf_query = [], cf_results = [], cf_selected = None\<rparr>,
      cv_searches = [], cv_pending = None, cv_created = [], cv_converted = [], cv_open = True, cv_errors = []\<rparr>"

definition submit_convert :: "convert_modal \<Rightarrow> convert_modal" where
  "submit_convert s =
     (case convert_first (cv_form s) of
        Inl e \<Rightarrow> s\<lparr>cv_errors := cv_errors s @ [Some e]\<rparr>
      | Inr (Inl u) \<Rightarrow> s\<lparr>cv_pending := Some (Converting u), cv_converted := cv_converted s @ [u]\<rparr>
      | Inr (Inr p) \<Rightarrow> s\<lparr>cv_pending := Some Creating, cv_created := cv_created s @ [p]\<rparr>)"

text \<open>The answer to the request that is under way: \<open>Some\<close> the new user's identifier (or anything for a conversion), or a failure.\<close>

definition convert_answered :: "string option \<Rightarrow> convert_modal \<Rightarrow> convert_modal" where
  "convert_answered r s =
     (case (cv_pending s, r) of
        (Some Creating, Some u) \<Rightarrow> s\<lparr>cv_pending := Some (Converting u), cv_converted := cv_converted s @ [u]\<rparr>
      | (Some (Converting u), Some _) \<Rightarrow> s\<lparr>cv_pending := None, cv_open := False\<rparr>
      | (Some _, None) \<Rightarrow> s\<lparr>cv_pending := None, cv_errors := cv_errors s @ [None]\<rparr>
      | (None, _) \<Rightarrow> s)"

definition type_query :: "string \<Rightarrow> convert_modal \<Rightarrow> convert_modal" where
  "type_query q s = s\<lparr>cv_form := (cv_form s)\<lparr>cf_query := q, cf_selected := None\<rparr>\<rparr>"

text \<open>The timer fires for the text that is typed; then an answer to any search under way.\<close>

definition run_search :: "convert_modal \<Rightarrow> convert_modal" where
  "run_search s =
     (let q = trim (cf_query (cv_form s)) in
      if q = [] then s\<lparr>cv_form := (cv_form s)\<lparr>cf_results := []\<rparr>\<rparr> else s\<lparr>cv_searches := cv_searches s @ [q]\<rparr>)"

definition search_answered :: "nat \<Rightarrow> string list option \<Rightarrow> convert_modal \<Rightarrow> convert_modal" where
  "search_answered i us s =
     s\<lparr>cv_searches := take i (cv_searches s) @ drop (Suc i) (cv_searches s),
       cv_form := (cv_form s)\<lparr>cf_results := (case us of Some x \<Rightarrow> x | None \<Rightarrow> [])\<rparr>\<rparr>"

text \<open>The two parts of a name hold all its words.\<close>

lemma trim_words: "filter (\<lambda>c. \<not> is_space c) (trim s) = filter (\<lambda>c. \<not> is_space c) s"
proof -
  have d: "filter (\<lambda>c. \<not> is_space c) (dropWhile is_space t) = filter (\<lambda>c. \<not> is_space c) t" for t by (induction t) auto
  then show ?thesis by (simp add: trim_def rev_filter [symmetric] d)
qed

lemma name_parts_keep_words:
  "filter (\<lambda>c. \<not> is_space c) (fst (nameParts name) @ snd (nameParts name)) = filter (\<lambda>c. \<not> is_space c) (or_blank name)"
proof -
  define n where "n = trim (or_blank name)"
  define i where "i = length (takeWhile (\<lambda>c. c \<noteq> CHR '' '') n)"
  have n: "filter (\<lambda>c. \<not> is_space c) n = filter (\<lambda>c. \<not> is_space c) (or_blank name)" by (simp add: n_def trim_words)
  have np: "nameParts name = (if i = 0 \<or> i = length n then (n, []) else (take i n, trim (drop (i + 1) n)))"
    by (simp only: nameParts_def Let_def n_def i_def)
  show ?thesis
  proof (cases "i = 0 \<or> i = length n")
    case True
    then show ?thesis using n by (simp only: np if_True fst_conv snd_conv append_Nil2)
  next
    case False
    then have i: "i < length n" using length_takeWhile_le [of _ n] by (simp add: i_def le_neq_implies_less)
    then have c: "n ! i = CHR '' ''" using nth_length_takeWhile [of "\<lambda>c. c \<noteq> CHR '' ''" n] by (simp add: i_def)
    have "filter (\<lambda>c. \<not> is_space c) n = filter (\<lambda>c. \<not> is_space c) (take i n @ n ! i # drop (Suc i) n)" using id_take_nth_drop [OF i] by simp
    also have "\<dots> = filter (\<lambda>c. \<not> is_space c) (take i n @ drop (Suc i) n)" by (simp add: c is_space_def)
    finally show ?thesis using n False by (simp add: np trim_words)
  qed
qed

lemma random_password_ok:
  "length arr = 14 \<Longrightarrow> length (generateRandomPassword arr) = 14 \<and> set (generateRandomPassword arr) \<subseteq> set PASSWORD_CHARS"
proof -
  have "PASSWORD_CHARS ! (unat b mod length PASSWORD_CHARS) \<in> set PASSWORD_CHARS" for b :: "8 word"
    by (rule nth_mem) (simp add: PASSWORD_CHARS_def)
  then show "length arr = 14 \<Longrightarrow> ?thesis" by (auto simp: generateRandomPassword_def)
qed

datatype convert_event = CvSubmit | CvAnswer "string option" | CvType string | CvTimer | CvFound nat "string list option" | CvSelect string
  | CvForm "convert_form"

fun convert_do :: "convert_event \<Rightarrow> convert_modal \<Rightarrow> convert_modal" where
  "convert_do CvSubmit s = submit_convert s"
| "convert_do (CvAnswer r) s = convert_answered r s"
| "convert_do (CvType q) s = type_query q s"
| "convert_do CvTimer s = run_search s"
| "convert_do (CvFound i us) s = search_answered i us s"
| "convert_do (CvSelect u) s = s\<lparr>cv_form := (cv_form s)\<lparr>cf_selected := Some u\<rparr>\<rparr>"
| "convert_do (CvForm f) s = s\<lparr>cv_form := f\<rparr>"

text \<open>The submit button is disabled while a request is under way; once the lead is converted the modal is closed.\<close>

definition convert_enabled :: "convert_event \<Rightarrow> convert_modal \<Rightarrow> bool" where
  "convert_enabled e s \<longleftrightarrow> (e = CvSubmit \<longrightarrow> cv_pending s = None \<and> cv_open s)"

text \<open>
  When the conversion fails after the user was created, the modal still asks for a new user: the next press sends the
  same user again, which the server has.
\<close>

definition retry_form :: convert_form where
  "retry_form = \<lparr>cf_option = NewUser, cf_email = ''a@b.io'', cf_first = ''Ann'', cf_last = ''Lee'', cf_password = ''secret-1'', cf_confirm = ''secret-1'',
     cf_query = [], cf_results = [], cf_selected = None\<rparr>"

lemma retry_creates_again:
  "map nu_email (cv_created (fold convert_do [CvForm retry_form, CvSubmit, CvAnswer (Some ''u1''), CvAnswer None, CvSubmit] (convert_init ann))) =
     [''a@b.io'', ''a@b.io'']"
  by code_simp

text \<open>Searches are answered in any order, and the last answer is shown whatever was typed since.\<close>

lemma older_search_shown:
  "cf_results (cv_form (fold convert_do [CvType ''a'', CvTimer, CvType ''ab'', CvTimer, CvFound 1 (Some [''ab'']), CvFound 0 (Some [''a''])] (convert_init ann))) =
     [''a'']"
  by code_simp

section \<open>Who gets the lead\<close>

text \<open>
  Conversions are asked for in turn: at most one request is under way, and every conversion names a user that was chosen or
  whose creation was answered.
\<close>

definition convert_inv :: "string list \<Rightarrow> convert_modal \<Rightarrow> bool" where
  "convert_inv users s \<longleftrightarrow> set (cv_converted s) \<subseteq> set users \<and> (case cv_pending s of Some (Converting u) \<Rightarrow> u \<in> set (cv_converted s) | _ \<Rightarrow> True) \<and>
     (case cf_selected (cv_form s) of Some u \<Rightarrow> u \<in> set users | None \<Rightarrow> True)"

text \<open>The users an event brings: a choice in the list, or a new one.\<close>

fun users_of :: "convert_event \<Rightarrow> string list" where
  "users_of (CvAnswer (Some u)) = [u]"
| "users_of (CvSelect u) = [u]"
| "users_of (CvForm f) = (case cf_selected f of Some u \<Rightarrow> [u] | None \<Rightarrow> [])"
| "users_of _ = []"

lemma convert_step:
  assumes "convert_inv users s" shows "convert_inv (users @ users_of e) (convert_do e s)"
proof (cases e)
  case CvSubmit
  then show ?thesis using assms
    by (auto simp: convert_inv_def submit_convert_def convert_first_def split: option.splits sum.splits if_splits convert_request.splits)
next
  case (CvAnswer r)
  then show ?thesis using assms
    by (cases r) (auto simp: convert_inv_def convert_answered_def split: option.splits convert_request.splits)
qed (use assms in \<open>auto simp: convert_inv_def type_query_def run_search_def search_answered_def Let_def split: option.splits convert_request.splits\<close>)

lemma converted_users_known:
  "set (cv_converted (fold convert_do es (convert_init l))) \<subseteq> set (concat (map users_of es))"
proof -
  have "convert_inv users s \<Longrightarrow> convert_inv (users @ concat (map users_of es)) (fold convert_do es s)" for users s
    by (induction es arbitrary: users s) (use convert_step in \<open>fastforce+\<close>)
  moreover have "convert_inv [] (convert_init l)" by (simp add: convert_inv_def convert_init_def)
  ultimately have "convert_inv ([] @ concat (map users_of es)) (fold convert_do es (convert_init l))" by blast
  then show ?thesis by (simp add: convert_inv_def)
qed

section \<open>The pages of the list\<close>

record leads_page =
  lp_search :: string
  lp_status :: string
  lp_source :: string
  lp_debounced :: string
  lp_page :: int
  lp_pageSize :: int
  lp_total :: int

definition leads_page_init :: leads_page where
  "leads_page_init = \<lparr>lp_search = [], lp_status = ''all'', lp_source = ''all'', lp_debounced = [], lp_page = 1, lp_pageSize = 20, lp_total = 0\<rparr>"

text \<open>\<open>Math.ceil\<close> of whole numbers; the total of the answer before is kept until the next one.\<close>

definition totalPages :: "leads_page \<Rightarrow> int" where
  "totalPages s = max 1 (- ((- lp_total s) div lp_pageSize s))"

definition currentPage :: "leads_page \<Rightarrow> int" where
  "currentPage s = min (lp_page s) (totalPages s)"

definition leads_params :: "leads_page \<Rightarrow> ListLeadsParams" where
  "leads_params s =
     \<lparr>ll_page = Some (Num (of_int (lp_page s))), ll_page_size = Some (Num (of_int (lp_pageSize s))), ll_search = or_undefined (trim (lp_debounced s)),
      ll_status = (if lp_status s \<noteq> ''all'' then Some (lp_status s) else None), ll_source = (if lp_source s \<noteq> ''all'' then Some (lp_source s) else None),
      ll_owner_id = None, ll_sort = None, ll_order = None\<rparr>"

text \<open>The effect of the filters: the first page again.\<close>

definition filters_changed :: "leads_page \<Rightarrow> leads_page \<Rightarrow> leads_page" where
  "filters_changed old s =
     (if lp_debounced s = lp_debounced old \<and> lp_status s = lp_status old \<and> lp_source s = lp_source old then s else s\<lparr>lp_page := 1\<rparr>)"

definition setFilters :: "string \<Rightarrow> string \<Rightarrow> string \<Rightarrow> leads_page \<Rightarrow> leads_page" where
  "setFilters search status source s = filters_changed s (s\<lparr>lp_search := search, lp_status := status, lp_source := source\<rparr>)"

definition search_settled :: "leads_page \<Rightarrow> leads_page" where
  "search_settled s = filters_changed s (s\<lparr>lp_debounced := lp_search s\<rparr>)"

definition handlePageChange :: "int \<Rightarrow> leads_page \<Rightarrow> leads_page" where
  "handlePageChange n s = s\<lparr>lp_page := max 1 (min n (totalPages s))\<rparr>"

definition handlePageSizeChange :: "int \<Rightarrow> leads_page \<Rightarrow> leads_page" where
  "handlePageSizeChange n s = s\<lparr>lp_pageSize := n, lp_page := 1\<rparr>"

definition hasActiveFilters :: "leads_page \<Rightarrow> bool" where
  "hasActiveFilters s \<longleftrightarrow> trim (lp_search s) \<noteq> [] \<or> lp_status s \<noteq> ''all'' \<or> lp_source s \<noteq> ''all''"

text \<open>The pages cover every lead, and the last one is not empty.\<close>

lemma pages_cover:
  assumes "0 < lp_pageSize s" "0 < lp_total s"
  shows "lp_total s \<le> totalPages s * lp_pageSize s \<and> (totalPages s - 1) * lp_pageSize s < lp_total s"
proof -
  define k where "k = - ((- lp_total s) div lp_pageSize s)"
  have m: "- lp_total s = - k * lp_pageSize s + (- lp_total s) mod lp_pageSize s" by (simp add: k_def)
  have r: "0 \<le> (- lp_total s) mod lp_pageSize s" "(- lp_total s) mod lp_pageSize s < lp_pageSize s" using assms by simp_all
  have "k * lp_pageSize s = lp_total s + (- lp_total s) mod lp_pageSize s" using m by (simp add: algebra_simps)
  then have "lp_total s \<le> k * lp_pageSize s" "(k - 1) * lp_pageSize s < lp_total s" using r by (simp_all add: algebra_simps)
  moreover from this have "0 < k" using assms zero_less_mult_pos2 [of k "lp_pageSize s"] by linarith
  ultimately show ?thesis by (simp add: totalPages_def flip: k_def)
qed

text \<open>Every page but those that a deletion emptied is one of the list: the number that is shown is then the one that was asked for.\<close>

lemma page_change_shown:
  assumes "0 < lp_pageSize s" shows "currentPage (handlePageChange n s) = lp_page (handlePageChange n s) \<and> 1 \<le> lp_page (handlePageChange n s)"
  by (auto simp: handlePageChange_def currentPage_def totalPages_def)

text \<open>
  When the last page loses its only lead, the table says it shows the page before, but the query still asks for the
  page that no longer exists: the table stays empty.
\<close>

lemma emptied_page_stays:
  "let s = (handlePageChange 2 (leads_page_init\<lparr>lp_total := 21\<rparr>))\<lparr>lp_total := 20\<rparr> in
     currentPage s = 1 \<and> ll_page (leads_params s) = Some (Num 2)"
  by (simp add: handlePageChange_def leads_page_init_def currentPage_def totalPages_def leads_params_def Let_def)

section \<open>A concrete edit\<close>

lemma edit_shown_again_witness:
  "\<exists>l'. update_lead (\<lambda>i. None) (update_body (case edit_lead ((edit_of ann)\<lparr>ef_phone := '' 12'', ef_score := ''7''\<rparr>) of Send p \<Rightarrow> p)) ann = Some l' \<and>
     ef_phone (edit_of l') = ''12''"
proof -
  let ?f = "(edit_of ann)\<lparr>ef_phone := '' 12'', ef_score := ''7''\<rparr>"
  have "case edit_lead ?f of Send p \<Rightarrow> True | _ \<Rightarrow> False" by code_simp
  then obtain p where p: "edit_lead ?f = Send p" by (auto split: lead_submit.splits)
  have seven: "score_text (ef_score ?f)" unfolding score_text_def by (intro disjI2 exI [of _ 7]) code_simp
  have rest: "\<not> cleared ann ?f" "ef_source ?f \<in> set VALID_SOURCES" "ef_status ?f \<in> set VALID_STATUSES"
    "ld_ownerName ann = Option.bind (ld_ownerId ann) (\<lambda>i. None)" by (code_simp, code_simp, code_simp, simp add: ann_def)
  have "ef_phone (trimmed_form ?f) = ''12''" by code_simp
  then show ?thesis using edit_shown_again [OF p rest(1) seven rest(2,3,4)] p by auto
qed

end
