(* ===== verification/Permission_Profiles.thy ===== *)
theory Permission_Profiles
  imports Js_Text Machine "HOL-Library.Multiset"
begin

text \<open>
  The permission profiles of \<open>PermissionsPage.tsx\<close>: the dialog in which a profile is created or edited, where a
  user may only grant what the user holds, the order of the categories, and the tags of a profile. The profile to edit is
  loaded before the dialog opens; answers come in any order. \<open>u\<close> are the permissions of the user.
\<close>

section \<open>Data\<close>

record PermissionCategory =
  pc_name :: string
  pc_keys :: "string list"

record PermissionProfile =
  pf_id :: string
  pf_name :: string
  pf_description :: "string option"
  pf_keys :: "string list"
  pf_tags :: "string list"

record PermissionProfileDto =
  pd_id :: string
  pd_name :: string
  pd_description :: "string option"
  pd_permission_keys :: "string list option"
  pd_tag_ids :: "string list option"

definition fromDto :: "PermissionProfileDto \<Rightarrow> PermissionProfile" where
  "fromDto d =
     \<lparr>pf_id = pd_id d, pf_name = pd_name d, pf_description = pd_description d,
      pf_keys = (case pd_permission_keys d of Some ks \<Rightarrow> ks | None \<Rightarrow> []), pf_tags = (case pd_tag_ids d of Some ts \<Rightarrow> ts | None \<Rightarrow> [])\<rparr>"

definition full_access :: "string \<Rightarrow> bool" where
  "full_access name \<longleftrightarrow> toLowerCase name = ''full access''"

section \<open>The order of the categories\<close>

definition category_order :: "string list" where
  "category_order = [''Users'', ''Tags'', ''Groups'', ''Managers'', ''Trading'', ''Leverage Profiles'', ''Symbols'', ''Markup'', ''Swap'',
     ''Finance'', ''Leads'', ''Affiliate'', ''Permissions'', ''Support'', ''Call'', ''Appointments'', ''Settings'']"

definition hidden_categories :: "string list" where
  "hidden_categories = [''Configuration'', ''Risk & Reports'']"

definition permissionCategoriesSorted :: "PermissionCategory list \<Rightarrow> PermissionCategory list" where
  "permissionCategoriesSorted cats =
     concat (map (\<lambda>n. filter (\<lambda>c. pc_name c = n) cats) category_order) @
     filter (\<lambda>c. pc_name c \<notin> set category_order \<and> pc_name c \<notin> set hidden_categories) cats"

section \<open>The dialog\<close>

datatype save_request =
    CreateProfile string "string option" "string list"
  | UpdateProfile string string "string option" "string list"

text \<open>
  \<open>pg_loadingId\<close> disables one edit button, \<open>pg_loading\<close> are the loads under way, \<open>pg_loaded\<close> the profiles that answered; \<open>pg_saving\<close> is the
  request of a save that has not settled, \<open>pg_sent\<close> every request.
\<close>

record perm_page =
  pg_categories :: "PermissionCategory list"
  pg_profiles :: "PermissionProfile list"
  pg_dialog :: bool
  pg_editingId :: "string option"
  pg_editingName :: "string option"
  pg_name :: string
  pg_description :: string
  pg_keys :: "string list"
  pg_loadingId :: "string option"
  pg_loading :: "string list"
  pg_loaded :: "PermissionProfile list"
  pg_saving :: "save_request option"
  pg_sent :: "save_request list"

definition perm_init :: "PermissionProfile list \<Rightarrow> perm_page" where
  "perm_init ps =
     \<lparr>pg_categories = [], pg_profiles = ps, pg_dialog = False, pg_editingId = None, pg_editingName = None, pg_name = [], pg_description = [], pg_keys = [],
      pg_loadingId = None, pg_loading = [], pg_loaded = [], pg_saving = None, pg_sent = []\<rparr>"

definition allPermissionKeysFromDefinitions :: "perm_page \<Rightarrow> string list" where
  "allPermissionKeysFromDefinitions s = concat (map pc_keys (pg_categories s))"

definition isFullAccessProfile :: "perm_page \<Rightarrow> bool" where
  "isFullAccessProfile s = (case pg_editingName s of Some n \<Rightarrow> full_access n | None \<Rightarrow> False)"

text \<open>The effect that keeps the form of the Full Access profile complete, after a change of what it depends on.\<close>

definition sync_full :: "perm_page \<Rightarrow> perm_page" where
  "sync_full s =
     (let all = allPermissionKeysFromDefinitions s; target = set_of_list all in
      if \<not> pg_dialog s \<or> \<not> isFullAccessProfile s \<or> all = [] then s
      else if length (pg_keys s) = length target \<and> set all \<subseteq> set (pg_keys s) then s
      else s\<lparr>pg_keys := target\<rparr>)"

definition with_sync :: "perm_page \<Rightarrow> perm_page \<Rightarrow> perm_page" where
  "with_sync s t =
     (if pg_dialog t = pg_dialog s \<and> pg_editingName t = pg_editingName s \<and> pg_categories t = pg_categories s then t else sync_full t)"

definition definitions_loaded :: "PermissionCategory list \<Rightarrow> perm_page \<Rightarrow> perm_page" where
  "definitions_loaded cs s = with_sync s (s\<lparr>pg_categories := cs\<rparr>)"

definition openCreate :: "perm_page \<Rightarrow> perm_page" where
  "openCreate s =
     with_sync s (s\<lparr>pg_editingId := None, pg_editingName := None, pg_name := [], pg_description := [], pg_keys := [], pg_dialog := True\<rparr>)"

definition openEdit :: "PermissionProfile \<Rightarrow> perm_page \<Rightarrow> perm_page" where
  "openEdit p s = with_sync s (s\<lparr>pg_loadingId := Some (pf_id p), pg_loading := pg_loading s @ [pf_id p], pg_editingName := Some (pf_name p)\<rparr>)"

definition profile_loaded :: "nat \<Rightarrow> PermissionProfile option \<Rightarrow> perm_page \<Rightarrow> perm_page" where
  "profile_loaded i r s =
     (let t = s\<lparr>pg_loadingId := None, pg_loading := take i (pg_loading s) @ drop (Suc i) (pg_loading s)\<rparr> in
      case r of
        None \<Rightarrow> t
      | Some p \<Rightarrow>
          with_sync s (t\<lparr>pg_loaded := pg_loaded s @ [p], pg_editingId := Some (pf_id p), pg_name := pf_name p,
            pg_description := (case pf_description p of Some d \<Rightarrow> d | None \<Rightarrow> []),
            pg_keys := (if full_access (pf_name p) then set_of_list (allPermissionKeysFromDefinitions s) else set_of_list (pf_keys p)),
            pg_dialog := True\<rparr>))"

definition closeDialog :: "perm_page \<Rightarrow> perm_page" where
  "closeDialog s = s\<lparr>pg_dialog := False, pg_editingId := None, pg_editingName := None\<rparr>"

definition togglePermission :: "string \<Rightarrow> perm_page \<Rightarrow> perm_page" where
  "togglePermission k s = s\<lparr>pg_keys := (if k \<in> set (pg_keys s) then set_delete k (pg_keys s) else set_add k (pg_keys s))\<rparr>"

definition toggleCategory :: "string list \<Rightarrow> PermissionCategory \<Rightarrow> bool \<Rightarrow> perm_page \<Rightarrow> perm_page" where
  "toggleCategory u c selectAll s =
     (let ks = filter (\<lambda>k. k \<in> set u) (pc_keys c) in
      s\<lparr>pg_keys := (if selectAll then foldl (\<lambda>f k. set_add k f) (pg_keys s) ks else foldl (\<lambda>f k. set_delete k f) (pg_keys s) ks)\<rparr>)"

definition selectAll :: "string list \<Rightarrow> perm_page \<Rightarrow> perm_page" where
  "selectAll u s = s\<lparr>pg_keys := set_of_list (filter (\<lambda>k. k \<in> set u) (allPermissionKeysFromDefinitions s))\<rparr>"

definition unselectAll :: "perm_page \<Rightarrow> perm_page" where
  "unselectAll s = s\<lparr>pg_keys := []\<rparr>"

text \<open>What a category's checkbox shows.\<close>

datatype check_state = AllChecked | SomeChecked | NoneChecked

definition category_check :: "string list \<Rightarrow> PermissionCategory \<Rightarrow> perm_page \<Rightarrow> check_state" where
  "category_check u c s =
     (let mine = filter (\<lambda>k. k \<in> set u) (pc_keys c); n = length (filter (\<lambda>k. k \<in> set (pg_keys s)) mine) in
      if mine \<noteq> [] \<and> n = length mine then AllChecked else if 0 < n then SomeChecked else NoneChecked)"

definition press_category :: "string list \<Rightarrow> PermissionCategory \<Rightarrow> perm_page \<Rightarrow> perm_page" where
  "press_category u c s = toggleCategory u c (category_check u c s \<noteq> AllChecked) s"

definition save_payload :: "perm_page \<Rightarrow> save_request" where
  "save_payload s =
     (let name = trim (pg_name s); d = trim (pg_description s); description = (if d = [] then None else Some d) in
      case pg_editingId s of
        Some i \<Rightarrow> UpdateProfile i name description (pg_keys s)
      | None \<Rightarrow> CreateProfile name description (pg_keys s))"

definition handleSave :: "perm_page \<Rightarrow> perm_page" where
  "handleSave s =
     (if trim (pg_name s) = [] then s else s\<lparr>pg_saving := Some (save_payload s), pg_sent := pg_sent s @ [save_payload s]\<rparr>)"

text \<open>The answer of a save: the profile as it is stored, or a failure.\<close>

definition save_answered :: "PermissionProfile option \<Rightarrow> perm_page \<Rightarrow> perm_page" where
  "save_answered r s =
     (case (pg_saving s, r) of
        (Some (CreateProfile _ _ _), Some p) \<Rightarrow> closeDialog (s\<lparr>pg_saving := None, pg_profiles := pg_profiles s @ [p]\<rparr>)
      | (Some (UpdateProfile _ _ _ _), Some p) \<Rightarrow>
          closeDialog (s\<lparr>pg_saving := None, pg_profiles := map (\<lambda>q. if pf_id q = pf_id p then p else q) (pg_profiles s)\<rparr>)
      | _ \<Rightarrow> s\<lparr>pg_saving := None\<rparr>)"

datatype perm_event =
    PgDefinitions "PermissionCategory list" | PgCreate | PgEdit PermissionProfile | PgLoaded nat "PermissionProfile option" | PgClose
  | PgName string | PgDescription string | PgToggle string | PgCategory PermissionCategory | PgSelectAll | PgUnselectAll
  | PgSave | PgAnswer "PermissionProfile option"

fun perm_do :: "string list \<Rightarrow> perm_event \<Rightarrow> perm_page \<Rightarrow> perm_page" where
  "perm_do u (PgDefinitions cs) s = definitions_loaded cs s"
| "perm_do u PgCreate s = openCreate s"
| "perm_do u (PgEdit p) s = openEdit p s"
| "perm_do u (PgLoaded i r) s = profile_loaded i r s"
| "perm_do u PgClose s = closeDialog s"
| "perm_do u (PgName n) s = s\<lparr>pg_name := n\<rparr>"
| "perm_do u (PgDescription d) s = s\<lparr>pg_description := d\<rparr>"
| "perm_do u (PgToggle k) s = togglePermission k s"
| "perm_do u (PgCategory c) s = press_category u c s"
| "perm_do u PgSelectAll s = selectAll u s"
| "perm_do u PgUnselectAll s = unselectAll s"
| "perm_do u PgSave s = handleSave s"
| "perm_do u (PgAnswer r) s = save_answered r s"

text \<open>What the page lets a user do: boxes for permissions the user lacks are disabled, and a Full Access profile is locked.\<close>

definition unlocked :: "perm_page \<Rightarrow> bool" where
  "unlocked s \<longleftrightarrow> pg_dialog s \<and> \<not> isFullAccessProfile s"

fun perm_enabled :: "string list \<Rightarrow> perm_event \<Rightarrow> perm_page \<Rightarrow> bool" where
  "perm_enabled u PgCreate s = (\<not> pg_dialog s)"
| "perm_enabled u (PgEdit p) s = (\<not> pg_dialog s \<and> p \<in> set (pg_profiles s) \<and> pg_loadingId s \<noteq> Some (pf_id p))"
| "perm_enabled u (PgLoaded i r) s = (i < length (pg_loading s) \<and> (case r of Some p \<Rightarrow> pf_id p = pg_loading s ! i | None \<Rightarrow> True))"
| "perm_enabled u PgClose s = pg_dialog s"
| "perm_enabled u (PgName n) s = unlocked s"
| "perm_enabled u (PgDescription d) s = unlocked s"
| "perm_enabled u (PgToggle k) s = (unlocked s \<and> k \<in> set u)"
| "perm_enabled u (PgCategory c) s = (unlocked s \<and> (\<exists>k \<in> set (pc_keys c). k \<in> set u))"
| "perm_enabled u PgSelectAll s = unlocked s"
| "perm_enabled u PgUnselectAll s = unlocked s"
| "perm_enabled u PgSave s = (unlocked s \<and> trim (pg_name s) \<noteq> [] \<and> pg_saving s = None)"
| "perm_enabled u (PgAnswer r) s = (pg_saving s \<noteq> None)"
| "perm_enabled u (PgDefinitions cs) s = True"

section \<open>What is granted\<close>

definition keys_loaded :: "PermissionProfile list \<Rightarrow> string \<Rightarrow> string set" where
  "keys_loaded ps i = \<Union> (set ` pf_keys ` {p \<in> set ps. pf_id p = i})"

definition form_rights :: "string list \<Rightarrow> PermissionProfile list \<Rightarrow> string option \<Rightarrow> string set" where
  "form_rights u ps i = set u \<union> (case i of Some i \<Rightarrow> keys_loaded ps i | None \<Rightarrow> {})"

fun within_rights :: "string list \<Rightarrow> PermissionProfile list \<Rightarrow> save_request \<Rightarrow> bool" where
  "within_rights u ps (CreateProfile n d ks) \<longleftrightarrow> set ks \<subseteq> form_rights u ps None"
| "within_rights u ps (UpdateProfile i n d ks) \<longleftrightarrow> set ks \<subseteq> form_rights u ps (Some i)"

text \<open>One profile is loaded at a time, and it is not renamed while it loads.\<close>

fun one_load :: "string list \<Rightarrow> perm_event \<Rightarrow> perm_page \<Rightarrow> bool" where
  "one_load u PgCreate s = (perm_enabled u PgCreate s \<and> pg_loading s = [])"
| "one_load u (PgEdit p) s = (perm_enabled u (PgEdit p) s \<and> pg_loading s = [])"
| "one_load u (PgLoaded i (Some p)) s = (perm_enabled u (PgLoaded i (Some p)) s \<and> full_access (pf_name p) = isFullAccessProfile s)"
| "one_load u e s = perm_enabled u e s"

definition perm_inv :: "string list \<Rightarrow> perm_page \<Rightarrow> bool" where
  "perm_inv u s \<longleftrightarrow>
     list_all (within_rights u (pg_loaded s)) (pg_sent s) \<and>
     (unlocked s \<longrightarrow> set (pg_keys s) \<subseteq> form_rights u (pg_loaded s) (pg_editingId s)) \<and>
     length (pg_loading s) \<le> 1 \<and> (pg_loading s \<noteq> [] \<longrightarrow> \<not> pg_dialog s)"

lemma sync_fields [simp]:
  "pg_sent (with_sync s t) = pg_sent t" "pg_dialog (with_sync s t) = pg_dialog t" "pg_editingId (with_sync s t) = pg_editingId t"
  "pg_loading (with_sync s t) = pg_loading t" "pg_loaded (with_sync s t) = pg_loaded t" "isFullAccessProfile (with_sync s t) = isFullAccessProfile t"
  by (simp_all add: with_sync_def sync_full_def Let_def isFullAccessProfile_def)

lemma sync_unlocked [simp]: "unlocked (with_sync s t) = unlocked t"
  by (simp add: unlocked_def)

lemma sync_keys: "unlocked t \<Longrightarrow> pg_keys (with_sync s t) = pg_keys t"
  by (simp add: with_sync_def sync_full_def unlocked_def)

lemma form_rights_mono: "form_rights u ps i \<subseteq> form_rights u (ps @ [p]) i"
  by (auto simp: form_rights_def keys_loaded_def split: option.splits)

lemma within_mono: "within_rights u ps r \<Longrightarrow> within_rights u (ps @ [p]) r"
  using form_rights_mono by (cases r) fastforce+

text \<open>An event that keeps the requests, the loads and the form's subject only has to keep the rights within bounds.\<close>

lemma perm_inv_keys:
  assumes "perm_inv u s" "pg_sent t = pg_sent s" "pg_loaded t = pg_loaded s" "pg_loading t = pg_loading s" "pg_dialog t = pg_dialog s"
    "pg_editingId t = pg_editingId s" "unlocked t = unlocked s" "set (pg_keys t) \<subseteq> set (pg_keys s) \<union> set u"
  shows "perm_inv u t"
proof -
  have "set u \<subseteq> form_rights u ps i" for ps i by (simp add: form_rights_def)
  then have "set (pg_keys t) \<subseteq> form_rights u (pg_loaded s) (pg_editingId s)" if "unlocked s"
    using that assms(1,8) unfolding perm_inv_def by (meson Un_least order_trans)
  then show ?thesis using assms(1-7) by (simp add: perm_inv_def)
qed

lemma toggled_category: "set (pg_keys (toggleCategory u c b s)) \<subseteq> set (pg_keys s) \<union> set u"
proof -
  have a: "set (foldl (\<lambda>f k. set_add k f) ks xs) \<subseteq> set ks \<union> set xs" for ks xs :: "string list"
  proof (induction xs arbitrary: ks)
    case (Cons x xs)
    have "set (set_add x ks) = insert x (set ks)" by (auto simp: set_add_def)
    then show ?case using Cons [of "set_add x ks"] by simp
  qed simp
  have d: "set (foldl (\<lambda>f k. set_delete k f) ks xs) \<subseteq> set ks" for ks xs :: "string list"
  proof (induction xs arbitrary: ks)
    case (Cons x xs)
    have "set (set_delete x ks) \<subseteq> set ks" by (auto simp: set_delete_def)
    then show ?case using Cons [of "set_delete x ks"] by auto
  qed simp
  show ?thesis using a [of "pg_keys s" "filter (\<lambda>k. k \<in> set u) (pc_keys c)"] d [of "pg_keys s"] by (auto simp: toggleCategory_def Let_def)
qed

lemmas perm_simps = perm_inv_def unlocked_def isFullAccessProfile_def

lemma perm_inv_step:
  assumes "perm_inv u s" "one_load u e s" shows "perm_inv u (perm_do u e s)"
proof (cases e)
  case (PgDefinitions cs)
  have "unlocked (s\<lparr>pg_categories := cs\<rparr>) = unlocked s" by (simp add: unlocked_def isFullAccessProfile_def)
  then show ?thesis using assms(1) PgDefinitions by (auto simp: perm_inv_def definitions_loaded_def sync_keys)
next
  case PgCreate
  then show ?thesis using assms by (auto simp: perm_inv_def openCreate_def sync_keys)
next
  case (PgEdit p)
  then have "\<not> unlocked (perm_do u e s)" using assms by (simp add: openEdit_def unlocked_def)
  then show ?thesis using assms PgEdit by (simp add: perm_inv_def openEdit_def)
next
  case (PgLoaded i r)
  show ?thesis
  proof (cases r)
    case None
    then show ?thesis using assms PgLoaded by (auto simp: perm_inv_def profile_loaded_def Let_def unlocked_def isFullAccessProfile_def)
  next
    case (Some p)
    let ?t = "perm_do u e s"
    have l: "pg_loading ?t = []" using assms PgLoaded Some by (cases "pg_loading s") (auto simp: perm_inv_def profile_loaded_def Let_def)
    have sent: "pg_sent ?t = pg_sent s" "pg_loaded ?t = pg_loaded s @ [p]" "pg_editingId ?t = Some (pf_id p)"
      using PgLoaded Some by (simp_all add: profile_loaded_def Let_def)
    have "unlocked ?t \<Longrightarrow> set (pg_keys ?t) = set (pf_keys p)"
      using assms(2) PgLoaded Some by (simp add: profile_loaded_def Let_def sync_keys) (simp add: unlocked_def isFullAccessProfile_def)
    moreover have "set (pf_keys p) \<subseteq> form_rights u (pg_loaded s @ [p]) (Some (pf_id p))" by (auto simp: form_rights_def keys_loaded_def)
    moreover have "list_all (within_rights u (pg_loaded s @ [p])) (pg_sent s)" using assms(1) within_mono by (auto simp: perm_inv_def list_all_iff)
    ultimately show ?thesis using l sent by (simp add: perm_inv_def)
  qed
next
  case PgClose
  then show ?thesis using assms by (simp add: perm_inv_def closeDialog_def unlocked_def)
next
  case (PgToggle k)
  then show ?thesis using assms
    by (intro perm_inv_keys [OF assms(1)]) (auto simp: togglePermission_def set_add_def set_delete_def unlocked_def isFullAccessProfile_def)
next
  case (PgCategory c)
  have "pg_sent (press_category u c s) = pg_sent s" "pg_loaded (press_category u c s) = pg_loaded s" "pg_loading (press_category u c s) = pg_loading s"
    "pg_dialog (press_category u c s) = pg_dialog s" "pg_editingId (press_category u c s) = pg_editingId s" "unlocked (press_category u c s) = unlocked s"
    by (simp_all add: press_category_def toggleCategory_def Let_def unlocked_def isFullAccessProfile_def)
  then show ?thesis using PgCategory toggled_category by (intro perm_inv_keys [OF assms(1)]) (simp_all add: press_category_def)
next
  case PgSelectAll
  then show ?thesis
    by (intro perm_inv_keys [OF assms(1)]) (auto simp: selectAll_def unlocked_def isFullAccessProfile_def)
next
  case PgUnselectAll
  then show ?thesis
    by (intro perm_inv_keys [OF assms(1)]) (auto simp: unselectAll_def unlocked_def isFullAccessProfile_def)
next
  case PgSave
  then have "set (pg_keys s) \<subseteq> form_rights u (pg_loaded s) (pg_editingId s)" using assms by (simp add: perm_inv_def)
  then have "within_rights u (pg_loaded s) (save_payload s)" by (cases "pg_editingId s") (simp_all add: save_payload_def Let_def)
  then show ?thesis using assms PgSave by (auto simp: perm_inv_def handleSave_def unlocked_def isFullAccessProfile_def)
next
  case (PgAnswer r)
  then show ?thesis using assms(1)
    by (auto simp: perm_inv_def save_answered_def closeDialog_def unlocked_def isFullAccessProfile_def split: option.split save_request.split)
qed (use assms in \<open>auto intro!: perm_inv_keys [OF assms(1)] simp: unlocked_def isFullAccessProfile_def\<close>)

interpretation prm: invariant_system "one_load u" "perm_do u" "perm_inv u" "\<lambda>s. \<exists>ps. s = perm_init ps" for u
  by unfold_locales (rule perm_inv_step, assumption+, auto simp: perm_inv_def perm_init_def unlocked_def)

text \<open>C26. As long as one profile is loaded at a time, no save grants more than the user holds: a new profile has only permissions of the
  user, and an edited one only those and the ones it had when it was loaded.\<close>

theorem grants_bounded:
  assumes "run (one_load u) (perm_do u) es (perm_init ps) = Some s"
  shows "list_all (within_rights u (pg_loaded s)) (pg_sent s)"
proof -
  have "reach (\<lambda>s. \<exists>ps. s = perm_init ps) (one_load u) (perm_do u) s"
    by (rule run_start [where init = "\<lambda>s. \<exists>ps. s = perm_init ps", OF _ assms]) auto
  then show ?thesis using prm.reach_inv by (simp add: perm_inv_def)
qed

section \<open>The rows that are shown\<close>

lemma hidden_not_ordered: "n \<in> set category_order \<Longrightarrow> n \<notin> set hidden_categories"
  by (auto simp: category_order_def hidden_categories_def)

text \<open>Every category but the hidden ones is shown, as often as the server lists it.\<close>

lemma by_name_mset:
  "distinct ns \<Longrightarrow> mset (concat (map (\<lambda>n. filter (\<lambda>c. f c = n) cs) ns)) = mset (filter (\<lambda>c. f c \<in> set ns) cs)"
proof (induction ns)
  case (Cons n ns)
  have "filter_mset (\<lambda>c. f c = n) M + filter_mset (\<lambda>c. f c \<in> set ns) M = filter_mset (\<lambda>c. f c = n \<or> f c \<in> set ns) M" for M
    using Cons.prems by (induction M) auto
  then show ?case using Cons by simp
qed simp

lemma sorted_categories_complete:
  "mset (permissionCategoriesSorted cs) = mset (filter (\<lambda>c. pc_name c \<notin> set hidden_categories) cs)"
proof -
  have "distinct category_order" by (simp add: category_order_def)
  then have "mset (permissionCategoriesSorted cs) =
      mset (filter (\<lambda>c. pc_name c \<in> set category_order) cs) +
      mset (filter (\<lambda>c. pc_name c \<notin> set category_order \<and> pc_name c \<notin> set hidden_categories) cs)"
    by (simp add: permissionCategoriesSorted_def by_name_mset)
  also have "\<dots> = mset (filter (\<lambda>c. pc_name c \<notin> set hidden_categories) cs)"
    using hidden_not_ordered by (induction cs) auto
  finally show ?thesis .
qed

text \<open>A category's box is checked when it holds all of the user's permissions in it; pressing it fills or empties it.\<close>

lemma pressed_category:
  assumes "\<exists>k \<in> set (pc_keys c). k \<in> set u"
  shows "category_check u c (press_category u c s) = (if category_check u c s = AllChecked then NoneChecked else AllChecked)"
proof -
  let ?mine = "filter (\<lambda>k. k \<in> set u) (pc_keys c)"
  have a: "set (foldl (\<lambda>f k. set_add k f) ks xs) = set ks \<union> set xs" for ks xs :: "string list"
    by (induction xs arbitrary: ks) (auto simp: set_add_def)
  have d: "set (foldl (\<lambda>f k. set_delete k f) ks xs) = set ks - set xs" for ks xs :: "string list"
    by (induction xs arbitrary: ks) (auto simp: set_delete_def)
  have ne: "?mine \<noteq> []" using assms by (auto simp: filter_empty_conv)
  show ?thesis
  proof (cases "category_check u c s = AllChecked")
    case True
    then have "set (pg_keys (press_category u c s)) = set (pg_keys s) - set ?mine" by (simp add: press_category_def toggleCategory_def Let_def d)
    then have "filter (\<lambda>k. k \<in> set (pg_keys (press_category u c s))) ?mine = []" by (auto simp: filter_empty_conv)
    then show ?thesis using True ne by (simp add: category_check_def Let_def)
  next
    case False
    then have "set (pg_keys (press_category u c s)) = set (pg_keys s) \<union> set ?mine" by (simp add: press_category_def toggleCategory_def Let_def a)
    then have "filter (\<lambda>k. k \<in> set (pg_keys (press_category u c s))) ?mine = ?mine" by (intro filter_True) auto
    then show ?thesis using False ne by (simp add: category_check_def Let_def)
  qed
qed

section \<open>What goes wrong\<close>

definition ops :: PermissionProfile where
  "ops = \<lparr>pf_id = ''p1'', pf_name = ''Ops'', pf_description = None, pf_keys = [''users:view'', ''finance:view''], pf_tags = []\<rparr>"

definition everything :: PermissionProfile where
  "everything = \<lparr>pf_id = ''p0'', pf_name = ''Full Access'', pf_description = None, pf_keys = [], pf_tags = []\<rparr>"

definition two_categories :: "PermissionCategory list" where
  "two_categories = [\<lparr>pc_name = ''Users'', pc_keys = [''users:view'', ''users:edit'']\<rparr>, \<lparr>pc_name = ''Configuration'', pc_keys = [''config:edit'']\<rparr>]"

lemma some_case: "(case x of Some s \<Rightarrow> P s | None \<Rightarrow> False) \<Longrightarrow> \<exists>s. x = Some s \<and> P s"
  by (cases x) auto

text \<open>A witness for the bound: the user holds one right, the profile another.\<close>

lemma grants_bounded_witness:
  "\<exists>s. run (one_load [''users:edit'']) (perm_do [''users:edit'']) [PgDefinitions two_categories, PgEdit ops, PgLoaded 0 (Some ops),
       PgToggle ''users:edit'', PgSave] (perm_init [ops]) = Some s \<and>
     pg_sent s = [UpdateProfile ''p1'' ''Ops'' None [''users:view'', ''finance:view'', ''users:edit'']] \<and>
     list_all (within_rights [''users:edit''] (pg_loaded s)) (pg_sent s)"
proof -
  let ?es = "[PgDefinitions two_categories, PgEdit ops, PgLoaded 0 (Some ops), PgToggle ''users:edit'', PgSave]"
  have "case run (one_load [''users:edit'']) (perm_do [''users:edit'']) ?es (perm_init [ops]) of
      Some s \<Rightarrow> pg_sent s = [UpdateProfile ''p1'' ''Ops'' None [''users:view'', ''finance:view'', ''users:edit'']] | None \<Rightarrow> False" by code_simp
  then obtain s where s: "run (one_load [''users:edit'']) (perm_do [''users:edit'']) ?es (perm_init [ops]) = Some s"
    "pg_sent s = [UpdateProfile ''p1'' ''Ops'' None [''users:view'', ''finance:view'', ''users:edit'']]" using some_case by fast
  then show ?thesis using grants_bounded [OF s(1)] by blast
qed

text \<open>
  Two loads at once: the answer for the Full Access profile arrives in the dialog of another one. The form then is that of
  Full Access, with every permission, and is not locked: it can be saved.
\<close>

lemma late_load_unlocks_full:
  "\<exists>s. run (perm_enabled []) (perm_do []) [PgDefinitions two_categories, PgEdit everything, PgEdit ops, PgLoaded 1 (Some ops),
       PgLoaded 0 (Some everything), PgSave] (perm_init [ops, everything]) = Some s \<and>
     pg_sent s = [UpdateProfile ''p0'' ''Full Access'' None [''users:view'', ''users:edit'', ''config:edit'']]"
proof -
  have "case run (perm_enabled []) (perm_do []) [PgDefinitions two_categories, PgEdit everything, PgEdit ops, PgLoaded 1 (Some ops),
       PgLoaded 0 (Some everything), PgSave] (perm_init [ops, everything]) of
      Some s \<Rightarrow> pg_sent s = [UpdateProfile ''p0'' ''Full Access'' None [''users:view'', ''users:edit'', ''config:edit'']] | None \<Rightarrow> False"
    by code_simp
  then show ?thesis by (rule some_case)
qed

text \<open>A profile that loads while the dialog for a new one is open turns it into an edit: the save replaces the profile.\<close>

lemma late_load_replaces_create:
  "pg_sent (fold (perm_do []) [PgEdit ops, PgCreate, PgLoaded 0 (Some ops), PgName ''New'', PgSave] (perm_init [ops])) =
     [UpdateProfile ''p1'' ''New'' None [''users:view'', ''finance:view'']]"
  by code_simp

text \<open>
  Selecting all sets the form to the user's permissions: the ones of the profile that the user lacks, whose boxes are
  disabled, are dropped, and the ones of hidden categories are granted.
\<close>

lemma select_all_drops:
  "pg_keys (fold (perm_do [''users:view'', ''config:edit'']) [PgDefinitions two_categories, PgEdit ops, PgLoaded 0 (Some ops), PgSelectAll]
     (perm_init [ops])) = [''users:view'', ''config:edit'']"
  by code_simp

section \<open>Tags of a profile\<close>

text \<open>
  The panel shows the tags of the list; a click sends the list it would become. \<open>tg_shown\<close> is what the list says,
  \<open>tg_queue\<close> the requests in the order in which the server gets them, \<open>tg_stored\<close> what it has.
\<close>

record tag_panel =
  tg_shown :: "string list"
  tg_queue :: "string list list"
  tg_stored :: "string list"

definition click_tag :: "string \<Rightarrow> bool \<Rightarrow> tag_panel \<Rightarrow> tag_panel" where
  "click_tag i checked s =
     s\<lparr>tg_queue := tg_queue s @ [if checked then tg_shown s @ [i] else filter (\<lambda>j. j \<noteq> i) (tg_shown s)]\<rparr>"

definition tags_stored :: "tag_panel \<Rightarrow> tag_panel" where
  "tags_stored s = (case tg_queue s of ts # q \<Rightarrow> s\<lparr>tg_stored := ts, tg_queue := q\<rparr> | [] \<Rightarrow> s)"

definition tags_reloaded :: "tag_panel \<Rightarrow> tag_panel" where
  "tags_reloaded s = s\<lparr>tg_shown := tg_stored s\<rparr>"

text \<open>One click at a time stores what it says.\<close>

lemma one_click_stored:
  assumes "tg_shown s = tg_stored s" "tg_queue s = []"
  shows "set (tg_stored (tags_stored (click_tag i checked s))) = (if checked then insert i (set (tg_stored s)) else set (tg_stored s) - {i})"
  using assms by (auto simp: tags_stored_def click_tag_def)

text \<open>Two quick clicks: the second is computed from the list before the first, which it takes back.\<close>

lemma second_click_wins:
  "tg_stored (tags_stored (tags_stored (click_tag ''b'' True (click_tag ''a'' True \<lparr>tg_shown = [], tg_queue = [], tg_stored = []\<rparr>)))) = [''b'']"
  by (simp add: tags_stored_def click_tag_def)

text \<open>The table of permissions by profile.\<close>

definition hasPermission :: "PermissionProfile \<Rightarrow> string \<Rightarrow> bool" where
  "hasPermission p k \<longleftrightarrow> full_access (pf_name p) \<or> k \<in> set (pf_keys p)"

end
