(* ===== verification/Kyc.thy ===== *)
theory Kyc
  imports Js_Text Machine
begin

text \<open>
  Verifying the identity of a user: the page of the user (\<open>UserKycPage.tsx\<close>) and the modal of the reviewer
  (\<open>KycSubmissionDetailModal.tsx\<close>) with the server's handling of their requests (\<open>kyc.rs\<close>,
  \<open>admin_kyc.rs\<close>). Uploads are under way while the user goes on; the page knows a submission only after it is loaded again.
\<close>

section \<open>Data\<close>

datatype KycStatus = Draft | Pending | UnderReview | Approved | Rejected

record KycDocument =
  kd_id :: string
  kd_type :: string
  kd_file :: string

record KycSubmission =
  ks_id :: string
  ks_status :: KycStatus
  ks_identity :: "string option"
  ks_address :: "string option"
  ks_reason :: "string option"
  ks_docs :: "KycDocument list"

record upload_file =
  uf_name :: string
  uf_size :: int
  uf_type :: string

record upload_request =
  uq_submission :: "string option"
  uq_document_type :: string
  uq_file :: upload_file

section \<open>The page of the user\<close>

datatype DisplayStatus = NotStarted | Shown KycStatus

definition toDisplayStatus :: "KycSubmission option \<Rightarrow> DisplayStatus" where
  "toDisplayStatus s = (case s of None \<Rightarrow> NotStarted | Some x \<Rightarrow> Shown (ks_status x))"

fun isKycEditable :: "DisplayStatus \<Rightarrow> bool" where
  "isKycEditable NotStarted = True"
| "isKycEditable (Shown st) = (st = Draft \<or> st = Rejected)"

definition MAX_FILE_BYTES :: int where
  "MAX_FILE_BYTES = 10 * 1024 * 1024"

definition ALLOWED_FILE_TYPES :: "string list" where
  "ALLOWED_FILE_TYPES = [''application/pdf'', ''image/jpeg'', ''image/png'', ''image/webp'']"

definition validateFile :: "upload_file \<Rightarrow> bool" where
  "validateFile f \<longleftrightarrow> uf_size f \<le> MAX_FILE_BYTES \<and> uf_type f \<noteq> [] \<and> toLowerCase (uf_type f) \<in> set ALLOWED_FILE_TYPES"

definition identity_doc :: "KycDocument \<Rightarrow> bool" where
  "identity_doc d \<longleftrightarrow> kd_type d = ''identity_front'' \<or> kd_type d = ''identity_back''"

definition address_doc :: "KycDocument \<Rightarrow> bool" where
  "address_doc d \<longleftrightarrow> kd_type d = ''proof_of_address''"

definition docs_of :: "KycSubmission option \<Rightarrow> KycDocument list" where
  "docs_of s = (case s of Some x \<Rightarrow> ks_docs x | None \<Rightarrow> [])"

text \<open>The page and the server's submissions of this user, in the order of \<open>submitted_at\<close>.\<close>

record kyc_world =
  kw_submission :: "KycSubmission option"
  kw_step :: nat
  kw_idDocType :: string
  kw_addressDocType :: string
  kw_uploads :: "upload_request list"
  kw_submit :: "(string \<times> string) option"
  kw_db :: "KycSubmission list"

definition kyc_init :: kyc_world where
  "kyc_init = \<lparr>kw_submission = None, kw_step = 1, kw_idDocType = [], kw_addressDocType = [], kw_uploads = [], kw_submit = None, kw_db = []\<rparr>"

definition identityDoc :: "kyc_world \<Rightarrow> KycDocument option" where
  "identityDoc s = find identity_doc (docs_of (kw_submission s))"

definition addressDoc :: "kyc_world \<Rightarrow> KycDocument option" where
  "addressDoc s = find address_doc (docs_of (kw_submission s))"

definition editable :: "kyc_world \<Rightarrow> bool" where
  "editable s \<longleftrightarrow> isKycEditable (toDisplayStatus (kw_submission s))"

definition canGoNext :: "kyc_world \<Rightarrow> bool" where
  "canGoNext s \<longleftrightarrow>
     (kw_step s = 1 \<and> kw_idDocType s \<noteq> [] \<and> identityDoc s \<noteq> None) \<or> (kw_step s = 2 \<and> kw_addressDocType s \<noteq> [] \<and> addressDoc s \<noteq> None) \<or>
     kw_step s = 3"

definition handleNext :: "kyc_world \<Rightarrow> kyc_world" where
  "handleNext s = (if kw_step s < 3 then s\<lparr>kw_step := kw_step s + 1\<rparr> else s)"

definition handleBack :: "kyc_world \<Rightarrow> kyc_world" where
  "handleBack s = (if 1 < kw_step s then s\<lparr>kw_step := kw_step s - 1\<rparr> else s)"

text \<open>The answer of the query, with the effect that fills the types of a submission that can be edited.\<close>

definition kyc_loaded :: "KycSubmission option \<Rightarrow> kyc_world \<Rightarrow> kyc_world" where
  "kyc_loaded r s =
     (let t = s\<lparr>kw_submission := r\<rparr>; deps = map_option (\<lambda>x. (ks_id x, ks_status x, ks_identity x, ks_address x)) in
      case r of
        None \<Rightarrow> t
      | Some x \<Rightarrow>
          if deps r = deps (kw_submission s) \<or> (ks_status x \<noteq> Draft \<and> ks_status x \<noteq> Rejected) then t
          else t\<lparr>kw_idDocType := (if truthy (ks_identity x) then the (ks_identity x) else kw_idDocType s),
                kw_addressDocType := (if truthy (ks_address x) then the (ks_address x) else kw_addressDocType s)\<rparr>)"

definition handle_file :: "string \<Rightarrow> upload_file \<Rightarrow> kyc_world \<Rightarrow> kyc_world" where
  "handle_file doc f s =
     (if \<not> validateFile f then s
      else s\<lparr>kw_uploads := kw_uploads s @ [\<lparr>uq_submission = map_option ks_id (kw_submission s), uq_document_type = doc, uq_file = f\<rparr>]\<rparr>)"

definition handleIdentityFile :: "upload_file \<Rightarrow> kyc_world \<Rightarrow> kyc_world" where
  "handleIdentityFile = handle_file ''identity_front''"

definition handleAddressFile :: "upload_file \<Rightarrow> kyc_world \<Rightarrow> kyc_world" where
  "handleAddressFile = handle_file ''proof_of_address''"

datatype submit_error = SelectIdentityType | SelectAddressType | UploadIdentity | UploadAddress

definition submitValidationErrors :: "kyc_world \<Rightarrow> submit_error list" where
  "submitValidationErrors s =
     (if kw_idDocType s = [] then [SelectIdentityType] else []) @ (if kw_addressDocType s = [] then [SelectAddressType] else []) @
     (if identityDoc s = None then [UploadIdentity] else []) @ (if addressDoc s = None then [UploadAddress] else [])"

definition handleSubmit :: "kyc_world \<Rightarrow> kyc_world" where
  "handleSubmit s = (if submitValidationErrors s \<noteq> [] then s else s\<lparr>kw_submit := Some (kw_idDocType s, kw_addressDocType s)\<rparr>)"

section \<open>The server\<close>

definition VALID_IDENTITY_TYPES :: "string list" where
  "VALID_IDENTITY_TYPES = [''passport'', ''national_id'', ''driving_licence'']"

definition VALID_ADDRESS_TYPES :: "string list" where
  "VALID_ADDRESS_TYPES = [''utility'', ''bank_statement'', ''tax'', ''other'']"

definition VALID_DOC_TYPES :: "string list" where
  "VALID_DOC_TYPES = [''identity_front'', ''identity_back'', ''proof_of_address'']"

definition ALLOWED_TYPES :: "string list" where
  "ALLOWED_TYPES = [''image/jpeg'', ''image/png'', ''image/webp'', ''application/pdf'']"

definition latest :: "KycSubmission list \<Rightarrow> KycSubmission option" where
  "latest db = (if db = [] then None else Some (last db))"

definition replace_sub :: "(KycSubmission \<Rightarrow> KycSubmission) \<Rightarrow> string \<Rightarrow> KycSubmission list \<Rightarrow> KycSubmission list" where
  "replace_sub f i db = map (\<lambda>x. if ks_id x = i then f x else x) db"

text \<open>\<open>None\<close>: the request is refused. \<open>new\<close> and \<open>doc\<close> are fresh identifiers.\<close>

definition upload_document :: "string \<Rightarrow> string \<Rightarrow> upload_request \<Rightarrow> KycSubmission list \<Rightarrow> KycSubmission list option" where
  "upload_document new doc q db =
     (let d = \<lparr>kd_id = doc, kd_type = uq_document_type q, kd_file = uf_name (uq_file q)\<rparr> in
      if \<not> list_ex (\<lambda>a. startsWith (uf_type (uq_file q)) a) ALLOWED_TYPES then None
      else if MAX_FILE_BYTES < uf_size (uq_file q) then None
      else if uq_document_type q \<notin> set VALID_DOC_TYPES then None
      else case uq_submission q of
        Some i \<Rightarrow> (case find (\<lambda>x. ks_id x = i) db of
            None \<Rightarrow> None
          | Some x \<Rightarrow> if ks_status x = Approved then None else Some (replace_sub (\<lambda>x. x\<lparr>ks_docs := ks_docs x @ [d]\<rparr>) i db))
      | None \<Rightarrow> Some (db @ [\<lparr>ks_id = new, ks_status = Draft, ks_identity = None, ks_address = None, ks_reason = None, ks_docs = [d]\<rparr>]))"

definition submit_kyc :: "string \<Rightarrow> string \<Rightarrow> KycSubmission list \<Rightarrow> KycSubmission list option" where
  "submit_kyc idType addressType db =
     (if trim idType \<notin> set VALID_IDENTITY_TYPES \<or> trim addressType \<notin> set VALID_ADDRESS_TYPES then None
      else case latest db of
        None \<Rightarrow> None
      | Some x \<Rightarrow>
          if ks_status x \<in> {Approved, Pending, UnderReview} then None
          else if \<not> list_ex identity_doc (ks_docs x) \<or> \<not> list_ex address_doc (ks_docs x) then None
          else Some (replace_sub (\<lambda>x. x\<lparr>ks_status := Pending, ks_identity := Some (trim idType), ks_address := Some (trim addressType)\<rparr>) (ks_id x) db))"

definition reviewable :: "KycStatus \<Rightarrow> bool" where
  "reviewable st \<longleftrightarrow> st = Pending \<or> st = UnderReview"

definition approve_kyc :: "string \<Rightarrow> KycSubmission list \<Rightarrow> KycSubmission list option" where
  "approve_kyc i db =
     (case find (\<lambda>x. ks_id x = i) db of
        Some x \<Rightarrow> if reviewable (ks_status x) then Some (replace_sub (\<lambda>x. x\<lparr>ks_status := Approved\<rparr>) i db) else None
      | None \<Rightarrow> None)"

definition reject_kyc :: "string \<Rightarrow> string \<Rightarrow> KycSubmission list \<Rightarrow> KycSubmission list option" where
  "reject_kyc reason i db =
     (if trim reason = [] then None
      else case find (\<lambda>x. ks_id x = i) db of
        Some x \<Rightarrow> if reviewable (ks_status x) then Some (replace_sub (\<lambda>x. x\<lparr>ks_status := Rejected, ks_reason := Some (trim reason)\<rparr>) i db) else None
      | None \<Rightarrow> None)"

definition stored :: "KycSubmission list option \<Rightarrow> kyc_world \<Rightarrow> kyc_world" where
  "stored r s = (case r of Some db \<Rightarrow> s\<lparr>kw_db := db\<rparr> | None \<Rightarrow> s)"

section \<open>The reviewer\<close>

record review_modal =
  rm_submission :: "KycSubmission option"
  rm_reason :: string
  rm_showReject :: bool

definition showReviewActions :: "bool \<Rightarrow> review_modal \<Rightarrow> bool" where
  "showReviewActions canApproveReject m \<longleftrightarrow>
     (case rm_submission m of Some x \<Rightarrow> ks_status x = Pending \<or> ks_status x = UnderReview | None \<Rightarrow> False) \<and> canApproveReject"

text \<open>The first press asks for the reason; \<open>Some\<close> the reason that is sent.\<close>

definition handleReject :: "review_modal \<Rightarrow> review_modal \<times> string option" where
  "handleReject m =
     (if \<not> rm_showReject m then (m\<lparr>rm_showReject := True\<rparr>, None)
      else if trim (rm_reason m) = [] then (m, None) else (m, Some (trim (rm_reason m))))"

section \<open>Runs\<close>

text \<open>Requests of the user are served in any order; a reviewer acts on any submission; the page is loaded again at any time.\<close>

datatype kyc_event =
    KyIdType string | KyAddressType string | KyNext | KyBack | KyStep nat | KyIdentity upload_file | KyAddress upload_file
  | KyServe nat string string | KyLoad | KySubmit | KyServeSubmit | KyApprove string | KyReject string string

fun kyc_do :: "kyc_event \<Rightarrow> kyc_world \<Rightarrow> kyc_world" where
  "kyc_do (KyIdType t) s = s\<lparr>kw_idDocType := t\<rparr>"
| "kyc_do (KyAddressType t) s = s\<lparr>kw_addressDocType := t\<rparr>"
| "kyc_do KyNext s = handleNext s"
| "kyc_do KyBack s = handleBack s"
| "kyc_do (KyStep n) s = s\<lparr>kw_step := n\<rparr>"
| "kyc_do (KyIdentity f) s = handleIdentityFile f s"
| "kyc_do (KyAddress f) s = handleAddressFile f s"
| "kyc_do (KyServe i new doc) s =
     stored (upload_document new doc (kw_uploads s ! i) (kw_db s)) (s\<lparr>kw_uploads := take i (kw_uploads s) @ drop (Suc i) (kw_uploads s)\<rparr>)"
| "kyc_do KyLoad s = kyc_loaded (latest (kw_db s)) s"
| "kyc_do KySubmit s = handleSubmit s"
| "kyc_do KyServeSubmit s =
     (case kw_submit s of Some (a, b) \<Rightarrow> stored (submit_kyc a b (kw_db s)) (s\<lparr>kw_submit := None\<rparr>) | None \<Rightarrow> s)"
| "kyc_do (KyApprove i) s = stored (approve_kyc i (kw_db s)) s"
| "kyc_do (KyReject r i) s = stored (reject_kyc r i (kw_db s)) s"

fun kyc_enabled :: "kyc_event \<Rightarrow> kyc_world \<Rightarrow> bool" where
  "kyc_enabled (KyIdType t) s = (editable s \<and> t \<in> set VALID_IDENTITY_TYPES)"
| "kyc_enabled (KyAddressType t) s = (editable s \<and> t \<in> set VALID_ADDRESS_TYPES)"
| "kyc_enabled KyNext s = (editable s \<and> canGoNext s)"
| "kyc_enabled KyBack s = editable s"
| "kyc_enabled (KyStep n) s = (editable s \<and> n \<in> {1, 2, 3})"
| "kyc_enabled (KyIdentity f) s = (editable s \<and> kw_step s = 1)"
| "kyc_enabled (KyAddress f) s = (editable s \<and> kw_step s = 2)"
| "kyc_enabled (KyServe i new doc) s = (i < length (kw_uploads s) \<and> new \<notin> ks_id ` set (kw_db s))"
| "kyc_enabled KySubmit s = (editable s \<and> kw_step s = 3 \<and> submitValidationErrors s = [] \<and> kw_submit s = None)"
| "kyc_enabled _ s = True"

section \<open>What holds of the submissions\<close>

definition choice_ok :: "string list \<Rightarrow> string option \<Rightarrow> bool" where
  "choice_ok valid v \<longleftrightarrow> (case v of Some t \<Rightarrow> t \<in> set valid | None \<Rightarrow> True)"

definition types_ok :: "KycSubmission \<Rightarrow> bool" where
  "types_ok x \<longleftrightarrow> choice_ok VALID_IDENTITY_TYPES (ks_identity x) \<and> choice_ok VALID_ADDRESS_TYPES (ks_address x)"

text \<open>Everything a reviewer needs.\<close>

definition complete :: "KycSubmission \<Rightarrow> bool" where
  "complete x \<longleftrightarrow> list_ex identity_doc (ks_docs x) \<and> list_ex address_doc (ks_docs x) \<and> ks_identity x \<noteq> None \<and> ks_address x \<noteq> None"

definition sub_ok :: "KycSubmission \<Rightarrow> bool" where
  "sub_ok x \<longleftrightarrow> types_ok x \<and> (ks_status x \<noteq> Draft \<longrightarrow> complete x)"

definition db_ok :: "KycSubmission list \<Rightarrow> bool" where
  "db_ok db \<longleftrightarrow> distinct (map ks_id db) \<and> list_all sub_ok db"

definition page_ok :: "kyc_world \<Rightarrow> bool" where
  "page_ok s \<longleftrightarrow> kw_idDocType s \<in> insert [] (set VALID_IDENTITY_TYPES) \<and> kw_addressDocType s \<in> insert [] (set VALID_ADDRESS_TYPES) \<and>
     (case kw_submission s of Some x \<Rightarrow> types_ok x | None \<Rightarrow> True)"

definition kyc_inv :: "kyc_world \<Rightarrow> bool" where
  "kyc_inv s \<longleftrightarrow> db_ok (kw_db s) \<and> page_ok s"

lemma replaced_ids: "(\<And>x. ks_id (f x) = ks_id x) \<Longrightarrow> map ks_id (replace_sub f i db) = map ks_id db"
  by (induction db) (auto simp: replace_sub_def)

lemma db_ok_replace:
  assumes "db_ok db" "\<And>x. ks_id (f x) = ks_id x" "\<And>x. x \<in> set db \<Longrightarrow> ks_id x = i \<Longrightarrow> sub_ok (f x)" shows "db_ok (replace_sub f i db)"
proof -
  have "sub_ok y" if "y \<in> set (replace_sub f i db)" for y using that assms(1,3) by (auto simp: replace_sub_def db_ok_def list_all_iff)
  then show ?thesis using assms(1) replaced_ids [of f, OF assms(2)] by (simp add: db_ok_def list_all_iff)
qed

lemma found_sub: "db_ok db \<Longrightarrow> find (\<lambda>x. ks_id x = i) db = Some x \<Longrightarrow> y \<in> set db \<Longrightarrow> ks_id y = i \<Longrightarrow> y = x"
  by (auto simp: db_ok_def find_Some_iff distinct_map inj_on_def)

lemma trim_valid: "t \<in> set VALID_IDENTITY_TYPES \<or> t \<in> set VALID_ADDRESS_TYPES \<Longrightarrow> trim t = t"
proof -
  have "list_all (\<lambda>t. trim t = t) (VALID_IDENTITY_TYPES @ VALID_ADDRESS_TYPES)" by code_simp
  then show "t \<in> set VALID_IDENTITY_TYPES \<or> t \<in> set VALID_ADDRESS_TYPES \<Longrightarrow> ?thesis" by (auto simp: list_all_iff)
qed

lemma upload_ok: assumes "db_ok db" "new \<notin> ks_id ` set db" "upload_document new doc q db = Some db'" shows "db_ok db'"
proof (cases "uq_submission q")
  case None
  then show ?thesis using assms by (auto simp: upload_document_def Let_def db_ok_def sub_ok_def types_ok_def choice_ok_def split: if_splits)
next
  case (Some i)
  let ?d = "\<lparr>kd_id = doc, kd_type = uq_document_type q, kd_file = uf_name (uq_file q)\<rparr>"
  have db: "db' = replace_sub (\<lambda>x. x\<lparr>ks_docs := ks_docs x @ [?d]\<rparr>) i db"
    using assms(3) Some by (simp add: upload_document_def Let_def split: if_splits option.splits)
  show ?thesis unfolding db
    by (rule db_ok_replace [OF assms(1)]) (use assms(1) in \<open>auto simp: db_ok_def list_all_iff sub_ok_def types_ok_def complete_def\<close>)
qed

lemma submit_ok: assumes "db_ok db" "submit_kyc a b db = Some db'" shows "db_ok db'"
proof -
  obtain x where x: "latest db = Some x" "trim a \<in> set VALID_IDENTITY_TYPES" "trim b \<in> set VALID_ADDRESS_TYPES"
    "list_ex identity_doc (ks_docs x)" "list_ex address_doc (ks_docs x)"
    "db' = replace_sub (\<lambda>x. x\<lparr>ks_status := Pending, ks_identity := Some (trim a), ks_address := Some (trim b)\<rparr>) (ks_id x) db"
    using assms(2) by (auto simp: submit_kyc_def split: if_splits option.splits)
  have in_db: "x \<in> set db" using x(1) by (auto simp: latest_def split: if_splits)
  have same: "y = x" if "y \<in> set db" "ks_id y = ks_id x" for y using that in_db assms(1) by (auto simp: db_ok_def distinct_map inj_on_def)
  show ?thesis unfolding x(6)
    by (rule db_ok_replace [OF assms(1)]) (use x same in \<open>auto simp: sub_ok_def types_ok_def choice_ok_def complete_def\<close>)
qed

lemma review_ok:
  assumes "db_ok db" "find (\<lambda>x. ks_id x = i) db = Some x" "reviewable (ks_status x)" "st \<noteq> Draft"
  shows "db_ok (replace_sub (\<lambda>x. x\<lparr>ks_status := st\<rparr>) i db)" "db_ok (replace_sub (\<lambda>x. x\<lparr>ks_status := st, ks_reason := r\<rparr>) i db)"
proof -
  have "sub_ok y \<and> ks_status y \<noteq> Draft" if "y \<in> set db" "ks_id y = i" for y
    using found_sub [OF assms(1,2) that] that assms(1,3) by (auto simp: db_ok_def list_all_iff reviewable_def)
  then have "\<And>y. y \<in> set db \<Longrightarrow> ks_id y = i \<Longrightarrow> sub_ok (y\<lparr>ks_status := st\<rparr>)"
    "\<And>y. y \<in> set db \<Longrightarrow> ks_id y = i \<Longrightarrow> sub_ok (y\<lparr>ks_status := st, ks_reason := r\<rparr>)"
    by (auto simp: sub_ok_def types_ok_def complete_def)
  then show "db_ok (replace_sub (\<lambda>x. x\<lparr>ks_status := st\<rparr>) i db)" "db_ok (replace_sub (\<lambda>x. x\<lparr>ks_status := st, ks_reason := r\<rparr>) i db)"
    by (auto intro!: db_ok_replace [OF assms(1)])
qed

lemma approve_ok: "db_ok db \<Longrightarrow> approve_kyc i db = Some db' \<Longrightarrow> db_ok db'"
  using review_ok(1) by (auto simp: approve_kyc_def split: option.splits if_splits)

lemma reject_ok: "db_ok db \<Longrightarrow> reject_kyc r i db = Some db' \<Longrightarrow> db_ok db'"
  using review_ok(2) by (auto simp: reject_kyc_def split: option.splits if_splits)

lemma stored_inv: "kyc_inv s \<Longrightarrow> (\<And>db. r = Some db \<Longrightarrow> db_ok db) \<Longrightarrow> kyc_inv (stored r s)"
  by (cases r) (auto simp: stored_def kyc_inv_def page_ok_def)

lemma loaded_inv: assumes "kyc_inv s" shows "kyc_inv (kyc_loaded (latest (kw_db s)) s)"
proof (cases "latest (kw_db s)")
  case None
  then show ?thesis using assms by (simp add: kyc_loaded_def Let_def kyc_inv_def page_ok_def)
next
  case (Some x)
  then have "x \<in> set (kw_db s)" by (auto simp: latest_def split: if_splits)
  then have "types_ok x" using assms by (auto simp: kyc_inv_def db_ok_def list_all_iff sub_ok_def)
  then show ?thesis using assms Some
    by (auto simp: kyc_loaded_def Let_def kyc_inv_def page_ok_def types_ok_def choice_ok_def truthy_def split: option.splits)
qed

lemma kyc_inv_step: assumes "kyc_inv s" "kyc_enabled e s" shows "kyc_inv (kyc_do e s)"
proof (cases e)
  case (KyServe i new doc)
  have "kyc_inv (s\<lparr>kw_uploads := us\<rparr>)" for us using assms(1) by (simp add: kyc_inv_def page_ok_def)
  moreover have "db_ok db" if "upload_document new doc (kw_uploads s ! i) (kw_db s) = Some db" for db
    using upload_ok that assms KyServe by (auto simp: kyc_inv_def)
  ultimately show ?thesis unfolding KyServe kyc_do.simps by (intro stored_inv)
next
  case KyLoad
  then show ?thesis using loaded_inv [OF assms(1)] by simp
next
  case KyServeSubmit
  have "kyc_inv (s\<lparr>kw_submit := None\<rparr>)" using assms(1) by (simp add: kyc_inv_def page_ok_def)
  moreover have "db_ok db" if "submit_kyc a b (kw_db s) = Some db" for a b db using submit_ok that assms(1) by (auto simp: kyc_inv_def)
  ultimately have "kyc_inv (stored (submit_kyc a b (kw_db s)) (s\<lparr>kw_submit := None\<rparr>))" for a b by (intro stored_inv)
  then show ?thesis using KyServeSubmit assms(1) by (cases "kw_submit s") auto
next
  case (KyApprove i)
  have "db_ok db" if "approve_kyc i (kw_db s) = Some db" for db using approve_ok that assms(1) by (auto simp: kyc_inv_def)
  then show ?thesis using assms(1) unfolding KyApprove kyc_do.simps by (intro stored_inv)
next
  case (KyReject r i)
  have "db_ok db" if "reject_kyc r i (kw_db s) = Some db" for db using reject_ok that assms(1) by (auto simp: kyc_inv_def)
  then show ?thesis using assms(1) unfolding KyReject kyc_do.simps by (intro stored_inv)
qed (use assms in \<open>auto simp: kyc_inv_def page_ok_def handleNext_def handleBack_def handleIdentityFile_def handleAddressFile_def handle_file_def handleSubmit_def\<close>)

interpretation kyi: invariant_system kyc_enabled kyc_do kyc_inv "\<lambda>s. s = kyc_init"
  by unfold_locales (rule kyc_inv_step, assumption+, simp add: kyc_inv_def page_ok_def db_ok_def kyc_init_def)

lemma kyc_run_inv: "run kyc_enabled kyc_do es kyc_init = Some s \<Longrightarrow> kyc_inv s"
  by (rule kyi.reach_inv) (rule run_start [where init = "\<lambda>s. s = kyc_init"], simp_all)

section \<open>Approved for good\<close>







section \<open>The page and the server agree\<close>

text \<open>C28. When the page shows the latest submission, the server accepts what it would submit exactly when the page does: it is editable and its
  checklist is empty.\<close>

theorem kyc_submit_agrees:
  assumes "run kyc_enabled kyc_do es kyc_init = Some s" "kw_submission s = latest (kw_db s)"
  shows "submit_kyc (kw_idDocType s) (kw_addressDocType s) (kw_db s) \<noteq> None \<longleftrightarrow> editable s \<and> submitValidationErrors s = []"
proof -
  have p: "page_ok s" using kyc_run_inv [OF assms(1)] by (simp add: kyc_inv_def)
  have nil: "trim [] \<notin> set VALID_IDENTITY_TYPES" "trim [] \<notin> set VALID_ADDRESS_TYPES" by (simp_all add: VALID_IDENTITY_TYPES_def VALID_ADDRESS_TYPES_def)
  have t: "trim (kw_idDocType s) \<in> set VALID_IDENTITY_TYPES \<longleftrightarrow> kw_idDocType s \<noteq> []" "trim (kw_addressDocType s) \<in> set VALID_ADDRESS_TYPES \<longleftrightarrow> kw_addressDocType s \<noteq> []"
    using p nil trim_valid by (auto simp: page_ok_def)
  have ex: "find P xs \<noteq> None \<longleftrightarrow> list_ex P xs" for P :: "KycDocument \<Rightarrow> bool" and xs by (auto simp: find_None_iff list_ex_iff)
  have e: "submitValidationErrors s = [] \<longleftrightarrow> kw_idDocType s \<noteq> [] \<and> kw_addressDocType s \<noteq> [] \<and> identityDoc s \<noteq> None \<and> addressDoc s \<noteq> None"
    by (simp add: submitValidationErrors_def)
  have d: "identityDoc s \<noteq> None \<longleftrightarrow> list_ex identity_doc (docs_of (latest (kw_db s)))" "addressDoc s \<noteq> None \<longleftrightarrow> list_ex address_doc (docs_of (latest (kw_db s)))"
    unfolding identityDoc_def addressDoc_def assms(2) by (rule ex)+
  show ?thesis
  proof (cases "latest (kw_db s)")
    case None
    then show ?thesis using d by (simp add: e docs_of_def submit_kyc_def)
  next
    case (Some x)
    then have st: "editable s \<longleftrightarrow> ks_status x \<notin> {Approved, Pending, UnderReview}"
      using assms(2) by (cases "ks_status x") (simp_all add: editable_def toDisplayStatus_def)
    have "identityDoc s \<noteq> None \<longleftrightarrow> list_ex identity_doc (ks_docs x)" "addressDoc s \<noteq> None \<longleftrightarrow> list_ex address_doc (ks_docs x)"
      using d Some by (simp_all add: docs_of_def)
    then show ?thesis using Some by (auto simp: e st submit_kyc_def t)
  qed
qed

section \<open>Concrete runs\<close>

definition photo :: "string \<Rightarrow> upload_file" where
  "photo n = \<lparr>uf_name = n, uf_size = 200000, uf_type = ''image/png''\<rparr>"

text \<open>Documents, types, and the last step of the page.\<close>

definition prepared :: "kyc_event list" where
  "prepared = [KyIdType ''passport'', KyIdentity (photo ''id1''), KyServe 0 ''s1'' ''d1'', KyLoad, KyNext, KyAddressType ''utility'',
     KyAddress (photo ''ad1''), KyServe 0 ''s2'' ''d2'', KyLoad, KyNext]"

definition submitted :: "kyc_event list" where
  "submitted = prepared @ [KySubmit, KyServeSubmit]"

definition status_of :: "kyc_world \<Rightarrow> KycStatus list" where
  "status_of s = map ks_status (kw_db s)"

lemma some_run: "(case run kyc_enabled kyc_do es s of Some t \<Rightarrow> P t | None \<Rightarrow> False) \<Longrightarrow> \<exists>t. run kyc_enabled kyc_do es s = Some t \<and> P t"
  by (cases "run kyc_enabled kyc_do es s") auto


lemma kyc_submit_agrees_witness:
  "\<exists>s. run kyc_enabled kyc_do prepared kyc_init = Some s \<and> editable s \<and> submit_kyc (kw_idDocType s) (kw_addressDocType s) (kw_db s) \<noteq> None"
proof -
  have "case run kyc_enabled kyc_do prepared kyc_init of
      Some s \<Rightarrow> kw_submission s = latest (kw_db s) \<and> editable s \<and> submitValidationErrors s = [] | None \<Rightarrow> False" by code_simp
  then obtain s where s: "run kyc_enabled kyc_do prepared kyc_init = Some s" "kw_submission s = latest (kw_db s)" "editable s" "submitValidationErrors s = []"
    using some_run by fast
  then show ?thesis using kyc_submit_agrees [OF s(1,2)] by blast
qed

section \<open>What goes wrong\<close>

text \<open>
  When both first documents are uploaded before the page is loaded again, each request makes a submission of its own. The page
  then knows the later one only and asks for the identity document that was uploaded.
\<close>

lemma first_uploads_split:
  "case run kyc_enabled kyc_do [KyIdentity (photo ''id1''), KyStep 2, KyAddress (photo ''ad1''), KyServe 0 ''s1'' ''d1'', KyServe 0 ''s2'' ''d2'', KyLoad] kyc_init of
     Some s \<Rightarrow> map ks_id (kw_db s) = [''s1'', ''s2''] \<and> identityDoc s = None \<and> addressDoc s \<noteq> None | None \<Rightarrow> False"
  by code_simp

text \<open>After a rejection a replaced file is added behind the old one: the page still shows the rejected document.\<close>

lemma replaced_not_shown:
  "case run kyc_enabled kyc_do (submitted @ [KyReject ''blurred'' ''s1'', KyLoad, KyStep 1, KyIdentity (photo ''id2''), KyServe 0 ''s3'' ''d3'', KyLoad]) kyc_init of
     Some s \<Rightarrow> map_option kd_file (identityDoc s) = Some ''id1'' | None \<Rightarrow> False"
  by code_simp

text \<open>The page locks a submission under review, the server does not: an upload that was under way still changes it.\<close>

lemma locked_not_enforced:
  "case run kyc_enabled kyc_do (prepared @ [KyStep 1, KyIdentity (photo ''id2''), KyStep 3, KySubmit, KyServeSubmit, KyServe 0 ''s3'' ''d3'']) kyc_init of
     Some s \<Rightarrow> status_of s = [Pending] \<and> map (map kd_file \<circ> ks_docs) (kw_db s) = [[''id1'', ''ad1'', ''id2'']] | None \<Rightarrow> False"
  by code_simp

text \<open>A file the page accepts is not refused for its type or size, provided its type is written in small letters.\<close>

lemma accepted_file:
  assumes "validateFile f" "toLowerCase (uf_type f) = uf_type f"
  shows "list_ex (\<lambda>a. startsWith (uf_type f) a) ALLOWED_TYPES \<and> uf_size f \<le> MAX_FILE_BYTES"
proof -
  have "startsWith t t" for t using startsWith_append [of t "[]"] by simp
  then show ?thesis using assms by (auto simp: validateFile_def ALLOWED_FILE_TYPES_def ALLOWED_TYPES_def)
qed

end
