(* ===== verification/Session_Templates.thy ===== *)
theory Session_Templates
  imports Js_Text Js_Sort Machine
begin

text \<open>
  The weekly hours of the markets: the editor of a template (\<open>WeeklyScheduleEditor.tsx\<close>,
  \<open>SessionTemplateForm.tsx\<close>), its requests (\<open>sessionTemplates.api.ts\<close>), the holidays of a template
  (\<open>TemplateHolidaysPanel.tsx\<close>), and what the server stores, answers and opens
  (\<open>admin_sessions_service.rs\<close>, \<open>market_sessions.rs\<close>). Times of the server are seconds of the day; reading a
  text as a time is the parameter \<open>nt\<close>, the library \<open>chrono\<close>.
\<close>

section \<open>Times as text\<close>

definition two :: "nat \<Rightarrow> string" where
  "two n = [digit_char (n div 10), digit_char (n mod 10)]"

definition hm :: "nat \<Rightarrow> string" where
  "hm m = two (m div 60) @ '':'' @ two (m mod 60)"

definition hms :: "nat \<Rightarrow> string" where
  "hms t = hm (t div 60) @ '':'' @ two (t mod 60)"

text \<open>The patterns \<open>^\d{2}:\d{2}\<close> and \<open>^\d{2}:\d{2}$\<close>.\<close>

definition hm_start :: "string \<Rightarrow> bool" where
  "hm_start s \<longleftrightarrow> 5 \<le> length s \<and> is_digit (s ! 0) \<and> is_digit (s ! 1) \<and> s ! 2 = CHR '':'' \<and>
     is_digit (s ! 3) \<and> is_digit (s ! 4)"

definition hm_only :: "string \<Rightarrow> bool" where
  "hm_only s \<longleftrightarrow> length s = 5 \<and> hm_start s"

definition normalizeTimeForApi :: "string \<Rightarrow> string" where
  "normalizeTimeForApi s = (let t = trim s in
     if t = [] then ''00:00:00'' else if hm_only t then t @ '':00'' else t)"

definition normalizeTimeForInput :: "string \<Rightarrow> string" where
  "normalizeTimeForInput s = (let t = trim s in
     if t = [] then ''09:00'' else if 5 \<le> length t \<and> hm_start t then take 5 t else t)"

definition toTimeInputValue :: "string option \<Rightarrow> string" where
  "toTimeInputValue t = (case t of None \<Rightarrow> [] | Some x \<Rightarrow> if x = [] then [] else take 5 (trim x))"

text \<open>\<open><\<close> of JavaScript on strings.\<close>

fun js_less :: "string \<Rightarrow> string \<Rightarrow> bool" where
  "js_less s [] = False"
| "js_less [] (c # t) = True"
| "js_less (a # s) (b # t) = ((of_char a :: nat) < of_char b \<or> a = b \<and> js_less s t)"

section \<open>The editor of the week\<close>

record WeeklyWindow =
  ww_id :: "string option"
  ww_day :: int
  ww_open :: string
  ww_close :: string

definition byDay :: "(string \<Rightarrow> string \<Rightarrow> int) \<Rightarrow> WeeklyWindow list \<Rightarrow> int \<Rightarrow> WeeklyWindow list" where
  "byDay lc ws d = js_sort (\<lambda>a b. Num (of_int (lc (ww_open a) (ww_open b))))
     (filter (\<lambda>w. min 6 (max 0 (ww_day w)) = d) ws)"

definition updateDay :: "int \<Rightarrow> WeeklyWindow list \<Rightarrow> WeeklyWindow list \<Rightarrow> WeeklyWindow list" where
  "updateDay d slots ws = filter (\<lambda>w. ww_day w \<noteq> d) ws @ slots"

definition addSlot :: "(string \<Rightarrow> string \<Rightarrow> int) \<Rightarrow> int \<Rightarrow> WeeklyWindow list \<Rightarrow> WeeklyWindow list" where
  "addSlot lc d ws = updateDay d (byDay lc ws d @
     [\<lparr>ww_id = None, ww_day = d, ww_open = ''09:00'', ww_close = ''17:00''\<rparr>]) ws"

definition removeSlot :: "(string \<Rightarrow> string \<Rightarrow> int) \<Rightarrow> int \<Rightarrow> nat \<Rightarrow> WeeklyWindow list \<Rightarrow> WeeklyWindow list" where
  "removeSlot lc d i ws = updateDay d (take i (byDay lc ws d) @ drop (Suc i) (byDay lc ws d)) ws"

datatype slot_patch = OpenTime string | CloseTime string

fun apply_patch :: "slot_patch \<Rightarrow> WeeklyWindow \<Rightarrow> WeeklyWindow" where
  "apply_patch (OpenTime s) w = w\<lparr>ww_open := s\<rparr>"
| "apply_patch (CloseTime s) w = w\<lparr>ww_close := s\<rparr>"

definition patchSlot ::
  "(string \<Rightarrow> string \<Rightarrow> int) \<Rightarrow> int \<Rightarrow> nat \<Rightarrow> slot_patch \<Rightarrow> WeeklyWindow list \<Rightarrow> WeeklyWindow list" where
  "patchSlot lc d i p ws = (let next = byDay lc ws d in
     if i < length next then updateDay d (next[i := (apply_patch p (next ! i))\<lparr>ww_day := d\<rparr>]) ws else ws)"

datatype schedule_edit = AddSlot int | RemoveSlot int nat | PatchSlot int nat slot_patch

fun schedule_do :: "(string \<Rightarrow> string \<Rightarrow> int) \<Rightarrow> schedule_edit \<Rightarrow> WeeklyWindow list \<Rightarrow> WeeklyWindow list" where
  "schedule_do lc (AddSlot d) ws = addSlot lc d ws"
| "schedule_do lc (RemoveSlot d i) ws = removeSlot lc d i ws"
| "schedule_do lc (PatchSlot d i p) ws = patchSlot lc d i p ws"

text \<open>The row of a slot is known by its key, and what is typed goes to the row that has the focus.\<close>

definition row_key :: "int \<Rightarrow> nat \<Rightarrow> WeeklyWindow \<Rightarrow> string" where
  "row_key d i w = (case ww_id w of Some k \<Rightarrow> k | None \<Rightarrow> ''d'' @ show_int d @ ''-i'' @ show_int (int i))"

definition type_in ::
  "(string \<Rightarrow> string \<Rightarrow> int) \<Rightarrow> int \<Rightarrow> string \<Rightarrow> slot_patch \<Rightarrow> WeeklyWindow list \<Rightarrow> WeeklyWindow list" where
  "type_in lc d k p ws = (let rows = byDay lc ws d in
     case filter (\<lambda>i. row_key d i (rows ! i) = k) [0..<length rows] of
       [] \<Rightarrow> ws | i # _ \<Rightarrow> patchSlot lc d i p ws)"

section \<open>The form\<close>

record SessionTemplate =
  st_id :: string
  st_name :: string
  st_timezone :: string
  st_description :: "string option"
  st_is247 :: bool
  st_market :: "string option"
  st_windows :: "WeeklyWindow list"

record template_form =
  tf_name :: string
  tf_timezone :: string
  tf_description :: string
  tf_is247 :: bool
  tf_market :: string
  tf_windows :: "WeeklyWindow list"

definition MARKET_NONE :: string where
  "MARKET_NONE = ''__session_default_market_none__''"

definition defaultMarkets :: "string list" where
  "defaultMarkets = [MARKET_NONE, ''crypto'', ''forex'', ''commodities'', ''indices'', ''stocks'']"

definition mapInitialWindows :: "SessionTemplate option \<Rightarrow> WeeklyWindow list" where
  "mapInitialWindows t = (case t of None \<Rightarrow> [] | Some x \<Rightarrow> map (\<lambda>w.
     \<lparr>ww_id = ww_id w, ww_day = ww_day w, ww_open = normalizeTimeForInput (ww_open w),
      ww_close = normalizeTimeForInput (ww_close w)\<rparr>) (st_windows x))"

definition form_init :: "SessionTemplate option \<Rightarrow> template_form" where
  "form_init t = (case t of
     None \<Rightarrow> \<lparr>tf_name = [], tf_timezone = ''UTC'', tf_description = [], tf_is247 = False,
              tf_market = MARKET_NONE, tf_windows = mapInitialWindows None\<rparr>
   | Some x \<Rightarrow> \<lparr>tf_name = st_name x, tf_timezone = st_timezone x,
              tf_description = (case st_description x of None \<Rightarrow> [] | Some s \<Rightarrow> s), tf_is247 = st_is247 x,
              tf_market = (case st_market x of None \<Rightarrow> MARKET_NONE | Some m \<Rightarrow> m),
              tf_windows = mapInitialWindows (Some x)\<rparr>)"

text \<open>Where an issue of the form stands. Issues of the refinement are looked for unless a value has a wrong kind.\<close>

datatype issue_path = AtName | AtTimezone | AtMarket | AtDay nat | AtOpen nat | AtClose nat

definition window_issues :: "nat \<Rightarrow> WeeklyWindow \<Rightarrow> issue_path list" where
  "window_issues i w =
     (if ww_day w < 0 \<or> 6 < ww_day w then [AtDay i] else []) @
     (if ww_open w = [] then [AtOpen i] else []) @ (if ww_close w = [] then [AtClose i] else [])"

definition refine_issues :: "template_form \<Rightarrow> issue_path list" where
  "refine_issues f = (if tf_is247 f then [] else
     concat (map (\<lambda>(i, w). if \<not> js_less (ww_open w) (ww_close w) then [AtClose i] else [])
       (enumerate 0 (tf_windows f))))"

definition schema_issues :: "template_form \<Rightarrow> issue_path list" where
  "schema_issues f =
     (if tf_name f = [] \<or> 64 < length (tf_name f) then [AtName] else []) @
     (if tf_timezone f = [] then [AtTimezone] else []) @
     (if tf_market f \<notin> set defaultMarkets then [AtMarket] else []) @
     concat (map (\<lambda>(i, w). window_issues i w) (enumerate 0 (tf_windows f))) @
     (if tf_market f \<notin> set defaultMarkets then [] else refine_issues f)"

text \<open>The messages under the fields: of the name and the zone; that of the windows only for an issue of the whole list.\<close>

definition shown_messages :: "template_form \<Rightarrow> issue_path list" where
  "shown_messages f = filter (\<lambda>p. p = AtName \<or> p = AtTimezone) (schema_issues f)"

record template_request =
  tq_target :: "string option"
  tq_name :: string
  tq_timezone :: string
  tq_description :: "string option"
  tq_is247 :: bool
  tq_market :: "string option"
  tq_windows :: "(int \<times> string \<times> string) list"

definition windowsToBody :: "WeeklyWindow list \<Rightarrow> (int \<times> string \<times> string) list" where
  "windowsToBody = map (\<lambda>w. (ww_day w, normalizeTimeForApi (ww_open w), normalizeTimeForApi (ww_close w)))"

definition onSubmit :: "SessionTemplate option \<Rightarrow> template_form \<Rightarrow> template_request" where
  "onSubmit initial f =
     \<lparr>tq_target = map_option st_id initial, tq_name = trim (tf_name f), tq_timezone = trim (tf_timezone f),
      tq_description = (let s = trim (tf_description f) in if s = [] then None else Some s),
      tq_is247 = tf_is247 f,
      tq_market = (if tf_market f = MARKET_NONE then None else Some (tf_market f)),
      tq_windows = windowsToBody (if tf_is247 f then [] else tf_windows f)\<rparr>"

definition submit_form :: "SessionTemplate option \<Rightarrow> template_form \<Rightarrow> template_request option" where
  "submit_form initial f = (if schema_issues f = [] then Some (onSubmit initial f) else None)"

section \<open>The server\<close>

datatype time_format = HMS | HM

definition parse_time :: "(time_format \<Rightarrow> string \<Rightarrow> nat option) \<Rightarrow> string \<Rightarrow> nat option" where
  "parse_time nt s = (case nt HMS (trim s) of Some t \<Rightarrow> Some t | None \<Rightarrow> nt HM (trim s))"

text \<open>Rust's \<open>trim_end_matches\<close>: the suffix is taken off as often as it is there.\<close>

function trim_end_matches :: "string \<Rightarrow> string \<Rightarrow> string" where
  "trim_end_matches p s =
     (if p \<noteq> [] \<and> endsWith s p then trim_end_matches p (take (length s - length p) s) else s)"
  by pat_completeness auto
termination
proof (relation "measure (\<lambda>(p, s). length s)")
  fix p s assume "p \<noteq> [] \<and> endsWith s p"
  then have "length s - length p < length s" by (cases p) (auto simp: endsWith_def)
  then show "((p, take (length s - length p) s), p, s) \<in> measure (\<lambda>(p, s). length s)" by simp
qed simp

declare trim_end_matches.simps [simp del]

definition trim_hms :: "string \<Rightarrow> string" where
  "trim_hms s = (let t = trim s in
     if endsWith t '':00'' \<and> count_list t (CHR '':'') = 2 then trim_end_matches '':00'' t else t)"

definition validate_windows :: "(time_format \<Rightarrow> string \<Rightarrow> nat option) \<Rightarrow> (int \<times> string \<times> string) list \<Rightarrow> bool" where
  "validate_windows nt ws \<longleftrightarrow> ws \<noteq> [] \<and> list_all (\<lambda>(d, a, b). 0 \<le> d \<and> d \<le> 6 \<and>
     (case (parse_time nt a, parse_time nt b) of (Some s, Some e) \<Rightarrow> s < e | _ \<Rightarrow> False)) ws"

text \<open>The rows of a template's windows: day, opening, close.\<close>

type_synonym window_row = "int \<times> nat \<times> nat"

definition save_windows :: "(time_format \<Rightarrow> string \<Rightarrow> nat option) \<Rightarrow> template_request \<Rightarrow> window_row list option" where
  "save_windows nt rq =
     (if tq_is247 rq then Some []
      else if validate_windows nt (tq_windows rq)
        then Some (map (\<lambda>(d, a, b). (d, the (parse_time nt a), the (parse_time nt b))) (tq_windows rq))
      else None)"

definition window_answer :: "string \<times> window_row \<Rightarrow> WeeklyWindow" where
  "window_answer r = (case r of (i, d, a, b) \<Rightarrow>
     \<lparr>ww_id = Some i, ww_day = d, ww_open = trim_hms (hms a), ww_close = trim_hms (hms b)\<rparr>)"

definition is_within_windows :: "window_row list \<Rightarrow> int \<Rightarrow> nat \<Rightarrow> bool" where
  "is_within_windows ws d t \<longleftrightarrow> list_ex (\<lambda>(day, a, b). day = d \<and> a \<le> t \<and> t \<le> b) ws"

text \<open>Whether a market is open, from its template, the holiday of the local date, the local day and time.\<close>

fun get_session_status :: "bool \<Rightarrow> window_row list \<Rightarrow> (string \<times> nat option) option \<Rightarrow> int \<Rightarrow> nat \<Rightarrow> bool" where
  "get_session_status is247 ws hol d t =
     (if is247 then True
      else if ws = [] then False
      else case hol of
        None \<Rightarrow> is_within_windows ws d t
      | Some (ty, half) \<Rightarrow>
          if ty = ''closed'' then False
          else if ty = ''half_day'' then
            (case half of
               None \<Rightarrow> is_within_windows ws d t
             | Some hc \<Rightarrow>
                 (case find (\<lambda>(day, _). day = d) ws of
                    None \<Rightarrow> False
                  | Some (_, a, b) \<Rightarrow> if t < a then False else t < min b hc))
          else is_within_windows ws d t)"

section \<open>Times and their texts\<close>

lemma two_plain: "n < 100 \<Longrightarrow> \<forall>c \<in> set (two n). is_digit c"
  by (simp add: two_def)

lemma colon_facts: "\<not> is_digit (CHR '':'')" "\<not> is_space (CHR '':'')"
  by code_simp+

lemma digit_not_colon: "d < 10 \<Longrightarrow> digit_char d \<noteq> CHR '':''"
  by (metis is_digit_digit_char colon_facts(1))

lemma digit_is_zero: "d < 10 \<Longrightarrow> (digit_char d = CHR ''0'') = (d = 0)"
  by (metis digit_val_digit_char digit_chars(1) zero_less_numeral)

lemma trim_clock: "\<forall>c \<in> set s. is_digit c \<or> c = CHR '':'' \<Longrightarrow> trim s = s"
  by (rule trim_no_space) (use digit_not_space colon_facts in blast)

lemma clock_plain:
  "m < 6000 \<Longrightarrow> \<forall>c \<in> set (hm m). is_digit c \<or> c = CHR '':''"
  "t < 360000 \<Longrightarrow> \<forall>c \<in> set (hms t). is_digit c \<or> c = CHR '':''"
  by (auto simp: hm_def hms_def two_def)

lemma trim_end_step:
  "trim_end_matches '':00'' (s @ [CHR '':'', digit_char a, digit_char b]) =
     (if a = 0 \<and> b = 0 then trim_end_matches '':00'' s else s @ [CHR '':'', digit_char a, digit_char b])"
  if "a < 10" "b < 10"
  using that by (subst trim_end_matches.simps) (simp add: endsWith_def digit_is_zero)

lemma trim_end_short: "length s < 3 \<Longrightarrow> trim_end_matches '':00'' s = s"
  by (subst trim_end_matches.simps) (simp add: endsWith_def)

lemma trim_hms_digits:
  assumes "a < 10" "b < 10" "c < 10" "d < 10" "e < 10" "f < 10"
  shows "trim_hms [digit_char a, digit_char b, CHR '':'', digit_char c, digit_char d, CHR '':'', digit_char e, digit_char f] =
    (if e = 0 \<and> f = 0 then if c = 0 \<and> d = 0 then [digit_char a, digit_char b]
       else [digit_char a, digit_char b, CHR '':'', digit_char c, digit_char d]
     else [digit_char a, digit_char b, CHR '':'', digit_char c, digit_char d, CHR '':'', digit_char e, digit_char f])"
    (is "trim_hms ?s = _")
proof -
  have "trim ?s = ?s" using assms by (intro trim_clock) auto
  then show ?thesis
    using assms trim_end_step [of e f "[digit_char a, digit_char b, CHR '':'', digit_char c, digit_char d]"]
      trim_end_step [of c d "[digit_char a, digit_char b]"]
    by (cases "e = 0 \<and> f = 0") (auto simp: trim_hms_def endsWith_def digit_is_zero digit_not_colon trim_end_short)
qed

text \<open>What the server answers for a time: the seconds go when they are zero, and the minutes with them.\<close>

lemma clock_parts:
  fixes t :: nat
  assumes "t < 86400"
  obtains h m s where "h < 24" "m < 60" "s < 60" "t = 3600 * h + 60 * m + s"
proof
  let ?r = "t mod 3600"
  show "t div 3600 < 24" using assms by simp
  show "?r div 60 < 60" "?r mod 60 < 60" by simp_all
  have "t = 3600 * (t div 3600) + ?r" "?r = 60 * (?r div 60) + ?r mod 60" by (simp_all only: mult_div_mod_eq)
  then show "t = 3600 * (t div 3600) + 60 * (?r div 60) + ?r mod 60" by linarith
qed

lemma div_parts: "r < n \<Longrightarrow> (n * q + r) div n = q" "r < n \<Longrightarrow> (n * q + r) mod n = (r::nat)"
  by simp_all

lemma parts_text:
  assumes "h < 24" "m < 60" "s < 60" "t = 3600 * h + 60 * m + s"
  shows "t div 60 = 60 * h + m" "t div 3600 = h" "t mod 3600 = 0 \<longleftrightarrow> m = 0 \<and> s = 0" "t mod 60 = s"
    "hm (60 * h + m) = two h @ '':'' @ two m" "hms t = two h @ '':'' @ two m @ '':'' @ two s"
proof -
  have t: "t = 60 * (60 * h + m) + s" "t = 3600 * h + (60 * m + s)" using assms by auto
  have k: "60 * m + s < 3600" using assms by simp
  show d: "t div 60 = 60 * h + m" "t mod 60 = s"
    unfolding t(1) by (rule div_parts [OF assms(3)])+
  show "t div 3600 = h" unfolding t(2) by (rule div_parts [OF k])
  show "t mod 3600 = 0 \<longleftrightarrow> m = 0 \<and> s = 0" unfolding t(2) div_parts(2) [OF k] by simp
  show w: "hm (60 * h + m) = two h @ '':'' @ two m" unfolding hm_def div_parts [OF assms(2)] ..
  show "hms t = two h @ '':'' @ two m @ '':'' @ two s" unfolding hms_def d w by simp
qed

lemma tens: "(n div 10 = 0 \<and> n mod 10 = 0) = (n = (0::nat))"
  by presburger

lemma trim_hms_hms:
  assumes "t < 86400"
  shows "trim_hms (hms t) = (if t mod 3600 = 0 then two (t div 3600) else if t mod 60 = 0 then hm (t div 60) else hms t)"
proof -
  obtain h m s where p: "h < 24" "m < 60" "s < 60" "t = 3600 * h + 60 * m + s" using clock_parts [OF assms] .
  have b: "h div 10 < 10" "h mod 10 < 10" "m div 10 < 10" "m mod 10 < 10" "s div 10 < 10" "s mod 10 < 10"
    using p by auto
  have "hms t = [digit_char (h div 10), digit_char (h mod 10), CHR '':'', digit_char (m div 10), digit_char (m mod 10),
      CHR '':'', digit_char (s div 10), digit_char (s mod 10)]"
    unfolding parts_text(6) [OF p] by (simp add: two_def)
  then show ?thesis
    unfolding parts_text [OF p] using trim_hms_digits [OF b] by (simp add: two_def tens)
qed

lemma hm_shape:
  "m < 6000 \<Longrightarrow> length (hm m) = 5 \<and> hm_start (hm m) \<and> trim (hm m) = hm m"
  "m < 6000 \<Longrightarrow> hm_start (hm m @ s) \<and> take 5 (hm m @ s) = hm m"
  using trim_clock [OF clock_plain(1)] by (auto simp: hm_def two_def hm_start_def)

lemma input_of_clock: "m < 6000 \<Longrightarrow> trim (hm m @ s) = hm m @ s \<Longrightarrow> normalizeTimeForInput (hm m @ s) = hm m"
  using hm_shape(1) [of m] hm_shape(2) [of m s] by (auto simp: normalizeTimeForInput_def Let_def)

lemma input_of_hour: "h < 100 \<Longrightarrow> normalizeTimeForInput (two h) = two h"
  using trim_clock [of "two h"] two_plain [of h] by (auto simp: normalizeTimeForInput_def Let_def two_def)

lemma input_of_answer:
  assumes "t < 86400"
  shows "normalizeTimeForInput (trim_hms (hms t)) = (if t mod 3600 = 0 then two (t div 3600) else hm (t div 60))"
proof -
  have m: "t div 60 < 6000" "t div 3600 < 100" using assms by auto
  have "trim (hms t) = hms t" using clock_plain(2) [of t] assms by (intro trim_clock) auto
  then have "normalizeTimeForInput (hms t) = hm (t div 60)" using input_of_clock [OF m(1)] by (simp add: hms_def)
  moreover have "normalizeTimeForInput (hm (t div 60)) = hm (t div 60)"
    using input_of_clock [OF m(1), of "[]"] hm_shape(1) [OF m(1)] by simp
  ultimately show ?thesis using input_of_hour [OF m(2)] by (simp add: trim_hms_hms [OF assms])
qed

lemma api_of_hm:
  assumes "m < 6000"
  shows "normalizeTimeForApi (hm m) = hms (60 * m)"
proof -
  have "hm m \<noteq> []" "hm_only (hm m)" "trim (hm m) = hm m" using hm_shape(1) [OF assms] by (auto simp: hm_only_def)
  moreover have "hms (60 * m) = hm m @ '':00''" by (simp add: hms_def two_def digit_chars)
  ultimately show ?thesis by (simp add: normalizeTimeForApi_def Let_def)
qed

lemma api_of_hour: "h < 100 \<Longrightarrow> normalizeTimeForApi (two h) = two h"
  using trim_clock [of "two h"] two_plain [of h]
  by (auto simp: normalizeTimeForApi_def Let_def hm_only_def two_def)

text \<open>The order of the texts is that of the times.\<close>

lemma digit_code: "d < 10 \<Longrightarrow> e < 10 \<Longrightarrow> (digit_char d = digit_char e) = (d = e)"
  by (metis digit_val_digit_char)

lemma less_by_parts:
  fixes q q' r r' n :: nat
  assumes "r < n" "r' < n"
  shows "(n * q + r < n * q' + r') = (q < q' \<or> q = q' \<and> r < r')" "(n * q + r = n * q' + r') = (q = q' \<and> r = r')"
proof -
  have k: "n * a + x < n * b + y" if "a < b" "x < n" for a b x y
  proof -
    have "n * a + x < n * Suc a" using that by simp
    also have "\<dots> \<le> n * b + y" using that by (simp add: trans_le_add1 del: mult_Suc_right)
    finally show ?thesis .
  qed
  show "(n * q + r < n * q' + r') = (q < q' \<or> q = q' \<and> r < r')" "(n * q + r = n * q' + r') = (q = q' \<and> r = r')"
    using k [of q q' r r'] k [of q' q r' r] assms by (cases q q' rule: linorder_cases; simp)+
qed

lemma js_less_digits:
  assumes "a < 10" "b < 10" "c < 10" "d < 10"
  shows "js_less (digit_char a # digit_char b # s) (digit_char c # digit_char d # t) =
    (10 * a + b < 10 * c + d \<or> 10 * a + b = 10 * c + d \<and> js_less s t)"
  unfolding less_by_parts [OF assms(2,4)] using assms by (simp add: digit_code) blast

lemma js_less_two:
  assumes "a < 100" "b < 100"
  shows "js_less (two a @ s) (two b @ t) = (a < b \<or> a = b \<and> js_less s t)"
proof -
  have "a div 10 < 10" "b div 10 < 10" "a mod 10 < 10" "b mod 10 < 10" using assms by auto
  from js_less_digits [OF this(1,3) this(2,4)] show ?thesis by (simp add: two_def)
qed

lemma js_less_hm:
  assumes "m < 6000" "n < 6000"
  shows "js_less (hm m) (hm n) = (m < n)"
proof -
  have b: "m div 60 < 100" "n div 60 < 100" "m mod 60 < 100" "n mod 60 < 100" using assms by auto
  have "js_less (hm m) (hm n) = (m div 60 < n div 60 \<or> m div 60 = n div 60 \<and> m mod 60 < n mod 60)"
    unfolding hm_def js_less_two [OF b(1,2)] using js_less_two [OF b(3,4), of "[]" "[]"] by simp
  also have "\<dots> = (m < n)" using less_by_parts(1) [of "m mod 60" 60 "n mod 60" "m div 60" "n div 60"] by simp
  finally show ?thesis .
qed

section \<open>Saving a template\<close>

text \<open>What the code relies on of \<open>chrono\<close>: the texts with seconds are read back, hours alone are no time.\<close>

definition reads_clock :: "(time_format \<Rightarrow> string \<Rightarrow> nat option) \<Rightarrow> bool" where
  "reads_clock nt \<longleftrightarrow> (\<forall>t < 86400. nt HMS (hms t) = Some t) \<and> (\<forall>h < 24. nt HMS (two h) = None \<and> nt HM (two h) = None)"

lemma parse_hms: "reads_clock nt \<Longrightarrow> t < 86400 \<Longrightarrow> parse_time nt (hms t) = Some t"
  using trim_clock [OF clock_plain(2), of t] by (simp add: parse_time_def reads_clock_def)

lemma parse_hour: "reads_clock nt \<Longrightarrow> h < 24 \<Longrightarrow> parse_time nt (two h) = None"
  using trim_clock [of "two h"] two_plain [of h] by (simp add: parse_time_def reads_clock_def)

lemma parse_again:
  assumes "reads_clock nt" "t < 86400"
  shows "parse_time nt (normalizeTimeForApi (normalizeTimeForInput (trim_hms (hms t)))) =
    (if t mod 3600 = 0 then None else Some (60 * (t div 60)))"
proof -
  have "60 * (t div 60) < 86400" using assms(2) by (metis le_less_trans times_div_less_eq_dividend)
  then show ?thesis
    using assms parse_hms [OF assms(1), of "60 * (t div 60)"] parse_hour [OF assms(1), of "t div 3600"]
    by (simp add: input_of_answer api_of_hm api_of_hour)
qed

lemma no_issue:
  "(\<And>i w. F i w = [] \<longleftrightarrow> P w) \<Longrightarrow> concat (map (\<lambda>(i, w). F i w) (enumerate n ws)) = [] \<longleftrightarrow> (\<forall>w \<in> set ws. P w)"
  by (induction ws arbitrary: n) auto

definition window_fits :: "bool \<Rightarrow> WeeklyWindow \<Rightarrow> bool" where
  "window_fits is247 w \<longleftrightarrow> 0 \<le> ww_day w \<and> ww_day w \<le> 6 \<and> ww_open w \<noteq> [] \<and> ww_close w \<noteq> [] \<and>
     (is247 \<or> js_less (ww_open w) (ww_close w))"

lemma schema_passes:
  "schema_issues f = [] \<longleftrightarrow> tf_name f \<noteq> [] \<and> length (tf_name f) \<le> 64 \<and> tf_timezone f \<noteq> [] \<and>
     tf_market f \<in> set defaultMarkets \<and> (\<forall>w \<in> set (tf_windows f). window_fits (tf_is247 f) w)"
proof -
  have w: "concat (map (\<lambda>(i, w). window_issues i w) (enumerate 0 ws)) = [] \<longleftrightarrow>
      (\<forall>w \<in> set ws. 0 \<le> ww_day w \<and> ww_day w \<le> 6 \<and> ww_open w \<noteq> [] \<and> ww_close w \<noteq> [])" for ws
    by (rule no_issue) (auto simp: window_issues_def)
  have r: "concat (map (\<lambda>(i, w). if \<not> js_less (ww_open w) (ww_close w) then [AtClose i] else []) (enumerate 0 ws)) = [] \<longleftrightarrow>
      (\<forall>w \<in> set ws. js_less (ww_open w) (ww_close w))" for ws
    by (rule no_issue) simp
  have "refine_issues f = [] \<longleftrightarrow> tf_is247 f \<or> (\<forall>w \<in> set (tf_windows f). js_less (ww_open w) (ww_close w))"
    using r [of "tf_windows f"] by (cases "tf_is247 f") (simp_all only: refine_issues_def if_True if_False simp_thms)
  then show ?thesis
    unfolding schema_issues_def window_fits_def append_is_Nil_conv w by auto
qed

definition resave :: "(time_format \<Rightarrow> string \<Rightarrow> nat option) \<Rightarrow> SessionTemplate \<Rightarrow> window_row list option" where
  "resave nt x = Option.bind (submit_form (Some x) (form_init (Some x))) (save_windows nt)"

text \<open>The rows a template can have: days of the week, and times of the day in their order.\<close>

definition row_ok :: "string \<times> window_row \<Rightarrow> bool" where
  "row_ok r = (case r of (i, d, a, b) \<Rightarrow> 0 \<le> d \<and> d \<le> 6 \<and> a < b \<and> b < 86400)"

definition row_saved :: "string \<times> window_row \<Rightarrow> bool" where
  "row_saved r = (case r of (i, d, a, b) \<Rightarrow> a mod 3600 \<noteq> 0 \<and> b mod 3600 \<noteq> 0 \<and> a div 60 < b div 60)"

definition to_minutes :: "string \<times> window_row \<Rightarrow> window_row" where
  "to_minutes r = (case r of (i, d, a, b) \<Rightarrow> (d, 60 * (a div 60), 60 * (b div 60)))"

definition sent_row :: "string \<times> window_row \<Rightarrow> int \<times> string \<times> string" where
  "sent_row r = (case r of (i, d, a, b) \<Rightarrow>
     (d, normalizeTimeForApi (normalizeTimeForInput (trim_hms (hms a))),
      normalizeTimeForApi (normalizeTimeForInput (trim_hms (hms b)))))"

definition form_row :: "string \<times> window_row \<Rightarrow> WeeklyWindow" where
  "form_row r = (case r of (i, d, a, b) \<Rightarrow>
     \<lparr>ww_id = Some i, ww_day = d, ww_open = normalizeTimeForInput (trim_hms (hms a)),
      ww_close = normalizeTimeForInput (trim_hms (hms b))\<rparr>)"

lemma saved_row_fits:
  assumes "row_ok r" "row_saved r"
  shows "window_fits False (form_row r)"
proof -
  obtain i d a b where r: "r = (i, d, a, b)" by (cases r)
  have "a < 86400" "b < 86400" "a div 60 < 6000" "b div 60 < 6000" using assms r by (auto simp: row_ok_def)
  moreover have "hm m \<noteq> []" for m by (simp add: hm_def two_def)
  ultimately show ?thesis
    using assms by (simp add: r window_fits_def form_row_def row_ok_def row_saved_def input_of_answer js_less_hm)
qed

lemma unsaved_row:
  assumes "reads_clock nt" "row_ok r" "\<not> row_saved r" "window_fits False (form_row r)"
  shows "\<not> validate_windows nt (ws @ sent_row r # vs)"
proof -
  obtain i d a b where r: "r = (i, d, a, b)" by (cases r)
  have t: "a < 86400" "b < 86400" "a div 60 < 6000" "b div 60 < 6000" using assms r by (auto simp: row_ok_def)
  show ?thesis
  proof (cases "a mod 3600 = 0 \<or> b mod 3600 = 0")
    case True
    then show ?thesis
      using parse_again [OF assms(1) t(1)] parse_again [OF assms(1) t(2)]
      by (auto simp: validate_windows_def r sent_row_def split: option.splits)
  next
    case False
    then have "a div 60 < b div 60"
      using assms(4) t by (simp add: r window_fits_def form_row_def input_of_answer js_less_hm)
    then show ?thesis using False assms(3) by (simp add: r row_saved_def)
  qed
qed

lemma saved_rows:
  assumes "reads_clock nt" "\<forall>r \<in> set rows. row_ok r \<and> row_saved r"
  shows "map (\<lambda>(d, a, b). (d, the (parse_time nt a), the (parse_time nt b))) (map sent_row rows) = map to_minutes rows"
    "rows \<noteq> [] \<Longrightarrow> validate_windows nt (map sent_row rows)"
proof -
  have p: "parse_time nt (normalizeTimeForApi (normalizeTimeForInput (trim_hms (hms a)))) = Some (60 * (a div 60))"
    "parse_time nt (normalizeTimeForApi (normalizeTimeForInput (trim_hms (hms b)))) = Some (60 * (b div 60))"
    "60 * (a div 60) < 60 * (b div 60)" "0 \<le> d" "d \<le> 6"
    if "(i, d, a, b) \<in> set rows" for i d a b
    using that assms parse_again [OF assms(1), of a] parse_again [OF assms(1), of b]
    by (auto simp: row_ok_def row_saved_def)
  show "map (\<lambda>(d, a, b). (d, the (parse_time nt a), the (parse_time nt b))) (map sent_row rows) = map to_minutes rows"
    using p by (auto simp: sent_row_def to_minutes_def)
  show "validate_windows nt (map sent_row rows)" if "rows \<noteq> []"
    using p that by (auto simp: validate_windows_def sent_row_def list_all_iff)
qed

text \<open>C8. A template that is opened in the form and saved as it is: it is stored again just when no opening or closing is
  on the hour and the minutes still differ, and the seconds are gone. On the hour the answer of the server is cut to
  the hour alone, which the form sends back and the server refuses.\<close>

theorem template_saved_again:
  assumes "reads_clock nt" "\<not> st_is247 x" "st_windows x = map window_answer rows" "rows \<noteq> []" "\<forall>r \<in> set rows. row_ok r"
    and "st_name x \<noteq> []" "length (st_name x) \<le> 64" "st_timezone x \<noteq> []"
    and "case st_market x of None \<Rightarrow> True | Some m \<Rightarrow> m \<in> set defaultMarkets"
  shows "resave nt x = (if \<forall>r \<in> set rows. row_saved r then Some (map to_minutes rows) else None)"
proof -
  let ?f = "form_init (Some x)"
  have w: "tf_windows ?f = map form_row rows"
    by (auto simp: form_init_def mapInitialWindows_def assms(3) window_answer_def form_row_def)
  have f: "schema_issues ?f = [] \<longleftrightarrow> (\<forall>r \<in> set rows. window_fits False (form_row r))"
    unfolding schema_passes w using assms(2,6-9)
    by (auto simp: form_init_def defaultMarkets_def split: option.splits)
  have n: "\<not> tf_is247 ?f" using assms(2) by (simp add: form_init_def)
  then have sent: "tq_windows (onSubmit (Some x) ?f) = map sent_row rows" "\<not> tq_is247 (onSubmit (Some x) ?f)"
    by (auto simp: onSubmit_def windowsToBody_def w form_row_def sent_row_def)
  show ?thesis
  proof (cases "\<forall>r \<in> set rows. row_saved r")
    case True
    then have "schema_issues ?f = []" using f saved_row_fits assms(5) by blast
    then show ?thesis
      using True saved_rows [OF assms(1), of rows] assms(4,5) sent by (simp add: resave_def submit_form_def save_windows_def)
  next
    case False
    then obtain r where r: "r \<in> set rows" "\<not> row_saved r" by blast
    then obtain ws vs where "rows = ws @ r # vs" by (metis split_list)
    then have "\<not> validate_windows nt (map sent_row rows)" if "window_fits False (form_row r)"
      using unsaved_row [OF assms(1) _ r(2) that, of "map sent_row ws" "map sent_row vs"] assms(5) by simp
    then show ?thesis using False f r sent by (auto simp: resave_def submit_form_def save_windows_def)
  qed
qed

text \<open>A reader of times, as the library reads them.\<close>

definition two_at :: "string \<Rightarrow> nat \<Rightarrow> nat" where
  "two_at s i = 10 * digit_val (s ! i) + digit_val (s ! Suc i)"

fun clock_reader :: "time_format \<Rightarrow> string \<Rightarrow> nat option" where
  "clock_reader HMS s = (if length s = 8 then Some (3600 * two_at s 0 + 60 * two_at s 3 + two_at s 6) else None)"
| "clock_reader HM s = (if length s = 5 then Some (3600 * two_at s 0 + 60 * two_at s 3) else None)"

lemma two_at_two: "n < 100 \<Longrightarrow> 10 * digit_val (digit_char (n div 10)) + digit_val (digit_char (n mod 10)) = n"
  by simp

lemma clock_reader_reads: "reads_clock clock_reader"
proof -
  have "clock_reader HMS (hms t) = Some t" if t: "t < 86400" for t :: nat
  proof -
    obtain h m s where p: "h < 24" "m < 60" "s < 60" "t = 3600 * h + 60 * m + s" using clock_parts [OF t] .
    have "h < 100" "m < 100" "s < 100" using p by auto
    then show ?thesis
      unfolding parts_text(6) [OF p] by (simp add: two_at_def two_def two_at_two p(4) del: digit_val_digit_char)
  qed
  then show ?thesis by (simp add: reads_clock_def two_def)
qed

definition sample_template :: "(string \<times> window_row) list \<Rightarrow> SessionTemplate" where
  "sample_template rows = \<lparr>st_id = ''t1'', st_name = ''NYSE'', st_timezone = ''America/New_York'', st_description = None,
     st_is247 = False, st_market = Some ''stocks'', st_windows = map window_answer rows\<rparr>"

lemma template_saved_again_witness:
  "resave clock_reader (sample_template [(''w1'', 1, 34200, 59400), (''w2'', 2, 34260, 59459)]) =
     Some [(1, 34200, 59400), (2, 34260, 59400)]"
proof -
  let ?rows = "[(''w1'', 1, 34200, 59400), (''w2'', 2, 34260, 59459)] :: (string \<times> window_row) list"
  have "resave clock_reader (sample_template ?rows) = (if \<forall>r \<in> set ?rows. row_saved r then Some (map to_minutes ?rows) else None)"
    by (rule template_saved_again [OF clock_reader_reads])
      (simp_all add: sample_template_def row_ok_def defaultMarkets_def)
  then show ?thesis by (simp add: row_saved_def to_minutes_def)
qed

section \<open>What one edit changes\<close>

definition slot :: "WeeklyWindow \<Rightarrow> string \<times> string" where
  "slot w = (ww_open w, ww_close w)"

definition slots :: "WeeklyWindow list \<Rightarrow> int \<Rightarrow> (string \<times> string) multiset" where
  "slots ws d = image_mset slot (mset (filter (\<lambda>w. ww_day w = d) ws))"

definition days_ok :: "WeeklyWindow list \<Rightarrow> bool" where
  "days_ok ws \<longleftrightarrow> (\<forall>w \<in> set ws. 0 \<le> ww_day w \<and> ww_day w \<le> 6)"

fun edit_day :: "schedule_edit \<Rightarrow> int" where
  "edit_day (AddSlot d) = d"
| "edit_day (RemoveSlot d i) = d"
| "edit_day (PatchSlot d i p) = d"

text \<open>The slot that an edit takes out of its day, and the one it puts in: a row stands for the slot shown there.\<close>

definition shown_slot :: "(string \<Rightarrow> string \<Rightarrow> int) \<Rightarrow> WeeklyWindow list \<Rightarrow> int \<Rightarrow> nat \<Rightarrow> (string \<times> string) multiset" where
  "shown_slot lc ws d i = (if i < length (byDay lc ws d) then {#slot (byDay lc ws d ! i)#} else {#})"

fun patched :: "slot_patch \<Rightarrow> string \<times> string \<Rightarrow> string \<times> string" where
  "patched (OpenTime s) (a, b) = (s, b)"
| "patched (CloseTime s) (a, b) = (a, s)"

fun taken :: "(string \<Rightarrow> string \<Rightarrow> int) \<Rightarrow> WeeklyWindow list \<Rightarrow> schedule_edit \<Rightarrow> (string \<times> string) multiset" where
  "taken lc ws (AddSlot d) = {#}"
| "taken lc ws (RemoveSlot d i) = shown_slot lc ws d i"
| "taken lc ws (PatchSlot d i p) = shown_slot lc ws d i"

fun given :: "(string \<Rightarrow> string \<Rightarrow> int) \<Rightarrow> WeeklyWindow list \<Rightarrow> schedule_edit \<Rightarrow> (string \<times> string) multiset" where
  "given lc ws (AddSlot d) = {#(''09:00'', ''17:00'')#}"
| "given lc ws (RemoveSlot d i) = {#}"
| "given lc ws (PatchSlot d i p) = image_mset (patched p) (shown_slot lc ws d i)"

lemma byDay_set: "days_ok ws \<Longrightarrow> filter (\<lambda>w. min 6 (max 0 (ww_day w)) = d) ws = filter (\<lambda>w. ww_day w = d) ws"
  by (rule filter_cong) (auto simp: days_ok_def)

lemma byDay_mset: "days_ok ws \<Longrightarrow> mset (byDay lc ws d) = mset (filter (\<lambda>w. ww_day w = d) ws)"
  by (simp add: byDay_def byDay_set)

lemma byDay_days: "days_ok ws \<Longrightarrow> w \<in> set (byDay lc ws d) \<Longrightarrow> ww_day w = d"
  by (simp add: byDay_def byDay_set)

lemma filter_updateDay:
  assumes "\<forall>w \<in> set new. ww_day w = d"
  shows "filter (\<lambda>w. ww_day w = e) (updateDay d new ws) = (if e = d then new else filter (\<lambda>w. ww_day w = e) ws)"
proof -
  have "filter (\<lambda>w. ww_day w = e) new = (if e = d then new else [])"
    using assms by (auto simp: filter_empty_conv filter_id_conv)
  moreover have "filter (\<lambda>w. ww_day w = e) (filter (\<lambda>w. ww_day w \<noteq> d) ws) = (if e = d then [] else filter (\<lambda>w. ww_day w = e) ws)"
    by (induction ws) auto
  ultimately show ?thesis by (simp add: updateDay_def del: filter_filter)
qed

lemma slots_updateDay:
  "\<forall>w \<in> set new. ww_day w = d \<Longrightarrow>
     slots (updateDay d new ws) = (slots ws)(d := image_mset slot (mset new))"
  by (rule ext) (simp add: slots_def filter_updateDay del: mset_filter)

lemma days_updateDay: "days_ok ws \<Longrightarrow> 0 \<le> d \<Longrightarrow> d \<le> 6 \<Longrightarrow> \<forall>w \<in> set new. ww_day w = d \<Longrightarrow> days_ok (updateDay d new ws)"
  by (auto simp: days_ok_def updateDay_def)

lemma slot_patch [simp]: "slot ((apply_patch p w)\<lparr>ww_day := d\<rparr>) = patched p (slot w)"
  by (cases p) (simp_all add: slot_def)

lemma slots_byDay: "days_ok ws \<Longrightarrow> slots ws d = image_mset slot (mset (byDay lc ws d))"
  by (simp add: slots_def byDay_mset)

lemma split_row: "i < length xs \<Longrightarrow> mset xs = mset (take i xs @ drop (Suc i) xs) + {#xs ! i#}"
  by (subst (1) id_take_nth_drop) simp_all

text \<open>An edit of the week takes the slot shown in its row out of its day and puts the changed one in; the other slots
  of the day and those of the other days stay.\<close>

theorem edit_changes_one_slot:
  assumes "days_ok ws" "0 \<le> edit_day e" "edit_day e \<le> 6"
  shows "days_ok (schedule_do lc e ws) \<and> taken lc ws e \<subseteq># slots ws (edit_day e) \<and>
    slots (schedule_do lc e ws) =
      (slots ws)(edit_day e := slots ws (edit_day e) - taken lc ws e + given lc ws e)"
proof (cases e)
  case (AddSlot d)
  let ?new = "byDay lc ws d @ [\<lparr>ww_id = None, ww_day = d, ww_open = ''09:00'', ww_close = ''17:00''\<rparr>]"
  have n: "\<forall>w \<in> set ?new. ww_day w = d" using byDay_days [OF assms(1)] by auto
  show ?thesis
    using assms AddSlot slots_updateDay [OF n, of ws] days_updateDay [OF assms(1) _ _ n] slots_byDay [OF assms(1), of d lc]
    by (simp add: addSlot_def slot_def)
next
  case (RemoveSlot d i)
  let ?b = "byDay lc ws d"
  let ?new = "take i ?b @ drop (Suc i) ?b"
  have n: "\<forall>w \<in> set ?new. ww_day w = d" using byDay_days [OF assms(1)] by (auto dest: in_set_takeD in_set_dropD)
  have b: "slots ws d = image_mset slot (mset ?new) + shown_slot lc ws d i"
    using slots_byDay [OF assms(1), of d lc] split_row [of i ?b] by (auto simp: shown_slot_def)
  show ?thesis
    using assms RemoveSlot slots_updateDay [OF n, of ws] days_updateDay [OF assms(1) _ _ n] b by (simp add: removeSlot_def)
next
  case (PatchSlot d i p)
  let ?b = "byDay lc ws d"
  show ?thesis
  proof (cases "i < length ?b")
    case True
    let ?new = "?b[i := (apply_patch p (?b ! i))\<lparr>ww_day := d\<rparr>]"
    have n: "\<forall>w \<in> set ?new. ww_day w = d" using byDay_days [OF assms(1)] by (auto dest!: set_update_subset_insert [THEN subsetD])
    have b: "slots ws d = image_mset slot (mset (take i ?b @ drop (Suc i) ?b)) + shown_slot lc ws d i"
      using slots_byDay [OF assms(1), of d lc] split_row [OF True] True by (simp add: shown_slot_def)
    have "image_mset slot (mset ?new) = image_mset slot (mset (take i ?b @ drop (Suc i) ?b)) + image_mset (patched p) (shown_slot lc ws d i)"
      using True by (simp add: upd_conv_take_nth_drop shown_slot_def)
    then show ?thesis
      using True assms PatchSlot slots_updateDay [OF n, of ws] days_updateDay [OF assms(1) _ _ n] b
      by (simp add: patchSlot_def Let_def)
  next
    case False
    then show ?thesis using assms PatchSlot by (simp add: patchSlot_def shown_slot_def Let_def)
  qed
qed

definition sample_week :: "WeeklyWindow list" where
  "sample_week = [\<lparr>ww_id = Some ''w1'', ww_day = 1, ww_open = ''13:00'', ww_close = ''16:30''\<rparr>,
     \<lparr>ww_id = Some ''w2'', ww_day = 1, ww_open = ''09:30'', ww_close = ''12:00''\<rparr>]"

definition by_text :: "string \<Rightarrow> string \<Rightarrow> int" where
  "by_text a b = (if js_less a b then - 1 else if a = b then 0 else 1)"

lemma edit_changes_one_slot_witness:
  "slots (schedule_do by_text (PatchSlot 1 0 (OpenTime ''10:00'')) sample_week) =
     (slots sample_week)(1 := {#(''13:00'', ''16:30''), (''10:00'', ''12:00'')#})"
proof -
  let ?e = "PatchSlot 1 0 (OpenTime ''10:00'')"
  have d: "days_ok sample_week" by (simp add: days_ok_def sample_week_def)
  have b: "shown_slot by_text sample_week 1 0 = {#(''09:30'', ''12:00'')#}"
    "slots sample_week 1 = {#(''13:00'', ''16:30''), (''09:30'', ''12:00'')#}"
    by (code_simp, simp add: slots_def slot_def sample_week_def)
  show ?thesis using edit_changes_one_slot [OF d, of ?e by_text] b by (simp add: add_mset_commute)
qed

section \<open>From the editor to the market\<close>
















definition sample_edits :: "schedule_edit list" where
  "sample_edits = [AddSlot 1, PatchSlot 1 0 (OpenTime ''09:30''), PatchSlot 1 0 (CloseTime ''16:00'')]"

definition sample_form :: template_form where
  "sample_form = (form_init None)\<lparr>tf_name := ''NYSE'', tf_windows := fold (schedule_do by_text) sample_edits []\<rparr>"



section \<open>What goes wrong\<close>

text \<open>A time on the hour comes back from the form as no time, and the server refuses it: 16:00:00 is answered as 16.\<close>

lemma whole_hour_refused:
  assumes "reads_clock nt" "h < 24"
  shows "parse_time nt (normalizeTimeForApi (normalizeTimeForInput (trim_hms (hms (3600 * h))))) = None"
  using parse_again [OF assms(1), of "3600 * h"] assms(2) by simp

text \<open>A window to the end of the day loses its last minute when the template is saved.\<close>

lemma last_minute_closed:
  "reads_clock nt \<Longrightarrow> parse_time nt (normalizeTimeForApi (normalizeTimeForInput (trim_hms (hms 86399)))) = Some 86340"
  "get_session_status False [(1, 34200, 86399)] None 1 86399" "\<not> get_session_status False [(1, 34200, 86340)] None 1 86399"
  using parse_again [of nt 86399] by (simp_all add: is_within_windows_def)

text \<open>A cleared time keeps the form from being sent, and no message says so; in a form of a market that is always open,
  not even the time is shown.\<close>

definition cleared_form :: "bool \<Rightarrow> template_form" where
  "cleared_form is247 = sample_form\<lparr>tf_is247 := is247, tf_windows := schedule_do by_text (PatchSlot 1 0 (CloseTime [])) (tf_windows sample_form)\<rparr>"

lemma refused_without_message:
  "submit_form None (cleared_form False) = None \<and> shown_messages (cleared_form False) = []"
  "submit_form None (cleared_form True) = None \<and> shown_messages (cleared_form True) = []"
  by code_simp+

text \<open>What is typed in a new slot goes to another one as soon as the order of the rows changes.\<close>

definition two_new_slots :: "WeeklyWindow list" where
  "two_new_slots = [\<lparr>ww_id = None, ww_day = 1, ww_open = ''09:00'', ww_close = ''17:00''\<rparr>,
     \<lparr>ww_id = None, ww_day = 1, ww_open = ''18:00'', ww_close = ''20:00''\<rparr>]"

lemma typed_into_other_slot:
  "type_in by_text 1 ''d1-i1'' (OpenTime ''19:00'') (type_in by_text 1 ''d1-i1'' (OpenTime ''01:00'') two_new_slots) =
     [\<lparr>ww_id = None, ww_day = 1, ww_open = ''01:00'', ww_close = ''20:00''\<rparr>,
      \<lparr>ww_id = None, ww_day = 1, ww_open = ''19:00'', ww_close = ''17:00''\<rparr>]"
  by code_simp

text \<open>On a half day only the first slot of the day counts: the market that closes early is closed all the afternoon.\<close>

lemma half_day_second_slot:
  "\<not> get_session_status False [(1, 32400, 43200), (1, 46800, 64800)] (Some (''half_day'', Some 54000)) 1 48600"
  "get_session_status False [(1, 32400, 43200), (1, 46800, 64800)] None 1 48600"
  by (simp_all add: is_within_windows_def)

section \<open>Holidays\<close>

datatype MarketHolidayType = Closed | HalfDay

record MarketHoliday =
  mh_id :: string
  mh_template :: string
  mh_date :: string
  mh_name :: string
  mh_type :: MarketHolidayType
  mh_close :: "string option"
  mh_notes :: "string option"

record UpsertMarketHolidayPayload =
  up_date :: string
  up_name :: string
  up_type :: MarketHolidayType
  up_close :: "string option"
  up_notes :: "string option"

record holidays_panel =
  hp_open :: bool
  hp_editing :: "MarketHoliday option"
  hp_date :: string
  hp_name :: string
  hp_type :: MarketHolidayType
  hp_time :: string
  hp_notes :: string

definition openCreate :: "string \<Rightarrow> holidays_panel \<Rightarrow> holidays_panel" where
  "openCreate cy p = p\<lparr>hp_editing := None, hp_date := cy @ ''-01-01'', hp_name := [], hp_type := Closed,
     hp_time := ''13:00'', hp_notes := [], hp_open := True\<rparr>"

definition openEdit :: "MarketHoliday \<Rightarrow> holidays_panel \<Rightarrow> holidays_panel" where
  "openEdit h p = p\<lparr>hp_editing := Some h, hp_date := mh_date h, hp_name := mh_name h, hp_type := mh_type h,
     hp_time := toTimeInputValue (mh_close h), hp_notes := (case mh_notes h of None \<Rightarrow> [] | Some n \<Rightarrow> n), hp_open := True\<rparr>"

definition closeDialog :: "holidays_panel \<Rightarrow> holidays_panel" where
  "closeDialog p = p\<lparr>hp_open := False, hp_editing := None\<rparr>"

definition or_null :: "string \<Rightarrow> string option" where
  "or_null s = (if s = [] then None else Some s)"

definition buildPayload :: "holidays_panel \<Rightarrow> string + UpsertMarketHolidayPayload" where
  "buildPayload p =
     (if trim (hp_date p) = [] then Inl ''Choose a date''
      else if trim (hp_name p) = [] then Inl ''Enter a holiday name''
      else if hp_type p = HalfDay \<and> trim (hp_time p) = [] then Inl ''Half-day holidays require a close time''
      else let t = trim (hp_time p) in
        Inr \<lparr>up_date = hp_date p, up_name = trim (hp_name p), up_type = hp_type p,
          up_close = (if hp_type p = HalfDay then Some (if hm_only t then t @ '':00'' else t) else None),
          up_notes = or_null (trim (hp_notes p))\<rparr>)"

text \<open>The request, of the identifier of the holiday that is edited.\<close>

definition holiday_body :: "UpsertMarketHolidayPayload \<Rightarrow> UpsertMarketHolidayPayload" where
  "holiday_body u = u\<lparr>up_name := trim (up_name u),
     up_close := Option.bind (up_close u) (\<lambda>s. or_null (trim s)), up_notes := Option.bind (up_notes u) (\<lambda>s. or_null (trim s))\<rparr>"

definition handleSave :: "holidays_panel \<Rightarrow> (string option \<times> UpsertMarketHolidayPayload) option" where
  "handleSave p = (case buildPayload p of Inl m \<Rightarrow> None
     | Inr u \<Rightarrow> Some (map_option mh_id (hp_editing p), holiday_body u))"

text \<open>The row the server keeps: the date, the name, the type, the closing and the notes.\<close>

type_synonym holiday_row = "string \<times> string \<times> MarketHolidayType \<times> nat option \<times> string option"

definition save_holiday :: "(time_format \<Rightarrow> string \<Rightarrow> nat option) \<Rightarrow> UpsertMarketHolidayPayload \<Rightarrow> holiday_row option" where
  "save_holiday nt u =
     (let row = \<lambda>t. (up_date u, trim (up_name u), up_type u, t, Option.bind (up_notes u) (\<lambda>s. or_null (trim s)));
          half = (case up_close u of None \<Rightarrow> Some None
            | Some s \<Rightarrow> if trim s = [] then Some None else map_option Some (parse_time nt s)) in
      case half of None \<Rightarrow> None
      | Some t \<Rightarrow>
          if up_type u = HalfDay \<and> t = None then None
          else if up_type u = Closed \<and> t \<noteq> None then None
          else Some (row t))"

definition holiday_answer :: "string \<Rightarrow> string \<Rightarrow> holiday_row \<Rightarrow> MarketHoliday" where
  "holiday_answer tid i r = (case r of (d, n, ty, t, notes) \<Rightarrow>
     \<lparr>mh_id = i, mh_template = tid, mh_date = d, mh_name = n, mh_type = ty, mh_close = map_option hms t, mh_notes = notes\<rparr>)"

lemma bind_or_null: "Option.bind (or_null s) (\<lambda>s. or_null (trim s)) = or_null (trim s)"
  by (simp add: or_null_def)

text \<open>The server's rule of types and closings holds for every request of the panel: it refuses only a time it cannot read.\<close>

lemma holiday_refused_for_time:
  assumes "handleSave p = Some (i, u)"
  shows "save_holiday nt u = None \<longleftrightarrow> up_type u = HalfDay \<and> parse_time nt (the (up_close u)) = None"
proof -
  let ?t = "trim (hp_time p)" and ?s = "if hm_only (trim (hp_time p)) then trim (hp_time p) @ '':00'' else trim (hp_time p)"
  have "trim ?s \<noteq> []" if "?t \<noteq> []"
  proof (cases "hm_only ?t")
    case True
    then have "\<not> is_space (?t ! 0)" "?t \<noteq> []" by (auto simp: hm_only_def hm_start_def digit_not_space)
    then show ?thesis using True by (cases ?t) (auto simp: trim_def dropWhile_append)
  qed (use that in simp)
  then show ?thesis
    using assms by (auto simp: handleSave_def buildPayload_def holiday_body_def save_holiday_def Let_def or_null_def
      split: sum.splits option.splits if_splits MarketHolidayType.splits)
qed

text \<open>A holiday that is opened and saved as it is keeps its date, name, type and notes; the closing loses its seconds.\<close>

lemma holiday_saved_again:
  assumes "reads_clock nt" "trim d \<noteq> []" "trim n = n" "n \<noteq> []" "notes \<noteq> Some []" "\<forall>s. notes = Some s \<longrightarrow> trim s = s"
    and "ty = HalfDay \<longleftrightarrow> t \<noteq> None" "\<forall>x. t = Some x \<longrightarrow> x < 86400"
  shows "Option.bind (handleSave (openEdit (holiday_answer tid i (d, n, ty, t, notes)) p)) (save_holiday nt \<circ> snd) =
    Some (d, n, ty, map_option (\<lambda>x. 60 * (x div 60)) t, notes)"
proof (cases t)
  case None
  then have "ty = Closed" using assms(7) by (cases ty) auto
  then show ?thesis
    using None assms by (auto simp: openEdit_def holiday_answer_def handleSave_def buildPayload_def Let_def holiday_body_def
        save_holiday_def or_null_def split: option.splits)
next
  case (Some x)
  then have ty: "ty = HalfDay" and x: "x < 86400" "x div 60 < 6000" "60 * (x div 60) < 86400" using assms(7,8) by auto
  have c: "toTimeInputValue (Some (hms x)) = hm (x div 60)"
  proof -
    have "trim (hms x) = hms x" using clock_plain(2) [of x] x by (intro trim_clock) auto
    then show ?thesis
      using hm_shape(2) [OF x(2)] by (simp add: toTimeInputValue_def hms_def two_def)
  qed
  have h: "hm_only (hm (x div 60))" "trim (hm (x div 60)) = hm (x div 60)" "hm (x div 60) \<noteq> []"
    using hm_shape(1) [OF x(2)] by (auto simp: hm_only_def)
  have e: "hm (x div 60) @ '':00'' = hms (60 * (x div 60))" by (simp add: hms_def two_def digit_chars)
  have "trim (hms (60 * (x div 60))) = hms (60 * (x div 60))" "hms (60 * (x div 60)) \<noteq> []"
    using clock_plain(2) [of "60 * (x div 60)"] x(3) h(3) unfolding e [symmetric] by (auto intro!: trim_clock)
  then show ?thesis
    using Some assms h ty parse_hms [OF assms(1) x(3)]
    by (auto simp: openEdit_def holiday_answer_def handleSave_def buildPayload_def Let_def holiday_body_def
        save_holiday_def or_null_def c e split: option.splits)
qed

end
