(* ===== verification/Group_Symbols.thy ===== *)
theory Group_Symbols
  imports Js_Prelude Machine
begin

text \<open>
  The settings of the symbols for a group of users: \<open>AssignSymbolsModal.tsx\<close> with \<open>getGroupSymbols\<close> and
  \<open>updateGroupSymbols\<close> of \<open>groups.api.ts\<close>, and what the server answers and stores
  (\<open>admin_groups_service.rs\<close>): a symbol without a leverage profile of its own takes the group's, else the platform's.
\<close>

section \<open>The server\<close>

record GroupSymbol =
  gs_symbolId :: string
  gs_symbolCode :: string
  gs_leverageProfileId :: "string option"
  gs_leverageProfileName :: "string option"
  gs_enabled :: bool

record leverage_profile =
  lp_id :: string
  lp_name :: string
  lp_default :: bool

record symbol_row =
  sy_id :: string
  sy_code :: string
  sy_trading :: bool

record symbol_input =
  si_symbol :: string
  si_profile :: "string option"
  si_enabled :: bool

record group_world =
  gw_symbols :: "symbol_row list"
  gw_profiles :: "leverage_profile list"
  gw_default :: "string option"
  gw_settings :: "symbol_input list"

fun coalesce :: "'a option list \<Rightarrow> 'a option" where
  "coalesce [] = None"
| "coalesce (None # xs) = coalesce xs"
| "coalesce (Some x # xs) = Some x"

definition setting_of :: "group_world \<Rightarrow> string \<Rightarrow> symbol_input option" where
  "setting_of w i = find (\<lambda>x. si_symbol x = i) (gw_settings w)"

definition platform_default :: "group_world \<Rightarrow> string option" where
  "platform_default w = map_option lp_id (find lp_default (gw_profiles w))"

definition effective_profile :: "group_world \<Rightarrow> string \<Rightarrow> string option" where
  "effective_profile w i = coalesce [Option.bind (setting_of w i) si_profile, gw_default w, platform_default w]"

definition list_group_symbols :: "group_world \<Rightarrow> GroupSymbol list" where
  "list_group_symbols w = map (\<lambda>s. let p = effective_profile w (sy_id s) in
     \<lparr>gs_symbolId = sy_id s, gs_symbolCode = sy_code s, gs_leverageProfileId = p,
      gs_leverageProfileName = Option.bind p (\<lambda>i. map_option lp_name (find (\<lambda>x. lp_id x = i) (gw_profiles w))),
      gs_enabled = (case setting_of w (sy_id s) of None \<Rightarrow> sy_trading s | Some x \<Rightarrow> si_enabled x)\<rparr>) (gw_symbols w)"

definition upsert_group_symbols :: "symbol_input list \<Rightarrow> group_world \<Rightarrow> group_world" where
  "upsert_group_symbols xs w = w\<lparr>gw_settings := xs\<rparr>"

section \<open>The modal\<close>

definition getGroupSymbols :: "group_world \<Rightarrow> GroupSymbol list" where
  "getGroupSymbols w = map (\<lambda>s. s\<lparr>gs_leverageProfileId := map_option toLowerCase (gs_leverageProfileId s)\<rparr>) (list_group_symbols w)"

definition updateGroupSymbols :: "GroupSymbol list \<Rightarrow> symbol_input list" where
  "updateGroupSymbols = map (\<lambda>s. \<lparr>si_symbol = gs_symbolId s, si_profile = gs_leverageProfileId s, si_enabled = gs_enabled s\<rparr>)"

record symbols_modal =
  initialSymbols :: "GroupSymbol list"
  symbols :: "GroupSymbol list"
  populated :: bool
  leverageProfiles :: "leverage_profile list"
  transferSource :: "GroupSymbol option"
  transferSelectedIds :: "string list"
  symbolSearch :: string

definition modal_init :: symbols_modal where
  "modal_init = \<lparr>initialSymbols = [], symbols = [], populated = False, leverageProfiles = [], transferSource = None,
     transferSelectedIds = [], symbolSearch = []\<rparr>"

definition base :: "symbols_modal \<Rightarrow> GroupSymbol list" where
  "base m = (if symbols m \<noteq> [] then symbols m else initialSymbols m)"

definition filteredSymbolsList :: "symbols_modal \<Rightarrow> GroupSymbol list" where
  "filteredSymbolsList m = (let term = toLowerCase (trim (symbolSearch m)) in
     if term = [] then base m else filter (\<lambda>s. str_includes (toLowerCase (gs_symbolCode s)) term) (base m))"

text \<open>The list is taken over once; later answers do not replace it.\<close>

definition symbols_loaded :: "GroupSymbol list \<Rightarrow> symbols_modal \<Rightarrow> symbols_modal" where
  "symbols_loaded xs m = (let m' = m\<lparr>initialSymbols := xs\<rparr> in
     if \<not> populated m \<and> xs \<noteq> [] then m'\<lparr>symbols := xs, populated := True\<rparr> else m')"

definition set_profile :: "string option \<Rightarrow> string option \<Rightarrow> GroupSymbol \<Rightarrow> GroupSymbol" where
  "set_profile i n s = s\<lparr>gs_leverageProfileId := i, gs_leverageProfileName := n\<rparr>"

definition handleLeverageProfileChange :: "string \<Rightarrow> string option \<Rightarrow> symbols_modal \<Rightarrow> symbols_modal" where
  "handleLeverageProfileChange i p m =
     (let n = (if truthy p then map_option toLowerCase p else None);
          profile = Option.bind n (\<lambda>x. find (\<lambda>q. toLowerCase (lp_id q) = x) (leverageProfiles m)) in
      m\<lparr>symbols := map (\<lambda>s. if gs_symbolId s = i then set_profile n (map_option lp_name profile) s else s) (base m)\<rparr>)"

definition handleEnabledToggle :: "string \<Rightarrow> symbols_modal \<Rightarrow> symbols_modal" where
  "handleEnabledToggle i m =
     m\<lparr>symbols := map (\<lambda>s. if gs_symbolId s = i then s\<lparr>gs_enabled := \<not> gs_enabled s\<rparr> else s) (base m)\<rparr>"

definition copy_settings :: "GroupSymbol \<Rightarrow> GroupSymbol \<Rightarrow> GroupSymbol" where
  "copy_settings src s = s\<lparr>gs_leverageProfileId := gs_leverageProfileId src,
     gs_leverageProfileName := gs_leverageProfileName src, gs_enabled := gs_enabled src\<rparr>"

definition handleTransferToAll :: "GroupSymbol \<Rightarrow> symbols_modal \<Rightarrow> symbols_modal" where
  "handleTransferToAll src m = m\<lparr>symbols := map (copy_settings src) (base m)\<rparr>"

definition openTransferDialog :: "GroupSymbol \<Rightarrow> symbols_modal \<Rightarrow> symbols_modal" where
  "openTransferDialog src m = m\<lparr>transferSource := Some src, transferSelectedIds := []\<rparr>"

definition closeTransferDialog :: "symbols_modal \<Rightarrow> symbols_modal" where
  "closeTransferDialog m = m\<lparr>transferSource := None, transferSelectedIds := []\<rparr>"

definition transferTargetSymbols :: "symbols_modal \<Rightarrow> GroupSymbol list" where
  "transferTargetSymbols m = (case transferSource m of None \<Rightarrow> []
     | Some src \<Rightarrow> filter (\<lambda>s. gs_symbolId s \<noteq> gs_symbolId src) (base m))"

definition toggleTransferSelection :: "string \<Rightarrow> symbols_modal \<Rightarrow> symbols_modal" where
  "toggleTransferSelection i m = m\<lparr>transferSelectedIds :=
     (if i \<in> set (transferSelectedIds m) then set_delete i (transferSelectedIds m) else set_add i (transferSelectedIds m))\<rparr>"

definition selectAllTransferTargets :: "symbols_modal \<Rightarrow> symbols_modal" where
  "selectAllTransferTargets m = m\<lparr>transferSelectedIds := set_of_list (map gs_symbolId (transferTargetSymbols m))\<rparr>"

definition deselectAllTransferTargets :: "symbols_modal \<Rightarrow> symbols_modal" where
  "deselectAllTransferTargets m = m\<lparr>transferSelectedIds := []\<rparr>"

definition handleTransferToSelected :: "symbols_modal \<Rightarrow> symbols_modal" where
  "handleTransferToSelected m = (case transferSource m of None \<Rightarrow> m | Some src \<Rightarrow>
     if transferSelectedIds m = [] then m
     else closeTransferDialog (m\<lparr>symbols :=
       map (\<lambda>s. if gs_symbolId s \<in> set (transferSelectedIds m) then copy_settings src s else s) (base m)\<rparr>))"

text \<open>What \<open>Save Changes\<close> sends, where the button is enabled.\<close>

definition handleSave :: "symbols_modal \<Rightarrow> symbol_input list option" where
  "handleSave m = (if base m = [] then None else Some (updateGroupSymbols (base m)))"

datatype symbols_event =
    SmLoaded "GroupSymbol list" | SmProfiles "leverage_profile list" | SmProfile string "string option" | SmToggle string
  | SmToAll GroupSymbol | SmOpen GroupSymbol | SmClose | SmPick string | SmPickAll | SmPickNone | SmToSelected | SmSearch string

fun symbols_do :: "symbols_event \<Rightarrow> symbols_modal \<Rightarrow> symbols_modal" where
  "symbols_do (SmLoaded xs) m = symbols_loaded xs m"
| "symbols_do (SmProfiles ps) m = m\<lparr>leverageProfiles := ps\<rparr>"
| "symbols_do (SmProfile i p) m = handleLeverageProfileChange i p m"
| "symbols_do (SmToggle i) m = handleEnabledToggle i m"
| "symbols_do (SmToAll s) m = handleTransferToAll s m"
| "symbols_do (SmOpen s) m = openTransferDialog s m"
| "symbols_do SmClose m = closeTransferDialog m"
| "symbols_do (SmPick i) m = toggleTransferSelection i m"
| "symbols_do SmPickAll m = selectAllTransferTargets m"
| "symbols_do SmPickNone m = deselectAllTransferTargets m"
| "symbols_do SmToSelected m = handleTransferToSelected m"
| "symbols_do (SmSearch s) m = m\<lparr>symbolSearch := s\<rparr>"

section \<open>The rows stay\<close>

definition row_of :: "GroupSymbol \<Rightarrow> string \<times> string" where
  "row_of s = (gs_symbolId s, gs_symbolCode s)"

lemma row_of_changes [simp]:
  "row_of (set_profile i n s) = row_of s" "row_of (copy_settings src s) = row_of s" "row_of (s\<lparr>gs_enabled := b\<rparr>) = row_of s"
  by (simp_all add: row_of_def set_profile_def copy_settings_def)

lemma row_of_if [simp]:
  "row_of (if b then set_profile i n s else s) = row_of s" "row_of (if b then s\<lparr>gs_enabled := c\<rparr> else s) = row_of s"
  "row_of (if b then copy_settings src s else s) = row_of s"
  by simp_all

text \<open>Nothing was loaded yet, or the rows are those that were loaded.\<close>

definition rows_ok :: "(string \<times> string) list \<Rightarrow> symbols_modal \<Rightarrow> bool" where
  "rows_ok K m \<longleftrightarrow> map row_of (initialSymbols m) \<in> {[], K} \<and> map row_of (symbols m) \<in> {[], K}"

fun loads :: "(string \<times> string) list \<Rightarrow> symbols_event \<Rightarrow> bool" where
  "loads K (SmLoaded xs) = (map row_of xs = K)"
| "loads K _ = True"

lemma rows_base: "rows_ok K m \<Longrightarrow> map row_of (base m) \<in> {[], K}"
  by (auto simp: rows_ok_def base_def)

lemma rows_kept:
  assumes "rows_ok K m" "loads K e"
  shows "rows_ok K (symbols_do e m)"
proof -
  have b: "rows_ok K (m'\<lparr>symbols := xs\<rparr>)"
    if "map row_of xs = map row_of (base m)" "initialSymbols m' = initialSymbols m" for m' xs
    using that rows_base [OF assms(1)] assms(1) by (simp add: rows_ok_def)
  show ?thesis
  proof (cases e)
    case (SmLoaded xs)
    then show ?thesis using assms by (auto simp: rows_ok_def symbols_loaded_def Let_def)
  next
    case SmToSelected
    then show ?thesis
      using assms(1) b [of "map (\<lambda>s. if gs_symbolId s \<in> set (transferSelectedIds m) then copy_settings src s else s) (base m)" m for src]
      by (auto simp: handleTransferToSelected_def closeTransferDialog_def rows_ok_def split: option.splits)
  qed (use assms(1) in \<open>auto simp: handleLeverageProfileChange_def handleEnabledToggle_def handleTransferToAll_def
        openTransferDialog_def closeTransferDialog_def toggleTransferSelection_def selectAllTransferTargets_def
        deselectAllTransferTargets_def Let_def rows_ok_def base_def comp_def\<close>)
qed

lemma rows_kept_all: "rows_ok K m \<Longrightarrow> list_all (loads K) es \<Longrightarrow> rows_ok K (fold symbols_do es m)"
  by (induction es arbitrary: m) (simp_all add: rows_kept)

section \<open>Saving\<close>

text \<open>Identifiers are the answers' own, in lower case.\<close>

definition world_ok :: "group_world \<Rightarrow> bool" where
  "world_ok w \<longleftrightarrow> distinct (map sy_id (gw_symbols w)) \<and>
     (\<forall>i p. effective_profile w i = Some p \<longrightarrow> toLowerCase p = p)"

definition world_rows :: "group_world \<Rightarrow> (string \<times> string) list" where
  "world_rows w = map (\<lambda>s. (sy_id s, sy_code s)) (gw_symbols w)"

text \<open>The part of a row that the settings are about.\<close>

definition shown_row :: "GroupSymbol \<Rightarrow> string \<times> string \<times> string option \<times> bool" where
  "shown_row s = (gs_symbolId s, gs_symbolCode s, gs_leverageProfileId s, gs_enabled s)"

definition saved_row :: "group_world \<Rightarrow> GroupSymbol \<Rightarrow> string \<times> string \<times> string option \<times> bool" where
  "saved_row w s = (gs_symbolId s, gs_symbolCode s,
     coalesce [gs_leverageProfileId s, gw_default w, platform_default w], gs_enabled s)"

lemma loaded_rows: "map row_of (list_group_symbols w) = world_rows w"
  by (simp add: list_group_symbols_def world_rows_def row_of_def Let_def comp_def)

lemma find_mine: "distinct (map f xs) \<Longrightarrow> x \<in> set xs \<Longrightarrow> find (\<lambda>y. f y = f x) xs = Some x"
  by (induction xs) (auto simp: rev_image_eqI)

lemma setting_saved:
  assumes "distinct (map gs_symbolId xs)" "x \<in> set xs"
  shows "setting_of (upsert_group_symbols (updateGroupSymbols xs) w) (gs_symbolId x) =
    Some \<lparr>si_symbol = gs_symbolId x, si_profile = gs_leverageProfileId x, si_enabled = gs_enabled x\<rparr>"
proof -
  have "distinct (map si_symbol (updateGroupSymbols xs))" using assms(1) by (simp add: updateGroupSymbols_def comp_def)
  from find_mine [OF this, of "\<lparr>si_symbol = gs_symbolId x, si_profile = gs_leverageProfileId x, si_enabled = gs_enabled x\<rparr>"]
  show ?thesis using assms(2) by (auto simp: setting_of_def upsert_group_symbols_def updateGroupSymbols_def)
qed

lemma saved_list:
  assumes "map row_of xs = world_rows w" "distinct (map sy_id (gw_symbols w))"
  shows "map shown_row (list_group_symbols (upsert_group_symbols (updateGroupSymbols xs) w)) = map (saved_row w) xs"
proof (rule nth_equalityI)
  have len: "length xs = length (gw_symbols w)" using arg_cong [OF assms(1), of length] by (simp add: world_rows_def)
  then show "length (map shown_row (list_group_symbols (upsert_group_symbols (updateGroupSymbols xs) w))) = length (map (saved_row w) xs)"
    by (simp add: list_group_symbols_def upsert_group_symbols_def)
  have "map gs_symbolId xs = map sy_id (gw_symbols w)"
    using arg_cong [OF assms(1), of "map fst"] by (simp add: world_rows_def row_of_def comp_def)
  then have d: "distinct (map gs_symbolId xs)" using assms(2) by simp
  fix i assume "i < length (map shown_row (list_group_symbols (upsert_group_symbols (updateGroupSymbols xs) w)))"
  then have i: "i < length xs" "i < length (gw_symbols w)" using len by (simp_all add: list_group_symbols_def upsert_group_symbols_def)
  have r: "sy_id (gw_symbols w ! i) = gs_symbolId (xs ! i)" "sy_code (gw_symbols w ! i) = gs_symbolCode (xs ! i)"
    using arg_cong [OF assms(1), of "\<lambda>l. l ! i"] i by (simp_all add: world_rows_def row_of_def)
  show "map shown_row (list_group_symbols (upsert_group_symbols (updateGroupSymbols xs) w)) ! i = map (saved_row w) xs ! i"
    using i setting_saved [OF d, of "xs ! i" w] r
    by (simp add: list_group_symbols_def Let_def shown_row_def saved_row_def effective_profile_def upsert_group_symbols_def
        platform_default_def)
qed

text \<open>C29. Whatever was edited and searched for, the settings that are saved are read again as they were shown, for every
  symbol of the group; a symbol set to the group's default is shown with the profile it then has.\<close>

theorem symbol_settings_read_again:
  assumes "distinct (map sy_id (gw_symbols w))" "list_all (loads (world_rows w)) es"
    and "handleSave (fold symbols_do es modal_init) = Some xs"
  shows "map shown_row (list_group_symbols (upsert_group_symbols xs w)) =
    map (saved_row w) (base (fold symbols_do es modal_init))"
proof -
  let ?m = "fold symbols_do es modal_init"
  have "rows_ok (world_rows w) ?m" using assms(2) by (intro rows_kept_all) (simp_all add: rows_ok_def modal_init_def)
  moreover have "base ?m \<noteq> []" "xs = updateGroupSymbols (base ?m)"
    using assms(3) by (auto simp: handleSave_def split: if_splits)
  ultimately show ?thesis using rows_base [of "world_rows w" ?m] saved_list [of "base ?m" w] assms(1) by auto
qed

definition sample_world :: group_world where
  "sample_world = \<lparr>gw_symbols = [\<lparr>sy_id = ''s1'', sy_code = ''EURUSD'', sy_trading = True\<rparr>, \<lparr>sy_id = ''s2'', sy_code = ''XAUUSD'', sy_trading = True\<rparr>],
     gw_profiles = [\<lparr>lp_id = ''p1'', lp_name = ''Low'', lp_default = False\<rparr>, \<lparr>lp_id = ''p2'', lp_name = ''High'', lp_default = True\<rparr>],
     gw_default = Some ''p1'', gw_settings = []\<rparr>"

definition sample_events :: "symbols_event list" where
  "sample_events = [SmLoaded (getGroupSymbols sample_world), SmSearch ''xau'', SmProfile ''s2'' (Some ''p2''), SmToggle ''s1'']"

lemma symbol_settings_read_again_witness:
  "map shown_row (list_group_symbols (upsert_group_symbols
     (updateGroupSymbols (base (fold symbols_do sample_events modal_init))) sample_world)) =
   [(''s1'', ''EURUSD'', Some ''p1'', False), (''s2'', ''XAUUSD'', Some ''p2'', True)]"
proof -
  have a: "distinct (map sy_id (gw_symbols sample_world))" "list_all (loads (world_rows sample_world)) sample_events"
    "handleSave (fold symbols_do sample_events modal_init) = Some (updateGroupSymbols (base (fold symbols_do sample_events modal_init)))"
    "map (saved_row sample_world) (base (fold symbols_do sample_events modal_init)) =
       [(''s1'', ''EURUSD'', Some ''p1'', False), (''s2'', ''XAUUSD'', Some ''p2'', True)]"
    by code_simp+
  show ?thesis unfolding symbol_settings_read_again [OF a(1-3)] by (rule a(4))
qed

section \<open>Defaults become settings\<close>

text \<open>The answer gives a symbol without a profile of its own the group's; saving the list as it is makes that its own, and
  a new default of the group is without effect on it.\<close>

lemma defaults_frozen:
  assumes "world_ok w" "effective_profile w (sy_id s) = Some p" "s \<in> set (gw_symbols w)"
  shows "effective_profile (upsert_group_symbols (updateGroupSymbols (getGroupSymbols w)) w\<lparr>gw_default := d\<rparr>) (sy_id s) = Some p"
proof -
  let ?xs = "getGroupSymbols w"
  have "map gs_symbolId ?xs = map sy_id (gw_symbols w)"
    by (simp add: getGroupSymbols_def list_group_symbols_def Let_def comp_def)
  then have d: "distinct (map gs_symbolId ?xs)" using assms(1) by (simp add: world_ok_def)
  have "\<exists>x \<in> set ?xs. gs_symbolId x = sy_id s \<and> gs_leverageProfileId x = Some p"
    using assms by (auto simp: getGroupSymbols_def list_group_symbols_def Let_def world_ok_def intro!: bexI [OF _ assms(3)])
  then obtain x where x: "x \<in> set ?xs" "gs_symbolId x = sy_id s" "gs_leverageProfileId x = Some p" by blast
  have "setting_of (upsert_group_symbols (updateGroupSymbols ?xs) w\<lparr>gw_default := d\<rparr>) (sy_id s) =
      setting_of (upsert_group_symbols (updateGroupSymbols ?xs) w) (sy_id s)"
    by (simp add: setting_of_def upsert_group_symbols_def)
  then show ?thesis using setting_saved [OF d x(1), of w] x(2,3) by (simp add: effective_profile_def)
qed

text \<open>Choosing the group's default for a symbol is not seen again: the list shows the profile the default gives.\<close>

lemma default_not_shown:
  "map shown_row (list_group_symbols (upsert_group_symbols (updateGroupSymbols (base
     (fold symbols_do [SmLoaded (getGroupSymbols sample_world), SmProfile ''s1'' None] modal_init))) sample_world)) =
   [(''s1'', ''EURUSD'', Some ''p1'', True), (''s2'', ''XAUUSD'', Some ''p1'', True)]"
  by code_simp

end
