(* ===== verification/Group_Settings.thy ===== *)
theory Group_Settings
  imports Js_Text
begin

text \<open>
  The table of groups (\<open>GroupsTable.tsx\<close>): small dialogs for the time zone, the currency and the slippage, a box that
  hides the leverage, the form of a group, and tags. Each sends the whole group of its row to the server
  (\<open>update_group\<close> in \<open>admin_groups.rs\<close> and \<open>admin_groups_service.rs\<close>), and patches the row with the answer.
\<close>

section \<open>Groups and requests\<close>

record UserGroup =
  ug_id :: string
  ug_name :: string
  ug_description :: "string option"
  ug_status :: string
  ug_slug :: "string option"
  ug_margin :: "jsnum option"
  ug_stop :: "jsnum option"
  ug_hide :: "bool option"
  ug_timezone :: "string option"
  ug_currency :: "string option"
  ug_swap :: bool
  ug_fees :: bool
  ug_slippage :: "int option"

text \<open>A field of a request is absent, null or a value.\<close>

type_synonym 'a field = "'a option option"

record UpdateGroupPayload =
  gp_name :: string
  gp_description :: "string option"
  gp_status :: string
  gp_margin :: "jsnum option"
  gp_stop :: "jsnum option"
  gp_slug :: "string field"
  gp_hide :: "bool field"
  gp_timezone :: "string field"
  gp_currency :: "string field"
  gp_swap :: "bool field"
  gp_fees :: "bool field"
  gp_slippage :: "int field"

section \<open>The server\<close>

text \<open>How a request is read: null is no value, for an option and for an option of an option alike.\<close>

definition read_option :: "'a field \<Rightarrow> 'a option" where
  "read_option x = (case x of Some (Some v) \<Rightarrow> Some v | _ \<Rightarrow> None)"

definition read_nested :: "'a field \<Rightarrow> 'a option option" where
  "read_nested x = map_option Some (read_option x)"

definition alphanumeric :: "char \<Rightarrow> bool" where
  "alphanumeric c \<longleftrightarrow> (let n = of_char c :: nat in 48 \<le> n \<and> n \<le> 57 \<or> 65 \<le> n \<and> n \<le> 90 \<or> 97 \<le> n \<and> n \<le> 122)"

definition normalize_and_validate_slug :: "string \<Rightarrow> string option" where
  "normalize_and_validate_slug slug = (let s = toLowerCase (trim slug) in
     if length s < 3 \<or> 20 < length s then None else if list_all alphanumeric s then Some s else None)"

text \<open>A value to set: whether, and to what.\<close>

definition text_update :: "string option option \<Rightarrow> bool \<times> string option" where
  "text_update x = (case x of None \<Rightarrow> (False, None) | Some None \<Rightarrow> (True, None)
     | Some (Some s) \<Rightarrow> (let t = trim s in (True, if t = [] then None else Some t)))"

definition slug_update :: "string option option \<Rightarrow> string option option" where
  "slug_update x = (case x of None \<Rightarrow> Some None | Some None \<Rightarrow> Some None
     | Some (Some s) \<Rightarrow> if trim s = [] then Some None else map_option Some (normalize_and_validate_slug s))"

definition i32 :: "int \<Rightarrow> bool" where
  "i32 v \<longleftrightarrow> - 2147483648 \<le> v \<and> v \<le> 2147483647"

definition slippage_refused :: "int option option \<Rightarrow> bool" where
  "slippage_refused x \<longleftrightarrow> (case x of Some (Some v) \<Rightarrow> \<not> i32 v \<or> v < 0 | _ \<Rightarrow> False)"

definition update_group :: "UpdateGroupPayload \<Rightarrow> UserGroup \<Rightarrow> UserGroup option" where
  "update_group p g =
     (if slippage_refused (read_nested (gp_slippage p)) \<or> length (gp_name p) < 2 \<or> 40 < length (gp_name p) then None
      else case slug_update (read_nested (gp_slug p)) of None \<Rightarrow> None | Some slug \<Rightarrow>
       let (update_tz, tz) = text_update (read_nested (gp_timezone p));
           (update_dc, dc) = text_update (read_nested (gp_currency p)) in
       Some (g\<lparr>ug_name := gp_name p, ug_description := gp_description p, ug_status := gp_status p,
         ug_margin := gp_margin p, ug_stop := gp_stop p, ug_slug := slug,
         ug_hide := (case read_option (gp_hide p) of None \<Rightarrow> ug_hide g | Some b \<Rightarrow> Some b),
         ug_timezone := (if update_tz then tz else ug_timezone g),
         ug_currency := (if update_dc then dc else ug_currency g),
         ug_swap := (case read_option (gp_swap p) of None \<Rightarrow> ug_swap g | Some b \<Rightarrow> b),
         ug_fees := (case read_option (gp_fees p) of None \<Rightarrow> ug_fees g | Some b \<Rightarrow> b),
         ug_slippage := (case read_nested (gp_slippage p) of None \<Rightarrow> ug_slippage g | Some s \<Rightarrow> s)\<rparr>))"

section \<open>Editing one setting\<close>

text \<open>\<open>parseBps\<close>: an empty text clears the setting.\<close>

definition parseBps :: "string \<Rightarrow> string + int option" where
  "parseBps raw = (let t = trim raw in
     if t = [] then Inr None
     else if \<not> list_all is_digit t then Inl ''Enter a whole number (basis points), or leave empty for platform default.''
     else let n = int (nat_of_digits t) in
       if 9007199254740991 < n then Inl ''Value is too large.'' else Inr (Some n))"

definition or_none :: "string \<Rightarrow> string option" where
  "or_none s = (if s = [] then None else Some s)"

datatype group_edit = EditTimezone string | EditCurrency string | EditSlippage string | ToggleHide

definition row_payload :: "UserGroup \<Rightarrow> UpdateGroupPayload" where
  "row_payload g = \<lparr>gp_name = ug_name g, gp_description = ug_description g, gp_status = ug_status g,
     gp_margin = ug_margin g, gp_stop = ug_stop g, gp_slug = Some (ug_slug g), gp_hide = Some (ug_hide g),
     gp_timezone = None, gp_currency = None, gp_swap = None, gp_fees = None, gp_slippage = None\<rparr>"

definition hidden :: "UserGroup \<Rightarrow> bool" where
  "hidden g \<longleftrightarrow> ug_hide g = Some True"

fun edit_payload :: "group_edit \<Rightarrow> UserGroup \<Rightarrow> string + UpdateGroupPayload" where
  "edit_payload (EditTimezone tz) g = Inr ((row_payload g)\<lparr>gp_timezone := Some (or_none (trim tz))\<rparr>)"
| "edit_payload (EditCurrency c) g = Inr ((row_payload g)\<lparr>gp_currency := Some (or_none (toUpperCase (trim c)))\<rparr>)"
| "edit_payload (EditSlippage s) g = (case parseBps s of Inl m \<Rightarrow> Inl m
     | Inr n \<Rightarrow> Inr ((row_payload g)\<lparr>gp_slippage := Some n\<rparr>))"
| "edit_payload ToggleHide g = Inr ((row_payload g)\<lparr>gp_hide := Some (Some (\<not> hidden g)),
     gp_timezone := Some (Option.bind (ug_timezone g) (\<lambda>t. or_none (trim t)))\<rparr>)"

text \<open>What the row shows after the request was accepted.\<close>

fun edit_patch :: "group_edit \<Rightarrow> UserGroup \<Rightarrow> UserGroup" where
  "edit_patch (EditTimezone tz) g = g\<lparr>ug_timezone := or_none (trim tz)\<rparr>"
| "edit_patch (EditCurrency c) g = g\<lparr>ug_currency := or_none (toUpperCase (trim c))\<rparr>"
| "edit_patch (EditSlippage s) g = g\<lparr>ug_slippage := (case parseBps s of Inl m \<Rightarrow> None | Inr n \<Rightarrow> n)\<rparr>"
| "edit_patch ToggleHide g = g\<lparr>ug_hide := Some (\<not> hidden g)\<rparr>"

section \<open>The form\<close>

record group_form =
  gf_name :: string
  gf_description :: string
  gf_status :: string
  gf_margin :: "jsnum option"
  gf_stop :: "jsnum option"
  gf_slug :: string
  gf_hide :: bool
  gf_timezone :: string
  gf_currency :: string
  gf_swap :: bool
  gf_fees :: bool
  gf_slippage :: "int option"

definition or_empty :: "string option \<Rightarrow> string" where
  "or_empty s = (case s of None \<Rightarrow> [] | Some x \<Rightarrow> x)"

definition form_of :: "UserGroup \<Rightarrow> group_form" where
  "form_of g = \<lparr>gf_name = ug_name g, gf_description = or_empty (ug_description g), gf_status = ug_status g,
     gf_margin = ug_margin g, gf_stop = ug_stop g, gf_slug = or_empty (ug_slug g), gf_hide = hidden g,
     gf_timezone = or_empty (ug_timezone g), gf_currency = or_empty (ug_currency g), gf_swap = ug_swap g,
     gf_fees = ug_fees g, gf_slippage = ug_slippage g\<rparr>"

definition level_ok :: "jsnum option \<Rightarrow> bool" where
  "level_ok x \<longleftrightarrow> (case x of None \<Rightarrow> True | Some n \<Rightarrow> jle (Num 0) n \<and> jle n (Num 1000))"

definition groupSchema :: "group_form \<Rightarrow> bool" where
  "groupSchema f \<longleftrightarrow> 2 \<le> length (gf_name f) \<and> length (gf_name f) \<le> 40 \<and> gf_status f \<in> {''active'', ''disabled''} \<and>
     level_ok (gf_margin f) \<and> level_ok (gf_stop f) \<and> length (gf_slug f) \<le> 20 \<and>
     (case gf_slippage f of None \<Rightarrow> True | Some n \<Rightarrow> 0 \<le> n)"

definition form_payload :: "group_form \<Rightarrow> UpdateGroupPayload" where
  "form_payload f = \<lparr>gp_name = gf_name f, gp_description = or_none (gf_description f), gp_status = gf_status f,
     gp_margin = gf_margin f, gp_stop = gf_stop f, gp_slug = Some (or_none (trim (gf_slug f))),
     gp_hide = Some (Some (gf_hide f)), gp_timezone = Some (or_none (trim (gf_timezone f))),
     gp_currency = Some (or_none (trim (gf_currency f))), gp_swap = Some (Some (gf_swap f)),
     gp_fees = Some (Some (gf_fees f)), gp_slippage = Some (gf_slippage f)\<rparr>"

definition listRowPatchFromSavedGroup :: "UserGroup \<Rightarrow> UserGroup \<Rightarrow> UserGroup" where
  "listRowPatchFromSavedGroup g row = row\<lparr>ug_name := ug_name g, ug_description := ug_description g, ug_status := ug_status g,
     ug_margin := ug_margin g, ug_stop := ug_stop g, ug_slug := ug_slug g, ug_hide := ug_hide g,
     ug_timezone := ug_timezone g, ug_currency := ug_currency g, ug_slippage := ug_slippage g\<rparr>"

text \<open>A group on the server and its row; the form is opened with the row and changed by \<open>c\<close>.\<close>

definition save_form :: "(group_form \<Rightarrow> group_form) \<Rightarrow> UserGroup \<times> UserGroup \<Rightarrow> UserGroup \<times> UserGroup" where
  "save_form c gr = (case gr of (g, row) \<Rightarrow> let f = c (form_of row) in
     if \<not> groupSchema f then (g, row)
     else case update_group (form_payload f) g of None \<Rightarrow> (g, row) | Some g' \<Rightarrow> (g', listRowPatchFromSavedGroup g' row))"

definition save_edit :: "group_edit \<Rightarrow> UserGroup \<times> UserGroup \<Rightarrow> UserGroup \<times> UserGroup" where
  "save_edit e gr = (case gr of (g, row) \<Rightarrow> (case edit_payload e row of Inl m \<Rightarrow> (g, row)
     | Inr p \<Rightarrow> (case update_group p g of None \<Rightarrow> (g, row) | Some g' \<Rightarrow> (g', edit_patch e row))))"

section \<open>What is stored\<close>

text \<open>A group the server can have made.\<close>

definition slug_ok :: "string \<Rightarrow> bool" where
  "slug_ok s \<longleftrightarrow> normalize_and_validate_slug s = Some s \<and> trim s \<noteq> []"

definition group_ok :: "UserGroup \<Rightarrow> bool" where
  "group_ok g \<longleftrightarrow> 2 \<le> length (ug_name g) \<and> length (ug_name g) \<le> 40 \<and> (\<forall>s. ug_slug g = Some s \<longrightarrow> slug_ok s \<and> trim s = s) \<and>
     ug_hide g \<noteq> None \<and> (\<forall>t. ug_timezone g = Some t \<longrightarrow> trim t = t \<and> t \<noteq> []) \<and>
     (\<forall>c. ug_currency g = Some c \<longrightarrow> trim c = c \<and> c \<noteq> []) \<and> ug_description g \<noteq> Some [] \<and>
     (\<forall>n. ug_slippage g = Some n \<longrightarrow> 0 \<le> n \<and> i32 n)"



lemma read_simps [simp]:
  "read_option None = None" "read_option (Some None) = None" "read_option (Some (Some v)) = Some v"
  "read_nested None = None" "read_nested (Some None) = None" "read_nested (Some (Some v)) = Some (Some v)"
  by (simp_all add: read_option_def read_nested_def)

lemma update_simps [simp]:
  "text_update None = (False, None)" "trim t \<noteq> [] \<Longrightarrow> text_update (Some (Some t)) = (True, Some (trim t))"
  "\<not> slippage_refused None" "slippage_refused (Some (Some v)) \<longleftrightarrow> \<not> i32 v \<or> v < 0"
  by (simp_all add: text_update_def slippage_refused_def)

lemma or_none_simps [simp]: "or_none [] = None" "s \<noteq> [] \<Longrightarrow> or_none s = Some s"
  by (simp_all add: or_none_def)

lemma slug_same: "group_ok g \<Longrightarrow> slug_update (read_nested (Some (ug_slug g))) = Some (ug_slug g)"
  by (cases "ug_slug g") (auto simp: slug_update_def group_ok_def slug_ok_def)

lemma hide_same: "group_ok g \<Longrightarrow> (case read_option (Some (ug_hide g)) of None \<Rightarrow> ug_hide g | Some b \<Rightarrow> Some b) = ug_hide g"
  by (auto simp: group_ok_def)

lemma upper_empty [simp]: "toUpperCase s = [] \<longleftrightarrow> s = []"
  by (simp add: toUpperCase_def)





definition sample_group :: UserGroup where
  "sample_group = \<lparr>ug_id = ''g1'', ug_name = ''Gold'', ug_description = None, ug_status = ''active'', ug_slug = Some ''gold1'',
     ug_margin = Some (Num 50), ug_stop = None, ug_hide = Some False, ug_timezone = Some ''Asia/Dubai'', ug_currency = None,
     ug_swap = False, ug_fees = False, ug_slippage = Some 20\<rparr>"



section \<open>The form\<close>

lemma form_unchanged:
  assumes "group_ok g" "groupSchema (form_of g)"
  shows "update_group (form_payload (form_of g)) g = Some g"
proof -
  have f: "or_none (or_empty (ug_description g)) = ug_description g" "or_none (trim (or_empty (ug_slug g))) = ug_slug g"
    "or_none (trim (or_empty (ug_timezone g))) = ug_timezone g" "or_none (trim (or_empty (ug_currency g))) = ug_currency g"
    "Some (hidden g) = ug_hide g"
    using assms(1) by (auto simp: group_ok_def or_empty_def or_none_def hidden_def slug_ok_def split: option.splits)
  have t: "(case text_update (read_nested (Some (ug_timezone g))) of (u, t) \<Rightarrow> if u then t else ug_timezone g) = ug_timezone g"
    "(case text_update (read_nested (Some (ug_currency g))) of (u, t) \<Rightarrow> if u then t else ug_currency g) = ug_currency g"
    using assms(1) by (cases "ug_timezone g"; cases "ug_currency g"; simp add: group_ok_def)+
  have s: "\<not> slippage_refused (read_nested (Some (ug_slippage g)))"
    "(case read_nested (Some (ug_slippage g)) of None \<Rightarrow> ug_slippage g | Some s \<Rightarrow> s) = ug_slippage g"
    using assms(1) by (cases "ug_slippage g"; simp add: group_ok_def)+
  have n: "\<not> length (ug_name g) < 2" "\<not> 40 < length (ug_name g)" using assms(1) by (simp_all add: group_ok_def)
  show ?thesis
    using f t s n slug_same [OF assms(1)] hide_same [OF assms(1)]
    by (simp add: update_group_def form_payload_def form_of_def case_prod_beta Let_def)
qed

section \<open>What goes wrong\<close>

text \<open>A time zone that is cleared is shown as cleared and is still there on the server.\<close>

lemma clear_not_stored:
  "save_edit (EditTimezone []) (sample_group, sample_group) = (sample_group, sample_group\<lparr>ug_timezone := None\<rparr>)"
  by code_simp

text \<open>The row does not take over swaps and fees from the answer: the next time the form is saved they are as before.\<close>

lemma swap_reverted:
  "let once = save_form (\<lambda>f. f\<lparr>gf_swap := True\<rparr>) (sample_group, sample_group);
       twice = save_form (\<lambda>f. f\<lparr>gf_name := ''Gold VIP''\<rparr>) once in
   ug_swap (fst once) \<and> \<not> ug_swap (snd once) \<and> ug_name (fst twice) = ''Gold VIP'' \<and> \<not> ug_swap (fst twice)"
  by code_simp

text \<open>The box of the leverage: the callback that patches the row is that of the latest request only.\<close>

record hide_toggles =
  ht_groups :: "UserGroup list"
  ht_rows :: "UserGroup list"
  ht_latest :: nat
  ht_flight :: "(nat \<times> string \<times> bool \<times> UpdateGroupPayload) list"

definition toggle_click :: "string \<Rightarrow> hide_toggles \<Rightarrow> hide_toggles" where
  "toggle_click i t =
     (if list_ex (\<lambda>(k, j, _). k = ht_latest t \<and> j = i) (ht_flight t) then t
      else case find (\<lambda>g. ug_id g = i) (ht_rows t) of None \<Rightarrow> t
      | Some g \<Rightarrow> (case edit_payload ToggleHide g of Inl m \<Rightarrow> t
          | Inr p \<Rightarrow> t\<lparr>ht_latest := Suc (ht_latest t), ht_flight := ht_flight t @ [(Suc (ht_latest t), i, \<not> hidden g, p)]\<rparr>))"

definition toggle_answer :: "nat \<Rightarrow> hide_toggles \<Rightarrow> hide_toggles" where
  "toggle_answer k t = (case find (\<lambda>(j, _). j = k) (ht_flight t) of None \<Rightarrow> t
     | Some (_, i, b, p) \<Rightarrow> t\<lparr>ht_flight := filter (\<lambda>(j, _). j \<noteq> k) (ht_flight t),
         ht_groups := map (\<lambda>g. if ug_id g = i then (case update_group p g of None \<Rightarrow> g | Some g' \<Rightarrow> g') else g) (ht_groups t),
         ht_rows := (if k = ht_latest t then map (\<lambda>g. if ug_id g = i then g\<lparr>ug_hide := Some b\<rparr> else g) (ht_rows t) else ht_rows t)\<rparr>)"

lemma toggled_row_not_patched:
  "let gs = [sample_group, sample_group\<lparr>ug_id := ''g2''\<rparr>];
       t = toggle_answer 2 (toggle_answer 1 (toggle_click ''g2'' (toggle_click ''g1'' \<lparr>ht_groups = gs, ht_rows = gs, ht_latest = 0, ht_flight = []\<rparr>))) in
   map ug_hide (ht_groups t) = [Some True, Some True] \<and> map ug_hide (ht_rows t) = [Some False, Some True]"
  by code_simp

text \<open>The tags of a group: each click sends the whole set, from the row.\<close>

record group_tags =
  gt_stored :: "string list"
  gt_row :: "string list"
  gt_flight :: "string list list"

definition tag_click :: "string \<Rightarrow> group_tags \<Rightarrow> group_tags" where
  "tag_click i t = t\<lparr>gt_flight := gt_flight t @
     [if i \<notin> set (gt_row t) then gt_row t @ [i] else filter (\<lambda>x. x \<noteq> i) (gt_row t)]\<rparr>"

definition tag_answer :: "group_tags \<Rightarrow> group_tags" where
  "tag_answer t = (case gt_flight t of [] \<Rightarrow> t | n # ns \<Rightarrow> t\<lparr>gt_stored := n, gt_row := n, gt_flight := ns\<rparr>)"

lemma tag_lost:
  "gt_stored (tag_answer (tag_answer (tag_click ''t2'' (tag_click ''t1'' \<lparr>gt_stored = [], gt_row = [], gt_flight = []\<rparr>)))) = [''t2'']"
  by code_simp

end
