(* ===== verification/Appointments.thy ===== *)
theory Appointments
  imports Formats Machine
begin

text \<open>
  Appointments: the administrator's page with its dialogs (\<open>AdminAppointmentsPage.tsx\<close>, \<open>modals/\<close>,
  \<open>AdminAppointmentsTable.tsx\<close>), the calendar of a month, and what the server stores and lists
  (\<open>appointment_service.rs\<close>). Instants are milliseconds since 1970. The text of a date input is given by its number of
  days since 1970 and that of a time input by its minute of the day. \<open>loc\<close> is the clock of the browser, as the
  milliseconds of its clock_ms, and \<open>inst\<close> the instant \<open>new Date(y, m, d, h, min)\<close> makes of such fields; \<open>wall\<close> is the clock
  of the zone the dialog writes times in (see \<open>Formats\<close>).
\<close>

section \<open>Appointments and the server\<close>

datatype AppointmentStatus = Scheduled | Confirmed | Completed | Cancelled | Rescheduled

record Appointment =
  ap_id :: string
  ap_user :: "string option"
  ap_user_name :: "string option"
  ap_user_email :: "string option"
  ap_title :: string
  ap_description :: "string option"
  ap_scheduled_at :: int
  ap_duration :: int
  ap_status :: AppointmentStatus
  ap_type :: string
  ap_link :: "string option"
  ap_location :: "string option"
  ap_notes :: "string option"
  ap_reason :: "string option"
  ap_completion :: "string option"




definition reschedule :: "int \<Rightarrow> Appointment \<Rightarrow> Appointment" where
  "reschedule t a = a\<lparr>ap_scheduled_at := t, ap_status := Rescheduled\<rparr>"

definition cancel :: "string \<Rightarrow> Appointment \<Rightarrow> Appointment" where
  "cancel reason a = a\<lparr>ap_status := Cancelled, ap_reason := Some reason\<rparr>"

definition complete :: "string option \<Rightarrow> Appointment \<Rightarrow> Appointment" where
  "complete notes a = a\<lparr>ap_status := Completed, ap_completion := Some (case notes of None \<Rightarrow> [] | Some n \<Rightarrow> n)\<rparr>"

section \<open>Days and minutes\<close>

definition DAY :: int where "DAY = 86400000"

definition MINUTE :: int where "MINUTE = 60000"

definition day_of :: "int \<Rightarrow> int" where
  "day_of t = t div DAY"

definition minute_of :: "int \<Rightarrow> int" where
  "minute_of t = t mod DAY div MINUTE"

definition clock_ms :: "int \<Rightarrow> int \<Rightarrow> int" where
  "clock_ms d m = d * DAY + m * MINUTE"

section \<open>Moving an appointment\<close>

text \<open>The dialog opens with the date of \<open>toISOString\<close> and the hours and minutes of the browser's clock.\<close>

record RescheduleModal =
  rm_date :: int
  rm_time :: int
  rm_reason :: string

definition reschedule_init :: "(int \<Rightarrow> int) \<Rightarrow> Appointment \<Rightarrow> RescheduleModal" where
  "reschedule_init loc a = \<lparr>rm_date = day_of (ap_scheduled_at a), rm_time = minute_of (loc (ap_scheduled_at a)), rm_reason = []\<rparr>"

definition or_undefined :: "string \<Rightarrow> string option" where
  "or_undefined s = (if s = [] then None else Some s)"

definition reschedule_submit :: "(int \<Rightarrow> int) \<Rightarrow> RescheduleModal \<Rightarrow> int \<times> string option" where
  "reschedule_submit inst m = (inst (clock_ms (rm_date m) (rm_time m)), or_undefined (trim (rm_reason m)))"

section \<open>Editing\<close>







definition cancel_submit :: "string \<Rightarrow> string \<Rightarrow> (string \<times> string option) option" where
  "cancel_submit reason details = (if trim reason = [] then None else Some (trim reason, or_undefined (trim details)))"

section \<open>The table\<close>

datatype apt_action = DoRemind | DoEdit | DoReschedule | DoComplete | DoCancel

definition canAct :: "Appointment \<Rightarrow> bool" where
  "canAct a \<longleftrightarrow> ap_status a \<noteq> Cancelled \<and> ap_status a \<noteq> Completed"

text \<open>The buttons of a row; \<open>may\<close> are the permissions.\<close>

definition actions :: "(apt_action \<Rightarrow> bool) \<Rightarrow> Appointment \<Rightarrow> apt_action list" where
  "actions may a = (if \<not> canAct a then [] else filter may
     ([DoRemind] @ (if ap_status a = Scheduled \<or> ap_status a = Rescheduled then [DoEdit] else []) @
      (if ap_status a = Scheduled then [DoReschedule] else []) @
      (if ap_status a = Scheduled \<or> ap_status a = Confirmed then [DoComplete] else []) @ [DoCancel]))"

section \<open>The calendar and the list\<close>

text \<open>What the server lists for a range of dates: a date is its midnight.\<close>

definition in_range :: "int option \<Rightarrow> int option \<Rightarrow> Appointment \<Rightarrow> bool" where
  "in_range s e a \<longleftrightarrow> (case s of None \<Rightarrow> True | Some d \<Rightarrow> d * DAY \<le> ap_scheduled_at a) \<and>
     (case e of None \<Rightarrow> True | Some d \<Rightarrow> ap_scheduled_at a \<le> d * DAY)"

text \<open>The dates asked for, for a month from day \<open>f\<close> to day \<open>l\<close>: midnights of the browser, written in UTC.\<close>

definition month_range :: "(int \<Rightarrow> int) \<Rightarrow> int \<Rightarrow> int \<Rightarrow> int option \<times> int option" where
  "month_range inst f l = (Some (day_of (inst (f * DAY))), Some (day_of (inst (l * DAY))))"

definition calendarAppointments :: "(int \<Rightarrow> int) \<Rightarrow> int \<Rightarrow> int \<Rightarrow> Appointment list \<Rightarrow> Appointment list" where
  "calendarAppointments inst f l = filter (\<lambda>a. inst (f * DAY) \<le> ap_scheduled_at a \<and> ap_scheduled_at a \<le> inst (l * DAY) + 86400000)"

definition getMonthCalendarCells :: "nat \<Rightarrow> nat \<Rightarrow> nat option list" where
  "getMonthCalendarCells startingDayOfWeek daysInMonth =
     replicate startingDayOfWeek None @ map (\<lambda>i. Some (Suc i)) [0..<daysInMonth]"

definition getAppointmentsForDay :: "(int \<Rightarrow> int) \<Rightarrow> int \<Rightarrow> Appointment list \<Rightarrow> Appointment list" where
  "getAppointmentsForDay loc d = filter (\<lambda>a. ap_status a \<noteq> Cancelled \<and> day_of (loc (ap_scheduled_at a)) = d)"

text \<open>The cell of day \<open>d\<close>, from the server's appointments.\<close>

definition cell :: "(int \<Rightarrow> int) \<Rightarrow> (int \<Rightarrow> int) \<Rightarrow> int \<Rightarrow> int \<Rightarrow> int \<Rightarrow> Appointment list \<Rightarrow> Appointment list" where
  "cell loc inst f l d db = getAppointmentsForDay loc d
     (calendarAppointments inst f l (filter (in_range (fst (month_range inst f l)) (snd (month_range inst f l))) db))"

definition userOptions :: "Appointment list \<Rightarrow> (string \<times> string) list" where
  "userOptions as = map (\<lambda>(i, a). (i, case ap_user_name a of Some n \<Rightarrow> n
       | None \<Rightarrow> (case ap_user_email a of Some e \<Rightarrow> e | None \<Rightarrow> ''Unknown'')))
     (rev (fold (\<lambda>a seen. case ap_user a of None \<Rightarrow> seen
        | Some i \<Rightarrow> if i \<in> fst ` set seen then seen else (i, a) # seen) as []))"

text \<open>The filters and the page of the list.\<close>

record apt_list =
  al_page :: nat
  al_size :: nat
  al_search :: string
  al_status :: string
  al_user :: string

datatype list_event = SetSearch string | SetStatus string | SetUser string | SetSize nat | FirstPage | NextPage nat | ClearFilters

definition totalPages :: "apt_list \<Rightarrow> nat \<Rightarrow> nat" where
  "totalPages l results = (if 0 < al_size l then (results + al_size l - 1) div al_size l else 1)"

fun list_do :: "list_event \<Rightarrow> apt_list \<Rightarrow> apt_list" where
  "list_do (SetSearch s) l = l\<lparr>al_search := s\<rparr>"
| "list_do (SetStatus s) l = l\<lparr>al_status := s\<rparr>"
| "list_do (SetUser s) l = l\<lparr>al_user := s\<rparr>"
| "list_do (SetSize n) l = l\<lparr>al_size := n, al_page := 0\<rparr>"
| "list_do FirstPage l = l\<lparr>al_page := 0\<rparr>"
| "list_do (NextPage results) l = l\<lparr>al_page := min (totalPages l results - 1) (al_page l + 1)\<rparr>"
| "list_do ClearFilters l = l\<lparr>al_search := [], al_status := ''all'', al_user := ''all'', al_page := 0\<rparr>"

definition page_of :: "apt_list \<Rightarrow> 'a list \<Rightarrow> 'a list" where
  "page_of l xs = take (al_size l) (drop (al_page l * al_size l) xs)"

text \<open>The dialog that creates an appointment is made once, when it is opened: it keeps the \<open>submitting\<close> of that moment.\<close>

record create_dialog =
  cd_submitting :: "bool option"
  cd_pending :: nat
  cd_sent :: nat

definition open_create :: "create_dialog \<Rightarrow> create_dialog" where
  "open_create c = c\<lparr>cd_submitting := Some (0 < cd_pending c)\<rparr>"

definition press_create :: "create_dialog \<Rightarrow> create_dialog" where
  "press_create c = (if cd_submitting c = Some False then c\<lparr>cd_pending := Suc (cd_pending c), cd_sent := Suc (cd_sent c)\<rparr> else c)"

definition created :: "create_dialog \<Rightarrow> create_dialog" where
  "created c = c\<lparr>cd_submitting := None, cd_pending := cd_pending c - 1\<rparr>"

section \<open>Days and minutes\<close>


lemma minute_bounds: "0 \<le> minute_of t" "minute_of t < 1440"
proof -
  have "0 \<le> t mod DAY" "t mod DAY < DAY" by (simp_all add: DAY_def)
  then show "0 \<le> minute_of t" "minute_of t < 1440" by (simp_all add: minute_of_def MINUTE_def DAY_def)
qed

lemma clock_ms_floor: "clock_ms (day_of t) (minute_of t) = t div MINUTE * MINUTE"
proof -
  have d: "DAY = MINUTE * 1440" by (simp add: DAY_def MINUTE_def)
  have "t mod DAY div MINUTE = t div MINUTE mod 1440"
    unfolding d using zmod_zmult2_eq [of 1440 t MINUTE] by (simp add: MINUTE_def)
  moreover have "t div DAY = t div MINUTE div 1440" unfolding d by (simp add: zdiv_zmult2_eq MINUTE_def)
  ultimately have "clock_ms (day_of t) (minute_of t) = t div MINUTE div 1440 * (1440 * MINUTE) + t div MINUTE mod 1440 * MINUTE"
    by (simp only: clock_ms_def day_of_def minute_of_def) (simp add: d mult.commute)
  also have "\<dots> = (t div MINUTE div 1440 * 1440 + t div MINUTE mod 1440) * MINUTE" by (simp only: distrib_right mult.assoc)
  finally show ?thesis by (simp only: div_mult_mod_eq)
qed

section \<open>Editing and reading again\<close>








definition sample_apt :: Appointment where
  "sample_apt = \<lparr>ap_id = ''a1'', ap_user = Some ''u1'', ap_user_name = Some ''Ann'', ap_user_email = None, ap_title = ''Call'',
     ap_description = Some ''first'', ap_scheduled_at = 79200000, ap_duration = 30, ap_status = Scheduled,
     ap_type = ''consultation'', ap_link = None, ap_location = None, ap_notes = None, ap_reason = None, ap_completion = None\<rparr>"




section \<open>Moving an appointment\<close>

text \<open>Moved to where it is, an appointment goes to another day wherever the browser's date is not that of UTC.\<close>

lemma reschedule_unchanged:
  assumes "\<And>t. loc t = t + k * MINUTE" "\<And>n. inst n = n - k * MINUTE"
  shows "fst (reschedule_submit inst (reschedule_init loc a)) =
    ap_scheduled_at a div MINUTE * MINUTE + (day_of (ap_scheduled_at a) - day_of (loc (ap_scheduled_at a))) * DAY"
proof -
  let ?t = "ap_scheduled_at a"
  have "clock_ms (day_of ?t) (minute_of (loc ?t)) = clock_ms (day_of (loc ?t)) (minute_of (loc ?t)) + (day_of ?t - day_of (loc ?t)) * DAY"
    by (simp add: clock_ms_def algebra_simps)
  moreover have "loc ?t div MINUTE * MINUTE = ?t div MINUTE * MINUTE + k * MINUTE"
    by (simp add: assms(1) MINUTE_def distrib_right)
  ultimately show ?thesis by (simp add: reschedule_submit_def reschedule_init_def assms(2) clock_ms_floor)
qed

lemma reschedule_day_early:
  "fst (reschedule_submit (\<lambda>n. n - 240 * MINUTE) (reschedule_init (\<lambda>t. t + 240 * MINUTE) sample_apt)) = ap_scheduled_at sample_apt - DAY"
  by (simp add: reschedule_submit_def reschedule_init_def sample_apt_def clock_ms_def day_of_def minute_of_def DAY_def MINUTE_def)

text \<open>An appointment that was moved cannot be moved again or completed from the table.\<close>

lemma moved_once:
  "DoReschedule \<notin> set (actions may (reschedule t a))" "DoComplete \<notin> set (actions may (reschedule t a))"
  by (auto simp: actions_def reschedule_def)

text \<open>The server looks at no status: a page that was not refreshed cancels an appointment that is completed.\<close>

lemma completed_is_cancelled: "ap_status (cancel r (complete n a)) = Cancelled" "actions may (complete n a) = []"
  by (simp_all add: cancel_def complete_def actions_def canAct_def)

section \<open>The calendar\<close>

text \<open>On the last day of a month only what is at its very midnight is shown, even where the browser's clock is UTC.\<close>

lemma last_day_missing:
  assumes "a \<in> set (cell loc (\<lambda>n. n) f l l db)"
  shows "ap_scheduled_at a = l * DAY \<or> ap_scheduled_at a < l * DAY"
  using assms by (auto simp: cell_def getAppointmentsForDay_def calendarAppointments_def in_range_def month_range_def day_of_def DAY_def)

text \<open>The other days are complete, where the browser's clock is that of UTC.\<close>

lemma other_days_shown:
  assumes "f \<le> d" "d < l"
  shows "cell (\<lambda>t. t) (\<lambda>n. n) f l d db = getAppointmentsForDay (\<lambda>t. t) d db"
proof -
  have "f * DAY \<le> t" "t \<le> l * DAY" "t \<le> l * DAY + 86400000" if "day_of t = d" for t
  proof -
    have "d * DAY \<le> t" "t < d * DAY + DAY" using that by (auto simp: day_of_def DAY_def)
    moreover have "f * DAY \<le> d * DAY" "d * DAY + DAY \<le> l * DAY" using assms by (simp_all add: DAY_def)
    ultimately show "f * DAY \<le> t" "t \<le> l * DAY" "t \<le> l * DAY + 86400000" by linarith+
  qed
  then show ?thesis
    by (auto simp: cell_def getAppointmentsForDay_def calendarAppointments_def in_range_def month_range_def day_of_def DAY_def
        intro!: filter_cong)
qed

text \<open>Each user is offered once in the filter.\<close>

lemma users_once: "distinct (map fst (userOptions as))"
proof -
  define step :: "Appointment \<Rightarrow> (string \<times> Appointment) list \<Rightarrow> (string \<times> Appointment) list"
    where "step = (\<lambda>a seen. case ap_user a of None \<Rightarrow> seen
      | Some i \<Rightarrow> if i \<in> fst ` set seen then seen else (i, a) # seen)"
  have "distinct (map fst seen) \<Longrightarrow> distinct (map fst (fold step as seen))" for seen
    by (induction as arbitrary: seen) (auto simp: step_def split: option.splits)
  then have "distinct (map fst (rev (fold step as [])))" by (simp add: rev_map [symmetric])
  moreover have "map fst (userOptions as) = map fst (rev (fold step as []))"
    by (simp add: userOptions_def step_def split_def)
  ultimately show ?thesis by simp
qed

text \<open>A filter keeps the page: three results, and none is shown.\<close>

lemma filter_keeps_page:
  "page_of (list_do (SetStatus ''cancelled'') (list_do (NextPage 25) \<lparr>al_page = 0, al_size = 10, al_search = [], al_status = ''all'', al_user = ''all''\<rparr>))
     [1, 2, 3 :: nat] = []"
  by code_simp

text \<open>Pressed twice before the answer, the dialog creates two appointments.\<close>

lemma created_twice:
  "cd_sent (press_create (press_create (open_create \<lparr>cd_submitting = None, cd_pending = 0, cd_sent = 0\<rparr>))) = 2"
  by code_simp

end
