(* ===== verification/Money_Forms.thy ===== *)
theory Money_Forms
  imports Wallet
begin

text \<open>
  The three forms that ask for money: the dialogs of deposits and withdrawals
  (\<open>features/wallet/components/DepositModal.tsx\<close>, \<open>WithdrawModal.tsx\<close>) and the deposit page
  (\<open>features/userPanel/pages/UserDepositPage.tsx\<close>), from what is typed to the request that is sent, on
  top of the flow of @\<open>theory Wallet\<close>. \<open>usd\<close> is what \<open>toLocaleString\<close> writes for a limit of the page.

  A form is driven by events: typing, choosing a method, submitting, cancelling, the answer of the
  server and the balances that arrive meanwhile. Every input is disabled while a request is under
  way, and the button while \<open>isValid\<close> does not hold. Each request is kept with the text
  and the wallet of its moment, which only the theorems read.
\<close>

section \<open>What is typed\<close>

datatype PaymentMethodId = Bank | Card | Crypto | Request

datatype form_kind = DepositDialog | WithdrawDialog | DepositPage

record money_form =
  mf_amount :: string
  mf_note :: string
  mf_amount_error :: "string option"
  mf_note_error :: "string option"
  mf_method :: PaymentMethodId

definition method_limits :: "PaymentMethodId \<Rightarrow> jsnum \<times> jsnum \<times> bool" where
  "method_limits m = (case m of
     Bank \<Rightarrow> (Num 100, Num 10000, True) | Card \<Rightarrow> (Num 50, Num 5000, True)
   | Crypto \<Rightarrow> (Num 25, Num 20000, True) | Request \<Rightarrow> (Num 10, Num 1000000, False))"

text \<open>Only digits and one point are kept; a second point drops the whole change.\<close>

definition handleAmountChange :: "string \<Rightarrow> money_form \<Rightarrow> money_form" where
  "handleAmountChange v f =
     (let cleaned = filter (\<lambda>c. is_digit c \<or> c = CHR ''.'') v in
      if 2 < length (split_char (CHR ''.'') cleaned) then f
      else f\<lparr>mf_amount := cleaned, mf_amount_error := None\<rparr>)"

definition noteChange :: "string \<Rightarrow> money_form \<Rightarrow> money_form" where
  "noteChange v f = f\<lparr>mf_note := v, mf_note_error := None\<rparr>"

definition selectMethod :: "PaymentMethodId \<Rightarrow> money_form \<Rightarrow> money_form" where
  "selectMethod m f = (if snd (snd (method_limits m)) then f else f\<lparr>mf_method := m\<rparr>)"

definition cleared :: "money_form \<Rightarrow> money_form" where
  "cleared f = f\<lparr>mf_amount := [], mf_note := [], mf_amount_error := None, mf_note_error := None\<rparr>"

section \<open>What is accepted\<close>

text \<open>\<open>available ?? balance ?? 0\<close>.\<close>

definition available_of :: "wallet \<Rightarrow> jsnum" where
  "available_of w = (if w_available w \<noteq> JNull then json_number (w_available w)
     else if w_balance w \<noteq> JNull then json_number (w_balance w) else Num 0)"

definition limit_error :: "(jsnum \<Rightarrow> string) \<Rightarrow> form_kind \<Rightarrow> wallet \<Rightarrow> money_form \<Rightarrow> jsnum \<Rightarrow> string option" where
  "limit_error usd k w f n = (case k of
     DepositPage \<Rightarrow>
       (let (lo, hi, _) = method_limits (mf_method f) in
        if jlt n lo then Some (''Minimum amount is '' @ usd lo @ '' USD'')
        else if jlt hi n then Some (''Maximum amount is '' @ usd hi @ '' USD'') else None)
   | _ \<Rightarrow>
       (if jlt n (Num 10) then Some ''Minimum amount is $10''
        else if jlt (Num 1000000) n then Some ''Maximum amount is $1,000,000''
        else if k = WithdrawDialog \<and> jlt (available_of w) n then Some ''Insufficient balance'' else None))"

definition decimals_error :: "string \<Rightarrow> string option" where
  "decimals_error a = (case split_char (CHR ''.'') a of
     _ # d # _ \<Rightarrow> if 2 < length d then Some ''Maximum 2 decimal places allowed'' else None
   | _ \<Rightarrow> None)"

definition amount_error :: "(jsnum \<Rightarrow> string) \<Rightarrow> form_kind \<Rightarrow> wallet \<Rightarrow> money_form \<Rightarrow> string option" where
  "amount_error usd k w f =
     (let a = mf_amount f; n = parseFloat a in
      if trim a = [] then Some ''Amount is required''
      else if isNaN n then Some ''Amount must be a number''
      else case limit_error usd k w f n of Some e \<Rightarrow> Some e | None \<Rightarrow> decimals_error a)"

definition note_error :: "string \<Rightarrow> string option" where
  "note_error v = (if 120 < length v then Some ''Note must be 120 characters or less'' else None)"

definition validate :: "(jsnum \<Rightarrow> string) \<Rightarrow> form_kind \<Rightarrow> wallet \<Rightarrow> money_form \<Rightarrow> money_form \<times> bool" where
  "validate usd k w f =
     (let a = amount_error usd k w f; b = note_error (mf_note f) in
      (f\<lparr>mf_amount_error := a, mf_note_error := b\<rparr>, a = None \<and> b = None))"

text \<open>Whether the button can be pressed.\<close>

definition isValid :: "form_kind \<Rightarrow> wallet \<Rightarrow> money_form \<Rightarrow> bool" where
  "isValid k w f =
     (let n = parseFloat (mf_amount f) in
      mf_amount f \<noteq> [] \<and> mf_amount_error f = None \<and> mf_note_error f = None \<and>
      (case k of
         DepositDialog \<Rightarrow> jle (Num 10) n \<and> jle n (Num 1000000)
       | WithdrawDialog \<Rightarrow>
           (let m = num_or n (Num 0) in jle (Num 10) m \<and> jle m (Num 1000000) \<and> jle m (available_of w))
       | DepositPage \<Rightarrow>
           (let (lo, hi, _) = method_limits (mf_method f) in mf_method f = Request \<and> jle lo n \<and> jle n hi)))"

section \<open>What is sent\<close>

record money_request =
  rq_amount :: jsnum
  rq_note :: "string option"
  rq_typed :: string
  rq_wallet :: wallet

record money_page =
  mp_form :: money_form
  mp_ui :: wallet_ui
  mp_open :: bool
  mp_sent :: "money_request list"

definition nouns :: "form_kind \<Rightarrow> string \<times> string \<times> string" where
  "nouns k = (if k = WithdrawDialog then (''withdraw'', ''Withdrawal'', ''withdrawal'') else (''deposit'', ''Deposit'', ''deposit''))"

text \<open>What follows \<open>await submitDeposit\<close>, whatever became of the request.\<close>

definition after_submit :: "form_kind \<Rightarrow> money_page \<Rightarrow> money_page" where
  "after_submit k p = p\<lparr>mp_form := cleared (mp_form p), mp_open := (k = DepositPage)\<rparr>"

definition request_of :: "money_page \<Rightarrow> money_request" where
  "request_of p =
     (let n = trim (mf_note (mp_form p)) in
      \<lparr>rq_amount = parseFloat (mf_amount (mp_form p)), rq_note = (if n = [] then None else Some n),
       rq_typed = mf_amount (mp_form p), rq_wallet = wallet_of (mp_ui p)\<rparr>)"

text \<open>The submission up to its answer; without a user there is none to wait for.\<close>

definition handleSubmit :: "(jsnum \<Rightarrow> string) \<Rightarrow> form_kind \<Rightarrow> string option \<Rightarrow> money_page \<Rightarrow> money_page" where
  "handleSubmit usd k u p =
     (let (f, ok) = validate usd k (wallet_of (mp_ui p)) (mp_form p); q = p\<lparr>mp_form := f\<rparr> in
      if \<not> ok then q
      else let r = q\<lparr>mp_ui := submit_start (fst (nouns k)) u (mp_ui p)\<rparr> in
           if u = None \<or> u = Some [] then after_submit k r else r\<lparr>mp_sent := mp_sent r @ [request_of p]\<rparr>)"

datatype money_event =
    TypeAmount string
  | TypeNote string
  | SelectMethod PaymentMethodId
  | Press
  | Cancel
  | Answer "(json, string \<times> TimingSummary) sum"
  | Hear listener json
  | Open
  | Close

fun money_do :: "(jsnum \<Rightarrow> string) \<Rightarrow> form_kind \<Rightarrow> string option \<Rightarrow> money_event \<Rightarrow> money_page \<Rightarrow> money_page" where
  "money_do usd k u (TypeAmount v) p =
     (if mp_open p \<and> \<not> isSubmitting (mp_ui p) then p\<lparr>mp_form := handleAmountChange v (mp_form p)\<rparr> else p)"
| "money_do usd k u (TypeNote v) p =
     (if mp_open p \<and> \<not> isSubmitting (mp_ui p) then p\<lparr>mp_form := noteChange v (mp_form p)\<rparr> else p)"
| "money_do usd k u (SelectMethod m) p = (if k = DepositPage then p\<lparr>mp_form := selectMethod m (mp_form p)\<rparr> else p)"
| "money_do usd k u Press p =
     (if mp_open p \<and> \<not> isSubmitting (mp_ui p) \<and> isValid k (wallet_of (mp_ui p)) (mp_form p) then handleSubmit usd k u p else p)"
| "money_do usd k u Cancel p =
     (if mp_open p \<and> k \<noteq> DepositPage \<and> \<not> isSubmitting (mp_ui p) then p\<lparr>mp_form := cleared (mp_form p), mp_open := False\<rparr> else p)"
| "money_do usd k u (Answer res) p =
     (if isSubmitting (mp_ui p)
      then after_submit k (p\<lparr>mp_ui := submit_done (fst (snd (nouns k))) (snd (snd (nouns k))) res (mp_ui p)\<rparr>) else p)"
| "money_do usd k u (Hear l b) p = p\<lparr>mp_ui := hear u b l (mp_ui p)\<rparr>"
| "money_do usd k u Open p = p\<lparr>mp_open := True\<rparr>"
| "money_do usd k u Close p = (if k = DepositPage then p else p\<lparr>mp_open := False\<rparr>)"

definition money_init :: "wallet_ui \<Rightarrow> money_page" where
  "money_init ui = \<lparr>mp_form = \<lparr>mf_amount = [], mf_note = [], mf_amount_error = None, mf_note_error = None, mf_method = Request\<rparr>,
     mp_ui = ui, mp_open = True, mp_sent = []\<rparr>"

definition money_run :: "(jsnum \<Rightarrow> string) \<Rightarrow> form_kind \<Rightarrow> string option \<Rightarrow> money_event list \<Rightarrow> money_page \<Rightarrow> money_page" where
  "money_run usd k u es p = fold (money_do usd k u) es p"

section \<open>Typed amounts\<close>

text \<open>The texts typing can leave: digits, at most one point, digits.\<close>

definition typed_amount :: "string \<Rightarrow> bool" where
  "typed_amount a = (\<exists>i d. all_digits i \<and> all_digits d \<and> (a = i \<and> d = [] \<or> a = i @ ''.'' @ d))"

lemma split_digits: "all_digits i \<Longrightarrow> split_char (CHR ''.'') i = [i]"
  by (rule split_char_none) (auto simp: all_digits_def)

lemma split_typed: "all_digits i \<Longrightarrow> split_char (CHR ''.'') (i @ CHR ''.'' # r) = i # split_char (CHR ''.'') r"
  using split_char_append [of "CHR ''.''" i r] not_is_digit(1) by (metis all_digits_def)

lemma typed_Nil [simp]: "typed_amount []"
  by (simp add: typed_amount_def all_digits_def)

lemma split_char_nonempty: "split_char c s \<noteq> []"
  by (cases s) (auto split: list.splits)

lemma typed_cleaned:
  assumes "\<forall>c \<in> set a. is_digit c \<or> c = CHR ''.''" "length (split_char (CHR ''.'') a) \<le> 2"
  shows "typed_amount a"
proof -
  define i where "i = takeWhile is_digit a"
  define r where "r = dropWhile is_digit a"
  have a: "a = i @ r" "all_digits i" by (auto simp: i_def r_def all_digits_def dest: set_takeWhileD)
  show ?thesis
  proof (cases r)
    case Nil
    then show ?thesis using a by (auto simp: typed_amount_def all_digits_def)
  next
    case (Cons c d)
    then have "\<not> is_digit c" using hd_dropWhile [of is_digit a] by (auto simp: r_def)
    then have c: "c = CHR ''.''" using assms(1) a(1) Cons by auto
    then have "length (split_char (CHR ''.'') d) \<le> 1" using assms(2) a Cons split_typed [of i d] by simp
    moreover have "CHR ''.'' \<in> set d \<Longrightarrow> length (split_char (CHR ''.'') d) > 1"
      by (induction d) (auto simp: split_char_nonempty split: list.splits)
    ultimately have "CHR ''.'' \<notin> set d" by fastforce
    then have "all_digits d" using assms(1) a(1) Cons by (auto simp: all_digits_def)
    then show ?thesis using a Cons c by (auto simp: typed_amount_def)
  qed
qed

lemma typed_parse:
  assumes "all_digits i" "all_digits d" "a = i \<and> d = [] \<or> a = i @ ''.'' @ d"
  shows "parseFloat a = (if i = [] \<and> d = [] then NaN else to_num (of_nat (nat_of_digits (i @ d)) * 10 powi (- int (length d))))"
proof -
  have "parse_decimal a = (if i = [] \<and> d = [] then None else Some (of_nat (nat_of_digits (i @ d)) * 10 powi (- int (length d)), []))"
    using assms by (auto simp: parse_decimal_def Let_def takeWhile_all_digits all_digits_whole)
  moreover have "dropWhile is_space a = a" "split_sign a = (False, a)" "\<not> startsWith a ''Infinity''"
    if ne: "a \<noteq> []"
  proof -
    obtain c r where "a = c # r" "is_digit c \<or> c = CHR ''.''"
      using ne assms by (cases a) (auto simp: all_digits_def Cons_eq_append_conv)
    moreover from this have "c \<noteq> CHR ''-''" "c \<noteq> CHR ''+''" "c \<noteq> CHR ''I''" "\<not> is_space c"
      using not_is_digit digit_not_space by (auto simp: is_space_def)
    ultimately show "dropWhile is_space a = a" "split_sign a = (False, a)" "\<not> startsWith a ''Infinity''"
      by (simp_all add: split_sign_def startsWith_def)
  qed
  ultimately show ?thesis
    using assms by (cases "a = []") (auto simp: parseFloat_def Let_def, simp add: split_sign_def parse_decimal_def Let_def startsWith_def)
qed

text \<open>The cents a text of digits and a point denotes, as a person reads it.\<close>

definition written_cents :: "string \<Rightarrow> nat" where
  "written_cents a = (case split_char (CHR ''.'') a of
     i # d # _ \<Rightarrow> nat_of_digits (i @ take 2 (d @ ''00''))
   | _ \<Rightarrow> nat_of_digits (a @ ''00''))"

lemma nat_of_digits_00: "nat_of_digits (a @ ''00'') = 100 * nat_of_digits a" "nat_of_digits (a @ ''0'') = 10 * nat_of_digits a"
  using nat_of_digits_snoc [of "a @ ''0''" "CHR ''0''"] nat_of_digits_snoc [of a "CHR ''0''"]
  by (simp_all add: digit_val_def)

lemma typed_value:
  assumes "typed_amount a" "decimals_error a = None" "\<not> isNaN (parseFloat a)"
  shows "parseFloat a = to_num (of_nat (written_cents a) / 100)"
proof -
  obtain i d where t: "all_digits i" "all_digits d" "a = i \<and> d = [] \<or> a = i @ ''.'' @ d"
    using assms(1) by (auto simp: typed_amount_def)
  have "length d \<le> 2"
    using assms(2) t by (auto simp: decimals_error_def split_digits split_typed split: if_splits)
  then have "length d = 0 \<or> length d = 1 \<or> length d = 2" by linarith
  then have d: "d = [] \<or> (\<exists>x. d = [x]) \<or> (\<exists>x y. d = [x, y])"
    by (auto simp: length_Suc_conv numeral_2_eq_2)
  have w: "written_cents a = nat_of_digits (i @ take 2 (d @ ''00''))"
    using t by (auto simp: written_cents_def split_digits split_typed)
  have p: "parseFloat a = to_num (of_nat (nat_of_digits (i @ d)) * 10 powi (- int (length d)))"
    using typed_parse [OF t] assms(3) by (auto simp: isNaN_def split: if_splits)
  have "of_nat (nat_of_digits (i @ d)) * 10 powi (- int (length d)) = (of_nat (written_cents a) / 100 :: rat)"
    using d w nat_of_digits_00 [of i] nat_of_digits_00 [of "i @ d"] by (auto simp: power_int_minus)
  then show ?thesis unfolding p by (rule arg_cong)
qed

text \<open>A number of cents is a double between the limits just when it is between them.\<close>

lemma to_num_low: "x \<le> 999 / 100 \<Longrightarrow> 0 \<le> x \<Longrightarrow> jlt (to_num x) (Num 10)"
proof -
  assume x: "x \<le> 999 / 100" "0 \<le> x"
  have e: "fl (1279 / 128) = (1279 / 128)" by (rule fl_dyadic [of _ 7 1279]) simp_all
  then have "is_double (Num (1279 / 128))" by (simp add: dbl_limit_def)
  then have "to_num x = Num (fl x)" by (rule to_num_shrink) (use x in simp)
  moreover have "fl x \<le> 1279 / 128" using fl_mono [of x "1279 / 128"] x e by simp
  ultimately show ?thesis by simp
qed

lemma to_num_high:
  assumes "100000001 / 100 \<le> x" shows "jlt (Num 1000000) (to_num x)"
proof -
  have e: "fl (128000001 / 128) = (128000001 / 128)" by (rule fl_dyadic [of _ 7 128000001]) simp_all
  have "128000001 / 128 \<le> fl x" using fl_mono [of "128000001 / 128" x] assms e by simp
  then show ?thesis using assms by (simp add: to_num_def)
qed

lemma cents_in_limits:
  assumes "\<not> jlt (to_num (of_nat c / 100)) (Num 10)" "\<not> jlt (Num 1000000) (to_num (of_nat c / 100))"
  shows "1000 \<le> c" "c \<le> 100000000"
proof -
  show "1000 \<le> c"
  proof (rule ccontr)
    assume "\<not> 1000 \<le> c"
    then have "(of_nat c :: rat) \<le> of_nat 999" by (intro of_nat_mono) simp
    then show False using to_num_low [of "of_nat c / 100"] assms(1) by simp
  qed
  show "c \<le> 100000000"
  proof (rule ccontr)
    assume "\<not> c \<le> 100000000"
    then have "of_nat 100000001 \<le> (of_nat c :: rat)" by (intro of_nat_mono) simp
    then show False using to_num_high [of "of_nat c / 100"] assms(2) by simp
  qed
qed

section \<open>Requests\<close>

text \<open>What every request promises: the typed cents, within the limits, and for a withdrawal no more than is available.\<close>

definition request_ok :: "form_kind \<Rightarrow> money_request \<Rightarrow> bool" where
  "request_ok k q =
     (typed_amount (rq_typed q) \<and> 1000 \<le> written_cents (rq_typed q) \<and> written_cents (rq_typed q) \<le> 100000000 \<and>
      rq_amount q = to_num (of_nat (written_cents (rq_typed q)) / 100) \<and>
      (k = WithdrawDialog \<longrightarrow> \<not> jlt (available_of (rq_wallet q)) (rq_amount q)) \<and>
      (\<forall>n. rq_note q = Some n \<longrightarrow> n \<noteq> [] \<and> length n \<le> 120))"

definition money_inv :: "form_kind \<Rightarrow> money_page \<Rightarrow> bool" where
  "money_inv k p = (typed_amount (mf_amount (mp_form p)) \<and> mf_method (mp_form p) = Request \<and> list_all (request_ok k) (mp_sent p))"

lemma cleared_form [simp]: "mf_amount (cleared f) = []" "mf_method (cleared f) = mf_method f"
  by (simp_all add: cleared_def)

lemma typed_change: "typed_amount (mf_amount f) \<Longrightarrow> typed_amount (mf_amount (handleAmountChange v f))"
  by (auto simp: handleAmountChange_def Let_def intro!: typed_cleaned)

lemma selectMethod_request: "mf_method f = Request \<Longrightarrow> mf_method (selectMethod m f) = Request"
  by (cases m) (simp_all add: selectMethod_def method_limits_def)

lemma length_trim: "length (trim s) \<le> length s"
  using length_dropWhile_le [of is_space "rev (dropWhile is_space s)"] length_dropWhile_le [of is_space s]
  by (simp add: trim_def)

lemma limits_hold:
  assumes "limit_error usd k w f n = None" "mf_method f = Request"
  shows "\<not> jlt n (Num 10)" "\<not> jlt (Num 1000000) n" "k = WithdrawDialog \<Longrightarrow> \<not> jlt (available_of w) n"
  using assms by (auto simp: limit_error_def method_limits_def split: form_kind.splits if_splits)

lemma validated_request:
  assumes "validate usd k (wallet_of (mp_ui p)) (mp_form p) = (f, True)" "money_inv k p"
  shows "request_ok k (request_of p)"
proof -
  let ?f = "mp_form p"
  have e: "amount_error usd k (wallet_of (mp_ui p)) ?f = None" "note_error (mf_note ?f) = None"
    using assms(1) by (auto simp: validate_def Let_def)
  have t: "typed_amount (mf_amount ?f)" "mf_method ?f = Request" using assms(2) by (auto simp: money_inv_def)
  have l: "limit_error usd k (wallet_of (mp_ui p)) ?f (parseFloat (mf_amount ?f)) = None"
    and d: "decimals_error (mf_amount ?f) = None" "\<not> isNaN (parseFloat (mf_amount ?f))"
    using e(1) by (auto simp: amount_error_def Let_def split: if_splits option.splits)
  have v: "parseFloat (mf_amount ?f) = to_num (of_nat (written_cents (mf_amount ?f)) / 100)"
    using t(1) d by (rule typed_value)
  show ?thesis
    using t(1) limits_hold [OF l t(2)] cents_in_limits [of "written_cents (mf_amount ?f)"] e(2) length_trim [of "mf_note ?f"]
    by (auto simp: request_ok_def request_of_def Let_def note_error_def simp flip: v split: if_splits)
qed

lemma handleSubmit_inv: "money_inv k p \<Longrightarrow> money_inv k (handleSubmit usd k u p)"
  using validated_request [of usd k p]
  by (cases "validate usd k (wallet_of (mp_ui p)) (mp_form p)")
    (auto simp: handleSubmit_def after_submit_def validate_def Let_def money_inv_def)

lemma selectMethod_amount [simp]: "mf_amount (selectMethod m f) = mf_amount f"
  by (simp add: selectMethod_def)

lemma change_method [simp]: "mf_method (handleAmountChange v f) = mf_method f" "mf_method (noteChange v f) = mf_method f"
  "mf_amount (noteChange v f) = mf_amount f"
  by (simp_all add: handleAmountChange_def noteChange_def Let_def)

lemma money_do_inv: "money_inv k p \<Longrightarrow> money_inv k (money_do usd k u e p)"
  by (cases e) (auto simp: handleSubmit_inv, auto simp: money_inv_def typed_change selectMethod_request after_submit_def)

lemma money_run_inv: "money_inv k p \<Longrightarrow> money_inv k (money_run usd k u es p)"
  unfolding money_run_def by (induction es arbitrary: p) (simp_all add: money_do_inv)

lemma money_init_inv: "money_inv k (money_init ui)"
  by (simp add: money_init_def money_inv_def)

text \<open>C18. Whatever is typed and pressed, every request is for the number of cents that was typed, rounded only to the
  nearest double, between 10 and a million; a withdrawal is for no more than the form's available balance at that
  moment, and a note is neither blank nor longer than 120 characters.\<close>

theorem money_requests_exact:
  "q \<in> set (mp_sent (money_run usd k u es (money_init ui))) \<Longrightarrow>
     typed_amount (rq_typed q) \<and> 1000 \<le> written_cents (rq_typed q) \<and> written_cents (rq_typed q) \<le> 100000000 \<and>
     rq_amount q = to_num (of_nat (written_cents (rq_typed q)) / 100) \<and>
     (k = WithdrawDialog \<longrightarrow> \<not> jlt (available_of (rq_wallet q)) (rq_amount q)) \<and>
     (\<forall>n. rq_note q = Some n \<longrightarrow> n \<noteq> [] \<and> length n \<le> 120)"
  using money_run_inv [OF money_init_inv, of k usd u es ui] unfolding money_inv_def list_all_iff request_ok_def by blast

definition sample_typing :: "money_event list" where
  "sample_typing = [TypeAmount ''1a2.50'', TypeNote '' hi '', Press]"

lemma sample_amount: "parseFloat ''12.50'' = Num (25 / 2)"
proof -
  have "to_num (25 / 2) = Num (25 / 2)" by (rule to_num_dyadic [of _ 1 25]) simp_all
  then show ?thesis by (simp add: parse_float_simps power_int_minus)
qed

lemma sample_change: "handleAmountChange ''1a2.50'' f = f\<lparr>mf_amount := ''12.50'', mf_amount_error := None\<rparr>"
  by (simp add: handleAmountChange_def is_digit_def)

lemma sample_valid: "mf_amount f = ''12.50'' \<Longrightarrow> mf_note f = '' hi '' \<Longrightarrow> snd (validate usd DepositDialog w f)"
  by (simp add: validate_def amount_error_def note_error_def limit_error_def decimals_error_def sample_amount isNaN_def
      trim_no_space is_space_def)

lemma sample_sent: "map rq_typed (mp_sent (money_run (\<lambda>_. []) DepositDialog (Some ''u1'') sample_typing (money_init sample_ui))) = [''12.50'']"
proof -
  define f where "f = \<lparr>mf_amount = ''12.50'', mf_note = '' hi '', mf_amount_error = None, mf_note_error = None, mf_method = Request\<rparr>"
  have "snd (validate (\<lambda>_. []) DepositDialog (wallet_of sample_ui) f)" by (rule sample_valid) (simp_all add: f_def)
  then show ?thesis
    by (simp add: money_run_def sample_typing_def money_init_def sample_change noteChange_def isValid_def sample_amount
        jle_def jeq_def sample_ui_def handleSubmit_def request_of_def f_def Let_def split_beta)
qed

lemma money_requests_exact_witness:
  "\<exists>q \<in> set (mp_sent (money_run (\<lambda>_. []) DepositDialog (Some ''u1'') sample_typing (money_init sample_ui))).
     rq_amount q = to_num (of_nat (written_cents ''12.50'') / 100)"
proof -
  obtain q where q: "q \<in> set (mp_sent (money_run (\<lambda>_. []) DepositDialog (Some ''u1'') sample_typing (money_init sample_ui)))"
      "rq_typed q = ''12.50''"
    using sample_sent by (auto simp: map_eq_Cons_conv)
  then show ?thesis using money_requests_exact [OF q(1)] by auto
qed

text \<open>Every amount in the limits with at most two decimals is accepted by the dialog of deposits.\<close>

lemma to_num_within:
  assumes "10 \<le> x" "x \<le> 1000000"
  shows "\<not> jlt (to_num x) (Num 10)" "\<not> jlt (Num 1000000) (to_num x)" "\<not> isNaN (to_num x)"
proof -
  have e: "fl 1000000 = 1000000" "fl 10 = 10" using fl_of_int [of 1000000] fl_of_int [of 10] by simp_all
  have b: "10 \<le> fl x" "fl x \<le> 1000000" using fl_mono [of 10 x] fl_mono [of x 1000000] assms e by simp_all
  then have "\<bar>fl x\<bar> < dbl_limit" by (simp add: dbl_limit_def)
  then show "\<not> jlt (to_num x) (Num 10)" "\<not> jlt (Num 1000000) (to_num x)" "\<not> isNaN (to_num x)"
    using b by (simp_all add: to_num_def isNaN_def)
qed

lemma cents_accepted:
  assumes "typed_amount a" "decimals_error a = None" "\<not> isNaN (parseFloat a)"
    "1000 \<le> written_cents a" "written_cents a \<le> 100000000" "mf_amount f = a"
  shows "amount_error usd DepositDialog w f = None"
proof -
  have v: "parseFloat a = to_num (of_nat (written_cents a) / 100)" using assms(1-3) by (rule typed_value)
  have "(of_nat 1000 :: rat) \<le> of_nat (written_cents a)" "(of_nat (written_cents a) :: rat) \<le> of_nat 100000000"
    using assms(4,5) by (simp_all only: of_nat_le_iff)
  then have l: "\<not> jlt (parseFloat a) (Num 10)" "\<not> jlt (Num 1000000) (parseFloat a)"
    using to_num_within [of "of_nat (written_cents a) / 100"] by (simp_all add: v)
  have "a \<noteq> []" using assms(4) by (auto simp: written_cents_def nat_of_digits_def digit_val_def)
  moreover have "\<not> is_space c" if "c \<in> set a" for c
    using assms(1) that digit_not_space by (auto simp: typed_amount_def all_digits_def is_space_def)
  ultimately have "trim a \<noteq> []" by (simp add: trim_no_space)
  then show ?thesis using assms l by (simp add: amount_error_def limit_error_def Let_def)
qed

text \<open>A request that was refused takes the typed amount and the note with it, and closes the dialog; so does one that was not sent.\<close>

lemma refused_form_lost:
  assumes "isSubmitting (mp_ui p)"
  shows "mf_amount (mp_form (money_do usd k u (Answer (Inl e)) p)) = []" "mf_note (mp_form (money_do usd k u (Answer (Inl e)) p)) = []"
    "mp_open (money_do usd k u (Answer (Inl e)) p) = (k = DepositPage)"
  using assms by (simp_all add: after_submit_def cleared_def)

text \<open>The available balance starts at zero, not missing: a withdrawal is refused while only the balance is known.\<close>

lemma known_balance_unavailable:
  "available_of (setBalance (JNum (Num 500)) wallet_init) = Num 0"
  by code_simp

end
