(* ===== verification/Finance_Desk.thy ===== *)
theory Finance_Desk
  imports Js_Prelude
begin

text \<open>
  The desk where administrators approve and reject transactions:
  \<open>features/adminFinance/components/FinanceTransactionsPanel.tsx\<close>, \<open>modals/ApproveRejectModal.tsx\<close> and
  \<open>modals/TransactionDetailsModal.tsx\<close>, with the handlers of the server that decide
  (\<open>routes/deposits.rs\<close>, \<open>routes/withdrawals.rs\<close>, \<open>routes/finance.rs\<close>, \<open>services/ledger_service.rs\<close>).

  Amounts of the server are decimals, hence rationals. A wallet is known by its user and currency; a
  ledger entry refers to its transaction by the transaction's id. Transactions of other kinds (fees,
  swaps, bonuses, deposits without a request) are other writers of the same tables and left aside, as are
  the permissions of the caller, failures of the database and who decided.
\<close>

section \<open>Server\<close>

record Tx =
  tx_user :: string
  tx_type :: string
  tx_net :: rat
  tx_currency :: string
  tx_status :: string
  tx_reason :: "string option"

type_synonym wallet_key = "string \<times> string"

record ledger_entry =
  le_wallet :: wallet_key
  le_type :: string
  le_delta :: rat
  le_after :: rat
  le_ref :: string

record finance =
  fn_txs :: "(string \<times> Tx) list"
  fn_wallets :: "wallet_key \<Rightarrow> rat option"
  fn_ledger :: "ledger_entry list"

datatype status_code = NOT_FOUND | BAD_REQUEST | INTERNAL_SERVER_ERROR

definition wallet_balance :: "finance \<Rightarrow> wallet_key \<Rightarrow> rat" where
  "wallet_balance s key = (case fn_wallets s key of Some b \<Rightarrow> b | None \<Rightarrow> 0)"

text \<open>Between 10 and a million, with at most two decimals.\<close>

definition amount_ok :: "rat \<Rightarrow> bool" where
  "amount_ok a = (10 \<le> a \<and> a \<le> 1000000 \<and> of_int \<lfloor>100 * a\<rfloor> = 100 * a)"

definition insert_pending :: "string \<Rightarrow> string \<Rightarrow> string \<Rightarrow> rat \<Rightarrow> finance \<Rightarrow> status_code + finance" where
  "insert_pending i user ty a s =
     (if i \<in> fst ` set (fn_txs s) then Inl INTERNAL_SERVER_ERROR
      else Inr (s\<lparr>fn_txs := fn_txs s @ [(i, \<lparr>tx_user = user, tx_type = ty, tx_net = a, tx_currency = ''USD'', tx_status = ''pending'',
        tx_reason = None\<rparr>)]\<rparr>))"

definition create_deposit_request :: "string \<Rightarrow> string \<Rightarrow> rat \<Rightarrow> finance \<Rightarrow> status_code + finance" where
  "create_deposit_request i user a s = (if amount_ok a then insert_pending i user ''deposit'' a s else Inl BAD_REQUEST)"

definition create_withdrawal_request :: "string \<Rightarrow> string \<Rightarrow> rat \<Rightarrow> finance \<Rightarrow> status_code + finance" where
  "create_withdrawal_request i user a s =
     (if \<not> amount_ok a \<or> wallet_balance s (user, ''USD'') < a then Inl BAD_REQUEST
      else insert_pending i user ''withdrawal'' a s)"

definition get_or_create_wallet :: "wallet_key \<Rightarrow> finance \<Rightarrow> finance" where
  "get_or_create_wallet key s = (if fn_wallets s key = None then s\<lparr>fn_wallets := (fn_wallets s)(key \<mapsto> 0)\<rparr> else s)"

text \<open>With \<open>skip_mirror_transaction\<close>, as an approval calls it. The entry carries the balance that is then written over the old one.\<close>

definition create_ledger_entry :: "wallet_key \<Rightarrow> string \<Rightarrow> rat \<Rightarrow> string \<Rightarrow> finance \<Rightarrow> finance" where
  "create_ledger_entry key ty delta ref s =
     (let after = wallet_balance s key + delta in
      s\<lparr>fn_ledger := fn_ledger s @ [\<lparr>le_wallet = key, le_type = ty, le_delta = delta, le_after = after, le_ref = ref\<rparr>],
        fn_wallets := (fn_wallets s)(key \<mapsto> after)\<rparr>)"

definition with_status :: "string \<Rightarrow> string option option \<Rightarrow> Tx \<Rightarrow> Tx" where
  "with_status st reason t = t\<lparr>tx_status := st, tx_reason := (case reason of None \<Rightarrow> tx_reason t | Some r \<Rightarrow> r)\<rparr>"

definition set_status :: "string \<Rightarrow> string \<Rightarrow> string option option \<Rightarrow> finance \<Rightarrow> finance" where
  "set_status i st reason s =
     s\<lparr>fn_txs := map (\<lambda>(j, t). if j = i then (j, with_status st reason t) else (j, t)) (fn_txs s)\<rparr>"

definition signed :: "Tx \<Rightarrow> rat" where
  "signed t = (if tx_type t = ''withdrawal'' then - tx_net t else tx_net t)"

definition key_of :: "Tx \<Rightarrow> wallet_key" where
  "key_of t = (tx_user t, tx_currency t)"

text \<open>The three parts of an approval, between which other requests are served.\<close>

definition approve_check :: "string \<Rightarrow> finance \<Rightarrow> status_code + Tx" where
  "approve_check i s = (case map_of (fn_txs s) i of
     None \<Rightarrow> Inl NOT_FOUND
   | Some t \<Rightarrow>
       if tx_status t \<noteq> ''pending'' then Inl BAD_REQUEST
       else if tx_type t = ''withdrawal'' \<and> wallet_balance s (key_of t) < tx_net t then Inl BAD_REQUEST
       else Inr t)"

definition approve_credit :: "string \<Rightarrow> Tx \<Rightarrow> finance \<Rightarrow> finance" where
  "approve_credit i t s = create_ledger_entry (key_of t) (tx_type t) (signed t) i (get_or_create_wallet (key_of t) s)"

definition approve_complete :: "string \<Rightarrow> finance \<Rightarrow> finance" where
  "approve_complete i s = set_status i ''completed'' None s"

definition approve_transaction :: "string \<Rightarrow> finance \<Rightarrow> status_code + finance" where
  "approve_transaction i s = (case approve_check i s of
     Inl e \<Rightarrow> Inl e | Inr t \<Rightarrow> Inr (approve_complete i (approve_credit i t s)))"

text \<open>The note that comes with a rejection is read and dropped.\<close>

definition reject_transaction :: "string \<Rightarrow> string option \<Rightarrow> string option \<Rightarrow> finance \<Rightarrow> status_code + finance" where
  "reject_transaction i reason note s = (case map_of (fn_txs s) i of
     None \<Rightarrow> Inl NOT_FOUND
   | Some t \<Rightarrow> if tx_status t \<noteq> ''pending'' then Inl BAD_REQUEST else Inr (set_status i ''rejected'' (Some reason) s))"

datatype finance_op =
    NewDeposit string string rat
  | NewWithdrawal string string rat
  | Approve string
  | Reject string "string option" "string option"

fun finance_do :: "finance_op \<Rightarrow> finance \<Rightarrow> status_code + finance" where
  "finance_do (NewDeposit i u a) s = create_deposit_request i u a s"
| "finance_do (NewWithdrawal i u a) s = create_withdrawal_request i u a s"
| "finance_do (Approve i) s = approve_transaction i s"
| "finance_do (Reject i r n) s = reject_transaction i r n s"

definition served :: "finance_op \<Rightarrow> finance \<Rightarrow> finance" where
  "served x s = (case finance_do x s of Inl _ \<Rightarrow> s | Inr t \<Rightarrow> t)"

definition finance_run :: "finance_op list \<Rightarrow> finance \<Rightarrow> finance" where
  "finance_run xs s = fold served xs s"

definition finance_init :: finance where
  "finance_init = \<lparr>fn_txs = [], fn_wallets = (\<lambda>_. None), fn_ledger = []\<rparr>"

section \<open>Pages\<close>

text \<open>A row of the table, and the buttons it has.\<close>

definition decision_buttons :: "bool \<Rightarrow> bool \<Rightarrow> string \<Rightarrow> string list" where
  "decision_buttons canApprove canReject status =
     (if status = ''pending'' then (if canApprove then [''Approve''] else []) @ (if canReject then [''Reject''] else []) else [])"

definition badge :: "string \<Rightarrow> string \<times> string" where
  "badge status =
     (if status = ''approved'' \<or> status = ''completed'' then ''success''
      else if status = ''pending'' then ''warning''
      else if status = ''rejected'' \<or> status = ''failed'' then ''danger'' else ''neutral'',
      if status = ''completed'' then ''approved'' else status)"

definition details_badge :: "string \<Rightarrow> string \<times> string" where
  "details_badge status =
     (if status = ''completed'' then ''success''
      else if status = ''pending'' then ''warning''
      else if status = ''rejected'' \<or> status = ''failed'' then ''danger'' else ''neutral'', status)"

text \<open>The dialog of a decision; what it sends is a request of the server.\<close>

record decision =
  dc_approve :: bool
  dc_reason :: string
  dc_note :: string
  dc_submitting :: bool
  dc_open :: bool
  dc_sent :: "finance_op list"
  dc_toasts :: "string list"

definition decision_open :: "bool \<Rightarrow> decision" where
  "decision_open b = \<lparr>dc_approve = b, dc_reason = [], dc_note = [], dc_submitting = False, dc_open = True, dc_sent = [], dc_toasts = []\<rparr>"

definition handleConfirm :: "string \<Rightarrow> decision \<Rightarrow> decision" where
  "handleConfirm i d =
     (if dc_submitting d \<or> \<not> dc_open d then d
      else if dc_approve d then d\<lparr>dc_submitting := True, dc_sent := dc_sent d @ [Approve i]\<rparr>
      else if dc_reason d = [] then d\<lparr>dc_toasts := dc_toasts d @ [''Please select a rejection reason'']\<rparr>
      else d\<lparr>dc_submitting := True,
        dc_sent := dc_sent d @ [Reject i (Some (dc_reason d)) (if dc_note d = [] then None else Some (dc_note d))]\<rparr>)"

text \<open>\<open>error\<close> is the message of the answer, if it has one.\<close>

definition confirmed :: "string \<Rightarrow> string option option \<Rightarrow> decision \<Rightarrow> decision" where
  "confirmed i error d =
     (let verb = (if dc_approve d then ''approve'' else ''reject'') in case error of
        None \<Rightarrow> d\<lparr>dc_submitting := False, dc_open := False,
          dc_toasts := dc_toasts d @ [if dc_approve d then ''Transaction '' @ i @ '' approved successfully'' else ''Transaction '' @ i @ '' rejected'']\<rparr>
      | Some m \<Rightarrow> d\<lparr>dc_submitting := False,
          dc_toasts := dc_toasts d @ [case m of Some t \<Rightarrow> if t = [] then ''Failed to '' @ verb @ '' transaction'' else t
            | None \<Rightarrow> ''Failed to '' @ verb @ '' transaction'']\<rparr>)"

text \<open>What the table shows of its page until the list is fetched again.\<close>

definition onSuccess :: "string \<Rightarrow> bool \<Rightarrow> (string \<times> string) list \<Rightarrow> (string \<times> string) list" where
  "onSuccess i approved rows = map (\<lambda>(j, st). if j = i then (j, if approved then ''approved'' else ''rejected'') else (j, st)) rows"

text \<open>The list of the server for a choice of the status filter, as ids with their statuses.\<close>

definition list_transactions :: "string \<Rightarrow> finance \<Rightarrow> (string \<times> string) list" where
  "list_transactions status s =
     map (\<lambda>(i, t). (i, tx_status t)) (filter (\<lambda>(i, t). status = ''all'' \<or> tx_status t = status) (fn_txs s))"

section \<open>Books\<close>

text \<open>What the completed transactions say a wallet holds, and the ledger entries of a transaction.\<close>

definition contribution :: "wallet_key \<Rightarrow> Tx \<Rightarrow> rat" where
  "contribution key t = (if tx_status t = ''completed'' \<and> key_of t = key then signed t else 0)"

definition owed :: "finance \<Rightarrow> wallet_key \<Rightarrow> rat" where
  "owed s key = sum_list (map (contribution key \<circ> snd) (fn_txs s))"

definition entries_of :: "finance \<Rightarrow> string \<Rightarrow> ledger_entry list" where
  "entries_of s i = filter (\<lambda>e. le_ref e = i) (fn_ledger s)"




lemma set_status_ids [simp]: "map fst (fn_txs (set_status i st r s)) = map fst (fn_txs s)"
  by (simp add: set_status_def comp_def split_beta if_distrib cong: if_cong)

lemma set_status_find:
  "map_of (fn_txs (set_status i st r s)) j =
     (if j = i then map_option (with_status st r) (map_of (fn_txs s) i)
      else map_of (fn_txs s) j)"
proof -
  have "map_of (map (\<lambda>(j, t). if j = i then (j, f t) else (j, t)) xs) j =
      (if j = i then map_option f (map_of xs i) else map_of xs j)" for f :: "Tx \<Rightarrow> Tx" and xs
    by (induction xs) auto
  then show ?thesis by (simp add: set_status_def)
qed

lemma set_status_rest [simp]: "fn_ledger (set_status i st r s) = fn_ledger s" "wallet_balance (set_status i st r s) = wallet_balance s"
  "entries_of (set_status i st r s) = entries_of s"
  by (simp_all add: set_status_def wallet_balance_def entries_of_def fun_eq_iff)




lemma credit_balance:
  "wallet_balance (approve_credit i t s) key = wallet_balance s key + (if key_of t = key then signed t else 0)"
  by (simp add: approve_credit_def create_ledger_entry_def get_or_create_wallet_def wallet_balance_def Let_def)

lemma credit_rest [simp]: "fn_txs (approve_credit i t s) = fn_txs s" "owed (approve_credit i t s) = owed s"
  by (simp_all add: approve_credit_def create_ledger_entry_def get_or_create_wallet_def owed_def Let_def fun_eq_iff)










section \<open>Overlapping decisions\<close>

text \<open>An approval that is asked for while another one has checked the status but not set it credits the deposit twice.\<close>

lemma overlapping_approvals:
  assumes "approve_check i s = Inr t" "tx_type t = ''deposit''"
  shows "wallet_balance (approve_complete i (approve_complete i (approve_credit i t (approve_credit i t s)))) (key_of t) =
    wallet_balance s (key_of t) + 2 * tx_net t"
  using assms(2) by (simp add: approve_complete_def credit_balance signed_def)

text \<open>A rejection in between is overwritten.\<close>

lemma rejected_while_approving:
  assumes "approve_check i s = Inr t" "reject_transaction i r n (approve_credit i t s) = Inr s'"
  shows "map_option tx_status (map_of (fn_txs (approve_complete i s')) i) = Some ''completed''"
  using assms by (auto simp: approve_complete_def reject_transaction_def set_status_find with_status_def split: option.splits if_splits)

section \<open>Statuses shown\<close>

text \<open>The filter offers ''Approved'', and no transaction has that status: an approval stores another one.\<close>

definition known_statuses :: "finance \<Rightarrow> bool" where
  "known_statuses s = (\<forall>(i, t) \<in> set (fn_txs s). tx_status t \<in> {''pending'', ''completed'', ''rejected''})"

lemma served_statuses: "known_statuses s \<Longrightarrow> known_statuses (served x s)"
  by (cases x) (auto simp: served_def known_statuses_def create_deposit_request_def create_withdrawal_request_def insert_pending_def
      approve_transaction_def approve_complete_def reject_transaction_def set_status_def with_status_def
      split: sum.splits if_splits option.splits)

lemma approved_filter_empty: "list_transactions ''approved'' (finance_run xs finance_init) = []"
proof -
  have "known_statuses s \<Longrightarrow> known_statuses (finance_run xs s)" for s
    unfolding finance_run_def by (induction xs arbitrary: s) (simp_all add: served_statuses)
  moreover have "known_statuses finance_init" by (simp add: known_statuses_def finance_init_def)
  ultimately have "known_statuses (finance_run xs finance_init)" by blast
  then show ?thesis by (auto simp: list_transactions_def known_statuses_def filter_empty_conv)
qed

text \<open>Until the list is fetched again the table shows what it shows afterwards; the dialog of details does not.\<close>

lemma approved_badge: "badge ''approved'' = badge ''completed''" "details_badge ''approved'' \<noteq> details_badge ''completed''"
  by (simp_all add: badge_def details_badge_def)

text \<open>What an administrator writes besides the reason changes nothing.\<close>

lemma rejection_note_dropped: "reject_transaction i r n s = reject_transaction i r None s"
  by (simp add: reject_transaction_def)

text \<open>A decision is sent once until it is answered.\<close>

lemma confirmed_once: "handleConfirm i (handleConfirm i d) = handleConfirm i d \<or> dc_reason d = [] \<and> \<not> dc_approve d"
  by (auto simp: handleConfirm_def)

end
