(* ===== verification/Spec2Isabelle.thy ===== *)
theory Spec2Isabelle
  imports Leverage Position_Calc Pricing_Rules Ws_Client Symbol_Keys Price_Stream Price_Hub Auth_Store Http_Client
    Terminal_Store Orders Admin_Trading Notifications Durations Position_Dock Position_Pnl Wallet Account Order_Ticket Live_Chart
    Formats Ai_Reports Bulk_Ops Metrics_Board Manager_Stats Support_Chat Ai_Chat User_Details Calls Tier_Editor Access Markup_Editor Lead_Files Leads Permission_Profiles Kyc Session_Templates
    Group_Symbols Group_Settings Appointments Money_Forms Finance_Desk
begin

text \<open>
  The web front end of a trading platform: \<open>src/\<close> of the repository, a React application in TypeScript.
  (Paths in this development are relative to \<open>src/src/\<close> of the checkout.) Traders see live prices,
  place orders, watch positions and their account; administrators do the same for their users, set
  prices and leverage, and talk to users. The servers behind it (Rust services, SQL) are the
  environment of the model: what they answer is the argument of an event. Where a page and the server must agree on a
  rule, the rule of the server is translated from its Rust source too (\<open>Tier_Editor\<close>, \<open>Leads\<close>, \<open>Kyc\<close>,
  \<open>Session_Templates\<close>, \<open>Group_Settings\<close>, \<open>Group_Symbols\<close>, \<open>Appointments\<close>, \<open>Finance_Desk\<close>).

  \<^bold>\<open>How the parts work together.\<close> Two sockets bring news. \<open>Ws_Client\<close> is the socket to the gateway: it
  authenticates, queues what must wait, reconnects, and hands each event of the protocol \<open>Ws_Events\<close> to
  its listeners. \<open>Price_Stream\<close> is the socket of prices, and \<open>Price_Hub\<close> spreads its ticks over the hooks
  that screens use. \<open>Http_Client\<close> sends requests under the session of \<open>Auth_Store\<close> and renews its token
  when a request is refused. The stores and screens react to all of these: the terminal's choices
  (\<open>Terminal_Store\<close>), the lists of positions and orders (\<open>Position_Dock\<close>), profits (\<open>Position_Pnl\<close>), the
  account and the margin call (\<open>Account\<close>), the balance (\<open>Wallet\<close>), notifications, charts, chats, reports
  and the screens of administrators. An order goes through \<open>Order_Ticket\<close>, which reads prices from the
  hub, the account from \<open>Account\<close>, sizes from \<open>Position_Calc\<close> and leverage from \<open>Leverage\<close>.

  \<^bold>\<open>The shape of the model.\<close> Pure functions are functions. A component with state is a record, an
  operation or handler a function on it. Where a component waits (a request, a timer, an animation
  frame, a socket) it is cut there: what comes next is an event of its own, so that anything else can
  happen in between. The events and what they do form a machine of theory \<open>Machine\<close> with its reachable
  states, its runs and its invariants; properties of runs hold for every interleaving. Numbers are
  IEEE doubles over the rationals (\<open>Js_Number\<close>), every operation rounding as the machine does; texts
  and their conversions are those of ECMAScript (\<open>Js_Text\<close>). What throws returns a sum or an option.

  \<^bold>\<open>The language.\<close>
  \<^item> \<open>Js_Number\<close>: doubles; the locale \<open>rounding\<close> with what proofs need of them.
  \<^item> \<open>Js_Text\<close>: \<open>String(n)\<close>, \<open>toFixed\<close>, \<open>parseFloat\<close>, \<open>Number(s)\<close>; a price printed reads back.
  \<^item> \<open>Js_Prelude\<close>, \<open>Js_Json\<close>: strings, \<open>Map\<close>, \<open>Set\<close>, storage, values of unknown type.
  \<^item> \<open>Js_Sort\<close>: the stable sort, for comparators that are orders.
  \<^item> \<open>Machine\<close>: machines of events; invariants and stable predicates as locales.

  \<^bold>\<open>Prices, sizes and rules.\<close>
  \<^item> \<open>Leverage\<close> (\<open>shared/api/auth.api.ts\<close>) and \<open>Orders\<close> (\<open>terminal/api/orders.api.ts\<close>): the tier that
    applies to a notional. Two copies of the search, proved equal; the result stays within the limits.
  \<^item> \<open>Position_Calc\<close>: lots, units and profit; monotone, bounded, inverse where they can be.
  \<^item> \<open>Pricing_Rules\<close> (\<open>markup\<close>, \<open>swap\<close>): the previews; markups do not cross bid and ask.
  \<^item> \<open>Symbol_Keys\<close>: the keys of symbols and the sections of the symbol list.
  \<^item> \<open>Formats\<close> (\<open>shared/currency\<close>, \<open>finance\<close>, \<open>datetime\<close>): texts of amounts, prices, sizes, times; the text
    of a price reads back to it up to half of its last digit.
  \<^item> \<open>Durations\<close>: countdowns and ages. \<open>Request_Timing\<close>: phases of a request.

  \<^bold>\<open>Connections and session.\<close>
  \<^item> \<open>Ws_Events\<close>, \<open>Ws_Client\<close> (\<open>shared/ws\<close>): no message of a user is lost between calling and writing it
    to the socket, their order is kept, and timers, queue and listeners stay consistent.
  \<^item> \<open>Price_Stream\<close>, \<open>Price_Hub\<close>: the symbols wanted are the ones subscribed to, over reconnects.
  \<^item> \<open>Auth_Store\<close> (\<open>auth.store.ts\<close>, \<open>jwt.ts\<close>, \<open>permissions.ts\<close>): signing out is final until the next login.
  \<^item> \<open>Http_Client\<close> (\<open>http.ts\<close>): at most one refresh under way, every request is sent at most twice and
    is answered, and the end of a refresh frees all that waited for it.

  \<^bold>\<open>The terminal.\<close>
  \<^item> \<open>Terminal_Store\<close>: preferences come back after a reload; the symbol list shows what the filter lets
    through, sorted.
  \<^item> \<open>Order_Ticket\<close>, \<open>Order_Feedback\<close> (\<open>RightTradingPanel.tsx\<close> and the dialogs and toasts): an order
    that is sent is within the limits and affordable, and one is under way at a time.
  \<^item> \<open>Position_Dock\<close> (\<open>BottomDock.tsx\<close>): what was closed stays hidden while its tombstone is young, a
    failed close comes back, no row is listed twice, an order that was settled stays away.
  \<^item> \<open>Position_Pnl\<close>: the copies of the profit computation agree.
  \<^item> \<open>Account\<close>: zeros after a reconnect do not replace an account that was shown; the margin call tells
    once per episode. \<open>Wallet\<close>: the listeners of the balance agree. \<open>Money_Forms\<close>: a request for
    money is for the cents that were typed.
  \<^item> \<open>Chart_Data\<close>, \<open>Live_Chart\<close> (\<open>binanceKlines.ts\<close>, \<open>ChartPlaceholder.tsx\<close>, the toolbar): bars sorted and
    without repetition, the live candle is the bar of its ticks, the toolbar comes back after a reload.
  \<^item> \<open>Notifications\<close>, \<open>Support_Chat\<close>, \<open>Ai_Chat\<close>, \<open>Ai_Reports\<close>: the unread count counts the unread; a
    chat shows each message once and every message; an answer written in pieces has the text of its
    pieces; merging the server's answer changes no message it should not.

  \<^bold>\<open>Screens of administrators.\<close>
  \<^item> \<open>Admin_Trading\<close>: the store, the events and the buffer of updates, which changes nothing.
  \<^item> \<open>User_Details\<close> (\<open>UserDetailsModal.tsx\<close>): a view of one user; its account equals the user's own.
  \<^item> \<open>Bulk_Ops\<close>: each selected user is served once. \<open>Metrics_Board\<close>: a box shows its own user.
  \<^item> \<open>Manager_Stats\<close>: the figures of a manager and the traders with the best result.

  \<^item> \<open>Calls\<close> (\<open>features/call\<close>, \<open>adminCalls\<close>): the microphone is asked for only in a call that goes on, and a call is
    answered only after the user accepted it.
  \<^item> \<open>Tier_Editor\<close>, \<open>Markup_Editor\<close>: the tiers and markups that are saved are those that apply.
  \<^item> \<open>Access\<close> (the routers and guards): a page is shown to those who may see it, every page that is offered opens,
    and redirects come to an end.
  \<^item> \<open>Lead_Files\<close>, \<open>Leads\<close>: an exported file is imported as it was; what is edited is what is shown again.
  \<^item> \<open>Permission_Profiles\<close>: a profile is sent only grants that exist or that it had.
  \<^item> \<open>Kyc\<close>: an approved submission stays, and page and server agree on what may be submitted.
  \<^item> \<open>Session_Templates\<close> (\<open>features/marketSessions\<close>): the hours of a market; when a template can be saved again, what
    one edit changes, and that the market is open within the slots shown.
  \<^item> \<open>Group_Symbols\<close>, \<open>Group_Settings\<close> (\<open>features/groups\<close>): the settings of a group and of its symbols; what is stored
    is what is shown, but for settings that are cleared and symbols that follow the group's default.
  \<^item> \<open>Appointments\<close>: what is entered in the dialog is shown again; which days the calendar misses.
  \<^item> \<open>Finance_Desk\<close> (\<open>features/adminFinance\<close>): deposits and withdrawals are booked once when decisions are served one
    after the other, and what happens when they overlap.

  \<^bold>\<open>Bounds.\<close> No definition needs fuel: the loops of the sources run over lists or maps. The loops of
  \<open>Js_Text\<close> that look for a shortest text try the at most 17 digits that always suffice for a double.
  Runs of machines are finite lists of events, of any length.

  \<^bold>\<open>Parameters.\<close> What is not code of the repository is an argument: \<open>JSON.parse\<close> and \<open>stringify\<close>,
  base64 and \<open>new URL\<close>, \<open>Intl\<close> and \<open>localeCompare\<close>, clocks, random ids, the chart library, casts of
  values that the sources declare but do not check. Laws about them are premises of the theorems that
  need them, and each such theorem is applied to an instance.

  \<^bold>\<open>Not modelled.\<close>
  \<^item> What the pages look like: layout, styles, themes, columns of tables, icons, toasts, routes.
  \<^item> Forms and tables of administrators that hold fields and pass them on: symbols, swaps, fees,
    bonuses, promotions, settings, integrations, affiliates, funded programs. Their state is one
    field per input; the rules behind them are the server's.
  \<^item> Calls of \<open>axios\<close>-like wrappers that only name a path (\<open>*.api.ts\<close> beyond what is listed above), hooks
    that hand a request to React Query, and React Query itself: an answer is an event here.
  \<^item> \<open>shared/hooks/useWebSocket.ts\<close>, an older client that nothing imports, and the mocks.
  \<^item> The services in Rust but for the rules named above, the SQL and the deployment: other languages, behind the network.
  \<^item> Of modelled files: the picture the chart paints, drag and resize, keyboard shortcuts, and what is
    named in the note of each component of the manifest.
\<close>

end
